(* ===== verification/GoText.thy ===== *)
theory GoText
  imports Prelude
begin

text \<open>
  Byte-level models of the text functions of the Go standard library: \<^verbatim>\<open>strings.TrimSpace\<close>,
  UTF-8 decoding and encoding as done by \<^verbatim>\<open>range\<close> over a string and by
  \<^verbatim>\<open>strings.Builder.WriteRune\<close>, \<^verbatim>\<open>strconv.Quote\<close> (the verb \<^verbatim>\<open>%q\<close>), decimal formatting
  (\<^verbatim>\<open>%d\<close>, \<^verbatim>\<open>%03d\<close>) and \<^verbatim>\<open>path.Clean\<close>. The Unicode character tables are data of the
  library; they are a parameter of type \<open>unicode\<close>, with the laws the proofs need in
  \<open>unicode_ok\<close> and an ASCII instance for concrete evaluation.
\<close>

section \<open>Bytes and runes\<close>

abbreviation byte :: "char \<Rightarrow> nat" where
  "byte c \<equiv> of_char c"

abbreviation unbyte :: "nat \<Rightarrow> char" where
  "unbyte n \<equiv> char_of n"

definition runeError :: nat where
  "runeError = 65533"

definition isCont :: "nat \<Rightarrow> bool" where
  "isCont b \<longleftrightarrow> 128 \<le> b \<and> b \<le> 191"

text \<open>
  \<^verbatim>\<open>utf8.DecodeRune\<close>: the rune and its width; an invalid sequence is \<^verbatim>\<open>RuneError\<close>
  of width 1. The range of the second byte depends on the first one.
\<close>

definition secondOk :: "nat \<Rightarrow> nat \<Rightarrow> bool" where
  "secondOk b0 b1 \<longleftrightarrow>
     (if b0 = 224 then 160 \<le> b1 \<and> b1 \<le> 191
      else if b0 = 237 then 128 \<le> b1 \<and> b1 \<le> 159
      else if b0 = 240 then 144 \<le> b1 \<and> b1 \<le> 191
      else if b0 = 244 then 128 \<le> b1 \<and> b1 \<le> 143
      else isCont b1)"

definition decodeRune :: "nat list \<Rightarrow> nat \<times> nat" where
  "decodeRune bs =
     (case bs of [] \<Rightarrow> (runeError, 1) | b0 # r0 \<Rightarrow>
       if b0 < 128 then (b0, 1)
       else if b0 < 194 \<or> 244 < b0 then (runeError, 1)
       else (case r0 of [] \<Rightarrow> (runeError, 1) | b1 # r1 \<Rightarrow>
         if \<not> secondOk b0 b1 then (runeError, 1)
         else if b0 < 224 then ((b0 - 192) * 64 + (b1 - 128), 2)
         else (case r1 of [] \<Rightarrow> (runeError, 1) | b2 # r2 \<Rightarrow>
           if \<not> isCont b2 then (runeError, 1)
           else if b0 < 240 then ((b0 - 224) * 4096 + (b1 - 128) * 64 + (b2 - 128), 3)
           else (case r2 of [] \<Rightarrow> (runeError, 1) | b3 # r3 \<Rightarrow>
             if \<not> isCont b3 then (runeError, 1)
             else ((b0 - 240) * 262144 + (b1 - 128) * 4096 + (b2 - 128) * 64 + (b3 - 128), 4)))))"

text \<open>\<^verbatim>\<open>for _, r := range s\<close>\<close>

fun runesB :: "nat list \<Rightarrow> nat list" where
  "runesB [] = []"
| "runesB (b # bs) =
     (let (r, w) = decodeRune (b # bs) in r # runesB (drop (w - 1) bs))"

definition runes :: "gostring \<Rightarrow> nat list" where
  "runes s = runesB (map byte s)"

definition validRune :: "nat \<Rightarrow> bool" where
  "validRune r \<longleftrightarrow> r < 55296 \<or> (57343 < r \<and> r \<le> 1114111)"

definition encodeRuneB :: "nat \<Rightarrow> nat list" where
  "encodeRuneB r =
     (if r < 128 then [r]
      else if r < 2048 then [192 + r div 64, 128 + r mod 64]
      else if \<not> validRune r then [239, 191, 189]
      else if r < 65536 then [224 + r div 4096, 128 + r div 64 mod 64, 128 + r mod 64]
      else [240 + r div 262144, 128 + r div 4096 mod 64, 128 + r div 64 mod 64, 128 + r mod 64])"

definition encodeRune :: "nat \<Rightarrow> gostring" where
  "encodeRune r = map unbyte (encodeRuneB r)"

definition encodeRunes :: "nat list \<Rightarrow> gostring" where
  "encodeRunes rs = concat (map encodeRune rs)"

lemma encodeRuneB_bytes: "b \<in> set (encodeRuneB r) \<Longrightarrow> b < 256"
  by (auto simp: encodeRuneB_def validRune_def split: if_splits)

lemma encodeRune_nonempty [simp]: "encodeRune r \<noteq> []"
  by (simp add: encodeRune_def encodeRuneB_def)

lemma map_byte_encodeRune: "map byte (encodeRune r) = encodeRuneB r"
proof -
  have "map (\<lambda>x. byte (unbyte x)) (encodeRuneB r) = map (\<lambda>x. x) (encodeRuneB r)"
    by (rule map_cong) (auto dest: encodeRuneB_bytes)
  then show ?thesis by (simp add: encodeRune_def o_def)
qed

lemma base64_split3:
  fixes r :: nat
  shows "r div 4096 * 4096 + r div 64 mod 64 * 64 + r mod 64 = r"
proof -
  have "r div 4096 = r div 64 div 64" by (simp add: div_mult2_eq [symmetric])
  moreover have "r div 64 div 64 * 64 + r div 64 mod 64 = r div 64" by (rule div_mult_mod_eq)
  moreover have "r div 64 * 64 + r mod 64 = r" by (rule div_mult_mod_eq)
  ultimately show ?thesis by linarith
qed

lemma base64_split4:
  fixes r :: nat
  shows "r div 262144 * 262144 + r div 4096 mod 64 * 4096 + r div 64 mod 64 * 64 + r mod 64 = r"
proof -
  have "r div 262144 = r div 4096 div 64" by (simp add: div_mult2_eq [symmetric])
  moreover have "r div 4096 div 64 * 64 + r div 4096 mod 64 = r div 4096" by (rule div_mult_mod_eq)
  ultimately show ?thesis using base64_split3 [of r] by linarith
qed

lemma decodeRune_3:
  assumes "q < 16" "m \<le> 63" "n \<le> 63" "q = 0 \<Longrightarrow> 32 \<le> m" "q = 13 \<Longrightarrow> m < 32"
  shows "decodeRune ((224 + q) # (128 + m) # (128 + n) # bs) = (q * 4096 + m * 64 + n, 3)"
proof -
  have "secondOk (224 + q) (128 + m)" using assms by (auto simp: secondOk_def isCont_def)
  moreover have "isCont (128 + n)" using assms by (simp add: isCont_def)
  ultimately show ?thesis using assms(1) by (simp add: decodeRune_def)
qed

lemma decodeRune_4:
  assumes "q < 5" "m \<le> 63" "n \<le> 63" "k \<le> 63" "q = 0 \<Longrightarrow> 16 \<le> m" "q = 4 \<Longrightarrow> m < 16"
  shows "decodeRune ((240 + q) # (128 + m) # (128 + n) # (128 + k) # bs) =
    (q * 262144 + m * 4096 + n * 64 + k, 4)"
proof -
  have "secondOk (240 + q) (128 + m)" using assms by (auto simp: secondOk_def isCont_def)
  moreover have "isCont (128 + n)" "isCont (128 + k)" using assms by (simp_all add: isCont_def)
  ultimately show ?thesis using assms(1) by (simp add: decodeRune_def)
qed

lemma decode_encode:
  assumes "validRune r"
  shows "decodeRune (encodeRuneB r @ bs) = (r, length (encodeRuneB r))"
proof -
  consider "r < 128" | "128 \<le> r" "r < 2048" | "2048 \<le> r" "r < 65536" | "65536 \<le> r"
    by linarith
  then show ?thesis
  proof cases
    case 1
    then show ?thesis by (simp add: encodeRuneB_def decodeRune_def)
  next
    case 2
    define q m where "q = r div 64" and "m = r mod 64"
    have "q < 32" "2 \<le> q" "m \<le> 63" "q * 64 + m = r"
      using 2 by (auto simp: q_def m_def)
    with 2 show ?thesis
      by (simp add: encodeRuneB_def decodeRune_def secondOk_def isCont_def
          q_def [symmetric] m_def [symmetric])
  next
    case 3
    define q m n where "q = r div 4096" and "m = r div 64 mod 64" and "n = r mod 64"
    have split: "q * 4096 + m * 64 + n = r"
      unfolding q_def m_def n_def by (rule base64_split3)
    have le: "m \<le> 63" "n \<le> 63" by (auto simp: m_def n_def)
    have "q < 16" using 3 split by linarith
    moreover have "32 \<le> m" if "q = 0" using 3 split le that by linarith
    moreover have "m < 32" if "q = 13"
    proof -
      have "r < 55296 \<or> 57343 < r" using assms by (auto simp: validRune_def)
      then show ?thesis using split le that by (elim disjE) linarith+
    qed
    moreover have "encodeRuneB r = [224 + q, 128 + m, 128 + n]"
      unfolding encodeRuneB_def q_def m_def n_def using 3 assms by simp
    ultimately show ?thesis using decodeRune_3 [of q m n bs] le split by simp
  next
    case 4
    define q m n k where "q = r div 262144" and "m = r div 4096 mod 64"
      and "n = r div 64 mod 64" and "k = r mod 64"
    have split: "q * 262144 + m * 4096 + n * 64 + k = r"
      unfolding q_def m_def n_def k_def by (rule base64_split4)
    have le: "m \<le> 63" "n \<le> 63" "k \<le> 63" by (auto simp: m_def n_def k_def)
    have top: "r \<le> 1114111" using assms 4 by (simp add: validRune_def)
    have "q < 5" using top split by linarith
    moreover have "16 \<le> m" if "q = 0" using 4 split le that by linarith
    moreover have "m < 16" if "q = 4" using top split le that by linarith
    moreover have "encodeRuneB r = [240 + q, 128 + m, 128 + n, 128 + k]"
      unfolding encodeRuneB_def q_def m_def n_def k_def using 4 assms by simp
    ultimately show ?thesis using decodeRune_4 [of q m n k bs] le split by simp
  qed
qed

lemma runes_encode_append:
  assumes "validRune r"
  shows "runes (encodeRune r @ s) = r # runes s"
proof -
  obtain b bs where eb: "encodeRuneB r = b # bs"
    by (cases "encodeRuneB r") (auto simp: encodeRuneB_def split: if_splits)
  with decode_encode [OF assms, of "map byte s"] show ?thesis
    by (simp add: runes_def map_byte_encodeRune Let_def)
qed

lemma runes_Nil [simp]: "runes [] = []"
  by (simp add: runes_def)

lemma runes_encodeRunes:
  "\<forall>r \<in> set rs. validRune r \<Longrightarrow> runes (encodeRunes rs @ s) = rs @ runes s"
  by (induction rs) (auto simp: encodeRunes_def runes_encode_append)

lemma encodeRunes_simps [simp]:
  "encodeRunes [] = []"
  "encodeRunes (r # rs) = encodeRune r @ encodeRunes rs"
  "encodeRunes (rs @ qs) = encodeRunes rs @ encodeRunes qs"
  by (simp_all add: encodeRunes_def)

lemma encodeRunes_eq_Nil [simp]: "encodeRunes rs = [] \<longleftrightarrow> rs = []"
  by (cases rs) auto

lemma encodeRune_ascii: "r < 128 \<Longrightarrow> encodeRune r = [unbyte r]"
  by (simp add: encodeRune_def encodeRuneB_def)

section \<open>Trimming\<close>

text \<open>
  The code points with the Unicode property White Space. \<^verbatim>\<open>TrimSpace\<close> removes their UTF-8
  encodings from both ends; each encoding is a start byte followed by continuation bytes, so
  decoding the last rune of a string and matching a suffix agree.
\<close>

definition spaceRunes :: "nat list" where
  "spaceRunes = [9, 10, 11, 12, 13, 32, 133, 160, 5760, 8192, 8193, 8194, 8195, 8196, 8197, 8198,
     8199, 8200, 8201, 8202, 8232, 8233, 8239, 8287, 12288]"

definition spaceSeqs :: "gostring list" where
  "spaceSeqs = map encodeRune spaceRunes"

fun trimL :: "gostring list \<Rightarrow> gostring \<Rightarrow> gostring" where
  "trimL seqs [] = []"
| "trimL seqs (c # s) =
     (case find (\<lambda>w. hasPrefix (c # s) w) seqs of
        None \<Rightarrow> c # s
      | Some w \<Rightarrow> trimL seqs (drop (length w - 1) s))"

definition trimR :: "gostring list \<Rightarrow> gostring \<Rightarrow> gostring" where
  "trimR seqs s = rev (trimL (map rev seqs) (rev s))"

definition trimSpace :: "gostring \<Rightarrow> gostring" where
  "trimSpace s = trimR spaceSeqs (trimL spaceSeqs s)"

text \<open>\<^verbatim>\<open>strings.Trim(s, "-")\<close> and the like, with a one-byte cutset\<close>

definition trimChar :: "char \<Rightarrow> gostring \<Rightarrow> gostring" where
  "trimChar c s = rev (dropWhile (\<lambda>d. d = c) (rev (dropWhile (\<lambda>d. d = c) s)))"

definition noPre :: "gostring list \<Rightarrow> gostring \<Rightarrow> bool" where
  "noPre seqs s \<longleftrightarrow> s = [] \<or> (\<forall>w \<in> set seqs. \<not> hasPrefix s w)"

lemma trimL_id: "noPre seqs s \<Longrightarrow> trimL seqs s = s"
  by (cases s) (auto simp: noPre_def find_Some_iff split: option.splits)

lemma noPre_trimL: "noPre seqs (trimL seqs s)"
  by (induction seqs s rule: trimL.induct)
     (auto simp: noPre_def find_None_iff split: option.splits)

lemma trimL_suffix: "\<exists>p. s = p @ trimL seqs s"
proof (induction seqs s rule: trimL.induct)
  case (2 seqs c s)
  show ?case
  proof (cases "find (\<lambda>w. hasPrefix (c # s) w) seqs")
    case (Some w)
    with 2 obtain p where p: "drop (length w - 1) s = p @ trimL seqs (drop (length w - 1) s)"
      by blast
    have "c # s = (c # take (length w - 1) s) @ drop (length w - 1) s" by simp
    also have "\<dots> = (c # take (length w - 1) s @ p) @ trimL seqs (drop (length w - 1) s)"
      using p by simp
    finally have "c # s = (c # take (length w - 1) s @ p) @ trimL seqs (c # s)"
      using Some by simp
    then show ?thesis by blast
  qed simp
qed simp

lemma noPre_prefix: "noPre seqs (a @ b) \<Longrightarrow> noPre seqs a"
  unfolding noPre_def hasPrefix_iff by (metis append.assoc append_is_Nil_conv)

lemma trimR_id: "noPre (map rev seqs) (rev s) \<Longrightarrow> trimR seqs s = s"
  by (simp add: trimR_def trimL_id)

lemma trimR_prefix: "\<exists>p. s = trimR seqs s @ p"
proof -
  obtain p where "rev s = p @ trimL (map rev seqs) (rev s)" using trimL_suffix by blast
  then have "rev (rev s) = rev (p @ trimL (map rev seqs) (rev s))" by (rule arg_cong)
  then have "s = trimR seqs s @ rev p" by (simp add: trimR_def)
  then show ?thesis by blast
qed

lemma trimSpace_trimmed:
  "noPre spaceSeqs (trimSpace s)" "noPre (map rev spaceSeqs) (rev (trimSpace s))"
proof -
  obtain p where "trimL spaceSeqs s = trimSpace s @ p"
    using trimR_prefix unfolding trimSpace_def by blast
  then show "noPre spaceSeqs (trimSpace s)"
    using noPre_trimL [of spaceSeqs s] noPre_prefix by metis
  show "noPre (map rev spaceSeqs) (rev (trimSpace s))"
    by (simp add: trimSpace_def trimR_def noPre_trimL)
qed

lemma trimSpace_id:
  "noPre spaceSeqs s \<Longrightarrow> noPre (map rev spaceSeqs) (rev s) \<Longrightarrow> trimSpace s = s"
  by (simp add: trimSpace_def trimL_id trimR_id)

text \<open>Evaluation: a string with visible ASCII ends is its own trim.\<close>

definition tight :: "gostring \<Rightarrow> bool" where
  "tight s \<longleftrightarrow> s \<noteq> [] \<and> (33::nat) \<le> byte (hd s) \<and> (byte (hd s) :: nat) < 128 \<and>
     (33::nat) \<le> byte (last s) \<and> (byte (last s) :: nat) < 128"

lemma spaceSeqs_ends:
  "list_all (\<lambda>w. w \<noteq> [] \<and> ((byte (hd w) :: nat) < 33 \<or> 128 \<le> (byte (hd w) :: nat)) \<and>
     ((byte (last w) :: nat) < 33 \<or> 128 \<le> (byte (last w) :: nat))) spaceSeqs"
  by code_simp

lemma spaceSeqs_ends':
  assumes "w \<in> set spaceSeqs"
  shows "w \<noteq> []" "(byte (hd w) :: nat) < 33 \<or> 128 \<le> (byte (hd w) :: nat)"
    "(byte (last w) :: nat) < 33 \<or> 128 \<le> (byte (last w) :: nat)"
  using spaceSeqs_ends assms by (simp_all add: list_all_iff)

lemma trimSpace_tight: "tight s \<Longrightarrow> trimSpace s = s"
proof (rule trimSpace_id)
  assume t: "tight s"
  have "hd s = hd w" if "hasPrefix s w" "w \<noteq> []" for w
    using that by (cases w; cases s) auto
  then show "noPre spaceSeqs s"
    using t spaceSeqs_ends'(1,2) unfolding noPre_def tight_def by (metis not_le)
  have "last s = last w" if "hasPrefix (rev s) (rev w)" "w \<noteq> []" for w
    using that by (cases w rule: rev_cases; cases s rule: rev_cases) auto
  then show "noPre (map rev spaceSeqs) (rev s)"
    using t spaceSeqs_ends'(1,3) unfolding noPre_def tight_def by (auto simp: not_le) (metis not_le)+
qed

lemma trimSpace_code [code]: "trimSpace s = (if tight s then s else trimR spaceSeqs (trimL spaceSeqs s))"
  by (simp add: trimSpace_tight) (simp add: trimSpace_def)

lemma trimSpace_idem [simp]: "trimSpace (trimSpace s) = trimSpace s"
  by (simp add: trimSpace_id trimSpace_trimmed)

lemma trimSpace_Nil [simp]: "trimSpace [] = []"
  by (simp add: trimSpace_def trimR_def)

lemma trimSpace_sublist: "\<exists>p q. s = p @ trimSpace s @ q"
  unfolding trimSpace_def by (metis trimL_suffix trimR_prefix append.assoc)

lemma set_trimSpace: "set (trimSpace s) \<subseteq> set s"
proof -
  obtain p q where "s = p @ trimSpace s @ q" using trimSpace_sublist by blast
  then have "set s = set (p @ trimSpace s @ q)" by simp
  then show ?thesis by auto
qed

text \<open>A string whose first and last runes are not spaces is left alone.\<close>

lemma spaceRunes_valid: "w \<in> set spaceRunes \<Longrightarrow> validRune w"
  by (auto simp: spaceRunes_def validRune_def)

lemma encodeRune_prefix_eq:
  assumes "validRune r" "validRune w" "hasPrefix (encodeRune r @ s) (encodeRune w)"
  shows "r = w"
proof -
  from assms(3) obtain t where "encodeRune r @ s = encodeRune w @ t" by (auto simp: hasPrefix_iff)
  then have "r # runes s = w # runes t"
    using runes_encode_append assms(1,2) by metis
  then show ?thesis by simp
qed

lemma encodeRuneB_shape:
  assumes "validRune r"
  shows "\<exists>b bs. encodeRuneB r = b # bs \<and> \<not> isCont b \<and> (\<forall>c \<in> set bs. isCont c)"
proof -
  have "r < 2048 \<Longrightarrow> r div 64 < 32" by auto
  moreover have "r < 65536 \<Longrightarrow> r div 4096 < 16" by auto
  moreover have "c mod 64 \<le> 63" for c :: nat by (simp add: less_Suc_eq_le [symmetric])
  ultimately show ?thesis by (auto simp: encodeRuneB_def isCont_def assms)
qed

lemma encodeRune_suffix_eq:
  assumes "validRune r" "validRune w" "hasPrefix (rev (s @ encodeRune r)) (rev (encodeRune w))"
  shows "r = w"
proof -
  obtain b bs where b: "encodeRuneB r = b # bs" "\<not> isCont b" "\<forall>c \<in> set bs. isCont c"
    using encodeRuneB_shape [OF assms(1)] by blast
  obtain d ds where d: "encodeRuneB w = d # ds" "\<not> isCont d" "\<forall>c \<in> set ds. isCont c"
    using encodeRuneB_shape [OF assms(2)] by blast
  from assms(3) obtain t where "rev (s @ encodeRune r) = rev (encodeRune w) @ t"
    by (auto simp: hasPrefix_iff)
  then have "rev (rev (s @ encodeRune r)) = rev (rev (encodeRune w) @ t)" by simp
  then have "s @ encodeRune r = rev t @ encodeRune w" by simp
  then have "map byte s @ b # bs = map byte (rev t) @ d # ds"
    using b(1) d(1) by (metis map_append map_byte_encodeRune)
  moreover have "takeWhile isCont (rev (x @ c # cs)) = rev cs"
    if "\<not> isCont c" "\<forall>c \<in> set cs. isCont c" for x c cs
    using that by (simp add: takeWhile_append)
  ultimately have "bs = ds" using b d by (metis rev_rev_ident)
  with \<open>map byte s @ b # bs = map byte (rev t) @ d # ds\<close> have "b = d" by simp
  with \<open>bs = ds\<close> b d have "encodeRuneB r = encodeRuneB w" by simp
  then show ?thesis
    using decode_encode [OF assms(1), of "[]"] decode_encode [OF assms(2), of "[]"] by simp
qed

lemma trimSpace_encodeRunes:
  assumes "rs \<noteq> []" "\<forall>r \<in> set rs. validRune r"
    and "hd rs \<notin> set spaceRunes" "last rs \<notin> set spaceRunes"
  shows "trimSpace (encodeRunes rs) = encodeRunes rs"
proof (rule trimSpace_id)
  obtain a as where a: "rs = a # as" using assms(1) by (cases rs) auto
  show "noPre spaceSeqs (encodeRunes rs)"
    using a assms encodeRune_prefix_eq spaceRunes_valid
    by (fastforce simp: noPre_def spaceSeqs_def)
  obtain z zs where z: "rs = zs @ [z]" using assms(1) by (metis append_butlast_last_id)
  have "\<not> hasPrefix (rev (encodeRunes zs @ encodeRune z)) (rev (encodeRune w))"
    if "w \<in> set spaceRunes" for w
    using encodeRune_suffix_eq [of z w "encodeRunes zs"] spaceRunes_valid that z assms by auto
  then show "noPre (map rev spaceSeqs) (rev (encodeRunes rs))"
    by (auto simp: noPre_def spaceSeqs_def z)
qed

section \<open>Numbers\<close>

fun digitsOf :: "nat \<Rightarrow> gostring" where
  "digitsOf n = (if n < 10 then [unbyte (48 + n)] else digitsOf (n div 10) @ [unbyte (48 + n mod 10)])"

declare digitsOf.simps [simp del]

text \<open>\<^verbatim>\<open>%d\<close> on a non-negative value, \<^verbatim>\<open>%03d\<close>, and \<^verbatim>\<open>%d\<close> on any integer.\<close>

definition showNat :: "nat \<Rightarrow> gostring" where
  "showNat n = digitsOf n"

definition show03 :: "nat \<Rightarrow> gostring" where
  "show03 n = (let d = digitsOf n in replicate (3 - length d) CHR ''0'' @ d)"

definition showInt :: "int \<Rightarrow> gostring" where
  "showInt i = (if i < 0 then ''-'' @ digitsOf (nat (- i)) else digitsOf (nat i))"

lemma digitsOf_nonempty [simp]: "digitsOf n \<noteq> []"
  by (subst digitsOf.simps) simp

lemma digitsOf_digits: "c \<in> set (digitsOf n) \<Longrightarrow> 48 \<le> byte c \<and> byte c \<le> (57::nat)"
proof (induction n rule: digitsOf.induct)
  case (1 n)
  have "byte (unbyte (48 + m)) = 48 + m" if "m < 10" for m :: nat
    using that by simp
  then have u: "48 \<le> byte (unbyte (48 + m)) \<and> byte (unbyte (48 + m)) \<le> (57::nat)" if "m < 10" for m :: nat
    using that by simp
  show ?case
  proof (cases "n < 10")
    case True
    with 1 u [of n] show ?thesis by (simp add: digitsOf.simps [of n])
  next
    case False
    with 1 u [of "n mod 10"] show ?thesis by (auto simp: digitsOf.simps [of n])
  qed
qed

text \<open>Decimal notation is injective: reading the digits back gives the number.\<close>

definition readNat :: "gostring \<Rightarrow> nat" where
  "readNat s = foldl (\<lambda>a c. a * 10 + (byte c - 48)) 0 s"

lemma readNat_digitsOf: "readNat (digitsOf n) = n"
proof (induction n rule: digitsOf.induct)
  case (1 n)
  have d: "byte (unbyte (48 + m)) = 48 + m" if "m < 10" for m :: nat
    using that by simp
  show ?case
  proof (cases "n < 10")
    case True
    then show ?thesis using d [of n] by (simp add: readNat_def digitsOf.simps [of n])
  next
    case False
    with 1 show ?thesis using d [of "n mod 10"]
      by (simp add: readNat_def digitsOf.simps [of n])
  qed
qed

lemma readNat_zeros: "readNat (replicate k CHR ''0'' @ s) = readNat s"
  by (induction k) (simp_all add: readNat_def)

lemma showNat_inject [simp]: "showNat m = showNat n \<longleftrightarrow> m = n"
  by (metis readNat_digitsOf showNat_def)

lemma show03_inject [simp]: "show03 m = show03 n \<longleftrightarrow> m = n"
  by (metis readNat_digitsOf readNat_zeros show03_def)

section \<open>Unicode tables and quoting\<close>

text \<open>
  The functions of package \<^verbatim>\<open>unicode\<close> the source calls, on runes. \<open>unicode_ok\<close> states
  what the proofs use of the published tables: upper-casing keeps letters and digits in their
  class, is idempotent and yields encodable runes, and white space and the separator
  \<^verbatim>\<open>-\<close> are neither letters nor digits.
\<close>

record unicode =
  isLetter :: "nat \<Rightarrow> bool"
  isDigit :: "nat \<Rightarrow> bool"
  toUpper :: "nat \<Rightarrow> nat"
  isPrint :: "nat \<Rightarrow> bool"

definition alnum :: "unicode \<Rightarrow> nat \<Rightarrow> bool" where
  "alnum u r \<longleftrightarrow> isLetter u r \<or> isDigit u r"

definition unicode_ok :: "unicode \<Rightarrow> bool" where
  "unicode_ok u \<longleftrightarrow>
     (\<forall>r. alnum u r \<longrightarrow> alnum u (toUpper u r) \<and> toUpper u (toUpper u r) = toUpper u r
        \<and> validRune (toUpper u r)) \<and>
     (\<forall>r \<in> set spaceRunes. \<not> alnum u r) \<and> \<not> alnum u 45"

definition ascii_unicode :: unicode where
  "ascii_unicode =
     \<lparr>isLetter = (\<lambda>r. (65 \<le> r \<and> r \<le> 90) \<or> (97 \<le> r \<and> r \<le> 122)),
      isDigit = (\<lambda>r. 48 \<le> r \<and> r \<le> 57),
      toUpper = (\<lambda>r. if 97 \<le> r \<and> r \<le> 122 then r - 32 else r),
      isPrint = (\<lambda>r. 32 \<le> r \<and> r \<le> 126)\<rparr>"

lemma ascii_unicode_ok: "unicode_ok ascii_unicode"
  by (auto simp: unicode_ok_def alnum_def ascii_unicode_def spaceRunes_def validRune_def)

definition hexDigit :: "nat \<Rightarrow> char" where
  "hexDigit n = (if n < 10 then unbyte (48 + n) else unbyte (87 + n))"

fun hexPad :: "nat \<Rightarrow> nat \<Rightarrow> gostring" where
  "hexPad 0 n = []"
| "hexPad (Suc k) n = hexPad k (n div 16) @ [hexDigit (n mod 16)]"

text \<open>\<^verbatim>\<open>strconv.Quote\<close>, one rune at a time; an undecodable byte is written \<^verbatim>\<open>\xNN\<close>.\<close>

definition quoteRune :: "unicode \<Rightarrow> nat \<Rightarrow> gostring" where
  "quoteRune u r =
     (if r = 34 \<or> r = 92 then [CHR 0x5C, unbyte r]
      else if isPrint u r then encodeRune r
      else if r = 7 then [CHR 0x5C, CHR ''a''] else if r = 8 then [CHR 0x5C, CHR ''b'']
      else if r = 12 then [CHR 0x5C, CHR ''f''] else if r = 10 then [CHR 0x5C, CHR ''n'']
      else if r = 13 then [CHR 0x5C, CHR ''r''] else if r = 9 then [CHR 0x5C, CHR ''t'']
      else if r = 11 then [CHR 0x5C, CHR ''v'']
      else if r < 32 \<or> r = 127 then [CHR 0x5C, CHR ''x''] @ hexPad 2 r
      else if r < 65536 then [CHR 0x5C, CHR ''u''] @ hexPad 4 r
      else [CHR 0x5C, CHR ''U''] @ hexPad 8 r)"

fun quoteB :: "unicode \<Rightarrow> nat list \<Rightarrow> gostring" where
  "quoteB u [] = []"
| "quoteB u (b # bs) =
     (let (r, w) = decodeRune (b # bs) in
      (if w = 1 \<and> r = runeError then [CHR 0x5C, CHR ''x''] @ hexPad 2 b else quoteRune u r)
      @ quoteB u (drop (w - 1) bs))"

definition goQuote :: "unicode \<Rightarrow> gostring \<Rightarrow> gostring" where
  "goQuote u s = [CHR 0x22] @ quoteB u (map byte s) @ [CHR 0x22]"

section \<open>Lower case\<close>

text \<open>
  \<^verbatim>\<open>strings.ToLower\<close> as far as ASCII results go: ASCII letters, and the two other letters
  whose lower case is ASCII (the dotted capital I and the Kelvin sign). Other letters are left
  alone, which does not change a comparison with an ASCII literal.
\<close>

definition lowerRune :: "nat \<Rightarrow> nat" where
  "lowerRune r = (if 65 \<le> r \<and> r \<le> 90 then r + 32 else if r = 304 then 105 else if r = 8490 then 107 else r)"

definition goLower :: "gostring \<Rightarrow> gostring" where
  "goLower s = encodeRunes (map lowerRune (runes s))"

end
