(* ===== verification/GoPath.thy ===== *)
theory GoPath
  imports GoText
begin

text \<open>
  Lexical path functions of the packages \<^verbatim>\<open>path\<close> and \<^verbatim>\<open>path/filepath\<close> on a Unix host
  (separator \<^verbatim>\<open>/\<close>, no volume names): \<^verbatim>\<open>Clean\<close> and \<^verbatim>\<open>IsAbs\<close>, with the canonical-form
  lemmas of \<^verbatim>\<open>Clean\<close>.
\<close>

abbreviation slash :: char where
  "slash \<equiv> CHR ''/''"

section \<open>Clean\<close>

text \<open>
  \<open>cleanStep\<close> handles one path element; the output elements are kept in reverse. A
  \<^verbatim>\<open>..\<close> removes the last output element unless there is none or it is itself a
  \<^verbatim>\<open>..\<close>; at the root it disappears.
\<close>

fun cleanStep :: "bool \<Rightarrow> gostring list \<Rightarrow> gostring \<Rightarrow> gostring list" where
  "cleanStep rooted out e =
     (if e = '''' \<or> e = ''.'' then out
      else if e = ''..'' then
        (case out of
           o1 # os \<Rightarrow> if o1 = ''..'' then ''..'' # out else os
         | [] \<Rightarrow> if rooted then [] else [''..''])
      else e # out)"

definition cleanElems :: "bool \<Rightarrow> gostring list \<Rightarrow> gostring list" where
  "cleanElems rooted es = rev (foldl (cleanStep rooted) [] es)"

definition isAbs :: "gostring \<Rightarrow> bool" where
  "isAbs p \<longleftrightarrow> (case p of c # _ \<Rightarrow> c = slash | [] \<Rightarrow> False)"

definition renderPath :: "bool \<Rightarrow> gostring list \<Rightarrow> gostring" where
  "renderPath rooted es =
     (if rooted then slash # joinWith [slash] es
      else if es = [] then ''.'' else joinWith [slash] es)"

definition goClean :: "gostring \<Rightarrow> gostring" where
  "goClean p = renderPath (isAbs p) (cleanElems (isAbs p) (splitOn slash p))"

definition plainElem :: "gostring \<Rightarrow> bool" where
  "plainElem e \<longleftrightarrow> e \<noteq> '''' \<and> e \<noteq> ''.'' \<and> e \<noteq> ''..'' \<and> slash \<notin> set e"

text \<open>Canonical element lists: some \<^verbatim>\<open>..\<close> first (none under a root), then plain names.\<close>

definition canonElems :: "bool \<Rightarrow> gostring list \<Rightarrow> bool" where
  "canonElems rooted es \<longleftrightarrow>
     (\<exists>k ns. es = replicate k ''..'' @ ns \<and> (\<forall>n \<in> set ns. plainElem n) \<and> (rooted \<longrightarrow> k = 0))"

lemma canon_step:
  assumes "canonElems rooted (rev out)" "slash \<notin> set e"
  shows "canonElems rooted (rev (cleanStep rooted out e))"
proof -
  from assms(1) obtain k ns where o: "rev out = replicate k ''..'' @ ns"
    and ns: "\<forall>n \<in> set ns. plainElem n" and r: "rooted \<longrightarrow> k = 0"
    by (auto simp: canonElems_def)
  from o have out: "out = rev ns @ replicate k ''..''"
    by (metis rev_append rev_replicate rev_rev_ident)
  consider "e = '''' \<or> e = ''.''" | "e = ''..''" | "plainElem e"
    using assms(2) by (auto simp: plainElem_def)
  then show ?thesis
  proof cases
    case 1
    then show ?thesis using assms(1) by auto
  next
    case 2
    show ?thesis
    proof (cases "rev ns")
      case Nil
      then have "rev (cleanStep rooted out e) = replicate (if rooted then k else Suc k) ''..''"
        using 2 r out by (cases k) (auto simp: replicate_append_same)
      then show ?thesis using r unfolding canonElems_def
        by (intro exI [of _ "if rooted then k else Suc k"] exI [of _ "[]"]) (simp del: cleanStep.simps)
    next
      case (Cons m ms)
      then have "ns = rev ms @ [m]" by (simp add: rev_swap)
      then have "m \<noteq> ''..''" using ns by (auto simp: plainElem_def)
      then have "rev (cleanStep rooted out e) = replicate k ''..'' @ rev ms"
        using 2 out Cons by simp
      moreover have "\<forall>n \<in> set (rev ms). plainElem n" using ns \<open>ns = rev ms @ [m]\<close> by simp
      ultimately show ?thesis using r unfolding canonElems_def by blast
    qed
  next
    case 3
    then have "rev (cleanStep rooted out e) = replicate k ''..'' @ (ns @ [e])"
      using o by (simp add: plainElem_def)
    moreover have "\<forall>n \<in> set (ns @ [e]). plainElem n" using ns 3 by simp
    ultimately show ?thesis using r unfolding canonElems_def by blast
  qed
qed

lemma canon_foldl:
  "canonElems rooted (rev out) \<Longrightarrow> \<forall>e \<in> set es. slash \<notin> set e \<Longrightarrow>
    canonElems rooted (rev (foldl (cleanStep rooted) out es))"
  by (induction es arbitrary: out) (simp_all add: canon_step del: cleanStep.simps)

lemma canonElems_Nil [simp]: "canonElems rooted []"
  by (simp add: canonElems_def)

lemma canon_cleanElems:
  "\<forall>e \<in> set es. slash \<notin> set e \<Longrightarrow> canonElems rooted (cleanElems rooted es)"
  unfolding cleanElems_def by (rule canon_foldl) auto

lemma foldl_plain:
  "\<forall>n \<in> set ns. plainElem n \<Longrightarrow> foldl (cleanStep rooted) out ns = rev ns @ out"
  by (induction ns arbitrary: out) (auto simp: plainElem_def)

lemma foldl_dotdots:
  "foldl (cleanStep False) (replicate j ''..'') (replicate k ''..'') = replicate (j + k) ''..''"
proof (induction k arbitrary: j)
  case (Suc k)
  have "cleanStep False (replicate j ''..'') ''..'' = replicate (Suc j) ''..''"
    by (cases j) auto
  then show ?case using Suc.IH [of "Suc j"] by (simp del: cleanStep.simps)
qed simp

lemma cleanElems_canon: "canonElems rooted es \<Longrightarrow> cleanElems rooted es = es"
proof -
  assume "canonElems rooted es"
  then obtain k ns where es: "es = replicate k ''..'' @ ns" "\<forall>n \<in> set ns. plainElem n"
    and r: "rooted \<longrightarrow> k = 0" by (auto simp: canonElems_def)
  have "foldl (cleanStep rooted) [] (replicate k ''..'') = replicate k ''..''"
    using foldl_dotdots [of 0 k] r by (cases rooted) auto
  then show ?thesis using es by (simp add: cleanElems_def foldl_plain)
qed

lemma canon_elem:
  assumes "canonElems rooted es" "e \<in> set es"
  shows "e \<noteq> '''' \<and> e \<noteq> ''.'' \<and> slash \<notin> set e"
proof -
  from assms(1) obtain k ns where es: "es = replicate k ''..'' @ ns" "\<forall>n \<in> set ns. plainElem n"
    unfolding canonElems_def by blast
  with assms(2) have "e = ''..'' \<or> plainElem e"
    by (simp add: set_replicate_conv_if split: if_splits) blast+
  then show ?thesis by (elim disjE) (simp_all add: plainElem_def)
qed

lemma joinWith_Cons_nonempty: "x \<noteq> [] \<Longrightarrow> joinWith sep (x # xs) \<noteq> [] \<and> hd (joinWith sep (x # xs)) = hd x"
  by (cases xs) auto

lemma joinWith_Cons_Cons: "joinWith sep ((c # cs) # xs) = c # joinWith sep (cs # xs)"
  by (cases xs) auto

lemma renderPath_elems:
  assumes "canonElems rooted es"
  shows "isAbs (renderPath rooted es) = rooted"
    and "cleanElems rooted (splitOn slash (renderPath rooted es)) = es"
proof -
  have ns: "\<forall>e \<in> set es. slash \<notin> set e" using canon_elem [OF assms] by blast
  show abs: "isAbs (renderPath rooted es) = rooted"
  proof (cases es)
    case (Cons e es')
    then have "e \<noteq> []" "slash \<notin> set e" using canon_elem [OF assms, of e] by auto
    then have "hd e \<noteq> slash" by (cases e) auto
    then have "isAbs (joinWith [slash] es) = False"
      using Cons \<open>e \<noteq> []\<close> by (cases e) (auto simp: isAbs_def joinWith_Cons_Cons)
    with Cons show ?thesis by (cases rooted) (simp_all add: renderPath_def isAbs_def)
  qed (simp add: renderPath_def isAbs_def)
  have skip: "cleanElems rooted ([] # es) = cleanElems rooted es" by (simp add: cleanElems_def)
  show "cleanElems rooted (splitOn slash (renderPath rooted es)) = es"
  proof (cases "es = []")
    case True
    then show ?thesis by (cases rooted) (simp_all add: renderPath_def cleanElems_def)
  next
    case False
    then have "splitOn slash (joinWith [slash] es) = es" using splitOn_join ns by blast
    with False show ?thesis
      using skip cleanElems_canon [OF assms] by (cases rooted) (simp_all add: renderPath_def)
  qed
qed

lemma goClean_canon: "\<exists>es. canonElems (isAbs p) es \<and> goClean p = renderPath (isAbs p) es"
  using canon_cleanElems splitOn_no_sep goClean_def by blast

lemma goClean_idem [simp]: "goClean (goClean p) = goClean p"
proof -
  obtain es where es: "canonElems (isAbs p) es" "goClean p = renderPath (isAbs p) es"
    using goClean_canon by blast
  have "goClean (renderPath (isAbs p) es) = renderPath (isAbs p) es"
    by (simp only: goClean_def [of "renderPath (isAbs p) es"] renderPath_elems [OF es(1)])
  then show ?thesis by (simp only: es(2))
qed

lemma goClean_nonempty [simp]: "goClean p \<noteq> []"
proof -
  obtain es where es: "canonElems (isAbs p) es" "goClean p = renderPath (isAbs p) es"
    using goClean_canon by blast
  then show ?thesis
    using joinWith_Cons_nonempty canon_elem [OF es(1)]
    by (cases es) (auto simp: renderPath_def)
qed

text \<open>A cleaned path never starts with \<^verbatim>\<open>./\<close>.\<close>

lemma goClean_no_dot_slash: "\<not> hasPrefix (goClean p) ''./''"
proof
  assume a: "hasPrefix (goClean p) ''./''"
  obtain es where es: "canonElems (isAbs p) es" "goClean p = renderPath (isAbs p) es"
    using goClean_canon by blast
  obtain r where r: "goClean p = CHR ''.'' # slash # r" using a by (auto simp: hasPrefix_iff)
  then have na: "\<not> isAbs p" using renderPath_elems(1) [OF es(1)] es(2) by (auto simp: isAbs_def)
  then have "es \<noteq> []" using es r by (auto simp: renderPath_def)
  then have "splitOn slash (goClean p) = es"
    using es na splitOn_join canon_elem [OF es(1)] by (simp add: renderPath_def)
  moreover have "hd (splitOn slash (goClean p)) = ''.''" using r by simp
  ultimately show False using canon_elem [OF es(1), of "''.''"] \<open>es \<noteq> []\<close> hd_in_set by metis
qed

lemma trimPrefix_goClean [simp]: "trimPrefix (goClean p) ''./'' = goClean p"
  by (simp add: trimPrefix_def goClean_no_dot_slash)

end
