(* ===== verification/Json.thy ===== *)
theory Json
  imports GoText
begin

text \<open>
  JSON values as the package \<^verbatim>\<open>encoding/json\<close> decodes them (strings already unescaped, object
  members in their order), and the rules by which the package assigns a value to the Go types
  the source decodes into. A \<^verbatim>\<open>json.RawMessage\<close> that went through the decoder holds one
  value, or nothing when the member was absent, so it is a \<open>json option\<close>.
\<close>

datatype json =
    JNull
  | JBool bool
  | JInt int
  | JFrac gostring
  | JStr gostring
  | JArr "json list"
  | JObj "(gostring \<times> json) list"

datatype json_error =
    UnmarshalType gostring
  | UnknownField gostring

text \<open>
  Member names are matched exactly first and otherwise under Unicode simple folding; the field
  names of the source are ASCII, whose folding partners outside ASCII are the long s and the
  Kelvin sign.
\<close>

definition foldRune :: "nat \<Rightarrow> nat" where
  "foldRune r = (if 97 \<le> r \<and> r \<le> 122 then r - 32
     else if r = 383 then 83 else if r = 8490 then 75 else r)"

definition foldName :: "gostring \<Rightarrow> nat list" where
  "foldName s = map foldRune (runes s)"

definition matchField :: "gostring list \<Rightarrow> gostring \<Rightarrow> gostring option" where
  "matchField names k =
     (if k \<in> set names then Some k else find (\<lambda>n. foldName n = foldName k) names)"

text \<open>
  Decoding an object into a struct under \<^verbatim>\<open>DisallowUnknownFields\<close>: members in order, a
  repeated member assigns again, an unknown one is an error. \<open>set1 name value\<close> assigns one field.
\<close>

fun decodeMembers ::
  "gostring list \<Rightarrow> (gostring \<Rightarrow> json \<Rightarrow> 'r \<Rightarrow> json_error + 'r) \<Rightarrow> (gostring \<times> json) list \<Rightarrow> 'r \<Rightarrow> json_error + 'r"
where
  "decodeMembers names set1 [] r = Inr r"
| "decodeMembers names set1 ((k, v) # ms) r =
     (case matchField names k of
        None \<Rightarrow> Inl (UnknownField k)
      | Some n \<Rightarrow> bindR (set1 n v r) (decodeMembers names set1 ms))"

definition decodeStruct ::
  "gostring list \<Rightarrow> (gostring \<Rightarrow> json \<Rightarrow> 'r \<Rightarrow> json_error + 'r) \<Rightarrow> 'r \<Rightarrow> json \<Rightarrow> json_error + 'r" where
  "decodeStruct names set1 r v =
     (case v of JNull \<Rightarrow> Inr r | JObj ms \<Rightarrow> decodeMembers names set1 ms r
      | _ \<Rightarrow> Inl (UnmarshalType ''struct''))"

text \<open>Into a string: \<^verbatim>\<open>null\<close> leaves the old value.\<close>

definition decodeString :: "gostring \<Rightarrow> json \<Rightarrow> json_error + gostring" where
  "decodeString old v =
     (case v of JNull \<Rightarrow> Inr old | JStr s \<Rightarrow> Inr s | _ \<Rightarrow> Inl (UnmarshalType ''string''))"

fun decodeStrings :: "json list \<Rightarrow> json_error + gostring list" where
  "decodeStrings [] = Inr []"
| "decodeStrings (v # vs) =
     bindR (decodeString '''' v) (\<lambda>s. bindR (decodeStrings vs) (\<lambda>ss. Inr (s # ss)))"

text \<open>Into a \<^verbatim>\<open>[]string\<close>, where \<open>None\<close> is nil, and into a pointer to one.\<close>

definition decodeStringSlice :: "json \<Rightarrow> json_error + gostring list option" where
  "decodeStringSlice v =
     (case v of JNull \<Rightarrow> Inr None | JArr vs \<Rightarrow> bindR (decodeStrings vs) (\<lambda>ss. Inr (Some ss))
      | _ \<Rightarrow> Inl (UnmarshalType ''[]string''))"

definition decodeBoolPtr :: "json \<Rightarrow> json_error + bool option" where
  "decodeBoolPtr v =
     (case v of JNull \<Rightarrow> Inr None | JBool b \<Rightarrow> Inr (Some b) | _ \<Rightarrow> Inl (UnmarshalType ''bool''))"

definition decodeIntPtr :: "json \<Rightarrow> json_error + int option" where
  "decodeIntPtr v =
     (case v of JNull \<Rightarrow> Inr None
      | JInt i \<Rightarrow> if - (2 ^ 63) \<le> i \<and> i < 2 ^ 63 then Inr (Some i) else Inl (UnmarshalType ''int'')
      | _ \<Rightarrow> Inl (UnmarshalType ''int''))"

definition decodeStringPtr :: "json \<Rightarrow> json_error + gostring option" where
  "decodeStringPtr v =
     (case v of JNull \<Rightarrow> Inr None | JStr s \<Rightarrow> Inr (Some s) | _ \<Rightarrow> Inl (UnmarshalType ''string''))"

text \<open>A member of an object by its name, as code reading a \<^verbatim>\<open>map[string]any\<close> does: the last
  member of a repeated name is the one in the map.\<close>

definition jsonMember :: "gostring \<Rightarrow> (gostring \<times> json) list \<Rightarrow> json option" where
  "jsonMember k ms = map_of (rev ms) k"

end
