(* ===== verification/PlanSpec.thy ===== *)
theory PlanSpec
  imports GoPath Json
begin

text \<open>
  \<^verbatim>\<open>backend/internal/planspec/planspec.go\<close>: the plan data model, its normalisation
  (\<open>prepareSpec\<close>, \<open>prepareTask\<close>, \<open>normalizeKey\<close>, \<open>normalizePaths\<close>), validation with every
  problem in order (\<open>validateSpec\<close>), and the decoding of the JSON form (\<open>toSpec\<close>,
  \<open>decodeAcceptance\<close>). Graph operations are in \<open>PlanGraph\<close>.

  A slice whose nil value the code tells apart from an empty one is a \<open>list option\<close> with
  \<open>None\<close> for nil; functions that change a \<^verbatim>\<open>*Spec\<close> or \<^verbatim>\<open>*Task\<close> return the changed value.
  The Unicode tables are the parameter \<open>u\<close>.
\<close>

section \<open>Data model\<close>

record acceptance_item =
  aiKey :: gostring
  aiDescription :: gostring

record validation_definition =
  vdAcceptance :: "acceptance_item list option"
  vdCommands :: "gostring list"

record task =
  tKey :: gostring
  tTitle :: gostring
  tDependsOn :: "gostring list option"
  tScope :: "gostring list"
  tInputs :: "gostring list option"
  tOutputs :: "gostring list option"
  tRisks :: "gostring list option"
  tAcceptance :: "gostring list option"
  tAcceptanceItems :: "acceptance_item list option"
  tValidationCommands :: "gostring list option"

record spec =
  spVersion :: int
  spCompat :: bool
  spTitle :: gostring
  spSummary :: gostring
  spTasks :: "task list"
  spFinalValidation :: "gostring list option"
  spFinalDef :: validation_definition

record problem =
  pCode :: gostring
  pPath :: gostring
  pMessage :: gostring

definition CurrentVersion :: int where
  "CurrentVersion = 2"

definition deps :: "task \<Rightarrow> gostring list" where
  "deps t = (case tDependsOn t of None \<Rightarrow> [] | Some ds \<Rightarrow> ds)"

definition items :: "acceptance_item list option \<Rightarrow> acceptance_item list" where
  "items a = (case a of None \<Rightarrow> [] | Some xs \<Rightarrow> xs)"

section \<open>Normalisation of keys, lists and paths\<close>

text \<open>The loop of \<^verbatim>\<open>normalizeKey\<close>: output bytes so far and the pending separator.\<close>

fun normalizeKeyLoop :: "unicode \<Rightarrow> nat list \<Rightarrow> gostring \<Rightarrow> bool \<Rightarrow> gostring" where
  "normalizeKeyLoop u [] b separator = b"
| "normalizeKeyLoop u (r # rs) b separator =
     (if isLetter u r \<or> isDigit u r
      then normalizeKeyLoop u rs
             ((if separator \<and> b \<noteq> [] then b @ ''-'' else b) @ encodeRune (toUpper u r)) False
      else normalizeKeyLoop u rs b True)"

definition normalizeKey :: "unicode \<Rightarrow> gostring \<Rightarrow> gostring" where
  "normalizeKey u value = trimChar CHR ''-'' (normalizeKeyLoop u (runes (trimSpace value)) [] False)"

text \<open>\<^verbatim>\<open>normalizeList\<close>: trimmed, empties dropped, first occurrences kept; paths are also
  cleaned and sorted (\<^verbatim>\<open>sort.Strings\<close> orders byte-wise).\<close>

fun normalizeListLoop :: "bool \<Rightarrow> gostring set \<Rightarrow> gostring list \<Rightarrow> gostring list" where
  "normalizeListLoop paths seen [] = []"
| "normalizeListLoop paths seen (v # vs) =
     (let t = trimSpace v in
      if t = [] then normalizeListLoop paths seen vs
      else let w = (if paths then trimPrefix (goClean (replaceChar CHR 0x5C slash t)) ''./'' else t) in
        if w \<in> seen then normalizeListLoop paths seen vs
        else w # normalizeListLoop paths (insert w seen) vs)"

fun byteLess :: "gostring \<Rightarrow> gostring \<Rightarrow> bool" where
  "byteLess [] [] = False"
| "byteLess [] (d # ds) = True"
| "byteLess (c # cs) [] = False"
| "byteLess (c # cs) (d # ds) =
     ((byte c :: nat) < byte d \<or> (c = d \<and> byteLess cs ds))"

fun insertSorted :: "gostring \<Rightarrow> gostring list \<Rightarrow> gostring list" where
  "insertSorted x [] = [x]"
| "insertSorted x (y # ys) = (if byteLess y x then y # insertSorted x ys else x # y # ys)"

definition sortStrings :: "gostring list \<Rightarrow> gostring list" where
  "sortStrings xs = foldr insertSorted xs []"

definition normalizeList :: "gostring list \<Rightarrow> bool \<Rightarrow> gostring list" where
  "normalizeList values paths =
     (let out = normalizeListLoop paths {} values in if paths then sortStrings out else out)"

definition drivePath :: "gostring \<Rightarrow> bool" where
  "drivePath s = (case s of c # d # _ \<Rightarrow>
      d = CHR '':'' \<and> (let n = (byte c :: nat) in (65 \<le> n \<and> n \<le> 90) \<or> (97 \<le> n \<and> n \<le> 122))
    | _ \<Rightarrow> False)"

fun splitPaths :: "gostring list \<Rightarrow> gostring list \<times> gostring list" where
  "splitPaths [] = ([], [])"
| "splitPaths (raw # rest) =
     (let (valid, invalid) = splitPaths rest; v = trimSpace raw in
      if v = [] then (valid, invalid)
      else let w = trimPrefix (goClean (replaceChar CHR 0x5C slash v)) ''./'' in
        if hasPrefix w ''../'' \<or> hasPrefix w ''/'' \<or> drivePath w then (valid, raw # invalid)
        else (w # valid, invalid))"

definition normalizePaths :: "gostring list \<Rightarrow> gostring list \<times> gostring list" where
  "normalizePaths values =
     (let (valid, invalid) = splitPaths values in (normalizeList valid True, invalid))"

section \<open>Normalisation of tasks and plans\<close>

definition acceptanceDescriptions :: "acceptance_item list option \<Rightarrow> gostring list option" where
  "acceptanceDescriptions a = map_option (map aiDescription) a"

definition prepareAcceptance :: "unicode \<Rightarrow> acceptance_item list \<Rightarrow> acceptance_item list" where
  "prepareAcceptance u xs =
     map (\<lambda>i. i\<lparr>aiKey := normalizeKey u (aiKey i), aiDescription := trimSpace (aiDescription i)\<rparr>) xs"

definition legacyItems :: "(nat \<Rightarrow> gostring) \<Rightarrow> gostring list \<Rightarrow> acceptance_item list" where
  "legacyItems key ds =
     map (\<lambda>(i, d). \<lparr>aiKey = key (i + 1), aiDescription = d\<rparr>) (zip [0..<length ds] ds)"

text \<open>\<^verbatim>\<open>normalizeListField\<close> sets the plan's compatibility flag for a nil slice.\<close>

definition normalizeListField :: "gostring list option \<Rightarrow> bool \<Rightarrow> gostring list option \<times> bool" where
  "normalizeListField values cmode =
     (case values of None \<Rightarrow> (Some [], True) | Some vs \<Rightarrow> (Some (normalizeList vs False), cmode))"

text \<open>
  \<^verbatim>\<open>prepareTask(task, index, spec)\<close>: of the plan it reads and sets the compatibility flag
  and reads the previous task's key, which are arguments here.
\<close>

definition prepareTask :: "unicode \<Rightarrow> nat \<Rightarrow> gostring \<Rightarrow> bool \<Rightarrow> task \<Rightarrow> task \<times> bool" where
  "prepareTask u index prevKey cmode0 t =
     (let key0 = (if trimSpace (tKey t) = [] \<and> cmode0 then ''P'' @ show03 (index + 1) else tKey t);
          key = normalizeKey u key0;
          cmode1 = (cmode0 \<or> tDependsOn t = None);
          deps0 = (case tDependsOn t of Some ds \<Rightarrow> ds
                   | None \<Rightarrow> if index > 0 then [prevKey] else []);
          deps1 = normalizeList (map (normalizeKey u) deps0) False;
          (inputs, cmode2) = normalizeListField (tInputs t) cmode1;
          (outputs, cmode3) = normalizeListField (tOutputs t) cmode2;
          (risks, cmode4) = normalizeListField (tRisks t) cmode3;
          (commands, cmode5) = normalizeListField (tValidationCommands t) cmode4;
          legacy = (tAcceptanceItems t = None \<and> tAcceptance t \<noteq> None);
          cmode6 = (cmode5 \<or> legacy);
          items0 = (if legacy
             then Some (legacyItems (\<lambda>n. key @ ''-A'' @ show03 n) (the (tAcceptance t)))
             else tAcceptanceItems t);
          items1 = map_option (prepareAcceptance u) items0
      in (t\<lparr>tKey := key, tTitle := trimSpace (tTitle t), tDependsOn := Some deps1,
            tInputs := inputs, tOutputs := outputs, tRisks := risks, tValidationCommands := commands,
            tAcceptanceItems := items1, tAcceptance := acceptanceDescriptions items1\<rparr>, cmode6))"

text \<open>The task loop of \<^verbatim>\<open>prepareSpec\<close>: prepared tasks, problems, and the flag.\<close>

fun prepareTasks ::
  "unicode \<Rightarrow> nat \<Rightarrow> gostring \<Rightarrow> bool \<Rightarrow> task list \<Rightarrow> task list \<times> problem list \<times> bool"
where
  "prepareTasks u i prevKey cmode [] = ([], [], cmode)"
| "prepareTasks u i prevKey cmode (t # ts) =
     (let (t1, cmode1) = prepareTask u i prevKey cmode t;
          (paths, invalid) = normalizePaths (tScope t1);
          t2 = t1\<lparr>tScope := paths\<rparr>;
          ps = map (\<lambda>value. \<lparr>pCode = ''task.scope.invalid'', pPath = ''tasks['' @ showNat i @ ''].scope'',
                  pMessage = ''scope path '' @ goQuote u value @ '' must stay within the workspace''\<rparr>) invalid;
          (ts', ps', cmode2) = prepareTasks u (i + 1) (tKey t2) cmode1 ts
      in (t2 # ts', ps @ ps', cmode2))"

definition prepareSpec :: "unicode \<Rightarrow> spec \<Rightarrow> spec \<times> problem list" where
  "prepareSpec u s =
     (let old = (spVersion s = 0 \<or> spVersion s = 1);
          version = (if old then CurrentVersion else spVersion s);
          (ts, problems, cmode) = prepareTasks u 0 [] (spCompat s \<or> old) (spTasks s);
          fd = spFinalDef s;
          legacy = (vdAcceptance fd = None \<and> spFinalValidation s \<noteq> None);
          acc0 = (if legacy
             then Some (legacyItems (\<lambda>n. ''FINAL-A'' @ show03 n) (the (spFinalValidation s)))
             else vdAcceptance fd);
          acc1 = map_option (prepareAcceptance u) acc0
      in (s\<lparr>spVersion := version, spCompat := (cmode \<or> legacy), spTitle := trimSpace (spTitle s),
            spSummary := trimSpace (spSummary s), spTasks := ts,
            spFinalDef := fd\<lparr>vdAcceptance := acc1, vdCommands := normalizeList (vdCommands fd) False\<rparr>,
            spFinalValidation := acceptanceDescriptions acc1\<rparr>, problems))"

section \<open>Validation\<close>

definition problemAt :: "gostring \<Rightarrow> gostring \<Rightarrow> gostring \<Rightarrow> problem" where
  "problemAt code path message = \<lparr>pCode = code, pPath = path, pMessage = message\<rparr>"

text \<open>Acceptance items of one task or of the final validation; \<open>seen\<close> maps a key to the
  path that used it first.\<close>

definition checkItemKey ::
  "unicode \<Rightarrow> gostring \<Rightarrow> (gostring \<rightharpoonup> gostring) \<Rightarrow> acceptance_item \<Rightarrow> problem list \<times> (gostring \<rightharpoonup> gostring)"
where
  "checkItemKey u itemPath seen it =
     (if aiKey it = [] then ([], seen) else
       (case seen (aiKey it) of
          Some previous \<Rightarrow> ([problemAt ''acceptance.key.duplicate'' (itemPath @ ''.key'')
            (''acceptance key '' @ goQuote u (aiKey it) @ '' duplicates '' @ previous @ '' after normalization'')], seen)
        | None \<Rightarrow> ([], seen(aiKey it \<mapsto> itemPath @ ''.key''))))"

fun checkItems ::
  "unicode \<Rightarrow> gostring \<Rightarrow> nat \<Rightarrow> (gostring \<rightharpoonup> gostring) \<Rightarrow> acceptance_item list \<Rightarrow> problem list \<times> (gostring \<rightharpoonup> gostring)"
where
  "checkItems u path j seen [] = ([], seen)"
| "checkItems u path j seen (it # its) =
     (let itemPath = path @ ''.acceptance['' @ showNat j @ '']'';
          p1 = (if aiKey it = [] \<or> aiDescription it = []
                then [problemAt ''acceptance.incomplete'' itemPath
                        ''acceptance item requires both key and description''] else []);
          k = checkItemKey u itemPath seen it;
          r = checkItems u path (j + 1) (snd k) its
      in (p1 @ fst k @ fst r, snd r))"

definition checkTaskKey ::
  "unicode \<Rightarrow> nat \<Rightarrow> (gostring \<rightharpoonup> nat) \<Rightarrow> task \<Rightarrow> problem list \<times> (gostring \<rightharpoonup> nat)"
where
  "checkTaskKey u i keys t =
     (let path = ''tasks['' @ showNat i @ ''].key'' in
      if tKey t = [] then ([problemAt ''task.key.required'' path ''task key is required''], keys)
      else (case keys (tKey t) of
         Some previous \<Rightarrow> ([problemAt ''task.key.duplicate'' path
            (''task key '' @ goQuote u (tKey t) @ '' duplicates tasks['' @ showNat previous @ ''].key after normalization'')], keys)
       | None \<Rightarrow> ([], keys(tKey t \<mapsto> i))))"

definition checkTaskFields :: "nat \<Rightarrow> task \<Rightarrow> problem list" where
  "checkTaskFields i t =
     (let path = ''tasks['' @ showNat i @ '']'' in
      (if tTitle t = [] then [problemAt ''task.title.required'' (path @ ''.title'') ''task title is required''] else []) @
      (if tScope t = [] then [problemAt ''task.scope.required'' (path @ ''.scope'') ''task scope is required''] else []) @
      (if items (tAcceptanceItems t) = []
       then [problemAt ''acceptance.required'' (path @ ''.acceptance'') ''at least one acceptance item is required''] else []))"

fun checkTasks ::
  "unicode \<Rightarrow> nat \<Rightarrow> (gostring \<rightharpoonup> nat) \<Rightarrow> (gostring \<rightharpoonup> gostring) \<Rightarrow> task list \<Rightarrow>
     problem list \<times> (gostring \<rightharpoonup> nat) \<times> (gostring \<rightharpoonup> gostring)"
where
  "checkTasks u i keys acc [] = ([], keys, acc)"
| "checkTasks u i keys acc (t # ts) =
     (let k = checkTaskKey u i keys t;
          a = checkItems u (''tasks['' @ showNat i @ '']'') 0 acc (items (tAcceptanceItems t));
          r = checkTasks u (i + 1) (snd k) (snd a) ts
      in (fst k @ checkTaskFields i t @ fst a @ fst r, snd r))"

fun checkDeps :: "unicode \<Rightarrow> (gostring \<rightharpoonup> nat) \<Rightarrow> nat \<Rightarrow> gostring \<Rightarrow> nat \<Rightarrow> gostring list \<Rightarrow> problem list" where
  "checkDeps u keys i key j [] = []"
| "checkDeps u keys i key j (d # ds) =
     (let path = ''tasks['' @ showNat i @ ''].dependsOn['' @ showNat j @ '']'' in
      (if d = key \<and> d \<noteq> [] then [problemAt ''dependency.self'' path (''task '' @ goQuote u key @ '' cannot depend on itself'')]
       else if keys d = None
         then [problemAt ''dependency.dangling'' path (''dependency '' @ goQuote u d @ '' does not reference a task in this plan'')]
       else []) @ checkDeps u keys i key (j + 1) ds)"

fun checkAllDeps :: "unicode \<Rightarrow> (gostring \<rightharpoonup> nat) \<Rightarrow> nat \<Rightarrow> task list \<Rightarrow> problem list" where
  "checkAllDeps u keys i [] = []"
| "checkAllDeps u keys i (t # ts) =
     checkDeps u keys i (tKey t) 0 (deps t) @ checkAllDeps u keys (i + 1) ts"

end
