(* ===== verification/PlanGraph.thy ===== *)
theory PlanGraph
  imports PlanSpec
begin

text \<open>
  The dependency graph of a plan: the depth-first cycle search \<open>dependencyCycle\<close> with its mark,
  stack and stack-index maps, and the ordering loop of \<open>TopologicalOrder\<close>. The search finds a
  genuine cycle or proves that there is none; on an acyclic graph the loop returns every key
  once, dependencies first, always taking the ready task of the smallest position.
\<close>

section \<open>Cycle search\<close>

record dfs =
  dState :: "gostring \<Rightarrow> nat"
  dStack :: "gostring list"
  dIndex :: "gostring \<rightharpoonup> nat"

datatype visit_result = CycleFound "gostring list" | Visited dfs | OutOfFuel

text \<open>\<^verbatim>\<open>tasks[indexes[key]].DependsOn\<close>, with Go's zero index for an absent key\<close>

definition depsOf :: "task list \<Rightarrow> (gostring \<rightharpoonup> nat) \<Rightarrow> gostring \<Rightarrow> gostring list" where
  "depsOf tasks indexes key =
     (let i = (case indexes key of Some i \<Rightarrow> i | None \<Rightarrow> 0) in
      if i < length tasks then deps (tasks ! i) else [])"

definition enterKey :: "gostring \<Rightarrow> dfs \<Rightarrow> dfs" where
  "enterKey key st = st\<lparr>dState := (dState st)(key := 1),
     dIndex := (dIndex st)(key \<mapsto> length (dStack st)), dStack := dStack st @ [key]\<rparr>"

definition leaveKey :: "gostring \<Rightarrow> dfs \<Rightarrow> dfs" where
  "leaveKey key st = st\<lparr>dStack := butlast (dStack st), dIndex := (dIndex st)(key := None),
     dState := (dState st)(key := 2)\<rparr>"

text \<open>
  The closure \<^verbatim>\<open>visit\<close> and its loop over the dependencies. The recursion of the source is
  bounded by the number of unvisited keys; \<open>visit_fuel\<close> below shows that one unit of fuel per
  key is enough.
\<close>

function visit :: "nat \<Rightarrow> task list \<Rightarrow> (gostring \<rightharpoonup> nat) \<Rightarrow> gostring \<Rightarrow> dfs \<Rightarrow> visit_result"
  and visitDeps :: "nat \<Rightarrow> task list \<Rightarrow> (gostring \<rightharpoonup> nat) \<Rightarrow> gostring \<Rightarrow> gostring list \<Rightarrow> dfs \<Rightarrow> visit_result"
where
  "visit 0 tasks indexes key st = OutOfFuel"
| "visit (Suc n) tasks indexes key st =
     (case visitDeps n tasks indexes key (depsOf tasks indexes key) (enterKey key st) of
        Visited st' \<Rightarrow> Visited (leaveKey key st')
      | r \<Rightarrow> r)"
| "visitDeps n tasks indexes key [] st = Visited st"
| "visitDeps n tasks indexes key (d # ds) st =
     (if d = key then visitDeps n tasks indexes key ds st
      else if indexes d = None then visitDeps n tasks indexes key ds st
      else if dState st d = 0 then
        (case visit n tasks indexes d st of
           Visited st' \<Rightarrow> visitDeps n tasks indexes key ds st'
         | r \<Rightarrow> r)
      else if dState st d = 1 then CycleFound (drop (the (dIndex st d)) (dStack st) @ [d])
      else visitDeps n tasks indexes key ds st)"
  by pat_completeness auto
termination
  by (relation "inv_image (less_than <*lex*> less_than)
        (\<lambda>x. case x of Inl (n, _) \<Rightarrow> (n, 0) | Inr (n, _, _, _, ds, _) \<Rightarrow> (n, Suc (length ds)))") auto

fun cycleLoop :: "nat \<Rightarrow> task list \<Rightarrow> (gostring \<rightharpoonup> nat) \<Rightarrow> task list \<Rightarrow> dfs \<Rightarrow> visit_result" where
  "cycleLoop n tasks indexes [] st = Visited st"
| "cycleLoop n tasks indexes (t # ts) st =
     (if tKey t \<noteq> [] \<and> dState st (tKey t) = 0 then
        (case visit n tasks indexes (tKey t) st of
           Visited st' \<Rightarrow> cycleLoop n tasks indexes ts st'
         | r \<Rightarrow> r)
      else cycleLoop n tasks indexes ts st)"

definition emptyDfs :: dfs where
  "emptyDfs = \<lparr>dState = (\<lambda>_. 0), dStack = [], dIndex = Map.empty\<rparr>"

text \<open>The empty list is the nil result "no cycle".\<close>

definition dependencyCycle :: "task list \<Rightarrow> (gostring \<rightharpoonup> nat) \<Rightarrow> gostring list" where
  "dependencyCycle tasks indexes =
     (case cycleLoop (Suc (length tasks)) tasks indexes tasks emptyDfs of
        CycleFound c \<Rightarrow> c | _ \<Rightarrow> [])"

section \<open>Correctness of the search\<close>

text \<open>The dependencies between different tasks with known keys; one of a task on itself is no edge.\<close>

definition edges :: "task list \<Rightarrow> (gostring \<rightharpoonup> nat) \<Rightarrow> (gostring \<times> gostring) set" where
  "edges tasks indexes =
     {(k, d). d \<in> set (depsOf tasks indexes k) \<and> d \<noteq> k \<and> indexes d \<noteq> None}"

definition black :: "dfs \<Rightarrow> gostring set" where
  "black st = {k. dState st k = 2}"

text \<open>
  The invariant of the search: the stack is a path of distinct grey keys whose positions the
  index map records; finished (black) keys have only black successors and form no cycle.
\<close>

definition dfs_inv :: "(gostring \<times> gostring) set \<Rightarrow> dfs \<Rightarrow> bool" where
  "dfs_inv E st \<longleftrightarrow>
     distinct (dStack st) \<and> set (dStack st) = {k. dState st k = 1} \<and>
     (\<forall>i < length (dStack st). dIndex st (dStack st ! i) = Some i) \<and>
     successively (\<lambda>a b. (a, b) \<in> E) (dStack st) \<and>
     (\<forall>k. dState st k \<le> 2) \<and>
     E `` black st \<subseteq> black st \<and> acyclic (E \<inter> black st \<times> black st)"

definition is_cycle :: "(gostring \<times> gostring) set \<Rightarrow> gostring list \<Rightarrow> bool" where
  "is_cycle E c \<longleftrightarrow> (\<exists>ks d. c = ks @ [d] \<and> ks \<noteq> [] \<and> hd ks = d \<and> successively (\<lambda>a b. (a, b) \<in> E) c)"

lemma successively_append_single:
  "successively P (xs @ [x]) \<longleftrightarrow> successively P xs \<and> (xs \<noteq> [] \<longrightarrow> P (last xs) x)"
  by (auto simp: successively_append_iff)

lemma successively_drop: "successively P xs \<Longrightarrow> successively P (drop n xs)"
  by (metis append_take_drop_id successively_append_iff)

lemma enter_inv:
  assumes "dfs_inv E st" "dState st key = 0" "dStack st \<noteq> [] \<Longrightarrow> (last (dStack st), key) \<in> E"
  shows "dfs_inv E (enterKey key st)"
proof -
  have "key \<notin> set (dStack st)" using assms(1,2) by (auto simp: dfs_inv_def)
  moreover have "black (enterKey key st) = black st" using assms(2) by (auto simp: black_def enterKey_def)
  moreover have "set (dStack st @ [key]) = {k. dState (enterKey key st) k = 1}"
    using assms(1) by (auto simp: dfs_inv_def enterKey_def)
  moreover have "dIndex (enterKey key st) ((dStack st @ [key]) ! i) = Some i"
    if "i < length (dStack st @ [key])" for i
    using that assms(1) \<open>key \<notin> set (dStack st)\<close>
    by (auto simp: dfs_inv_def enterKey_def nth_append less_Suc_eq dest: nth_mem)
  ultimately show ?thesis
    using assms unfolding dfs_inv_def
    by (auto simp: enterKey_def successively_append_single)
qed

lemma acyclic_add_source:
  assumes "acyclic r" "\<forall>a. (a, x) \<notin> r" "x \<notin> X"
  shows "acyclic (r \<union> {x} \<times> X)"
proof -
  have no_in: "(a, x) \<notin> (r \<union> {x} \<times> X)\<^sup>+" for a
  proof
    assume "(a, x) \<in> (r \<union> {x} \<times> X)\<^sup>+"
    then obtain b where "(b, x) \<in> r \<union> {x} \<times> X" by (auto elim: tranclE)
    then show False using assms(2,3) by auto
  qed
  have keep: "(a, b) \<in> r\<^sup>+" if "(a, b) \<in> (r \<union> {x} \<times> X)\<^sup>+" "a \<noteq> x" for a b
    using that
  proof (induction rule: trancl_induct)
    case (step y z)
    have "y \<noteq> x" using no_in step.hyps(1) by blast
    then have "(y, z) \<in> r" using step.hyps(2) by auto
    then show ?case using step.IH step.prems by (meson trancl.trancl_into_trancl)
  qed auto
  show ?thesis
    unfolding acyclic_def using assms(1) no_in keep unfolding acyclic_def by metis
qed

lemma leave_inv:
  assumes inv: "dfs_inv E st" and stack: "dStack st = ks @ [key]"
    and succ: "E `` {key} \<subseteq> black st"
  shows "dfs_inv E (leaveKey key st)" "dStack (leaveKey key st) = ks"
    "black (leaveKey key st) = insert key (black st)"
proof -
  show ks: "dStack (leaveKey key st) = ks" using stack by (simp add: leaveKey_def)
  show bl: "black (leaveKey key st) = insert key (black st)" by (auto simp: black_def leaveKey_def)
  have grey: "dState st key = 1" using inv stack by (auto simp: dfs_inv_def)
  then have nb: "key \<notin> black st" by (auto simp: black_def)
  have sts: "set (dStack st) = {k. dState st k = 1}" and d: "distinct (dStack st)"
    using inv by (auto simp: dfs_inv_def)
  have "set ks = set (dStack st) - {key}" using d stack by auto
  then have s: "set ks = {k. dState (leaveKey key st) k = 1}"
    using sts by (auto simp: leaveKey_def)
  have idx: "dIndex (leaveKey key st) (ks ! i) = Some i" if "i < length ks" for i
  proof -
    have "dStack st ! i = ks ! i" "ks ! i \<noteq> key" using that stack d by (auto simp: nth_append)
    moreover have "dIndex st (dStack st ! i) = Some i" using inv that stack by (auto simp: dfs_inv_def)
    ultimately show ?thesis by (simp add: leaveKey_def)
  qed
  have cl: "E `` black st \<subseteq> black st" and ac: "acyclic (E \<inter> black st \<times> black st)"
    using inv by (auto simp: dfs_inv_def)
  have eq: "E \<inter> insert key (black st) \<times> insert key (black st) = (E \<inter> black st \<times> black st) \<union> {key} \<times> (E `` {key})"
    using cl succ nb by auto
  have "acyclic (E \<inter> insert key (black st) \<times> insert key (black st))"
    unfolding eq using ac nb succ by (intro acyclic_add_source) auto
  moreover have "E `` insert key (black st) \<subseteq> insert key (black st)" using cl succ by auto
  moreover have "successively (\<lambda>a b. (a, b) \<in> E) ks"
    using inv stack by (auto simp: dfs_inv_def successively_append_single)
  moreover have "dState (leaveKey key st) k \<le> 2" for k
    using inv by (auto simp: dfs_inv_def leaveKey_def)
  ultimately show "dfs_inv E (leaveKey key st)"
    using s idx d stack ks bl unfolding dfs_inv_def by auto
qed

lemma found_is_cycle:
  assumes inv: "dfs_inv E st" and grey: "dState st d = 1"
    and stack: "dStack st = ks @ [key]" and e: "(key, d) \<in> E"
  shows "is_cycle E (drop (the (dIndex st d)) (dStack st) @ [d])"
proof -
  have "d \<in> set (dStack st)" using inv grey by (auto simp: dfs_inv_def)
  then obtain i where i: "i < length (dStack st)" "dStack st ! i = d" by (auto simp: in_set_conv_nth)
  then have ix: "dIndex st d = Some i" using inv by (auto simp: dfs_inv_def)
  have ne: "drop i (dStack st) \<noteq> []" and hd: "hd (drop i (dStack st)) = d"
    using i by (auto simp: hd_drop_conv_nth)
  have "last (drop i (dStack st)) = last (dStack st)" using i by (simp only: last_drop)
  then have "last (drop i (dStack st)) = key" using stack by simp
  moreover have "successively (\<lambda>a b. (a, b) \<in> E) (drop i (dStack st))"
    using inv by (auto simp: dfs_inv_def intro: successively_drop)
  ultimately have "successively (\<lambda>a b. (a, b) \<in> E) (drop i (dStack st) @ [d])"
    using e by (simp add: successively_append_single)
  then show ?thesis unfolding is_cycle_def using ix ne hd by auto
qed

text \<open>What a visit promises, for the key and for a list of its dependencies.\<close>

definition grows :: "dfs \<Rightarrow> dfs \<Rightarrow> bool" where
  "grows st st' \<longleftrightarrow> dStack st' = dStack st \<and> black st \<subseteq> black st' \<and>
     {k. dState st' k = 0} \<subseteq> {k. dState st k = 0}"

definition good_result :: "(gostring \<times> gostring) set \<Rightarrow> dfs \<Rightarrow> gostring set \<Rightarrow> visit_result \<Rightarrow> bool" where
  "good_result E st X r \<longleftrightarrow>
     (case r of CycleFound c \<Rightarrow> is_cycle E c
      | Visited st' \<Rightarrow> dfs_inv E st' \<and> grows st st' \<and> X \<subseteq> black st'
      | OutOfFuel \<Rightarrow> True)"

lemma grows_refl [simp]: "grows st st"
  by (simp add: grows_def)

lemma grows_trans: "grows a b \<Longrightarrow> grows b c \<Longrightarrow> grows a c"
  by (auto simp: grows_def)

lemma good_result_step:
  assumes "good_result E st1 X r" "grows st st1" "extra \<subseteq> black st1" "Y \<subseteq> X \<union> extra"
  shows "good_result E st Y r"
proof (cases r)
  case (Visited st2)
  then have *: "dfs_inv E st2" "grows st1 st2" "X \<subseteq> black st2"
    using assms(1) by (auto simp: good_result_def)
  moreover have "black st1 \<subseteq> black st2" using *(2) by (simp add: grows_def)
  ultimately show ?thesis
    using assms(3,4) grows_trans [OF assms(2) *(2)] Visited by (simp add: good_result_def) blast
qed (use assms(1) in \<open>simp_all add: good_result_def\<close>)

lemma visit_good:
  "dfs_inv E st \<Longrightarrow> dState st key = 0 \<Longrightarrow> (dStack st \<noteq> [] \<longrightarrow> (last (dStack st), key) \<in> E) \<Longrightarrow>
     E = edges tasks indexes \<Longrightarrow> good_result E st {key} (visit n tasks indexes key st)"
  "dfs_inv E st \<Longrightarrow> (\<exists>ks. dStack st = ks @ [key]) \<Longrightarrow> set ds \<subseteq> set (depsOf tasks indexes key) \<Longrightarrow>
     E = edges tasks indexes \<Longrightarrow>
     good_result E st (E `` {key} \<inter> set ds) (visitDeps n tasks indexes key ds st)"
proof (induction n tasks indexes key st and n tasks indexes key ds st rule: visit_visitDeps.induct)
  case (1 tasks indexes key st)
  then show ?case by (simp add: good_result_def)
next
  case (2 n tasks indexes key st)
  have inv: "dfs_inv E (enterKey key st)" using 2 enter_inv by blast
  have stk: "dStack (enterKey key st) = dStack st @ [key]" by (simp add: enterKey_def)
  have "good_result E (enterKey key st) (E `` {key} \<inter> set (depsOf tasks indexes key))
      (visitDeps n tasks indexes key (depsOf tasks indexes key) (enterKey key st))"
    using 2 inv stk by blast
  moreover have "E `` {key} \<inter> set (depsOf tasks indexes key) = E `` {key}"
    using "2.prems"(4) by (auto simp: edges_def)
  moreover have "good_result E st {key} (Visited (leaveKey key st'))"
    if "dfs_inv E st'" "grows (enterKey key st) st'" "E `` {key} \<subseteq> black st'" for st'
  proof -
    have s: "dStack st' = dStack st @ [key]" using that stk by (simp add: grows_def)
    have "black (enterKey key st) = black st" using "2.prems"(2) by (auto simp: black_def enterKey_def)
    then have b: "black st \<subseteq> black st'" using that(2) by (simp add: grows_def)
    have w: "{k. dState (leaveKey key st') k = 0} \<subseteq> {k. dState st k = 0}"
      using that(2) by (auto simp: grows_def leaveKey_def enterKey_def split: if_splits)
    show ?thesis using leave_inv [OF that(1) s that(3)] b w by (auto simp: good_result_def grows_def)
  qed
  ultimately show ?case by (auto simp: good_result_def split: visit_result.splits)
next
  case (3 n tasks indexes key st)
  then show ?case by (simp add: good_result_def)
next
  case (4 n tasks indexes key d ds st)
  from "4.prems"(2) obtain ks where ks: "dStack st = ks @ [key]" by blast
  have sub: "set ds \<subseteq> set (depsOf tasks indexes key)" and dd: "d \<in> set (depsOf tasks indexes key)"
    using "4.prems"(3) by auto
  have edge: "(key, d) \<in> E" if "d \<noteq> key" "indexes d \<noteq> None"
    using that dd "4.prems"(4) by (auto simp: edges_def)
  consider "d = key \<or> indexes d = None" | "d \<noteq> key" "indexes d \<noteq> None" "dState st d = 0"
    | "d \<noteq> key" "indexes d \<noteq> None" "dState st d = 1" | "d \<noteq> key" "indexes d \<noteq> None" "dState st d = 2"
    using "4.prems"(1) unfolding dfs_inv_def by (metis One_nat_def le_antisym less_2_cases_iff not_less)
  then show ?case
  proof cases
    case 1
    then have "E `` {key} \<inter> set (d # ds) = E `` {key} \<inter> set ds"
      using "4.prems"(4) by (auto simp: edges_def)
    with 1 show ?thesis using "4.IH"(1,2) "4.prems" sub by auto
  next
    case 2
    have r: "good_result E st {d} (visit n tasks indexes d st)"
      using 2 "4.IH"(3) "4.prems" edge ks by auto
    have "good_result E st (E `` {key} \<inter> set (d # ds)) (visitDeps n tasks indexes key ds st')"
      if v: "visit n tasks indexes d st = Visited st'" for st'
    proof -
      have st': "dfs_inv E st'" "grows st st'" "{d} \<subseteq> black st'" using r v by (auto simp: good_result_def)
      then have "dStack st' = ks @ [key]" using ks by (simp add: grows_def)
      then have "good_result E st' (E `` {key} \<inter> set ds) (visitDeps n tasks indexes key ds st')"
        using 2 "4.IH"(4) v st' sub "4.prems"(4) by auto
      then show ?thesis by (rule good_result_step [OF _ st'(2,3)]) auto
    qed
    with 2 r show ?thesis by (auto simp: good_result_def split: visit_result.splits)
  next
    case 3
    then show ?thesis
      using found_is_cycle [OF "4.prems"(1) _ ks] edge by (auto simp: good_result_def)
  next
    case 4
    then have "good_result E st (E `` {key} \<inter> set ds) (visitDeps n tasks indexes key ds st)"
      using "4.IH"(5) "4.prems" sub by auto
    then have "good_result E st (E `` {key} \<inter> set (d # ds)) (visitDeps n tasks indexes key ds st)"
      by (rule good_result_step [where extra = "{d}"]) (use 4 in \<open>auto simp: black_def\<close>)
    then show ?thesis using 4 by simp
  qed
qed

text \<open>Fuel: every nested visit greys a key that was white, so the number of white keys bounds
  the depth.\<close>

definition white :: "(gostring \<rightharpoonup> nat) \<Rightarrow> dfs \<Rightarrow> gostring set" where
  "white indexes st = {k \<in> dom indexes. dState st k = 0}"

lemma visit_fuel:
  "finite (dom indexes) \<Longrightarrow> key \<in> white indexes st \<Longrightarrow> card (white indexes st) \<le> n \<Longrightarrow>
     (\<exists>c. visit n tasks indexes key st = CycleFound c) \<or>
     (\<exists>st'. visit n tasks indexes key st = Visited st' \<and> white indexes st' \<subseteq> white indexes st)"
  "finite (dom indexes) \<Longrightarrow> card (white indexes st) \<le> n \<Longrightarrow>
     (\<exists>c. visitDeps n tasks indexes key ds st = CycleFound c) \<or>
     (\<exists>st'. visitDeps n tasks indexes key ds st = Visited st' \<and> white indexes st' \<subseteq> white indexes st)"
proof (induction n tasks indexes key st and n tasks indexes key ds st rule: visit_visitDeps.induct)
  case (1 tasks indexes key st)
  then have "finite (white indexes st)" by (auto simp: white_def intro: finite_subset)
  with 1 show ?case by (auto simp: card_eq_0_iff)
next
  case (2 n tasks indexes key st)
  have fin: "finite (white indexes st)" using "2.prems"(1) by (auto simp: white_def intro: finite_subset)
  have "white indexes (enterKey key st) = white indexes st - {key}"
    by (auto simp: white_def enterKey_def)
  then have "card (white indexes (enterKey key st)) \<le> n"
    using "2.prems"(2,3) fin by (simp add: card_Diff_singleton)
  moreover have "white indexes (leaveKey key st') \<subseteq> white indexes st"
    if "white indexes st' \<subseteq> white indexes (enterKey key st)" for st'
    using that by (auto simp: white_def enterKey_def leaveKey_def split: if_splits)
  ultimately show ?case using "2.IH" "2.prems"(1) by fastforce
next
  case (3 n tasks indexes key st)
  then show ?case by simp
next
  case (4 n tasks indexes key d ds st)
  show ?case
  proof (cases "d \<noteq> key \<and> indexes d \<noteq> None \<and> dState st d = 0")
    case True
    then have w: "d \<in> white indexes st" by (auto simp: white_def)
    have fin: "finite (white indexes st)" using "4.prems"(1) by (auto simp: white_def intro: finite_subset)
    have c: "card (white indexes st') \<le> n" if "white indexes st' \<subseteq> white indexes st" for st'
      using that fin "4.prems"(2) by (meson card_mono le_trans)
    from True w "4.IH"(3) "4.prems" have
      "(\<exists>c. visit n tasks indexes d st = CycleFound c) \<or>
       (\<exists>st'. visit n tasks indexes d st = Visited st' \<and> white indexes st' \<subseteq> white indexes st)" by auto
    then show ?thesis using True c "4.IH"(4) "4.prems"(1) by fastforce
  next
    case False
    then show ?thesis using "4.IH"(1,2,5) "4.prems" by auto
  qed
qed

declare visit.simps [simp del] visitDeps.simps [simp del]

text \<open>The whole search: with every key known, it ends, and its answer is right.\<close>

definition indexed :: "task list \<Rightarrow> (gostring \<rightharpoonup> nat) \<Rightarrow> bool" where
  "indexed tasks indexes \<longleftrightarrow>
     (\<forall>k i. indexes k = Some i \<longrightarrow> i < length tasks \<and> tKey (tasks ! i) = k \<and> k \<noteq> []) \<and>
     (\<forall>t \<in> set tasks. tKey t \<noteq> [] \<longrightarrow> indexes (tKey t) \<noteq> None)"

lemma indexed_dom: "indexed tasks indexes \<Longrightarrow> dom indexes = {k \<in> tKey ` set tasks. k \<noteq> []}"
  unfolding indexed_def by (intro set_eqI iffI) (auto, metis nth_mem image_eqI)

lemma indexed_finite: "indexed tasks indexes \<Longrightarrow> finite (dom indexes)"
  by (simp add: indexed_dom)

lemma white_card: "indexed tasks indexes \<Longrightarrow> card (white indexes st) \<le> length tasks"
proof -
  assume "indexed tasks indexes"
  then have "dom indexes \<subseteq> tKey ` set tasks" by (simp add: indexed_dom)
  then have "white indexes st \<subseteq> tKey ` set tasks" unfolding white_def by blast
  then have "card (white indexes st) \<le> card (tKey ` set tasks)" by (simp add: card_mono)
  also have "\<dots> \<le> length tasks" using card_image_le card_length le_trans by (metis List.finite_set)
  finally show ?thesis .
qed

lemma cycleLoop_good:
  assumes idx: "indexed tasks indexes" and E: "E = edges tasks indexes"
  shows "dfs_inv E st \<Longrightarrow> dStack st = [] \<Longrightarrow> set ts \<subseteq> set tasks \<Longrightarrow>
    (\<exists>c. cycleLoop (Suc (length tasks)) tasks indexes ts st = CycleFound c \<and> is_cycle E c) \<or>
    (\<exists>st'. cycleLoop (Suc (length tasks)) tasks indexes ts st = Visited st' \<and> dfs_inv E st' \<and>
       dStack st' = [] \<and> black st \<subseteq> black st' \<and> (\<forall>t \<in> set ts. tKey t \<noteq> [] \<longrightarrow> tKey t \<in> black st'))"
proof (induction ts arbitrary: st)
  case Nil
  then show ?case by auto
next
  case (Cons t ts)
  show ?case
  proof (cases "tKey t \<noteq> [] \<and> dState st (tKey t) = 0")
    case True
    then have w: "tKey t \<in> white indexes st"
      using idx Cons.prems(3) by (auto simp: white_def indexed_def)
    let ?r = "visit (Suc (length tasks)) tasks indexes (tKey t) st"
    have good: "good_result E st {tKey t} ?r" using Cons.prems True E visit_good(1) by blast
    have "?r \<noteq> OutOfFuel"
      using visit_fuel(1) [where tasks = tasks, OF indexed_finite [OF idx] w le_SucI [OF white_card [OF idx]]]
      by auto
    then consider c where "?r = CycleFound c" | st' where "?r = Visited st'" by (cases ?r) auto
    then show ?thesis
    proof cases
      case 1
      then show ?thesis using True good by (auto simp: good_result_def)
    next
      case 2
      then have st': "dfs_inv E st'" "dStack st' = []" "black st \<subseteq> black st'" "tKey t \<in> black st'"
        using good Cons.prems(2) by (auto simp: good_result_def grows_def)
      have ts: "set ts \<subseteq> set tasks" using Cons.prems(3) by auto
      show ?thesis using True 2 Cons.IH [OF st'(1,2) ts] st'(3,4) by simp blast
    qed
  next
    case False
    have "tKey t \<in> black st" if "tKey t \<noteq> []"
    proof -
      have "{k. dState st k = 1} = {}" "dState st (tKey t) \<le> 2"
        using Cons.prems(1,2) unfolding dfs_inv_def by auto
      then have "dState st (tKey t) \<noteq> 1" by auto
      then show ?thesis using that False \<open>dState st (tKey t) \<le> 2\<close> by (auto simp: black_def)
    qed
    then show ?thesis using False Cons.IH [OF Cons.prems(1,2)] Cons.prems(3) by auto
  qed
qed

lemma emptyDfs_inv: "dfs_inv E emptyDfs"
  by (simp add: dfs_inv_def emptyDfs_def black_def acyclic_def)

lemma edges_dom: "indexed tasks indexes \<Longrightarrow> edges tasks indexes \<subseteq> UNIV \<times> dom indexes"
  by (auto simp: edges_def)

lemma cycle_not_acyclic: "is_cycle E c \<Longrightarrow> \<not> acyclic E"
proof -
  assume "is_cycle E c"
  then obtain ks d where c: "c = ks @ [d]" "ks \<noteq> []" "hd ks = d" "successively (\<lambda>a b. (a, b) \<in> E) c"
    by (auto simp: is_cycle_def)
  have reach: "(hd xs, last xs) \<in> E\<^sup>*" if "xs \<noteq> []" "successively (\<lambda>a b. (a, b) \<in> E) xs" for xs
    using that by (induction xs rule: induct_list012) (auto intro: converse_rtrancl_into_rtrancl)
  have "(d, last ks) \<in> E\<^sup>*" "(last ks, d) \<in> E"
    using c reach [of ks] by (auto simp: successively_append_single)
  then have "(d, d) \<in> E\<^sup>+" by (rule rtrancl_into_trancl1)
  then show ?thesis by (auto simp: acyclic_def)
qed

lemma acyclic_targets:
  assumes "E \<subseteq> UNIV \<times> B" "acyclic (E \<inter> B \<times> B)"
  shows "acyclic E"
proof -
  have "(a, b) \<in> (E \<inter> B \<times> B)\<^sup>+" if "(a, b) \<in> E\<^sup>+" "a \<in> B" for a b
    using that
  proof (induction rule: trancl_induct)
    case (base y)
    then show ?case using assms(1) by auto
  next
    case (step y z)
    have "y \<in> B" using step.hyps(1) assms(1) by (auto elim: tranclE)
    then have "(y, z) \<in> E \<inter> B \<times> B" using step.hyps(2) assms(1) by auto
    then show ?case using step by (meson trancl.trancl_into_trancl)
  qed
  moreover have "b \<in> B" if "(b, b) \<in> E\<^sup>+" for b using that assms(1) by (auto elim: tranclE)
  ultimately show ?thesis using assms(2) unfolding acyclic_def by blast
qed

lemma dependencyCycle_correct:
  assumes idx: "indexed tasks indexes"
  shows "if dependencyCycle tasks indexes = [] then acyclic (edges tasks indexes)
    else is_cycle (edges tasks indexes) (dependencyCycle tasks indexes)"
proof -
  let ?E = "edges tasks indexes"
  let ?r = "cycleLoop (Suc (length tasks)) tasks indexes tasks emptyDfs"
  have "dStack emptyDfs = []" by (simp add: emptyDfs_def)
  from cycleLoop_good [OF idx refl emptyDfs_inv this order_refl]
  consider c where "?r = CycleFound c" "is_cycle ?E c"
    | st where "?r = Visited st" "dfs_inv ?E st" "\<forall>t \<in> set tasks. tKey t \<noteq> [] \<longrightarrow> tKey t \<in> black st"
    by auto
  then show ?thesis
  proof cases
    case 1
    then show ?thesis by (auto simp: dependencyCycle_def is_cycle_def)
  next
    case 2
    then have "dom indexes \<subseteq> black st" by (auto simp: indexed_dom [OF idx])
    then have "?E \<subseteq> UNIV \<times> black st" using edges_dom [OF idx] by blast
    then have "acyclic ?E" using 2(2) acyclic_targets by (auto simp: dfs_inv_def)
    then show ?thesis using 2(1) by (simp add: dependencyCycle_def)
  qed
qed

section \<open>Topological order\<close>

record topo =
  toOrder :: "gostring list"
  toIndegree :: "gostring \<Rightarrow> int"

text \<open>The maps built before the loop; Go's zero value is the default of an absent key.\<close>

definition topoIndexes :: "task list \<Rightarrow> gostring \<rightharpoonup> nat" where
  "topoIndexes tasks = fold (\<lambda>(i, t) m. m(tKey t \<mapsto> i)) (enumerate 0 tasks) Map.empty"

definition topoIndegree :: "task list \<Rightarrow> gostring \<Rightarrow> int" where
  "topoIndegree tasks = fold (\<lambda>t m. m(tKey t := int (length (deps t)))) tasks (\<lambda>_. 0)"

definition topoDependents :: "task list \<Rightarrow> gostring \<Rightarrow> gostring list" where
  "topoDependents tasks =
     fold (\<lambda>t m. fold (\<lambda>d m. m(d := m d @ [tKey t])) (deps t) m) tasks (\<lambda>_. [])"

text \<open>The scan for the ready task of the smallest index.\<close>

definition pickReady :: "task list \<Rightarrow> (gostring \<rightharpoonup> nat) \<Rightarrow> (gostring \<Rightarrow> int) \<Rightarrow> gostring" where
  "pickReady tasks indexes indegree =
     fst (fold (\<lambda>t (ready, readyIndex).
        let i = (case indexes (tKey t) of Some i \<Rightarrow> i | None \<Rightarrow> 0) in
        if indegree (tKey t) = 0 \<and> i < readyIndex then (tKey t, i) else (ready, readyIndex))
      tasks ([], length tasks + 1))"

definition takeReady :: "(gostring \<Rightarrow> gostring list) \<Rightarrow> gostring \<Rightarrow> topo \<Rightarrow> topo" where
  "takeReady dependents ready st =
     \<lparr>toOrder = toOrder st @ [ready],
      toIndegree = fold (\<lambda>d m. m(d := m d - 1)) (dependents ready) ((toIndegree st)(ready := -1))\<rparr>"

text \<open>One unit of the counter per missing element of \<^verbatim>\<open>order\<close>; \<open>None\<close> is the error return.\<close>

fun topoLoop :: "nat \<Rightarrow> task list \<Rightarrow> (gostring \<rightharpoonup> nat) \<Rightarrow> (gostring \<Rightarrow> gostring list) \<Rightarrow> topo \<Rightarrow> gostring list option" where
  "topoLoop 0 tasks indexes dependents st = Some (toOrder st)"
| "topoLoop (Suc n) tasks indexes dependents st =
     (let ready = pickReady tasks indexes (toIndegree st) in
      if ready = [] then None
      else topoLoop n tasks indexes dependents (takeReady dependents ready st))"

definition topoOrder :: "task list \<Rightarrow> gostring list option" where
  "topoOrder tasks =
     topoLoop (length tasks) tasks (topoIndexes tasks) (topoDependents tasks)
       \<lparr>toOrder = [], toIndegree = topoIndegree tasks\<rparr>"

text \<open>
  The specification: a greedy order. Every element has its dependencies before it and is the
  first such task, by position, among those not yet listed.
\<close>

definition readyAt :: "task list \<Rightarrow> gostring set \<Rightarrow> nat \<Rightarrow> bool" where
  "readyAt tasks taken i \<longleftrightarrow> i < length tasks \<and> tKey (tasks ! i) \<notin> taken \<and> set (deps (tasks ! i)) \<subseteq> taken"

fun greedyFrom :: "task list \<Rightarrow> gostring set \<Rightarrow> gostring list \<Rightarrow> bool" where
  "greedyFrom tasks taken [] \<longleftrightarrow> True"
| "greedyFrom tasks taken (k # ks) \<longleftrightarrow>
     (\<exists>i < length tasks. tKey (tasks ! i) = k \<and> readyAt tasks taken i \<and> (\<forall>j < i. \<not> readyAt tasks taken j)) \<and>
     greedyFrom tasks (insert k taken) ks"

definition wellformedGraph :: "task list \<Rightarrow> bool" where
  "wellformedGraph tasks \<longleftrightarrow>
     distinct (map tKey tasks) \<and> [] \<notin> tKey ` set tasks \<and>
     (\<forall>t \<in> set tasks. distinct (deps t) \<and> set (deps t) \<subseteq> tKey ` set tasks \<and> tKey t \<notin> set (deps t))"

lemma topoIndexes_snoc: "topoIndexes (ts @ [t]) = (topoIndexes ts)(tKey t \<mapsto> length ts)"
  by (simp add: topoIndexes_def enumerate_append_eq)

lemma topoIndexes_iff:
  "distinct (map tKey tasks) \<Longrightarrow>
     topoIndexes tasks k = Some i \<longleftrightarrow> i < length tasks \<and> tKey (tasks ! i) = k"
proof (induction tasks rule: rev_induct)
  case Nil
  then show ?case by (simp add: topoIndexes_def)
next
  case (snoc t ts)
  have "tKey (ts ! j) \<noteq> tKey t" if "j < length ts" for j
    using snoc.prems imageI [OF nth_mem [OF that], of tKey] by auto
  with snoc show ?case
    by (auto simp: topoIndexes_snoc nth_append less_Suc_eq)
qed

lemma topoIndexes_nth:
  "distinct (map tKey tasks) \<Longrightarrow> i < length tasks \<Longrightarrow> topoIndexes tasks (tKey (tasks ! i)) = Some i"
  by (simp add: topoIndexes_iff)

lemma topoIndegree_eq:
  "distinct (map tKey tasks) \<Longrightarrow> t \<in> set tasks \<Longrightarrow> topoIndegree tasks (tKey t) = int (length (deps t))"
proof (induction tasks rule: rev_induct)
  case (snoc x xs)
  have "tKey t \<noteq> tKey x" if "t \<in> set xs"
    using snoc.prems(1) imageI [OF that, of tKey] by auto
  with snoc show ?case by (auto simp: topoIndegree_def)
qed simp

lemma fold_append_key:
  "distinct ds \<Longrightarrow> fold (\<lambda>d m. m(d := m d @ [k])) ds m e = m e @ (if e \<in> set ds then [k] else [])"
  by (induction ds arbitrary: m) auto

lemma topoDependents_eq:
  "\<forall>t \<in> set tasks. distinct (deps t) \<Longrightarrow>
     topoDependents tasks d = map tKey (filter (\<lambda>t. d \<in> set (deps t)) tasks)"
proof (induction tasks rule: rev_induct)
  case (snoc t ts)
  then show ?case by (simp add: topoDependents_def fold_append_key)
qed (simp add: topoDependents_def)

lemma fold_decrement:
  "distinct xs \<Longrightarrow> fold (\<lambda>d m. m(d := m d - 1)) xs m e = m e - (if e \<in> set xs then 1 else (0::int))"
  by (induction xs arbitrary: m) auto

definition scanReady :: "(gostring \<rightharpoonup> nat) \<Rightarrow> (gostring \<Rightarrow> int) \<Rightarrow> task \<Rightarrow> gostring \<times> nat \<Rightarrow> gostring \<times> nat" where
  "scanReady indexes indegree t p =
     (case p of (ready, readyIndex) \<Rightarrow>
        let i = (case indexes (tKey t) of Some i \<Rightarrow> i | None \<Rightarrow> 0) in
        if indegree (tKey t) = 0 \<and> i < readyIndex then (tKey t, i) else (ready, readyIndex))"

lemma scan_keep:
  "\<forall>j < length ts. indexes (tKey (ts ! j)) = Some (n + j) \<Longrightarrow> ri \<le> n \<Longrightarrow>
     fold (scanReady indexes indegree) ts (r, ri) = (r, ri)"
proof (induction ts arbitrary: n)
  case (Cons t ts)
  have "indexes (tKey t) = Some n" using Cons.prems(1) by (force dest: spec [of _ 0])
  moreover have "\<forall>j < length ts. indexes (tKey (ts ! j)) = Some (Suc n + j)"
    using Cons.prems(1) by (force dest: spec [of _ "Suc _"])
  ultimately show ?case using Cons.IH [of "Suc n"] Cons.prems(2) by (simp add: scanReady_def)
qed simp

lemma scan_find:
  "\<forall>j < length ts. indexes (tKey (ts ! j)) = Some (n + j) \<Longrightarrow> n + length ts < ri \<Longrightarrow>
     fst (fold (scanReady indexes indegree) ts (r, ri)) =
       (case find (\<lambda>t. indegree (tKey t) = 0) ts of None \<Rightarrow> r | Some t \<Rightarrow> tKey t)"
proof (induction ts arbitrary: n)
  case (Cons t ts)
  have t: "indexes (tKey t) = Some n" using Cons.prems(1) by (force dest: spec [of _ 0])
  have ts: "\<forall>j < length ts. indexes (tKey (ts ! j)) = Some (Suc n + j)"
    using Cons.prems(1) by (force dest: spec [of _ "Suc _"])
  show ?case
  proof (cases "indegree (tKey t) = 0")
    case True
    then show ?thesis
      using t scan_keep [OF ts, of n] Cons.prems(2)
      by (simp add: scanReady_def [of indexes indegree t "(r, ri)"])
  next
    case False
    then show ?thesis using t Cons.IH [OF ts] Cons.prems(2)
      by (simp add: scanReady_def [of indexes indegree t "(r, ri)"])
  qed
qed simp

lemma pickReady_find:
  assumes "distinct (map tKey tasks)"
  shows "pickReady tasks (topoIndexes tasks) indegree =
    (case find (\<lambda>t. indegree (tKey t) = 0) tasks of None \<Rightarrow> [] | Some t \<Rightarrow> tKey t)"
proof -
  have "pickReady tasks (topoIndexes tasks) indegree =
      fst (fold (scanReady (topoIndexes tasks) indegree) tasks ([], length tasks + 1))"
    unfolding pickReady_def scanReady_def by (simp add: case_prod_unfold)
  then show ?thesis using topoIndexes_nth [OF assms] scan_find [of tasks _ 0] by simp
qed

text \<open>The loop invariant: counters hold the number of missing dependencies.\<close>

definition topo_inv :: "task list \<Rightarrow> topo \<Rightarrow> bool" where
  "topo_inv tasks st \<longleftrightarrow>
     distinct (toOrder st) \<and> set (toOrder st) \<subseteq> tKey ` set tasks \<and>
     (\<forall>t \<in> set tasks. toIndegree st (tKey t) =
        (if tKey t \<in> set (toOrder st) then -1 else int (card (set (deps t) - set (toOrder st))))) \<and>
     (\<forall>t \<in> set tasks. tKey t \<in> set (toOrder st) \<longrightarrow> set (deps t) \<subseteq> set (toOrder st))"

lemma topo_inv_init:
  "wellformedGraph tasks \<Longrightarrow> topo_inv tasks \<lparr>toOrder = [], toIndegree = topoIndegree tasks\<rparr>"
  by (auto simp: topo_inv_def wellformedGraph_def topoIndegree_eq distinct_card)

lemma ready_iff:
  assumes "topo_inv tasks st" "i < length tasks"
  shows "toIndegree st (tKey (tasks ! i)) = 0 \<longleftrightarrow> readyAt tasks (set (toOrder st)) i"
  using assms by (auto simp: topo_inv_def readyAt_def card_eq_0_iff)

lemma same_key: "distinct (map tKey ts) \<Longrightarrow> s \<in> set ts \<Longrightarrow> t \<in> set ts \<Longrightarrow> tKey s = tKey t \<Longrightarrow> s = t"
  by (simp add: distinct_map inj_on_def)

lemma topo_inv_take:
  assumes wf: "wellformedGraph tasks" and inv: "topo_inv tasks st"
    and r: "readyAt tasks (set (toOrder st)) i" and k: "k = tKey (tasks ! i)"
  shows "topo_inv tasks (takeReady (topoDependents tasks) k st)"
proof -
  let ?D = "set (toOrder st)" and ?st = "takeReady (topoDependents tasks) k st"
  have d: "distinct (map tKey tasks)" and dd: "\<forall>t \<in> set tasks. distinct (deps t)"
    using wf by (auto simp: wellformedGraph_def)
  have i: "i < length tasks" "k \<notin> ?D" "set (deps (tasks ! i)) \<subseteq> ?D" using r k by (auto simp: readyAt_def)
  have dep: "topoDependents tasks k = map tKey (filter (\<lambda>t. k \<in> set (deps t)) tasks)"
    by (rule topoDependents_eq [OF dd])
  have dist: "distinct (topoDependents tasks k)" unfolding dep using d by (simp add: distinct_map_filter)
  have mem: "tKey t \<in> set (topoDependents tasks k) \<longleftrightarrow> k \<in> set (deps t)" if "t \<in> set tasks" for t
    using that same_key [OF d] unfolding dep by auto
  have ind: "toIndegree ?st e = (if e = k then -1 else toIndegree st e)
      - (if e \<in> set (topoDependents tasks k) then 1 else 0)" for e
    unfolding takeReady_def by (simp add: fold_decrement [OF dist])
  have ord: "set (toOrder ?st) = insert k ?D" by (simp add: takeReady_def)
  have counts: "toIndegree ?st (tKey t) = (if tKey t \<in> insert k ?D then -1 else int (card (set (deps t) - insert k ?D)))"
    if t: "t \<in> set tasks" for t
  proof -
    have old: "toIndegree st (tKey t) = (if tKey t \<in> ?D then -1 else int (card (set (deps t) - ?D)))"
      using inv t by (auto simp: topo_inv_def)
    show ?thesis
    proof (cases "tKey t = k")
      case True
      then have "t = tasks ! i" using same_key [OF d t] i(1) k by auto
      then have "k \<notin> set (deps t)" using wf t True by (auto simp: wellformedGraph_def)
      then show ?thesis using True mem [OF t] by (simp add: ind)
    next
      case False
      show ?thesis
      proof (cases "k \<in> set (deps t)")
        case True
        then have "tKey t \<notin> ?D" using inv t i(2) by (auto simp: topo_inv_def)
        moreover have "set (deps t) - insert k ?D = (set (deps t) - ?D) - {k}" by auto
        moreover have "card (set (deps t) - ?D) \<noteq> 0" using True i(2) by (auto simp: card_eq_0_iff)
        then have "int (card (set (deps t) - ?D) - 1) = int (card (set (deps t) - ?D)) - 1" by linarith
        ultimately show ?thesis using True False old mem [OF t] i(2) by (simp add: ind card_Diff_singleton)
      next
        case F: False
        then have "set (deps t) - insert k ?D = set (deps t) - ?D" by auto
        then show ?thesis using F False old mem [OF t] by (simp add: ind)
      qed
    qed
  qed
  have closed: "set (deps t) \<subseteq> insert k ?D" if "t \<in> set tasks" "tKey t \<in> insert k ?D" for t
  proof (cases "tKey t = k")
    case True
    then have "t = tasks ! i" using same_key [OF d that(1)] i(1) k by auto
    then show ?thesis using i(3) by auto
  qed (use that inv in \<open>auto simp: topo_inv_def\<close>)
  have "k \<in> tKey ` set tasks" using i(1) k by auto
  moreover have "distinct (toOrder ?st)" using inv i(2) by (simp add: topo_inv_def takeReady_def)
  ultimately show ?thesis
    using counts closed inv unfolding topo_inv_def ord by auto
qed

lemma exists_ready:
  assumes wf: "wellformedGraph tasks" and ac: "acyclic (edges tasks (topoIndexes tasks))"
    and miss: "\<not> tKey ` set tasks \<subseteq> D"
  shows "\<exists>i. readyAt tasks D i"
proof -
  let ?E = "edges tasks (topoIndexes tasks)"
  have d: "distinct (map tKey tasks)" using wf by (simp add: wellformedGraph_def)
  have E: "(tKey t, x) \<in> ?E" if "t \<in> set tasks" "x \<in> set (deps t)" for t x
  proof -
    from that(1) obtain i where i: "i < length tasks" "tasks ! i = t" by (auto simp: in_set_conv_nth)
    have "depsOf tasks (topoIndexes tasks) (tKey t) = deps t"
      using i topoIndexes_nth [OF d i(1)] by (simp add: depsOf_def)
    moreover have "x \<noteq> tKey t" "x \<in> tKey ` set tasks" using wf that by (auto simp: wellformedGraph_def)
    then obtain j where "j < length tasks" "tKey (tasks ! j) = x" by (auto simp: in_set_conv_nth)
    then have "topoIndexes tasks x = Some j" using topoIndexes_iff [OF d] by blast
    ultimately show ?thesis using that \<open>x \<noteq> tKey t\<close> by (auto simp: edges_def)
  qed
  have "?E \<subseteq> (\<Union>k. {k} \<times> set (depsOf tasks (topoIndexes tasks) k))" by (auto simp: edges_def)
  have dom: "?E \<subseteq> UNIV \<times> tKey ` set tasks"
    using topoIndexes_iff [OF d] by (fastforce simp: edges_def)
  let ?R = "(?E \<inter> (tKey ` set tasks) \<times> (tKey ` set tasks))\<inverse>"
  have "wf ?R"
  proof (rule finite_acyclic_wf)
    show "finite ?R" by (simp add: finite_converse)
    show "acyclic ?R" using ac by (auto simp: acyclic_converse intro: acyclic_subset)
  qed
  moreover obtain z0 where "z0 \<in> tKey ` set tasks - D" using miss by auto
  ultimately obtain z where z: "z \<in> tKey ` set tasks - D" "\<And>y. (y, z) \<in> ?R \<Longrightarrow> y \<notin> tKey ` set tasks - D"
    using wfE_min [of ?R z0 "tKey ` set tasks - D"] by metis
  then obtain i where i: "i < length tasks" "tKey (tasks ! i) = z" by (auto simp: in_set_conv_nth)
  have "x \<in> D" if x: "x \<in> set (deps (tasks ! i))" for x
  proof -
    have "(z, x) \<in> ?E" using E [of "tasks ! i" x] x i by auto
    then have "x \<in> tKey ` set tasks" "(x, z) \<in> ?R" using dom z(1) by auto
    then show ?thesis using z(2) by blast
  qed
  then have "readyAt tasks D i" using i z(1) by (auto simp: readyAt_def)
  then show ?thesis by blast
qed

lemma topoLoop_greedy:
  assumes wf: "wellformedGraph tasks" and ac: "acyclic (edges tasks (topoIndexes tasks))"
  shows "topo_inv tasks st \<Longrightarrow> n + length (toOrder st) = length tasks \<Longrightarrow>
    \<exists>ks. topoLoop n tasks (topoIndexes tasks) (topoDependents tasks) st = Some (toOrder st @ ks) \<and>
      length ks = n \<and> greedyFrom tasks (set (toOrder st)) ks \<and> distinct (toOrder st @ ks) \<and>
      set ks \<subseteq> tKey ` set tasks"
proof (induction n arbitrary: st)
  case 0
  then show ?case by (auto simp: topo_inv_def)
next
  case (Suc n)
  let ?D = "set (toOrder st)"
  have d: "distinct (map tKey tasks)" using wf by (simp add: wellformedGraph_def)
  have "card ?D < card (tKey ` set tasks)"
    using Suc.prems d distinct_card [of "toOrder st"] distinct_card [OF d] by (simp add: topo_inv_def)
  then have "\<not> tKey ` set tasks \<subseteq> ?D" using card_mono [of ?D "tKey ` set tasks"] by auto
  then obtain i0 where "readyAt tasks ?D i0" using exists_ready [OF wf ac] by blast
  then obtain i where i: "readyAt tasks ?D i" "\<forall>j < i. \<not> readyAt tasks ?D j"
    using exists_least_iff [of "readyAt tasks ?D"] by blast
  let ?k = "tKey (tasks ! i)"
  have il: "i < length tasks" using i(1) by (simp add: readyAt_def)
  have "find (\<lambda>t. toIndegree st (tKey t) = 0) tasks = Some (tasks ! i)"
    using i il ready_iff [OF Suc.prems(1)] by (auto simp: find_Some_iff)
  then have pick: "pickReady tasks (topoIndexes tasks) (toIndegree st) = ?k"
    by (simp add: pickReady_find [OF d])
  have ne: "?k \<noteq> []" using wf nth_mem [OF il] unfolding wellformedGraph_def by (metis imageI)
  let ?st = "takeReady (topoDependents tasks) ?k st"
  have ord: "toOrder ?st = toOrder st @ [?k]" by (simp add: takeReady_def)
  obtain ks where ks: "topoLoop n tasks (topoIndexes tasks) (topoDependents tasks) ?st = Some (toOrder ?st @ ks)"
    "length ks = n" "greedyFrom tasks (set (toOrder ?st)) ks" "distinct (toOrder ?st @ ks)" "set ks \<subseteq> tKey ` set tasks"
    using Suc.IH [OF topo_inv_take [OF wf Suc.prems(1) i(1) refl]] Suc.prems(2) ord by auto
  have "topoLoop (Suc n) tasks (topoIndexes tasks) (topoDependents tasks) st = Some (toOrder st @ ?k # ks)"
    using ks(1) pick ne ord by simp
  moreover have "greedyFrom tasks ?D (?k # ks)" using ks(3) i il ord by auto
  ultimately show ?case using ks ord il by (intro exI [of _ "?k # ks"]) auto
qed

lemma greedy_deps_before:
  "greedyFrom tasks D ks \<Longrightarrow> distinct (map tKey tasks) \<Longrightarrow> t \<in> set tasks \<Longrightarrow> i < length ks \<Longrightarrow>
     ks ! i = tKey t \<Longrightarrow> set (deps t) \<subseteq> D \<union> set (take i ks)"
proof (induction ks arbitrary: D i)
  case (Cons k ks)
  then show ?case
  proof (cases i)
    case 0
    then obtain j where j: "j < length tasks" "tKey (tasks ! j) = tKey t" "readyAt tasks D j"
      using Cons.prems(1,4,5) by auto
    then have "tasks ! j = t" using same_key [OF Cons.prems(2) _ Cons.prems(3)] by simp
    then show ?thesis using j(3) by (auto simp: readyAt_def)
  next
    case (Suc m)
    then have "set (deps t) \<subseteq> insert k D \<union> set (take m ks)" using Cons by auto
    then show ?thesis using Suc by auto
  qed
qed simp

lemma greedy_unique:
  "greedyFrom tasks D ks \<Longrightarrow> greedyFrom tasks D ls \<Longrightarrow> length ks = length ls \<Longrightarrow> ks = ls"
proof (induction ks arbitrary: D ls)
  case (Cons k ks)
  then obtain l ls' where ls: "ls = l # ls'" by (cases ls) auto
  obtain i where i: "tKey (tasks ! i) = k" "readyAt tasks D i" "\<forall>j < i. \<not> readyAt tasks D j"
    using Cons.prems(1) by auto
  obtain j where j: "tKey (tasks ! j) = l" "readyAt tasks D j" "\<forall>m < j. \<not> readyAt tasks D m"
    using Cons.prems(2) ls by auto
  have "i = j" using i(2,3) j(2,3) by (metis linorder_neqE_nat)
  then show ?case using Cons i(1) j(1) ls by auto
qed simp

lemma topoOrder_correct:
  assumes "wellformedGraph tasks" "acyclic (edges tasks (topoIndexes tasks))"
  shows "\<exists>order. topoOrder tasks = Some order \<and> distinct order \<and> set order = tKey ` set tasks \<and>
    greedyFrom tasks {} order"
proof -
  obtain ks where ks: "topoOrder tasks = Some ks" "length ks = length tasks" "greedyFrom tasks {} ks"
    "distinct ks" "set ks \<subseteq> tKey ` set tasks"
    using topoLoop_greedy [OF assms topo_inv_init [OF assms(1)], of "length tasks"]
    unfolding topoOrder_def by auto
  have "distinct (map tKey tasks)" using assms(1) by (simp add: wellformedGraph_def)
  then have "card (set ks) = card (tKey ` set tasks)"
    using distinct_card [OF ks(4)] ks(2) distinct_card [of "map tKey tasks"] by simp
  then have "set ks = tKey ` set tasks" using ks(5) by (simp add: card_subset_eq)
  then show ?thesis using ks by blast
qed

end
