(* ===== verification/PlanValidate.thy ===== *)
theory PlanValidate
  imports PlanGraph
begin

text \<open>
  Validation, ordering and numbering of plans: \<open>ValidateProblems\<close>, \<open>Validate\<close>,
  \<open>TopologicalOrder\<close>, \<open>Tasks\<close>, \<open>Render\<close> and the JSON entry \<open>Parse\<close> of
  \<^verbatim>\<open>planspec.go\<close>, and what a validated plan satisfies.
\<close>

section \<open>ValidateProblems\<close>

definition validateSpec :: "unicode \<Rightarrow> spec \<Rightarrow> problem list \<times> spec" where
  "validateSpec u s0 =
     (let s = fst (prepareSpec u s0); problems = snd (prepareSpec u s0);
          n = length (spTasks s);
          pv = (if spVersion s \<noteq> CurrentVersion
                then [problemAt ''version.unsupported'' ''version'' (''version must be '' @ showInt CurrentVersion)] else []);
          pt = (if spTitle s = [] then [problemAt ''title.required'' ''title'' ''title is required''] else []);
          ps = (if spSummary s = [] then [problemAt ''summary.required'' ''summary'' ''summary is required''] else []);
          p0 = (if n = 0 then [problemAt ''tasks.required'' ''tasks'' ''at least one task is required''] else []);
          pl = (if n > 100 then [problemAt ''tasks.limit'' ''tasks'' ''at most 100 tasks are allowed''] else []);
          k = checkTasks u 0 Map.empty Map.empty (spTasks s);
          pk = fst k; taskIndexes = fst (snd k); acc = snd (snd k);
          pd = checkAllDeps u taskIndexes 0 (spTasks s);
          cycle = dependencyCycle (spTasks s) taskIndexes;
          pc = (if cycle = [] then [] else [problemAt ''dependency.cycle'' ''tasks''
                 (''task dependency cycle detected: '' @ joinWith '' -> '' cycle)]);
          fin = items (vdAcceptance (spFinalDef s));
          pf = (if fin = [] then [problemAt ''finalValidation.required'' ''finalValidation.acceptance''
                  ''final validation requires at least one acceptance item''] else []);
          pa = fst (checkItems u ''finalValidation'' 0 acc fin);
          pm = (if \<not> spCompat s \<and> vdCommands (spFinalDef s) = []
                then [problemAt ''finalValidation.commands.required'' ''finalValidation.commands''
                  ''final validation requires at least one validation command suggestion''] else [])
      in (problems @ pv @ pt @ ps @ p0 @ pl @ pk @ pd @ pc @ pf @ pa @ pm, s))"

text \<open>The pointer form: nil is reported, and the plan is replaced by its normalised form.\<close>

definition ValidateProblems :: "unicode \<Rightarrow> spec option \<Rightarrow> problem list \<times> spec option" where
  "ValidateProblems u s =
     (case s of
        None \<Rightarrow> ([problemAt ''spec.required'' ''$'' ''PlanSpec is required''], None)
      | Some s0 \<Rightarrow> (let (ps, s1) = validateSpec u s0 in (ps, Some s1)))"

text \<open>\<^verbatim>\<open>Validate\<close>: the error carries the problems; \<open>errorText\<close> is its \<^verbatim>\<open>Error()\<close>.\<close>

definition Validate :: "unicode \<Rightarrow> spec option \<Rightarrow> problem list + spec option" where
  "Validate u s = (let (ps, s1) = ValidateProblems u s in if ps = [] then Inr s1 else Inl ps)"

definition errorText :: "problem list \<Rightarrow> gostring" where
  "errorText ps = joinWith ''; '' (map (\<lambda>p. pPath p @ '': '' @ pMessage p) ps)"

section \<open>TopologicalOrder, Tasks, Render\<close>

datatype order_error = InvalidPlan "problem list" | NoTopologicalOrder

definition TopologicalOrder :: "unicode \<Rightarrow> spec \<Rightarrow> order_error + gostring list" where
  "TopologicalOrder u s0 =
     (case validateSpec u s0 of (ps, s) \<Rightarrow>
        if ps \<noteq> [] then Inl (InvalidPlan ps)
        else (case topoOrder (spTasks s) of None \<Rightarrow> Inl NoTopologicalOrder | Some ord \<Rightarrow> Inr ord))"

record numbered_task =
  ntKey :: gostring
  ntPosition :: nat
  ntTask :: task

definition zeroTask :: task where
  "zeroTask = \<lparr>tKey = [], tTitle = [], tDependsOn = None, tScope = [], tInputs = None, tOutputs = None,
     tRisks = None, tAcceptance = None, tAcceptanceItems = None, tValidationCommands = None\<rparr>"

definition byKey :: "task list \<Rightarrow> gostring \<rightharpoonup> task" where
  "byKey tasks = fold (\<lambda>t m. m(tKey t \<mapsto> t)) tasks Map.empty"

text \<open>The search for an unused key \<^verbatim>\<open>FINAL-k\<close>; \<open>finalKey_fuel\<close> below: one step per used key
  is enough.\<close>

fun finalKeyFrom :: "nat \<Rightarrow> gostring set \<Rightarrow> gostring \<Rightarrow> nat \<Rightarrow> gostring option" where
  "finalKeyFrom 0 used key suffix = (if key \<in> used then None else Some key)"
| "finalKeyFrom (Suc n) used key suffix =
     (if key \<in> used then finalKeyFrom n used (''FINAL-'' @ showNat suffix) (suffix + 1) else Some key)"

definition finalKey :: "spec \<Rightarrow> gostring list \<Rightarrow> gostring" where
  "finalKey s order =
     (if spCompat s then ''P'' @ show03 (length order + 1)
      else the (finalKeyFrom (length (spTasks s)) (tKey ` set (spTasks s)) ''FINAL'' 2))"

text \<open>\<^verbatim>\<open>append([]T(nil), xs...)\<close> is nil when there is nothing to append.\<close>

definition appendNil :: "'a list \<Rightarrow> 'a list option" where
  "appendNil xs = (if xs = [] then None else Some xs)"

definition finalTask :: "spec \<Rightarrow> gostring list \<Rightarrow> task" where
  "finalTask s order = zeroTask\<lparr>tKey := finalKey s order, tTitle := ''Final validation'',
     tDependsOn := appendNil order, tScope := [''.''],
     tAcceptance := acceptanceDescriptions (vdAcceptance (spFinalDef s)),
     tAcceptanceItems := appendNil (items (vdAcceptance (spFinalDef s))),
     tValidationCommands := appendNil (vdCommands (spFinalDef s))\<rparr>"

definition numberTasks :: "spec \<Rightarrow> gostring list \<Rightarrow> numbered_task list" where
  "numberTasks s order =
     map (\<lambda>(i, key). \<lparr>ntKey = key, ntPosition = i + 1,
            ntTask = (case byKey (spTasks s) key of Some t \<Rightarrow> t | None \<Rightarrow> zeroTask)\<rparr>)
         (enumerate 0 order)
     @ [\<lparr>ntKey = finalKey s order, ntPosition = length order + 1, ntTask = finalTask s order\<rparr>]"

definition Tasks :: "unicode \<Rightarrow> spec \<Rightarrow> numbered_task list" where
  "Tasks u s0 =
     (let s = fst (prepareSpec u s0) in
      case TopologicalOrder u s of
        Inr order \<Rightarrow> numberTasks s order
      | Inl _ \<Rightarrow> (let s' = fst (prepareSpec u s) in numberTasks s' (map tKey (spTasks s'))))"

definition newline :: gostring where
  "newline = [CHR 0x0A]"

definition renderList :: "gostring \<Rightarrow> gostring list \<Rightarrow> bool \<Rightarrow> bool \<Rightarrow> gostring" where
  "renderList title values code commands =
     (if values = [] then []
      else newline @ ''**'' @ title @ ''**'' @ newline @
        concat (map (\<lambda>v. if code \<or> commands then ''- `'' @ v @ ''`'' @ newline else ''- '' @ v @ newline) values))"

text \<open>The two labels are Chinese text, written as UTF-8 bytes, as is the middle dot.\<close>

definition compatibilityLabel :: "bool \<Rightarrow> gostring" where
  "compatibilityLabel c =
     (if c then [CHR 0xE5, CHR 0x85, CHR 0xBC, CHR 0xE5, CHR 0xAE, CHR 0xB9]
      else [CHR 0xE7, CHR 0xBB, CHR 0x93, CHR 0xE6, CHR 0x9E, CHR 0x84, CHR 0xE5, CHR 0x8C, CHR 0x96])
     @ [CHR 0xE6, CHR 0xA8, CHR 0xA1, CHR 0xE5, CHR 0xBC, CHR 0x8F]"

definition middleDot :: gostring where
  "middleDot = [CHR 0xC2, CHR 0xB7]"

definition strings :: "gostring list option \<Rightarrow> gostring list" where
  "strings a = (case a of None \<Rightarrow> [] | Some xs \<Rightarrow> xs)"

definition renderTask :: "numbered_task \<Rightarrow> gostring" where
  "renderTask item =
     (let t = ntTask item in
      newline @ ''### '' @ ntKey item @ '' '' @ middleDot @ '' '' @ tTitle t @ newline @
      renderList ''Dependencies'' (deps t) False False @
      renderList ''Scope'' (tScope t) True False @
      renderList ''Inputs'' (strings (tInputs t)) False False @
      renderList ''Outputs'' (strings (tOutputs t)) False False @
      renderList ''Risks'' (strings (tRisks t)) False False @
      newline @ ''**Acceptance**'' @ newline @
      concat (map (\<lambda>a. ''- [ ] `'' @ aiKey a @ ''` '' @ aiDescription a @ newline) (items (tAcceptanceItems t))) @
      renderList ''Suggested validation commands'' (strings (tValidationCommands t)) True True)"

definition Render :: "unicode \<Rightarrow> spec \<Rightarrow> gostring" where
  "Render u s0 =
     (let s = fst (prepareSpec u s0) in
      ''# '' @ spTitle s @ newline @ newline @ ''> PlanSpec v'' @ showInt (spVersion s) @ '' '' @ middleDot @ '' '' @
      compatibilityLabel (spCompat s) @ newline @ newline @ ''## Summary'' @ newline @ newline @
      spSummary s @ newline @ newline @ ''## Tasks'' @ newline @
      concat (map renderTask (Tasks u s)))"

section \<open>The JSON form\<close>

record raw_task =
  rtKey :: "gostring option"
  rtTitle :: gostring
  rtDependsOn :: "gostring list option"
  rtScope :: "gostring list"
  rtInputs :: "gostring list option"
  rtOutputs :: "gostring list option"
  rtRisks :: "gostring list option"
  rtAcceptance :: "json option"
  rtValidationCommands :: "gostring list option"

record raw_spec =
  rsVersion :: "int option"
  rsCompat :: "bool option"
  rsTitle :: gostring
  rsSummary :: gostring
  rsTasks :: "raw_task list"
  rsFinalValidation :: "json option"

record raw_validation_definition =
  rvAcceptance :: "json option"
  rvCommands :: "gostring list option"

datatype parse_error =
    Decode json_error
  | NotArray
  | MixedItems
  | BadItem nat json_error
  | InField gostring parse_error
  | Problems "problem list"

definition decodeItem :: "json \<Rightarrow> json_error + acceptance_item" where
  "decodeItem v = decodeStruct [''key'', ''description'']
     (\<lambda>n w r. if n = ''key'' then bindR (decodeString (aiKey r) w) (\<lambda>s. Inr (r\<lparr>aiKey := s\<rparr>))
              else bindR (decodeString (aiDescription r) w) (\<lambda>s. Inr (r\<lparr>aiDescription := s\<rparr>)))
     \<lparr>aiKey = [], aiDescription = []\<rparr> v"

text \<open>\<^verbatim>\<open>decodeAcceptance\<close>: a list of descriptions (legacy) or of objects, never mixed.\<close>

fun decodeEntries :: "nat \<Rightarrow> bool \<Rightarrow> bool \<Rightarrow> json list \<Rightarrow> parse_error + acceptance_item list \<times> bool" where
  "decodeEntries i legacy structured [] = Inr ([], legacy)"
| "decodeEntries i legacy structured (JStr d # es) =
     (if structured then Inl MixedItems
      else bindR (decodeEntries (i + 1) True structured es)
             (\<lambda>(xs, l). Inr (\<lparr>aiKey = [], aiDescription = d\<rparr> # xs, l)))"
| "decodeEntries i legacy structured (e # es) =
     (if legacy then Inl MixedItems
      else (case decodeItem e of Inl err \<Rightarrow> Inl (BadItem i err)
            | Inr it \<Rightarrow> bindR (decodeEntries (i + 1) legacy True es) (\<lambda>(xs, l). Inr (it # xs, l))))"

definition decodeAcceptance :: "json option \<Rightarrow> parse_error + acceptance_item list option \<times> bool" where
  "decodeAcceptance data =
     (case data of None \<Rightarrow> Inr (None, False) | Some JNull \<Rightarrow> Inr (None, False)
      | Some (JArr es) \<Rightarrow> bindR (decodeEntries 0 False False es) (\<lambda>(xs, l). Inr (Some xs, l))
      | Some _ \<Rightarrow> Inl NotArray)"

definition setRawTask :: "gostring \<Rightarrow> json \<Rightarrow> raw_task \<Rightarrow> json_error + raw_task" where
  "setRawTask n v r =
     (if n = ''key'' then bindR (decodeStringPtr v) (\<lambda>x. Inr (r\<lparr>rtKey := x\<rparr>))
      else if n = ''title'' then bindR (decodeString (rtTitle r) v) (\<lambda>x. Inr (r\<lparr>rtTitle := x\<rparr>))
      else if n = ''dependsOn'' then bindR (decodeStringSlice v) (\<lambda>x. Inr (r\<lparr>rtDependsOn := x\<rparr>))
      else if n = ''scope'' then bindR (decodeStringSlice v) (\<lambda>x. Inr (r\<lparr>rtScope := strings x\<rparr>))
      else if n = ''inputs'' then bindR (decodeStringSlice v) (\<lambda>x. Inr (r\<lparr>rtInputs := x\<rparr>))
      else if n = ''outputs'' then bindR (decodeStringSlice v) (\<lambda>x. Inr (r\<lparr>rtOutputs := x\<rparr>))
      else if n = ''risks'' then bindR (decodeStringSlice v) (\<lambda>x. Inr (r\<lparr>rtRisks := x\<rparr>))
      else if n = ''acceptance'' then Inr (r\<lparr>rtAcceptance := Some v\<rparr>)
      else bindR (decodeStringSlice v) (\<lambda>x. Inr (r\<lparr>rtValidationCommands := x\<rparr>)))"

definition decodeRawTask :: "json \<Rightarrow> json_error + raw_task" where
  "decodeRawTask = decodeStruct
     [''key'', ''title'', ''dependsOn'', ''scope'', ''inputs'', ''outputs'', ''risks'', ''acceptance'', ''validationCommands'']
     setRawTask
     \<lparr>rtKey = None, rtTitle = [], rtDependsOn = None, rtScope = [], rtInputs = None, rtOutputs = None,
      rtRisks = None, rtAcceptance = None, rtValidationCommands = None\<rparr>"

fun decodeRawTasks :: "json list \<Rightarrow> json_error + raw_task list" where
  "decodeRawTasks [] = Inr []"
| "decodeRawTasks (v # vs) = bindR (decodeRawTask v) (\<lambda>t. bindR (decodeRawTasks vs) (\<lambda>ts. Inr (t # ts)))"

definition setRawSpec :: "gostring \<Rightarrow> json \<Rightarrow> raw_spec \<Rightarrow> json_error + raw_spec" where
  "setRawSpec n v r =
     (if n = ''version'' then bindR (decodeIntPtr v) (\<lambda>x. Inr (r\<lparr>rsVersion := x\<rparr>))
      else if n = ''compatibilityMode'' then bindR (decodeBoolPtr v) (\<lambda>x. Inr (r\<lparr>rsCompat := x\<rparr>))
      else if n = ''title'' then bindR (decodeString (rsTitle r) v) (\<lambda>x. Inr (r\<lparr>rsTitle := x\<rparr>))
      else if n = ''summary'' then bindR (decodeString (rsSummary r) v) (\<lambda>x. Inr (r\<lparr>rsSummary := x\<rparr>))
      else if n = ''tasks'' then
        (case v of JNull \<Rightarrow> Inr (r\<lparr>rsTasks := []\<rparr>)
         | JArr vs \<Rightarrow> bindR (decodeRawTasks vs) (\<lambda>ts. Inr (r\<lparr>rsTasks := ts\<rparr>))
         | _ \<Rightarrow> Inl (UnmarshalType ''[]rawTask''))
      else Inr (r\<lparr>rsFinalValidation := Some v\<rparr>))"

definition decodeRawSpec :: "json \<Rightarrow> json_error + raw_spec" where
  "decodeRawSpec = decodeStruct
     [''version'', ''compatibilityMode'', ''title'', ''summary'', ''tasks'', ''finalValidation'']
     setRawSpec
     \<lparr>rsVersion = None, rsCompat = None, rsTitle = [], rsSummary = [], rsTasks = [], rsFinalValidation = None\<rparr>"

definition decodeRawDefinition :: "json \<Rightarrow> json_error + raw_validation_definition" where
  "decodeRawDefinition = decodeStruct [''acceptance'', ''commands'']
     (\<lambda>n v r. if n = ''acceptance'' then Inr (r\<lparr>rvAcceptance := Some v\<rparr>)
              else bindR (decodeStringSlice v) (\<lambda>x. Inr (r\<lparr>rvCommands := x\<rparr>)))
     \<lparr>rvAcceptance = None, rvCommands = None\<rparr>"

text \<open>One task of \<^verbatim>\<open>toSpec\<close>: every absent member switches compatibility mode on.\<close>

definition rawToTask :: "nat \<Rightarrow> raw_task \<Rightarrow> parse_error + task \<times> bool" where
  "rawToTask i r =
     (case decodeAcceptance (rtAcceptance r) of
        Inl e \<Rightarrow> Inl (InField (''tasks['' @ showNat i @ ''].acceptance'') e)
      | Inr (its, legacy) \<Rightarrow>
          Inr (\<lparr>tKey = (case rtKey r of None \<Rightarrow> [] | Some k \<Rightarrow> k), tTitle = rtTitle r,
                tDependsOn = rtDependsOn r, tScope = rtScope r, tInputs = rtInputs r,
                tOutputs = rtOutputs r, tRisks = rtRisks r,
                tAcceptance = (if legacy then acceptanceDescriptions its else None),
                tAcceptanceItems = (if legacy then None else its),
                tValidationCommands = rtValidationCommands r\<rparr>,
               rtKey r = None \<or> rtDependsOn r = None \<or> rtInputs r = None \<or> rtOutputs r = None \<or>
               rtRisks r = None \<or> rtValidationCommands r = None \<or> legacy))"

fun rawToTasks :: "nat \<Rightarrow> raw_task list \<Rightarrow> parse_error + task list \<times> bool" where
  "rawToTasks i [] = Inr ([], False)"
| "rawToTasks i (r # rs) =
     bindR (rawToTask i r) (\<lambda>(t, c). bindR (rawToTasks (i + 1) rs) (\<lambda>(ts, d). Inr (t # ts, c \<or> d)))"

definition toSpec :: "raw_spec \<Rightarrow> parse_error + spec" where
  "toSpec raw =
     bindR (rawToTasks 0 (rsTasks raw)) (\<lambda>(ts, c).
       let version = (case rsVersion raw of None \<Rightarrow> CurrentVersion | Some v \<Rightarrow> v);
           mode = (rsVersion raw = None \<or> rsCompat raw \<noteq> Some False \<or> c);
           s = \<lparr>spVersion = version, spCompat = mode, spTitle = rsTitle raw, spSummary = rsSummary raw,
                spTasks = ts, spFinalValidation = None,
                spFinalDef = \<lparr>vdAcceptance = None, vdCommands = []\<rparr>\<rparr>
       in case rsFinalValidation raw of
            None \<Rightarrow> Inr s
          | Some JNull \<Rightarrow> Inr s
          | Some (JArr es) \<Rightarrow>
              (case decodeAcceptance (rsFinalValidation raw) of
                 Inl e \<Rightarrow> Inl (InField ''finalValidation'' e)
               | Inr (its, legacy) \<Rightarrow>
                   if legacy then Inr (s\<lparr>spCompat := True, spFinalValidation := acceptanceDescriptions its\<rparr>)
                   else Inr (s\<lparr>spFinalDef := (spFinalDef s)\<lparr>vdAcceptance := its\<rparr>\<rparr>))
          | Some v \<Rightarrow>
              (case decodeRawDefinition v of
                 Inl e \<Rightarrow> Inl (InField ''finalValidation'' (Decode e))
               | Inr d \<Rightarrow>
                   (case decodeAcceptance (rvAcceptance d) of
                      Inl e \<Rightarrow> Inl (InField ''finalValidation.acceptance'' e)
                    | Inr (its, legacy) \<Rightarrow>
                        let s1 = s\<lparr>spCompat := (mode \<or> legacy \<or> rvCommands d = None),
                                  spFinalDef := (spFinalDef s)\<lparr>vdCommands := strings (rvCommands d)\<rparr>\<rparr>
                        in if legacy then Inr (s1\<lparr>spFinalValidation := acceptanceDescriptions its\<rparr>)
                           else Inr (s1\<lparr>spFinalDef := (spFinalDef s1)\<lparr>vdAcceptance := its\<rparr>\<rparr>))))"

text \<open>\<^verbatim>\<open>Parse\<close> on one decoded JSON value; the bytes-to-value step is the library's.\<close>

definition Parse :: "unicode \<Rightarrow> json \<Rightarrow> parse_error + spec" where
  "Parse u data =
     (case decodeRawSpec data of Inl e \<Rightarrow> Inl (Decode e)
      | Inr raw \<Rightarrow>
          bindR (toSpec raw) (\<lambda>s. case Validate u (Some s) of
             Inl ps \<Rightarrow> Inl (Problems ps) | Inr s' \<Rightarrow> Inr (the s')))"

section \<open>What an accepted plan satisfies\<close>

definition depRel :: "task list \<Rightarrow> (gostring \<times> gostring) set" where
  "depRel tasks = {(tKey t, d) | t d. t \<in> set tasks \<and> d \<in> set (deps t)}"

definition completeItems :: "acceptance_item list \<Rightarrow> bool" where
  "completeItems its \<longleftrightarrow> (\<forall>it \<in> set its. aiKey it \<noteq> [] \<and> aiDescription it \<noteq> [])"

definition taskItems :: "task list \<Rightarrow> acceptance_item list" where
  "taskItems tasks = concat (map (\<lambda>t. items (tAcceptanceItems t)) tasks)"

text \<open>The contract of a valid plan, stated on its normal form.\<close>

definition plan_ok :: "spec \<Rightarrow> bool" where
  "plan_ok s \<longleftrightarrow>
     spVersion s = CurrentVersion \<and> spTitle s \<noteq> [] \<and> spSummary s \<noteq> [] \<and>
     spTasks s \<noteq> [] \<and> length (spTasks s) \<le> 100 \<and>
     (\<forall>t \<in> set (spTasks s). tKey t \<noteq> [] \<and> tTitle t \<noteq> [] \<and> tScope t \<noteq> [] \<and> items (tAcceptanceItems t) \<noteq> []) \<and>
     distinct (map tKey (spTasks s)) \<and>
     completeItems (taskItems (spTasks s) @ items (vdAcceptance (spFinalDef s))) \<and>
     distinct (map aiKey (taskItems (spTasks s) @ items (vdAcceptance (spFinalDef s)))) \<and>
     items (vdAcceptance (spFinalDef s)) \<noteq> [] \<and>
     (\<forall>t \<in> set (spTasks s). set (deps t) \<subseteq> tKey ` set (spTasks s) \<and> tKey t \<notin> set (deps t)) \<and>
     acyclic (depRel (spTasks s)) \<and>
     (spCompat s \<or> vdCommands (spFinalDef s) \<noteq> [])"

lemma checkItemKey_ok:
  "fst (checkItemKey u path seen it) = [] \<longleftrightarrow> aiKey it = [] \<or> seen (aiKey it) = None"
  "dom (snd (checkItemKey u path seen it)) = dom seen \<union> (if aiKey it = [] then {} else {aiKey it})"
  by (auto simp: checkItemKey_def split: option.splits)

lemma checkItems_ok_aux:
  "(fst (checkItems u path j seen its) = [] \<longleftrightarrow>
     completeItems its \<and> distinct (map aiKey its) \<and> aiKey ` set its \<inter> dom seen = {}) \<and>
   (fst (checkItems u path j seen its) = [] \<longrightarrow>
     dom (snd (checkItems u path j seen its)) = dom seen \<union> aiKey ` set its)"
proof (induction its arbitrary: j seen)
  case (Cons it its)
  have unf: "fst (checkItems u path j seen (it # its)) = [] \<longleftrightarrow>
      aiKey it \<noteq> [] \<and> aiDescription it \<noteq> [] \<and> seen (aiKey it) = None \<and> completeItems its \<and>
      distinct (map aiKey its) \<and> aiKey ` set its \<inter> insert (aiKey it) (dom seen) = {}"
    using Cons.IH by (auto simp: Let_def checkItemKey_ok)
  then show ?case using Cons.IH
    by (auto simp: Let_def checkItemKey_ok completeItems_def)
qed (simp_all add: completeItems_def)

lemmas checkItems_ok = checkItems_ok_aux [THEN conjunct1] checkItems_ok_aux [THEN conjunct2, rule_format]

lemma checkTaskKey_ok:
  "fst (checkTaskKey u i keys t) = [] \<longleftrightarrow> tKey t \<noteq> [] \<and> keys (tKey t) = None"
  "dom (snd (checkTaskKey u i keys t)) = dom keys \<union> (if tKey t = [] then {} else {tKey t})"
  "snd (checkTaskKey u i keys t) k = Some j \<Longrightarrow> keys k = Some j \<or> (j = i \<and> k = tKey t \<and> k \<noteq> [])"
  by (auto simp: checkTaskKey_def Let_def split: option.splits if_splits)

lemma checkTaskFields_ok:
  "checkTaskFields i t = [] \<longleftrightarrow> tTitle t \<noteq> [] \<and> tScope t \<noteq> [] \<and> items (tAcceptanceItems t) \<noteq> []"
  by (auto simp: checkTaskFields_def Let_def)

lemma checkTasks_keys:
  "fst (snd (checkTasks u n keys acc ts)) k = Some i \<Longrightarrow>
     keys k = Some i \<or> (n \<le> i \<and> i < n + length ts \<and> tKey (ts ! (i - n)) = k \<and> k \<noteq> [])"
proof (induction ts arbitrary: n keys acc)
  case (Cons t ts)
  let ?k = "snd (checkTaskKey u n keys t)"
  consider "?k k = Some i" | "Suc n \<le> i" "i < Suc n + length ts" "tKey (ts ! (i - Suc n)) = k" "k \<noteq> []"
    using Cons.IH [of "n + 1" ?k] Cons.prems by (auto simp: Let_def)
  then show ?case
  proof cases
    case 1
    then show ?thesis using checkTaskKey_ok(3) by fastforce
  next
    case 2
    then have "(t # ts) ! (i - n) = ts ! (i - Suc n)" by (simp add: nth_Cons' Suc_diff_le [symmetric])
    then show ?thesis using 2 by auto
  qed
qed simp

lemma checkTasks_known:
  "dom keys \<union> {k \<in> tKey ` set ts. k \<noteq> []} \<subseteq> dom (fst (snd (checkTasks u n keys acc ts)))"
proof (induction ts arbitrary: n keys acc)
  case (Cons x ts)
  let ?k = "snd (checkTaskKey u n keys x)"
  have "dom ?k \<union> {k \<in> tKey ` set ts. k \<noteq> []} \<subseteq> dom (fst (snd (checkTasks u n keys acc (x # ts))))"
    using Cons.IH [where keys = ?k] by (simp add: Let_def)
  then show ?case by (cases "tKey x = []") (auto simp: checkTaskKey_ok(2))
qed simp

lemma checkTasks_indexed: "indexed ts (fst (snd (checkTasks u 0 Map.empty acc ts)))"
proof -
  let ?m = "fst (snd (checkTasks u 0 Map.empty acc ts))"
  have "?m k = Some i \<Longrightarrow> i < length ts \<and> tKey (ts ! i) = k \<and> k \<noteq> []" for k i
    using checkTasks_keys [of u 0 Map.empty acc ts k i] by simp
  moreover have "t \<in> set ts \<Longrightarrow> tKey t \<noteq> [] \<Longrightarrow> tKey t \<in> dom ?m" for t
    using checkTasks_known [of Map.empty ts u 0 acc] by blast
  ultimately show ?thesis unfolding indexed_def by blast
qed

lemma checkTasks_ok_aux:
  "(fst (checkTasks u n keys acc ts) = [] \<longleftrightarrow>
     (\<forall>t \<in> set ts. tKey t \<noteq> [] \<and> tTitle t \<noteq> [] \<and> tScope t \<noteq> [] \<and> items (tAcceptanceItems t) \<noteq> []) \<and>
     distinct (map tKey ts) \<and> tKey ` set ts \<inter> dom keys = {} \<and>
     completeItems (taskItems ts) \<and> distinct (map aiKey (taskItems ts)) \<and> aiKey ` set (taskItems ts) \<inter> dom acc = {}) \<and>
   (fst (checkTasks u n keys acc ts) = [] \<longrightarrow>
     dom (snd (snd (checkTasks u n keys acc ts))) = dom acc \<union> aiKey ` set (taskItems ts))"
proof (induction ts arbitrary: n keys acc)
  case (Cons t ts)
  define its where "its = items (tAcceptanceItems t)"
  define a where "a = checkItems u (''tasks['' @ showNat n @ '']'') 0 acc its"
  define k where "k = checkTaskKey u n keys t"
  have a: "fst a = [] \<longleftrightarrow> completeItems its \<and> distinct (map aiKey its) \<and> aiKey ` set its \<inter> dom acc = {}"
    "fst a = [] \<Longrightarrow> dom (snd a) = dom acc \<union> aiKey ` set its"
    unfolding a_def by (rule checkItems_ok, erule checkItems_ok)
  have k: "fst k = [] \<longleftrightarrow> tKey t \<noteq> [] \<and> tKey t \<notin> dom keys"
    "tKey t \<noteq> [] \<Longrightarrow> dom (snd k) = insert (tKey t) (dom keys)"
    unfolding k_def by (auto simp: checkTaskKey_ok)
  have unf: "fst (checkTasks u n keys acc (t # ts)) = [] \<longleftrightarrow>
      fst k = [] \<and> tTitle t \<noteq> [] \<and> tScope t \<noteq> [] \<and> its \<noteq> [] \<and> fst a = [] \<and>
      fst (checkTasks u (n + 1) (snd k) (snd a) ts) = []"
    "snd (checkTasks u n keys acc (t # ts)) = snd (checkTasks u (n + 1) (snd k) (snd a) ts)"
    by (auto simp: Let_def a_def k_def its_def checkTaskFields_ok)
  have ti: "taskItems (t # ts) = its @ taskItems ts" by (simp add: taskItems_def its_def)
  have c: "completeItems (xs @ ys) \<longleftrightarrow> completeItems xs \<and> completeItems ys" for xs ys
    by (auto simp: completeItems_def)
  note IH = Cons.IH [of "n + 1" "snd k" "snd a"]
  show ?case
  proof (cases "fst k = [] \<and> fst a = []")
    case True
    then have fk: "fst k = []" and fa: "fst a = []" by simp_all
    note p = iffD1 [OF k(1) fk, THEN conjunct1] iffD1 [OF k(1) fk, THEN conjunct2]
      iffD1 [OF a(1) fa, THEN conjunct1] iffD1 [OF a(1) fa, THEN conjunct2, THEN conjunct1]
      iffD1 [OF a(1) fa, THEN conjunct2, THEN conjunct2]
    note d = k(2) [OF p(1)] a(2) [OF fa]
    note I = IH [THEN conjunct1, unfolded d] and J = IH [THEN conjunct2, unfolded d]
    have L: "fst (checkTasks u n keys acc (t # ts)) = [] \<longleftrightarrow>
        tTitle t \<noteq> [] \<and> tScope t \<noteq> [] \<and> its \<noteq> [] \<and> fst (checkTasks u (n + 1) (snd k) (snd a) ts) = []"
      unfolding unf using fk fa by simp
    have M: "distinct (map aiKey (its @ taskItems ts)) \<longleftrightarrow>
        distinct (map aiKey (taskItems ts)) \<and> aiKey ` set (taskItems ts) \<inter> aiKey ` set its = {}"
      using p(4) by (simp add: Int_commute)
    have N: "distinct (map tKey (t # ts)) \<longleftrightarrow> tKey t \<notin> tKey ` set ts \<and> distinct (map tKey ts)" by simp
    have O: "aiKey ` set (its @ taskItems ts) \<inter> dom acc = {} \<longleftrightarrow> aiKey ` set (taskItems ts) \<inter> dom acc = {}"
      using p(5) by (simp del: domIff add: Int_Un_distrib2 image_Un)
    have P: "(\<forall>x \<in> set (t # ts). Q x) \<longleftrightarrow> Q t \<and> (\<forall>x \<in> set ts. Q x)" for Q by simp
    have R: "tKey ` set (t # ts) \<inter> dom keys = {} \<longleftrightarrow> tKey ` set ts \<inter> dom keys = {}"
      "tKey ` set ts \<inter> insert (tKey t) (dom keys) = {} \<longleftrightarrow> tKey t \<notin> tKey ` set ts \<and> tKey ` set ts \<inter> dom keys = {}"
      "aiKey ` set (taskItems ts) \<inter> (dom acc \<union> aiKey ` set its) = {} \<longleftrightarrow>
         aiKey ` set (taskItems ts) \<inter> dom acc = {} \<and> aiKey ` set (taskItems ts) \<inter> aiKey ` set its = {}"
      using p(2) by (simp_all del: domIff add: Int_Un_distrib)
    let "(_ \<longleftrightarrow> ?RHS) \<and> _" = ?thesis
    show ?thesis
    proof (intro conjI impI)
      show "dom (snd (snd (checkTasks u n keys acc (t # ts)))) = dom acc \<union> aiKey ` set (taskItems (t # ts))"
        if "fst (checkTasks u n keys acc (t # ts)) = []"
        using J that unfolding L unf(2) ti by (simp add: Un_assoc image_Un)
    next
      have "(tKey t \<noteq> [] \<and> tTitle t \<noteq> [] \<and> tScope t \<noteq> [] \<and> items (tAcceptanceItems t) \<noteq> []) \<longleftrightarrow> tTitle t \<noteq> [] \<and> tScope t \<noteq> [] \<and> its \<noteq> []"
        using p(1) unfolding its_def by argo
      then show "(fst (checkTasks u n keys acc (t # ts)) = []) = ?RHS"
        unfolding L I M N O P R ti c using p by argo
    qed
  next
    case False
    then have F: "\<not> (tKey t \<noteq> [] \<and> tKey t \<notin> dom keys \<and> completeItems its \<and> distinct (map aiKey its) \<and>
        aiKey ` set its \<inter> dom acc = {})" using a(1) k(1) by argo
    have "fst (checkTasks u n keys acc (t # ts)) \<noteq> []" using False unf(1) by argo
    moreover have "aiKey ` set (its @ taskItems ts) \<inter> dom acc = {} \<Longrightarrow> aiKey ` set its \<inter> dom acc = {}"
      by auto
    moreover have "distinct (map aiKey (its @ taskItems ts)) \<Longrightarrow> distinct (map aiKey its)" by simp
    moreover have "tKey ` set (t # ts) \<inter> dom keys = {} \<Longrightarrow> tKey t \<notin> dom keys" by auto
    ultimately show ?thesis using F unfolding ti c by (metis list.set_intros(1))
  qed
qed (simp_all add: taskItems_def completeItems_def)

lemmas checkTasks_ok = checkTasks_ok_aux [THEN conjunct1] checkTasks_ok_aux [THEN conjunct2, rule_format]

lemma checkDeps_ok:
  "keys [] = None \<Longrightarrow> checkDeps u keys i key j ds = [] \<longleftrightarrow> key \<notin> set ds \<and> set ds \<subseteq> dom keys"
  by (induction ds arbitrary: j) (auto simp: Let_def)

lemma checkAllDeps_ok:
  "keys [] = None \<Longrightarrow> checkAllDeps u keys i ts = [] \<longleftrightarrow>
     (\<forall>t \<in> set ts. tKey t \<notin> set (deps t) \<and> set (deps t) \<subseteq> dom keys)"
  by (induction ts arbitrary: i) (auto simp: checkDeps_ok)

lemma depRel_edges:
  assumes idx: "indexed ts indexes" and d: "distinct (map tKey ts)" "\<forall>t \<in> set ts. tKey t \<noteq> []"
    and w: "\<forall>t \<in> set ts. tKey t \<notin> set (deps t) \<and> set (deps t) \<subseteq> tKey ` set ts"
  shows "edges ts indexes \<inter> tKey ` set ts \<times> UNIV = depRel ts"
proof -
  have known: "indexes (tKey t) \<noteq> None" if "t \<in> set ts" for t
    using d(2) idx that by (simp add: indexed_def)
  have at: "depsOf ts indexes (tKey t) = deps t" if "t \<in> set ts" for t
  proof -
    from known [OF that] obtain i where i: "indexes (tKey t) = Some i" by blast
    then have il: "i < length ts" "tKey (ts ! i) = tKey t" using idx by (auto simp: indexed_def)
    then have "ts ! i = t" using same_key [OF d(1) _ that] by simp
    then show ?thesis using i il by (simp add: depsOf_def)
  qed
  have e: "(tKey t, x) \<in> edges ts indexes \<longleftrightarrow> x \<in> set (deps t)" if t: "t \<in> set ts" for t x
  proof
    assume x: "x \<in> set (deps t)"
    then have "x \<noteq> tKey t" "x \<in> tKey ` set ts" using w t by auto
    then show "(tKey t, x) \<in> edges ts indexes" using x at [OF t] known by (auto simp: edges_def)
  qed (simp add: edges_def at [OF t])
  then show ?thesis unfolding depRel_def by auto
qed

lemma acyclic_depRel:
  assumes idx: "indexed ts indexes" and d: "distinct (map tKey ts)" "\<forall>t \<in> set ts. tKey t \<noteq> []"
    and w: "\<forall>t \<in> set ts. tKey t \<notin> set (deps t) \<and> set (deps t) \<subseteq> tKey ` set ts"
  shows "acyclic (edges ts indexes) \<longleftrightarrow> acyclic (depRel ts)"
proof
  assume "acyclic (edges ts indexes)"
  then show "acyclic (depRel ts)"
    unfolding depRel_edges [OF assms, symmetric] by (rule acyclic_subset) simp
next
  let ?K = "tKey ` set ts"
  assume "acyclic (depRel ts)"
  then have "acyclic (edges ts indexes \<inter> ?K \<times> ?K)"
    unfolding depRel_edges [OF assms, symmetric] by (rule acyclic_subset) auto
  moreover have "edges ts indexes \<subseteq> UNIV \<times> ?K" using edges_dom [OF idx] indexed_dom [OF idx] by auto
  ultimately show "acyclic (edges ts indexes)" by (rule acyclic_targets [rotated])
qed

lemma normalizeListLoop_aux:
  "distinct (normalizeListLoop p seen vs) \<and> set (normalizeListLoop p seen vs) \<inter> seen = {}"
proof (induction vs arbitrary: seen)
  case (Cons v vs)
  define w where "w = (if p then trimPrefix (goClean (replaceChar CHR 0x5C slash (trimSpace v))) ''./'' else trimSpace v)"
  have eq: "normalizeListLoop p seen (v # vs) =
      (if trimSpace v = [] \<or> w \<in> seen then normalizeListLoop p seen vs
       else w # normalizeListLoop p (insert w seen) vs)"
    by (simp add: Let_def w_def)
  show ?case unfolding eq using Cons.IH [of seen] Cons.IH [of "insert w seen"] by auto
qed simp

lemmas normalizeListLoop_distinct = normalizeListLoop_aux [THEN conjunct1]

lemma prepareTasks_deps:
  "t \<in> set (fst (prepareTasks u i k c ts)) \<Longrightarrow> distinct (deps t)"
  by (induction u i k c ts rule: prepareTasks.induct)
     (auto simp: Let_def prepareTask_def deps_def normalizeList_def normalizeListLoop_distinct
       split: prod.splits)

lemma validateSpec_snd: "snd (validateSpec u s) = fst (prepareSpec u s)"
  by (simp add: validateSpec_def Let_def)

lemma validateSpec_unfold:
  fixes u s0
  defines "s \<equiv> fst (prepareSpec u s0)"
  defines "k \<equiv> checkTasks u 0 Map.empty Map.empty (spTasks s)"
  shows "fst (validateSpec u s0) = [] \<longleftrightarrow>
     snd (prepareSpec u s0) = [] \<and> spVersion s = CurrentVersion \<and> spTitle s \<noteq> [] \<and> spSummary s \<noteq> [] \<and>
     spTasks s \<noteq> [] \<and> length (spTasks s) \<le> 100 \<and> fst k = [] \<and>
     checkAllDeps u (fst (snd k)) 0 (spTasks s) = [] \<and>
     dependencyCycle (spTasks s) (fst (snd k)) = [] \<and> items (vdAcceptance (spFinalDef s)) \<noteq> [] \<and>
     fst (checkItems u ''finalValidation'' 0 (snd (snd k)) (items (vdAcceptance (spFinalDef s)))) = [] \<and>
     (spCompat s \<or> vdCommands (spFinalDef s) \<noteq> [])"
  unfolding validateSpec_def s_def k_def Let_def by simp

text \<open>Validation accepts exactly the plans whose normal form satisfies the contract.\<close>

lemma validateSpec_iff:
  "fst (validateSpec u s0) = [] \<longleftrightarrow>
     snd (prepareSpec u s0) = [] \<and> plan_ok (fst (prepareSpec u s0))"
proof -
  define s where "s = fst (prepareSpec u s0)"
  define ts where "ts = spTasks s"
  define k where "k = checkTasks u 0 Map.empty Map.empty ts"
  define fin where "fin = items (vdAcceptance (spFinalDef s))"
  have idx: "indexed ts (fst (snd k))" unfolding k_def by (rule checkTasks_indexed)
  then have none: "fst (snd k) [] = None" by (cases "fst (snd k) []") (auto simp: indexed_def)
  have graph: "checkAllDeps u (fst (snd k)) 0 ts = [] \<and> dependencyCycle ts (fst (snd k)) = [] \<longleftrightarrow>
      (\<forall>t \<in> set ts. set (deps t) \<subseteq> tKey ` set ts \<and> tKey t \<notin> set (deps t)) \<and> acyclic (depRel ts)"
    if d: "distinct (map tKey ts)" "\<forall>t \<in> set ts. tKey t \<noteq> []"
  proof -
    have "dom (fst (snd k)) = tKey ` set ts" using indexed_dom [OF idx] d(2) by auto
    then have w: "checkAllDeps u (fst (snd k)) 0 ts = [] \<longleftrightarrow>
        (\<forall>t \<in> set ts. tKey t \<notin> set (deps t) \<and> set (deps t) \<subseteq> tKey ` set ts)"
      using checkAllDeps_ok [of "fst (snd k)", OF none] by simp
    have "dependencyCycle ts (fst (snd k)) = [] \<longleftrightarrow> acyclic (edges ts (fst (snd k)))"
      using dependencyCycle_correct [OF idx] cycle_not_acyclic by (auto split: if_splits)
    then show ?thesis using w acyclic_depRel [OF idx d] by auto
  qed
  have items: "fst (checkItems u ''finalValidation'' 0 (snd (snd k)) fin) = [] \<longleftrightarrow>
      completeItems fin \<and> distinct (map aiKey fin) \<and> aiKey ` set fin \<inter> aiKey ` set (taskItems ts) = {}"
    if "fst k = []"
    using checkItems_ok(1) checkTasks_ok(2) that unfolding k_def by simp
  have tasks: "fst k = [] \<longleftrightarrow>
     (\<forall>t \<in> set ts. tKey t \<noteq> [] \<and> tTitle t \<noteq> [] \<and> tScope t \<noteq> [] \<and> items (tAcceptanceItems t) \<noteq> []) \<and>
     distinct (map tKey ts) \<and> completeItems (taskItems ts) \<and> distinct (map aiKey (taskItems ts))"
    unfolding k_def checkTasks_ok(1) by simp
  have c: "completeItems (xs @ ys) \<longleftrightarrow> completeItems xs \<and> completeItems ys" for xs ys
    by (auto simp: completeItems_def)
  have split: "distinct (map aiKey (taskItems ts @ fin)) \<longleftrightarrow> distinct (map aiKey (taskItems ts)) \<and>
      distinct (map aiKey fin) \<and> aiKey ` set fin \<inter> aiKey ` set (taskItems ts) = {}"
    by (simp add: Int_commute)
  have all: "(\<forall>t \<in> set ts. P t \<and> R t) \<longleftrightarrow> (\<forall>t \<in> set ts. P t) \<and> (\<forall>t \<in> set ts. R t)" for P R by blast
  note unf = validateSpec_unfold [of u s0, folded s_def, folded ts_def, folded k_def fin_def]
  note ok = plan_ok_def [of s, folded ts_def fin_def, unfolded split c]
  show ?thesis
  proof (cases "fst k = []")
    case True
    then have d: "distinct (map tKey ts)" "\<forall>t \<in> set ts. tKey t \<noteq> []" using tasks by blast+
    show ?thesis
      unfolding s_def [symmetric] unf ok using graph [OF d] items [OF True] tasks True unfolding all by argo
  next
    case False
    then show ?thesis unfolding s_def [symmetric] unf ok using tasks unfolding all by argo
  qed
qed

lemma plan_ok_graph:
  assumes "plan_ok (fst (prepareSpec u s0))"
  shows "wellformedGraph (spTasks (fst (prepareSpec u s0)))"
    and "acyclic (edges (spTasks (fst (prepareSpec u s0))) (topoIndexes (spTasks (fst (prepareSpec u s0)))))"
proof -
  let ?ts = "spTasks (fst (prepareSpec u s0))"
  have "?ts = fst (prepareTasks u 0 [] (spCompat s0 \<or> spVersion s0 = 0 \<or> spVersion s0 = 1) (spTasks s0))"
    by (simp add: prepareSpec_def Let_def case_prod_beta)
  then have "t \<in> set ?ts \<Longrightarrow> distinct (deps t)" for t by (metis prepareTasks_deps)
  moreover have keys: "\<forall>t \<in> set ?ts. tKey t \<noteq> []" "distinct (map tKey ?ts)"
    "\<forall>t \<in> set ?ts. tKey t \<notin> set (deps t) \<and> set (deps t) \<subseteq> tKey ` set ?ts"
    using assms by (auto simp: plan_ok_def)
  ultimately show "wellformedGraph ?ts" by (auto simp: wellformedGraph_def)
  have "indexed ?ts (topoIndexes ?ts)"
    unfolding indexed_def
  proof (intro conjI allI impI ballI)
    fix k i assume "topoIndexes ?ts k = Some i"
    then show "i < length ?ts" "tKey (?ts ! i) = k" "k \<noteq> []"
      using keys(1) nth_mem [of i ?ts] by (auto simp: topoIndexes_iff [OF keys(2)])
  next
    fix t assume "t \<in> set ?ts"
    then obtain i where "i < length ?ts" "tKey (?ts ! i) = tKey t" by (metis in_set_conv_nth)
    then show "topoIndexes ?ts (tKey t) \<noteq> None" using topoIndexes_iff [OF keys(2)] by auto
  qed
  then show "acyclic (edges ?ts (topoIndexes ?ts))"
    using acyclic_depRel [OF _ keys(2,1,3)] assms by (simp add: plan_ok_def)
qed

end
