(* ===== verification/PlanKeys.thy ===== *)
theory PlanKeys
  imports PlanValidate
begin

text \<open>
  Keys: the shape of what \<^verbatim>\<open>normalizeKey\<close> returns (runs of upper-case letters and digits
  joined by single hyphens), its idempotence, and that preparing a plan twice leaves the task
  keys alone.
\<close>

definition keyRune :: "unicode \<Rightarrow> nat \<Rightarrow> bool" where
  "keyRune u r \<longleftrightarrow> alnum u r \<and> toUpper u r = r \<and> validRune r"

definition keyShape :: "unicode \<Rightarrow> nat list \<Rightarrow> bool" where
  "keyShape u rs \<longleftrightarrow>
     (\<forall>r \<in> set rs. r = 45 \<or> keyRune u r) \<and>
     (rs \<noteq> [] \<longrightarrow> keyRune u (hd rs) \<and> keyRune u (last rs)) \<and>
     successively (\<lambda>a b. a = 45 \<longrightarrow> b \<noteq> 45) rs"

lemma hyphen_encode: "encodeRune 45 = ''-''"
  by code_simp

lemma keyShape_snoc:
  assumes "keyShape u rs" "keyRune u r" "unicode_ok u"
  shows "keyShape u (rs @ [r])" "rs \<noteq> [] \<Longrightarrow> keyShape u (rs @ [45, r])"
  using assms unfolding keyShape_def
  by (auto simp: successively_append_iff hd_append keyRune_def unicode_ok_def)

lemma normalizeKeyLoop_shape:
  "unicode_ok u \<Longrightarrow> keyShape u bs \<Longrightarrow>
     \<exists>cs. normalizeKeyLoop u rs (encodeRunes bs) separator = encodeRunes cs \<and> keyShape u cs"
proof (induction rs arbitrary: bs separator)
  case (Cons r rs)
  show ?case
  proof (cases "isLetter u r \<or> isDigit u r")
    case True
    let ?n = "if separator \<and> bs \<noteq> [] then bs @ [45, toUpper u r] else bs @ [toUpper u r]"
    have "keyRune u (toUpper u r)"
      using True Cons.prems(1) unfolding keyRune_def unicode_ok_def alnum_def by blast
    then have "keyShape u ?n" using keyShape_snoc [OF Cons.prems(2)] Cons.prems(1) by simp
    moreover have "normalizeKeyLoop u (r # rs) (encodeRunes bs) separator = normalizeKeyLoop u rs (encodeRunes ?n) False"
      using True by (auto simp: hyphen_encode)
    ultimately show ?thesis using Cons.IH [OF Cons.prems(1)] by presburger
  next
    case False
    then show ?thesis using Cons by simp
  qed
qed auto

lemma normalizeKeyLoop_fixed:
  "keyShape u (bs @ cs) \<Longrightarrow> unicode_ok u \<Longrightarrow> bs \<noteq> [] \<Longrightarrow>
     normalizeKeyLoop u cs (encodeRunes (if bs \<noteq> [] \<and> last bs = 45 then butlast bs else bs)) (last bs = 45)
       = encodeRunes (bs @ cs)"
proof (induction cs arbitrary: bs)
  case Nil
  then have "last bs \<noteq> 45" by (auto simp: keyShape_def keyRune_def unicode_ok_def)
  then show ?case by simp
next
  case (Cons c cs)
  have ih: "normalizeKeyLoop u cs (encodeRunes (if last (bs @ [c]) = 45 then butlast (bs @ [c]) else bs @ [c]))
      (last (bs @ [c]) = 45) = encodeRunes (bs @ c # cs)"
    using Cons.IH [of "bs @ [c]"] Cons.prems by simp
  have hd: "keyRune u (hd bs)" using Cons.prems by (auto simp: keyShape_def)
  show ?case
  proof (cases "c = 45")
    case True
    have "last bs \<noteq> 45"
      using Cons.prems True by (auto simp: keyShape_def successively_append_iff)
    moreover have "\<not> (isLetter u c \<or> isDigit u c)" using True Cons.prems(2) by (simp add: unicode_ok_def alnum_def)
    ultimately show ?thesis using ih True by simp
  next
    case False
    then have c: "keyRune u c" using Cons.prems(1) by (auto simp: keyShape_def)
    then have "isLetter u c \<or> isDigit u c" "toUpper u c = c" by (auto simp: keyRune_def alnum_def)
    moreover have "encodeRunes bs = encodeRunes (butlast bs) @ ''-''" if "last bs = 45"
      using that Cons.prems(3) hyphen_encode
      by (metis append_butlast_last_id encodeRunes_simps append_Nil2)
    moreover have "butlast bs \<noteq> []" if "last bs = 45"
      using that hd Cons.prems(2,3) by (cases bs) (auto simp: keyRune_def unicode_ok_def split: if_splits)
    ultimately show ?thesis using ih False Cons.prems(3) by (auto simp del: append_assoc simp: append_assoc [symmetric])
  qed
qed

lemma trimChar_id: "(s = [] \<or> hd s \<noteq> c \<and> last s \<noteq> c) \<Longrightarrow> trimChar c s = s"
  unfolding trimChar_def by (cases "s = []") (simp_all add: dropWhile_eq_self_iff [THEN iffD2] hd_rev)

lemma keyShape_valid:
  assumes "keyShape u cs"
  shows "\<forall>r \<in> set cs. validRune r"
proof -
  have "validRune 45" by (simp add: validRune_def)
  then show ?thesis using assms by (auto simp: keyShape_def keyRune_def)
qed

lemma keyRune_byte:
  assumes "keyRune u r" "unicode_ok u"
  shows "hd (encodeRune r) \<noteq> CHR ''-''" "last (encodeRune r) \<noteq> CHR ''-''"
proof -
  have r: "validRune r" "r \<noteq> 45" using assms by (auto simp: keyRune_def unicode_ok_def)
  have v: "validRune 45" by (simp add: validRune_def)
  show "hd (encodeRune r) \<noteq> CHR ''-''"
  proof
    assume "hd (encodeRune r) = CHR ''-''"
    then have "hasPrefix (encodeRune r @ []) (encodeRune 45)"
      unfolding hyphen_encode using encodeRune_nonempty [of r] by (cases "encodeRune r") auto
    then show False using encodeRune_prefix_eq [OF r(1) v] r(2) by blast
  qed
  show "last (encodeRune r) \<noteq> CHR ''-''"
  proof
    assume "last (encodeRune r) = CHR ''-''"
    then have "hasPrefix (rev ([] @ encodeRune r)) (rev (encodeRune 45))"
      unfolding hyphen_encode using encodeRune_nonempty [of r]
      by (cases "encodeRune r" rule: rev_cases) auto
    then show False using encodeRune_suffix_eq [of r 45 "[]"] r v by simp
  qed
qed

lemma keyShape_ends:
  assumes "keyShape u cs" "unicode_ok u" "cs \<noteq> []"
  shows "trimSpace (encodeRunes cs) = encodeRunes cs" "trimChar CHR ''-'' (encodeRunes cs) = encodeRunes cs"
proof -
  have k: "keyRune u (hd cs)" "keyRune u (last cs)" using assms by (auto simp: keyShape_def)
  then show "trimSpace (encodeRunes cs) = encodeRunes cs"
    using assms(2,3) keyShape_valid [OF assms(1)]
    by (intro trimSpace_encodeRunes) (auto simp: keyRune_def unicode_ok_def)
  obtain c cs' where c: "cs = c # cs'" using assms(3) by (cases cs) auto
  obtain zs z where z: "cs = zs @ [z]" using assms(3) by (metis rev_exhaust)
  have "hd (encodeRunes cs) = hd (encodeRune (hd cs))" by (simp add: c hd_append)
  moreover have "last (encodeRunes cs) = last (encodeRune (last cs))" by (simp add: z last_append)
  ultimately show "trimChar CHR ''-'' (encodeRunes cs) = encodeRunes cs"
    using keyRune_byte k assms(2) by (intro trimChar_id) simp
qed

lemma normalizeKey_shape:
  assumes "unicode_ok u"
  shows "\<exists>cs. normalizeKey u v = encodeRunes cs \<and> keyShape u cs"
proof -
  have "keyShape u []" by (simp add: keyShape_def)
  then obtain cs where cs: "normalizeKeyLoop u (runes (trimSpace v)) (encodeRunes []) False = encodeRunes cs" "keyShape u cs"
    using normalizeKeyLoop_shape [OF assms] by blast
  have "trimChar CHR ''-'' (encodeRunes cs) = encodeRunes cs"
    using keyShape_ends(2) [OF cs(2) assms] by (cases "cs = []") (auto simp: trimChar_def)
  then show ?thesis using cs by (auto simp: normalizeKey_def)
qed

lemma normalizeKey_shaped:
  assumes "keyShape u cs" "unicode_ok u"
  shows "normalizeKey u (encodeRunes cs) = encodeRunes cs"
proof (cases cs)
  case (Cons c cs')
  then have e: "trimSpace (encodeRunes cs) = encodeRunes cs" "trimChar CHR ''-'' (encodeRunes cs) = encodeRunes cs"
    using keyShape_ends [OF assms] by simp_all
  have c: "keyRune u c" using assms(1) Cons by (simp add: keyShape_def)
  then have "c \<noteq> 45" using assms(2) by (auto simp: keyRune_def unicode_ok_def)
  then have "normalizeKeyLoop u cs' (encodeRunes [c]) False = encodeRunes cs"
    using normalizeKeyLoop_fixed [of u "[c]" cs'] assms Cons by simp
  then have "normalizeKeyLoop u cs [] False = encodeRunes cs"
    using c Cons by (simp add: keyRune_def alnum_def)
  moreover have "runes (encodeRunes cs) = cs"
    using runes_encodeRunes [OF keyShape_valid [OF assms(1)], of "[]"] by simp
  ultimately show ?thesis using e by (simp add: normalizeKey_def)
qed (simp add: normalizeKey_def trimChar_def)

lemma normalizeKey_idem: "unicode_ok u \<Longrightarrow> normalizeKey u (normalizeKey u v) = normalizeKey u v"
  using normalizeKey_shape [of u v] normalizeKey_shaped by metis

lemma normalizeKey_trimmed: "unicode_ok u \<Longrightarrow> trimSpace (normalizeKey u v) = normalizeKey u v"
  using normalizeKey_shape [of u v] keyShape_ends(1) by (metis encodeRunes_simps(1) trimSpace_Nil)

section \<open>Preparing a plan again keeps its keys\<close>

lemma prepareTask_key:
  "tKey (fst (prepareTask u i p c t)) =
     normalizeKey u (if trimSpace (tKey t) = [] \<and> c then ''P'' @ show03 (i + 1) else tKey t)"
  by (simp add: prepareTask_def Let_def case_prod_beta)

lemma prepareTasks_Cons:
  "map tKey (fst (prepareTasks u i p c (t # ts))) =
     tKey (fst (prepareTask u i p c t)) #
     map tKey (fst (prepareTasks u (i + 1) (tKey (fst (prepareTask u i p c t))) (snd (prepareTask u i p c t)) ts))"
  by (simp add: Let_def case_prod_beta)

lemma prepareTasks_normal_keys:
  "k \<in> set (map tKey (fst (prepareTasks u i p c ts))) \<Longrightarrow> k \<in> range (normalizeKey u)"
proof (induction ts arbitrary: i p c)
  case (Cons x ts)
  have "tKey (fst (prepareTask u i p c x)) \<in> range (normalizeKey u)" unfolding prepareTask_key by blast
  then show ?case using Cons.IH Cons.prems unfolding prepareTasks_Cons set_simps by blast
qed simp

lemma prepareTasks_keep_keys:
  "\<forall>t \<in> set ts. tKey t \<noteq> [] \<and> trimSpace (tKey t) = tKey t \<and> normalizeKey u (tKey t) = tKey t \<Longrightarrow>
     map tKey (fst (prepareTasks u i p c ts)) = map tKey ts"
proof (induction ts arbitrary: i p c)
  case (Cons x ts)
  then show ?case unfolding prepareTasks_Cons by (simp add: prepareTask_key)
qed simp

lemma spTasks_prepareSpec:
  "spTasks (fst (prepareSpec u s)) =
     fst (prepareTasks u 0 [] (spCompat s \<or> spVersion s = 0 \<or> spVersion s = 1) (spTasks s))"
  by (simp add: prepareSpec_def Let_def case_prod_beta)

lemma prepareSpec_keep_keys:
  assumes "unicode_ok u" "\<forall>t \<in> set (spTasks (fst (prepareSpec u s))). tKey t \<noteq> []"
  shows "map tKey (spTasks (fst (prepareSpec u (fst (prepareSpec u s))))) = map tKey (spTasks (fst (prepareSpec u s)))"
proof -
  let ?s = "fst (prepareSpec u s)"
  have "trimSpace (tKey t) = tKey t \<and> normalizeKey u (tKey t) = tKey t" if t: "t \<in> set (spTasks ?s)" for t
  proof -
    obtain v where "tKey t = normalizeKey u v"
      using prepareTasks_normal_keys [of "tKey t" u] t [unfolded spTasks_prepareSpec] by fastforce
    then show ?thesis using normalizeKey_idem [OF assms(1)] normalizeKey_trimmed [OF assms(1)] by simp
  qed
  then show ?thesis
    unfolding spTasks_prepareSpec [of u ?s] using assms(2) by (intro prepareTasks_keep_keys) blast
qed

end
