(* ===== verification/PlanResults.thy ===== *)
theory PlanResults
  imports PlanKeys
begin

text \<open>
  The properties of plans: what validation accepts, what the cycle report and the execution
  order are, and what the numbered task list that is stored looks like. The concrete plans at
  the start are the inputs of the witnesses.
\<close>

section \<open>Concrete plans\<close>

definition exampleItem :: "gostring \<Rightarrow> acceptance_item" where
  "exampleItem k = \<lparr>aiKey = k, aiDescription = ''works''\<rparr>"

definition exampleTask :: "gostring \<Rightarrow> gostring list \<Rightarrow> task" where
  "exampleTask k ds = zeroTask\<lparr>tKey := k, tTitle := ''Title'', tDependsOn := Some ds, tScope := [''src''],
     tInputs := Some [], tOutputs := Some [], tRisks := Some [],
     tAcceptanceItems := Some [exampleItem (k @ ''-A'')], tValidationCommands := Some []\<rparr>"

definition examplePlan :: "task list \<Rightarrow> spec" where
  "examplePlan ts = \<lparr>spVersion = CurrentVersion, spCompat = False, spTitle = ''Plan'', spSummary = ''Summary'',
     spTasks = ts, spFinalValidation = None,
     spFinalDef = \<lparr>vdAcceptance = Some [exampleItem ''FINAL-A001''], vdCommands = [''make test'']\<rparr>\<rparr>"

definition chainPlan :: spec where
  "chainPlan = examplePlan [exampleTask ''B'' [''A''], exampleTask ''A'' []]"

lemma chainPlan_valid: "fst (validateSpec ascii_unicode chainPlan) = []"
  by code_simp

lemma chainPlan_order: "TopologicalOrder ascii_unicode chainPlan = Inr [''A'', ''B'']"
  by code_simp


definition cyclePlan :: spec where
  "cyclePlan = examplePlan [exampleTask ''A'' [''B''], exampleTask ''B'' [''A'']]"

section \<open>Validation\<close>

text \<open>C1. \<^verbatim>\<open>Validate\<close> accepts a plan exactly when all its scopes normalise and its normal
  form meets the contract \<open>plan_ok\<close> (version, texts, unique non-empty keys, known and
  non-circular dependencies, unique complete acceptance items, final validation, commands in
  structured mode); it then returns that normal form, and otherwise the problems.\<close>

theorem Validate_correct:
  "Validate u (Some s) =
     (if snd (prepareSpec u s) = [] \<and> plan_ok (fst (prepareSpec u s)) then Inr (Some (fst (prepareSpec u s)))
      else Inl (fst (validateSpec u s)))"
  by (simp add: Validate_def ValidateProblems_def case_prod_beta Let_def validateSpec_snd validateSpec_iff)

section \<open>The dependency graph\<close>

lemma TopologicalOrder_cases:
  "TopologicalOrder u s =
     (if fst (validateSpec u s) \<noteq> [] then Inl (InvalidPlan (fst (validateSpec u s)))
      else case topoOrder (spTasks (fst (prepareSpec u s))) of None \<Rightarrow> Inl NoTopologicalOrder | Some ord \<Rightarrow> Inr ord)"
  by (simp add: TopologicalOrder_def case_prod_beta validateSpec_snd)

lemma plan_ok_order:
  assumes "plan_ok (fst (prepareSpec u s))"
  shows "\<exists>order. topoOrder (spTasks (fst (prepareSpec u s))) = Some order \<and> distinct order \<and>
    set order = tKey ` set (spTasks (fst (prepareSpec u s))) \<and> greedyFrom (spTasks (fst (prepareSpec u s))) {} order"
  by (rule topoOrder_correct [OF plan_ok_graph [OF assms]])

lemma validate_plan_ok: "fst (validateSpec u s) = [] \<Longrightarrow> plan_ok (fst (prepareSpec u s))"
  by (simp add: validateSpec_iff)

lemma order_result:
  assumes "TopologicalOrder u s = Inr order"
  shows "fst (validateSpec u s) = []" "distinct order" "set order = tKey ` set (spTasks (fst (prepareSpec u s)))"
    "greedyFrom (spTasks (fst (prepareSpec u s))) {} order"
proof -
  have v: "fst (validateSpec u s) = []" "topoOrder (spTasks (fst (prepareSpec u s))) = Some order"
    using assms by (auto simp: TopologicalOrder_cases split: if_splits option.splits)
  then show "fst (validateSpec u s) = []" "distinct order" "set order = tKey ` set (spTasks (fst (prepareSpec u s)))"
    "greedyFrom (spTasks (fst (prepareSpec u s))) {} order"
    using plan_ok_order [OF validate_plan_ok] by fastforce+
qed

text \<open>C2. The cycle search of \<^verbatim>\<open>dependencyCycle\<close> over the key index that validation builds
  is exact for every task list, valid or not: it returns no keys exactly when the dependencies
  between different known tasks have no cycle, and otherwise the keys of one cycle, its first key repeated
  at the end. A dependency of a task on itself is skipped here, as is one on an unknown key (both are
  left out of \<open>edges\<close>): for the single task A that depends on A the search returns no keys.
  \<^verbatim>\<open>Validate\<close> reports such a dependency on its own.\<close>

theorem dependencyCycle_exact:
  "case dependencyCycle ts (fst (snd (checkTasks u 0 Map.empty Map.empty ts))) of
     [] \<Rightarrow> acyclic (edges ts (fst (snd (checkTasks u 0 Map.empty Map.empty ts))))
   | k # ks \<Rightarrow> is_cycle (edges ts (fst (snd (checkTasks u 0 Map.empty Map.empty ts)))) (k # ks)"
  using dependencyCycle_correct [OF checkTasks_indexed, of ts u Map.empty]
  by (auto split: list.splits if_splits)

text \<open>C3. \<^verbatim>\<open>TopologicalOrder\<close> fails exactly for the plans \<^verbatim>\<open>Validate\<close> rejects and with the
  same problems (its own failure "no valid topological order" never happens); otherwise it returns
  every task key once, and at every position the key is that of the first task of the plan
  whose dependencies were all placed before (\<open>greedyFrom\<close>).\<close>

theorem TopologicalOrder_correct:
  "case TopologicalOrder u s of
     Inl e \<Rightarrow> Validate u (Some s) = Inl (fst (validateSpec u s)) \<and> e = InvalidPlan (fst (validateSpec u s))
   | Inr order \<Rightarrow> Validate u (Some s) = Inr (Some (fst (prepareSpec u s))) \<and> distinct order \<and>
       set order = tKey ` set (spTasks (fst (prepareSpec u s))) \<and>
       greedyFrom (spTasks (fst (prepareSpec u s))) {} order"
proof (cases "fst (validateSpec u s) = []")
  case True
  then show ?thesis using plan_ok_order [OF validate_plan_ok [OF True]]
    by (auto simp: TopologicalOrder_cases Validate_def ValidateProblems_def case_prod_beta validateSpec_snd)
qed (simp add: TopologicalOrder_cases Validate_def ValidateProblems_def case_prod_beta)

text \<open>In the order returned, every dependency of a task stands before the task.\<close>

theorem TopologicalOrder_deps_first:
  assumes "TopologicalOrder u s = Inr order" "t \<in> set (spTasks (fst (prepareSpec u s)))"
    "i < length order" "order ! i = tKey t"
  shows "set (deps t) \<subseteq> set (take i order)"
proof -
  note r = order_result [OF assms(1)]
  have "distinct (map tKey (spTasks (fst (prepareSpec u s))))"
    using validate_plan_ok [OF r(1)] by (simp add: plan_ok_def)
  then show ?thesis using greedy_deps_before [OF r(4) _ assms(2-4)] by simp
qed

lemma chainPlan_tasks:
  "map (\<lambda>t. (tKey t, deps t)) (spTasks (fst (prepareSpec ascii_unicode chainPlan))) = [(''B'', [''A'']), (''A'', [])]"
  by code_simp

lemma TopologicalOrder_deps_first_witness:
  "\<exists>t \<in> set (spTasks (fst (prepareSpec ascii_unicode chainPlan))). deps t = [''A''] \<and>
     set (deps t) \<subseteq> set (take 1 [''A'', ''B''])"
proof -
  obtain t where t: "t \<in> set (spTasks (fst (prepareSpec ascii_unicode chainPlan)))" "tKey t = ''B''" "deps t = [''A'']"
    using chainPlan_tasks by (fastforce simp: map_eq_Cons_conv)
  then show ?thesis using TopologicalOrder_deps_first [OF chainPlan_order t(1), of 1] by auto
qed

section \<open>The stored task list\<close>

lemma finalKeyFrom_fresh: "finalKeyFrom n used key suffix = Some k \<Longrightarrow> k \<notin> used"
  by (induction n used key suffix rule: finalKeyFrom.induct) (auto split: if_splits)

lemma finalKeyFrom_none:
  "finalKeyFrom n used key suffix = None \<Longrightarrow>
     key \<in> used \<and> (\<forall>i. suffix \<le> i \<and> i < suffix + n \<longrightarrow> ''FINAL-'' @ showNat i \<in> used)"
proof (induction n used key suffix rule: finalKeyFrom.induct)
  case (2 n used key suffix)
  then have k: "key \<in> used" and "finalKeyFrom n used (''FINAL-'' @ showNat suffix) (suffix + 1) = None"
    by (auto split: if_splits)
  then have ih: "''FINAL-'' @ showNat suffix \<in> used"
    "\<forall>i. suffix + 1 \<le> i \<and> i < suffix + 1 + n \<longrightarrow> ''FINAL-'' @ showNat i \<in> used"
    using "2.IH" by blast+
  have "''FINAL-'' @ showNat i \<in> used" if "suffix \<le> i" "i < suffix + Suc n" for i
    using ih that by (cases "i = suffix") auto
  then show ?case using k by blast
qed (auto split: if_splits)

text \<open>One step per used key is enough fuel for the search of a free final key.\<close>

lemma finalKey_fuel:
  assumes "finite used" "card used \<le> n"
  shows "\<exists>k. finalKeyFrom n used ''FINAL'' 2 = Some k \<and> k \<notin> used"
proof (cases "finalKeyFrom n used ''FINAL'' 2")
  case None
  let ?c = "insert ''FINAL'' ((\<lambda>i. ''FINAL-'' @ showNat i) ` {2..<2 + n})"
  have "?c \<subseteq> used" using finalKeyFrom_none [OF None] by auto
  then have "card ?c \<le> card used" by (rule card_mono [OF assms(1)])
  moreover have "card ((\<lambda>i. ''FINAL-'' @ showNat i) ` {2..<2 + n}) = n"
    by (subst card_image) (auto simp: inj_on_def)
  then have "card ?c = Suc n" by (subst card_insert_disjoint) auto
  ultimately show ?thesis using assms(2) by simp
qed (auto dest: finalKeyFrom_fresh)

lemma byKey_none: "k \<notin> tKey ` set ts \<Longrightarrow> fold (\<lambda>t m. m(tKey t \<mapsto> t)) ts m k = m k"
  by (induction ts arbitrary: m) auto

lemma byKey_eq: "distinct (map tKey ts) \<Longrightarrow> t \<in> set ts \<Longrightarrow> byKey ts (tKey t) = Some t"
proof -
  have "distinct (map tKey ts) \<Longrightarrow> t \<in> set ts \<Longrightarrow> fold (\<lambda>t m. m(tKey t \<mapsto> t)) ts m (tKey t) = Some t" for m
    by (induction ts arbitrary: m) (auto simp: byKey_none)
  then show "distinct (map tKey ts) \<Longrightarrow> t \<in> set ts \<Longrightarrow> byKey ts (tKey t) = Some t" by (simp add: byKey_def)
qed

lemma numberTasks_shape:
  "map ntKey (numberTasks s order) = order @ [finalKey s order]"
  "map ntPosition (numberTasks s order) = [1..<length order + 2]"
  "map ntTask (numberTasks s order) =
     map (\<lambda>k. case byKey (spTasks s) k of Some t \<Rightarrow> t | None \<Rightarrow> zeroTask) order @ [finalTask s order]"
proof -
  let ?f = "\<lambda>k. case byKey (spTasks s) k of Some t \<Rightarrow> t | None \<Rightarrow> zeroTask"
  have k: "map (ntKey \<circ> (\<lambda>(i, key). \<lparr>ntKey = key, ntPosition = i + 1, ntTask = ?f key\<rparr>)) (enumerate 0 order) = order"
    using map_snd_enumerate [of 0 order] by (simp add: comp_def case_prod_beta)
  have "map (ntPosition \<circ> (\<lambda>(i, key). \<lparr>ntKey = key, ntPosition = i + 1, ntTask = ?f key\<rparr>)) (enumerate 0 order) =
      map Suc (map fst (enumerate 0 order))"
    unfolding map_map by (intro map_cong) auto
  then have p: "map (ntPosition \<circ> (\<lambda>(i, key). \<lparr>ntKey = key, ntPosition = i + 1, ntTask = ?f key\<rparr>)) (enumerate 0 order) =
      [1..<length order + 1]"
    by (simp add: map_fst_enumerate map_Suc_upt del: map_map)
  have "map (ntTask \<circ> (\<lambda>(i, key). \<lparr>ntKey = key, ntPosition = i + 1, ntTask = ?f key\<rparr>)) (enumerate 0 order) =
      map ?f (map snd (enumerate 0 order))"
    unfolding map_map by (intro map_cong) auto
  then have t: "map (ntTask \<circ> (\<lambda>(i, key). \<lparr>ntKey = key, ntPosition = i + 1, ntTask = ?f key\<rparr>)) (enumerate 0 order) = map ?f order"
    unfolding map_snd_enumerate .
  show "map ntKey (numberTasks s order) = order @ [finalKey s order]"
    "map ntPosition (numberTasks s order) = [1..<length order + 2]"
    "map ntTask (numberTasks s order) = map ?f order @ [finalTask s order]"
    unfolding numberTasks_def map_append map_map k p t by simp_all
qed

lemma Tasks_ordered:
  "TopologicalOrder u (fst (prepareSpec u s)) = Inr order \<Longrightarrow> Tasks u s = numberTasks (fst (prepareSpec u s)) order"
  by (simp add: Tasks_def)

lemma order_keys:
  assumes "unicode_ok u" "fst (validateSpec u s) = []" "TopologicalOrder u (fst (prepareSpec u s)) = Inr order"
  shows "distinct order" "set order = tKey ` set (spTasks (fst (prepareSpec u s)))"
proof -
  have "\<forall>t \<in> set (spTasks (fst (prepareSpec u s))). tKey t \<noteq> []"
    using validate_plan_ok [OF assms(2)] by (simp add: plan_ok_def)
  then have "tKey ` set (spTasks (fst (prepareSpec u (fst (prepareSpec u s))))) = tKey ` set (spTasks (fst (prepareSpec u s)))"
    using prepareSpec_keep_keys [OF assms(1)] by (metis list.set_map)
  moreover have "distinct order \<and> set order = tKey ` set (spTasks (fst (prepareSpec u (fst (prepareSpec u s)))))"
    using order_result [OF assms(3)] by simp
  ultimately show "distinct order" "set order = tKey ` set (spTasks (fst (prepareSpec u s)))" by simp_all
qed


lemma chainPlan_prepared_order:
  "TopologicalOrder ascii_unicode (fst (prepareSpec ascii_unicode chainPlan)) = Inr [''A'', ''B'']"
  by code_simp


text \<open>In structured mode (not compatibility mode) the key given to the final validation is
  not the key of a task of the plan, so the keys of the stored list are pairwise different; the
  search for it ends.\<close>

theorem Tasks_keys_distinct:
  assumes "unicode_ok u" "fst (validateSpec u s) = []" "TopologicalOrder u (fst (prepareSpec u s)) = Inr order"
    "\<not> spCompat (fst (prepareSpec u s))"
  shows "distinct (map ntKey (Tasks u s))"
proof -
  define p where "p = fst (prepareSpec u s)"
  note ord = order_keys [OF assms(1-3), folded p_def]
  have "card (tKey ` set (spTasks p)) \<le> length (spTasks p)"
    by (metis card_length length_map list.set_map)
  from finalKey_fuel [OF _ this] have "finalKey p order \<notin> tKey ` set (spTasks p)"
    using assms(4) unfolding finalKey_def p_def [symmetric] by fastforce
  then show ?thesis using ord unfolding Tasks_ordered [OF assms(3)] p_def [symmetric] numberTasks_shape by simp
qed

lemma chainPlan_structured: "\<not> spCompat (fst (prepareSpec ascii_unicode chainPlan))"
  by code_simp

lemma Tasks_keys_distinct_witness: "distinct (map ntKey (Tasks ascii_unicode chainPlan))"
  by (rule Tasks_keys_distinct [OF ascii_unicode_ok chainPlan_valid chainPlan_prepared_order chainPlan_structured])

text \<open>In compatibility mode the final key is \<^verbatim>\<open>P%03d\<close> without a search, so a task that already
  has that key shares it with the final validation.\<close>

definition legacyPlan :: spec where
  "legacyPlan = (examplePlan [exampleTask ''P002'' []])\<lparr>spVersion := 1\<rparr>"

lemma compat_final_key_collides:
  "fst (validateSpec ascii_unicode legacyPlan) = [] \<and> map ntKey (Tasks ascii_unicode legacyPlan) = [''P002'', ''P002'']"
proof
  show "fst (validateSpec ascii_unicode legacyPlan) = []" by code_simp
  show "map ntKey (Tasks ascii_unicode legacyPlan) = [''P002'', ''P002'']" by code_simp
qed

text \<open>The parent directory itself, and a parent path behind \<^verbatim>\<open>"./ "\<close>, pass the check that
  scope paths stay within the workspace.\<close>

lemma scope_escapes:
  "normalizePaths [''..''] = ([''..''], []) \<and> normalizePaths [''./ ../x''] = ([''../x''], [])"
  by code_simp

section \<open>Normal forms of keys\<close>

text \<open>Normalising a key is idempotent for every table of letters and digits with the
  properties of the Unicode one: keys read back from a stored plan are the keys written.\<close>

theorem normalizeKey_idempotent:
  assumes "unicode_ok u"
  shows "normalizeKey u (normalizeKey u v) = normalizeKey u v"
  by (rule normalizeKey_idem [OF assms])

lemma normalizeKey_idempotent_witness:
  "normalizeKey ascii_unicode (normalizeKey ascii_unicode ''p 1'') = ''P-1''"
proof -
  have "normalizeKey ascii_unicode ''p 1'' = ''P-1''" by code_simp
  then show ?thesis using normalizeKey_idempotent [OF ascii_unicode_ok, of "''p 1''"] by simp
qed

end
