(* ===== verification/GoStrings.thy ===== *)
theory GoStrings
  imports GoText
begin

text \<open>
  More of the packages \<^verbatim>\<open>strings\<close>, \<^verbatim>\<open>bytes\<close> and \<^verbatim>\<open>strconv\<close>, as the text parsers of the
  repository package use them: \<^verbatim>\<open>Fields\<close>, \<^verbatim>\<open>Index\<close>, \<^verbatim>\<open>Cut\<close>, \<^verbatim>\<open>SplitAfter\<close>,
  \<^verbatim>\<open>ToValidUTF8\<close>, \<^verbatim>\<open>Atoi\<close>.
\<close>

section \<open>Fields\<close>

text \<open>\<^verbatim>\<open>strings.Fields\<close>: the maximal pieces without white space. \<open>w\<close> is the field read so far.\<close>

definition spaceAt :: "gostring \<Rightarrow> nat" where
  "spaceAt s = (case find (hasPrefix s) spaceSeqs of None \<Rightarrow> 0 | Some w \<Rightarrow> length w)"

function fieldsFrom :: "gostring \<Rightarrow> gostring \<Rightarrow> gostring list" where
  "fieldsFrom w [] = (if w = [] then [] else [w])"
| "fieldsFrom w (c # s) =
     (if spaceAt (c # s) = 0 then fieldsFrom (w @ [c]) s
      else (if w = [] then [] else [w]) @ fieldsFrom [] (drop (spaceAt (c # s) - 1) s))"
  by pat_completeness auto
termination by (relation "measure (length \<circ> snd)") auto

definition goFields :: "gostring \<Rightarrow> gostring list" where
  "goFields s = fieldsFrom [] s"

section \<open>Searching and cutting\<close>

fun indexFrom :: "gostring \<Rightarrow> nat \<Rightarrow> gostring \<Rightarrow> nat option" where
  "indexFrom p i [] = (if p = [] then Some i else None)"
| "indexFrom p i (c # s) = (if hasPrefix (c # s) p then Some i else indexFrom p (Suc i) s)"

text \<open>\<^verbatim>\<open>strings.Index\<close>, with \<open>None\<close> for -1.\<close>

definition goIndex :: "gostring \<Rightarrow> gostring \<Rightarrow> nat option" where
  "goIndex s p = indexFrom p 0 s"

definition goContains :: "gostring \<Rightarrow> gostring \<Rightarrow> bool" where
  "goContains s p \<longleftrightarrow> goIndex s p \<noteq> None"

text \<open>\<^verbatim>\<open>strings.Cut\<close> and \<^verbatim>\<open>SplitN(_, _, 2)\<close> at a one-byte separator: what is before the first one,
  and what is after it if there is one.\<close>

fun goCut :: "char \<Rightarrow> gostring \<Rightarrow> gostring \<times> gostring option" where
  "goCut c [] = ([], None)"
| "goCut c (x # s) = (if x = c then ([], Some s) else (x # fst (goCut c s), snd (goCut c s)))"

lemma goCut_none: "c \<notin> set s \<Longrightarrow> goCut c s = (s, None)"
  by (induction s) auto

lemma goCut_append: "c \<notin> set a \<Longrightarrow> goCut c (a @ c # b) = (a, Some b)"
  by (induction a) auto

text \<open>\<^verbatim>\<open>bytes.SplitAfter\<close> at a one-byte separator: the pieces keep it.\<close>

fun splitAfter :: "char \<Rightarrow> gostring \<Rightarrow> gostring list" where
  "splitAfter c [] = [[]]"
| "splitAfter c (x # s) =
     (if x = c then [x] # splitAfter c s
      else (case splitAfter c s of [] \<Rightarrow> [[x]] | y # ys \<Rightarrow> (x # y) # ys))"

lemma splitAfter_nonempty [simp]: "splitAfter c s \<noteq> []"
  by (induction s) (auto split: list.splits)

lemma concat_splitAfter: "concat (splitAfter c s) = s"
  by (induction s) (auto split: list.splits)

section \<open>Valid UTF-8\<close>

text \<open>\<^verbatim>\<open>strings.ToValidUTF8(s, "\uFFFD")\<close>: each run of invalid bytes becomes one replacement
  character; \<open>bad\<close> tells that the last byte was part of such a run.\<close>

definition replacement :: "nat list" where
  "replacement = encodeRuneB runeError"

function toValidB :: "bool \<Rightarrow> nat list \<Rightarrow> nat list" where
  "toValidB bad [] = []"
| "toValidB bad (b # bs) =
     (let w = snd (decodeRune (b # bs)) in
      if decodeRune (b # bs) = (runeError, 1) then (if bad then [] else replacement) @ toValidB True bs
      else take w (b # bs) @ toValidB False (drop (w - 1) bs))"
  by pat_completeness auto
termination by (relation "measure (length \<circ> snd)") (auto simp: Let_def)

definition toValidUTF8 :: "gostring \<Rightarrow> gostring" where
  "toValidUTF8 s = map unbyte (toValidB False (map byte s))"

section \<open>Numbers\<close>

definition isDigitChar :: "char \<Rightarrow> bool" where
  "isDigitChar c \<longleftrightarrow> 48 \<le> (byte c :: nat) \<and> byte c \<le> (57 :: nat)"

text \<open>\<^verbatim>\<open>strconv.Atoi\<close> of a 64-bit \<^verbatim>\<open>int\<close>: an optional sign and decimal digits, within the range.\<close>

definition goAtoi :: "gostring \<Rightarrow> int option" where
  "goAtoi s =
     (let neg = (case s of c # _ \<Rightarrow> c = CHR ''-'' | [] \<Rightarrow> False);
          ds = (case s of c # t \<Rightarrow> if c = CHR ''-'' \<or> c = CHR ''+'' then t else s | [] \<Rightarrow> []);
          n = (if neg then - int (readNat ds) else int (readNat ds))
      in if ds = [] \<or> \<not> list_all isDigitChar ds then None
         else if - (2 ^ 63) \<le> n \<and> n < 2 ^ 63 then Some n else None)"

lemma digitsOf_isDigit: "list_all isDigitChar (digitsOf n)"
  using digitsOf_digits by (auto simp: list_all_iff isDigitChar_def)

lemma digitsOf_no: "\<not> isDigitChar c \<Longrightarrow> c \<notin> set (digitsOf n)"
  using digitsOf_isDigit [of n] by (auto simp: list_all_iff)

lemma goAtoi_showNat: "n < 2 ^ 63 \<Longrightarrow> goAtoi (showNat n) = Some (int n)"
proof -
  assume n: "n < 2 ^ 63"
  obtain c t where s: "digitsOf n = c # t" using digitsOf_nonempty by (cases "digitsOf n") auto
  have "isDigitChar c" using digitsOf_isDigit [of n] by (simp add: s)
  then have c: "c \<noteq> CHR ''-''" "c \<noteq> CHR ''+''" by (auto simp: isDigitChar_def)
  have "list_all isDigitChar (c # t)" "readNat (c # t) = n"
    using digitsOf_isDigit [of n] readNat_digitsOf [of n] by (simp_all add: s)
  moreover have "int n < 2 ^ 63" using n by (metis of_nat_less_iff of_nat_numeral of_nat_power)
  ultimately show ?thesis using c by (simp add: goAtoi_def showNat_def s)
qed

text \<open>Arithmetic on a 64-bit \<^verbatim>\<open>int\<close> wraps around.\<close>

definition wrapInt :: "int \<Rightarrow> int" where
  "wrapInt n = (n + 2 ^ 63) mod 2 ^ 64 - 2 ^ 63"

lemma wrapInt_id: "- (2 ^ 63) \<le> n \<Longrightarrow> n < 2 ^ 63 \<Longrightarrow> wrapInt n = n"
  by (simp add: wrapInt_def)

lemma wrapInt_range: "- (2 ^ 63) \<le> wrapInt n \<and> wrapInt n < 2 ^ 63"
  by (simp add: wrapInt_def)

end
