(* ===== verification/Paths.thy ===== *)
theory Paths
  imports GoPath GoStrings "HOL-Library.Sublist"
begin

text \<open>
  \<^verbatim>\<open>security/paths.go\<close>: which paths the backend accepts beneath a workspace. The operating
  system is a parameter, the record \<open>filesystem\<close>: the working directory, what
  \<^verbatim>\<open>EvalSymlinks\<close> answers (and whether a failure is \<^verbatim>\<open>os.ErrNotExist\<close>) and what \<^verbatim>\<open>Lstat\<close> answers. The rest of \<^verbatim>\<open>path/filepath\<close>
  (\<^verbatim>\<open>Join\<close>, \<^verbatim>\<open>Dir\<close>, \<^verbatim>\<open>Base\<close>, \<^verbatim>\<open>Rel\<close>, Unix) is defined here.
\<close>

section \<open>path/filepath\<close>

definition goJoin :: "gostring list \<Rightarrow> gostring" where
  "goJoin es = (case dropWhile (\<lambda>e. e = []) es of [] \<Rightarrow> [] | f # fs \<Rightarrow> goClean (joinWith [slash] (f # fs)))"

definition goDir :: "gostring \<Rightarrow> gostring" where
  "goDir p = goClean (rev (dropWhile (\<lambda>c. c \<noteq> slash) (rev p)))"

definition goBase :: "gostring \<Rightarrow> gostring" where
  "goBase p =
     (let t = rev (dropWhile (\<lambda>c. c = slash) (rev p)); e = last (splitOn slash t) in
      if p = [] then ''.'' else if e = [] then [slash] else e)"

text \<open>The elements of a path after cleaning.\<close>

definition pathElems :: "gostring \<Rightarrow> gostring list" where
  "pathElems p = cleanElems (isAbs p) (splitOn slash p)"

fun commonPrefix :: "gostring list \<Rightarrow> gostring list \<Rightarrow> nat" where
  "commonPrefix (x # xs) (y # ys) = (if x = y then Suc (commonPrefix xs ys) else 0)"
| "commonPrefix _ _ = 0"

text \<open>\<^verbatim>\<open>filepath.Rel\<close>: \<open>None\<close> is its error, that the target cannot be reached.\<close>

definition goRel :: "gostring \<Rightarrow> gostring \<Rightarrow> gostring option" where
  "goRel basepath targpath =
     (let b = pathElems basepath; t = pathElems targpath; n = commonPrefix b t in
      if goClean basepath = goClean targpath then Some ''.''
      else if isAbs basepath \<noteq> isAbs targpath then None
      else if n < length b \<and> b ! n = ''..'' then None
      else Some (joinWith [slash] (replicate (length b - n) ''..'' @ drop n t)))"

section \<open>The operating system\<close>

datatype lstat = NotExist | StatError | Directory | Symlink | OtherFile

record filesystem =
  fsCwd :: gostring
  fsEval :: "gostring \<Rightarrow> gostring option"
  fsMissing :: "gostring \<Rightarrow> bool"
  fsLstat :: "gostring \<Rightarrow> lstat"

definition goAbs :: "filesystem \<Rightarrow> gostring \<Rightarrow> gostring" where
  "goAbs fs p = (if isAbs p then goClean p else goJoin [fsCwd fs, p])"

section \<open>Identities\<close>

datatype path_error = ErrInvalidRelativePath | ErrPathOutsideRoots | ErrPathNotExist | PathError gostring

record path_identity =
  piConfigured :: gostring
  piAbsolute :: gostring
  piReal :: gostring

definition InspectExistingPath :: "filesystem \<Rightarrow> gostring \<Rightarrow> path_error + path_identity" where
  "InspectExistingPath fs p =
     (let configured = trimSpace p; absolute = goClean (goAbs fs configured) in
      if configured = [] then Inl (PathError ''path is required'')
      else (case fsEval fs absolute of
              None \<Rightarrow> Inl (if fsMissing fs absolute then ErrPathNotExist else PathError ''evaluate symlinks'')
            | Some r \<Rightarrow> Inr \<lparr>piConfigured = configured, piAbsolute = absolute, piReal = goClean (goAbs fs r)\<rparr>))"

definition normalizeExisting :: "filesystem \<Rightarrow> gostring \<Rightarrow> path_error + gostring" where
  "normalizeExisting fs p = bindR (InspectExistingPath fs p) (\<lambda>i. Inr (piReal i))"

definition NormalizeExistingPath :: "filesystem \<Rightarrow> gostring \<Rightarrow> path_error + gostring" where
  "NormalizeExistingPath fs p = bindR (InspectExistingPath fs p) (\<lambda>i. Inr (piReal i))"

definition pathWithinRoot :: "gostring \<Rightarrow> gostring \<Rightarrow> bool" where
  "pathWithinRoot root candidate =
     (case goRel root candidate of
        None \<Rightarrow> False
      | Some r \<Rightarrow> r = ''.'' \<or> (r \<noteq> ''..'' \<and> \<not> hasPrefix r ''../''))"

text \<open>
  \<^verbatim>\<open>normalizeCandidate\<close> walks up from the path until symlinks resolve. An absolute clean path
  is its elements: \<^verbatim>\<open>Base\<close> is the last one and \<^verbatim>\<open>Dir\<close> drops it; the walk fails at the root.
\<close>

fun candidateFrom :: "filesystem \<Rightarrow> gostring list \<Rightarrow> gostring list \<Rightarrow> path_error + gostring" where
  "candidateFrom fs [] rest =
     (case fsEval fs [slash] of
        Some r \<Rightarrow> Inr (goClean (foldl (\<lambda>a e. goJoin [a, e]) r rest))
      | None \<Rightarrow> Inl (PathError ''evaluate symlinks''))"
| "candidateFrom fs (e # es) rest =
     (case fsEval fs (renderPath True (rev (e # es))) of
        Some r \<Rightarrow> Inr (goClean (foldl (\<lambda>a e. goJoin [a, e]) r rest))
      | None \<Rightarrow> candidateFrom fs es (e # rest))"

definition normalizeCandidate :: "filesystem \<Rightarrow> gostring \<Rightarrow> path_error + gostring" where
  "normalizeCandidate fs p = candidateFrom fs (rev (pathElems (goAbs fs p))) []"

section \<open>Policies\<close>

fun NewPathPolicy :: "filesystem \<Rightarrow> gostring list \<Rightarrow> path_error + gostring list" where
  "NewPathPolicy fs [] = Inr []"
| "NewPathPolicy fs (r # rs) =
     bindR (normalizeExisting fs r) (\<lambda>n. bindR (NewPathPolicy fs rs) (\<lambda>ns. Inr (n # ns)))"

definition policyResolve :: "filesystem \<Rightarrow> gostring list \<Rightarrow> gostring \<Rightarrow> path_error + gostring" where
  "policyResolve fs roots p =
     bindR (normalizeCandidate fs p) (\<lambda>c.
       if \<exists>r \<in> set roots. pathWithinRoot r c then Inr c else Inl ErrPathOutsideRoots)"

definition PathWithinRoot :: "filesystem \<Rightarrow> gostring \<Rightarrow> gostring \<Rightarrow> path_error + bool" where
  "PathWithinRoot fs root candidate =
     bindR (normalizeExisting fs root) (\<lambda>r.
       bindR (normalizeCandidate fs candidate) (\<lambda>c. Inr (pathWithinRoot r c)))"

section \<open>Relative paths\<close>

definition looksLikePortableAbsolutePath :: "gostring \<Rightarrow> bool" where
  "looksLikePortableAbsolutePath s =
     (case s of c # d # _ \<Rightarrow> d = CHR '':'' \<and>
        (let n = (byte c :: nat) in (65 \<le> n \<and> n \<le> 90) \<or> (97 \<le> n \<and> n \<le> 122))
      | _ \<Rightarrow> False)"

definition ValidateRelativePath :: "gostring \<Rightarrow> path_error option" where
  "ValidateRelativePath r =
     (let c = goClean r in
      if r = [] \<or> CHR 0x00 \<in> set r \<or> CHR 0x5C \<in> set r \<or> isAbs r \<or> looksLikePortableAbsolutePath r
      then Some ErrInvalidRelativePath
      else if c = ''.'' \<or> c = ''..'' \<or> hasPrefix c ''../'' \<or> hasPrefix c ''/'' then Some ErrInvalidRelativePath
      else None)"

definition ResolveRelativePath :: "filesystem \<Rightarrow> gostring \<Rightarrow> gostring \<Rightarrow> path_error + gostring" where
  "ResolveRelativePath fs root relative =
     (let clean = goClean relative in
      if relative = [] \<or> isAbs relative then Inl ErrInvalidRelativePath
      else if clean = ''.'' \<or> clean = ''..'' \<or> hasPrefix clean ''../'' then Inl ErrInvalidRelativePath
      else bindR (normalizeExisting fs root) (\<lambda>rootReal.
        bindR (normalizeExisting fs (goJoin [rootReal, goDir clean])) (\<lambda>parentReal.
          let candidate = goJoin [parentReal, goBase clean] in
          if \<not> pathWithinRoot rootReal parentReal then Inl ErrPathOutsideRoots
          else if \<not> pathWithinRoot rootReal candidate then Inl ErrPathOutsideRoots
          else Inr (goClean candidate))))"

text \<open>The walk of \<^verbatim>\<open>ResolveRelativePathForWrite\<close> over the elements.\<close>

fun writeWalk :: "filesystem \<Rightarrow> gostring \<Rightarrow> gostring \<Rightarrow> gostring list \<Rightarrow> path_error + gostring" where
  "writeWalk fs rootReal current [] = Inl ErrInvalidRelativePath"
| "writeWalk fs rootReal current [part] =
     (let candidate = goJoin [current, part] in
      if \<not> pathWithinRoot rootReal candidate then Inl ErrPathOutsideRoots else Inr (goClean candidate))"
| "writeWalk fs rootReal current (part # p2 # rest) =
     (let candidate = goJoin [current, part] in
      case fsLstat fs candidate of
        NotExist \<Rightarrow>
          (let full = foldl (\<lambda>a e. goJoin [a, e]) candidate (p2 # rest) in
           if \<not> pathWithinRoot rootReal full then Inl ErrPathOutsideRoots else Inr (goClean full))
      | StatError \<Rightarrow> Inl (PathError ''lstat'')
      | Symlink \<Rightarrow>
          (case fsEval fs candidate of
             None \<Rightarrow> Inl (PathError ''evaluate symlinks'')
           | Some r \<Rightarrow>
               (let resolved = goClean (goAbs fs r) in
                if \<not> pathWithinRoot rootReal resolved then Inl ErrPathOutsideRoots
                else writeWalk fs rootReal resolved (p2 # rest)))
      | Directory \<Rightarrow> writeWalk fs rootReal candidate (p2 # rest)
      | OtherFile \<Rightarrow> Inl (PathError ''path parent is not a directory''))"

definition ResolveRelativePathForWrite :: "filesystem \<Rightarrow> gostring \<Rightarrow> gostring \<Rightarrow> path_error + gostring" where
  "ResolveRelativePathForWrite fs root relative =
     (case ValidateRelativePath relative of
        Some e \<Rightarrow> Inl e
      | None \<Rightarrow> bindR (normalizeExisting fs root) (\<lambda>rootReal.
                  writeWalk fs rootReal rootReal (splitOn slash (goClean relative))))"

definition NormalizeWorkspaceRelativePath :: "filesystem \<Rightarrow> gostring \<Rightarrow> gostring \<Rightarrow> path_error + gostring" where
  "NormalizeWorkspaceRelativePath fs root relative =
     (case ValidateRelativePath relative of
        Some e \<Rightarrow> Inl e
      | None \<Rightarrow> bindR (ResolveRelativePathForWrite fs root (goClean relative)) (\<lambda>_. Inr (goClean relative)))"

end
