(* ===== verification/Lifecycle.thy ===== *)
theory Lifecycle
  imports Json
begin

text \<open>
  The state machines of \<^verbatim>\<open>domain/models.go\<close>: the contract of each resource (its statuses,
  transitions and terminal, recoverable and cancelling statuses), the decision
  \<^verbatim>\<open>EvaluateTransition\<close>, the checks of lifecycle metadata and drift audits, and the errors of the
  package. A Go set or map literal is a list of its keys or an association list.
\<close>

section \<open>Errors\<close>

text \<open>The bytes of a \<^verbatim>\<open>json.RawMessage\<close>: none, something that is not JSON, or one value.\<close>

datatype raw_json = RawEmpty | RawInvalid | RawValue json

record acceptance_blocker =
  abKey :: gostring
  abStatus :: gostring
  abReason :: gostring

record execution_blocker =
  ebCode :: gostring
  ebTaskID :: "uuid option"
  ebTaskKey :: gostring
  ebTaskTitle :: gostring
  ebTaskStatus :: gostring
  ebAcceptanceStatus :: gostring
  ebReason :: gostring
  ebAcceptanceBlockers :: "acceptance_blocker list"
  ebValidationProblems :: raw_json

datatype error =
    ErrNotFound
  | ErrVersionConflict
  | ErrForbidden
  | ErrInvalidTransition
  | ErrInvalidLifecycleMetadata
  | ErrPlanExecutionBlocked uuid "uuid option" "execution_blocker list"
  | ErrPlanExecutionBaselineMissing
  | ErrPlanDriftResolutionRequired
  | ErrPlanDriftAuditReasonRequired
  | ErrInvalidPlanDriftAudit
  | ErrNoRows
  | ErrInvalidFeedbackLink
  | ErrInvalidDiffRange
  | ErrInvalidPlanConfig
  | ErrPanic
  | ErrJoin error error
  | ErrLifecycleField gostring
  | ErrText gostring

text \<open>\<^verbatim>\<open>(*PlanExecutionBlockedError).Error\<close>; nil and an empty list read alike.\<close>

definition blockedText :: "execution_blocker list \<Rightarrow> gostring" where
  "blockedText blockers =
     (let reasons = filter (\<lambda>r. r \<noteq> []) (map (\<lambda>b. trimSpace (ebReason b)) blockers) in
      if reasons = [] then ''plan execution is blocked''
      else ''plan execution is blocked: '' @ joinWith ''; '' reasons)"

text \<open>\<^verbatim>\<open>errors.Is(err, ErrInvalidTransition)\<close>, which a blocked plan and a refused field wrap.\<close>

definition isInvalidTransition :: "error \<Rightarrow> bool" where
  "isInvalidTransition e = (case e of ErrInvalidTransition \<Rightarrow> True
     | ErrPlanExecutionBlocked _ _ _ \<Rightarrow> True | ErrLifecycleField _ \<Rightarrow> True | _ \<Rightarrow> False)"

section \<open>Contracts\<close>

record lifecycle_contract =
  lcKnown :: "gostring list"
  lcTransitions :: "(gostring \<times> gostring list) list"
  lcTerminal :: "gostring list"
  lcRecoverable :: "gostring list"
  lcCancelling :: "gostring list"

definition planContract :: lifecycle_contract where
  "planContract = \<lparr>
     lcKnown = [''generating'', ''ready'', ''running'', ''validating'', ''blocked'', ''cancelling'',
       ''completed'', ''failed'', ''interrupted'', ''cancelled''],
     lcTransitions =
      [(''generating'', [''ready'', ''failed'', ''cancelling'', ''interrupted'']),
       (''ready'', [''running'', ''cancelled'']),
       (''running'', [''validating'', ''completed'', ''failed'', ''blocked'', ''cancelling'', ''interrupted'']),
       (''validating'', [''completed'', ''failed'', ''blocked'', ''cancelling'', ''interrupted'']),
       (''blocked'', [''ready'', ''running'', ''cancelled'']),
       (''cancelling'', [''cancelled'', ''interrupted'']),
       (''interrupted'', [''generating'', ''ready'', ''running'', ''validating'', ''cancelled''])],
     lcTerminal = [''completed'', ''failed'', ''interrupted'', ''cancelled''],
     lcRecoverable = [''interrupted''],
     lcCancelling = [''cancelling'']\<rparr>"

definition taskContract :: lifecycle_contract where
  "taskContract = \<lparr>
     lcKnown = [''pending'', ''queued'', ''running'', ''cancelling'', ''succeeded'', ''failed'',
       ''interrupted'', ''cancelled''],
     lcTransitions =
      [(''pending'', [''queued'', ''cancelled'']),
       (''queued'', [''running'', ''pending'', ''cancelled'', ''interrupted'']),
       (''running'', [''succeeded'', ''failed'', ''cancelling'', ''interrupted'']),
       (''cancelling'', [''cancelled'', ''interrupted'']),
       (''interrupted'', [''pending'', ''queued'', ''cancelled''])],
     lcTerminal = [''succeeded'', ''failed'', ''interrupted'', ''cancelled''],
     lcRecoverable = [''interrupted''],
     lcCancelling = [''cancelling'']\<rparr>"

definition jobContract :: lifecycle_contract where
  "jobContract = \<lparr>
     lcKnown = [''queued'', ''leased'', ''running'', ''retry_wait'', ''cancelling'', ''succeeded'',
       ''failed'', ''interrupted'', ''cancelled''],
     lcTransitions =
      [(''queued'', [''leased'', ''cancelled'']),
       (''retry_wait'', [''queued'', ''leased'', ''cancelled'']),
       (''leased'', [''running'', ''queued'', ''cancelled'', ''interrupted'']),
       (''running'', [''succeeded'', ''retry_wait'', ''failed'', ''cancelling'', ''interrupted'']),
       (''cancelling'', [''cancelled'', ''interrupted'']),
       (''interrupted'', [''queued'', ''cancelled''])],
     lcTerminal = [''succeeded'', ''failed'', ''interrupted'', ''cancelled''],
     lcRecoverable = [''interrupted''],
     lcCancelling = [''cancelling'']\<rparr>"

definition runContract :: lifecycle_contract where
  "runContract = \<lparr>
     lcKnown = [''starting'', ''running'', ''cancelling'', ''succeeded'', ''failed'', ''interrupted'',
       ''cancelled'', ''timed_out''],
     lcTransitions =
      [(''starting'', [''running'', ''failed'', ''cancelling'', ''interrupted'']),
       (''running'', [''succeeded'', ''failed'', ''cancelling'', ''interrupted'']),
       (''cancelling'', [''cancelled'', ''interrupted'']),
       (''interrupted'', [''starting'', ''cancelled''])],
     lcTerminal = [''succeeded'', ''failed'', ''interrupted'', ''cancelled'', ''timed_out''],
     lcRecoverable = [''interrupted''],
     lcCancelling = [''cancelling'']\<rparr>"

text \<open>A resource is its string; a Go map read of an absent key gives the empty contract.\<close>

abbreviation ResPlan :: gostring where "ResPlan \<equiv> ''plan''"
abbreviation ResTask :: gostring where "ResTask \<equiv> ''task''"
abbreviation ResJob :: gostring where "ResJob \<equiv> ''job''"
abbreviation ResAgentRun :: gostring where "ResAgentRun \<equiv> ''agent_run''"

definition emptyContract :: lifecycle_contract where
  "emptyContract = \<lparr>lcKnown = [], lcTransitions = [], lcTerminal = [], lcRecoverable = [], lcCancelling = []\<rparr>"

definition lifecycleContract :: "gostring \<Rightarrow> lifecycle_contract" where
  "lifecycleContract resource =
     (if resource = ResPlan then planContract
      else if resource = ResTask then taskContract
      else if resource = ResJob then jobContract
      else if resource = ResAgentRun then runContract
      else emptyContract)"

definition intakeTransitions :: "(gostring \<times> gostring list) list" where
  "intakeTransitions =
     [(''open'', [''planning'', ''closed'']),
      (''planning'', [''planned'', ''plan_failed'', ''open'']),
      (''planned'', [''closed'']),
      (''plan_failed'', [''planning'', ''closed''])]"

definition intakeStatuses :: "gostring list" where
  "intakeStatuses = [''open'', ''planning'', ''planned'', ''plan_failed'', ''closed'']"

definition inTransitions :: "(gostring \<times> gostring list) list \<Rightarrow> gostring \<Rightarrow> gostring \<Rightarrow> bool" where
  "inTransitions ts from to = (case map_of ts from of None \<Rightarrow> False | Some ds \<Rightarrow> to \<in> set ds)"

definition ParseLifecycleResource :: "gostring \<Rightarrow> gostring option" where
  "ParseLifecycleResource resource =
     (let r = goLower (trimSpace resource) in
      if r = ''plan'' then Some ResPlan
      else if r = ''task'' then Some ResTask
      else if r = ''job'' then Some ResJob
      else if r = ''agent_run'' \<or> r = ''agent-run'' \<or> r = ''agentrun'' then Some ResAgentRun
      else None)"

datatype disposition = Applied | Idempotent

definition evaluateIn :: "gostring list \<Rightarrow> (gostring \<times> gostring list) list \<Rightarrow> gostring \<Rightarrow> gostring \<Rightarrow> error + disposition" where
  "evaluateIn known transitions from to =
     (if from \<notin> set known then Inl ErrInvalidTransition
      else if to \<notin> set known then Inl ErrInvalidTransition
      else if from = to then Inr Idempotent
      else if inTransitions transitions from to then Inr Applied
      else Inl ErrInvalidTransition)"

definition EvaluateTransition :: "gostring \<Rightarrow> gostring \<Rightarrow> gostring \<Rightarrow> error + disposition" where
  "EvaluateTransition resource from to =
     (if resource = ''intake'' then evaluateIn intakeStatuses intakeTransitions from to
      else (case ParseLifecycleResource resource of
              None \<Rightarrow> Inl ErrInvalidTransition
            | Some r \<Rightarrow> evaluateIn (lcKnown (lifecycleContract r)) (lcTransitions (lifecycleContract r)) from to))"

definition ValidateTransition :: "gostring \<Rightarrow> gostring \<Rightarrow> gostring \<Rightarrow> error option" where
  "ValidateTransition resource from to =
     (case EvaluateTransition resource from to of Inl e \<Rightarrow> Some e | Inr _ \<Rightarrow> None)"

definition IsTerminalStatus :: "gostring \<Rightarrow> gostring \<Rightarrow> bool" where
  "IsTerminalStatus resource status \<longleftrightarrow> status \<in> set (lcTerminal (lifecycleContract resource))"

definition IsRecoverableTerminalStatus :: "gostring \<Rightarrow> gostring \<Rightarrow> bool" where
  "IsRecoverableTerminalStatus resource status \<longleftrightarrow> status \<in> set (lcRecoverable (lifecycleContract resource))"

definition IsCancellingStatus :: "gostring \<Rightarrow> gostring \<Rightarrow> bool" where
  "IsCancellingStatus resource status \<longleftrightarrow> status \<in> set (lcCancelling (lifecycleContract resource))"

section \<open>Metadata\<close>

text \<open>Status sources, reason codes and recovery hints are strings in the source.\<close>

record lifecycle_metadata =
  mdSource :: gostring
  mdCode :: gostring
  mdReason :: gostring
  mdActivity :: time
  mdHint :: gostring
  mdCheckpoint :: raw_json

definition statusSources :: "gostring list" where
  "statusSources = [''user'', ''automation'', ''worker'', ''backend'', ''recovery'', ''system'', ''legacy'']"

definition recoveryHints :: "gostring list" where
  "recoveryHints = [''none'', ''automatic_retry'', ''resume_from_checkpoint'', ''retry_from_start'', ''manual_review'']"

text \<open>\<^verbatim>\<open>json.Unmarshal\<close> into a map: only an object succeeds and leaves a non-nil map.\<close>

definition isObject :: "raw_json \<Rightarrow> bool" where
  "isObject r = (case r of RawValue (JObj _) \<Rightarrow> True | _ \<Rightarrow> False)"

definition ValidateLifecycleMetadata :: "lifecycle_metadata \<Rightarrow> error option" where
  "ValidateLifecycleMetadata m =
     (if mdSource m \<notin> set statusSources then Some ErrInvalidLifecycleMetadata
      else if trimSpace (mdCode m) = [] \<or> trimSpace (mdReason m) = [] then Some ErrInvalidLifecycleMetadata
      else if mdHint m \<notin> set recoveryHints then Some ErrInvalidLifecycleMetadata
      else if mdCheckpoint m \<noteq> RawEmpty \<and> \<not> isObject (mdCheckpoint m) then Some ErrInvalidLifecycleMetadata
      else None)"

definition ValidatePlanDriftAudit :: "gostring \<Rightarrow> gostring \<Rightarrow> gostring \<Rightarrow> raw_json \<Rightarrow> error option" where
  "ValidatePlanDriftAudit action channel reason rawDiff =
     (if trimSpace reason = [] then Some ErrPlanDriftAuditReasonRequired
      else if trimSpace channel = [] \<or> rawDiff = RawEmpty \<or> rawDiff = RawInvalid then Some ErrInvalidPlanDriftAudit
      else if action \<in> {''snapshot_updated'', ''plan_regenerated'', ''execution_abandoned''} then None
      else Some ErrInvalidPlanDriftAudit)"

section \<open>Properties of the contracts\<close>

text \<open>
  What a well-formed contract is: transitions run between known statuses and change the status, a
  terminal status that is not recoverable has no way out, and every status that is not such a
  dead end can move on.
\<close>

definition contract_ok :: "lifecycle_contract \<Rightarrow> bool" where
  "contract_ok c \<longleftrightarrow>
     (\<forall>(from, ds) \<in> set (lcTransitions c). from \<in> set (lcKnown c) \<and> set ds \<subseteq> set (lcKnown c) \<and> from \<notin> set ds) \<and>
     set (lcTerminal c) \<subseteq> set (lcKnown c) \<and> set (lcRecoverable c) \<subseteq> set (lcTerminal c) \<and>
     set (lcCancelling c) \<subseteq> set (lcKnown c) - set (lcTerminal c) \<and>
     (\<forall>s \<in> set (lcKnown c). (map_of (lcTransitions c) s = None) \<longleftrightarrow> s \<in> set (lcTerminal c) \<and> s \<notin> set (lcRecoverable c))"

lemma contracts_ok:
  "contract_ok planContract" "contract_ok taskContract" "contract_ok jobContract" "contract_ok runContract"
  unfolding contract_ok_def by code_simp+

lemma parse_resource [simp]:
  "ParseLifecycleResource ''plan'' = Some ''plan''"
  "ParseLifecycleResource ''task'' = Some ''task''"
  "ParseLifecycleResource ''job'' = Some ''job''"
  "ParseLifecycleResource ''agent_run'' = Some ''agent_run''"
  by code_simp+

lemma ParseLifecycleResource_in:
  "ParseLifecycleResource r = Some x \<Longrightarrow> x \<in> {ResPlan, ResTask, ResJob, ResAgentRun}"
  by (auto simp: ParseLifecycleResource_def Let_def split: if_splits)

lemma lifecycleContract_ok: "contract_ok (lifecycleContract r)"
proof -
  have "contract_ok emptyContract" by (simp add: contract_ok_def emptyContract_def)
  then show ?thesis using contracts_ok by (simp add: lifecycleContract_def)
qed

end
