(* ===== verification/CheckpointText.thy ===== *)
theory CheckpointText
  imports Paths Lifecycle
begin

text \<open>
  The text side of the execution checkpoints of \<^verbatim>\<open>repository/store.go\<close>: the bounded writer
  and the bounded summary, and the parsers of what Git prints (index records, name-status,
  shortstat, numstat, unified hunks). Git itself is a parameter: a function from the arguments of a
  command to its output, with \<open>None\<close> for a failed command. A slice expression that panics is
  \<open>None\<close> too.
\<close>

section \<open>Bounds\<close>

definition maxTaskCheckpointFiles :: nat where "maxTaskCheckpointFiles = 500"
definition maxTaskCheckpointPatchBytes :: int where "maxTaskCheckpointPatchBytes = 524288"
definition maxTaskCheckpointPatchLines :: int where "maxTaskCheckpointPatchLines = 12000"
definition maxTaskCheckpointHunks :: nat where "maxTaskCheckpointHunks = 512"
definition maxTaskCheckpointPathBytes :: int where "maxTaskCheckpointPathBytes = 4194304"

abbreviation newlineChar :: char where "newlineChar \<equiv> CHR 0x0A"

text \<open>\<^verbatim>\<open>checkpointBoundedWriter\<close>: \<^verbatim>\<open>Write\<close> handles the bytes one by one; a bound of zero
  is no bound.\<close>

record bounded_writer =
  bwBytes :: gostring
  bwLines :: int
  bwTruncated :: bool

definition writeByte :: "int \<Rightarrow> int \<Rightarrow> char \<Rightarrow> bounded_writer \<Rightarrow> bounded_writer" where
  "writeByte maxBytes maxLines c w =
     (if (maxBytes > 0 \<and> int (length (bwBytes w)) \<ge> maxBytes) \<or> (maxLines > 0 \<and> bwLines w \<ge> maxLines)
      then w\<lparr>bwTruncated := True\<rparr>
      else w\<lparr>bwBytes := bwBytes w @ [c], bwLines := (if c = newlineChar then bwLines w + 1 else bwLines w)\<rparr>)"

definition boundedWrite :: "int \<Rightarrow> int \<Rightarrow> gostring \<Rightarrow> bounded_writer \<Rightarrow> bounded_writer" where
  "boundedWrite maxBytes maxLines value w = fold (writeByte maxBytes maxLines) value w"

definition newWriter :: bounded_writer where
  "newWriter = \<lparr>bwBytes = [], bwLines = 0, bwTruncated = False\<rparr>"

text \<open>\<^verbatim>\<open>boundCheckpointText\<close>: the longest prefix of whole characters within the bounds.\<close>

fun boundLoop :: "int \<Rightarrow> int \<Rightarrow> nat list \<Rightarrow> gostring \<Rightarrow> int \<Rightarrow> gostring \<times> bool" where
  "boundLoop maxBytes maxLines [] b lines = (b, False)"
| "boundLoop maxBytes maxLines (r # rs) b lines =
     (if int (length b) + int (length (encodeRune r)) > maxBytes \<or> lines \<ge> maxLines then (b, True)
      else boundLoop maxBytes maxLines rs (b @ encodeRune r) (if r = 10 then lines + 1 else lines))"

definition boundCheckpointText :: "gostring \<Rightarrow> int \<Rightarrow> int \<Rightarrow> gostring \<times> bool" where
  "boundCheckpointText value maxBytes maxLines =
     (if maxBytes \<le> 0 \<or> maxLines \<le> 0 then ([], value \<noteq> [])
      else boundLoop maxBytes maxLines (runes value) [] 0)"

section \<open>Object names and the index\<close>

definition isHexChar :: "char \<Rightarrow> bool" where
  "isHexChar c = (let n = (byte c :: nat) in
     (48 \<le> n \<and> n \<le> 57) \<or> (97 \<le> n \<and> n \<le> 102) \<or> (65 \<le> n \<and> n \<le> 70))"

definition isRepositoryGitObjectID :: "gostring \<Rightarrow> bool" where
  "isRepositoryGitObjectID v \<longleftrightarrow> (length v = 40 \<or> length v = 64) \<and> list_all isHexChar v"

record index_entry =
  ieMode :: gostring
  ieOID :: gostring
  ieStage :: int

text \<open>\<^verbatim>\<open>parseCheckpointIndex\<close>: records of \<^verbatim>\<open>git ls-files --stage -z\<close>; the error texts are
  not kept. The result maps a path to its stage-0 entry and tells whether there were others.\<close>

fun indexLoop :: "(gostring \<rightharpoonup> index_entry) \<Rightarrow> bool \<Rightarrow> gostring list \<Rightarrow> ((gostring \<rightharpoonup> index_entry) \<times> bool) option" where
  "indexLoop entries conflicted [] = Some (entries, conflicted)"
| "indexLoop entries conflicted (record1 # rest) =
     (if record1 = [] then indexLoop entries conflicted rest
      else (case goCut (CHR 0x09) record1 of
          (meta, Some candidate) \<Rightarrow>
            if meta = [] \<or> candidate = [] then None
            else (case goFields meta of
                [mode, oid, st] \<Rightarrow>
                  (case goAtoi st of
                     None \<Rightarrow> None
                   | Some stage \<Rightarrow>
                       if ValidateRelativePath candidate \<noteq> None then None
                       else if stage \<noteq> 0 then indexLoop entries True rest
                       else indexLoop (entries(candidate \<mapsto> \<lparr>ieMode = mode, ieOID = oid, ieStage = stage\<rparr>)) conflicted rest)
              | _ \<Rightarrow> None)
        | (_, None) \<Rightarrow> None))"

definition parseCheckpointIndex :: "gostring \<Rightarrow> ((gostring \<rightharpoonup> index_entry) \<times> bool) option" where
  "parseCheckpointIndex raw = indexLoop Map.empty False (splitOn (CHR 0x00) raw)"

definition writeCheckpointIndexInfo :: "gostring \<Rightarrow> gostring \<Rightarrow> gostring \<Rightarrow> gostring" where
  "writeCheckpointIndexInfo mode oid relative = mode @ '' '' @ oid @ [CHR 0x09] @ relative @ [CHR 0x00]"

section \<open>Changed files\<close>

fun shortstatLoop :: "int \<times> int \<times> int \<Rightarrow> gostring list \<Rightarrow> int \<times> int \<times> int" where
  "shortstatLoop acc [] = acc"
| "shortstatLoop (files, additions, deletions) (part # parts) =
     (case goFields (trimSpace part) of
        n # what # _ \<Rightarrow>
          (case goAtoi n of
             None \<Rightarrow> shortstatLoop (files, additions, deletions) parts
           | Some v \<Rightarrow>
               shortstatLoop
                 (if hasPrefix what ''file'' then (v, additions, deletions)
                  else if hasPrefix what ''insertion'' then (files, v, deletions)
                  else if hasPrefix what ''deletion'' then (files, additions, v)
                  else (files, additions, deletions)) parts)
      | _ \<Rightarrow> shortstatLoop (files, additions, deletions) parts)"

definition parseCheckpointShortstat :: "gostring \<Rightarrow> int \<times> int \<times> int" where
  "parseCheckpointShortstat raw = shortstatLoop (0, 0, 0) (splitOn CHR '','' raw)"

record name_status =
  nsStatus :: gostring
  nsPath :: gostring
  nsPrevious :: gostring

definition statusName :: "char \<Rightarrow> gostring option" where
  "statusName c =
     (if c = CHR ''A'' then Some ''added'' else if c = CHR ''M'' then Some ''modified''
      else if c = CHR ''D'' then Some ''deleted'' else if c = CHR ''T'' then Some ''type_changed''
      else if c = CHR ''U'' then Some ''unmerged'' else if c = CHR ''R'' then Some ''renamed''
      else if c = CHR ''C'' then Some ''copied'' else None)"

text \<open>The two paths of a rename or copy come first; a path that is still empty is read after.\<close>

definition statusPaths :: "char \<Rightarrow> gostring list \<Rightarrow> (gostring \<times> gostring \<times> gostring list) option" where
  "statusPaths c rest =
     (let start = (if c = CHR ''R'' \<or> c = CHR ''C''
          then (case rest of p # q # r \<Rightarrow> Some (p, q, r) | _ \<Rightarrow> None) else Some ([], [], rest))
      in case start of
           None \<Rightarrow> None
         | Some (previous, path, r) \<Rightarrow>
             if path \<noteq> [] then Some (previous, path, r)
             else (case r of [] \<Rightarrow> None | p # r' \<Rightarrow> if p = [] then None else Some (previous, p, r')))"

lemma statusPaths_length: "statusPaths c rest = Some (p, q, r) \<Longrightarrow> length r < Suc (length rest)"
  by (auto simp: statusPaths_def Let_def split: if_splits list.splits option.splits)

function nameStatusLoop :: "nat \<Rightarrow> name_status list \<Rightarrow> gostring list \<Rightarrow> (name_status list \<times> bool) option" where
  "nameStatusLoop limit acc [] = Some (acc, False)"
| "nameStatusLoop limit acc (part # rest) =
     (if limit \<le> length acc then Some (acc, True)
      else if part = [] then nameStatusLoop limit acc rest
      else (case (statusName (hd part), statusPaths (hd part) rest) of
          (Some status, Some (previous, path, r)) \<Rightarrow>
            if ValidateRelativePath path \<noteq> None \<or> (previous \<noteq> [] \<and> ValidateRelativePath previous \<noteq> None) then None
            else nameStatusLoop limit (acc @ [\<lparr>nsStatus = status, nsPath = path, nsPrevious = previous\<rparr>]) r
        | _ \<Rightarrow> None))"
  by pat_completeness auto
termination by (relation "measure (\<lambda>(_, _, ps). length ps)") (auto dest!: statusPaths_length [OF sym])

definition parseCheckpointNameStatus :: "gostring \<Rightarrow> nat \<Rightarrow> (name_status list \<times> bool) option" where
  "parseCheckpointNameStatus raw limit = nameStatusLoop limit [] (splitOn (CHR 0x00) raw)"

end
