(* ===== verification/Store.thy ===== *)
theory Store
  imports Lifecycle PlanSpec
begin

text \<open>
  The write gate of \<^verbatim>\<open>repository/store.go\<close> for statuses (\<^verbatim>\<open>transitionLifecycleTx\<close>)
  and the database state it works on. A table is the list of its rows; the operations run inside one
  transaction, whose snapshot is a \<open>db\<close> value: an operation returns the new database or an error,
  and an error leaves the old database (the transaction is rolled back). \<open>now\<close> is the clock
  reading of the transaction. The audit row is written by the trigger of migration 011.
\<close>

section \<open>Rows\<close>

text \<open>The columns that the four lifecycle tables share.\<close>

record lrow =
  lId :: uuid
  lProject :: uuid
  lStatus :: gostring
  lVersion :: int
  lSource :: gostring
  lCode :: gostring
  lReason :: gostring
  lActivity :: time
  lHint :: gostring
  lCheckpoint :: "(gostring \<times> json) list"
  lUpdated :: time

record job = lrow +
  jType :: gostring
  jAggregateType :: gostring
  jAggregateID :: uuid
  jPayload :: json
  jPriority :: int
  jRunAfter :: time
  jWorkerID :: "gostring option"
  jLease :: "time option"
  jAttempt :: int
  jMaxAttempts :: int
  jLastError :: "gostring option"
  jIdempotencyKey :: gostring
  jCreated :: time

record plan_task = lrow +
  ptPlan :: uuid
  ptKey :: gostring
  ptType :: gostring
  ptPosition :: int
  ptExecutionOrder :: int
  ptDependencyKeys :: raw_json
  ptTitle :: gostring
  ptAcceptanceDefinition :: raw_json
  ptAcceptanceStatus :: gostring
  ptAcceptanceResult :: raw_json
  ptSession :: "gostring option"
  ptStarted :: "time option"
  ptFinished :: "time option"

record plan = lrow +
  plIntake :: uuid
  plTitle :: gostring
  plSpec :: raw_json
  plMarkdown :: gostring
  plContentVersion :: int
  plExecutable :: bool
  plCompat :: bool
  plProblems :: raw_json
  plConfig :: raw_json
  plDelivery :: gostring
  plAcceptance :: raw_json
  plStarted :: "time option"
  plCreated :: time

record agent_run = lrow +
  arPlan :: "uuid option"
  arJob :: "uuid option"
  arTask :: "uuid option"
  arOperation :: "gostring option"
  arExitCode :: "int option"
  arSession :: "gostring option"
  arTermination :: "gostring option"
  arFailure :: "gostring option"
  arDuration :: int
  arStarted :: time
  arFinished :: "time option"
  arPid :: "int option"
  arOwner :: gostring
  arLogPath :: gostring
  arCreated :: time

text \<open>An append-only audit row.\<close>

record lifecycle_transition =
  ltProject :: uuid
  ltResource :: gostring
  ltResourceID :: uuid
  ltVersion :: int
  ltFrom :: gostring
  ltTo :: gostring
  ltSource :: gostring
  ltCode :: gostring
  ltReason :: gostring
  ltActivity :: time
  ltHint :: gostring
  ltCheckpoint :: "(gostring \<times> json) list"
  ltOccurred :: time

section \<open>Requests\<close>

text \<open>A column assigned in the same \<^verbatim>\<open>UPDATE\<close>: its name and its SQL expression, as a function
  of the transaction's clock, the old row and the row so far.\<close>

record 'r field_update =
  fuColumn :: gostring
  fuApply :: "time \<Rightarrow> 'r \<Rightarrow> 'r \<Rightarrow> 'r"

record lifecycle_params =
  lpResourceType :: gostring
  lpResourceID :: uuid
  lpExpectedStatus :: gostring
  lpExpectedVersion :: int
  lpStatus :: gostring
  lpSource :: gostring
  lpCode :: gostring
  lpReason :: gostring
  lpActivity :: "time option"
  lpHint :: gostring
  lpCheckpoint :: raw_json
  lpRelatedJob :: "uuid option"
  lpRelatedRun :: "uuid option"

record 'r lifecycle_request = lifecycle_params +
  rqExpectedStatuses :: "gostring list"
  rqRequireWorker :: "gostring option"
  rqAllowNonContract :: bool
  rqAllowTerminal :: bool
  rqIgnoreTerminal :: bool
  rqMismatch :: "error option"
  rqFields :: "'r field_update list"

text \<open>The zero value of the request, updated field by field as the Go literals name them.\<close>

definition zeroRequest :: "'r lifecycle_request" where
  "zeroRequest = \<lparr>lpResourceType = [], lpResourceID = [], lpExpectedStatus = [], lpExpectedVersion = 0,
     lpStatus = [], lpSource = [], lpCode = [], lpReason = [], lpActivity = None, lpHint = [],
     lpCheckpoint = RawEmpty, lpRelatedJob = None, lpRelatedRun = None, rqExpectedStatuses = [],
     rqRequireWorker = None, rqAllowNonContract = False, rqAllowTerminal = False, rqIgnoreTerminal = False,
     rqMismatch = None, rqFields = []\<rparr>"

record 'r lifecycle_result =
  lrState :: 'r
  lrTransition :: "lifecycle_transition option"
  lrIdempotent :: bool

section \<open>The gate\<close>

definition lifecycleTable :: "gostring \<Rightarrow> error + gostring" where
  "lifecycleTable resource =
     (if resource = ResPlan then Inr ''plans''
      else if resource = ResTask then Inr ''plan_tasks''
      else if resource = ResJob then Inr ''jobs''
      else if resource = ResAgentRun then Inr ''agent_runs''
      else Inl ErrInvalidTransition)"

text \<open>A Go \<^verbatim>\<open>map[string]any\<close> that is marshalled: keys in byte order, the last write wins.\<close>

fun putMember :: "gostring \<Rightarrow> json \<Rightarrow> (gostring \<times> json) list \<Rightarrow> (gostring \<times> json) list" where
  "putMember k v [] = [(k, v)]"
| "putMember k v ((k', v') # ms) =
     (if k = k' then (k, v) # ms
      else if byteLess k k' then (k, v) # (k', v') # ms
      else (k', v') # putMember k v ms)"

definition objectMap :: "(gostring \<times> json) list \<Rightarrow> (gostring \<times> json) list" where
  "objectMap ms = fold (\<lambda>(k, v). putMember k v) ms []"

text \<open>\<^verbatim>\<open>mustJSON(map[string]any{...})\<close>\<close>

definition mustObject :: "(gostring \<times> json) list \<Rightarrow> raw_json" where
  "mustObject ms = RawValue (JObj (objectMap ms))"

definition lifecycleCheckpoint :: "('r, 'x) lifecycle_request_scheme \<Rightarrow> error + (gostring \<times> json) list" where
  "lifecycleCheckpoint q =
     (case (case lpCheckpoint q of RawEmpty \<Rightarrow> Some [] | RawValue (JObj ms) \<Rightarrow> Some (objectMap ms) | _ \<Rightarrow> None) of
        None \<Rightarrow> Inl ErrInvalidLifecycleMetadata
      | Some c0 \<Rightarrow>
          (let c1 = putMember ''resourceId'' (JStr (lpResourceID q)) c0;
               c2 = (if lpResourceType q = ResJob then putMember ''jobId'' (JStr (lpResourceID q)) c1
                     else if lpResourceType q = ResAgentRun then putMember ''agentRunId'' (JStr (lpResourceID q)) c1
                     else c1);
               c3 = (case lpRelatedJob q of Some j \<Rightarrow> putMember ''jobId'' (JStr j) c2 | None \<Rightarrow> c2);
               c4 = (case lpRelatedRun q of Some r \<Rightarrow> putMember ''agentRunId'' (JStr r) c3 | None \<Rightarrow> c3)
           in Inr c4))"

definition lifecycleFieldColumns :: "gostring \<Rightarrow> gostring list" where
  "lifecycleFieldColumns resource =
     (if resource = ResPlan then [''execution_started_at'', ''delivery_status'', ''acceptance_summary'']
      else if resource = ResTask then
        [''session_id'', ''started_at'', ''finished_at'', ''acceptance_status'', ''acceptance_result'']
      else if resource = ResJob then
        [''worker_id'', ''lease_expires_at'', ''run_after'', ''attempt'', ''last_error'']
      else if resource = ResAgentRun then
        [''exit_code'', ''session_id'', ''session_mode'', ''session_invalidation_reason'',
         ''termination_reason'', ''failure_category'', ''duration_ms'', ''output_bytes'',
         ''output_lines'', ''event_count'', ''output_truncated'', ''input_tokens'',
         ''output_tokens'', ''total_tokens'', ''cost_amount'', ''cost_currency'', ''finished_at'']
      else [])"

text \<open>\<^verbatim>\<open>renderLifecycleFields\<close>: the column check; the assignments are then applied to the old row.\<close>

fun renderLifecycleFields :: "gostring \<Rightarrow> 'r field_update list \<Rightarrow> error + unit" where
  "renderLifecycleFields resource [] = Inr ()"
| "renderLifecycleFields resource (f # fs) =
     (if fuColumn f \<notin> set (lifecycleFieldColumns resource) then Inl (ErrLifecycleField (fuColumn f))
      else renderLifecycleFields resource fs)"

definition applyFields :: "time \<Rightarrow> 'r field_update list \<Rightarrow> 'r \<Rightarrow> 'r" where
  "applyFields now fs r = fold (\<lambda>f. fuApply f now r) fs r"

definition findRow :: "uuid \<Rightarrow> 'a lrow_scheme list \<Rightarrow> 'a lrow_scheme option" where
  "findRow i t = find (\<lambda>r. lId r = i) t"

definition updateRow :: "uuid \<Rightarrow> ('a lrow_scheme \<Rightarrow> 'a lrow_scheme) \<Rightarrow> 'a lrow_scheme list \<Rightarrow> 'a lrow_scheme list" where
  "updateRow i f t = map (\<lambda>r. if lId r = i then f r else r) t"

text \<open>The decision on the locked row, in the order of the source.\<close>

datatype gate = Refuse error | Replay | Proceed

definition mismatch :: "'r lifecycle_request \<Rightarrow> error" where
  "mismatch q = (case rqMismatch q of Some e \<Rightarrow> e | None \<Rightarrow> ErrInvalidTransition)"

definition expectedStatuses :: "'r lifecycle_request \<Rightarrow> gostring list" where
  "expectedStatuses q = (if lpExpectedStatus q \<noteq> [] then [lpExpectedStatus q] else rqExpectedStatuses q)"

definition lifecycleContains :: "gostring list \<Rightarrow> gostring \<Rightarrow> bool" where
  "lifecycleContains values v \<longleftrightarrow> v \<in> set values"

definition contractCheck :: "'r lifecycle_request \<Rightarrow> gostring \<Rightarrow> gate" where
  "contractCheck q status =
     (case EvaluateTransition (lpResourceType q) status (lpStatus q) of
        Inl e \<Rightarrow> if rqAllowNonContract q then Proceed else Refuse e
      | Inr _ \<Rightarrow> Proceed)"

definition workerCheck :: "('r \<Rightarrow> gostring option) \<Rightarrow> 'r lifecycle_request \<Rightarrow> 'r \<Rightarrow> error option" where
  "workerCheck worker q r =
     (case rqRequireWorker q of
        None \<Rightarrow> None
      | Some w \<Rightarrow>
          if lpResourceType q \<noteq> ResJob then Some ErrInvalidTransition
          else if (case worker r of None \<Rightarrow> [] | Some x \<Rightarrow> x) \<noteq> w then Some (mismatch q)
          else None)"

definition gateCheck ::
  "('a lrow_scheme \<Rightarrow> gostring option) \<Rightarrow> 'a lrow_scheme lifecycle_request \<Rightarrow> 'a lrow_scheme \<Rightarrow> gate"
where
  "gateCheck worker q r =
     (let protected = (IsTerminalStatus (lpResourceType q) (lStatus r) \<and> \<not> rqAllowTerminal q) in
      if lStatus r = lpStatus q then Replay
      else if protected \<and> rqIgnoreTerminal q then Replay
      else if protected \<and> \<not> IsRecoverableTerminalStatus (lpResourceType q) (lStatus r) then Refuse ErrInvalidTransition
      else if lpExpectedVersion q > 0 \<and> lVersion r \<noteq> lpExpectedVersion q then Refuse ErrVersionConflict
      else if expectedStatuses q \<noteq> [] \<and> \<not> lifecycleContains (expectedStatuses q) (lStatus r) then Refuse (mismatch q)
      else (case workerCheck worker q r of
              Some e \<Rightarrow> Refuse e
            | None \<Rightarrow> contractCheck q (lStatus r)))"

definition requestMetadata :: "time \<Rightarrow> 'r lifecycle_request \<Rightarrow> (gostring \<times> json) list \<Rightarrow> lifecycle_metadata" where
  "requestMetadata now q cp =
     \<lparr>mdSource = lpSource q, mdCode = lpCode q, mdReason = trimSpace (lpReason q),
      mdActivity = (case lpActivity q of Some t \<Rightarrow> t | None \<Rightarrow> now), mdHint = lpHint q,
      mdCheckpoint = RawValue (JObj cp)\<rparr>"

text \<open>The \<^verbatim>\<open>UPDATE\<close> of one row.\<close>

definition setLifecycle ::
  "time \<Rightarrow> 'a lrow_scheme lifecycle_request \<Rightarrow> lifecycle_metadata \<Rightarrow> (gostring \<times> json) list \<Rightarrow> 'a lrow_scheme \<Rightarrow> 'a lrow_scheme"
where
  "setLifecycle now q m cp r =
     (applyFields now (rqFields q) r)
       \<lparr>lId := lId r, lProject := lProject r, lStatus := lpStatus q, lVersion := lVersion r + 1, lSource := mdSource m,
        lCode := mdCode m, lReason := mdReason m, lActivity := mdActivity m, lHint := mdHint m,
        lCheckpoint := cp, lUpdated := now\<rparr>"

text \<open>The trigger \<^verbatim>\<open>record_lifecycle_transition\<close>.\<close>

definition auditRow :: "time \<Rightarrow> gostring \<Rightarrow> gostring \<Rightarrow> 'a lrow_scheme \<Rightarrow> lifecycle_transition" where
  "auditRow now resource from r =
     \<lparr>ltProject = lProject r, ltResource = resource, ltResourceID = lId r, ltVersion = lVersion r,
      ltFrom = from, ltTo = lStatus r, ltSource = lSource r, ltCode = lCode r, ltReason = lReason r,
      ltActivity = lActivity r, ltHint = lHint r, ltCheckpoint = lCheckpoint r, ltOccurred = now\<rparr>"

definition transitionLifecycleTx ::
  "('a lrow_scheme \<Rightarrow> gostring option) \<Rightarrow> time \<Rightarrow> 'a lrow_scheme lifecycle_request \<Rightarrow> 'a lrow_scheme list \<Rightarrow>
     error + 'a lrow_scheme list \<times> 'a lrow_scheme lifecycle_result"
where
  "transitionLifecycleTx worker now q t =
     bindR (lifecycleTable (lpResourceType q)) (\<lambda>_.
       case findRow (lpResourceID q) t of
         None \<Rightarrow> Inl ErrNotFound
       | Some r \<Rightarrow>
           (case gateCheck worker q r of
              Refuse e \<Rightarrow> Inl e
            | Replay \<Rightarrow> Inr (t, \<lparr>lrState = r, lrTransition = None, lrIdempotent = True\<rparr>)
            | Proceed \<Rightarrow>
                bindR (lifecycleCheckpoint q) (\<lambda>cp.
                  let m = requestMetadata now q cp in
                  case ValidateLifecycleMetadata m of
                    Some e \<Rightarrow> Inl e
                  | None \<Rightarrow>
                      bindR (renderLifecycleFields (lpResourceType q) (rqFields q)) (\<lambda>_.
                        if lpResourceType q = ResAgentRun \<and> lpStatus q = ''timed_out''
                        then Inl (ErrText ''timed_out is a legacy-only Agent Run state'')
                        else let r' = setLifecycle now q m cp r in
                          Inr (updateRow (lpResourceID q) (setLifecycle now q m cp) t,
                               \<lparr>lrState = r', lrTransition = Some (auditRow now (lpResourceType q) (lStatus r) r'),
                                lrIdempotent = False\<rparr>)))))"

section \<open>Rows and tables\<close>

lemma findRow_Some:
  "findRow i t = Some r \<Longrightarrow> r \<in> set t \<and> lId r = i"
  by (auto simp: findRow_def find_Some_iff)

lemma findRow_None: "findRow i t = None \<longleftrightarrow> i \<notin> lId ` set t"
  by (auto simp: findRow_def find_None_iff)

lemma findRow_unique:
  "distinct (map lId t) \<Longrightarrow> r \<in> set t \<Longrightarrow> findRow (lId r) t = Some r"
  by (induction t) (auto simp: findRow_def)

lemma lId_updateRow: "(\<And>r. lId (f r) = lId r) \<Longrightarrow> map lId (updateRow i f t) = map lId t"
  by (simp add: updateRow_def)

lemma length_updateRow [simp]: "length (updateRow i f t) = length t"
  by (simp add: updateRow_def)

lemma findRow_updateRow:
  "(\<And>r. lId (f r) = lId r) \<Longrightarrow>
     findRow j (updateRow i f t) = map_option (\<lambda>r. if j = i then f r else r) (findRow j t)"
  by (induction t) (auto simp: findRow_def updateRow_def)

lemma set_updateRow:
  "r' \<in> set (updateRow i f t) \<Longrightarrow> \<exists>r \<in> set t. r' = (if lId r = i then f r else r)"
  by (auto simp: updateRow_def)

lemma setLifecycle_simps [simp]:
  "lId (setLifecycle now q m cp r) = lId r"
  "lProject (setLifecycle now q m cp r) = lProject r"
  "lStatus (setLifecycle now q m cp r) = lpStatus q"
  "lVersion (setLifecycle now q m cp r) = lVersion r + 1"
  "lReason (setLifecycle now q m cp r) = mdReason m"
  "lSource (setLifecycle now q m cp r) = mdSource m"
  "lCode (setLifecycle now q m cp r) = mdCode m"
  "lHint (setLifecycle now q m cp r) = mdHint m"
  "lCheckpoint (setLifecycle now q m cp r) = cp"
  by (simp_all add: setLifecycle_def)

section \<open>What the gate guarantees\<close>

lemma transition_Inr:
  assumes "transitionLifecycleTx worker now q t = Inr (t', res)"
  obtains (replay) r where "findRow (lpResourceID q) t = Some r" "gateCheck worker q r = Replay"
      "t' = t" "res = \<lparr>lrState = r, lrTransition = None, lrIdempotent = True\<rparr>"
    | (applied) r cp m where "findRow (lpResourceID q) t = Some r" "gateCheck worker q r = Proceed"
      "lifecycleCheckpoint q = Inr cp" "m = requestMetadata now q cp" "ValidateLifecycleMetadata m = None"
      "renderLifecycleFields (lpResourceType q) (rqFields q) = Inr ()"
      "\<not> (lpResourceType q = ResAgentRun \<and> lpStatus q = ''timed_out'')"
      "t' = updateRow (lpResourceID q) (setLifecycle now q m cp) t"
      "res = \<lparr>lrState = setLifecycle now q m cp r,
         lrTransition = Some (auditRow now (lpResourceType q) (lStatus r) (setLifecycle now q m cp r)),
         lrIdempotent = False\<rparr>"
  using assms unfolding transitionLifecycleTx_def
  by (auto simp: bindR_Inr_iff Let_def split: option.splits gate.splits if_splits)

lemma gateCheck_Proceed:
  assumes "gateCheck worker q r = Proceed"
  shows "lStatus r \<noteq> lpStatus q"
    and "IsTerminalStatus (lpResourceType q) (lStatus r) \<Longrightarrow>
      rqAllowTerminal q \<or> (IsRecoverableTerminalStatus (lpResourceType q) (lStatus r) \<and> \<not> rqIgnoreTerminal q)"
    and "expectedStatuses q \<noteq> [] \<Longrightarrow> lStatus r \<in> set (expectedStatuses q)"
    and "lpExpectedVersion q > 0 \<Longrightarrow> lVersion r = lpExpectedVersion q"
    and "workerCheck worker q r = None"
    and "rqAllowNonContract q \<or> (\<exists>d. EvaluateTransition (lpResourceType q) (lStatus r) (lpStatus q) = Inr d)"
  using assms unfolding gateCheck_def contractCheck_def lifecycleContains_def
  by (auto simp: Let_def split: if_splits option.splits sum.splits)

section \<open>The database\<close>

text \<open>The row of \<^verbatim>\<open>project_settings\<close> is part of the project, \<open>None\<close> when it is missing.\<close>

record project_settings =
  psVersion :: int
  psValidationCommand :: gostring
  psAgentProvider :: gostring
  psCodexCommand :: gostring
  psCodexArgs :: raw_json
  psClaudeCommand :: gostring
  psClaudeArgs :: raw_json
  psPlanTimeout :: int
  psTaskTimeout :: int
  psMaxRetries :: int
  psAllowedEnv :: raw_json

record project =
  pjId :: uuid
  pjAutomation :: bool
  pjVersion :: int
  pjWorkspace :: gostring
  pjSettings :: "project_settings option"

record intake =
  ikId :: uuid
  ikProject :: uuid
  ikKind :: gostring
  ikParent :: "uuid option"
  ikTitle :: gostring
  ikBody :: gostring
  ikStatus :: gostring
  ikVersion :: int
  ikUpdated :: time

record runtime_instance =
  rtId :: gostring
  rtHeartbeat :: time
  rtIntervalMS :: int
  rtUpdated :: time

text \<open>The files and hunks of a change set, as parameters and as rows.\<close>

record checkpoint_hunk =
  chHeader :: gostring
  chPatch :: gostring
  chOldStart :: int
  chOldCount :: int
  chNewStart :: int
  chNewCount :: int

record checkpoint_file =
  cfPath :: gostring
  cfPrevious :: gostring
  cfStatus :: gostring
  cfStaged :: bool
  cfBinary :: bool
  cfAdditions :: int
  cfDeletions :: int
  cfHunks :: "checkpoint_hunk list"

record plan_snapshot =
  snId :: uuid
  snProject :: uuid
  snPlan :: uuid
  snIntake :: uuid
  snPrevious :: "uuid option"
  snTask :: "uuid option"
  snSequence :: int
  snKind :: gostring
  snRequirementVersion :: int
  snRequirementDigest :: gostring
  snPlanVersion :: int
  snContentVersion :: int
  snSpecDigest :: gostring
  snProjectVersion :: int
  snConfigVersion :: int
  snKeyFields :: raw_json
  snGenerationProvider :: gostring
  snExecutionProvider :: gostring
  snWorkspace :: gostring
  snGitRoot :: gostring
  snGitIdentity :: gostring
  snGitBranch :: gostring
  snGitHead :: gostring
  snGitDigest :: gostring
  snSummary :: raw_json
  snAdditions :: int
  snDeletions :: int
  snFiles :: "checkpoint_file list"

record drift_audit =
  daId :: uuid
  daProject :: uuid
  daPlan :: uuid
  daSequence :: int
  daAction :: gostring
  daOriginal :: "uuid option"
  daNew :: "uuid option"
  daTarget :: "uuid option"
  daRawDiff :: raw_json
  daChannel :: gostring
  daReason :: gostring

record workspace_lease =
  wlId :: uuid
  wlProject :: uuid
  wlPath :: gostring
  wlWorker :: gostring
  wlJob :: uuid
  wlHeartbeat :: time
  wlExpires :: time
  wlVersion :: int

record event =
  evProject :: "uuid option"
  evType :: gostring
  evAggregateType :: gostring
  evAggregateID :: uuid
  evVersion :: int
  evPayload :: json
  evOccurred :: time

text \<open>\<open>dbNotify\<close> is what \<^verbatim>\<open>pg_notify\<close> will deliver on commit: channel and payload.\<close>

record db =
  dbProjects :: "project list"
  dbIntakes :: "intake list"
  dbPlans :: "plan list"
  dbTasks :: "plan_task list"
  dbJobs :: "job list"
  dbRuns :: "agent_run list"
  dbLeases :: "workspace_lease list"
  dbTransitions :: "lifecycle_transition list"
  dbSnapshots :: "plan_snapshot list"
  dbAudits :: "drift_audit list"
  dbRuntimes :: "runtime_instance list"
  dbEvents :: "event list"
  dbNotify :: "(gostring \<times> gostring) list"

text \<open>The gate on one table of the database, with the trigger's audit row.\<close>

definition transitionIn ::
  "(db \<Rightarrow> 'a lrow_scheme list) \<Rightarrow> ('a lrow_scheme list \<Rightarrow> db \<Rightarrow> db) \<Rightarrow> ('a lrow_scheme \<Rightarrow> gostring option) \<Rightarrow>
     time \<Rightarrow> 'a lrow_scheme lifecycle_request \<Rightarrow> db \<Rightarrow> error + db \<times> 'a lrow_scheme lifecycle_result"
where
  "transitionIn get put worker now q d =
     bindR (transitionLifecycleTx worker now q (get d)) (\<lambda>(t, res).
       Inr (case lrTransition res of
              None \<Rightarrow> d
            | Some a \<Rightarrow> (put t d)\<lparr>dbTransitions := dbTransitions d @ [a]\<rparr>, res))"

definition putJobs :: "job list \<Rightarrow> db \<Rightarrow> db" where "putJobs t d = d\<lparr>dbJobs := t\<rparr>"
definition putTasks :: "plan_task list \<Rightarrow> db \<Rightarrow> db" where "putTasks t d = d\<lparr>dbTasks := t\<rparr>"
definition putPlans :: "plan list \<Rightarrow> db \<Rightarrow> db" where "putPlans t d = d\<lparr>dbPlans := t\<rparr>"
definition putRuns :: "agent_run list \<Rightarrow> db \<Rightarrow> db" where "putRuns t d = d\<lparr>dbRuns := t\<rparr>"

definition transitionJob :: "time \<Rightarrow> job lifecycle_request \<Rightarrow> db \<Rightarrow> error + db \<times> job lifecycle_result" where
  "transitionJob = transitionIn dbJobs putJobs jWorkerID"

definition transitionTask :: "time \<Rightarrow> plan_task lifecycle_request \<Rightarrow> db \<Rightarrow> error + db \<times> plan_task lifecycle_result" where
  "transitionTask = transitionIn dbTasks putTasks (\<lambda>_. None)"

definition transitionPlan :: "time \<Rightarrow> plan lifecycle_request \<Rightarrow> db \<Rightarrow> error + db \<times> plan lifecycle_result" where
  "transitionPlan = transitionIn dbPlans putPlans (\<lambda>_. None)"

definition transitionRun :: "time \<Rightarrow> agent_run lifecycle_request \<Rightarrow> db \<Rightarrow> error + db \<times> agent_run lifecycle_result" where
  "transitionRun = transitionIn dbRuns putRuns (\<lambda>_. None)"

text \<open>
  \<^verbatim>\<open>TransitionLifecycle\<close>: one request without fields and flags, in its own transaction; the
  committed database and whether the call was a replay.
\<close>

definition requestOf :: "lifecycle_params \<Rightarrow> 'r lifecycle_request" where
  "requestOf p = zeroRequest\<lparr>lpResourceType := lpResourceType p, lpResourceID := lpResourceID p,
     lpExpectedStatus := lpExpectedStatus p, lpExpectedVersion := lpExpectedVersion p, lpStatus := lpStatus p,
     lpSource := lpSource p, lpCode := lpCode p, lpReason := lpReason p, lpActivity := lpActivity p,
     lpHint := lpHint p, lpCheckpoint := lpCheckpoint p, lpRelatedJob := lpRelatedJob p,
     lpRelatedRun := lpRelatedRun p\<rparr>"

definition TransitionLifecycle :: "time \<Rightarrow> lifecycle_params \<Rightarrow> db \<Rightarrow> error + db \<times> bool" where
  "TransitionLifecycle now p d =
     (if lpResourceType p = ResPlan then bindR (transitionPlan now (requestOf p) d) (\<lambda>(d', r). Inr (d', lrIdempotent r))
      else if lpResourceType p = ResTask then bindR (transitionTask now (requestOf p) d) (\<lambda>(d', r). Inr (d', lrIdempotent r))
      else if lpResourceType p = ResJob then bindR (transitionJob now (requestOf p) d) (\<lambda>(d', r). Inr (d', lrIdempotent r))
      else if lpResourceType p = ResAgentRun then bindR (transitionRun now (requestOf p) d) (\<lambda>(d', r). Inr (d', lrIdempotent r))
      else Inl ErrInvalidTransition)"

section \<open>The audit trail\<close>

definition trail :: "gostring \<Rightarrow> uuid \<Rightarrow> lifecycle_transition list \<Rightarrow> lifecycle_transition list" where
  "trail resource i ts = filter (\<lambda>a. ltResource a = resource \<and> ltResourceID a = i) ts"

text \<open>A trail that explains a row: each audit row starts where the one before it ended, versions
  grow, and the last one ends in the row's status.\<close>

definition explains :: "lifecycle_transition list \<Rightarrow> 'a lrow_scheme \<Rightarrow> bool" where
  "explains as r \<longleftrightarrow>
     successively (\<lambda>a b. ltTo a = ltFrom b \<and> ltVersion a < ltVersion b) as \<and>
     (as \<noteq> [] \<longrightarrow> ltTo (last as) = lStatus r \<and> ltVersion (last as) \<le> lVersion r)"

definition audited :: "gostring \<Rightarrow> lifecycle_transition list \<Rightarrow> 'a lrow_scheme list \<Rightarrow> bool" where
  "audited resource ts t \<longleftrightarrow> distinct (map lId t) \<and> (\<forall>r \<in> set t. explains (trail resource (lId r) ts) r)"

lemma explains_snoc:
  assumes "explains as r" "ltFrom a = lStatus r" "ltVersion a = lVersion r + 1"
    "lStatus r' = ltTo a" "lVersion r' = ltVersion a"
  shows "explains (as @ [a]) r'"
  using assms by (auto simp: explains_def successively_append_iff)

lemma trail_snoc:
  "trail resource i (ts @ [a]) =
     trail resource i ts @ (if ltResource a = resource \<and> ltResourceID a = i then [a] else [])"
  by (simp add: trail_def)

lemma audited_other:
  "audited resource ts t \<Longrightarrow> ltResource a \<noteq> resource \<Longrightarrow> audited resource (ts @ [a]) t"
  by (auto simp: audited_def trail_snoc)

lemma updateRow_setLifecycle_ids [simp]:
  "map lId (updateRow i (setLifecycle now q m cp) t) = map lId t"
  by (rule lId_updateRow) simp

text \<open>
  The contract of a lifecycle table inside the database, and what the gate does to any table that
  meets it: an applied transition changes one row, appends one audit row and nothing else.
\<close>

locale lifecycle_store =
  fixes get :: "db \<Rightarrow> 'a lrow_scheme list" and put :: "'a lrow_scheme list \<Rightarrow> db \<Rightarrow> db"
    and worker :: "'a lrow_scheme \<Rightarrow> gostring option"
  assumes get_put: "get (put t d) = t"
    and get_audit: "get (d\<lparr>dbTransitions := ts\<rparr>) = get d"
    and audit_put: "dbTransitions (put t d) = dbTransitions d"
begin

lemma transition_cases:
  assumes "transitionIn get put worker now q d = Inr (d', res)"
  obtains (replay) r where "findRow (lpResourceID q) (get d) = Some r" "gateCheck worker q r = Replay"
      "d' = d" "res = \<lparr>lrState = r, lrTransition = None, lrIdempotent = True\<rparr>"
    | (applied) r m cp where "findRow (lpResourceID q) (get d) = Some r" "gateCheck worker q r = Proceed"
      "lifecycleCheckpoint q = Inr cp" "m = requestMetadata now q cp" "ValidateLifecycleMetadata m = None"
      "get d' = updateRow (lpResourceID q) (setLifecycle now q m cp) (get d)"
      "dbTransitions d' = dbTransitions d @
         [auditRow now (lpResourceType q) (lStatus r) (setLifecycle now q m cp r)]"
      "d' = (put (get d') d)\<lparr>dbTransitions := dbTransitions d'\<rparr>"
      "res = \<lparr>lrState = setLifecycle now q m cp r,
         lrTransition = Some (auditRow now (lpResourceType q) (lStatus r) (setLifecycle now q m cp r)),
         lrIdempotent = False\<rparr>"
proof -
  obtain t' where t: "transitionLifecycleTx worker now q (get d) = Inr (t', res)"
    "d' = (case lrTransition res of None \<Rightarrow> d | Some a \<Rightarrow> (put t' d)\<lparr>dbTransitions := dbTransitions d @ [a]\<rparr>)"
    using assms unfolding transitionIn_def by (auto simp: bindR_Inr_iff)
  from t(1) show thesis
  proof (cases rule: transition_Inr)
    case (replay r)
    then show ?thesis using that(1) t(2) by simp
  next
    case (applied r cp m)
    then show ?thesis using that(2) t(2) by (simp add: get_put get_audit)
  qed
qed

lemma transition_ids:
  assumes "transitionIn get put worker now q d = Inr (d', res)"
  shows "map lId (get d') = map lId (get d)"
  using assms by (cases rule: transition_cases) auto

lemma transition_audited:
  assumes "transitionIn get put worker now q d = Inr (d', res)"
    and "audited (lpResourceType q) (dbTransitions d) (get d)"
  shows "audited (lpResourceType q) (dbTransitions d') (get d')"
  using assms(1)
proof (cases rule: transition_cases)
  case (applied r m cp)
  let ?f = "setLifecycle now q m cp" and ?R = "lpResourceType q" and ?i = "lpResourceID q"
  let ?a = "auditRow now ?R (lStatus r) (?f r)"
  have r: "r \<in> set (get d)" "lId r = ?i" using findRow_Some [OF applied(1)] by auto
  have d: "distinct (map lId (get d))" using assms(2) by (simp add: audited_def)
  have "explains (trail ?R (lId s') (dbTransitions d')) s'" if s': "s' \<in> set (get d')" for s'
  proof -
    from s' obtain s where s: "s \<in> set (get d)" "s' = (if lId s = ?i then ?f s else s)"
      using set_updateRow unfolding applied(6) by blast
    have e: "explains (trail ?R (lId s) (dbTransitions d)) s" using assms(2) s(1) by (simp add: audited_def)
    show ?thesis
    proof (cases "lId s = ?i")
      case True
      then have "s = r" using d r s(1) by (metis findRow_unique option.inject)
      then show ?thesis using e s(2) True r(2) unfolding applied(7)
        by (auto simp: trail_snoc auditRow_def intro: explains_snoc)
    next
      case False
      then show ?thesis using e s(2) r(2) unfolding applied(7) by (simp add: trail_snoc auditRow_def)
    qed
  qed
  then show ?thesis using d unfolding audited_def applied(6) by simp
qed (use assms(2) in simp)

lemma transition_audited_other:
  assumes "transitionIn get put worker now q d = Inr (d', res)" "resource \<noteq> lpResourceType q"
    and "audited resource (dbTransitions d) t"
  shows "audited resource (dbTransitions d') t"
  using assms(1) by (cases rule: transition_cases) (use assms(2,3) in \<open>auto intro: audited_other simp: auditRow_def\<close>)

lemma transition_protects:
  assumes "transitionIn get put worker now q d = Inr (d', res)" "r \<in> set (get d)"
    "IsTerminalStatus (lpResourceType q) (lStatus r)" "\<not> IsRecoverableTerminalStatus (lpResourceType q) (lStatus r)"
    "\<not> rqAllowTerminal q" "distinct (map lId (get d))"
  shows "r \<in> set (get d')"
  using assms(1)
proof (cases rule: transition_cases)
  case (applied s m cp)
  have "lId r \<noteq> lpResourceID q"
  proof
    assume "lId r = lpResourceID q"
    then have "r = s" using applied(1) findRow_unique [OF assms(6,2)] by simp
    then show False using gateCheck_Proceed(2) [OF applied(2)] assms(3-5) by blast
  qed
  then show ?thesis using assms(2) unfolding applied(6) by (force simp: updateRow_def)
qed (use assms(2) in simp)

lemma transition_status:
  assumes "transitionIn get put worker now q d = Inr (d', res)"
  shows "\<exists>r. findRow (lpResourceID q) (get d') = Some r \<and> lrState res = r \<and> (lStatus r = lpStatus q \<or> rqIgnoreTerminal q)"
  using assms
proof (cases rule: transition_cases)
  case (replay r)
  then show ?thesis by (auto simp: gateCheck_def contractCheck_def Let_def split: if_splits option.splits sum.splits)
next
  case (applied r m cp)
  then show ?thesis by (simp add: findRow_updateRow)
qed

end

interpretation jobs: lifecycle_store dbJobs putJobs jWorkerID
  by unfold_locales (simp_all add: putJobs_def)

interpretation tasks: lifecycle_store dbTasks putTasks "\<lambda>_. None"
  by unfold_locales (simp_all add: putTasks_def)

interpretation plans: lifecycle_store dbPlans putPlans "\<lambda>_. None"
  by unfold_locales (simp_all add: putPlans_def)

interpretation runs: lifecycle_store dbRuns putRuns "\<lambda>_. None"
  by unfold_locales (simp_all add: putRuns_def)

text \<open>The whole database is explained by its audit trail.\<close>

definition db_audited :: "db \<Rightarrow> bool" where
  "db_audited d \<longleftrightarrow> audited ResPlan (dbTransitions d) (dbPlans d) \<and> audited ResTask (dbTransitions d) (dbTasks d) \<and>
     audited ResJob (dbTransitions d) (dbJobs d) \<and> audited ResAgentRun (dbTransitions d) (dbRuns d)"

text \<open>A transition of one table leaves every other one.\<close>

lemma transitionJob_frame:
  assumes "transitionJob now q d = Inr (d', r)"
  shows "d' = d\<lparr>dbJobs := dbJobs d', dbTransitions := dbTransitions d'\<rparr>"
  using assms unfolding transitionJob_def by (cases rule: jobs.transition_cases) (auto simp: putJobs_def)

lemma transitionTask_frame:
  assumes "transitionTask now q d = Inr (d', r)"
  shows "d' = d\<lparr>dbTasks := dbTasks d', dbTransitions := dbTransitions d'\<rparr>"
  using assms unfolding transitionTask_def by (cases rule: tasks.transition_cases) (auto simp: putTasks_def)

lemma transitionPlan_frame:
  assumes "transitionPlan now q d = Inr (d', r)"
  shows "d' = d\<lparr>dbPlans := dbPlans d', dbTransitions := dbTransitions d'\<rparr>"
  using assms unfolding transitionPlan_def by (cases rule: plans.transition_cases) (auto simp: putPlans_def)

lemma transitionRun_frame:
  assumes "transitionRun now q d = Inr (d', r)"
  shows "d' = d\<lparr>dbRuns := dbRuns d', dbTransitions := dbTransitions d'\<rparr>"
  using assms unfolding transitionRun_def by (cases rule: runs.transition_cases) (auto simp: putRuns_def)

lemma transitionJob_audited:
  assumes "transitionJob now q d = Inr (d', r)" "lpResourceType q = ResJob" "db_audited d"
  shows "db_audited d'"
proof -
  have f: "dbPlans d' = dbPlans d" "dbTasks d' = dbTasks d" "dbRuns d' = dbRuns d"
    by (subst transitionJob_frame [OF assms(1)], simp)+
  note t = assms(1) [unfolded transitionJob_def]
  show ?thesis using assms(2,3) unfolding db_audited_def f
    by (intro conjI jobs.transition_audited [OF t, unfolded assms(2)] jobs.transition_audited_other [OF t]) simp_all
qed

lemma transitionTask_audited:
  assumes "transitionTask now q d = Inr (d', r)" "lpResourceType q = ResTask" "db_audited d"
  shows "db_audited d'"
proof -
  have f: "dbPlans d' = dbPlans d" "dbJobs d' = dbJobs d" "dbRuns d' = dbRuns d"
    by (subst transitionTask_frame [OF assms(1)], simp)+
  note t = assms(1) [unfolded transitionTask_def]
  show ?thesis using assms(2,3) unfolding db_audited_def f
    by (intro conjI tasks.transition_audited [OF t, unfolded assms(2)] tasks.transition_audited_other [OF t]) simp_all
qed

lemma transitionPlan_audited:
  assumes "transitionPlan now q d = Inr (d', r)" "lpResourceType q = ResPlan" "db_audited d"
  shows "db_audited d'"
proof -
  have f: "dbTasks d' = dbTasks d" "dbJobs d' = dbJobs d" "dbRuns d' = dbRuns d"
    by (subst transitionPlan_frame [OF assms(1)], simp)+
  note t = assms(1) [unfolded transitionPlan_def]
  show ?thesis using assms(2,3) unfolding db_audited_def f
    by (intro conjI plans.transition_audited [OF t, unfolded assms(2)] plans.transition_audited_other [OF t]) simp_all
qed

lemma transitionRun_audited:
  assumes "transitionRun now q d = Inr (d', r)" "lpResourceType q = ResAgentRun" "db_audited d"
  shows "db_audited d'"
proof -
  have f: "dbTasks d' = dbTasks d" "dbJobs d' = dbJobs d" "dbPlans d' = dbPlans d"
    by (subst transitionRun_frame [OF assms(1)], simp)+
  note t = assms(1) [unfolded transitionRun_def]
  show ?thesis using assms(2,3) unfolding db_audited_def f
    by (intro conjI runs.transition_audited [OF t, unfolded assms(2)] runs.transition_audited_other [OF t]) simp_all
qed

lemmas transition_db_audited = transitionJob_audited transitionTask_audited transitionPlan_audited transitionRun_audited

text \<open>\<^verbatim>\<open>insertEvent\<close> (agent output is not stored), \<^verbatim>\<open>projectMaxAttempts\<close> and \<^verbatim>\<open>insertJob\<close> of
  \<^verbatim>\<open>store.go\<close>. An idempotency key that exists gives the existing job, untouched.\<close>

record new_event =
  neProject :: "uuid option"
  neType :: gostring
  neAggregateType :: gostring
  neAggregateID :: uuid
  neVersion :: int
  nePayload :: json

definition insertEvent :: "time \<Rightarrow> new_event \<Rightarrow> db \<Rightarrow> db" where
  "insertEvent now p d =
     (if neType p = ''agent.output'' then d
      else d\<lparr>dbEvents := dbEvents d @
               [\<lparr>evProject = neProject p, evType = neType p, evAggregateType = neAggregateType p,
                 evAggregateID = neAggregateID p, evVersion = neVersion p, evPayload = nePayload p,
                 evOccurred = now\<rparr>],
             dbNotify := dbNotify d @ [(''specrelay_events'', showNat (length (dbEvents d) + 1))]\<rparr>)"

definition notifyJob :: "uuid \<Rightarrow> db \<Rightarrow> db" where
  "notifyJob i d = d\<lparr>dbNotify := dbNotify d @ [(''specrelay_jobs'', i)]\<rparr>"

definition projectMaxAttempts :: "uuid \<Rightarrow> db \<Rightarrow> error + int" where
  "projectMaxAttempts i d =
     (case find (\<lambda>p. pjId p = i) (dbProjects d) of
        None \<Rightarrow> Inl ErrNoRows
      | Some p \<Rightarrow> (case pjSettings p of None \<Rightarrow> Inl ErrNoRows
                   | Some st \<Rightarrow> Inr ((if psMaxRetries st < 0 then 0 else psMaxRetries st) + 1)))"

record new_job =
  njID :: uuid
  njProject :: uuid
  njType :: gostring
  njAggregateType :: gostring
  njAggregateID :: uuid
  njPayload :: "json option"
  njPriority :: int
  njMaxAttempts :: int
  njRunAfter :: "time option"
  njIdempotencyKey :: gostring

text \<open>The column defaults of a job row are those of migrations 001 and 011.\<close>

definition newJobRow :: "time \<Rightarrow> new_job \<Rightarrow> job" where
  "newJobRow now p =
     \<lparr>lId = njID p, lProject = njProject p, lStatus = ''queued'', lVersion = 1, lSource = ''system'',
      lCode = ''created'', lReason = ''resource created'', lActivity = now, lHint = ''none'', lCheckpoint = [],
      lUpdated = now, jType = njType p, jAggregateType = njAggregateType p,
      jAggregateID = njAggregateID p, jPayload = (case njPayload p of Some v \<Rightarrow> v | None \<Rightarrow> JObj []),
      jPriority = njPriority p, jRunAfter = (case njRunAfter p of Some t \<Rightarrow> t | None \<Rightarrow> now), jWorkerID = None,
      jLease = None, jAttempt = 0, jMaxAttempts = (if njMaxAttempts p < 1 then 3 else njMaxAttempts p),
      jLastError = None, jIdempotencyKey = njIdempotencyKey p, jCreated = now\<rparr>"

definition insertJob :: "time \<Rightarrow> new_job \<Rightarrow> db \<Rightarrow> db \<times> job" where
  "insertJob now p d =
     (case find (\<lambda>j. jIdempotencyKey j = njIdempotencyKey p) (dbJobs d) of
        Some j \<Rightarrow> (notifyJob (lId j) d, j)
      | None \<Rightarrow> (let j = newJobRow now p in (notifyJob (lId j) (d\<lparr>dbJobs := dbJobs d @ [j]\<rparr>), j)))"

section \<open>Concrete data\<close>

text \<open>A small database for the witnesses: two projects' jobs in the statuses given.\<close>

definition emptyDb :: db where
  "emptyDb = \<lparr>dbProjects = [], dbIntakes = [], dbPlans = [], dbTasks = [], dbJobs = [], dbRuns = [],
     dbLeases = [], dbTransitions = [], dbSnapshots = [], dbAudits = [], dbRuntimes = [], dbEvents = [], dbNotify = []\<rparr>"

definition sampleJob :: "uuid \<Rightarrow> gostring \<Rightarrow> gostring option \<Rightarrow> job" where
  "sampleJob i status worker =
     (newJobRow 0 \<lparr>njID = i, njProject = ''proj'', njType = ''task.execute'', njAggregateType = ''task'',
        njAggregateID = ''task'', njPayload = None, njPriority = 100, njMaxAttempts = 3, njRunAfter = None,
        njIdempotencyKey = i\<rparr>)\<lparr>lStatus := status, jWorkerID := worker\<rparr>"

definition sampleProject :: project where
  "sampleProject = \<lparr>pjId = ''proj'', pjAutomation = True, pjVersion = 1, pjWorkspace = ''/w'',
     pjSettings = Some \<lparr>psVersion = 1, psValidationCommand = ''go test'', psAgentProvider = ''codex'', psCodexCommand = ''codex'',
       psCodexArgs = RawValue (JArr []), psClaudeCommand = ''claude'', psClaudeArgs = RawValue (JArr []), psPlanTimeout = 600,
       psTaskTimeout = 600, psMaxRetries = 2, psAllowedEnv = RawValue (JArr [])\<rparr>\<rparr>"

definition sampleDb :: "job list \<Rightarrow> db" where
  "sampleDb js = emptyDb\<lparr>dbProjects := [sampleProject], dbJobs := js\<rparr>"

definition sampleTask :: "uuid \<Rightarrow> gostring \<Rightarrow> plan_task" where
  "sampleTask i status =
     \<lparr>lId = i, lProject = ''proj'', lStatus = status, lVersion = 1, lSource = ''system'', lCode = ''created'',
      lReason = ''resource created'', lActivity = 0, lHint = ''none'', lCheckpoint = [], lUpdated = 0,
      ptPlan = ''plan'', ptKey = i, ptType = ''implementation'', ptPosition = 1, ptExecutionOrder = 1,
      ptDependencyKeys = RawValue (JArr []), ptTitle = ''Title'',
      ptAcceptanceDefinition = RawValue (JArr [JObj [(''key'', JStr ''A'')]]), ptAcceptanceStatus = ''pending'',
      ptAcceptanceResult = RawValue (JObj [(''status'', JStr ''pending'')]), ptSession = None, ptStarted = None, ptFinished = None\<rparr>"

definition samplePlan :: "gostring \<Rightarrow> plan" where
  "samplePlan status =
     \<lparr>lId = ''plan'', lProject = ''proj'', lStatus = status, lVersion = 1, lSource = ''system'', lCode = ''created'',
      lReason = ''resource created'', lActivity = 0, lHint = ''none'', lCheckpoint = [], lUpdated = 0,
      plIntake = ''intake'', plTitle = ''T'', plSpec = RawValue (JObj []), plMarkdown = [], plContentVersion = 1, plExecutable = True, plCompat = False, plProblems = RawValue (JArr []),
      plConfig = RawValue (JObj []), plDelivery = ''pending'', plAcceptance = RawValue (JObj []), plStarted = Some 1, plCreated = 0\<rparr>"

end
