(* ===== verification/Scheduler.thy ===== *)
theory Scheduler
  imports Store
begin

text \<open>
  The scheduling gate of \<^verbatim>\<open>repository/queue.go\<close>: the persisted execution state of a plan,
  the checks of its graph and acceptance metadata, and \<^verbatim>\<open>nextPlanTask\<close>, the one decision that plan
  start, automatic continuation, manual retry and worker start share. The column values are JSON; the
  Unicode tables \<open>u\<close> are needed for quoting.
\<close>

section \<open>Reading JSON columns\<close>

text \<open>\<^verbatim>\<open>json.Unmarshal\<close> into a struct that names some members: others are ignored; None is an
  error.\<close>

fun looseMembers ::
  "gostring list \<Rightarrow> (gostring \<Rightarrow> json \<Rightarrow> 'r \<Rightarrow> 'r option) \<Rightarrow> (gostring \<times> json) list \<Rightarrow> 'r \<Rightarrow> 'r option"
where
  "looseMembers names set1 [] r = Some r"
| "looseMembers names set1 ((k, v) # ms) r =
     (case matchField names k of
        None \<Rightarrow> looseMembers names set1 ms r
      | Some n \<Rightarrow> Option.bind (set1 n v r) (looseMembers names set1 ms))"

definition looseStruct :: "gostring list \<Rightarrow> (gostring \<Rightarrow> json \<Rightarrow> 'r \<Rightarrow> 'r option) \<Rightarrow> 'r \<Rightarrow> json \<Rightarrow> 'r option" where
  "looseStruct names set1 r v =
     (case v of JNull \<Rightarrow> Some r | JObj ms \<Rightarrow> looseMembers names set1 ms r | _ \<Rightarrow> None)"

definition looseString :: "json \<Rightarrow> gostring \<Rightarrow> gostring option" where
  "looseString v old = (case v of JNull \<Rightarrow> Some old | JStr s \<Rightarrow> Some s | _ \<Rightarrow> None)"

fun looseList :: "(json \<Rightarrow> 'r option) \<Rightarrow> json list \<Rightarrow> 'r list option" where
  "looseList f [] = Some []"
| "looseList f (v # vs) = Option.bind (f v) (\<lambda>x. map_option (Cons x) (looseList f vs))"

definition looseSlice :: "(json \<Rightarrow> 'r option) \<Rightarrow> json \<Rightarrow> 'r list option" where
  "looseSlice f v = (case v of JNull \<Rightarrow> Some [] | JArr vs \<Rightarrow> looseList f vs | _ \<Rightarrow> None)"

text \<open>An empty message and invalid bytes are errors of \<^verbatim>\<open>json.Unmarshal\<close>.\<close>

definition unmarshal :: "(json \<Rightarrow> 'r option) \<Rightarrow> raw_json \<Rightarrow> 'r option" where
  "unmarshal f raw = (case raw of RawValue v \<Rightarrow> f v | _ \<Rightarrow> None)"

text \<open>\<^verbatim>\<open>[]struct{Key string}\<close>\<close>

definition decodeKeys :: "raw_json \<Rightarrow> gostring list option" where
  "decodeKeys = unmarshal (looseSlice (looseStruct [''key''] (\<lambda>n v r. looseString v r) []))"

text \<open>\<^verbatim>\<open>[]string\<close>\<close>

definition decodeStringList :: "raw_json \<Rightarrow> gostring list option" where
  "decodeStringList = unmarshal (looseSlice (\<lambda>v. looseString v []))"

record result_item =
  riKey :: gostring
  riStatus :: gostring
  riReason :: gostring
  riEvidence :: "json list"

record acceptance_result =
  acStatus :: gostring
  acItems :: "result_item list"
  acReason :: gostring
  acEvidence :: "json list"

definition decodeItemFields :: "gostring list \<Rightarrow> json \<Rightarrow> result_item option" where
  "decodeItemFields names =
     looseStruct names
       (\<lambda>n v r. if n = ''key'' then map_option (\<lambda>s. r\<lparr>riKey := s\<rparr>) (looseString v (riKey r))
          else if n = ''status'' then map_option (\<lambda>s. r\<lparr>riStatus := s\<rparr>) (looseString v (riStatus r))
          else if n = ''reason'' then map_option (\<lambda>s. r\<lparr>riReason := s\<rparr>) (looseString v (riReason r))
          else map_option (\<lambda>e. r\<lparr>riEvidence := e\<rparr>) (looseSlice Some v))
       \<lparr>riKey = [], riStatus = [], riReason = [], riEvidence = []\<rparr>"

definition decodeResult :: "gostring list \<Rightarrow> gostring list \<Rightarrow> raw_json \<Rightarrow> acceptance_result option" where
  "decodeResult names itemNames =
     unmarshal (looseStruct names
       (\<lambda>n v r. if n = ''status'' then map_option (\<lambda>s. r\<lparr>acStatus := s\<rparr>) (looseString v (acStatus r))
          else if n = ''items'' then map_option (\<lambda>is. r\<lparr>acItems := is\<rparr>) (looseSlice (decodeItemFields itemNames) v)
          else if n = ''reason'' then map_option (\<lambda>s. r\<lparr>acReason := s\<rparr>) (looseString v (acReason r))
          else map_option (\<lambda>e. r\<lparr>acEvidence := e\<rparr>) (looseSlice Some v))
       \<lparr>acStatus = [], acItems = [], acReason = [], acEvidence = []\<rparr>)"

section \<open>Execution state\<close>

record execution_state =
  esPlan :: uuid
  esProject :: uuid
  esVersion :: int
  esStatus :: gostring
  esExecutable :: bool
  esCompat :: bool
  esProblems :: raw_json
  esConfig :: raw_json
  esTasks :: "plan_task list"

definition legacyPendingAcceptanceResult :: "raw_json \<Rightarrow> bool" where
  "legacyPendingAcceptanceResult raw =
     (case decodeResult [''status'', ''items'', ''reason'', ''evidence''] [''status'', ''reason'', ''evidence''] raw of
        None \<Rightarrow> False
      | Some r \<Rightarrow>
          acStatus r = ''pending'' \<and> trimSpace (acReason r) = [] \<and> acEvidence r = [] \<and>
          (\<forall>i \<in> set (acItems r). riStatus i = ''pending'' \<and> trimSpace (riReason i) = [] \<and> riEvidence i = []))"

text \<open>\<^verbatim>\<open>buildAcceptanceResult\<close>: a decoding error leaves the criteria decoded so far; the stored
  definition is an array of objects, for which there is none.\<close>

definition buildAcceptanceResult :: "raw_json \<Rightarrow> gostring \<Rightarrow> gostring \<Rightarrow> raw_json" where
  "buildAcceptanceResult definition status message =
     (let criteria = (case decodeKeys definition of Some ks \<Rightarrow> ks | None \<Rightarrow> []);
          evidence = JArr (if status = ''passed'' \<and> message \<noteq> []
             then [JObj (objectMap [(''type'', JStr ''execution''), (''message'', JStr message)])] else []);
          reason = (if status = ''passed'' then [] else message);
          item = (\<lambda>k. JObj (objectMap [(''key'', JStr k), (''status'', JStr status), (''evidence'', evidence), (''reason'', JStr reason)]))
      in mustObject [(''status'', JStr status), (''items'', JArr (map item criteria)), (''evidence'', evidence), (''reason'', JStr reason)])"

text \<open>\<^verbatim>\<open>ORDER BY\<close>: a stable insertion sort.\<close>

fun insertBy :: "('r \<Rightarrow> 'r \<Rightarrow> bool) \<Rightarrow> 'r \<Rightarrow> 'r list \<Rightarrow> 'r list" where
  "insertBy before x [] = [x]"
| "insertBy before x (y # ys) = (if before y x then y # insertBy before x ys else x # y # ys)"

definition sortBy :: "('r \<Rightarrow> 'r \<Rightarrow> bool) \<Rightarrow> 'r list \<Rightarrow> 'r list" where
  "sortBy before xs = foldr (insertBy before) xs []"

lemma sortBy_set: "set (sortBy b xs) = set xs"
proof -
  have "set (insertBy b x ys) = insert x (set ys)" for x ys by (induction ys) auto
  then show ?thesis by (induction xs) (simp_all add: sortBy_def)
qed

definition positionBefore :: "plan_task \<Rightarrow> plan_task \<Rightarrow> bool" where
  "positionBefore a b \<longleftrightarrow> ptPosition a < ptPosition b \<or> (ptPosition a = ptPosition b \<and> byteLess (lId a) (lId b))"

definition taskBefore :: "bool \<Rightarrow> plan_task \<Rightarrow> plan_task \<Rightarrow> bool" where
  "taskBefore compatible a b =
     (if compatible then positionBefore a b
      else ptExecutionOrder a < ptExecutionOrder b \<or> (ptExecutionOrder a = ptExecutionOrder b \<and> positionBefore a b))"

text \<open>A task that succeeded before acceptance was recorded, in a compatibility plan.\<close>

definition recoverLegacy :: "plan_task \<Rightarrow> bool" where
  "recoverLegacy t \<longleftrightarrow> lStatus t = ''succeeded'' \<and> ptAcceptanceStatus t = ''pending'' \<and>
     legacyPendingAcceptanceResult (ptAcceptanceResult t)"

definition recoveredTask :: "time \<Rightarrow> plan_task \<Rightarrow> plan_task" where
  "recoveredTask now t = t\<lparr>ptAcceptanceStatus := ''passed'',
     ptAcceptanceResult := buildAcceptanceResult (ptAcceptanceDefinition t) ''passed'' ''legacy succeeded task acceptance recovered'',
     lUpdated := now, lVersion := lVersion t + 1\<rparr>"

definition loadPlanExecutionStateTx :: "time \<Rightarrow> uuid \<Rightarrow> db \<Rightarrow> error + db \<times> execution_state" where
  "loadPlanExecutionStateTx now planID d =
     (case findRow planID (dbPlans d) of
        None \<Rightarrow> Inl ErrNotFound
      | Some p \<Rightarrow>
          (let fix1 = (\<lambda>t. if plCompat p \<and> ptPlan t = planID \<and> recoverLegacy t then recoveredTask now t else t);
               ts = sortBy (taskBefore (plCompat p)) (filter (\<lambda>t. ptPlan t = planID) (dbTasks d))
           in Inr (d\<lparr>dbTasks := map fix1 (dbTasks d)\<rparr>,
                \<lparr>esPlan = planID, esProject = lProject p, esVersion = lVersion p, esStatus = lStatus p,
                 esExecutable = plExecutable p, esCompat = plCompat p, esProblems = plProblems p,
                 esConfig = plConfig p, esTasks = map fix1 ts\<rparr>)))"

section \<open>Blockers\<close>

definition zeroBlocker :: execution_blocker where
  "zeroBlocker = \<lparr>ebCode = [], ebTaskID = None, ebTaskKey = [], ebTaskTitle = [], ebTaskStatus = [],
     ebAcceptanceStatus = [], ebReason = [], ebAcceptanceBlockers = [], ebValidationProblems = RawEmpty\<rparr>"

definition taskSchedulingBlocker :: "gostring \<Rightarrow> plan_task \<Rightarrow> gostring \<Rightarrow> execution_blocker" where
  "taskSchedulingBlocker code t reason = zeroBlocker\<lparr>ebCode := code, ebTaskID := Some (lId t), ebTaskKey := ptKey t,
     ebTaskTitle := ptTitle t, ebTaskStatus := lStatus t, ebAcceptanceStatus := ptAcceptanceStatus t, ebReason := reason\<rparr>"

definition planValidationSchedulingBlocker :: "execution_state \<Rightarrow> gostring \<Rightarrow> execution_blocker" where
  "planValidationSchedulingBlocker s reason =
     zeroBlocker\<lparr>ebCode := ''plan_invalid'', ebReason := reason, ebValidationProblems := esProblems s\<rparr>"

record stored_problem =
  spbCode :: gostring
  spbPath :: gostring
  spbMessage :: gostring

definition decodeProblems :: "raw_json \<Rightarrow> stored_problem list option" where
  "decodeProblems =
     unmarshal (looseSlice (looseStruct [''code'', ''path'', ''message'']
       (\<lambda>n v r. if n = ''code'' then map_option (\<lambda>s. r\<lparr>spbCode := s\<rparr>) (looseString v (spbCode r))
          else if n = ''path'' then map_option (\<lambda>s. r\<lparr>spbPath := s\<rparr>) (looseString v (spbPath r))
          else map_option (\<lambda>s. r\<lparr>spbMessage := s\<rparr>) (looseString v (spbMessage r)))
       \<lparr>spbCode = [], spbPath = [], spbMessage = []\<rparr>))"

definition problemPart :: "stored_problem \<Rightarrow> gostring list" where
  "problemPart p =
     (let label = (if trimSpace (spbPath p) = [] then trimSpace (spbCode p) else trimSpace (spbPath p));
          message = trimSpace (spbMessage p)
      in if label \<noteq> [] \<and> message \<noteq> [] then [label @ '': '' @ message]
         else if message \<noteq> [] then [message]
         else if label \<noteq> [] then [label] else [])"

definition validationProblemSummary :: "raw_json \<Rightarrow> gostring" where
  "validationProblemSummary raw =
     (case decodeProblems raw of
        None \<Rightarrow> ''plan validation is invalid''
      | Some ps \<Rightarrow>
          (let parts = concat (map problemPart ps) in
           if parts = [] then ''plan validation is invalid''
           else ''plan validation is invalid: '' @ joinWith '', '' parts))"

definition acceptanceStatusPassed :: "gostring \<Rightarrow> bool" where
  "acceptanceStatusPassed s \<longleftrightarrow> s = ''passed'' \<or> s = ''skipped''"

definition missingItem :: "gostring \<Rightarrow> acceptance_blocker" where
  "missingItem k = \<lparr>abKey = k, abStatus = ''missing'', abReason = ''required acceptance item has no persisted result''\<rparr>"

text \<open>The required items that block: no stored result, or one that is neither passed nor skipped.\<close>

definition blockingItems :: "gostring list \<Rightarrow> result_item list \<Rightarrow> acceptance_blocker list" where
  "blockingItems definition1 results =
     (let resultByKey = map_of (rev (map (\<lambda>i. (riKey i, \<lparr>abKey = riKey i, abStatus = riStatus i, abReason = riReason i\<rparr>)) results)) in
      concat (map (\<lambda>k. case resultByKey k of
          None \<Rightarrow> [missingItem k]
        | Some item \<Rightarrow> if acceptanceStatusPassed (abStatus item) then [] else [item]) definition1))"

definition itemText :: "acceptance_blocker \<Rightarrow> gostring" where
  "itemText b = abKey b @ ''='' @ abStatus b @
     (if trimSpace (abReason b) \<noteq> [] then '' ('' @ trimSpace (abReason b) @ '')'' else [])"

definition acceptanceSchedulingBlocker :: "plan_task \<Rightarrow> execution_blocker option" where
  "acceptanceSchedulingBlocker t =
     (let base = ''task '' @ ptKey t @ '' acceptance is '' @ ptAcceptanceStatus t;
          blocker = taskSchedulingBlocker ''acceptance_not_passed'' t base
      in case decodeKeys (ptAcceptanceDefinition t) of
           None \<Rightarrow> Some (blocker\<lparr>ebCode := ''acceptance_invalid'', ebReason := base @ ''; acceptance definition is invalid''\<rparr>)
         | Some keys \<Rightarrow>
             (case decodeResult [''reason'', ''items''] [''key'', ''status'', ''reason''] (ptAcceptanceResult t) of
                None \<Rightarrow> Some (blocker\<lparr>ebCode := ''acceptance_invalid'', ebReason := base @ ''; acceptance result is invalid''\<rparr>)
              | Some r \<Rightarrow>
                  (let bs = blockingItems keys (acItems r) in
                   if acceptanceStatusPassed (ptAcceptanceStatus t) \<and> bs = [] then None
                   else Some (blocker\<lparr>ebAcceptanceBlockers := bs,
                     ebReason := base @ (if trimSpace (acReason r) \<noteq> [] then '': '' @ trimSpace (acReason r) else []) @
                       (if bs \<noteq> [] then ''; blocking acceptance items: '' @ joinWith '', '' (map itemText bs) else [])\<rparr>))))"

section \<open>The graph check\<close>

text \<open>The first loop of \<^verbatim>\<open>validatePlanExecutionState\<close>: unique keys, and the final validation
  only at the end; it returns the index of each key and the number of final validations.\<close>

fun indexTasks ::
  "execution_state \<Rightarrow> nat \<Rightarrow> nat \<Rightarrow> (gostring \<rightharpoonup> nat) \<Rightarrow> nat \<Rightarrow> plan_task list \<Rightarrow>
     execution_blocker list + (gostring \<rightharpoonup> nat) \<times> nat"
where
  "indexTasks s n i byKey1 finals [] = Inr (byKey1, finals)"
| "indexTasks s n i byKey1 finals (t # ts) =
     (if byKey1 (ptKey t) \<noteq> None
      then Inl [planValidationSchedulingBlocker s (''plan execution graph contains duplicate task key '' @ ptKey t)]
      else if ptType t = ''final_validation'' \<and> Suc i \<noteq> n
      then Inl [taskSchedulingBlocker ''plan_invalid'' t
             (''final validation task '' @ ptKey t @ '' is not last in topological execution order'')]
      else indexTasks s n (Suc i) (byKey1(ptKey t \<mapsto> i)) (if ptType t = ''final_validation'' then Suc finals else finals) ts)"

fun checkCriteria :: "unicode \<Rightarrow> plan_task \<Rightarrow> gostring set \<Rightarrow> gostring list \<Rightarrow> execution_blocker list" where
  "checkCriteria u t seen [] = []"
| "checkCriteria u t seen (k # ks) =
     (let key = trimSpace k in
      if key = [] \<or> key \<in> seen
      then [taskSchedulingBlocker ''plan_invalid'' t
              (''task '' @ ptKey t @ '' has invalid required acceptance item key '' @ goQuote u key)]
      else checkCriteria u t (insert key seen) ks)"

fun checkDependencyKeys :: "plan_task \<Rightarrow> nat \<Rightarrow> (gostring \<rightharpoonup> nat) \<Rightarrow> gostring set \<Rightarrow> gostring list \<Rightarrow> execution_blocker list" where
  "checkDependencyKeys t i byKey1 seen [] = []"
| "checkDependencyKeys t i byKey1 seen (d # ds) =
     (if d \<in> seen
      then [taskSchedulingBlocker ''plan_invalid'' t (''task '' @ ptKey t @ '' repeats dependency '' @ d)]
      else (case byKey1 d of
        None \<Rightarrow> [taskSchedulingBlocker ''plan_invalid'' t (''task '' @ ptKey t @ '' depends on missing task '' @ d)]
      | Some k \<Rightarrow>
          if i \<le> k then [taskSchedulingBlocker ''plan_invalid'' t
              (''task '' @ ptKey t @ '' dependency '' @ d @ '' is not earlier in topological execution order'')]
          else checkDependencyKeys t i byKey1 (insert d seen) ds))"

definition checkTaskMetadata :: "unicode \<Rightarrow> nat \<Rightarrow> (gostring \<rightharpoonup> nat) \<Rightarrow> plan_task \<Rightarrow> execution_blocker list" where
  "checkTaskMetadata u i byKey1 t =
     (case decodeKeys (ptAcceptanceDefinition t) of
        None \<Rightarrow> [taskSchedulingBlocker ''plan_invalid'' t (''task '' @ ptKey t @ '' has invalid or empty required acceptance metadata'')]
      | Some [] \<Rightarrow> [taskSchedulingBlocker ''plan_invalid'' t (''task '' @ ptKey t @ '' has invalid or empty required acceptance metadata'')]
      | Some keys \<Rightarrow>
          (let cs = checkCriteria u t {} keys in
           if cs \<noteq> [] then cs
           else (case decodeStringList (ptDependencyKeys t) of
                   None \<Rightarrow> [taskSchedulingBlocker ''plan_invalid'' t (''task '' @ ptKey t @ '' has invalid dependency metadata'')]
                 | Some ds \<Rightarrow> checkDependencyKeys t i byKey1 {} ds)))"

fun checkMetadata :: "unicode \<Rightarrow> nat \<Rightarrow> (gostring \<rightharpoonup> nat) \<Rightarrow> plan_task list \<Rightarrow> execution_blocker list" where
  "checkMetadata u i byKey1 [] = []"
| "checkMetadata u i byKey1 (t # ts) =
     (let bs = checkTaskMetadata u i byKey1 t in if bs \<noteq> [] then bs else checkMetadata u (Suc i) byKey1 ts)"

definition persistedProblems :: "raw_json \<Rightarrow> bool" where
  "persistedProblems raw = (case unmarshal (looseSlice Some) raw of Some (p # ps) \<Rightarrow> True | _ \<Rightarrow> False)"

definition validatePlanExecutionState :: "unicode \<Rightarrow> execution_state \<Rightarrow> execution_blocker list" where
  "validatePlanExecutionState u s =
     (if \<not> esExecutable s \<or> persistedProblems (esProblems s)
      then [planValidationSchedulingBlocker s (validationProblemSummary (esProblems s))]
      else if esTasks s = [] then [planValidationSchedulingBlocker s ''plan has no executable tasks'']
      else if esCompat s then []
      else (case indexTasks s (length (esTasks s)) 0 Map.empty 0 (esTasks s) of
              Inl bs \<Rightarrow> bs
            | Inr (byKey1, finals) \<Rightarrow>
                if finals \<noteq> 1
                then [planValidationSchedulingBlocker s ''plan execution graph must contain exactly one final validation task'']
                else checkMetadata u 0 byKey1 (esTasks s)))"

section \<open>The next task\<close>

definition activeTaskBlockers :: "execution_state \<Rightarrow> uuid option \<Rightarrow> execution_blocker list" where
  "activeTaskBlockers s allowed =
     map (\<lambda>t. taskSchedulingBlocker ''active_task'' t
            (''task '' @ ptKey t @ '' is already '' @ lStatus t @ ''; a plan may have only one active task''))
       (filter (\<lambda>t. (lStatus t = ''queued'' \<or> lStatus t = ''running'') \<and> allowed \<noteq> Some (lId t)) (esTasks s))"

text \<open>A dependency that is not in the plan reads as the zero task, as a Go map gives it.\<close>

definition zeroPlanTask :: plan_task where
  "zeroPlanTask =
     \<lparr>lId = ''00000000-0000-0000-0000-000000000000'', lProject = ''00000000-0000-0000-0000-000000000000'', lStatus = [],
      lVersion = 0, lSource = [], lCode = [], lReason = [], lActivity = 0, lHint = [], lCheckpoint = [], lUpdated = 0,
      ptPlan = ''00000000-0000-0000-0000-000000000000'', ptKey = [], ptType = [], ptPosition = 0, ptExecutionOrder = 0,
      ptDependencyKeys = RawEmpty, ptTitle = [], ptAcceptanceDefinition = RawEmpty, ptAcceptanceStatus = [],
      ptAcceptanceResult = RawEmpty, ptSession = None, ptStarted = None, ptFinished = None\<rparr>"

definition taskByKey :: "plan_task list \<Rightarrow> gostring \<Rightarrow> plan_task" where
  "taskByKey ts k = (case map_of (rev (map (\<lambda>t. (ptKey t, t)) ts)) k of Some t \<Rightarrow> t | None \<Rightarrow> zeroPlanTask)"

definition dependencyBlocker :: "plan_task \<Rightarrow> plan_task \<Rightarrow> execution_blocker list" where
  "dependencyBlocker t dep =
     (if lStatus dep \<noteq> ''succeeded''
      then [taskSchedulingBlocker ''dependency_not_succeeded'' dep
              (''dependency task '' @ ptKey dep @ '' for task '' @ ptKey t @ '' is '' @ lStatus dep @ '', not succeeded'')]
      else (case acceptanceSchedulingBlocker dep of Some b \<Rightarrow> [b] | None \<Rightarrow> []))"

definition dependencyBlockers :: "execution_state \<Rightarrow> plan_task \<Rightarrow> execution_blocker list" where
  "dependencyBlockers s t =
     (if esCompat s then []
      else (case decodeStringList (ptDependencyKeys t) of
              None \<Rightarrow> [taskSchedulingBlocker ''plan_invalid'' t (''task '' @ ptKey t @ '' has invalid dependency metadata'')]
            | Some ds \<Rightarrow> concat (map (\<lambda>d. dependencyBlocker t (taskByKey (esTasks s) d)) ds)))"

text \<open>The outcome of \<^verbatim>\<open>nextPlanTask\<close>: blockers, a complete plan, or the task to run.\<close>

datatype next_task = Blocked "execution_blocker list" | Complete | Next plan_task

fun scanTasks :: "execution_state \<Rightarrow> bool \<Rightarrow> plan_task list \<Rightarrow> next_task" where
  "scanTasks s automatic [] = Complete"
| "scanTasks s automatic (t # ts) =
     (if lStatus t = ''succeeded''
      then (case acceptanceSchedulingBlocker t of Some b \<Rightarrow> Blocked [b] | None \<Rightarrow> scanTasks s automatic ts)
      else if dependencyBlockers s t \<noteq> [] then Blocked (dependencyBlockers s t)
      else if automatic \<and> lStatus t \<noteq> ''pending''
      then Blocked [taskSchedulingBlocker ''manual_retry_required'' t
             (''task '' @ ptKey t @ '' is '' @ lStatus t @ '' and requires an explicit retry'')]
      else Next t)"

definition nextPlanTask :: "unicode \<Rightarrow> execution_state \<Rightarrow> bool \<Rightarrow> uuid option \<Rightarrow> next_task" where
  "nextPlanTask u s automatic allowed =
     (if validatePlanExecutionState u s \<noteq> [] then Blocked (validatePlanExecutionState u s)
      else if activeTaskBlockers s allowed \<noteq> [] then Blocked (activeTaskBlockers s allowed)
      else scanTasks s automatic (esTasks s))"

end
