(* ===== verification/CheckpointDiff.thy ===== *)
theory CheckpointDiff
  imports CheckpointText Scheduler
begin

text \<open>
  \<^verbatim>\<open>repository/store.go\<close>, from two checkpoints to the stored change set: the hunk parser, the
  collection of the task diff and the bounds put on what is stored. Git is a function from the
  arguments of a command to its output (\<open>None\<close> for a failed command; the commands used here only
  read). A slice expression that panics makes the surrounding function \<open>None\<close>.
\<close>

section \<open>Hunks\<close>

definition parseCheckpointHunkRange :: "gostring \<Rightarrow> (int \<times> int) option" where
  "parseCheckpointHunkRange value =
     (let (first, second) = goCut CHR '','' value in
      case goAtoi first of
        None \<Rightarrow> None
      | Some start \<Rightarrow>
          if start < 0 then None
          else (case second of
                  None \<Rightarrow> Some (start, 1)
                | Some s \<Rightarrow> (case goAtoi s of
                      None \<Rightarrow> None
                    | Some count \<Rightarrow> if count < 0 then None else Some (start, count))))"

text \<open>The outer \<open>None\<close> is the panic of \<^verbatim>\<open>header[3:]\<close> on a header of fewer than three bytes;
  \<open>Some None\<close> is a header that is not one.\<close>

definition parseCheckpointHunkHeader :: "gostring \<Rightarrow> (int \<times> int \<times> int \<times> int) option option" where
  "parseCheckpointHunkHeader header =
     (if length header < 3 then None
      else (case goIndex (drop 3 header) '' @@'' of
          None \<Rightarrow> Some None
        | Some end1 \<Rightarrow>
            if \<not> hasPrefix header ''@@ '' then Some None
            else (case goFields (take end1 (drop 3 header)) of
                [old, new] \<Rightarrow>
                  if \<not> hasPrefix old ''-'' \<or> \<not> hasPrefix new ''+'' then Some None
                  else (case (parseCheckpointHunkRange (drop 1 old), parseCheckpointHunkRange (drop 1 new)) of
                      (Some (os, oc), Some (ns, nc)) \<Rightarrow> Some (Some (os, oc, ns, nc))
                    | _ \<Rightarrow> Some None)
              | _ \<Rightarrow> Some None)))"

definition addLine :: "gostring \<Rightarrow> checkpoint_hunk list \<Rightarrow> checkpoint_hunk list" where
  "addLine line hunks =
     (if hunks = [] then [] else butlast hunks @ [(last hunks)\<lparr>chPatch := chPatch (last hunks) @ line\<rparr>])"

text \<open>The loop of \<^verbatim>\<open>parseCheckpointUnifiedHunks\<close>: \<open>open1\<close> tells that \<^verbatim>\<open>current\<close> points to
  the last hunk.\<close>

fun hunkLoop :: "bool \<Rightarrow> checkpoint_hunk list \<Rightarrow> gostring list \<Rightarrow> checkpoint_hunk list option" where
  "hunkLoop open1 hunks [] = Some hunks"
| "hunkLoop open1 hunks (rawLine # rest) =
     (let line = toValidUTF8 rawLine; header = trimSpace line in
      if hasPrefix line ''@@ '' then
        (case parseCheckpointHunkHeader header of
           None \<Rightarrow> None
         | Some None \<Rightarrow> hunkLoop False hunks rest
         | Some (Some (os, oc, ns, nc)) \<Rightarrow>
             if maxTaskCheckpointHunks \<le> length hunks then hunkLoop False hunks rest
             else hunkLoop True
               (hunks @ [\<lparr>chHeader = header, chPatch = [], chOldStart = os, chOldCount = oc,
                          chNewStart = ns, chNewCount = nc\<rparr>]) rest)
      else hunkLoop open1 (if open1 then addLine line hunks else hunks) rest)"

definition parseCheckpointUnifiedHunks :: "gostring \<Rightarrow> checkpoint_hunk list option" where
  "parseCheckpointUnifiedHunks patch = hunkLoop False [] (splitAfter newlineChar patch)"

definition checkpointUnifiedHunkCount :: "gostring \<Rightarrow> nat" where
  "checkpointUnifiedHunkCount patch = length (filter (\<lambda>l. hasPrefix l ''@@ '') (splitOn newlineChar patch))"

section \<open>Checkpoints and their metadata\<close>

record git_checkpoint =
  gcAvailable :: bool
  gcReason :: gostring
  gcWorkspaceRoot :: gostring
  gcRepositoryIdentity :: gostring
  gcHead :: gostring
  gcWorktreeTree :: gostring
  gcProtectionRef :: gostring
  gcFileCount :: int
  gcOversizedCount :: int
  gcSpecialFileCount :: int

definition zeroCheckpoint :: git_checkpoint where
  "zeroCheckpoint = \<lparr>gcAvailable = False, gcReason = [], gcWorkspaceRoot = [], gcRepositoryIdentity = [],
     gcHead = [], gcWorktreeTree = [], gcProtectionRef = [], gcFileCount = 0, gcOversizedCount = 0,
     gcSpecialFileCount = 0\<rparr>"

definition repositoryCheckpointMetadata :: "git_checkpoint \<Rightarrow> (gostring \<times> json) list" where
  "repositoryCheckpointMetadata c =
     objectMap ([(''version'', JInt 1), (''available'', JBool (gcAvailable c)),
        (''fileCount'', JInt (gcFileCount c)), (''oversizedFileCount'', JInt (gcOversizedCount c)),
        (''specialFileCount'', JInt (gcSpecialFileCount c))] @
       (if \<not> gcAvailable c then [(''reason'', JStr (gcReason c))]
        else [(''worktreeTree'', JStr (gcWorktreeTree c)), (''protectionRef'', JStr (gcProtectionRef c)),
              (''repositoryIdentity'', JStr (gcRepositoryIdentity c)), (''head'', JStr (gcHead c))]))"

definition looseBool :: "json \<Rightarrow> bool \<Rightarrow> bool option" where
  "looseBool v old = (case v of JNull \<Rightarrow> Some old | JBool b \<Rightarrow> Some b | _ \<Rightarrow> None)"

definition checkpointFields :: "gostring list" where
  "checkpointFields = [''available'', ''worktreeTree'', ''protectionRef'', ''repositoryIdentity'', ''head'']"

definition decodeCheckpoint :: "json \<Rightarrow> git_checkpoint option" where
  "decodeCheckpoint =
     looseStruct checkpointFields
       (\<lambda>n v r. if n = ''available'' then map_option (\<lambda>b. r\<lparr>gcAvailable := b\<rparr>) (looseBool v (gcAvailable r))
          else if n = ''worktreeTree'' then map_option (\<lambda>s. r\<lparr>gcWorktreeTree := s\<rparr>) (looseString v (gcWorktreeTree r))
          else if n = ''protectionRef'' then map_option (\<lambda>s. r\<lparr>gcProtectionRef := s\<rparr>) (looseString v (gcProtectionRef r))
          else if n = ''repositoryIdentity'' then map_option (\<lambda>s. r\<lparr>gcRepositoryIdentity := s\<rparr>) (looseString v (gcRepositoryIdentity r))
          else map_option (\<lambda>s. r\<lparr>gcHead := s\<rparr>) (looseString v (gcHead r)))
       zeroCheckpoint"

text \<open>The counts and the workspace root are not read back.\<close>

definition extractRepositoryCheckpoint :: "raw_json \<Rightarrow> git_checkpoint" where
  "extractRepositoryCheckpoint raw =
     (case raw of
        RawValue (JObj ms) \<Rightarrow>
          (case Option.bind (jsonMember ''gitCheckpoint'' ms) decodeCheckpoint of
             Some c \<Rightarrow> if gcAvailable c \<and> isRepositoryGitObjectID (gcWorktreeTree c) then c else zeroCheckpoint
           | None \<Rightarrow> zeroCheckpoint)
      | _ \<Rightarrow> zeroCheckpoint)"
section \<open>The task diff\<close>

definition diffPaths :: "checkpoint_file \<Rightarrow> gostring list" where
  "diffPaths f = cfPath f # (if cfPrevious f \<noteq> [] \<and> cfPrevious f \<noteq> cfPath f then [cfPrevious f] else [])"

fun numstatLoop :: "int \<times> int \<times> bool \<Rightarrow> gostring list \<Rightarrow> int \<times> int \<times> bool" where
  "numstatLoop acc [] = acc"
| "numstatLoop (additions, deletions, binary) (line # rest) =
     (case goCut (CHR 0x09) line of
        (_, None) \<Rightarrow> numstatLoop (additions, deletions, binary) rest
      | (first, Some tail1) \<Rightarrow>
          (let second = fst (goCut (CHR 0x09) tail1) in
           if first = ''-'' \<or> second = ''-'' then numstatLoop (additions, deletions, True) rest
           else numstatLoop
             ((case goAtoi first of Some n \<Rightarrow> wrapInt (additions + n) | None \<Rightarrow> additions),
              (case goAtoi second of Some n \<Rightarrow> wrapInt (deletions + n) | None \<Rightarrow> deletions), binary) rest))"

definition checkpointFileNumstat ::
  "(gostring list \<Rightarrow> gostring option) \<Rightarrow> gostring \<Rightarrow> gostring \<Rightarrow> checkpoint_file \<Rightarrow> int \<times> int \<times> bool" where
  "checkpointFileNumstat git beforeTree afterTree f =
     (case git ([''diff'', ''--numstat'', ''--find-renames'', ''--no-ext-diff'', ''--no-textconv'',
                 beforeTree, afterTree, ''--''] @ diffPaths f) of
        None \<Rightarrow> (0, 0, False)
      | Some output \<Rightarrow> numstatLoop (0, 0, False) (splitOn newlineChar (trimSpace output)))"

definition checkpointOldPath :: "checkpoint_file \<Rightarrow> gostring" where
  "checkpointOldPath f = (if cfPrevious f \<noteq> [] then cfPrevious f else cfPath f)"

record oversized_blob =
  obBytes :: int
  obSHA256 :: gostring
  obLines :: int
  obBinary :: bool

definition oversizedCheckpointBlobPrefix :: gostring where
  "oversizedCheckpointBlobPrefix = ''SPECRELAY-OMITTED-V1'' @ [newlineChar]"

definition looseInt64 :: "json \<Rightarrow> int \<Rightarrow> int option" where
  "looseInt64 v old = (case v of JNull \<Rightarrow> Some old
     | JInt i \<Rightarrow> if - (2 ^ 63) \<le> i \<and> i < 2 ^ 63 then Some i else None | _ \<Rightarrow> None)"

definition decodeBlob :: "json \<Rightarrow> oversized_blob option" where
  "decodeBlob =
     looseStruct [''bytes'', ''sha256'', ''lines'', ''binary'']
       (\<lambda>n v r. if n = ''bytes'' then map_option (\<lambda>i. r\<lparr>obBytes := i\<rparr>) (looseInt64 v (obBytes r))
          else if n = ''sha256'' then map_option (\<lambda>s. r\<lparr>obSHA256 := s\<rparr>) (looseString v (obSHA256 r))
          else if n = ''lines'' then map_option (\<lambda>i. r\<lparr>obLines := i\<rparr>) (looseInt64 v (obLines r))
          else map_option (\<lambda>b. r\<lparr>obBinary := b\<rparr>) (looseBool v (obBinary r)))
       \<lparr>obBytes = 0, obSHA256 = [], obLines = 0, obBinary = False\<rparr>"

definition encodeBlob :: "oversized_blob \<Rightarrow> json" where
  "encodeBlob b = JObj [(''bytes'', JInt (obBytes b)), (''sha256'', JStr (obSHA256 b)),
     (''lines'', JInt (obLines b)), (''binary'', JBool (obBinary b))]"

text \<open>The lexer of \<^verbatim>\<open>encoding/json\<close> is the parameter \<open>lexer\<close>.\<close>

definition readOversizedCheckpointMarker ::
  "(gostring \<Rightarrow> raw_json) \<Rightarrow> (gostring list \<Rightarrow> gostring option) \<Rightarrow> gostring \<Rightarrow> gostring \<Rightarrow> oversized_blob option" where
  "readOversizedCheckpointMarker lexer git tree relative =
     (let spec = tree @ '':'' @ relative in
      if relative = [] \<or> \<not> isRepositoryGitObjectID tree then None
      else (case Option.bind (git [''cat-file'', ''-s'', spec]) (\<lambda>out. goAtoi (trimSpace out)) of
          None \<Rightarrow> None
        | Some size1 \<Rightarrow>
            if size1 > 1024 then None
            else (case git [''cat-file'', ''blob'', spec] of
                None \<Rightarrow> None
              | Some content \<Rightarrow>
                  if \<not> hasPrefix content oversizedCheckpointBlobPrefix then None
                  else (case unmarshal decodeBlob (lexer (trimSpace (drop (length oversizedCheckpointBlobPrefix) content))) of
                      None \<Rightarrow> None
                    | Some marker \<Rightarrow> if obSHA256 marker = [] then None else Some marker))))"

definition optionMember :: "gostring \<Rightarrow> json option \<Rightarrow> (gostring \<times> json) list" where
  "optionMember k v = (case v of None \<Rightarrow> [] | Some j \<Rightarrow> [(k, j)])"

definition appendCheckpointOmission ::
  "json list \<Rightarrow> gostring \<Rightarrow> gostring \<Rightarrow> oversized_blob option \<Rightarrow> oversized_blob option \<Rightarrow> json list" where
  "appendCheckpointOmission omitted relative reason before after =
     (if maxTaskCheckpointFiles \<le> length omitted then omitted
      else omitted @ [JObj (objectMap ([(''path'', JStr relative), (''reason'', JStr reason)] @
        optionMember ''before'' (map_option encodeBlob before) @ optionMember ''after'' (map_option encodeBlob after)))])"

definition limitedOutput :: "int \<Rightarrow> int \<Rightarrow> gostring \<Rightarrow> gostring \<times> bool" where
  "limitedOutput maxBytes maxLines raw =
     (let w = boundedWrite maxBytes maxLines raw newWriter in (bwBytes w, bwTruncated w))"

definition repositoryGitOutputLimited ::
  "(gostring list \<Rightarrow> gostring option) \<Rightarrow> int \<Rightarrow> int \<Rightarrow> gostring list \<Rightarrow> (gostring \<times> bool) option" where
  "repositoryGitOutputLimited git maxBytes maxLines args = map_option (limitedOutput maxBytes maxLines) (git args)"

record diff_state =
  dsFiles :: "checkpoint_file list"
  dsBytes :: int
  dsLines :: int
  dsBinary :: int
  dsOversized :: int
  dsOmitted :: "json list"
  dsTruncated :: bool

text \<open>The patch of one file that is neither binary nor oversized.\<close>

definition collectPatch ::
  "(gostring list \<Rightarrow> gostring option) \<Rightarrow> gostring \<Rightarrow> gostring \<Rightarrow> checkpoint_file \<Rightarrow> diff_state \<Rightarrow>
   (checkpoint_file \<times> diff_state) option" where
  "collectPatch git beforeTree afterTree f s =
     (if dsBytes s > 0 \<and> dsLines s > 0
      then (case repositoryGitOutputLimited git (dsBytes s) (dsLines s)
                   ([''diff'', ''--no-ext-diff'', ''--no-textconv'', ''--find-renames'', ''--unified=3'',
                     beforeTree, afterTree, ''--''] @ diffPaths f) of
              None \<Rightarrow> Some (f, s\<lparr>dsTruncated := True\<rparr>)
            | Some (patch, truncated) \<Rightarrow>
                map_option (\<lambda>hunks. (f\<lparr>cfHunks := hunks\<rparr>,
                   s\<lparr>dsBytes := dsBytes s - int (length patch),
                     dsLines := dsLines s - int (count_list patch newlineChar),
                     dsTruncated := dsTruncated s \<or> truncated \<or> length hunks < checkpointUnifiedHunkCount patch\<rparr>))
                  (parseCheckpointUnifiedHunks patch))
      else Some (f, s\<lparr>dsTruncated := True\<rparr>))"

text \<open>One changed file: \<open>None\<close> is a panic, \<open>Some None\<close> an unsafe path.\<close>

definition collectChange ::
  "filesystem \<Rightarrow> (gostring \<Rightarrow> raw_json) \<Rightarrow> (gostring list \<Rightarrow> gostring option) \<Rightarrow> gostring \<Rightarrow> gostring \<Rightarrow> gostring \<Rightarrow>
   name_status \<Rightarrow> diff_state \<Rightarrow> diff_state option option" where
  "collectChange fs lexer git root beforeTree afterTree c s =
     (case (NormalizeWorkspaceRelativePath fs root (nsPath c),
            if nsPrevious c \<noteq> [] then NormalizeWorkspaceRelativePath fs root (nsPrevious c) else Inr []) of
        (Inr path, Inr previous) \<Rightarrow>
          (let f0 = \<lparr>cfPath = path, cfPrevious = previous, cfStatus = nsStatus c, cfStaged = False, cfBinary = False,
                 cfAdditions = 0, cfDeletions = 0, cfHunks = []\<rparr>;
               (a, d, b) = checkpointFileNumstat git beforeTree afterTree f0;
               f = f0\<lparr>cfAdditions := a, cfDeletions := d, cfBinary := b\<rparr>;
               oldMarker = readOversizedCheckpointMarker lexer git beforeTree (checkpointOldPath f);
               newMarker = readOversizedCheckpointMarker lexer git afterTree (cfPath f);
               done1 = (if b then Some (f, s\<lparr>dsBinary := dsBinary s + 1,
                            dsOmitted := appendCheckpointOmission (dsOmitted s) (cfPath f) ''binary'' oldMarker newMarker\<rparr>)
                        else if oldMarker \<noteq> None \<or> newMarker \<noteq> None
                        then Some (f\<lparr>cfAdditions := 0, cfDeletions := 0\<rparr>, s\<lparr>dsOversized := dsOversized s + 1,
                            dsOmitted := appendCheckpointOmission (dsOmitted s) (cfPath f) ''oversized'' oldMarker newMarker\<rparr>)
                        else collectPatch git beforeTree afterTree f s)
           in map_option (\<lambda>(g, t). Some (t\<lparr>dsFiles := dsFiles t @ [g]\<rparr>)) done1)
      | _ \<Rightarrow> Some None)"

fun collectLoop ::
  "filesystem \<Rightarrow> (gostring \<Rightarrow> raw_json) \<Rightarrow> (gostring list \<Rightarrow> gostring option) \<Rightarrow> gostring \<Rightarrow> gostring \<Rightarrow> gostring \<Rightarrow>
   name_status list \<Rightarrow> diff_state \<Rightarrow> diff_state option option" where
  "collectLoop fs lexer git root beforeTree afterTree [] s = Some (Some s)"
| "collectLoop fs lexer git root beforeTree afterTree (c # cs) s =
     (case collectChange fs lexer git root beforeTree afterTree c s of
        None \<Rightarrow> None
      | Some None \<Rightarrow> Some None
      | Some (Some t) \<Rightarrow> collectLoop fs lexer git root beforeTree afterTree cs t)"

definition startDiff :: "bool \<Rightarrow> diff_state" where
  "startDiff truncated = \<lparr>dsFiles = [], dsBytes = maxTaskCheckpointPatchBytes, dsLines = maxTaskCheckpointPatchLines,
     dsBinary = 0, dsOversized = 0, dsOmitted = [], dsTruncated = truncated\<rparr>"

definition collectRepositoryTaskDiff ::
  "filesystem \<Rightarrow> (gostring \<Rightarrow> raw_json) \<Rightarrow> (gostring list \<Rightarrow> gostring option) \<Rightarrow> git_checkpoint \<Rightarrow> git_checkpoint \<Rightarrow>
   (checkpoint_file list \<times> (gostring \<times> json) list) option" where
  "collectRepositoryTaskDiff fs lexer git before after =
     (let b = gcWorktreeTree before; a = gcWorktreeTree after;
          base = [(''gitCheckpoint'', JObj (repositoryCheckpointMetadata after)), (''diffAvailable'', JBool False)];
          failed = (\<lambda>more reason. Some ([], objectMap (base @ more @ [(''diffReason'', JStr reason)])));
          common = [''--no-ext-diff'', ''--no-textconv'', b, a]
      in if \<not> gcAvailable after then failed [] (gcReason after)
         else if \<not> gcAvailable before then failed [] ''previous_checkpoint_unavailable''
         else if gcRepositoryIdentity before \<noteq> gcRepositoryIdentity after then failed [] ''repository_identity_changed''
         else if git [''cat-file'', ''-e'', b @ ''^{tree}''] = None then failed [] ''previous_checkpoint_expired''
         else
           (let shortstat = (case git ([''diff'', ''--shortstat''] @ common) of None \<Rightarrow> [] | Some s \<Rightarrow> s);
                (filesChanged, additions, deletions) = parseCheckpointShortstat shortstat;
                counts = [(''filesChanged'', JInt filesChanged), (''additions'', JInt additions), (''deletions'', JInt deletions)]
            in case repositoryGitOutputLimited git maxTaskCheckpointPathBytes 0
                      ([''diff'', ''--name-status'', ''-z'', ''--find-renames'', ''--find-copies''] @ common) of
                 None \<Rightarrow> failed counts ''git_diff_unavailable''
               | Some (nameStatus, outputTruncated) \<Rightarrow>
                   (case parseCheckpointNameStatus nameStatus maxTaskCheckpointFiles of
                      None \<Rightarrow> failed counts ''git_diff_invalid''
                    | Some (changes, parseTruncated) \<Rightarrow>
                        (case collectLoop fs lexer git (gcWorkspaceRoot after) b a changes
                                (startDiff (outputTruncated \<or> parseTruncated)) of
                           None \<Rightarrow> None
                         | Some None \<Rightarrow> failed counts ''unsafe_git_path''
                         | Some (Some s) \<Rightarrow>
                             Some (dsFiles s, objectMap (base @ counts @
                               [(''diffAvailable'', JBool True),
                                (''capturedFiles'', JInt (int (length (dsFiles s)))),
                                (''binaryFiles'', JInt (dsBinary s)),
                                (''oversizedFiles'', JInt (dsOversized s)),
                                (''filesTruncated'', JBool (outputTruncated \<or> parseTruncated \<or> filesChanged > int (length (dsFiles s)))),
                                (''diffTruncated'', JBool (dsTruncated s))] @
                               (if dsOmitted s = [] then [] else [(''omittedFiles'', JArr (dsOmitted s))])))))))"

section \<open>What is stored\<close>

text \<open>An empty summary is \<^verbatim>\<open>len(raw) == 0\<close>; anything else has to be a JSON object.\<close>

definition summaryObject :: "raw_json \<Rightarrow> error + (gostring \<times> json) list" where
  "summaryObject raw =
     (case raw of RawEmpty \<Rightarrow> Inr [] | RawValue (JObj ms) \<Rightarrow> Inr (objectMap ms) | _ \<Rightarrow> Inl ErrInvalidFeedbackLink)"

definition mergePlanExecutionChangeSummary ::
  "raw_json \<Rightarrow> (gostring \<times> json) list \<Rightarrow> error + raw_json" where
  "mergePlanExecutionChangeSummary raw values =
     bindR (summaryObject raw) (\<lambda>summary. Inr (RawValue (JObj (fold (\<lambda>(k, v). putMember k v) values summary))))"

definition normalizeCheckpointRelativePath :: "filesystem \<Rightarrow> gostring \<Rightarrow> bool \<Rightarrow> gostring \<Rightarrow> path_error + gostring" where
  "normalizeCheckpointRelativePath fs workspace inspectWorkspace relative =
     (case ValidateRelativePath relative of
        Some e \<Rightarrow> Inl e
      | None \<Rightarrow> if inspectWorkspace then NormalizeWorkspaceRelativePath fs workspace (goClean relative)
                else Inr (goClean relative))"

record content_budget =
  cbBytes :: int
  cbLines :: int
  cbHunks :: int
  cbTruncated :: bool

text \<open>One hunk within what is left; the second result tells that its patch was cut.\<close>

definition boundHunk :: "checkpoint_hunk \<Rightarrow> content_budget \<Rightarrow> checkpoint_hunk \<times> bool \<times> content_budget" where
  "boundHunk h b =
     (let header = trimSpace (toValidUTF8 (chHeader h));
          long = length header > 1024;
          (patch, truncated) = boundCheckpointText (toValidUTF8 (chPatch h)) (cbBytes b) (cbLines b)
      in (h\<lparr>chHeader := take 1024 header, chPatch := patch\<rparr>, truncated,
          b\<lparr>cbBytes := cbBytes b - int (length patch),
            cbLines := cbLines b - int (count_list patch newlineChar),
            cbHunks := cbHunks b - 1,
            cbTruncated := cbTruncated b \<or> long \<or> truncated\<rparr>))"

fun boundHunks :: "checkpoint_hunk list \<Rightarrow> content_budget \<Rightarrow> checkpoint_hunk list \<times> content_budget" where
  "boundHunks [] b = ([], b)"
| "boundHunks (h # hs) b =
     (if cbBytes b \<le> 0 \<or> cbLines b \<le> 0 \<or> cbHunks b \<le> 0 then ([], b\<lparr>cbTruncated := True\<rparr>)
      else (case boundHunk h b of
          (h', True, b') \<Rightarrow> ([h'], b')
        | (h', False, b') \<Rightarrow> (case boundHunks hs b' of (r, b'') \<Rightarrow> (h' # r, b''))))"

definition checkpointKey :: "checkpoint_file \<Rightarrow> gostring" where
  "checkpointKey f = cfStatus f @ [CHR 0x00] @ cfPrevious f @ [CHR 0x00] @ cfPath f"

text \<open>The file loop of \<^verbatim>\<open>preparePlanExecutionChanges\<close>.\<close>

fun prepareFiles ::
  "filesystem \<Rightarrow> gostring \<Rightarrow> bool \<Rightarrow> gostring list \<Rightarrow> checkpoint_file list \<Rightarrow> content_budget \<Rightarrow>
   error + checkpoint_file list \<times> content_budget" where
  "prepareFiles fs ws ex seen [] b = Inr ([], b)"
| "prepareFiles fs ws ex seen (f # rest) b =
     (case (normalizeCheckpointRelativePath fs ws ex (cfPath f),
            if cfPrevious f \<noteq> [] then normalizeCheckpointRelativePath fs ws ex (cfPrevious f) else Inr []) of
        (Inr path, Inr previous) \<Rightarrow>
          (let g = f\<lparr>cfPath := path, cfPrevious := previous\<rparr>; (hs, b') = boundHunks (cfHunks f) b in
           if checkpointKey g \<in> set seen then Inl ErrInvalidFeedbackLink
           else bindR (prepareFiles fs ws ex (checkpointKey g # seen) rest b')
                  (\<lambda>(out, b''). Inr (g\<lparr>cfHunks := hs\<rparr> # out, b'')))
      | _ \<Rightarrow> Inl ErrInvalidFeedbackLink)"

definition startBudget :: content_budget where
  "startBudget = \<lparr>cbBytes = maxTaskCheckpointPatchBytes, cbLines = maxTaskCheckpointPatchLines,
     cbHunks = int maxTaskCheckpointHunks, cbTruncated = False\<rparr>"

text \<open>\<open>wsExists\<close> is the answer of \<^verbatim>\<open>os.Stat\<close>: the workspace is a directory.\<close>

definition preparePlanExecutionChanges ::
  "filesystem \<Rightarrow> gostring \<Rightarrow> bool \<Rightarrow> raw_json \<Rightarrow> checkpoint_file list \<Rightarrow> error + raw_json \<times> checkpoint_file list" where
  "preparePlanExecutionChanges fs workspace wsExists rawSummary files =
     bindR (summaryObject rawSummary) (\<lambda>summary.
       let n = length files;
           s1 = (if n > maxTaskCheckpointFiles
                 then putMember ''omittedFileCount'' (JInt (int n - int maxTaskCheckpointFiles))
                        (putMember ''filesTruncated'' (JBool True) summary)
                 else summary)
       in bindR (prepareFiles fs workspace wsExists [] (take maxTaskCheckpointFiles files) startBudget) (\<lambda>(out, b).
            Inr (RawValue (JObj (if cbTruncated b then putMember ''diffTruncated'' (JBool True) s1 else s1)), out)))"

definition allowedFileStatuses :: "gostring list" where
  "allowedFileStatuses = [''added'', ''modified'', ''deleted'', ''renamed'', ''copied'', ''type_changed'', ''unmerged'', ''untracked'']"

definition badHunk :: "checkpoint_hunk \<Rightarrow> bool" where
  "badHunk h \<longleftrightarrow> trimSpace (chHeader h) = [] \<or> chOldStart h < 0 \<or> chOldCount h < 0 \<or> chNewStart h < 0 \<or>
     chNewCount h < 0 \<or> (chOldCount h = 0 \<and> chNewCount h = 0)"

fun checkFiles :: "checkpoint_file list \<Rightarrow> int \<Rightarrow> int \<Rightarrow> error + int \<times> int" where
  "checkFiles [] additions deletions = Inr (additions, deletions)"
| "checkFiles (f # rest) additions deletions =
     (if trimSpace (cfPath f) = [] \<or> cfAdditions f < 0 \<or> cfDeletions f < 0 then Inl ErrInvalidFeedbackLink
      else if cfStatus f \<notin> set allowedFileStatuses then Inl ErrInvalidFeedbackLink
      else if (cfStatus f = ''renamed'' \<or> cfStatus f = ''copied'') \<and> trimSpace (cfPrevious f) = []
      then Inl ErrInvalidFeedbackLink
      else if list_ex badHunk (cfHunks f) then Inl ErrInvalidDiffRange
      else checkFiles rest (wrapInt (additions + cfAdditions f)) (wrapInt (deletions + cfDeletions f)))"

definition normalizePlanExecutionChanges ::
  "raw_json \<Rightarrow> checkpoint_file list \<Rightarrow> error + raw_json \<times> int \<times> int" where
  "normalizePlanExecutionChanges raw files =
     bindR (summaryObject raw) (\<lambda>summary.
       bindR (checkFiles files 0 0) (\<lambda>(additions, deletions). Inr (RawValue (JObj summary), additions, deletions)))"

end
