(* ===== verification/CheckpointCapture.thy ===== *)
theory CheckpointCapture
  imports CheckpointDiff
begin

text \<open>
  \<^verbatim>\<open>captureRepositoryGitCheckpoint\<close> of \<^verbatim>\<open>repository/store.go\<close>: the tree of the files in the
  workspace, written through a temporary index. Git is a parameter that answers a command from the
  commands issued before it, so what it answers may depend on what the capture did; the model keeps
  that history. The files of the workspace, the temporary file name, SHA-256 and the JSON printer are
  parameters too.
\<close>

section \<open>The outside\<close>

record git_command =
  gmEnv :: "gostring list"
  gmInput :: gostring
  gmArgs :: "gostring list"

text \<open>What \<^verbatim>\<open>os.Lstat\<close> and then reading the file give; the content of a regular file
  comes in the pieces that the reads return, \<open>None\<close> if it cannot be read.\<close>

datatype file_kind =
    FileMissing
  | FileError
  | FileDir
  | FileSymlink "gostring option"
  | FileRegular bool int "gostring list option"
  | FileSpecial

record workspace =
  wsFs :: filesystem
  wsIsDir :: "gostring \<Rightarrow> bool"
  wsFile :: "gostring \<Rightarrow> file_kind"
  wsTempName :: "gostring option"
  wsSha256 :: "gostring \<Rightarrow> gostring"
  wsPrint :: "json \<Rightarrow> gostring"
  wsGit :: "git_command list \<Rightarrow> git_command \<Rightarrow> gostring option"

section \<open>Steps with early return\<close>

record capture_state =
  csHistory :: "git_command list"
  csResult :: git_checkpoint
  csIndexInfo :: gostring

text \<open>A step ends with a value, or with \<open>None\<close> when the function has returned the result.\<close>

type_synonym 'a capture = "capture_state \<Rightarrow> capture_state \<times> 'a option"

definition bindC :: "'a capture \<Rightarrow> ('a \<Rightarrow> 'b capture) \<Rightarrow> 'b capture" where
  "bindC m f s = (let r = m s in case snd r of None \<Rightarrow> (fst r, None) | Some x \<Rightarrow> f x (fst r))"

definition pureC :: "'a \<Rightarrow> 'a capture" where
  "pureC x s = (s, Some x)"

definition updateC :: "(git_checkpoint \<Rightarrow> git_checkpoint) \<Rightarrow> unit capture" where
  "updateC f s = (s\<lparr>csResult := f (csResult s)\<rparr>, Some ())"

text \<open>\<^verbatim>\<open>result.Reason = reason; return result\<close>\<close>

definition failC :: "gostring \<Rightarrow> 'a capture" where
  "failC reason s = (s\<lparr>csResult := (csResult s)\<lparr>gcReason := reason\<rparr>\<rparr>, None)"

definition gitC :: "workspace \<Rightarrow> gostring list \<Rightarrow> gostring \<Rightarrow> gostring list \<Rightarrow> gostring option capture" where
  "gitC w env input args s =
     (let c = \<lparr>gmEnv = env, gmInput = input, gmArgs = args\<rparr> in
      (s\<lparr>csHistory := csHistory s @ [c]\<rparr>, Some (wsGit w (csHistory s) c)))"

text \<open>A command whose failure ends the capture.\<close>

definition gitOr :: "workspace \<Rightarrow> gostring \<Rightarrow> gostring list \<Rightarrow> gostring \<Rightarrow> gostring list \<Rightarrow> gostring capture" where
  "gitOr w reason env input args =
     bindC (gitC w env input args) (\<lambda>out. case out of None \<Rightarrow> failC reason | Some o1 \<Rightarrow> pureC o1)"

section \<open>One file\<close>

definition maxTaskCheckpointFileBytes :: int where "maxTaskCheckpointFileBytes = 4194304"

definition inspectChunk :: "oversized_blob \<Rightarrow> gostring \<Rightarrow> oversized_blob" where
  "inspectChunk m chunk =
     m\<lparr>obBytes := obBytes m + int (length chunk),
       obLines := obLines m + int (count_list chunk newlineChar),
       obBinary := (obBinary m \<or> CHR 0x00 \<in> set chunk)\<rparr>"

definition inspectOversizedCheckpointFile :: "(gostring \<Rightarrow> gostring) \<Rightarrow> gostring list \<Rightarrow> oversized_blob" where
  "inspectOversizedCheckpointFile sha chunks =
     (foldl inspectChunk \<lparr>obBytes = 0, obSHA256 = [], obLines = 0, obBinary = False\<rparr> chunks)\<lparr>obSHA256 := sha (concat chunks)\<rparr>"

definition hashCheckpointContent :: "workspace \<Rightarrow> gostring \<Rightarrow> gostring option capture" where
  "hashCheckpointContent w input =
     bindC (gitC w [] input [''hash-object'', ''-w'', ''--no-filters'', ''--stdin''])
       (\<lambda>out. pureC (map_option trimSpace out))"

definition addIndexInfo :: "gostring \<Rightarrow> gostring \<Rightarrow> gostring \<Rightarrow> unit capture" where
  "addIndexInfo mode oid path s =
     (s\<lparr>csIndexInfo := csIndexInfo s @ writeCheckpointIndexInfo mode oid path,
        csResult := (csResult s)\<lparr>gcFileCount := gcFileCount (csResult s) + 1\<rparr>\<rparr>, Some ())"

definition addHashed :: "gostring \<Rightarrow> gostring option \<Rightarrow> gostring \<Rightarrow> unit capture" where
  "addHashed mode oid path =
     (case oid of
        None \<Rightarrow> failC ''checkpoint_unavailable''
      | Some oid1 \<Rightarrow> if isRepositoryGitObjectID oid1 then addIndexInfo mode oid1 path else failC ''checkpoint_unavailable'')"

definition captureFile ::
  "workspace \<Rightarrow> gostring \<Rightarrow> (gostring \<rightharpoonup> index_entry) \<Rightarrow> gostring \<Rightarrow> unit capture" where
  "captureFile w absolute entries path =
     (case wsFile w absolute of
        FileMissing \<Rightarrow> pureC ()
      | FileError \<Rightarrow> failC ''git_workspace_unreadable''
      | FileDir \<Rightarrow>
          (case entries path of
             Some e \<Rightarrow> if ieMode e = ''160000'' \<and> isRepositoryGitObjectID (ieOID e)
                       then addIndexInfo (ieMode e) (ieOID e) path else pureC ()
           | None \<Rightarrow> pureC ())
      | FileSymlink None \<Rightarrow> failC ''git_workspace_unreadable''
      | FileSymlink (Some target) \<Rightarrow>
          bindC (hashCheckpointContent w target) (\<lambda>oid. addHashed ''120000'' oid path)
      | FileRegular executable size1 content \<Rightarrow>
          (let mode = (if executable then ''100755'' else ''100644'') in
           case content of
             None \<Rightarrow> failC ''git_workspace_unreadable''
           | Some chunks \<Rightarrow>
               if size1 > maxTaskCheckpointFileBytes
               then bindC (hashCheckpointContent w (oversizedCheckpointBlobPrefix @
                        wsPrint w (encodeBlob (inspectOversizedCheckpointFile (wsSha256 w) chunks)) @ [newlineChar]))
                      (\<lambda>oid. bindC (updateC (\<lambda>r. r\<lparr>gcOversizedCount := gcOversizedCount r + 1\<rparr>))
                        (\<lambda>_. addHashed mode oid path))
               else bindC (hashCheckpointContent w (concat chunks)) (\<lambda>oid. addHashed mode oid path))
      | FileSpecial \<Rightarrow> updateC (\<lambda>r. r\<lparr>gcSpecialFileCount := gcSpecialFileCount r + 1\<rparr>))"
text \<open>One candidate of \<^verbatim>\<open>git ls-files\<close>.\<close>

definition captureCandidate ::
  "workspace \<Rightarrow> gostring \<Rightarrow> (gostring \<rightharpoonup> index_entry) \<Rightarrow> gostring \<Rightarrow> unit capture" where
  "captureCandidate w root entries candidate =
     (case NormalizeWorkspaceRelativePath (wsFs w) root candidate of
        Inl _ \<Rightarrow> failC ''unsafe_git_path''
      | Inr normalized \<Rightarrow>
          if normalized \<noteq> candidate then failC ''unsafe_git_path''
          else (case ResolveRelativePath (wsFs w) root normalized of
                  Inl ErrPathNotExist \<Rightarrow> pureC ()
                | Inl _ \<Rightarrow> failC ''unsafe_git_path''
                | Inr absolute \<Rightarrow> captureFile w absolute entries normalized))"

fun captureCandidates ::
  "workspace \<Rightarrow> gostring \<Rightarrow> (gostring \<rightharpoonup> index_entry) \<Rightarrow> gostring list \<Rightarrow> unit capture" where
  "captureCandidates w root entries [] = pureC ()"
| "captureCandidates w root entries (c # cs) =
     bindC (captureCandidate w root entries c) (\<lambda>_. captureCandidates w root entries cs)"

section \<open>The capture\<close>

text \<open>The checks of the repository: the real workspace is the top of a Git work tree.\<close>

definition checkTop :: "workspace \<Rightarrow> gostring \<Rightarrow> gostring \<Rightarrow> gostring capture" where
  "checkTop w root topOut s =
     (case InspectExistingPath (wsFs w) (trimSpace topOut) of
        Inl _ \<Rightarrow> failC ''git_root_mismatch'' s
      | Inr topIdentity \<Rightarrow>
          if piReal topIdentity \<noteq> root then failC ''git_root_mismatch'' s
          else bindC (updateC (\<lambda>r. r\<lparr>gcWorkspaceRoot := root\<rparr>)) (\<lambda>_. pureC root) s)"

definition checkInside :: "workspace \<Rightarrow> gostring \<Rightarrow> gostring option \<Rightarrow> gostring capture" where
  "checkInside w root inside s =
     (if map_option trimSpace inside \<noteq> Some ''true'' then failC ''not_git_workspace'' s
      else bindC (gitOr w ''git_unreadable'' [] [] [''rev-parse'', ''--show-toplevel'']) (checkTop w root) s)"

definition captureRoot :: "workspace \<Rightarrow> gostring \<Rightarrow> gostring capture" where
  "captureRoot w workspacePath s =
     (case InspectExistingPath (wsFs w) workspacePath of
        Inl _ \<Rightarrow> failC ''workspace_unavailable'' s
      | Inr identity \<Rightarrow>
          if \<not> wsIsDir w (piReal identity) then failC ''workspace_unavailable'' s
          else bindC (gitC w [] [] [''rev-parse'', ''--is-inside-work-tree'']) (checkInside w (piReal identity)) s)"

definition commonIdentity :: "workspace \<Rightarrow> gostring \<Rightarrow> gostring \<Rightarrow> unit capture" where
  "commonIdentity w root common s =
     (let p = trimSpace common; commonPath = (if isAbs p then p else goJoin [root, p]) in
      case InspectExistingPath (wsFs w) commonPath of
        Inl _ \<Rightarrow> failC ''git_unreadable'' s
      | Inr i \<Rightarrow> updateC (\<lambda>r. r\<lparr>gcRepositoryIdentity := piReal i\<rparr>) s)"

definition originIdentity :: "workspace \<Rightarrow> gostring \<Rightarrow> gostring option \<Rightarrow> unit capture" where
  "originIdentity w root origin s =
     (let o1 = (case origin of None \<Rightarrow> [] | Some v \<Rightarrow> trimSpace v) in
      if o1 \<noteq> [] then updateC (\<lambda>r. r\<lparr>gcRepositoryIdentity := o1\<rparr>) s
      else bindC (gitOr w ''git_unreadable'' [] [] [''rev-parse'', ''--git-common-dir'']) (commonIdentity w root) s)"

definition captureIdentity :: "workspace \<Rightarrow> gostring \<Rightarrow> unit capture" where
  "captureIdentity w root =
     bindC (gitC w [] [] [''config'', ''--get'', ''remote.origin.url'']) (originIdentity w root)"

definition captureHead :: "workspace \<Rightarrow> unit capture" where
  "captureHead w =
     bindC (gitC w [] [] [''rev-parse'', ''--verify'', ''HEAD'']) (\<lambda>head.
       updateC (\<lambda>r. r\<lparr>gcHead := (case head of None \<Rightarrow> [] | Some h \<Rightarrow> trimSpace h)\<rparr>))"

definition readIndex :: "workspace \<Rightarrow> (gostring \<rightharpoonup> index_entry) capture" where
  "readIndex w =
     bindC (gitOr w ''git_index_unreadable'' [] [] [''ls-files'', ''--stage'', ''-z'']) (\<lambda>raw.
       case parseCheckpointIndex raw of
         None \<Rightarrow> failC ''git_index_unreadable''
       | Some (entries, conflicted) \<Rightarrow> if conflicted then failC ''git_index_conflicted'' else pureC entries)"

definition readCandidates :: "workspace \<Rightarrow> gostring list capture" where
  "readCandidates w =
     bindC (gitOr w ''git_workspace_unreadable'' [] [] [''ls-files'', ''-z'', ''--cached'', ''--others'', ''--exclude-standard'']) (\<lambda>raw.
       pureC (sortStrings (remdups (filter (\<lambda>p. p \<noteq> []) (splitOn (CHR 0x00) raw)))))"

definition indexEnv :: "gostring \<Rightarrow> gostring list" where
  "indexEnv temp = [''GIT_INDEX_FILE='' @ temp]"

text \<open>\<^verbatim>\<open>update-index\<close> runs only when there is something to add.\<close>

definition updateIndex :: "workspace \<Rightarrow> gostring \<Rightarrow> gostring option capture" where
  "updateIndex w temp s =
     (if csIndexInfo s = [] then pureC None s
      else bindC (gitOr w ''checkpoint_unavailable'' (indexEnv temp) (csIndexInfo s) [''update-index'', ''-z'', ''--index-info''])
             (\<lambda>out. pureC (Some out)) s)"

definition protectTree :: "workspace \<Rightarrow> uuid \<Rightarrow> gostring \<Rightarrow> unit capture" where
  "protectTree w snapshotID tree s =
     (let ref = ''refs/specrelay/execution-snapshots/'' @ snapshotID @ ''/worktree'' in
      if \<not> isRepositoryGitObjectID tree then failC ''checkpoint_unavailable'' s
      else bindC (updateC (\<lambda>r. r\<lparr>gcProtectionRef := ref\<rparr>)) (\<lambda>_.
        bindC (gitOr w ''checkpoint_unavailable'' [] [] [''update-ref'', ref, tree]) (\<lambda>_.
          updateC (\<lambda>r. r\<lparr>gcAvailable := True, gcReason := []\<rparr>))) s)"

definition nameTree :: "workspace \<Rightarrow> uuid \<Rightarrow> gostring \<Rightarrow> unit capture" where
  "nameTree w snapshotID out s =
     (let tree = trimSpace out in
      bindC (updateC (\<lambda>r. r\<lparr>gcWorktreeTree := tree\<rparr>)) (\<lambda>_. protectTree w snapshotID tree) s)"

definition writeTree :: "workspace \<Rightarrow> gostring \<Rightarrow> uuid \<Rightarrow> unit capture" where
  "writeTree w temp snapshotID =
     bindC (updateIndex w temp) (\<lambda>_.
       bindC (gitOr w ''checkpoint_unavailable'' (indexEnv temp) [] [''write-tree'']) (nameTree w snapshotID))"

definition captureSteps :: "workspace \<Rightarrow> gostring \<Rightarrow> uuid \<Rightarrow> unit capture" where
  "captureSteps w workspacePath snapshotID =
     bindC (captureRoot w workspacePath) (\<lambda>root.
     bindC (captureIdentity w root) (\<lambda>_.
     bindC (captureHead w) (\<lambda>_.
     bindC (readIndex w) (\<lambda>entries.
     bindC (readCandidates w) (\<lambda>candidates.
       case wsTempName w of
         None \<Rightarrow> failC ''checkpoint_unavailable''
       | Some temp \<Rightarrow>
           bindC (gitOr w ''checkpoint_unavailable'' (indexEnv temp) [] [''read-tree'', ''--empty'']) (\<lambda>_.
           bindC (captureCandidates w root entries candidates) (\<lambda>_.
             writeTree w temp snapshotID)))))))"

definition captureRepositoryGitCheckpoint :: "workspace \<Rightarrow> gostring \<Rightarrow> uuid \<Rightarrow> git_command list \<times> git_checkpoint" where
  "captureRepositoryGitCheckpoint w workspacePath snapshotID =
     (let s = fst (captureSteps w workspacePath snapshotID
                \<lparr>csHistory = [], csResult = zeroCheckpoint\<lparr>gcReason := ''not_git_workspace''\<rparr>, csIndexInfo = []\<rparr>)
      in (csHistory s, csResult s))"

end
