(* ===== verification/Queue.thy ===== *)
theory Queue
  imports Store
begin

text \<open>
  The durable job queue of \<^verbatim>\<open>repository/queue.go\<close>: claiming, starting, deferring,
  releasing, completing and failing a job, and the job and workspace leases. Each operation is
  one committed transaction, run on its own: the claim query locks the project row together with
  the job row and skips the rows that another transaction holds (the argument \<open>locked\<close>).
\<close>

section \<open>Durations\<close>

text \<open>\<^verbatim>\<open>time.Duration.String\<close>, here of a whole number of microseconds.\<close>

definition fracText :: "nat \<Rightarrow> nat \<Rightarrow> gostring" where
  "fracText v prec =
     (let ds = digitsOf (v mod 10 ^ prec);
          padded = replicate (prec - length ds) CHR ''0'' @ ds;
          t = rev (dropWhile (\<lambda>c. c = CHR ''0'') (rev padded))
      in if t = [] then [] else CHR ''.'' # t)"

definition durationText :: "time \<Rightarrow> gostring" where
  "durationText d =
     (let u = nat \<bar>d\<bar>;
          secs = u div 1000000;
          body =
            (if u = 0 then ''0s''
             else if u < 1000 then showNat u @ [CHR 0xC2, CHR 0xB5] @ ''s''
             else if u < 1000000 then showNat (u div 1000) @ fracText u 3 @ ''ms''
             else (if secs div 3600 > 0 then showNat (secs div 3600) @ ''h'' else []) @
               (if secs div 60 > 0 then showNat (secs div 60 mod 60) @ ''m'' else []) @
               showNat (secs mod 60) @ fracText u 6 @ ''s'')
      in if d < 0 then CHR ''-'' # body else body)"

section \<open>Column updates of a job\<close>

definition setWorkerID :: "gostring option \<Rightarrow> job field_update" where
  "setWorkerID w = \<lparr>fuColumn = ''worker_id'', fuApply = (\<lambda>now old r. r\<lparr>jWorkerID := w\<rparr>)\<rparr>"

definition setLeaseNone :: "job field_update" where
  "setLeaseNone = \<lparr>fuColumn = ''lease_expires_at'', fuApply = (\<lambda>now old r. r\<lparr>jLease := None\<rparr>)\<rparr>"

definition setLeaseFor :: "time \<Rightarrow> job field_update" where
  "setLeaseFor lease = \<lparr>fuColumn = ''lease_expires_at'', fuApply = (\<lambda>now old r. r\<lparr>jLease := Some (now + lease)\<rparr>)\<rparr>"

definition setRunAfterIn :: "time \<Rightarrow> job field_update" where
  "setRunAfterIn delay = \<lparr>fuColumn = ''run_after'', fuApply = (\<lambda>now old r. r\<lparr>jRunAfter := now + delay\<rparr>)\<rparr>"

definition setRunAfter :: "time \<Rightarrow> job field_update" where
  "setRunAfter t = \<lparr>fuColumn = ''run_after'', fuApply = (\<lambda>now old r. r\<lparr>jRunAfter := t\<rparr>)\<rparr>"

definition incAttempt :: "job field_update" where
  "incAttempt = \<lparr>fuColumn = ''attempt'', fuApply = (\<lambda>now old r. r\<lparr>jAttempt := jAttempt old + 1\<rparr>)\<rparr>"

definition decAttempt :: "job field_update" where
  "decAttempt = \<lparr>fuColumn = ''attempt'', fuApply = (\<lambda>now old r. r\<lparr>jAttempt := max (jAttempt old - 1) 0\<rparr>)\<rparr>"

definition setLastError :: "gostring \<Rightarrow> job field_update" where
  "setLastError m = \<lparr>fuColumn = ''last_error'', fuApply = (\<lambda>now old r. r\<lparr>jLastError := Some m\<rparr>)\<rparr>"

lemmas job_fields = setWorkerID_def setLeaseNone_def setLeaseFor_def setRunAfterIn_def setRunAfter_def
  incAttempt_def decAttempt_def setLastError_def

section \<open>Claiming\<close>

text \<open>The plan that owns the next task turn of a project: earliest start (unstarted last), then
  creation, then id.\<close>

definition ownsTurn :: "uuid \<Rightarrow> db \<Rightarrow> plan \<Rightarrow> bool" where
  "ownsTurn proj d p \<longleftrightarrow>
     lProject p = proj \<and> lStatus p \<in> set [''running'', ''validating''] \<and> plExecutable p \<and>
     (\<exists>t \<in> set (dbTasks d). ptPlan t = lId p \<and> lStatus t \<noteq> ''succeeded'')"

definition startsBefore :: "plan \<Rightarrow> plan \<Rightarrow> bool" where
  "startsBefore p q =
     (case (plStarted p, plStarted q) of
        (Some a, Some b) \<Rightarrow> a < b \<or> (a = b \<and> (plCreated p < plCreated q \<or> (plCreated p = plCreated q \<and> byteLess (lId p) (lId q))))
      | (Some a, None) \<Rightarrow> True
      | (None, Some b) \<Rightarrow> False
      | (None, None) \<Rightarrow> plCreated p < plCreated q \<or> (plCreated p = plCreated q \<and> byteLess (lId p) (lId q)))"

text \<open>\<^verbatim>\<open>ORDER BY ... LIMIT 1\<close>: the first row that no other row precedes; rows that the order
  does not separate are taken in table order.\<close>

fun firstBy :: "('r \<Rightarrow> 'r \<Rightarrow> bool) \<Rightarrow> 'r list \<Rightarrow> 'r option" where
  "firstBy before [] = None"
| "firstBy before (x # xs) =
     (case firstBy before xs of None \<Rightarrow> Some x | Some y \<Rightarrow> if before y x then Some y else Some x)"

definition turnOwner :: "uuid \<Rightarrow> db \<Rightarrow> plan option" where
  "turnOwner proj d = firstBy startsBefore (filter (ownsTurn proj d) (dbPlans d))"

definition activeTaskJob :: "uuid \<Rightarrow> job \<Rightarrow> bool" where
  "activeTaskJob proj j \<longleftrightarrow> lProject j = proj \<and> jType j = ''task.execute'' \<and> lStatus j \<in> set [''leased'', ''running'']"

definition claimable :: "time \<Rightarrow> db \<Rightarrow> job \<Rightarrow> bool" where
  "claimable now d j \<longleftrightarrow>
     lStatus j \<in> set [''queued'', ''retry_wait''] \<and> jRunAfter j \<le> now \<and>
     (\<exists>p \<in> set (dbProjects d). pjId p = lProject j \<and> pjAutomation p) \<and>
     (jType j \<noteq> ''task.execute'' \<or>
      ((\<forall>a \<in> set (dbJobs d). \<not> activeTaskJob (lProject j) a) \<and>
       (case turnOwner (lProject j) d of
          None \<Rightarrow> False
        | Some owner \<Rightarrow> (\<exists>t \<in> set (dbTasks d). lId t = jAggregateID j \<and> ptPlan t = lId owner))))"

definition claimsBefore :: "job \<Rightarrow> job \<Rightarrow> bool" where
  "claimsBefore j k \<longleftrightarrow> jPriority j < jPriority k \<or> (jPriority j = jPriority k \<and> jCreated j < jCreated k)"

text \<open>\<^verbatim>\<open>FOR UPDATE OF p,j SKIP LOCKED\<close>: a candidate is skipped when its project row or its own row
  is locked by another transaction.\<close>

definition claimCandidate :: "time \<Rightarrow> uuid list \<Rightarrow> db \<Rightarrow> job option" where
  "claimCandidate now locked d =
     firstBy claimsBefore
       (filter (\<lambda>j. claimable now d j \<and> lProject j \<notin> set locked \<and> lId j \<notin> set locked) (dbJobs d))"

definition jobRequest :: "uuid \<Rightarrow> gostring \<Rightarrow> gostring \<Rightarrow> gostring \<Rightarrow> gostring \<Rightarrow> gostring \<Rightarrow> raw_json \<Rightarrow> job lifecycle_request" where
  "jobRequest i status source code reason hint checkpoint =
     zeroRequest\<lparr>lpResourceType := ResJob, lpResourceID := i, lpStatus := status, lpSource := source,
       lpCode := code, lpReason := reason, lpHint := hint, lpCheckpoint := checkpoint\<rparr>"

definition claimRequest :: "uuid \<Rightarrow> gostring \<Rightarrow> time \<Rightarrow> job lifecycle_request" where
  "claimRequest i workerID lease =
     (jobRequest i ''leased'' ''worker'' ''worker_claimed'' ''worker claimed queued job'' ''automatic_retry''
        (mustObject [(''workerId'', JStr workerID)]))
       \<lparr>rqExpectedStatuses := [''queued'', ''retry_wait''], rqMismatch := Some ErrNotFound,
        rqFields := [setWorkerID (Some workerID), setLeaseFor lease, incAttempt]\<rparr>"

definition ClaimJob :: "time \<Rightarrow> uuid list \<Rightarrow> gostring \<Rightarrow> time \<Rightarrow> db \<Rightarrow> error + db \<times> job" where
  "ClaimJob now locked workerID lease d =
     (case claimCandidate now locked d of
        None \<Rightarrow> Inl ErrNoRows
      | Some j \<Rightarrow>
          bindR (transitionJob now (claimRequest (lId j) workerID lease) d) (\<lambda>(d', res).
            case findRow (lId j) (dbJobs d') of None \<Rightarrow> Inl ErrNoRows | Some j' \<Rightarrow> Inr (d', j')))"

section \<open>Running a claimed job\<close>

definition runningRequest :: "uuid \<Rightarrow> gostring \<Rightarrow> job lifecycle_request" where
  "runningRequest i workerID =
     (jobRequest i ''running'' ''worker'' ''worker_started'' ''worker started job execution'' ''automatic_retry''
        (mustObject [(''workerId'', JStr workerID)]))
       \<lparr>rqExpectedStatuses := [''leased''], rqRequireWorker := Some workerID, rqMismatch := Some ErrNotFound\<rparr>"

definition MarkJobRunning :: "time \<Rightarrow> uuid \<Rightarrow> gostring \<Rightarrow> db \<Rightarrow> error + db \<times> job" where
  "MarkJobRunning now i workerID d =
     bindR (transitionJob now (runningRequest i workerID) d) (\<lambda>(d', res).
       case findRow i (dbJobs d') of None \<Rightarrow> Inl ErrNoRows | Some j' \<Rightarrow> Inr (d', j'))"

definition deferRequest :: "uuid \<Rightarrow> gostring \<Rightarrow> time \<Rightarrow> job lifecycle_request" where
  "deferRequest i workerID delay =
     (jobRequest i ''queued'' ''worker'' ''automatic_retry'' ''workspace is busy; job returned to queue''
        ''automatic_retry'' (mustObject [(''workerId'', JStr workerID), (''delay'', JStr (durationText delay))]))
       \<lparr>rqExpectedStatuses := [''leased'', ''running''], rqRequireWorker := Some workerID,
        rqAllowNonContract := True, rqMismatch := Some ErrNotFound,
        rqFields := [setWorkerID None, setLeaseNone, setRunAfterIn delay, decAttempt, setLastError []]\<rparr>"

definition DeferJobForWorkspace :: "time \<Rightarrow> uuid \<Rightarrow> gostring \<Rightarrow> time \<Rightarrow> db \<Rightarrow> error + db" where
  "DeferJobForWorkspace now i workerID delay d =
     bindR (transitionJob now (deferRequest i workerID (max delay 0)) d) (\<lambda>(d', res). Inr (notifyJob i d'))"

definition releaseRequest :: "uuid \<Rightarrow> gostring \<Rightarrow> job lifecycle_request" where
  "releaseRequest i workerID =
     (jobRequest i ''queued'' ''backend'' ''backend_shutdown'' ''worker released leased job before execution''
        ''automatic_retry'' (mustObject [(''workerId'', JStr workerID)]))
       \<lparr>rqExpectedStatuses := [''leased''], rqRequireWorker := Some workerID, rqMismatch := Some ErrNotFound,
        rqFields := [setWorkerID None, setLeaseNone, setRunAfterIn 0, decAttempt]\<rparr>"

definition ReleaseLeasedJob :: "time \<Rightarrow> uuid \<Rightarrow> gostring \<Rightarrow> db \<Rightarrow> error + db" where
  "ReleaseLeasedJob now i workerID d =
     bindR (transitionJob now (releaseRequest i workerID) d) (\<lambda>(d', res). Inr (notifyJob i d'))"

definition completeRequest :: "uuid \<Rightarrow> gostring \<Rightarrow> job lifecycle_request" where
  "completeRequest i workerID =
     (jobRequest i ''succeeded'' ''worker'' ''completed'' ''worker completed job'' ''none''
        (mustObject [(''workerId'', JStr workerID)]))
       \<lparr>rqExpectedStatuses := [''running''], rqRequireWorker := Some workerID, rqIgnoreTerminal := True,
        rqMismatch := Some ErrNotFound, rqFields := [setLeaseNone]\<rparr>"

definition CompleteJob :: "time \<Rightarrow> uuid \<Rightarrow> gostring \<Rightarrow> db \<Rightarrow> error + db" where
  "CompleteJob now i workerID d =
     bindR (transitionJob now (completeRequest i workerID) d) (\<lambda>(d', res). Inr (if lrIdempotent res then d else d'))"

section \<open>Failure and retry\<close>

text \<open>The outcome that \<^verbatim>\<open>FailJob\<close> computes from the caller's copy of the job: status, run time,
  reason code and recovery hint. The back-off doubles from two seconds and stops at 64.\<close>

definition failOutcome :: "time \<Rightarrow> job \<Rightarrow> bool \<Rightarrow> gostring \<times> time \<times> gostring \<times> gostring" where
  "failOutcome now j retryable =
     (if retryable \<and> jAttempt j < jMaxAttempts j
      then (''retry_wait'', now + 2 ^ nat (min (jAttempt j) 6) * 1000000, ''automatic_retry'', ''automatic_retry'')
      else (''failed'', now, ''execution_failed'', ''none''))"

definition failRequest :: "job \<Rightarrow> gostring \<Rightarrow> gostring \<Rightarrow> gostring \<times> time \<times> gostring \<times> gostring \<Rightarrow> job lifecycle_request" where
  "failRequest j workerID message o1 =
     (case o1 of (status, runAfter, code, hint) \<Rightarrow>
       (jobRequest (lId j) status ''worker'' code message hint
          (mustObject [(''workerId'', JStr workerID), (''attempt'', JInt (jAttempt j)), (''maxAttempts'', JInt (jMaxAttempts j))]))
         \<lparr>rqExpectedStatuses := [''leased'', ''running''], rqRequireWorker := Some workerID,
          rqAllowNonContract := True, rqIgnoreTerminal := True, rqMismatch := Some ErrNotFound,
          rqFields := [setLastError message, setRunAfter runAfter, setLeaseNone]\<rparr>)"

text \<open>\<^verbatim>\<open>UPDATE intakes SET status=... WHERE id=$1 AND status=... RETURNING project_id,version\<close>\<close>

definition updateIntakeStatus ::
  "time \<Rightarrow> uuid \<Rightarrow> gostring \<Rightarrow> gostring \<Rightarrow> db \<Rightarrow> db \<times> (uuid \<times> int) option" where
  "updateIntakeStatus now i from to d =
     (let hit = (\<lambda>k. ikId k = i \<and> ikStatus k = from);
          d' = d\<lparr>dbIntakes := map (\<lambda>k. if hit k then k\<lparr>ikStatus := to, ikUpdated := now, ikVersion := ikVersion k + 1\<rparr> else k)
                  (dbIntakes d)\<rparr>
      in (d', map_option (\<lambda>k. (ikProject k, ikVersion k + 1)) (find hit (dbIntakes d))))"

text \<open>The intake of a plan generation that failed for good.\<close>

definition failIntake :: "time \<Rightarrow> job \<Rightarrow> gostring \<Rightarrow> db \<Rightarrow> db" where
  "failIntake now j message d =
     (let u = updateIntakeStatus now (jAggregateID j) ''planning'' ''plan_failed'' d in
      case snd u of
        None \<Rightarrow> fst u
      | Some (proj, version) \<Rightarrow>
          insertEvent now \<lparr>neProject = Some proj, neType = ''intake.plan_failed'',
            neAggregateType = ''intake'', neAggregateID = jAggregateID j, neVersion = version,
            nePayload = JObj [(''error'', JStr message)]\<rparr> (fst u))"

definition FailJob :: "time \<Rightarrow> job \<Rightarrow> gostring \<Rightarrow> gostring \<Rightarrow> bool \<Rightarrow> db \<Rightarrow> error + db" where
  "FailJob now j workerID message retryable d =
     (let out = failOutcome now j retryable; status = fst out in
      bindR (transitionJob now (failRequest j workerID message out) d) (\<lambda>(d1, res).
        let d2 = (if status = ''retry_wait'' then notifyJob (lId j) d1 else d1) in
        Inr (if status = ''failed'' \<and> jType j = ''plan.generate'' then failIntake now j message d2 else d2)))"

section \<open>Leases\<close>

text \<open>The constraint that a job holds at most one lease is a unique index; a second one is an
  error of the statement.\<close>

definition AcquireWorkspaceLease :: "time \<Rightarrow> uuid \<Rightarrow> uuid \<Rightarrow> uuid \<Rightarrow> gostring \<Rightarrow> gostring \<Rightarrow> time \<Rightarrow> db \<Rightarrow> error + db" where
  "AcquireWorkspaceLease now fresh projectID jobID workspace workerID duration d =
     (let others = filter (\<lambda>l. wlPath l \<noteq> workspace) (dbLeases d) in
      case find (\<lambda>l. wlPath l = workspace) (dbLeases d) of
        None \<Rightarrow>
          if \<exists>l \<in> set others. wlJob l = jobID then Inl (ErrText ''duplicate key value violates unique constraint'')
          else Inr (d\<lparr>dbLeases := dbLeases d @ [\<lparr>wlId = fresh, wlProject = projectID, wlPath = workspace,
                 wlWorker = workerID, wlJob = jobID, wlHeartbeat = now, wlExpires = now + duration, wlVersion = 1\<rparr>]\<rparr>)
      | Some l \<Rightarrow>
          if \<not> (wlExpires l < now \<or> wlJob l = jobID) then Inl (ErrText ''workspace is leased by another worker'')
          else if \<exists>l \<in> set others. wlJob l = jobID then Inl (ErrText ''duplicate key value violates unique constraint'')
          else Inr (d\<lparr>dbLeases := map (\<lambda>l. if wlPath l = workspace
                 then l\<lparr>wlId := fresh, wlProject := projectID, wlWorker := workerID, wlJob := jobID,
                        wlHeartbeat := now, wlExpires := now + duration, wlVersion := wlVersion l + 1\<rparr> else l) (dbLeases d)\<rparr>))"

definition ErrLeaseLost :: error where
  "ErrLeaseLost = ErrText ''execution lease lost''"

definition renewsJob :: "uuid \<Rightarrow> gostring \<Rightarrow> job \<Rightarrow> bool" where
  "renewsJob i workerID j \<longleftrightarrow> lId j = i \<and> jWorkerID j = Some workerID \<and> lStatus j \<in> set [''leased'', ''running'']"

definition renewJobs :: "time \<Rightarrow> uuid \<Rightarrow> gostring \<Rightarrow> time \<Rightarrow> db \<Rightarrow> error + db" where
  "renewJobs now i workerID duration d =
     (if \<exists>j \<in> set (dbJobs d). renewsJob i workerID j
      then Inr (d\<lparr>dbJobs := map (\<lambda>j. if renewsJob i workerID j
                  then j\<lparr>jLease := Some (now + duration), lUpdated := now\<rparr> else j) (dbJobs d)\<rparr>)
      else Inl ErrLeaseLost)"

definition RenewJobLease :: "time \<Rightarrow> uuid \<Rightarrow> gostring \<Rightarrow> time \<Rightarrow> db \<Rightarrow> error + db" where
  "RenewJobLease = renewJobs"

definition renewsLease :: "time \<Rightarrow> uuid \<Rightarrow> gostring \<Rightarrow> workspace_lease \<Rightarrow> bool" where
  "renewsLease now i workerID l \<longleftrightarrow> wlJob l = i \<and> wlWorker l = workerID \<and> wlExpires l > now"

definition RenewWorkspaceLease :: "time \<Rightarrow> uuid \<Rightarrow> gostring \<Rightarrow> time \<Rightarrow> db \<Rightarrow> error + db" where
  "RenewWorkspaceLease now i workerID duration d =
     (if \<exists>l \<in> set (dbLeases d). renewsLease now i workerID l
      then renewJobs now i workerID duration
             (d\<lparr>dbLeases := map (\<lambda>l. if renewsLease now i workerID l
                  then l\<lparr>wlHeartbeat := now, wlExpires := now + duration, wlVersion := wlVersion l + 1\<rparr> else l) (dbLeases d)\<rparr>)
      else Inl ErrLeaseLost)"

definition ReleaseWorkspaceLease :: "uuid \<Rightarrow> gostring \<Rightarrow> db \<Rightarrow> db" where
  "ReleaseWorkspaceLease i workerID d =
     d\<lparr>dbLeases := filter (\<lambda>l. \<not> (wlJob l = i \<and> wlWorker l = workerID)) (dbLeases d)\<rparr>"

end
