(* ===== verification/Snapshot.thy ===== *)
theory Snapshot
  imports CheckpointCapture Queue
begin

text \<open>
  The execution snapshots of \<^verbatim>\<open>repository/store.go\<close>: the context a plan was made in, captured
  as an immutable row, the drift between the last row and the present, and the audited ways to
  accept a drift. The record \<open>snapshot_env\<close> holds what is outside the repository: SHA-256, the
  printer and lexer of JSON, Git and the file system. A panic is the error \<open>ErrPanic\<close>.
\<close>

section \<open>The environment\<close>

record snapshot_env =
  enSha :: "gostring \<Rightarrow> gostring"
  enPrint :: "json \<Rightarrow> gostring"
  enBytes :: "raw_json \<Rightarrow> gostring"
  enLexer :: "gostring \<Rightarrow> raw_json"
  enGitOut :: "gostring \<Rightarrow> gostring list \<Rightarrow> gostring option"
  enDiffGit :: "gostring list \<Rightarrow> gostring option"
  enWorkspace :: workspace

text \<open>A decoded value printed again: members in byte order, the last of a repeated name.\<close>

fun canonicalJson :: "json \<Rightarrow> json" where
  "canonicalJson (JArr vs) = JArr (map canonicalJson vs)"
| "canonicalJson (JObj ms) = JObj (objectMap (map (\<lambda>m. (fst m, canonicalJson (snd m))) ms))"
| "canonicalJson v = v"

definition digestBytes :: "snapshot_env \<Rightarrow> gostring \<Rightarrow> gostring" where
  "digestBytes e s = enSha e s"

definition canonicalJSONDigest :: "snapshot_env \<Rightarrow> raw_json \<Rightarrow> gostring" where
  "canonicalJSONDigest e raw =
     (case raw of RawValue v \<Rightarrow> digestBytes e (enPrint e (canonicalJson v))
      | RawEmpty \<Rightarrow> digestBytes e [] | RawInvalid \<Rightarrow> digestBytes e (enBytes e RawInvalid))"

definition gitCommand :: "snapshot_env \<Rightarrow> gostring \<Rightarrow> gostring list \<Rightarrow> gostring" where
  "gitCommand e ws args =
     (if trimSpace ws = [] then []
      else (case enGitOut e ws args of None \<Rightarrow> [] | Some out \<Rightarrow> trimSpace out))"

record workspace_state =
  wkPath :: gostring
  wkRoot :: gostring
  wkIdentity :: gostring
  wkBranch :: gostring
  wkHead :: gostring
  wkDigest :: gostring

text \<open>The result as a \<^verbatim>\<open>PlanWorkspaceState\<close> with the path it was read for.\<close>

definition readGitSnapshot :: "snapshot_env \<Rightarrow> gostring \<Rightarrow> workspace_state" where
  "readGitSnapshot e ws =
     (let root = gitCommand e ws [''rev-parse'', ''--show-toplevel''] in
      if root = [] then \<lparr>wkPath = ws, wkRoot = [], wkIdentity = [], wkBranch = [], wkHead = [], wkDigest = digestBytes e []\<rparr>
      else (let origin = gitCommand e ws [''config'', ''--get'', ''remote.origin.url''] in
        \<lparr>wkPath = ws, wkRoot = root, wkIdentity = (if origin = [] then root else origin),
         wkBranch = gitCommand e ws [''symbolic-ref'', ''--quiet'', ''--short'', ''HEAD''],
         wkHead = gitCommand e ws [''rev-parse'', ''HEAD''],
         wkDigest = digestBytes e (gitCommand e ws [''status'', ''--porcelain=v1'', ''--untracked-files=all''])\<rparr>))"

section \<open>Providers\<close>

definition planExecutionProviderKey :: gostring where
  "planExecutionProviderKey = ''executionAgentProvider''"

text \<open>\<^verbatim>\<open>planConfigSnapshotWithProvider\<close>: \<^verbatim>\<open>null\<close> decodes to a nil map.\<close>

definition planConfigSnapshotWithProvider :: "raw_json \<Rightarrow> gostring \<Rightarrow> error + raw_json" where
  "planConfigSnapshotWithProvider raw provider =
     (case (case raw of RawEmpty \<Rightarrow> Some [] | RawValue JNull \<Rightarrow> Some [] | RawValue (JObj ms) \<Rightarrow> Some (objectMap ms) | _ \<Rightarrow> None) of
        None \<Rightarrow> Inl ErrInvalidPlanConfig
      | Some ms \<Rightarrow>
          (let p = trimSpace provider in
           Inr (RawValue (JObj (if p = [] then filter (\<lambda>m. fst m \<noteq> planExecutionProviderKey) ms
                                else putMember planExecutionProviderKey (JStr p) ms)))))"

definition providerFromPlanConfigSnapshot :: "raw_json \<Rightarrow> error + gostring" where
  "providerFromPlanConfigSnapshot raw =
     (case raw of
        RawEmpty \<Rightarrow> Inr []
      | RawValue JNull \<Rightarrow> Inr []
      | RawValue (JObj ms) \<Rightarrow>
          (case jsonMember planExecutionProviderKey ms of
             None \<Rightarrow> Inr []
           | Some v \<Rightarrow> (case looseString v [] of None \<Rightarrow> Inl ErrInvalidPlanConfig | Some p \<Rightarrow> Inr (trimSpace p)))
      | _ \<Rightarrow> Inl ErrInvalidPlanConfig)"

definition providerMember :: "gostring \<Rightarrow> (gostring \<times> json) list" where
  "providerMember provider = (if trimSpace provider = [] then [] else [(''provider'', JStr (trimSpace provider))])"

definition planGenerationJobPayload :: "uuid \<Rightarrow> gostring \<Rightarrow> json" where
  "planGenerationJobPayload intakeID provider = JObj (objectMap ([(''intakeId'', JStr intakeID)] @ providerMember provider))"

definition taskExecutionJobPayload :: "uuid \<Rightarrow> uuid \<Rightarrow> gostring \<Rightarrow> bool \<Rightarrow> json" where
  "taskExecutionJobPayload taskID planID provider requested =
     JObj (objectMap ([(''taskId'', JStr taskID), (''planId'', JStr planID)] @ providerMember provider @
       (if requested then [(''providerRequested'', JBool True)] else [])))"

text \<open>The context value of a request: \<open>None\<close> when no handler set it.\<close>

definition executionProviderFromContext :: "gostring option \<Rightarrow> gostring \<times> bool" where
  "executionProviderFromContext selection =
     (let p = trimSpace (case selection of None \<Rightarrow> [] | Some s \<Rightarrow> s) in (p, p \<noteq> []))"
section \<open>The present context of a plan\<close>

record snapshot_state =
  ssProject :: uuid
  ssPlan :: uuid
  ssIntake :: uuid
  ssPlanVersion :: int
  ssContentVersion :: int
  ssRequirementVersion :: int
  ssRequirementDigest :: gostring
  ssSpecDigest :: gostring
  ssProjectVersion :: int
  ssConfigVersion :: int
  ssKeyFields :: json
  ssGenerationProvider :: gostring
  ssExecutionProvider :: gostring
  ssGit :: workspace_state

text \<open>\<^verbatim>\<open>ORDER BY ... DESC LIMIT 1\<close>\<close>

definition newestBy :: "('r \<Rightarrow> int) \<Rightarrow> 'r list \<Rightarrow> 'r option" where
  "newestBy f rs = fold (\<lambda>r best. case best of None \<Rightarrow> Some r | Some b \<Rightarrow> if f r > f b then Some r else best) rs None"

definition findProject :: "uuid \<Rightarrow> db \<Rightarrow> project option" where
  "findProject i d = find (\<lambda>p. pjId p = i) (dbProjects d)"

definition findIntake :: "uuid \<Rightarrow> db \<Rightarrow> intake option" where
  "findIntake i d = find (\<lambda>k. ikId k = i) (dbIntakes d)"

text \<open>\<^verbatim>\<open>coalesce(payload->>'provider','')\<close> of the newest generation job of an intake.\<close>

definition payloadText :: "snapshot_env \<Rightarrow> gostring \<Rightarrow> json \<Rightarrow> gostring" where
  "payloadText e k v =
     (case v of JObj ms \<Rightarrow>
        (case jsonMember k ms of None \<Rightarrow> [] | Some JNull \<Rightarrow> [] | Some (JStr s) \<Rightarrow> s | Some w \<Rightarrow> enPrint e w)
      | _ \<Rightarrow> [])"

definition generationJobProvider :: "snapshot_env \<Rightarrow> uuid \<Rightarrow> db \<Rightarrow> gostring" where
  "generationJobProvider e intakeID d =
     (case newestBy jCreated (filter (\<lambda>j. jType j = ''plan.generate'' \<and> jAggregateType j = ''intake'' \<and> jAggregateID j = intakeID) (dbJobs d)) of
        None \<Rightarrow> [] | Some j \<Rightarrow> trimSpace (payloadText e ''provider'' (jPayload j)))"

text \<open>A \<^verbatim>\<open>json.RawMessage\<close> inside a value that is marshalled.\<close>

definition embedRaw :: "raw_json \<Rightarrow> error + json" where
  "embedRaw raw = (case raw of RawValue v \<Rightarrow> Inr v | RawEmpty \<Rightarrow> Inr JNull | RawInvalid \<Rightarrow> Inl (ErrText ''json: error calling MarshalJSON''))"

definition keyExecutionFields :: "project_settings \<Rightarrow> raw_json \<Rightarrow> error + json" where
  "keyExecutionFields st config =
     bindR (embedRaw (psCodexArgs st)) (\<lambda>codexArgs.
     bindR (embedRaw (psClaudeArgs st)) (\<lambda>claudeArgs.
     bindR (embedRaw (psAllowedEnv st)) (\<lambda>allowedEnv.
     bindR (embedRaw config) (\<lambda>planConfig.
       Inr (JObj (objectMap
         [(''validationCommand'', JStr (psValidationCommand st)),
          (''codexCommand'', JStr (psCodexCommand st)), (''codexArgs'', codexArgs),
          (''claudeCommand'', JStr (psClaudeCommand st)), (''claudeArgs'', claudeArgs),
          (''planGenerationTimeoutSeconds'', JInt (psPlanTimeout st)),
          (''taskExecutionTimeoutSeconds'', JInt (psTaskTimeout st)),
          (''maxRetries'', JInt (psMaxRetries st)), (''allowedEnv'', allowedEnv),
          (''planConfigSnapshot'', planConfig)]))))))"

definition requirementContent :: "intake \<Rightarrow> json" where
  "requirementContent k = JObj (objectMap
     [(''kind'', JStr (ikKind k)), (''parentIntakeId'', (case ikParent k of None \<Rightarrow> JNull | Some i \<Rightarrow> JStr i)),
      (''title'', JStr (ikTitle k)), (''body'', JStr (ikBody k))])"

definition loadPlanSnapshotState :: "snapshot_env \<Rightarrow> uuid \<Rightarrow> gostring \<Rightarrow> db \<Rightarrow> error + snapshot_state" where
  "loadPlanSnapshotState e planID generationProvider d =
     (case findRow planID (dbPlans d) of None \<Rightarrow> Inl ErrNotFound | Some p \<Rightarrow>
      (case findIntake (plIntake p) d of None \<Rightarrow> Inl ErrNotFound | Some k \<Rightarrow>
      (case findProject (lProject p) d of None \<Rightarrow> Inl ErrNotFound | Some pr \<Rightarrow>
      (case pjSettings pr of None \<Rightarrow> Inl ErrNotFound | Some st \<Rightarrow>
        (let g1 = trimSpace generationProvider;
             g2 = (if g1 = [] then generationJobProvider e (plIntake p) d else g1);
             g3 = (if g2 = [] then psAgentProvider st else g2)
         in bindR (providerFromPlanConfigSnapshot (plConfig p)) (\<lambda>ep.
            bindR (keyExecutionFields st (plConfig p)) (\<lambda>fields.
              Inr \<lparr>ssProject = lProject p, ssPlan = planID, ssIntake = plIntake p, ssPlanVersion = lVersion p,
                ssContentVersion = plContentVersion p, ssRequirementVersion = ikVersion k,
                ssRequirementDigest = canonicalJSONDigest e (RawValue (requirementContent k)),
                ssSpecDigest = canonicalJSONDigest e (plSpec p), ssProjectVersion = pjVersion pr,
                ssConfigVersion = psVersion st, ssKeyFields = fields, ssGenerationProvider = g3,
                ssExecutionProvider = (if ep = [] then psAgentProvider st else ep),
                ssGit = readGitSnapshot e (pjWorkspace pr)\<rparr>)))))))"

definition latestPlanExecutionSnapshot :: "uuid \<Rightarrow> db \<Rightarrow> plan_snapshot option" where
  "latestPlanExecutionSnapshot planID d = newestBy snSequence (filter (\<lambda>s. snPlan s = planID) (dbSnapshots d))"

section \<open>Capture\<close>

definition snapshotKinds :: "gostring list" where
  "snapshotKinds = [''generation_baseline'', ''task_checkpoint'', ''user_accepted'']"

text \<open>The change set of an automatic task checkpoint and of any other snapshot.\<close>

definition automaticChanges :: "snapshot_env \<Rightarrow> raw_json \<Rightarrow> git_checkpoint \<Rightarrow> error + raw_json \<times> checkpoint_file list" where
  "automaticChanges e previousSummary currentGit =
     (case collectRepositoryTaskDiff (wsFs (enWorkspace e)) (enLexer e) (enDiffGit e)
              ((extractRepositoryCheckpoint previousSummary)\<lparr>gcWorkspaceRoot := gcWorkspaceRoot currentGit\<rparr>) currentGit of
        None \<Rightarrow> Inl ErrPanic
      | Some (files, summary) \<Rightarrow> Inr (RawValue (JObj summary), files))"

definition givenChanges :: "git_checkpoint \<Rightarrow> raw_json \<Rightarrow> checkpoint_file list \<Rightarrow> error + raw_json \<times> checkpoint_file list" where
  "givenChanges currentGit summary files =
     bindR (mergePlanExecutionChangeSummary summary [(''gitCheckpoint'', JObj (repositoryCheckpointMetadata currentGit))])
       (\<lambda>s. Inr (s, files))"

definition prepareIn :: "snapshot_env \<Rightarrow> gostring \<Rightarrow> raw_json \<times> checkpoint_file list \<Rightarrow> error + raw_json \<times> checkpoint_file list" where
  "prepareIn e ws c = preparePlanExecutionChanges (wsFs (enWorkspace e)) ws (wsIsDir (enWorkspace e) ws) (fst c) (snd c)"

definition newSnapshot ::
  "uuid \<Rightarrow> gostring \<Rightarrow> uuid option \<Rightarrow> plan_snapshot option \<Rightarrow> snapshot_state \<Rightarrow> workspace_state \<Rightarrow>
   raw_json \<times> int \<times> int \<Rightarrow> checkpoint_file list \<Rightarrow> plan_snapshot" where
  "newSnapshot i kind taskID previous s git summary files =
     \<lparr>snId = i, snProject = ssProject s, snPlan = ssPlan s, snIntake = ssIntake s,
      snPrevious = map_option snId previous, snTask = taskID,
      snSequence = (case previous of None \<Rightarrow> 1 | Some p \<Rightarrow> snSequence p + 1), snKind = kind,
      snRequirementVersion = ssRequirementVersion s, snRequirementDigest = ssRequirementDigest s,
      snPlanVersion = ssPlanVersion s, snContentVersion = ssContentVersion s, snSpecDigest = ssSpecDigest s,
      snProjectVersion = ssProjectVersion s, snConfigVersion = ssConfigVersion s,
      snKeyFields = RawValue (ssKeyFields s), snGenerationProvider = ssGenerationProvider s,
      snExecutionProvider = ssExecutionProvider s, snWorkspace = wkPath git, snGitRoot = wkRoot git,
      snGitIdentity = wkIdentity git, snGitBranch = wkBranch git, snGitHead = wkHead git, snGitDigest = wkDigest git,
      snSummary = fst summary, snAdditions = fst (snd summary), snDeletions = snd (snd summary), snFiles = files\<rparr>"

text \<open>\<^verbatim>\<open>capturePlanExecutionSnapshotWithChangesAndWorkspaceTx\<close>; \<open>i\<close> is the new id.\<close>

definition captureSnapshotTx ::
  "snapshot_env \<Rightarrow> uuid \<Rightarrow> uuid \<Rightarrow> gostring \<Rightarrow> uuid option \<Rightarrow> gostring \<Rightarrow> raw_json \<Rightarrow> checkpoint_file list \<Rightarrow>
   workspace_state option \<Rightarrow> db \<Rightarrow> error + db \<times> plan_snapshot" where
  "captureSnapshotTx e i planID kind taskID generationProvider summary files wk d =
     (let previous = latestPlanExecutionSnapshot planID d;
          gp = (case previous of Some p \<Rightarrow> if trimSpace generationProvider = [] then snGenerationProvider p else generationProvider
                | None \<Rightarrow> generationProvider);
          automatic = (kind = ''task_checkpoint'' \<and> files = [] \<and> summary = RawEmpty)
      in if kind \<notin> set snapshotKinds then Inl ErrInvalidPlanDriftAudit
         else if kind = ''generation_baseline'' \<and> previous \<noteq> None then Inl ErrInvalidPlanDriftAudit
         else if kind = ''task_checkpoint'' \<and> previous = None then Inl ErrPlanExecutionBaselineMissing
         else bindR (loadPlanSnapshotState e planID gp d) (\<lambda>s.
           let git = (case wk of None \<Rightarrow> ssGit s | Some w \<Rightarrow> w) in
           bindR (if automatic then Inr (summary, files) else prepareIn e (wkPath git) (summary, files)) (\<lambda>c1.
             let currentGit = snd (captureRepositoryGitCheckpoint (enWorkspace e) (wkPath git) i);
                 previousSummary = (case previous of None \<Rightarrow> RawEmpty | Some p \<Rightarrow> snSummary p)
             in bindR (if automatic then automaticChanges e previousSummary currentGit
                       else givenChanges currentGit (fst c1) (snd c1)) (\<lambda>c2.
                bindR (prepareIn e (wkPath git) c2) (\<lambda>c3.
                bindR (normalizePlanExecutionChanges (fst c3) (snd c3)) (\<lambda>n.
                  let row = newSnapshot i kind taskID previous s git n (snd c3) in
                  Inr (d\<lparr>dbSnapshots := dbSnapshots d @ [row]\<rparr>, row)))))))"

definition captureWithoutChanges ::
  "snapshot_env \<Rightarrow> uuid \<Rightarrow> uuid \<Rightarrow> gostring \<Rightarrow> uuid option \<Rightarrow> gostring \<Rightarrow> workspace_state option \<Rightarrow> db \<Rightarrow> error + db \<times> plan_snapshot" where
  "captureWithoutChanges e i planID kind taskID generationProvider wk d =
     captureSnapshotTx e i planID kind taskID generationProvider RawEmpty [] wk d"

definition nilUUID :: uuid where
  "nilUUID = ''00000000-0000-0000-0000-000000000000''"

text \<open>A checkpoint handed in for a task: the plan and the task have to belong together.\<close>

definition CapturePlanExecutionCheckpoint ::
  "snapshot_env \<Rightarrow> uuid \<Rightarrow> uuid \<Rightarrow> uuid \<Rightarrow> uuid \<Rightarrow> raw_json \<Rightarrow> checkpoint_file list \<Rightarrow> db \<Rightarrow> error + db \<times> plan_snapshot" where
  "CapturePlanExecutionCheckpoint e i projectID planID taskID summary files d =
     (case findRow planID (dbPlans d) of
        None \<Rightarrow> Inl ErrNotFound
      | Some p \<Rightarrow>
          if lProject p \<noteq> projectID then Inl ErrForbidden
          else (case findRow taskID (dbTasks d) of
                  None \<Rightarrow> Inl ErrNotFound
                | Some t \<Rightarrow>
                    if lProject t \<noteq> projectID then Inl ErrForbidden
                    else if ptPlan t \<noteq> planID then Inl ErrInvalidFeedbackLink
                    else captureSnapshotTx e i planID ''task_checkpoint'' (Some taskID) [] summary files None d))"

section \<open>Drift\<close>

record plan_drift =
  pdPlan :: uuid
  pdBaseline :: "uuid option"
  pdSequence :: int
  pdStatus :: gostring
  pdRequires :: bool
  pdDifferences :: raw_json

definition driftDifference :: "gostring \<Rightarrow> json \<Rightarrow> json \<Rightarrow> json" where
  "driftDifference field baseline current =
     JObj (objectMap [(''field'', JStr field), (''baseline'', baseline), (''current'', current)])"

text \<open>The compared fields: name, recorded value, present value (numbers and strings, which
  \<^verbatim>\<open>fmt.Sprint\<close> tells apart).\<close>

definition driftFields :: "snapshot_env \<Rightarrow> plan_snapshot \<Rightarrow> snapshot_state \<Rightarrow> (gostring \<times> json \<times> json) list" where
  "driftFields e b s =
     [(''requirementVersion'', JInt (snRequirementVersion b), JInt (ssRequirementVersion s)),
      (''requirementDigest'', JStr (snRequirementDigest b), JStr (ssRequirementDigest s)),
      (''planContentVersion'', JInt (snContentVersion b), JInt (ssContentVersion s)),
      (''planSpecDigest'', JStr (snSpecDigest b), JStr (ssSpecDigest s)),
      (''projectVersion'', JInt (snProjectVersion b), JInt (ssProjectVersion s)),
      (''configVersion'', JInt (snConfigVersion b), JInt (ssConfigVersion s)),
      (''keyExecutionFieldsDigest'', JStr (canonicalJSONDigest e (snKeyFields b)), JStr (canonicalJSONDigest e (RawValue (ssKeyFields s)))),
      (''executionProvider'', JStr (snExecutionProvider b), JStr (ssExecutionProvider s)),
      (''workspacePathNormalized'', JStr (snWorkspace b), JStr (wkPath (ssGit s))),
      (''gitRoot'', JStr (snGitRoot b), JStr (wkRoot (ssGit s))),
      (''gitRepositoryIdentity'', JStr (snGitIdentity b), JStr (wkIdentity (ssGit s))),
      (''gitBranch'', JStr (snGitBranch b), JStr (wkBranch (ssGit s))),
      (''gitHead'', JStr (snGitHead b), JStr (wkHead (ssGit s))),
      (''gitWorkspaceDigest'', JStr (snGitDigest b), JStr (wkDigest (ssGit s)))]"

definition GetPlanDrift :: "snapshot_env \<Rightarrow> uuid \<Rightarrow> db \<Rightarrow> error + plan_drift" where
  "GetPlanDrift e planID d =
     (case latestPlanExecutionSnapshot planID d of
        None \<Rightarrow>
          if findRow planID (dbPlans d) = None then Inl ErrNotFound
          else Inr \<lparr>pdPlan = planID, pdBaseline = None, pdSequence = 0, pdStatus = ''missing_baseline'', pdRequires = True,
                 pdDifferences = RawValue (JArr [driftDifference ''executionSnapshot'' JNull (JStr ''missing'')])\<rparr>
      | Some b \<Rightarrow>
          bindR (loadPlanSnapshotState e planID (snGenerationProvider b) d) (\<lambda>s.
            let differences = map (\<lambda>(f, x, y). driftDifference f x y) (filter (\<lambda>(f, x, y). x \<noteq> y) (driftFields e b s)) in
            Inr \<lparr>pdPlan = planID, pdBaseline = Some (snId b), pdSequence = snSequence b,
              pdStatus = (if differences = [] then ''clean'' else ''drifted''), pdRequires = (differences \<noteq> []),
              pdDifferences = RawValue (JArr differences)\<rparr>))"

section \<open>Audited acceptance\<close>

definition insertPlanDriftAuditTx ::
  "uuid \<Rightarrow> uuid \<Rightarrow> uuid \<Rightarrow> gostring \<Rightarrow> uuid option \<Rightarrow> uuid option \<Rightarrow> uuid option \<Rightarrow> raw_json \<Rightarrow> gostring \<Rightarrow> gostring \<Rightarrow>
   db \<Rightarrow> error + db \<times> drift_audit" where
  "insertPlanDriftAuditTx i projectID planID action original new1 target rawDiff channel reason d =
     (case ValidatePlanDriftAudit action channel reason rawDiff of
        Some x \<Rightarrow> Inl x
      | None \<Rightarrow>
          (let sequence = (case newestBy daSequence (filter (\<lambda>a. daPlan a = planID) (dbAudits d)) of None \<Rightarrow> 0 | Some a \<Rightarrow> daSequence a) + 1;
               row = \<lparr>daId = i, daProject = projectID, daPlan = planID, daSequence = sequence, daAction = action,
                 daOriginal = original, daNew = new1, daTarget = target, daRawDiff = rawDiff,
                 daChannel = trimSpace channel, daReason = trimSpace reason\<rparr>
           in Inr (d\<lparr>dbAudits := dbAudits d @ [row]\<rparr>, row)))"

text \<open>
  Trigger \<^verbatim>\<open>plans_execution_abandoned_audit\<close> of migration 010: an update of a plan row whose status
  becomes cancelled inserts an audit row, numbered behind the others of the plan, that names the newest
  snapshot, if there is one. The id, which PostgreSQL draws, is an argument.
\<close>

definition abandonedRow :: "uuid \<Rightarrow> plan \<Rightarrow> plan \<Rightarrow> db \<Rightarrow> drift_audit" where
  "abandonedRow i old new d =
     \<lparr>daId = i, daProject = lProject new, daPlan = lId new,
      daSequence = (case newestBy daSequence (filter (\<lambda>a. daPlan a = lId new) (dbAudits d)) of None \<Rightarrow> 0 | Some a \<Rightarrow> daSequence a) + 1,
      daAction = ''execution_abandoned'', daOriginal = map_option snId (latestPlanExecutionSnapshot (lId new) d),
      daNew = None, daTarget = Some (lId new),
      daRawDiff = RawValue (JObj [(''status'', JObj [(''after'', JStr (lStatus new)), (''before'', JStr (lStatus old))])]),
      daChannel = ''repository'', daReason = ''plan execution abandoned''\<rparr>"

definition auditPlanExecutionAbandoned :: "uuid \<Rightarrow> plan \<Rightarrow> plan \<Rightarrow> db \<Rightarrow> db" where
  "auditPlanExecutionAbandoned i old new d =
     (if lStatus old \<noteq> ''cancelled'' \<and> lStatus new = ''cancelled''
      then d\<lparr>dbAudits := dbAudits d @ [abandonedRow i old new d]\<rparr> else d)"

text \<open>The check of the snapshot the caller saw; the nil id stands for the latest one.\<close>

definition expectLatest :: "uuid \<Rightarrow> uuid \<Rightarrow> db \<Rightarrow> error + plan_snapshot" where
  "expectLatest planID originalSnapshotID d =
     (case latestPlanExecutionSnapshot planID d of
        None \<Rightarrow> Inl ErrPlanExecutionBaselineMissing
      | Some b \<Rightarrow> if originalSnapshotID \<noteq> nilUUID \<and> snId b \<noteq> originalSnapshotID then Inl ErrVersionConflict else Inr b)"

definition AcceptPlanExecutionSnapshot ::
  "snapshot_env \<Rightarrow> uuid \<Rightarrow> uuid \<Rightarrow> uuid \<Rightarrow> uuid \<Rightarrow> raw_json \<Rightarrow> gostring \<Rightarrow> gostring \<Rightarrow> db \<Rightarrow> error + db \<times> plan_snapshot \<times> drift_audit" where
  "AcceptPlanExecutionSnapshot e snapID auditID planID originalSnapshotID rawDiff channel reason d =
     (case ValidatePlanDriftAudit ''snapshot_updated'' channel reason rawDiff of
        Some x \<Rightarrow> Inl x
      | None \<Rightarrow>
          (case findRow planID (dbPlans d) of
             None \<Rightarrow> Inl ErrNotFound
           | Some p \<Rightarrow>
               bindR (expectLatest planID originalSnapshotID d) (\<lambda>b.
               bindR (captureWithoutChanges e snapID planID ''user_accepted'' None (snGenerationProvider b) None d) (\<lambda>(d1, accepted).
               bindR (insertPlanDriftAuditTx auditID (lProject p) planID ''snapshot_updated'' (Some (snId b)) (Some (snId accepted)) None
                        rawDiff channel reason d1) (\<lambda>(d2, audit).
                 Inr (d2, accepted, audit))))))"

definition snapshotOf :: "uuid \<Rightarrow> uuid \<Rightarrow> db \<Rightarrow> bool" where
  "snapshotOf snapshotID planID d = list_ex (\<lambda>s. snId s = snapshotID \<and> snPlan s = planID) (dbSnapshots d)"

definition RecordPlanRegenerationAudit ::
  "uuid \<Rightarrow> uuid \<Rightarrow> uuid \<Rightarrow> uuid \<Rightarrow> raw_json \<Rightarrow> gostring \<Rightarrow> gostring \<Rightarrow> db \<Rightarrow> error + db \<times> drift_audit" where
  "RecordPlanRegenerationAudit i planID originalSnapshotID targetPlanID rawDiff channel reason d =
     (case ValidatePlanDriftAudit ''plan_regenerated'' channel reason rawDiff of
        Some x \<Rightarrow> Inl x
      | None \<Rightarrow>
          (case (findRow planID (dbPlans d), findRow targetPlanID (dbPlans d)) of
             (Some p, Some q) \<Rightarrow>
               if lProject p \<noteq> lProject q then Inl ErrInvalidPlanDriftAudit
               else if \<not> snapshotOf originalSnapshotID planID d then Inl ErrNotFound
               else insertPlanDriftAuditTx i (lProject p) planID ''plan_regenerated'' (Some originalSnapshotID) None
                      (Some targetPlanID) rawDiff channel reason d
           | _ \<Rightarrow> Inl ErrNotFound))"

definition RecordPlanExecutionAbandonedAudit ::
  "uuid \<Rightarrow> uuid \<Rightarrow> uuid \<Rightarrow> raw_json \<Rightarrow> gostring \<Rightarrow> gostring \<Rightarrow> db \<Rightarrow> error + db \<times> drift_audit" where
  "RecordPlanExecutionAbandonedAudit i planID originalSnapshotID rawDiff channel reason d =
     (case ValidatePlanDriftAudit ''execution_abandoned'' channel reason rawDiff of
        Some x \<Rightarrow> Inl x
      | None \<Rightarrow>
          (case findRow planID (dbPlans d) of
             None \<Rightarrow> Inl ErrNotFound
           | Some p \<Rightarrow>
               if \<not> snapshotOf originalSnapshotID planID d then Inl ErrNotFound
               else insertPlanDriftAuditTx i (lProject p) planID ''execution_abandoned'' (Some originalSnapshotID) None
                      (Some planID) rawDiff channel reason d))"

record update_params =
  upPlan :: uuid
  upVersion :: int
  upOriginal :: uuid
  upTitle :: gostring
  upSpec :: raw_json
  upMarkdown :: gostring
  upConfig :: raw_json
  upRawDiff :: raw_json
  upChannel :: gostring
  upReason :: gostring

text \<open>The content of a plan is replaced outside the lifecycle gate: both versions grow.\<close>

definition UpdatePlanExecutionSnapshot ::
  "snapshot_env \<Rightarrow> time \<Rightarrow> uuid \<Rightarrow> uuid \<Rightarrow> update_params \<Rightarrow> db \<Rightarrow> error + db \<times> plan \<times> plan_snapshot \<times> drift_audit" where
  "UpdatePlanExecutionSnapshot e now snapID auditID u d =
     (case ValidatePlanDriftAudit ''snapshot_updated'' (upChannel u) (upReason u) (upRawDiff u) of
        Some x \<Rightarrow> Inl x
      | None \<Rightarrow>
          if upSpec u \<in> {RawEmpty, RawInvalid} \<or> upConfig u \<in> {RawEmpty, RawInvalid} then Inl ErrInvalidPlanDriftAudit
          else bindR (expectLatest (upPlan u) (upOriginal u) d) (\<lambda>b.
            case findRow (upPlan u) (dbPlans d) of
              None \<Rightarrow> Inl ErrNotFound
            | Some p \<Rightarrow>
                if lVersion p \<noteq> upVersion u \<or> lStatus p \<notin> {''ready'', ''blocked'', ''cancelled''} then Inl ErrVersionConflict
                else (let f = (\<lambda>p. p\<lparr>plTitle := upTitle u, plSpec := upSpec u, plMarkdown := upMarkdown u, plConfig := upConfig u,
                             lUpdated := now, lVersion := lVersion p + 1, plContentVersion := plContentVersion p + 1\<rparr>);
                          d1 = d\<lparr>dbPlans := updateRow (upPlan u) f (dbPlans d)\<rparr>
                      in bindR (captureWithoutChanges e snapID (upPlan u) ''user_accepted'' None (snGenerationProvider b) None d1) (\<lambda>(d2, accepted).
                         bindR (insertPlanDriftAuditTx auditID (lProject p) (upPlan u) ''snapshot_updated'' (Some (snId b))
                                  (Some (snId accepted)) None (upRawDiff u) (upChannel u) (upReason u) d2) (\<lambda>(d3, audit).
                           Inr (d3, f p, accepted, audit))))))"

end
