(* ===== verification/Execution.thy ===== *)
theory Execution
  imports Snapshot Scheduler
begin

text \<open>
  Running a plan, from \<^verbatim>\<open>repository/queue.go\<close>: queueing a plan or a task, starting a queued
  task after the gate is checked again, and finishing a task, which settles the plan or queues the
  next task. Each operation is one transaction. New ids are arguments; \<open>StartTask\<close> commits the
  blocked plan and then returns an error, so its committed result carries an error or the task.
\<close>

section \<open>Column updates\<close>

definition setExecutionStarted :: "plan field_update" where
  "setExecutionStarted = \<lparr>fuColumn = ''execution_started_at'', fuApply = (\<lambda>now old r. r\<lparr>plStarted := Some now\<rparr>)\<rparr>"

definition setStarted :: "bool \<Rightarrow> plan_task field_update" where
  "setStarted b = \<lparr>fuColumn = ''started_at'', fuApply = (\<lambda>now old r. r\<lparr>ptStarted := if b then Some now else None\<rparr>)\<rparr>"

definition setFinished :: "bool \<Rightarrow> plan_task field_update" where
  "setFinished b = \<lparr>fuColumn = ''finished_at'', fuApply = (\<lambda>now old r. r\<lparr>ptFinished := if b then Some now else None\<rparr>)\<rparr>"

definition setTaskSession :: "gostring \<Rightarrow> plan_task field_update" where
  "setTaskSession s = \<lparr>fuColumn = ''session_id'', fuApply = (\<lambda>now old r. r\<lparr>ptSession := if s = [] then None else Some s\<rparr>)\<rparr>"

definition setAcceptanceStatus :: "gostring \<Rightarrow> plan_task field_update" where
  "setAcceptanceStatus s = \<lparr>fuColumn = ''acceptance_status'', fuApply = (\<lambda>now old r. r\<lparr>ptAcceptanceStatus := s\<rparr>)\<rparr>"

definition setAcceptanceResult :: "raw_json \<Rightarrow> plan_task field_update" where
  "setAcceptanceResult v = \<lparr>fuColumn = ''acceptance_result'', fuApply = (\<lambda>now old r. r\<lparr>ptAcceptanceResult := v\<rparr>)\<rparr>"

definition planRequest :: "uuid \<Rightarrow> gostring \<Rightarrow> gostring \<Rightarrow> gostring \<Rightarrow> gostring \<Rightarrow> gostring \<Rightarrow> raw_json \<Rightarrow> plan lifecycle_request" where
  "planRequest i status source code reason hint checkpoint =
     zeroRequest\<lparr>lpResourceType := ResPlan, lpResourceID := i, lpStatus := status, lpSource := source,
       lpCode := code, lpReason := reason, lpHint := hint, lpCheckpoint := checkpoint\<rparr>"

definition taskRequest :: "uuid \<Rightarrow> gostring \<Rightarrow> gostring \<Rightarrow> gostring \<Rightarrow> gostring \<Rightarrow> gostring \<Rightarrow> plan_task lifecycle_request" where
  "taskRequest i status source code reason hint =
     zeroRequest\<lparr>lpResourceType := ResTask, lpResourceID := i, lpStatus := status, lpSource := source,
       lpCode := code, lpReason := reason, lpHint := hint\<rparr>"

definition emit :: "time \<Rightarrow> uuid \<Rightarrow> gostring \<Rightarrow> gostring \<Rightarrow> uuid \<Rightarrow> int \<Rightarrow> (gostring \<times> json) list \<Rightarrow> db \<Rightarrow> db" where
  "emit now projectID kind aggregate i version payload d =
     insertEvent now \<lparr>neProject = Some projectID, neType = kind, neAggregateType = aggregate, neAggregateID = i,
       neVersion = version, nePayload = JObj (objectMap payload)\<rparr> d"

section \<open>Blockers as JSON\<close>

definition textMember :: "gostring \<Rightarrow> gostring \<Rightarrow> (gostring \<times> json) list" where
  "textMember k s = (if s = [] then [] else [(k, JStr s)])"

definition acceptanceBlockerJson :: "acceptance_blocker \<Rightarrow> json" where
  "acceptanceBlockerJson b =
     JObj (textMember ''key'' (abKey b) @ [(''status'', JStr (abStatus b))] @ textMember ''reason'' (abReason b))"

text \<open>The stored validation problems are a JSON column.\<close>

definition blockerJson :: "execution_blocker \<Rightarrow> json" where
  "blockerJson b = JObj ([(''code'', JStr (ebCode b))] @
     (case ebTaskID b of None \<Rightarrow> [] | Some i \<Rightarrow> [(''taskId'', JStr i)]) @
     textMember ''taskKey'' (ebTaskKey b) @ textMember ''taskTitle'' (ebTaskTitle b) @
     textMember ''taskStatus'' (ebTaskStatus b) @ textMember ''acceptanceStatus'' (ebAcceptanceStatus b) @
     [(''reason'', JStr (ebReason b))] @
     (if ebAcceptanceBlockers b = [] then [] else [(''acceptanceBlockers'', JArr (map acceptanceBlockerJson (ebAcceptanceBlockers b)))]) @
     (case ebValidationProblems b of RawValue v \<Rightarrow> [(''validationProblems'', v)] | _ \<Rightarrow> []))"

section \<open>Queueing\<close>

definition retryable :: "gostring list" where
  "retryable = [''pending'', ''failed'', ''cancelled'', ''interrupted'']"

definition noRunnable :: "gostring \<Rightarrow> execution_blocker" where
  "noRunnable reason = zeroBlocker\<lparr>ebCode := ''no_runnable_task'', ebReason := reason\<rparr>"

definition requirePlanExecutionBaseline :: "uuid \<Rightarrow> db \<Rightarrow> error + unit" where
  "requirePlanExecutionBaseline planID d =
     (if \<not> list_ex (\<lambda>p. lId p = planID) (dbPlans d) then Inl ErrNotFound
      else if \<not> list_ex (\<lambda>s. snPlan s = planID) (dbSnapshots d)
      then Inl (ErrJoin ErrPlanDriftResolutionRequired ErrPlanExecutionBaselineMissing)
      else Inr ())"

text \<open>Why a plan in a status outside the allowed ones is not queued.\<close>

definition refuseStatus :: "unicode \<Rightarrow> execution_state \<Rightarrow> bool \<Rightarrow> error" where
  "refuseStatus u s automatic =
     (if automatic \<and> esStatus s = ''blocked''
      then ErrPlanExecutionBlocked (esPlan s) None
        (case nextPlanTask u s True None of
           Blocked bs \<Rightarrow> bs
         | Complete \<Rightarrow> [noRunnable ''blocked plan has no unfinished runnable task'']
         | Next t \<Rightarrow> [taskSchedulingBlocker ''manual_resume_required'' t
             (''plan is blocked; task '' @ ptKey t @ '' requires an explicit manual resume'')])
      else ErrInvalidTransition)"

definition taskJob :: "uuid \<Rightarrow> uuid \<Rightarrow> uuid \<Rightarrow> uuid \<Rightarrow> gostring \<Rightarrow> bool \<Rightarrow> int \<Rightarrow> time \<Rightarrow> int \<Rightarrow> new_job" where
  "taskJob jobID projectID taskID planID provider requested attempts now version =
     \<lparr>njID = jobID, njProject = projectID, njType = ''task.execute'', njAggregateType = ''task'', njAggregateID = taskID,
      njPayload = Some (taskExecutionJobPayload taskID planID provider requested), njPriority = 100, njMaxAttempts = attempts,
      njRunAfter = Some now, njIdempotencyKey = ''task.execute:'' @ taskID @ '':'' @ showInt version\<rparr>"

definition setPlanConfig :: "uuid \<Rightarrow> raw_json \<Rightarrow> db \<Rightarrow> db" where
  "setPlanConfig planID config d = d\<lparr>dbPlans := updateRow planID (\<lambda>p. p\<lparr>plConfig := config\<rparr>) (dbPlans d)\<rparr>"

text \<open>A provider chosen when the plan is queued changes the context the plan was accepted in, so the
  change is accepted and audited at once.\<close>

definition acceptProvider :: "snapshot_env \<Rightarrow> uuid \<Rightarrow> uuid \<Rightarrow> execution_state \<Rightarrow> raw_json \<Rightarrow> db \<Rightarrow> error + db" where
  "acceptProvider e snapID auditID s config d =
     (if canonicalJSONDigest e (esConfig s) = canonicalJSONDigest e config then Inr d
      else (case latestPlanExecutionSnapshot (esPlan s) d of
          None \<Rightarrow> Inl ErrNoRows
        | Some previous \<Rightarrow>
            bindR (captureWithoutChanges e snapID (esPlan s) ''user_accepted'' None (snGenerationProvider previous) None d) (\<lambda>(d1, accepted).
            bindR (providerFromPlanConfigSnapshot (esConfig s)) (\<lambda>before.
            bindR (providerFromPlanConfigSnapshot config) (\<lambda>after1.
            bindR (insertPlanDriftAuditTx auditID (esProject s) (esPlan s) ''snapshot_updated'' (Some (snId previous))
                (Some (snId accepted)) None
                (mustObject [(''executionProvider'', JObj (objectMap [(''before'', JStr before), (''after'', JStr after1)]))])
                ''queue'' ''execution provider selected when plan queued'' d1) (\<lambda>(d2, a).
              Inr d2))))))"

definition runPlanRequest :: "uuid \<Rightarrow> int \<Rightarrow> bool \<Rightarrow> gostring list \<Rightarrow> uuid \<Rightarrow> uuid \<Rightarrow> plan lifecycle_request" where
  "runPlanRequest planID version automatic allowed taskID jobID =
     (planRequest planID ''running'' (if automatic then ''automation'' else ''user'') ''resume_requested''
        ''plan execution queued'' ''none'' (mustObject [(''taskId'', JStr taskID)]))
       \<lparr>lpExpectedVersion := version, lpRelatedJob := Some jobID, rqExpectedStatuses := allowed, rqAllowNonContract := True,
        rqFields := [setExecutionStarted]\<rparr>"

definition queueTaskRequest :: "plan_task \<Rightarrow> gostring \<Rightarrow> gostring \<Rightarrow> uuid \<Rightarrow> plan_task lifecycle_request" where
  "queueTaskRequest t source reason jobID =
     (taskRequest (lId t) ''queued'' source ''resume_requested'' reason ''none'')
       \<lparr>lpRelatedJob := Some jobID, rqExpectedStatuses := [lStatus t], rqAllowNonContract := True, rqAllowTerminal := True\<rparr>"

text \<open>The second half of \<^verbatim>\<open>queuePlanTx\<close>: the plan runs, its task and the job are queued.\<close>

definition queueNext ::
  "snapshot_env \<Rightarrow> time \<Rightarrow> uuid \<Rightarrow> uuid \<Rightarrow> uuid \<Rightarrow> gostring \<times> bool \<Rightarrow> bool \<Rightarrow> gostring list \<Rightarrow> execution_state \<Rightarrow>
   plan_task \<Rightarrow> db \<Rightarrow> error + db \<times> job"
where
  "queueNext e now jobID snapID auditID provider automatic allowed s t d =
     bindR (planConfigSnapshotWithProvider (esConfig s) (fst provider)) (\<lambda>config.
     bindR (transitionPlan now (runPlanRequest (esPlan s) (esVersion s) automatic allowed (lId t) jobID) d) (\<lambda>(d1, pr).
     bindR (transitionTask now (queueTaskRequest t (lSource (lrState pr)) ''earliest dependency-ready task queued'' jobID) d1) (\<lambda>(d2, tr).
     bindR (acceptProvider e snapID auditID s config (setPlanConfig (esPlan s) config d2)) (\<lambda>d3.
     bindR (projectMaxAttempts (esProject s) d3) (\<lambda>attempts.
       let (d4, j) = insertJob now (taskJob jobID (esProject s) (lId t) (esPlan s) (fst provider) (snd provider) attempts now
             (lVersion (lrState tr))) d3
       in Inr (emit now (esProject s) ''plan.running'' ''plan'' (esPlan s) (lVersion (lrState pr))
                [(''jobId'', JStr (lId j)), (''taskId'', JStr (lId t))] d4, j))))))"

definition queuePlanTx ::
  "snapshot_env \<Rightarrow> unicode \<Rightarrow> time \<Rightarrow> uuid \<Rightarrow> uuid \<Rightarrow> uuid \<Rightarrow> gostring option \<Rightarrow> uuid \<Rightarrow> int \<Rightarrow> bool \<Rightarrow> db \<Rightarrow> error + db \<times> job"
where
  "queuePlanTx e u now jobID snapID auditID selection planID version automatic d =
     bindR (loadPlanExecutionStateTx now planID d) (\<lambda>(d0, s).
       let allowed = (if automatic then [''ready''] else [''ready'', ''blocked'']) in
       if esVersion s \<noteq> version then Inl ErrVersionConflict
       else if \<not> lifecycleContains allowed (esStatus s) then Inl (refuseStatus u s automatic)
       else (case nextPlanTask u s automatic None of
           Blocked bs \<Rightarrow> Inl (ErrPlanExecutionBlocked planID None bs)
         | Complete \<Rightarrow> Inl (ErrPlanExecutionBlocked planID None [noRunnable ''plan has no unfinished runnable task''])
         | Next t \<Rightarrow>
             if \<not> lifecycleContains retryable (lStatus t) then Inl ErrInvalidTransition
             else bindR (requirePlanExecutionBaseline planID d0) (\<lambda>_.
               queueNext e now jobID snapID auditID (if automatic then ([], False) else executionProviderFromContext selection)
                 automatic allowed s t d0)))"

definition QueuePlan ::
  "snapshot_env \<Rightarrow> unicode \<Rightarrow> time \<Rightarrow> uuid \<Rightarrow> uuid \<Rightarrow> uuid \<Rightarrow> gostring option \<Rightarrow> uuid \<Rightarrow> int \<Rightarrow> db \<Rightarrow> error + db \<times> job" where
  "QueuePlan e u now jobID snapID auditID selection planID version d =
     queuePlanTx e u now jobID snapID auditID selection planID version False d"

text \<open>No job when the project is not automated or the plan is not waiting.\<close>

definition QueuePlanAutomatically ::
  "snapshot_env \<Rightarrow> unicode \<Rightarrow> time \<Rightarrow> uuid \<Rightarrow> uuid \<Rightarrow> uuid \<Rightarrow> gostring option \<Rightarrow> uuid \<Rightarrow> db \<Rightarrow> error + db \<times> job option" where
  "QueuePlanAutomatically e u now jobID snapID auditID selection planID d =
     (case findRow planID (dbPlans d) of
        None \<Rightarrow> Inr (d, None)
      | Some p \<Rightarrow>
          if \<not> list_ex (\<lambda>pr. pjId pr = lProject p \<and> pjAutomation pr) (dbProjects d) then Inr (d, None)
          else if lStatus p \<noteq> ''ready'' \<and> lStatus p \<noteq> ''blocked'' then Inr (d, None)
          else bindR (queuePlanTx e u now jobID snapID auditID selection planID (lVersion p) True d) (\<lambda>(d', j). Inr (d', Some j)))"

definition earlierTask :: "plan_task \<Rightarrow> plan_task \<Rightarrow> execution_blocker" where
  "earlierTask first t = taskSchedulingBlocker ''earlier_task'' first
     (''task '' @ ptKey first @ '' is the earliest unfinished task and must run before task '' @ ptKey t)"

definition resumePlanRequest :: "execution_state \<Rightarrow> uuid \<Rightarrow> uuid \<Rightarrow> plan lifecycle_request" where
  "resumePlanRequest s taskID jobID =
     (planRequest (esPlan s) ''running'' ''user'' ''resume_requested'' ''plan resumed for explicit task retry'' ''none''
        (mustObject [(''taskId'', JStr taskID)]))
       \<lparr>lpRelatedJob := Some jobID, rqExpectedStatuses := [esStatus s], rqAllowNonContract := True, rqAllowTerminal := True,
        rqFields := [setExecutionStarted]\<rparr>"

text \<open>The plan is resumed unless it runs; the version of the new plan row when it changed.\<close>

definition resumePlan :: "time \<Rightarrow> execution_state \<Rightarrow> uuid \<Rightarrow> uuid \<Rightarrow> db \<Rightarrow> error + db \<times> int option" where
  "resumePlan now s taskID jobID d =
     (if esStatus s = ''running'' then Inr (d, None)
      else bindR (transitionPlan now (resumePlanRequest s taskID jobID) d) (\<lambda>(d', pr).
        Inr (d', if lrIdempotent pr then None else Some (lVersion (lrState pr)))))"

definition queueGiven ::
  "time \<Rightarrow> uuid \<Rightarrow> gostring \<times> bool \<Rightarrow> int \<Rightarrow> execution_state \<Rightarrow> plan_task \<Rightarrow> db \<Rightarrow> error + db \<times> job" where
  "queueGiven now jobID provider version s t d =
     bindR (transitionTask now ((queueTaskRequest t ''user'' ''earliest dependency-ready task explicitly queued'' jobID)
               \<lparr>lpExpectedVersion := version\<rparr>) d) (\<lambda>(d1, tr).
     bindR (resumePlan now s (lId t) jobID d1) (\<lambda>(d2, changed).
     bindR (projectMaxAttempts (esProject s) d2) (\<lambda>attempts.
       let (d3, j) = insertJob now (taskJob jobID (esProject s) (lId t) (esPlan s) (fst provider) (snd provider) attempts now
             (lVersion (lrState tr))) d2;
           d4 = emit now (esProject s) ''task.queued'' ''task'' (lId t) (lVersion (lrState tr)) [(''jobId'', JStr (lId j))] d3
       in Inr (case changed of None \<Rightarrow> d4
          | Some v \<Rightarrow> emit now (esProject s) ''plan.running'' ''plan'' (esPlan s) v [(''jobId'', JStr (lId j)), (''taskId'', JStr (lId t))] d4, j))))"

definition stateTask :: "uuid \<Rightarrow> execution_state \<Rightarrow> plan_task option" where
  "stateTask taskID s = find (\<lambda>t. lId t = taskID) (esTasks s)"

definition QueueTask :: "unicode \<Rightarrow> time \<Rightarrow> uuid \<Rightarrow> gostring option \<Rightarrow> uuid \<Rightarrow> int \<Rightarrow> db \<Rightarrow> error + db \<times> job" where
  "QueueTask u now jobID selection taskID version d =
     (case findRow taskID (dbTasks d) of
        None \<Rightarrow> Inl ErrNotFound
      | Some row \<Rightarrow>
          bindR (loadPlanExecutionStateTx now (ptPlan row) d) (\<lambda>(d0, s).
            case stateTask taskID s of
              None \<Rightarrow> Inl ErrNotFound
            | Some t \<Rightarrow>
                if lVersion t \<noteq> version then Inl ErrVersionConflict
                else if \<not> lifecycleContains [''running'', ''ready'', ''blocked'', ''interrupted''] (esStatus s) then Inl ErrInvalidTransition
                else (case nextPlanTask u s False None of
                    Blocked bs \<Rightarrow> Inl (ErrPlanExecutionBlocked (esPlan s) (Some taskID) bs)
                  | Complete \<Rightarrow> Inl (ErrPlanExecutionBlocked (esPlan s) (Some taskID) [noRunnable ''plan has no unfinished runnable task''])
                  | Next n \<Rightarrow>
                      if lId n \<noteq> taskID then Inl (ErrPlanExecutionBlocked (esPlan s) (Some taskID) [earlierTask n t])
                      else if \<not> lifecycleContains retryable (lStatus t) then Inl ErrInvalidTransition
                      else bindR (requirePlanExecutionBaseline (esPlan s) d0) (\<lambda>_.
                        queueGiven now jobID (executionProviderFromContext selection) version s t d0))))"

section \<open>Starting\<close>

definition maxTaskResultSummaryBytes :: int where
  "maxTaskResultSummaryBytes = 16 * 1024"

definition maxTaskResultSummaryLines :: int where
  "maxTaskResultSummaryLines = 200"

definition boundSummary :: "gostring \<Rightarrow> gostring \<times> bool" where
  "boundSummary s = boundCheckpointText s maxTaskResultSummaryBytes maxTaskResultSummaryLines"

text \<open>The newest job of a task in one of the statuses.\<close>

definition relatedJob :: "gostring list \<Rightarrow> uuid \<Rightarrow> db \<Rightarrow> uuid option" where
  "relatedJob statuses taskID d =
     map_option lId (newestBy jCreated
       (filter (\<lambda>j. jAggregateType j = ''task'' \<and> jAggregateID j = taskID \<and> lStatus j \<in> set statuses) (dbJobs d)))"

definition unqueueRequest :: "uuid \<Rightarrow> gostring \<Rightarrow> uuid option \<Rightarrow> plan_task lifecycle_request" where
  "unqueueRequest taskID reason jobID =
     (taskRequest taskID ''pending'' ''worker'' ''validation_failed'' reason ''manual_review'')
       \<lparr>lpRelatedJob := jobID, rqExpectedStatuses := [''queued''], rqFields := [setStarted False, setFinished False]\<rparr>"

text \<open>The plan is blocked from the status it was read in; a finished plan is left alone.\<close>

definition blockPlanRequest :: "execution_state \<Rightarrow> gostring \<Rightarrow> gostring \<Rightarrow> uuid \<Rightarrow> uuid option \<Rightarrow> execution_blocker list \<Rightarrow> plan lifecycle_request" where
  "blockPlanRequest s source reason taskID jobID blockers =
     (planRequest (esPlan s) ''blocked'' source ''validation_failed'' reason ''manual_review''
        (mustObject [(''taskId'', JStr taskID), (''blockers'', JArr (map blockerJson blockers))]))
       \<lparr>lpRelatedJob := jobID, rqExpectedStatuses := [esStatus s], rqAllowNonContract := True, rqIgnoreTerminal := True\<rparr>"

definition unqueueTask :: "time \<Rightarrow> plan_task \<Rightarrow> gostring \<Rightarrow> uuid option \<Rightarrow> db \<Rightarrow> error + db" where
  "unqueueTask now t reason jobID d =
     (if lStatus t = ''queued''
      then bindR (transitionTask now (unqueueRequest (lId t) reason jobID) d) (\<lambda>(d', r). Inr d')
      else Inr d)"

definition blockQueuedTaskForSchedulingTx ::
  "time \<Rightarrow> execution_state \<Rightarrow> plan_task \<Rightarrow> uuid option \<Rightarrow> execution_blocker list \<Rightarrow> db \<Rightarrow> error + db"
where
  "blockQueuedTaskForSchedulingTx now s t jobID blockers d =
     (let reason = fst (boundSummary (blockedText blockers)) in
      bindR (unqueueTask now t reason jobID d) (\<lambda>d1.
        if lifecycleContains [''ready'', ''running'', ''validating'', ''blocked''] (esStatus s)
        then bindR (transitionPlan now (blockPlanRequest s ''worker'' reason (lId t) jobID blockers) d1) (\<lambda>(d2, pr).
          Inr (if lrIdempotent pr then d2
               else emit now (esProject s) ''plan.blocked'' ''plan'' (esPlan s) (lVersion (lrState pr))
                 [(''taskId'', JStr (lId t)), (''message'', JStr reason), (''blockers'', JArr (map blockerJson blockers))] d2))
        else Inr d1))"

definition startBlockers :: "unicode \<Rightarrow> execution_state \<Rightarrow> plan_task \<Rightarrow> execution_blocker list" where
  "startBlockers u s t =
     (let nxt = nextPlanTask u s False (Some (lId t));
          bs = (case nxt of Blocked bs \<Rightarrow> bs | _ \<Rightarrow> []) @
            (if esStatus s \<noteq> ''running'' then [taskSchedulingBlocker ''plan_not_running'' t
               (''plan is '' @ esStatus s @ '' while task '' @ ptKey t @ '' is queued'')] else [])
      in if bs \<noteq> [] then bs
         else (case nxt of
             Next n \<Rightarrow> if lId n \<noteq> lId t then [earlierTask n t] else []
           | _ \<Rightarrow> [noRunnable ''plan has no unfinished runnable task'']))"

definition startTaskRequest :: "uuid \<Rightarrow> uuid option \<Rightarrow> plan_task lifecycle_request" where
  "startTaskRequest taskID jobID =
     (taskRequest taskID ''running'' ''worker'' ''worker_started'' ''worker started task execution after dependency gate recheck''
        ''retry_from_start'')
       \<lparr>lpRelatedJob := jobID, rqExpectedStatuses := [''queued''], rqMismatch := Some ErrNotFound, rqFields := [setStarted True]\<rparr>"

definition validatingRequest :: "plan_task \<Rightarrow> uuid option \<Rightarrow> plan lifecycle_request" where
  "validatingRequest t jobID =
     (planRequest (ptPlan t) ''validating'' ''worker'' ''validation_started'' ''final validation task started'' ''retry_from_start''
        (mustObject [(''taskId'', JStr (lId t))]))
       \<lparr>lpRelatedJob := jobID, rqExpectedStatuses := [''running'']\<rparr>"

definition startNow :: "time \<Rightarrow> uuid \<Rightarrow> uuid option \<Rightarrow> db \<Rightarrow> error + db \<times> plan_task" where
  "startNow now taskID jobID d =
     bindR (transitionTask now (startTaskRequest taskID jobID) d) (\<lambda>(d1, tr).
       case findRow taskID (dbTasks d1) of
         None \<Rightarrow> Inl ErrNoRows
       | Some t \<Rightarrow>
           if ptType t = ''final_validation''
           then bindR (transitionPlan now (validatingRequest t jobID) d1) (\<lambda>(d2, pr).
             Inr (emit now (lProject t) ''plan.validating'' ''plan'' (ptPlan t) (lVersion (lrState pr)) [] d2, t))
           else Inr (d1, t))"

text \<open>\<open>Inl\<close> is a rolled back transaction, \<open>Inr\<close> a committed one with its error or task.\<close>

definition StartTask :: "unicode \<Rightarrow> time \<Rightarrow> uuid \<Rightarrow> db \<Rightarrow> error + db \<times> (error + plan_task)" where
  "StartTask u now taskID d =
     (case findRow taskID (dbTasks d) of
        None \<Rightarrow> Inl ErrNotFound
      | Some row \<Rightarrow>
          bindR (loadPlanExecutionStateTx now (ptPlan row) d) (\<lambda>(d0, s).
            case stateTask taskID s of
              None \<Rightarrow> Inl ErrNotFound
            | Some t \<Rightarrow>
                let jobID = relatedJob [''leased'', ''running''] taskID d0; blockers = startBlockers u s t in
                if blockers \<noteq> []
                then bindR (blockQueuedTaskForSchedulingTx now s t jobID blockers d0) (\<lambda>d1.
                  Inr (d1, Inl (ErrPlanExecutionBlocked (esPlan s) (Some taskID) blockers)))
                else if lStatus t \<noteq> ''queued'' then Inl ErrNotFound
                else bindR (requirePlanExecutionBaseline (esPlan s) d0) (\<lambda>_.
                  bindR (startNow now taskID jobID d0) (\<lambda>(d1, t'). Inr (d1, Inr t')))))"

section \<open>Finishing\<close>

definition finishRequest :: "plan_task \<Rightarrow> gostring \<Rightarrow> bool \<Rightarrow> gostring \<Rightarrow> uuid option \<Rightarrow> plan_task lifecycle_request" where
  "finishRequest t sessionID success summary jobID =
     (taskRequest (lId t) (if success then ''succeeded'' else ''failed'') ''worker''
        (if success then ''completed'' else ''execution_failed'') summary (if success then ''none'' else ''manual_review''))
       \<lparr>lpRelatedJob := jobID, rqExpectedStatuses := [''running''], rqIgnoreTerminal := True,
        rqFields := [setTaskSession sessionID, setFinished True,
          setAcceptanceStatus (if success then ''passed'' else ''failed''),
          setAcceptanceResult (buildAcceptanceResult (ptAcceptanceDefinition t) (if success then ''passed'' else ''failed'') summary)]\<rparr>"

definition settlePlanRequest :: "plan_task \<Rightarrow> gostring \<Rightarrow> gostring \<Rightarrow> gostring \<Rightarrow> gostring \<Rightarrow> gostring \<Rightarrow> uuid option \<Rightarrow> plan lifecycle_request" where
  "settlePlanRequest t status source code reason hint jobID =
     (planRequest (ptPlan t) status source code reason hint (mustObject [(''taskId'', JStr (lId t))]))
       \<lparr>lpRelatedJob := jobID, rqExpectedStatuses := [''running'', ''validating''], rqIgnoreTerminal := True\<rparr>"

definition isFinalValidation :: "plan_task \<Rightarrow> bool" where
  "isFinalValidation t \<longleftrightarrow> ptType t = ''final_validation''"

definition blockFailedPlan :: "time \<Rightarrow> plan_task \<Rightarrow> gostring \<times> bool \<Rightarrow> uuid option \<Rightarrow> db \<Rightarrow> error + db" where
  "blockFailedPlan now t summary jobID d =
     bindR (transitionPlan now (settlePlanRequest t ''blocked'' ''worker'' ''execution_failed'' (fst summary) ''manual_review'' jobID) d)
       (\<lambda>(d1, pr). Inr (if lrIdempotent pr then d1
          else emit now (lProject t) ''plan.blocked'' ''plan'' (ptPlan t) (lVersion (lrState pr))
            [(''taskId'', JStr (lId t)), (''message'', JStr (fst summary)), (''summaryTruncated'', JBool (snd summary)),
             (''finalValidation'', JBool (isFinalValidation t))] d1))"

definition cancelStoppedPlan :: "time \<Rightarrow> plan_task \<Rightarrow> uuid option \<Rightarrow> db \<Rightarrow> error + db" where
  "cancelStoppedPlan now t jobID d =
     bindR (transitionPlan now ((settlePlanRequest t ''cancelled'' ''automation'' ''automation_disabled'' ''project automation stopped'' ''none'' jobID)
              \<lparr>rqAllowNonContract := True\<rparr>) d)
       (\<lambda>(d1, pr). Inr (if lrIdempotent pr then d1
          else emit now (lProject t) ''plan.cancelled'' ''plan'' (ptPlan t) (lVersion (lrState pr))
            [(''reason'', JStr ''project automation stopped'')] d1))"

definition blockPlanAfterSchedulingGateTx ::
  "time \<Rightarrow> execution_state \<Rightarrow> uuid \<Rightarrow> uuid option \<Rightarrow> execution_blocker list \<Rightarrow> db \<Rightarrow> error + db"
where
  "blockPlanAfterSchedulingGateTx now s taskID jobID blockers d =
     (let (reason, truncated) = boundSummary (blockedText blockers) in
      bindR (transitionPlan now (blockPlanRequest s ''automation'' reason taskID jobID blockers) d) (\<lambda>(d1, pr).
        Inr (if lrIdempotent pr then d1
             else emit now (esProject s) ''plan.blocked'' ''plan'' (esPlan s) (lVersion (lrState pr))
               [(''taskId'', JStr taskID), (''message'', JStr reason), (''summaryTruncated'', JBool truncated),
                (''blockers'', JArr (map blockerJson blockers))] d1)))"

definition closeIntake :: "time \<Rightarrow> plan_task \<Rightarrow> uuid \<Rightarrow> db \<Rightarrow> db" where
  "closeIntake now t intakeID d =
     (let r = updateIntakeStatus now intakeID ''planned'' ''closed'' d in
      case snd r of
        None \<Rightarrow> fst r
      | Some (proj, version) \<Rightarrow> emit now (lProject t) ''intake.closed'' ''intake'' intakeID version [(''planId'', JStr (ptPlan t))] (fst r))"

definition completePlan :: "time \<Rightarrow> plan_task \<Rightarrow> uuid \<Rightarrow> uuid option \<Rightarrow> db \<Rightarrow> error + db" where
  "completePlan now t intakeID jobID d =
     bindR (transitionPlan now (settlePlanRequest t ''completed'' ''worker'' ''completed''
              ''all plan tasks and acceptance gates completed successfully'' ''none'' jobID) d)
       (\<lambda>(d1, pr). Inr (if lrIdempotent pr then d1
          else closeIntake now t intakeID
            (emit now (lProject t) ''plan.completed'' ''plan'' (ptPlan t) (lVersion (lrState pr)) [] d1)))"

definition continueRequest :: "uuid \<Rightarrow> uuid \<Rightarrow> plan_task lifecycle_request" where
  "continueRequest taskID jobID =
     (taskRequest taskID ''queued'' ''automation'' ''resume_requested'' ''earliest dependency-ready task queued'' ''none'')
       \<lparr>lpRelatedJob := Some jobID, rqExpectedStatuses := [''pending'']\<rparr>"

definition queueFollowing :: "time \<Rightarrow> uuid \<Rightarrow> gostring \<Rightarrow> plan_task \<Rightarrow> plan_task \<Rightarrow> db \<Rightarrow> error + db" where
  "queueFollowing now nextJobID provider t n d =
     (if lStatus n \<noteq> ''pending'' then Inl (ErrText ''automatic scheduler selected a non-pending task without a blocker'')
      else bindR (transitionTask now (continueRequest (lId n) nextJobID) d) (\<lambda>(d1, tr).
        bindR (projectMaxAttempts (lProject t) d1) (\<lambda>attempts.
          let (d2, j) = insertJob now (taskJob nextJobID (lProject t) (lId n) (ptPlan t) provider False attempts now (lVersion (lrState tr))) d1
          in Inr (emit now (lProject t) ''task.queued'' ''task'' (lId n) (lVersion (lrState tr)) [(''jobId'', JStr (lId j))] d2))))"

text \<open>What follows a success, on the state after it.\<close>

definition advancePlan :: "unicode \<Rightarrow> time \<Rightarrow> uuid \<Rightarrow> plan_task \<Rightarrow> uuid option \<Rightarrow> uuid \<Rightarrow> execution_state \<Rightarrow> db \<Rightarrow> error + db" where
  "advancePlan u now nextJobID t jobID intakeID s d =
     bindR (providerFromPlanConfigSnapshot (esConfig s)) (\<lambda>provider.
       case nextPlanTask u s True None of
         Blocked bs \<Rightarrow> blockPlanAfterSchedulingGateTx now s (lId t) jobID bs d
       | Complete \<Rightarrow> completePlan now t intakeID jobID d
       | Next n \<Rightarrow> queueFollowing now nextJobID provider t n d)"

definition settlePlan :: "unicode \<Rightarrow> time \<Rightarrow> uuid \<Rightarrow> plan_task \<Rightarrow> uuid option \<Rightarrow> db \<Rightarrow> error + db" where
  "settlePlan u now nextJobID t jobID d =
     bindR (loadPlanExecutionStateTx now (ptPlan t) d) (\<lambda>(d1, s).
       if esStatus s = ''cancelled'' \<or> esStatus s = ''completed'' then Inr d1
       else (case findRow (ptPlan t) (dbPlans d1) of None \<Rightarrow> Inl ErrNoRows | Some p \<Rightarrow>
         (case findProject (lProject p) d1 of None \<Rightarrow> Inl ErrNoRows | Some pr \<Rightarrow>
           if \<not> pjAutomation pr then cancelStoppedPlan now t jobID d1
           else advancePlan u now nextJobID t jobID (plIntake p) s d1)))"

definition captureFinish ::
  "snapshot_env \<Rightarrow> uuid \<Rightarrow> plan_task \<Rightarrow> workspace_state option \<Rightarrow> bool \<Rightarrow> db \<Rightarrow> error + db" where
  "captureFinish e snapID t wk captureCheckpoint d =
     (if captureCheckpoint
      then bindR (captureWithoutChanges e snapID (ptPlan t) ''task_checkpoint'' (Some (lId t)) [] wk d) (\<lambda>(d', row). Inr d')
      else Inr d)"

definition finishRunning ::
  "snapshot_env \<Rightarrow> unicode \<Rightarrow> time \<Rightarrow> uuid \<Rightarrow> uuid \<Rightarrow> plan_task \<Rightarrow> gostring \<Rightarrow> bool \<Rightarrow> gostring \<times> bool \<Rightarrow>
   workspace_state option \<Rightarrow> bool \<Rightarrow> db \<Rightarrow> db \<Rightarrow> error + db"
where
  "finishRunning e u now nextJobID snapID t sessionID success summary wk captureCheckpoint old d =
     (let jobID = relatedJob [''leased'', ''running'', ''retry_wait''] (lId t) d in
      bindR (transitionTask now (finishRequest t sessionID success (fst summary) jobID) d) (\<lambda>(d1, tr).
        if lrIdempotent tr then Inr old
        else let d2 = emit now (lProject t) (if success then ''task.succeeded'' else ''task.failed'') ''task'' (lId t) (lVersion (lrState tr))
               [(''message'', JStr (fst summary)), (''summaryTruncated'', JBool (snd summary)), (''success'', JBool success),
                (''finalValidation'', JBool (isFinalValidation t)),
                (''acceptanceStatus'', JStr (if success then ''passed'' else ''failed''))] d1
          in if \<not> success then blockFailedPlan now t summary jobID d2
             else bindR (captureFinish e snapID t wk captureCheckpoint d2) (\<lambda>d3. settlePlan u now nextJobID t jobID d3)))"

definition finishTask ::
  "snapshot_env \<Rightarrow> unicode \<Rightarrow> time \<Rightarrow> uuid \<Rightarrow> uuid \<Rightarrow> uuid \<Rightarrow> uuid \<Rightarrow> gostring \<Rightarrow> bool \<Rightarrow> gostring \<Rightarrow>
   workspace_state option \<Rightarrow> bool \<Rightarrow> db \<Rightarrow> error + db"
where
  "finishTask e u now nextJobID snapID planID taskID sessionID success message wk captureCheckpoint d =
     (let summary = boundSummary (toValidUTF8 message) in
      bindR (loadPlanExecutionStateTx now planID d) (\<lambda>(d0, s).
        case stateTask taskID s of
          None \<Rightarrow> Inl ErrNotFound
        | Some t \<Rightarrow>
            if lStatus t \<noteq> ''running''
            then if IsTerminalStatus ResTask (lStatus t) \<or> lStatus t = ''pending'' then Inr d else Inl ErrInvalidTransition
            else finishRunning e u now nextJobID snapID t sessionID success summary wk captureCheckpoint d d0))"

text \<open>The caller hands over its copy of the task, of which the plan and the id are used.\<close>

definition FinishTask ::
  "snapshot_env \<Rightarrow> unicode \<Rightarrow> time \<Rightarrow> uuid \<Rightarrow> uuid \<Rightarrow> plan_task \<Rightarrow> gostring \<Rightarrow> bool \<Rightarrow> gostring \<Rightarrow> db \<Rightarrow> error + db"
where
  "FinishTask e u now nextJobID snapID t sessionID success message d =
     finishTask e u now nextJobID snapID (ptPlan t) (lId t) sessionID success message None True d"

definition FinishTaskWithCheckpoint ::
  "snapshot_env \<Rightarrow> unicode \<Rightarrow> time \<Rightarrow> uuid \<Rightarrow> uuid \<Rightarrow> plan_task \<Rightarrow> gostring \<Rightarrow> bool \<Rightarrow> gostring \<Rightarrow> workspace_state option \<Rightarrow> db \<Rightarrow> error + db"
where
  "FinishTaskWithCheckpoint e u now nextJobID snapID t sessionID success message wk d =
     finishTask e u now nextJobID snapID (ptPlan t) (lId t) sessionID success message wk True d"


end
