(* ===== verification/Cancellation.thy ===== *)
theory Cancellation
  imports Execution
begin

text \<open>
  Stopping work, from \<^verbatim>\<open>repository/cancellation.go\<close> and \<^verbatim>\<open>repository/shutdown.go\<close>:
  a cancelled job, a task that returns to the plan, a task or plan stopped by the user, a plan deleted,
  a task stopped for drift, and the work of a backend instance that shuts down.
\<close>

section \<open>Jobs and tasks\<close>

definition cancelJobRequest :: "uuid \<Rightarrow> gostring \<Rightarrow> job lifecycle_request" where
  "cancelJobRequest i workerID =
     (jobRequest i ''cancelled'' ''worker'' ''user_cancelled'' ''worker acknowledged job cancellation'' ''none''
        (mustObject [(''workerId'', JStr workerID)]))
       \<lparr>rqExpectedStatuses := [''leased'', ''running''], rqRequireWorker := Some workerID, rqAllowNonContract := True,
        rqIgnoreTerminal := True, rqMismatch := Some ErrNotFound, rqFields := [setLeaseNone]\<rparr>"

definition CancelJob :: "time \<Rightarrow> uuid \<Rightarrow> gostring \<Rightarrow> db \<Rightarrow> error + db" where
  "CancelJob now i workerID d =
     bindR (transitionJob now (cancelJobRequest i workerID) d) (\<lambda>(d', r). Inr (if lrIdempotent r then d else d'))"

text \<open>The newest job of a task, in any status.\<close>

definition currentTaskJobID :: "uuid \<Rightarrow> db \<Rightarrow> uuid option" where
  "currentTaskJobID taskID d =
     map_option lId (newestBy jCreated (filter (\<lambda>j. jAggregateType j = ''task'' \<and> jAggregateID j = taskID) (dbJobs d)))"

definition returnPendingRequest :: "uuid \<Rightarrow> gostring \<Rightarrow> uuid option \<Rightarrow> plan_task lifecycle_request" where
  "returnPendingRequest taskID message jobID =
     (taskRequest taskID ''pending'' ''worker'' ''user_cancelled'' message ''retry_from_start'')
       \<lparr>lpRelatedJob := jobID, rqExpectedStatuses := [''running''], rqAllowNonContract := True, rqIgnoreTerminal := True,
        rqFields := [setStarted False, setFinished False]\<rparr>"

text \<open>A task that is no longer running is left as it is. The caller's copy gives id and project.\<close>

definition ReturnTaskPending :: "time \<Rightarrow> plan_task \<Rightarrow> gostring \<Rightarrow> db \<Rightarrow> error + db" where
  "ReturnTaskPending now t message d =
     (case transitionTask now (returnPendingRequest (lId t) message (currentTaskJobID (lId t) d)) d of
        Inl e \<Rightarrow> if isInvalidTransition e then Inr d else Inl e
      | Inr (d', r) \<Rightarrow>
          Inr (if lrIdempotent r then d
               else emit now (lProject t) ''task.cancelled'' ''task'' (lId t) (lVersion (lrState r)) [(''message'', JStr message)] d'))"

definition keepTaskSession :: "gostring \<Rightarrow> plan_task field_update" where
  "keepTaskSession s = \<lparr>fuColumn = ''session_id'', fuApply = (\<lambda>now old r. r\<lparr>ptSession := if s = [] then ptSession old else Some s\<rparr>)\<rparr>"

definition returnQueuedRequest :: "uuid \<Rightarrow> gostring \<Rightarrow> gostring \<Rightarrow> uuid option \<Rightarrow> plan_task lifecycle_request" where
  "returnQueuedRequest taskID sessionID message jobID =
     (taskRequest taskID ''queued'' ''worker'' ''automatic_retry'' message ''automatic_retry'')
       \<lparr>lpRelatedJob := jobID, rqExpectedStatuses := [''running''], rqAllowNonContract := True, rqIgnoreTerminal := True,
        rqFields := [keepTaskSession sessionID, setStarted False, setFinished False]\<rparr>"

definition ReturnTaskQueuedForRetry :: "time \<Rightarrow> plan_task \<Rightarrow> gostring \<Rightarrow> gostring \<Rightarrow> db \<Rightarrow> error + db" where
  "ReturnTaskQueuedForRetry now t sessionID message d =
     bindR (transitionTask now (returnQueuedRequest (lId t) sessionID message (currentTaskJobID (lId t) d)) d) (\<lambda>(d', r).
       Inr (if lrIdempotent r then d
            else emit now (lProject t) ''task.retry_wait'' ''task'' (lId t) (lVersion (lrState r)) [(''message'', JStr message)] d'))"

section \<open>Stopped by the user\<close>

definition stopJobRequest :: "gostring \<Rightarrow> uuid \<Rightarrow> job lifecycle_request" where
  "stopJobRequest reason i =
     (jobRequest i ''cancelled'' ''user'' ''user_cancelled'' reason ''none'' RawEmpty)
       \<lparr>rqExpectedStatuses := [''queued'', ''retry_wait'', ''leased''], rqAllowNonContract := True, rqIgnoreTerminal := True,
        rqFields := [setLeaseNone]\<rparr>"

definition stopJob :: "time \<Rightarrow> gostring \<Rightarrow> uuid \<Rightarrow> db \<Rightarrow> error + db" where
  "stopJob now reason i d = bindR (transitionJob now (stopJobRequest reason i) d) (\<lambda>(d', r). Inr d')"

definition stopTaskRequest :: "gostring \<Rightarrow> uuid \<Rightarrow> uuid option \<Rightarrow> plan_task lifecycle_request" where
  "stopTaskRequest reason taskID jobID =
     (taskRequest taskID ''pending'' ''user'' ''user_cancelled'' reason ''retry_from_start'')
       \<lparr>lpRelatedJob := jobID, rqExpectedStatuses := [''queued''], rqFields := [setStarted False, setFinished False]\<rparr>"

definition taskJobs :: "gostring list \<Rightarrow> uuid \<Rightarrow> db \<Rightarrow> uuid list" where
  "taskJobs statuses taskID d =
     map lId (filter (\<lambda>j. jAggregateType j = ''task'' \<and> jAggregateID j = taskID \<and> lStatus j \<in> set statuses) (dbJobs d))"

definition stopQueuedTask :: "time \<Rightarrow> plan_task \<Rightarrow> int \<Rightarrow> db \<Rightarrow> error + db \<times> plan_task" where
  "stopQueuedTask now t version d =
     (let jobIDs = taskJobs [''queued'', ''retry_wait'', ''leased''] (lId t) d in
      bindR (foldR (stopJob now ''task stopped by user'') jobIDs d) (\<lambda>d1.
      bindR (transitionTask now ((stopTaskRequest ''task stopped by user'' (lId t) (case jobIDs of [] \<Rightarrow> None | j # _ \<Rightarrow> Some j))
               \<lparr>lpExpectedVersion := version\<rparr>) d1) (\<lambda>(d2, r).
        let d3 = emit now (lProject t) ''task.cancelled'' ''task'' (lId t) (lVersion (lrState r)) [(''reason'', JStr ''stopped by user'')] d2 in
        case findRow (lId t) (dbTasks d3) of None \<Rightarrow> Inl ErrNoRows | Some t' \<Rightarrow> Inr (d3, t'))))"

text \<open>The jobs returned are those whose process the caller has to signal.\<close>

definition StopTask :: "time \<Rightarrow> uuid \<Rightarrow> int \<Rightarrow> db \<Rightarrow> error + db \<times> plan_task \<times> uuid list" where
  "StopTask now taskID version d =
     (case findRow taskID (dbTasks d) of
        None \<Rightarrow> Inl ErrNotFound
      | Some t \<Rightarrow>
          if lVersion t \<noteq> version then Inl ErrVersionConflict
          else if lStatus t \<noteq> ''queued'' \<and> lStatus t \<noteq> ''running'' then Inl ErrInvalidTransition
          else (let active = taskJobs [''leased'', ''running''] taskID d in
            if lStatus t = ''queued''
            then bindR (stopQueuedTask now t version d) (\<lambda>(d', t'). Inr (d', t', active))
            else Inr (d, t, active)))"

definition stopPlanRequest :: "uuid \<Rightarrow> int \<Rightarrow> plan lifecycle_request" where
  "stopPlanRequest planID version =
     (planRequest planID ''cancelled'' ''user'' ''user_cancelled'' ''plan stopped by user'' ''none'' RawEmpty)
       \<lparr>lpExpectedVersion := version, rqExpectedStatuses := [''ready'', ''running'', ''validating'', ''blocked''],
        rqAllowNonContract := True, rqIgnoreTerminal := True\<rparr>"

definition planJobs :: "gostring list \<Rightarrow> uuid \<Rightarrow> db \<Rightarrow> uuid list" where
  "planJobs statuses planID d =
     map lId (filter (\<lambda>j. jAggregateType j = ''task'' \<and> list_ex (\<lambda>t. lId t = jAggregateID j \<and> ptPlan t = planID) (dbTasks d) \<and>
       lStatus j \<in> set statuses) (dbJobs d))"

definition stopPlanTask :: "time \<Rightarrow> uuid \<Rightarrow> uuid \<Rightarrow> db \<Rightarrow> error + db" where
  "stopPlanTask now projectID taskID d =
     bindR (transitionTask now (stopTaskRequest ''plan stopped by user'' taskID (currentTaskJobID taskID d)) d) (\<lambda>(d', r).
       Inr (emit now projectID ''task.cancelled'' ''task'' taskID (lVersion (lrState r)) [(''reason'', JStr ''plan stopped by user'')] d'))"

definition queuedTasks :: "uuid \<Rightarrow> db \<Rightarrow> uuid list" where
  "queuedTasks planID d = map lId (filter (\<lambda>t. ptPlan t = planID \<and> lStatus t = ''queued'') (dbTasks d))"

text \<open>Running jobs stay: their ids are returned, and the worker returns their tasks.\<close>

definition StopPlan :: "time \<Rightarrow> uuid \<Rightarrow> int \<Rightarrow> db \<Rightarrow> error + db \<times> plan \<times> uuid list" where
  "StopPlan now planID version d =
     bindR (transitionPlan now (stopPlanRequest planID version) d) (\<lambda>(d1, r).
       case findRow planID (dbPlans d1) of
         None \<Rightarrow> Inl ErrNoRows
       | Some p \<Rightarrow>
           bindR (foldR (stopJob now ''plan stopped by user'') (planJobs [''queued'', ''retry_wait'', ''leased''] planID d1) d1) (\<lambda>d2.
           bindR (foldR (stopPlanTask now (lProject p)) (queuedTasks planID d2) d2) (\<lambda>d3.
             Inr (if lrIdempotent r then d3
                  else emit now (lProject p) ''plan.cancelled'' ''plan'' (lId p) (lVersion p) [(''reason'', JStr ''stopped by user'')] d3,
                  p, planJobs [''running''] planID d1))))"

section \<open>Deleting a plan\<close>

text \<open>\<^verbatim>\<open>DELETE\<close> with the cascades of the schema: a job takes its lease and its runs along, a plan its
  tasks, snapshots and audits; the links of the remaining runs are cleared.\<close>

definition deleteTaskJobs :: "uuid \<Rightarrow> db \<Rightarrow> db" where
  "deleteTaskJobs planID d =
     (let gone = (\<lambda>j. jAggregateType j = ''task'' \<and> list_ex (\<lambda>t. lId t = jAggregateID j \<and> ptPlan t = planID) (dbTasks d));
          ids = map lId (filter gone (dbJobs d))
      in d\<lparr>dbJobs := filter (\<lambda>j. \<not> gone j) (dbJobs d),
           dbLeases := filter (\<lambda>l. wlJob l \<notin> set ids) (dbLeases d),
           dbRuns := filter (\<lambda>r. case arJob r of None \<Rightarrow> True | Some i \<Rightarrow> i \<notin> set ids) (dbRuns d)\<rparr>)"

definition deletePlanRow :: "uuid \<Rightarrow> db \<Rightarrow> db" where
  "deletePlanRow planID d =
     (let ids = map lId (filter (\<lambda>t. ptPlan t = planID) (dbTasks d));
          clear = (\<lambda>r. r\<lparr>arPlan := (if arPlan r = Some planID then None else arPlan r),
             arTask := (case arTask r of None \<Rightarrow> None | Some i \<Rightarrow> if i \<in> set ids then None else Some i)\<rparr>)
      in d\<lparr>dbPlans := filter (\<lambda>p. lId p \<noteq> planID) (dbPlans d), dbTasks := filter (\<lambda>t. ptPlan t \<noteq> planID) (dbTasks d),
           dbSnapshots := filter (\<lambda>s. snPlan s \<noteq> planID) (dbSnapshots d), dbAudits := filter (\<lambda>a. daPlan a \<noteq> planID) (dbAudits d),
           dbRuns := map clear (dbRuns d)\<rparr>)"

definition DeletePlan :: "time \<Rightarrow> uuid \<Rightarrow> int \<Rightarrow> db \<Rightarrow> error + db" where
  "DeletePlan now planID version d =
     (case findRow planID (dbPlans d) of
        None \<Rightarrow> Inl ErrNotFound
      | Some p \<Rightarrow>
          if lVersion p \<noteq> version then Inl ErrVersionConflict
          else if lStatus p \<in> {''running'', ''validating'', ''generating''} then Inl ErrInvalidTransition
          else Inr (deletePlanRow planID
            (emit now (lProject p) ''plan.deleted'' ''plan'' planID (version + 1) [] (deleteTaskJobs planID d))))"

section \<open>Stopped for drift\<close>

definition driftMessage :: gostring where
  "driftMessage = ''execution context drift requires explicit disposition''"

definition driftJobRequest :: "uuid \<Rightarrow> gostring \<Rightarrow> json \<Rightarrow> job lifecycle_request" where
  "driftJobRequest i workerID report =
     (jobRequest i ''failed'' ''worker'' ''execution_failed'' driftMessage ''manual_review''
        (mustObject [(''report'', report), (''workerId'', JStr workerID)]))
       \<lparr>rqExpectedStatuses := [''leased'', ''running''], rqRequireWorker := Some workerID, rqAllowNonContract := True,
        rqIgnoreTerminal := True, rqMismatch := Some ErrNotFound, rqFields := [setLastError driftMessage, setLeaseNone]\<rparr>"

definition driftTaskRequest :: "uuid \<Rightarrow> json \<Rightarrow> uuid \<Rightarrow> plan_task lifecycle_request" where
  "driftTaskRequest taskID report jobID =
     (taskRequest taskID ''pending'' ''worker'' ''execution_failed'' driftMessage ''manual_review'')
       \<lparr>lpCheckpoint := mustObject [(''report'', report)], lpRelatedJob := Some jobID,
        rqExpectedStatuses := [''queued'', ''running'', ''failed''], rqAllowNonContract := True, rqAllowTerminal := True,
        rqFields := [setStarted False, setFinished False]\<rparr>"

definition driftPlanRequest :: "uuid \<Rightarrow> uuid \<Rightarrow> json \<Rightarrow> uuid \<Rightarrow> plan lifecycle_request" where
  "driftPlanRequest planID taskID report jobID =
     (planRequest planID ''blocked'' ''worker'' ''execution_failed'' driftMessage ''manual_review''
        (mustObject [(''taskId'', JStr taskID), (''report'', report)]))
       \<lparr>lpRelatedJob := Some jobID, rqExpectedStatuses := [''running'', ''validating''], rqIgnoreTerminal := True\<rparr>"

definition driftTask :: "time \<Rightarrow> job \<Rightarrow> json \<Rightarrow> uuid \<Rightarrow> db \<Rightarrow> error + db" where
  "driftTask now j report planID d =
     bindR (transitionTask now (driftTaskRequest (jAggregateID j) report (lId j)) d) (\<lambda>(d1, tr).
       let payload = [(''jobId'', JStr (lId j)), (''report'', report)];
           d2 = emit now (lProject (lrState tr)) ''task.drift_detected'' ''task'' (jAggregateID j) (lVersion (lrState tr)) payload d1
       in bindR (transitionPlan now (driftPlanRequest planID (jAggregateID j) report (lId j)) d2) (\<lambda>(d3, pr).
            Inr (emit now (lProject (lrState tr)) ''plan.drift_detected'' ''plan'' planID (lVersion (lrState pr)) payload d3)))"

definition BlockTaskJobForDrift :: "time \<Rightarrow> job \<Rightarrow> gostring \<Rightarrow> raw_json \<Rightarrow> db \<Rightarrow> error + db" where
  "BlockTaskJobForDrift now j workerID report d =
     (case report of
        RawValue v \<Rightarrow>
          bindR (transitionJob now (driftJobRequest (lId j) workerID v) d) (\<lambda>(d1, r).
            if jType j \<noteq> ''task.execute'' then Inr d1
            else (case findRow (jAggregateID j) (dbTasks d1) of
                    None \<Rightarrow> Inl ErrNotFound
                  | Some t \<Rightarrow> driftTask now j v (ptPlan t) d1))
      | _ \<Rightarrow> Inl (ErrText ''invalid drift report''))"

end
