(* ===== verification/Shutdown.thy ===== *)
theory Shutdown
  imports Cancellation
begin

text \<open>
  The backend instances of \<^verbatim>\<open>repository/runtime.go\<close>, their heartbeats and liveness, and what an
  instance does to the work it owns before it exits, from \<^verbatim>\<open>repository/shutdown.go\<close>.
  A \<^verbatim>\<open>time.Duration\<close> is here a number of nanoseconds, as in Go.
\<close>

section \<open>Runtime instances\<close>

definition nanos :: "time \<Rightarrow> int" where
  "nanos t = t * 1000"

definition defaultRuntimeHeartbeat :: int where
  "defaultRuntimeHeartbeat = 10 * 1000000000"

definition minimumRuntimeInstanceStaleAfter :: int where
  "minimumRuntimeInstanceStaleAfter = 30 * 1000000000"

record runtime_liveness =
  rlExists :: bool
  rlFresh :: bool
  rlHeartbeatAt :: "time option"
  rlInterval :: int
  rlStaleAfter :: int

definition noLiveness :: runtime_liveness where
  "noLiveness = \<lparr>rlExists = False, rlFresh = False, rlHeartbeatAt = None, rlInterval = 0, rlStaleAfter = 0\<rparr>"

definition runtimeHeartbeatMillis :: "int \<Rightarrow> int" where
  "runtimeHeartbeatMillis heartbeat =
     (let h = (if heartbeat \<le> 0 then defaultRuntimeHeartbeat else heartbeat); milliseconds = h div 1000000
      in if milliseconds > 0 then milliseconds else 1)"

definition findRuntime :: "gostring \<Rightarrow> db \<Rightarrow> runtime_instance option" where
  "findRuntime i d = find (\<lambda>r. rtId r = i) (dbRuntimes d)"

definition RegisterRuntimeInstance :: "time \<Rightarrow> gostring \<Rightarrow> int \<Rightarrow> db \<Rightarrow> error + db" where
  "RegisterRuntimeInstance now instanceID heartbeat d =
     (let i = trimSpace instanceID; ms = runtimeHeartbeatMillis heartbeat in
      if i = [] then Inl (ErrText ''runtime instance id is required'')
      else case findRuntime i d of
        None \<Rightarrow> Inr (d\<lparr>dbRuntimes := dbRuntimes d @ [\<lparr>rtId = i, rtHeartbeat = now, rtIntervalMS = ms, rtUpdated = now\<rparr>]\<rparr>)
      | Some _ \<Rightarrow> Inr (d\<lparr>dbRuntimes := map (\<lambda>r. if rtId r = i
            then r\<lparr>rtHeartbeat := now, rtIntervalMS := ms, rtUpdated := now\<rparr> else r) (dbRuntimes d)\<rparr>))"

definition HeartbeatRuntimeInstance :: "time \<Rightarrow> gostring \<Rightarrow> db \<Rightarrow> error + db" where
  "HeartbeatRuntimeInstance now instanceID d =
     (let i = trimSpace instanceID in
      if i = [] then Inl (ErrText ''runtime instance id is required'')
      else if findRuntime i d = None then RegisterRuntimeInstance now i defaultRuntimeHeartbeat d
      else Inr (d\<lparr>dbRuntimes := map (\<lambda>r. if rtId r = i then r\<lparr>rtHeartbeat := now, rtUpdated := now\<rparr> else r) (dbRuntimes d)\<rparr>))"

definition UnregisterRuntimeInstance :: "gostring \<Rightarrow> db \<Rightarrow> error + db" where
  "UnregisterRuntimeInstance instanceID d =
     (let i = trimSpace instanceID in
      if i = [] then Inr d else Inr (d\<lparr>dbRuntimes := filter (\<lambda>r. rtId r \<noteq> i) (dbRuntimes d)\<rparr>))"

text \<open>Three missed beats, with a floor; the products are 64-bit.\<close>

definition staleAfter :: "int \<Rightarrow> int" where
  "staleAfter interval = max (wrapInt (interval * 3)) minimumRuntimeInstanceStaleAfter"

definition runtimeInstanceLiveness :: "gostring \<Rightarrow> time \<Rightarrow> db \<Rightarrow> runtime_liveness" where
  "runtimeInstanceLiveness instanceID now d =
     (let i = trimSpace instanceID in
      if i = [] then noLiveness
      else case findRuntime i d of
        None \<Rightarrow> noLiveness
      | Some r \<Rightarrow>
          (let interval = wrapInt (rtIntervalMS r * 1000000); stale = staleAfter interval
           in \<lparr>rlExists = True, rlFresh = (\<not> nanos (rtHeartbeat r) < nanos now - stale), rlHeartbeatAt = Some (rtHeartbeat r),
               rlInterval = interval, rlStaleAfter = stale\<rparr>))"

section \<open>SQL patterns\<close>

text \<open>\<^verbatim>\<open>text LIKE pattern\<close> on the characters of both: percent for any run of characters,
  underscore for one, backslash before a character for itself.\<close>

fun likeRunes :: "nat list \<Rightarrow> nat list \<Rightarrow> bool" where
  "likeRunes [] ys = (ys = [])"
| "likeRunes (p # ps) ys =
     (if p = 37 then likeRunes ps ys \<or> (case ys of [] \<Rightarrow> False | y # zs \<Rightarrow> likeRunes (p # ps) zs)
      else if p = 95 then (case ys of [] \<Rightarrow> False | y # zs \<Rightarrow> likeRunes ps zs)
      else if p = 92 then (case ps of [] \<Rightarrow> False | q # qs \<Rightarrow> (case ys of [] \<Rightarrow> False | y # zs \<Rightarrow> y = q \<and> likeRunes qs zs))
      else (case ys of [] \<Rightarrow> False | y # zs \<Rightarrow> y = p \<and> likeRunes ps zs))"

definition sqlLike :: "gostring \<Rightarrow> gostring \<Rightarrow> bool" where
  "sqlLike text1 pattern = likeRunes (runes pattern) (runes text1)"

section \<open>Shutdown\<close>

definition desktopShutdownReason :: gostring where
  "desktopShutdownReason = ''desktop application closed; execution was interrupted''"

definition ownedJobs :: "gostring \<Rightarrow> db \<Rightarrow> job list" where
  "ownedJobs instanceID d =
     filter (\<lambda>j. (case jWorkerID j of None \<Rightarrow> False | Some w \<Rightarrow> sqlLike w (instanceID @ '':%'')) \<and> lStatus j \<in> {''leased'', ''running''})
       (dbJobs d)"

definition requeueOwnedRequest :: "job \<Rightarrow> job lifecycle_request" where
  "requeueOwnedRequest j =
     (jobRequest (lId j) ''queued'' ''backend'' ''backend_shutdown'' desktopShutdownReason ''automatic_retry'' RawEmpty)
       \<lparr>rqExpectedStatuses := [lStatus j], rqAllowNonContract := True, rqIgnoreTerminal := True,
        rqFields := [setWorkerID None, setLeaseNone, setRunAfterIn 0, decAttempt, setLastError desktopShutdownReason]\<rparr>"

definition cancelOwnedRequest :: "job \<Rightarrow> job lifecycle_request" where
  "cancelOwnedRequest j =
     (jobRequest (lId j) ''cancelled'' ''backend'' ''backend_shutdown'' desktopShutdownReason ''manual_review'' RawEmpty)
       \<lparr>rqExpectedStatuses := [lStatus j], rqAllowNonContract := True, rqIgnoreTerminal := True,
        rqFields := [setWorkerID None, setLeaseNone, setLastError desktopShutdownReason]\<rparr>"

definition stopOwnedJob :: "time \<Rightarrow> job \<Rightarrow> db \<Rightarrow> error + db" where
  "stopOwnedJob now j d =
     (if jType j = ''plan.generate''
      then bindR (transitionJob now (requeueOwnedRequest j) d) (\<lambda>(d', r). Inr (notifyJob (lId j) d'))
      else if jType j = ''task.execute''
      then bindR (transitionJob now (cancelOwnedRequest j) d) (\<lambda>(d', r). Inr d')
      else Inr d)"

definition runRequest :: "uuid \<Rightarrow> gostring \<Rightarrow> gostring \<Rightarrow> gostring \<Rightarrow> gostring \<Rightarrow> gostring \<Rightarrow> agent_run lifecycle_request" where
  "runRequest i status source code reason hint =
     zeroRequest\<lparr>lpResourceType := ResAgentRun, lpResourceID := i, lpStatus := status, lpSource := source,
       lpCode := code, lpReason := reason, lpHint := hint\<rparr>"

definition setTermination :: "gostring \<Rightarrow> agent_run field_update" where
  "setTermination s = \<lparr>fuColumn = ''termination_reason'', fuApply = (\<lambda>now old r. r\<lparr>arTermination := Some s\<rparr>)\<rparr>"

definition setFailureCategory :: "gostring \<Rightarrow> agent_run field_update" where
  "setFailureCategory s = \<lparr>fuColumn = ''failure_category'', fuApply = (\<lambda>now old r. r\<lparr>arFailure := Some s\<rparr>)\<rparr>"

definition setRunFinished :: "agent_run field_update" where
  "setRunFinished = \<lparr>fuColumn = ''finished_at'', fuApply = (\<lambda>now old r. r\<lparr>arFinished := Some now\<rparr>)\<rparr>"

definition cancelRunRequest :: "agent_run \<Rightarrow> agent_run lifecycle_request" where
  "cancelRunRequest r =
     (runRequest (lId r) ''cancelled'' ''backend'' ''backend_shutdown'' desktopShutdownReason ''manual_review'')
       \<lparr>lpRelatedJob := arJob r, lpRelatedRun := Some (lId r), rqExpectedStatuses := [''running''],
        rqAllowNonContract := True, rqIgnoreTerminal := True,
        rqFields := [setTermination desktopShutdownReason, setRunFinished]\<rparr>"

definition cancelRun :: "time \<Rightarrow> agent_run \<Rightarrow> db \<Rightarrow> error + db" where
  "cancelRun now r d = bindR (transitionRun now (cancelRunRequest r) d) (\<lambda>(d', res). Inr d')"

definition jobRuns :: "uuid list \<Rightarrow> db \<Rightarrow> agent_run list" where
  "jobRuns jobIDs d = filter (\<lambda>r. (case arJob r of None \<Rightarrow> False | Some i \<Rightarrow> i \<in> set jobIDs) \<and> lStatus r = ''running'') (dbRuns d)"

text \<open>Discussions have no job; the owner of the run tells.\<close>

definition discussionRuns :: "gostring \<Rightarrow> db \<Rightarrow> agent_run list" where
  "discussionRuns instanceID d = filter (\<lambda>r. arOwner r = instanceID \<and> lStatus r = ''running'') (dbRuns d)"

record task_change =
  tcId :: uuid
  tcProject :: uuid
  tcPlan :: uuid
  tcJob :: uuid
  tcVersion :: int

definition shutdownTaskRequest :: "job \<Rightarrow> plan_task lifecycle_request" where
  "shutdownTaskRequest j =
     (taskRequest (jAggregateID j) ''pending'' ''backend'' ''backend_shutdown'' desktopShutdownReason ''retry_from_start'')
       \<lparr>lpRelatedJob := Some (lId j), rqExpectedStatuses := [''running''], rqAllowNonContract := True, rqIgnoreTerminal := True,
        rqFields := [setStarted False, setFinished False]\<rparr>"

definition returnOwnedTask :: "time \<Rightarrow> job \<Rightarrow> db \<times> task_change list \<Rightarrow> error + db \<times> task_change list" where
  "returnOwnedTask now j s =
     (case s of (d, changes) \<Rightarrow>
        bindR (transitionTask now (shutdownTaskRequest j) d) (\<lambda>(d', r).
          if lrIdempotent r then Inr (d', changes)
          else case findRow (jAggregateID j) (dbTasks d') of
            None \<Rightarrow> Inl ErrNoRows
          | Some t \<Rightarrow> Inr (d', changes @ [\<lparr>tcId = jAggregateID j, tcProject = lProject (lrState r), tcPlan = ptPlan t,
               tcJob = lId j, tcVersion = lVersion (lrState r)\<rparr>])))"

definition emitTaskChange :: "time \<Rightarrow> task_change \<Rightarrow> db \<Rightarrow> db" where
  "emitTaskChange now c d =
     emit now (tcProject c) ''task.cancelled'' ''task'' (tcId c) (tcVersion c) [(''message'', JStr desktopShutdownReason)] d"

text \<open>The Go map from plan to change: the last change of a plan is the one kept.\<close>

definition lastChanges :: "task_change list \<Rightarrow> task_change list" where
  "lastChanges cs = fold (\<lambda>c kept. filter (\<lambda>k. tcPlan k \<noteq> tcPlan c) kept @ [c]) cs []"

definition shutdownPlanRequest :: "task_change \<Rightarrow> plan lifecycle_request" where
  "shutdownPlanRequest c =
     (planRequest (tcPlan c) ''blocked'' ''backend'' ''backend_shutdown'' desktopShutdownReason ''manual_review'' RawEmpty)
       \<lparr>lpRelatedJob := Some (tcJob c), rqExpectedStatuses := [''running'', ''validating''], rqIgnoreTerminal := True\<rparr>"

definition blockOwnedPlan :: "time \<Rightarrow> task_change \<Rightarrow> db \<Rightarrow> error + db" where
  "blockOwnedPlan now c d =
     bindR (transitionPlan now (shutdownPlanRequest c) d) (\<lambda>(d', r).
       Inr (if lrIdempotent r then d'
            else emit now (tcProject c) ''plan.blocked'' ''plan'' (tcPlan c) (lVersion (lrState r)) [(''reason'', JStr desktopShutdownReason)] d'))"

text \<open>The jobs and leases, the runs, and then the tasks and plans. Go walks a map in no fixed order:
  \<open>walk\<close> is the order of one walk.\<close>

definition stopOwnedJobs :: "time \<Rightarrow> job list \<Rightarrow> db \<Rightarrow> error + db" where
  "stopOwnedJobs now js d =
     bindR (foldR (stopOwnedJob now) js d) (\<lambda>d1.
       let ids = map lId (filter (\<lambda>j. jType j = ''task.execute'') js) in
       Inr (d1\<lparr>dbLeases := filter (\<lambda>l. wlJob l \<notin> set ids) (dbLeases d1)\<rparr>))"

definition stopOwnedRuns :: "time \<Rightarrow> gostring \<Rightarrow> uuid list \<Rightarrow> db \<Rightarrow> error + db" where
  "stopOwnedRuns now instanceID jobIDs d =
     bindR (foldR (cancelRun now) (jobRuns jobIDs d) d) (\<lambda>d1. foldR (cancelRun now) (discussionRuns instanceID d1) d1)"

definition stopOwnedTasks :: "(task_change list \<Rightarrow> task_change list) \<Rightarrow> time \<Rightarrow> job list \<Rightarrow> db \<Rightarrow> error + db" where
  "stopOwnedTasks walk now js d =
     bindR (foldR (returnOwnedTask now) js (d, [])) (\<lambda>(d1, changes).
       foldR (blockOwnedPlan now) (walk (lastChanges changes)) (fold (emitTaskChange now) changes d1))"

definition ReconcileInstanceShutdown :: "(task_change list \<Rightarrow> task_change list) \<Rightarrow> time \<Rightarrow> gostring \<Rightarrow> db \<Rightarrow> error + db" where
  "ReconcileInstanceShutdown walk now instanceID0 d =
     (let instanceID = trimSpace instanceID0; js = ownedJobs instanceID d in
      if instanceID = [] then Inl (ErrText ''shutdown reconciliation requires a backend instance id'')
      else bindR (stopOwnedJobs now js d) (\<lambda>d1.
           bindR (stopOwnedRuns now instanceID (map lId js) d1) (\<lambda>d2.
             stopOwnedTasks walk now (filter (\<lambda>j. jType j = ''task.execute'') js) d2)))"

end
