(* ===== verification/GoTime.thy ===== *)
theory GoTime
  imports GoStrings
begin

text \<open>
  Times as Go prints and reads them in JSON: RFC 3339 in UTC, here of a time in microseconds since 1970.
  The digits of a fraction behind the sixth, which PostgreSQL does not keep either, are dropped.
\<close>

section \<open>The calendar\<close>

text \<open>Days since the first of January of the year 0 in the Gregorian calendar.\<close>

definition isLeap :: "int \<Rightarrow> bool" where
  "isLeap y \<longleftrightarrow> y mod 4 = 0 \<and> (y mod 100 \<noteq> 0 \<or> y mod 400 = 0)"

definition yearStart :: "int \<Rightarrow> int" where
  "yearStart y = 366 + 365 * (y - 1) + (y - 1) div 4 - (y - 1) div 100 + (y - 1) div 400"

definition monthStarts :: "int list" where
  "monthStarts = [0, 31, 59, 90, 120, 151, 181, 212, 243, 273, 304, 334]"

definition monthStart :: "bool \<Rightarrow> nat \<Rightarrow> int" where
  "monthStart leap m = monthStarts ! (m - 1) + (if leap \<and> 2 < m then 1 else 0)"

definition daysIn :: "bool \<Rightarrow> nat \<Rightarrow> int" where
  "daysIn leap m = (if m = 2 then (if leap then 29 else 28) else if m \<in> set [4, 6, 9, 11] then 30 else 31)"

definition dayNumber :: "int \<Rightarrow> nat \<Rightarrow> int \<Rightarrow> int" where
  "dayNumber y m d = yearStart y + monthStart (isLeap y) m + d - 1"

text \<open>The year of a day and the day within it: periods of 400, 100, 4 and 1 years behind year 1.\<close>

definition yearDay :: "int \<Rightarrow> int \<times> int" where
  "yearDay n =
     (let k = n - 366; a = k div 146097; r = k mod 146097;
          b = min 3 (r div 36524); r2 = r - 36524 * b;
          c = r2 div 1461; r3 = r2 mod 1461;
          e = min 3 (r3 div 365)
      in (400 * a + 100 * b + 4 * c + e + 1, r3 - 365 * e))"

definition civil :: "int \<Rightarrow> int \<times> nat \<times> int" where
  "civil n =
     (let (y, yd) = yearDay n; m = length (filter (\<lambda>m. monthStart (isLeap y) m \<le> yd) [1..<13])
      in (y, m, yd - monthStart (isLeap y) m + 1))"

definition epochDay :: int where
  "epochDay = 719528"

definition dayMicros :: int where
  "dayMicros = 86400000000"

section \<open>Printing\<close>

definition padded :: "nat \<Rightarrow> nat \<Rightarrow> gostring" where
  "padded w n = (let ds = showNat n in replicate (w - length ds) CHR ''0'' @ ds)"

definition dropZeros :: "gostring \<Rightarrow> gostring" where
  "dropZeros s = rev (dropWhile (\<lambda>c. c = CHR ''0'') (rev s))"

definition fractionText :: "nat \<Rightarrow> gostring" where
  "fractionText micros = (let t = dropZeros (padded 6 micros) in if t = [] then [] else CHR ''.'' # t)"

text \<open>None is the error of \<^verbatim>\<open>Time.MarshalJSON\<close> for a year of other than four digits.\<close>

definition formatTime :: "time \<Rightarrow> gostring option" where
  "formatTime t =
     (let (y, m, d) = civil (t div dayMicros + epochDay); micros = t mod dayMicros; secs = micros div 1000000
      in if y < 0 \<or> y > 9999 then None
         else Some (padded 4 (nat y) @ ''-'' @ padded 2 m @ ''-'' @ padded 2 (nat d) @ ''T'' @
           padded 2 (nat (secs div 3600)) @ '':'' @ padded 2 (nat (secs div 60 mod 60)) @ '':'' @ padded 2 (nat (secs mod 60)) @
           fractionText (nat (micros mod 1000000)) @ ''Z''))"

section \<open>Reading\<close>

definition digitField :: "nat \<Rightarrow> int \<Rightarrow> int \<Rightarrow> gostring \<Rightarrow> (int \<times> gostring) option" where
  "digitField w lo hi s =
     (let ds = take w s; n = int (readNat ds)
      in if length ds = w \<and> list_all isDigitChar ds \<and> lo \<le> n \<and> n \<le> hi then Some (n, drop w s) else None)"

definition expectChar :: "char \<Rightarrow> gostring \<Rightarrow> gostring option" where
  "expectChar c s = (case s of [] \<Rightarrow> None | x # xs \<Rightarrow> if x = c then Some xs else None)"

definition fractionField :: "gostring \<Rightarrow> int \<times> gostring" where
  "fractionField s =
     (case s of
        CHR ''.'' # rest \<Rightarrow>
          (let ds = takeWhile isDigitChar rest
           in if ds = [] then (0, s) else (int (readNat (take 6 (ds @ replicate 6 CHR ''0''))), drop (length ds) rest))
      | _ \<Rightarrow> (0, s))"

text \<open>The offset in seconds: Z, or a sign, hours, a colon and minutes.\<close>

definition zoneField :: "gostring \<Rightarrow> int option" where
  "zoneField s =
     (if s = ''Z'' then Some 0
      else if length s \<noteq> 6 \<or> hd s \<notin> set ''+-'' then None
      else do {
        (hh, s1) \<leftarrow> digitField 2 0 23 (tl s);
        s2 \<leftarrow> expectChar CHR '':'' s1;
        (mm, s3) \<leftarrow> digitField 2 0 59 s2;
        Some ((if hd s = CHR ''-'' then - 1 else 1) * (hh * 3600 + mm * 60))
      })"

definition parseTime :: "gostring \<Rightarrow> time option" where
  "parseTime s0 = do {
     (y, s1) \<leftarrow> digitField 4 0 9999 s0; s2 \<leftarrow> expectChar CHR ''-'' s1;
     (m, s3) \<leftarrow> digitField 2 1 12 s2; s4 \<leftarrow> expectChar CHR ''-'' s3;
     (d, s5) \<leftarrow> digitField 2 1 (daysIn (isLeap y) (nat m)) s4; s6 \<leftarrow> expectChar CHR ''T'' s5;
     (hh, s7) \<leftarrow> digitField 2 0 23 s6; s8 \<leftarrow> expectChar CHR '':'' s7;
     (mi, s9) \<leftarrow> digitField 2 0 59 s8; s10 \<leftarrow> expectChar CHR '':'' s9;
     (ss, s11) \<leftarrow> digitField 2 0 59 s10;
     let (frac, s12) = fractionField s11 in do {
       zone \<leftarrow> zoneField s12;
       Some ((dayNumber y (nat m) d - epochDay) * dayMicros + (hh * 3600 + mi * 60 + ss - zone) * 1000000 + frac)
     }
   }"

text \<open>\<^verbatim>\<open>time.Time{}\<close>, the first of January of the year 1.\<close>

definition zeroTime :: time where
  "zeroTime = - 62135596800000000"

lemma zeroTime_year1: "zeroTime = (dayNumber 1 1 1 - epochDay) * dayMicros"
  by (simp add: zeroTime_def dayNumber_def yearStart_def monthStart_def monthStarts_def epochDay_def dayMicros_def)

end
