(* ===== verification/Recovery.thy ===== *)
theory Recovery
  imports Shutdown GoTime
begin

text \<open>
  The recovery pass of \<^verbatim>\<open>repository/queue.go\<close>: which of the jobs and runs that the database calls
  active still have an owner, and what becomes of the others. What the host says about processes and
  log files is an argument.
\<close>

section \<open>The host\<close>

datatype kill_result = KillOk | KillNoProcess | KillNoPermission | KillFailed

record recovery_host =
  rhKill :: "int \<Rightarrow> kill_result"
  rhStat :: "int \<Rightarrow> gostring option"
  rhModTime :: "gostring \<Rightarrow> time option"

record process_evidence =
  peRunning :: bool
  peIdentity :: gostring

text \<open>The text behind the last closing parenthesis and blank of \<^verbatim>\<open>/proc/pid/stat\<close>.\<close>

fun afterLastName :: "gostring \<Rightarrow> gostring option" where
  "afterLastName [] = None"
| "afterLastName (c # s) =
     (case afterLastName s of
        Some r \<Rightarrow> Some r
      | None \<Rightarrow> if c = CHR '')'' \<and> hasPrefix s '' '' then Some (drop 1 s) else None)"

definition statEvidence :: "gostring \<Rightarrow> process_evidence" where
  "statEvidence raw =
     (case afterLastName raw of
        None \<Rightarrow> \<lparr>peRunning = True, peIdentity = []\<rparr>
      | Some rest \<Rightarrow>
          (let fields = goFields rest in
           \<lparr>peRunning = (\<not> (fields \<noteq> [] \<and> hd fields \<in> {''Z'', ''X''})),
            peIdentity = (if length fields > 19 then ''linux-start:'' @ fields ! 19 else [])\<rparr>))"

text \<open>None is an error of the host.\<close>

definition InspectProcess :: "recovery_host \<Rightarrow> int \<Rightarrow> process_evidence option" where
  "InspectProcess h pid =
     (if pid \<le> 0 \<or> rhKill h pid = KillNoProcess then Some \<lparr>peRunning = False, peIdentity = []\<rparr>
      else if rhKill h pid = KillFailed then None
      else Some (case rhStat h pid of None \<Rightarrow> \<lparr>peRunning = True, peIdentity = []\<rparr> | Some raw \<Rightarrow> statEvidence raw))"

section \<open>Candidates\<close>

record recovery_job =
  rjId :: uuid
  rjProject :: uuid
  rjAggregate :: uuid
  rjType :: gostring
  rjStatus :: gostring
  rjWorker :: gostring
  rjLease :: "time option"
  rjCode :: gostring
  rjTaskStatus :: gostring
  rjPlan :: "uuid option"
  rjPlanStatus :: gostring

definition activeStatuses :: "gostring set" where
  "activeStatuses = {''leased'', ''running'', ''cancelling''}"

definition liveRunStatuses :: "gostring set" where
  "liveRunStatuses = {''starting'', ''running'', ''cancelling''}"

text \<open>The row of the query with its two outer joins.\<close>

definition recoveryJob :: "db \<Rightarrow> job \<Rightarrow> recovery_job" where
  "recoveryJob d j =
     (let t = (if jType j = ''task.execute'' then findRow (jAggregateID j) (dbTasks d) else None);
          p = (case t of None \<Rightarrow> None | Some t \<Rightarrow> findRow (ptPlan t) (dbPlans d))
      in \<lparr>rjId = lId j, rjProject = lProject j, rjAggregate = jAggregateID j, rjType = jType j, rjStatus = lStatus j,
          rjWorker = (case jWorkerID j of None \<Rightarrow> [] | Some w \<Rightarrow> w), rjLease = jLease j, rjCode = lCode j,
          rjTaskStatus = (case t of None \<Rightarrow> [] | Some t \<Rightarrow> lStatus t), rjPlan = map_option ptPlan t,
          rjPlanStatus = (case p of None \<Rightarrow> [] | Some p \<Rightarrow> lStatus p)\<rparr>)"

definition recoveryJobs :: "db \<Rightarrow> recovery_job list" where
  "recoveryJobs d = map (recoveryJob d) (filter (\<lambda>j. lStatus j \<in> activeStatuses) (dbJobs d))"

definition activeRecoveryRun :: "uuid \<Rightarrow> db \<Rightarrow> agent_run option" where
  "activeRecoveryRun jobID d =
     newestBy arCreated (filter (\<lambda>r. arJob r = Some jobID \<and> lStatus r \<in> liveRunStatuses) (dbRuns d))"

section \<open>The checkpoint of a run\<close>

record run_checkpoint =
  rcIdentity :: gostring
  rcHeartbeat :: time
  rcOutput :: time
  rcLog :: time
  rcInterval :: int
  rcPhase :: gostring

definition zeroCheckpointTimes :: run_checkpoint where
  "zeroCheckpointTimes =
     \<lparr>rcIdentity = [], rcHeartbeat = zeroTime, rcOutput = zeroTime, rcLog = zeroTime, rcInterval = 0, rcPhase = []\<rparr>"

text \<open>Members of a \<^verbatim>\<open>jsonb\<close> value come back by length, then by bytes.\<close>

fun jsonbInsert :: "gostring \<times> json \<Rightarrow> (gostring \<times> json) list \<Rightarrow> (gostring \<times> json) list" where
  "jsonbInsert x [] = [x]"
| "jsonbInsert x (y # ys) =
     (if length (fst x) < length (fst y) \<or> (length (fst x) = length (fst y) \<and> byteLess (fst x) (fst y))
      then x # y # ys else y # jsonbInsert x ys)"

definition jsonbOrder :: "(gostring \<times> json) list \<Rightarrow> (gostring \<times> json) list" where
  "jsonbOrder ms = fold jsonbInsert ms []"

definition runCheckpointFields :: "gostring list" where
  "runCheckpointFields = [''processIdentity'', ''heartbeatAt'', ''lastOutputAt'', ''logActivityAt'', ''heartbeatIntervalMs'', ''phase'']"

text \<open>A value of the wrong type leaves a string or number, but ends the reading at a time (None).\<close>

definition readTime :: "json \<Rightarrow> time \<Rightarrow> time option" where
  "readTime v old = (case v of JNull \<Rightarrow> Some old | JStr s \<Rightarrow> parseTime s | _ \<Rightarrow> None)"

definition setRunCheckpoint :: "gostring \<Rightarrow> json \<Rightarrow> run_checkpoint \<Rightarrow> run_checkpoint option" where
  "setRunCheckpoint n v c =
     (if n = ''heartbeatAt'' then map_option (\<lambda>t. c\<lparr>rcHeartbeat := t\<rparr>) (readTime v (rcHeartbeat c))
      else if n = ''lastOutputAt'' then map_option (\<lambda>t. c\<lparr>rcOutput := t\<rparr>) (readTime v (rcOutput c))
      else if n = ''logActivityAt'' then map_option (\<lambda>t. c\<lparr>rcLog := t\<rparr>) (readTime v (rcLog c))
      else Some (case v of
          JStr s \<Rightarrow> if n = ''processIdentity'' then c\<lparr>rcIdentity := s\<rparr> else if n = ''phase'' then c\<lparr>rcPhase := s\<rparr> else c
        | JInt i \<Rightarrow> if n = ''heartbeatIntervalMs'' \<and> - (2 ^ 63) \<le> i \<and> i < 2 ^ 63 then c\<lparr>rcInterval := i\<rparr> else c
        | _ \<Rightarrow> c))"

fun readRunCheckpoint :: "(gostring \<times> json) list \<Rightarrow> run_checkpoint \<Rightarrow> run_checkpoint" where
  "readRunCheckpoint [] c = c"
| "readRunCheckpoint ((k, v) # ms) c =
     (case matchField runCheckpointFields k of
        None \<Rightarrow> readRunCheckpoint ms c
      | Some n \<Rightarrow> (case setRunCheckpoint n v c of None \<Rightarrow> c | Some c' \<Rightarrow> readRunCheckpoint ms c'))"

definition runCheckpoint :: "agent_run \<Rightarrow> run_checkpoint" where
  "runCheckpoint r = readRunCheckpoint (jsonbOrder (lCheckpoint r)) zeroCheckpointTimes"

section \<open>Evidence\<close>

record evidence =
  evOwner :: gostring
  evOwnerFresh :: bool
  evJobLease :: bool
  evWorkspaceLease :: bool
  evLockOwned :: bool
  evInspectable :: bool
  evKnown :: bool
  evAlive :: bool
  evIdentity :: gostring
  evHeartbeatFresh :: bool
  evActivity :: time
  evOutput :: time
  evLog :: time

definition workerInstanceID :: "gostring \<Rightarrow> gostring" where
  "workerInstanceID workerID =
     (case goCut CHR '':'' (trimSpace workerID) of (a, Some _) \<Rightarrow> trimSpace a | (_, None) \<Rightarrow> [])"

definition beforeExecution :: "recovery_job \<Rightarrow> bool" where
  "beforeExecution j \<longleftrightarrow> rjType j \<noteq> ''task.execute'' \<or> rjTaskStatus j \<in> {[], ''pending'', ''queued''}"

text \<open>Without a run: the leases and the owner.\<close>

definition ownerEvidence :: "time \<Rightarrow> recovery_job \<Rightarrow> agent_run option \<Rightarrow> db \<Rightarrow> evidence" where
  "ownerEvidence now j run d =
     (let lease = (if rjType j = ''task.execute'' \<and> rjTaskStatus j \<in> {''running'', ''cancelling''}
                   then find (\<lambda>l. wlJob l = rjId j) (dbLeases d) else None);
          runOwner = (case run of None \<Rightarrow> [] | Some r \<Rightarrow> trimSpace (arOwner r));
          owner = (if runOwner = [] then workerInstanceID (rjWorker j) else runOwner)
      in \<lparr>evOwner = owner,
          evOwnerFresh = (owner \<noteq> [] \<and> rlFresh (runtimeInstanceLiveness owner now d)),
          evJobLease = (case rjLease j of None \<Rightarrow> False | Some t \<Rightarrow> \<not> t < now),
          evWorkspaceLease = (case lease of None \<Rightarrow> beforeExecution j | Some l \<Rightarrow> \<not> wlExpires l < now),
          evLockOwned = (case lease of None \<Rightarrow> beforeExecution j | Some l \<Rightarrow> wlWorker l = rjWorker j),
          evInspectable = False, evKnown = False, evAlive = False, evIdentity = [], evHeartbeatFresh = False,
          evActivity = zeroTime, evOutput = zeroTime, evLog = zeroTime\<rparr>)"

text \<open>With a run: its heartbeats, the log file, and the process when this host may look at it.\<close>

definition runEvidence :: "recovery_host \<Rightarrow> time \<Rightarrow> agent_run \<Rightarrow> evidence \<Rightarrow> evidence" where
  "runEvidence h now r e =
     (let c = runCheckpoint r;
          activity = max (max (max (lActivity r) (rcHeartbeat c)) (rcOutput c)) (rcLog c);
          log1 = (case rhModTime h (arLogPath r) of None \<Rightarrow> rcLog c | Some t \<Rightarrow> max (rcLog c) t);
          activity1 = (case rhModTime h (arLogPath r) of None \<Rightarrow> activity | Some t \<Rightarrow> max activity t);
          interval = wrapInt (rcInterval c * 1000000);
          stale = staleAfter (if interval \<le> 0 then 5 * 1000000000 else interval);
          beat = max (rcHeartbeat c) log1;
          beat1 = (if beat = zeroTime then lActivity r else beat)
      in e\<lparr>evActivity := activity1, evOutput := rcOutput c, evLog := log1,
           evHeartbeatFresh := (\<not> nanos beat1 < nanos now - stale)\<rparr>)"

definition inspectRun :: "recovery_host \<Rightarrow> gostring \<Rightarrow> agent_run \<Rightarrow> evidence \<Rightarrow> evidence option" where
  "inspectRun h observer r e =
     (let inspectable = (observer = [] \<or> evOwner e = [] \<or> evOwner e = observer); e1 = e\<lparr>evInspectable := inspectable\<rparr>
      in case arPid r of
        None \<Rightarrow> Some e1
      | Some pid \<Rightarrow>
          if \<not> (inspectable \<and> pid > 0) then Some e1
          else (case InspectProcess h pid of
            None \<Rightarrow> None
          | Some p \<Rightarrow>
              let expected = rcIdentity (runCheckpoint r);
                  reused = (expected \<noteq> [] \<and> peIdentity p \<noteq> [] \<and> expected \<noteq> peIdentity p)
              in Some (e1\<lparr>evKnown := True, evIdentity := peIdentity p, evAlive := (peRunning p \<and> \<not> reused)\<rparr>)))"

definition collectRecoveryEvidence ::
  "recovery_host \<Rightarrow> time \<Rightarrow> gostring \<Rightarrow> recovery_job \<Rightarrow> agent_run option \<Rightarrow> db \<Rightarrow> evidence option" where
  "collectRecoveryEvidence h now observer j run d =
     (let e = ownerEvidence now j run d in
      case run of None \<Rightarrow> Some e | Some r \<Rightarrow> inspectRun h observer r (runEvidence h now r e))"

section \<open>Decisions\<close>

definition recoveryCandidateActive :: "agent_run option \<Rightarrow> evidence \<Rightarrow> bool" where
  "recoveryCandidateActive run e =
     (if evKnown e \<and> evAlive e then True
      else (let healthy = (if evOwner e = [] then evJobLease e else evOwnerFresh e) in
        if run = None then healthy \<and> evJobLease e
        else if evOwner e \<noteq> [] then healthy \<and> evHeartbeatFresh e
        else evJobLease e \<and> evWorkspaceLease e \<and> evLockOwned e \<and> evHeartbeatFresh e))"

definition cancelCodes :: "gostring set" where
  "cancelCodes = {''cancellation_requested'', ''user_cancelled''}"

definition recoveryCancellationIntent :: "recovery_job \<Rightarrow> agent_run option \<Rightarrow> bool" where
  "recoveryCancellationIntent j run \<longleftrightarrow>
     rjStatus j = ''cancelling'' \<or> rjTaskStatus j \<in> {''cancelling'', ''cancelled''} \<or>
     rjPlanStatus j \<in> {''cancelling'', ''cancelled''} \<or> rjCode j \<in> cancelCodes \<or>
     (case run of None \<Rightarrow> False | Some r \<Rightarrow> lStatus r = ''cancelling'' \<or> lCode r \<in> cancelCodes)"

record outcome =
  ocStatus :: gostring
  ocCode :: gostring
  ocReason :: gostring
  ocHint :: gostring
  ocFailure :: gostring

definition chooseRecoveryOutcome :: "agent_run option \<Rightarrow> bool \<Rightarrow> evidence \<Rightarrow> outcome" where
  "chooseRecoveryOutcome run cancelIntent e =
     (if cancelIntent
      then \<lparr>ocStatus = ''cancelled'', ocCode = ''user_cancelled'',
            ocReason = ''persisted cancellation intent was confirmed after execution lost contact'',
            ocHint = ''none'', ocFailure = ''cancellation''\<rparr>
      else if (case run of None \<Rightarrow> False | Some r \<Rightarrow> arPid r = None)
      then \<lparr>ocStatus = ''cancelled'', ocCode = ''process_lost'',
            ocReason = ''runtime owner disappeared before the agent process was durably started'',
            ocHint = ''automatic_retry'', ocFailure = ''startup_abandoned''\<rparr>
      else \<lparr>ocStatus = ''interrupted'', ocCode = ''process_lost'',
            ocReason = (if evKnown e \<and> \<not> evAlive e then ''persisted agent process is no longer running''
                        else ''agent process exited or durable runtime and lease evidence was lost''),
            ocHint = ''retry_from_start'', ocFailure = ''process_interrupted''\<rparr>)"

text \<open>The marshalling fails for a time outside the years of four digits, and the checkpoint is then empty.\<close>

definition timeMember :: "gostring \<Rightarrow> time \<Rightarrow> (gostring \<times> json) list option" where
  "timeMember k t = (if t = zeroTime then Some [] else map_option (\<lambda>s. [(k, JStr s)]) (formatTime t))"

definition recoveryCheckpoint :: "evidence \<Rightarrow> gostring \<Rightarrow> gostring \<Rightarrow> time \<Rightarrow> raw_json" where
  "recoveryCheckpoint e hint observer now =
     (case (formatTime now, timeMember ''lastObservedActivityAt'' (evActivity e), timeMember ''lastOutputAt'' (evOutput e),
            timeMember ''logActivityAt'' (evLog e)) of
        (Some t, Some a, Some b, Some c) \<Rightarrow>
          mustObject ([(''recoveredAt'', JStr t), (''recoveryObserverInstanceId'', JStr observer),
            (''ownerInstanceId'', JStr (evOwner e)), (''ownerHeartbeatFresh'', JBool (evOwnerFresh e)),
            (''jobLeaseValid'', JBool (evJobLease e)), (''workspaceLeaseValid'', JBool (evWorkspaceLease e)),
            (''workspaceLockOwned'', JBool (evLockOwned e)), (''processInspectable'', JBool (evInspectable e)),
            (''processKnown'', JBool (evKnown e)), (''processAlive'', JBool (evAlive e)),
            (''processIdentityObserved'', JStr (evIdentity e)), (''agentHeartbeatFresh'', JBool (evHeartbeatFresh e)),
            (''recoveryRecommendation'', JStr hint)] @ a @ b @ c)
      | _ \<Rightarrow> RawEmpty)"

section \<open>Convergence\<close>

definition activity :: "evidence \<Rightarrow> time option" where
  "activity e = (if evActivity e = zeroTime then None else Some (evActivity e))"

definition unstartedReason :: gostring where
  "unstartedReason = ''job ownership expired before execution reached a durable running phase''"

definition requeueUnstartedRequest :: "time \<Rightarrow> recovery_job \<Rightarrow> evidence \<Rightarrow> gostring \<Rightarrow> job lifecycle_request" where
  "requeueUnstartedRequest now j e observer =
     (jobRequest (rjId j) ''queued'' ''recovery'' ''process_lost'' unstartedReason ''automatic_retry''
        (recoveryCheckpoint e ''automatic_retry'' observer now))
       \<lparr>rqExpectedStatuses := [''leased'', ''running'', ''cancelling''], rqAllowNonContract := True, rqIgnoreTerminal := True,
        rqFields := [setWorkerID None, setLeaseNone, setRunAfterIn 0, decAttempt, setLastError unstartedReason]\<rparr>"

definition requeueUnstartedJob :: "time \<Rightarrow> recovery_job \<Rightarrow> evidence \<Rightarrow> gostring \<Rightarrow> db \<Rightarrow> error + db" where
  "requeueUnstartedJob now j e observer d =
     bindR (transitionJob now (requeueUnstartedRequest now j e observer) d) (\<lambda>(d', r). Inr (notifyJob (rjId j) d'))"

text \<open>The stored checkpoint with new members; nil values are left out.\<close>

definition mergeAgentRunCheckpoint :: "(gostring \<times> json) list \<Rightarrow> (gostring \<times> json) list \<Rightarrow> (gostring \<times> json) list" where
  "mergeAgentRunCheckpoint stored values =
     fold (\<lambda>(k, v). putMember k v) (filter (\<lambda>(k, v). v \<noteq> JNull) values) (objectMap stored)"

definition objectMembers :: "raw_json \<Rightarrow> (gostring \<times> json) list" where
  "objectMembers raw = (case raw of RawValue (JObj ms) \<Rightarrow> ms | _ \<Rightarrow> [])"

definition recoveredRunCheckpoint :: "agent_run \<Rightarrow> raw_json \<Rightarrow> raw_json" where
  "recoveredRunCheckpoint r checkpoint =
     RawValue (JObj (fold (\<lambda>(k, v). putMember k v) (objectMembers checkpoint) (mergeAgentRunCheckpoint (lCheckpoint r) [])))"

definition loseRunRequest :: "agent_run \<Rightarrow> evidence \<Rightarrow> outcome \<Rightarrow> raw_json \<Rightarrow> uuid option \<Rightarrow> agent_run lifecycle_request" where
  "loseRunRequest r e oc checkpoint jobID =
     (runRequest (lId r) (ocStatus oc) ''recovery'' (ocCode oc) (ocReason oc) (ocHint oc))
       \<lparr>lpActivity := activity e, lpCheckpoint := recoveredRunCheckpoint r checkpoint, lpRelatedJob := jobID,
        lpRelatedRun := Some (lId r), rqExpectedStatuses := [''starting'', ''running'', ''cancelling''],
        rqAllowNonContract := True, rqIgnoreTerminal := True,
        rqFields := [setTermination (ocReason oc), setFailureCategory (ocFailure oc), setRunFinished]\<rparr>"

definition loseRun :: "time \<Rightarrow> agent_run \<Rightarrow> evidence \<Rightarrow> outcome \<Rightarrow> raw_json \<Rightarrow> uuid option \<Rightarrow> db \<Rightarrow> error + db" where
  "loseRun now r e oc checkpoint jobID d =
     bindR (transitionRun now (loseRunRequest r e oc checkpoint jobID) d) (\<lambda>(d', res). Inr d')"

definition loseJobRequest :: "recovery_job \<Rightarrow> agent_run option \<Rightarrow> evidence \<Rightarrow> outcome \<Rightarrow> raw_json \<Rightarrow> job lifecycle_request" where
  "loseJobRequest j run e oc checkpoint =
     (jobRequest (rjId j) (ocStatus oc) ''recovery'' (ocCode oc) (ocReason oc) (ocHint oc) checkpoint)
       \<lparr>lpActivity := activity e, lpRelatedRun := map_option lId run,
        rqExpectedStatuses := [''leased'', ''running'', ''cancelling''], rqAllowNonContract := True, rqIgnoreTerminal := True,
        rqFields := [setWorkerID None, setLeaseNone, setLastError (ocReason oc)]\<rparr>"

text \<open>A run without a process never started its task: the task is runnable again.\<close>

definition neverStarted :: "outcome \<Rightarrow> bool" where
  "neverStarted oc \<longleftrightarrow> ocStatus oc = ''cancelled'' \<and> ocCode oc = ''process_lost'' \<and> ocHint oc = ''automatic_retry''"

definition recoveredTaskStatus :: "outcome \<Rightarrow> gostring" where
  "recoveredTaskStatus oc = (if neverStarted oc then ''pending'' else ocStatus oc)"

definition recoverTaskRequest :: "recovery_job \<Rightarrow> evidence \<Rightarrow> outcome \<Rightarrow> raw_json \<Rightarrow> plan_task lifecycle_request" where
  "recoverTaskRequest j e oc checkpoint =
     (taskRequest (rjAggregate j) (recoveredTaskStatus oc) ''recovery'' (ocCode oc) (ocReason oc) (ocHint oc))
       \<lparr>lpActivity := activity e, lpCheckpoint := checkpoint, lpRelatedJob := Some (rjId j),
        rqExpectedStatuses := [''queued'', ''running'', ''cancelling''], rqAllowNonContract := True, rqIgnoreTerminal := True,
        rqFields := (if neverStarted oc then [setStarted False, setFinished False] else [setFinished True])\<rparr>"

definition recoverPlanRequest :: "uuid \<Rightarrow> evidence \<Rightarrow> outcome \<Rightarrow> raw_json \<Rightarrow> plan lifecycle_request" where
  "recoverPlanRequest planID e oc checkpoint =
     (planRequest planID ''blocked'' ''recovery'' (ocCode oc) (ocReason oc) ''manual_review'' checkpoint)
       \<lparr>lpActivity := activity e, rqExpectedStatuses := [''running'', ''validating'', ''cancelling''],
        rqAllowNonContract := True, rqIgnoreTerminal := True\<rparr>"

definition blockRecoveredPlan :: "time \<Rightarrow> recovery_job \<Rightarrow> evidence \<Rightarrow> outcome \<Rightarrow> raw_json \<Rightarrow> db \<Rightarrow> error + db" where
  "blockRecoveredPlan now j e oc checkpoint d =
     (case rjPlan j of
        None \<Rightarrow> Inr d
      | Some planID \<Rightarrow>
          if (ocStatus oc = ''cancelled'' \<and> \<not> neverStarted oc) \<or> rjPlanStatus j \<notin> {''running'', ''validating''} then Inr d
          else bindR (transitionPlan now (recoverPlanRequest planID e oc checkpoint) d) (\<lambda>(d', r).
            Inr (if lrIdempotent r then d'
                 else emit now (rjProject j) ''plan.blocked'' ''plan'' planID (lVersion (lrState r)) [(''reason'', JStr (ocReason oc))] d')))"

definition convergeRecoveredTask :: "time \<Rightarrow> recovery_job \<Rightarrow> evidence \<Rightarrow> outcome \<Rightarrow> raw_json \<Rightarrow> db \<Rightarrow> error + db" where
  "convergeRecoveredTask now j e oc checkpoint d =
     (if rjType j \<noteq> ''task.execute'' \<or> rjTaskStatus j \<in> {[], ''succeeded'', ''failed'', ''interrupted'', ''cancelled''} then Inr d
      else bindR (transitionTask now (recoverTaskRequest j e oc checkpoint) d) (\<lambda>(d1, r).
        blockRecoveredPlan now j e oc checkpoint
          (if lrIdempotent r then d1
           else emit now (rjProject j) (''task.'' @ recoveredTaskStatus oc) ''task'' (rjAggregate j) (lVersion (lrState r))
             [(''reason'', JStr (ocReason oc))] d1)))"

definition convergeLostJob :: "time \<Rightarrow> recovery_job \<Rightarrow> agent_run option \<Rightarrow> evidence \<Rightarrow> outcome \<Rightarrow> gostring \<Rightarrow> db \<Rightarrow> error + db" where
  "convergeLostJob now j run e oc observer d =
     (let checkpoint = recoveryCheckpoint e (ocHint oc) observer now in
      bindR (case run of None \<Rightarrow> Inr d | Some r \<Rightarrow> loseRun now r e oc checkpoint (Some (rjId j)) d) (\<lambda>d1.
      bindR (transitionJob now (loseJobRequest j run e oc checkpoint) d1) (\<lambda>(d2, res).
        convergeRecoveredTask now j e oc checkpoint (d2\<lparr>dbLeases := filter (\<lambda>l. wlJob l \<noteq> rjId j) (dbLeases d2)\<rparr>))))"

section \<open>The pass\<close>

text \<open>Evidence that the host cannot give leaves the job for the next pass.\<close>

definition recoverJob :: "recovery_host \<Rightarrow> time \<Rightarrow> gostring \<Rightarrow> recovery_job \<Rightarrow> db \<Rightarrow> error + db" where
  "recoverJob h now observer j d =
     (let run = activeRecoveryRun (rjId j) d in
      case collectRecoveryEvidence h now observer j run d of
        None \<Rightarrow> Inr d
      | Some e \<Rightarrow>
          if recoveryCandidateActive run e then Inr d
          else (let cancelIntent = recoveryCancellationIntent j run in
            if \<not> cancelIntent \<and> run = None \<and> rjTaskStatus j \<notin> {''running'', ''cancelling''}
            then requeueUnstartedJob now j e observer d
            else convergeLostJob now j run e (chooseRecoveryOutcome run cancelIntent e) observer d))"

definition standaloneRuns :: "db \<Rightarrow> agent_run list" where
  "standaloneRuns d = filter (\<lambda>r. lStatus r \<in> liveRunStatuses \<and>
     (case arJob r of None \<Rightarrow> True | Some i \<Rightarrow> (case findRow i (dbJobs d) of None \<Rightarrow> False | Some j \<Rightarrow> lStatus j \<notin> activeStatuses)))
     (dbRuns d)"

definition noJob :: recovery_job where
  "noJob = \<lparr>rjId = nilUUID, rjProject = nilUUID, rjAggregate = nilUUID, rjType = [], rjStatus = ''running'', rjWorker = [],
     rjLease = None, rjCode = [], rjTaskStatus = [], rjPlan = None, rjPlanStatus = []\<rparr>"

definition reconcileStandaloneRun :: "recovery_host \<Rightarrow> time \<Rightarrow> gostring \<Rightarrow> agent_run \<Rightarrow> db \<Rightarrow> error + db" where
  "reconcileStandaloneRun h now observer r d =
     (case collectRecoveryEvidence h now observer noJob (Some r) d of
        None \<Rightarrow> Inr d
      | Some e \<Rightarrow>
          if (evKnown e \<and> evAlive e) \<or> (evOwnerFresh e \<and> evHeartbeatFresh e) then Inr d
          else (let oc = chooseRecoveryOutcome (Some r) (lStatus r = ''cancelling'') e
                in loseRun now r e oc (recoveryCheckpoint e (ocHint oc) observer now) None d))"

definition reconcileStandaloneRuns :: "recovery_host \<Rightarrow> time \<Rightarrow> gostring \<Rightarrow> db \<Rightarrow> error + db" where
  "reconcileStandaloneRuns h now observer d = foldR (reconcileStandaloneRun h now observer) (standaloneRuns d) d"

definition dropExpiredLeases :: "time \<Rightarrow> db \<Rightarrow> db" where
  "dropExpiredLeases now d = d\<lparr>dbLeases := filter (\<lambda>l. \<not> (wlExpires l < now \<and>
     \<not> list_ex (\<lambda>j. lId j = wlJob l \<and> lStatus j \<in> activeStatuses) (dbJobs d))) (dbLeases d)\<rparr>"

text \<open>\<^verbatim>\<open>split_part(coalesce(worker_id,''), ':', 1)\<close>\<close>

definition workerOwner :: "job \<Rightarrow> gostring" where
  "workerOwner j = fst (goCut CHR '':'' (case jWorkerID j of None \<Rightarrow> [] | Some w \<Rightarrow> w))"

definition dropDeadRuntimes :: "time \<Rightarrow> db \<Rightarrow> db" where
  "dropDeadRuntimes now d = d\<lparr>dbRuntimes := filter (\<lambda>o1. \<not> (rtHeartbeat o1 < now - dayMicros \<and>
     \<not> list_ex (\<lambda>r. arOwner r = rtId o1 \<and> lStatus r \<in> liveRunStatuses) (dbRuns d) \<and>
     \<not> list_ex (\<lambda>j. workerOwner j = rtId o1 \<and> lStatus j \<in> activeStatuses) (dbJobs d))) (dbRuntimes d)\<rparr>"

definition ReconcileRuntimeState :: "recovery_host \<Rightarrow> time \<Rightarrow> gostring \<Rightarrow> db \<Rightarrow> error + db" where
  "ReconcileRuntimeState h now observer d =
     bindR (foldR (recoverJob h now observer) (recoveryJobs d) d) (\<lambda>d1.
     bindR (reconcileStandaloneRuns h now observer d1) (\<lambda>d2.
       Inr (dropDeadRuntimes now (dropExpiredLeases now d2))))"

definition RecoverJobs :: "recovery_host \<Rightarrow> time \<Rightarrow> db \<Rightarrow> error + db" where
  "RecoverJobs h now d = ReconcileRuntimeState h now [] d"

end
