(* ===== verification/PathsResults.thy ===== *)
theory PathsResults
  imports Paths
begin

text \<open>
  What the path functions guarantee: containment is a prefix of elements, and a path that was
  resolved lies strictly beneath the real root, whatever symlinks the file system holds.
\<close>

section \<open>Elements\<close>

lemma canon_pathElems: "canonElems (isAbs p) (pathElems p)"
  unfolding pathElems_def by (rule canon_cleanElems) (auto dest: splitOn_no_sep)

lemma goClean_elems: "goClean p = renderPath (isAbs p) (pathElems p)"
  by (simp add: goClean_def pathElems_def)

lemma isAbs_goClean [simp]: "isAbs (goClean p) = isAbs p"
  unfolding goClean_elems by (rule renderPath_elems(1) [OF canon_pathElems])

lemma pathElems_render: "canonElems rooted es \<Longrightarrow> pathElems (renderPath rooted es) = es"
  unfolding pathElems_def using renderPath_elems by simp

lemma pathElems_goClean [simp]: "pathElems (goClean p) = pathElems p"
  unfolding goClean_elems by (rule pathElems_render [OF canon_pathElems])

lemma abs_plain: "isAbs p \<Longrightarrow> list_all plainElem (pathElems p)"
  using canon_pathElems [of p] by (auto simp: canonElems_def list_all_iff)

lemma clean_eq:
  assumes "isAbs p" "isAbs q" shows "goClean p = goClean q \<longleftrightarrow> pathElems p = pathElems q"
proof
  assume "goClean p = goClean q"
  then have "pathElems (goClean p) = pathElems (goClean q)" by (rule arg_cong)
  then show "pathElems p = pathElems q" by (simp only: pathElems_goClean)
qed (simp add: goClean_elems assms)

lemma commonPrefix_le: "commonPrefix xs ys \<le> length xs" "commonPrefix xs ys \<le> length ys"
  by (induction xs ys rule: commonPrefix.induct) auto

lemma commonPrefix_full: "commonPrefix xs ys = length xs \<longleftrightarrow> prefix xs ys"
  by (induction xs ys rule: commonPrefix.induct) auto

lemma join_dotdot: "joinWith [slash] (''..'' # es) = ''..'' \<or> hasPrefix (joinWith [slash] (''..'' # es)) ''../''"
  by (cases es) auto

lemma join_plain:
  assumes "list_all plainElem es" "es \<noteq> []"
  shows "joinWith [slash] es \<noteq> ''.'' \<and> joinWith [slash] es \<noteq> ''..'' \<and> \<not> hasPrefix (joinWith [slash] es) ''../''"
proof -
  have s: "splitOn slash (joinWith [slash] es) = es"
    using assms by (intro splitOn_join) (auto simp: list_all_iff plainElem_def)
  have h: "plainElem (hd es)" using assms by (cases es) auto
  have "splitOn slash ''..'' = [''..'']" "splitOn slash ''.'' = [''.'']" by (simp_all add: splitOn_single)
  then have "joinWith [slash] es \<noteq> ''..''" "joinWith [slash] es \<noteq> ''.''" using s h by (auto simp: plainElem_def)
  moreover have "hd (splitOn slash (''../'' @ r)) = ''..''" for r by simp
  then have "\<not> hasPrefix (joinWith [slash] es) ''../''"
    using s h unfolding hasPrefix_iff by (metis plainElem_def)
  ultimately show ?thesis by blast
qed

lemma within_prefix:
  assumes "isAbs root" "isAbs candidate"
  shows "pathWithinRoot root candidate \<longleftrightarrow> prefix (pathElems root) (pathElems candidate)"
proof (cases "goClean root = goClean candidate")
  case True
  then show ?thesis using clean_eq [OF assms] by (simp add: pathWithinRoot_def goRel_def Let_def)
next
  case False
  let ?b = "pathElems root" and ?t = "pathElems candidate" and ?n = "commonPrefix (pathElems root) (pathElems candidate)"
  note plain = abs_plain [OF assms(1)] abs_plain [OF assms(2)]
  show ?thesis
  proof (cases "?n = length ?b")
    case True
    then have p: "prefix ?b ?t" by (simp add: commonPrefix_full)
    have "drop ?n ?t \<noteq> []"
      using p False clean_eq [OF assms] by (auto simp: True prefix_def)
    moreover have "list_all plainElem (drop ?n ?t)" using plain(2) by (auto simp: list_all_iff dest: in_set_dropD)
    ultimately have "joinWith [slash] (drop ?n ?t) \<noteq> ''..'' \<and> \<not> hasPrefix (joinWith [slash] (drop ?n ?t)) ''../''"
      using join_plain by blast
    then show ?thesis using p False assms True by (simp add: pathWithinRoot_def goRel_def Let_def)
  next
    case n: False
    then have l: "?n < length ?b" using commonPrefix_le(1) le_neq_implies_less by blast
    then have "?b ! ?n \<noteq> ''..''" using plain(1) by (auto simp: list_all_length plainElem_def)
    moreover obtain k where "length ?b - ?n = Suc k" using l by (metis Suc_diff_Suc)
    then have "joinWith [slash] (replicate (length ?b - ?n) ''..'' @ drop ?n ?t) =
        joinWith [slash] (''..'' # replicate k ''..'' @ drop ?n ?t)" by simp
    moreover have "\<not> prefix ?b ?t" using n by (simp add: commonPrefix_full)
    moreover have "joinWith [slash] (''..'' # es) \<noteq> ''.''" for es by (cases es) auto
    ultimately show ?thesis using l False assms join_dotdot by (simp add: pathWithinRoot_def goRel_def Let_def)
  qed
qed

text \<open>Containment is what it should be: for absolute paths \<^verbatim>\<open>pathWithinRoot\<close>, which
  computes a relative path and looks at its first characters, holds exactly when the cleaned elements
  of the root are the first elements of the candidate; a sibling whose name merely starts with the
  root's name is outside.\<close>

theorem pathWithinRoot_prefix:
  assumes "isAbs root" "isAbs candidate"
  shows "pathWithinRoot root candidate \<longleftrightarrow> prefix (pathElems root) (pathElems candidate)"
  using assms by (rule within_prefix)

lemma pathWithinRoot_prefix_witness:
  "\<not> pathWithinRoot ''/work/app'' ''/work/app-old/x'' \<and> pathWithinRoot ''/work/app'' ''/work/x/../app/y''"
proof -
  have "isAbs ''/work/app''" "isAbs ''/work/app-old/x''" "isAbs ''/work/x/../app/y''" by code_simp+
  note a = this
  have "\<not> prefix (pathElems ''/work/app'') (pathElems ''/work/app-old/x'')"
    "prefix (pathElems ''/work/app'') (pathElems ''/work/x/../app/y'')" by code_simp+
  then show ?thesis using pathWithinRoot_prefix [OF a(1,2)] pathWithinRoot_prefix [OF a(1,3)] by simp
qed

section \<open>Relative paths\<close>

lemma canon_relative:
  assumes "canonElems False es" "es \<noteq> []" "hd es \<noteq> ''..''"
  shows "list_all plainElem es"
proof -
  obtain k ns where es: "es = replicate k ''..'' @ ns" "\<forall>n \<in> set ns. plainElem n"
    using assms(1) by (auto simp: canonElems_def)
  then have "k = 0" using assms(2,3) by (cases k) auto
  then show ?thesis using es by (simp add: list_all_iff)
qed

lemma relative_clean:
  assumes "\<not> isAbs r"
  shows "goClean r = ''.'' \<or> goClean r = ''..'' \<or> hasPrefix (goClean r) ''../'' \<longleftrightarrow>
    \<not> (pathElems r \<noteq> [] \<and> list_all plainElem (pathElems r))"
proof (cases "pathElems r")
  case Nil
  then show ?thesis using assms by (simp add: goClean_elems renderPath_def)
next
  case (Cons e es)
  have c: "goClean r = joinWith [slash] (e # es)" using assms Cons by (simp add: goClean_elems renderPath_def)
  have can: "canonElems False (e # es)" using canon_pathElems [of r] assms Cons by simp
  then have e: "e \<noteq> ''.''" "slash \<notin> set e" using canon_elem by fastforce+
  show ?thesis
  proof (cases "e = ''..''")
    case True
    then have "\<not> plainElem e" by (simp add: plainElem_def)
    then show ?thesis using c Cons True join_dotdot by auto
  next
    case False
    then have p: "list_all plainElem (e # es)" using canon_relative [OF can] by simp
    then show ?thesis using c Cons join_plain [OF p] by simp
  qed
qed

lemma relative_no_slash:
  assumes "\<not> isAbs r" shows "\<not> hasPrefix (goClean r) ''/''"
proof
  assume "hasPrefix (goClean r) ''/''"
  then have "isAbs (goClean r)" by (auto simp: hasPrefix_iff isAbs_def simp del: isAbs_goClean)
  then show False using assms by simp
qed

lemma valid_relative:
  "ValidateRelativePath r = None \<longleftrightarrow>
     \<not> isAbs r \<and> \<not> looksLikePortableAbsolutePath r \<and> CHR 0x00 \<notin> set r \<and> CHR 0x5C \<notin> set r \<and>
     pathElems r \<noteq> [] \<and> list_all plainElem (pathElems r)"
proof (cases "isAbs r")
  case False
  have "pathElems [] = []" by code_simp
  then show ?thesis using relative_clean [OF False] relative_no_slash [OF False] False
    by (auto simp: ValidateRelativePath_def Let_def)
qed (simp add: ValidateRelativePath_def Let_def)

text \<open>\<^verbatim>\<open>ValidateRelativePath\<close> accepts exactly the relative paths that name something below
  the workspace: not absolute, no drive prefix, no NUL or backslash, and after cleaning at least one
  element, every one a plain name.\<close>

theorem ValidateRelativePath_iff:
  "ValidateRelativePath r = None \<longleftrightarrow>
     \<not> isAbs r \<and> \<not> looksLikePortableAbsolutePath r \<and> CHR 0x00 \<notin> set r \<and> CHR 0x5C \<notin> set r \<and>
     pathElems r \<noteq> [] \<and> list_all plainElem (pathElems r)"
  by (rule valid_relative)

section \<open>Resolution\<close>

lemma isAbs_join: "isAbs c \<Longrightarrow> isAbs (goJoin [c, e])"
proof -
  assume "isAbs c"
  then obtain s where c: "c = slash # s" by (auto simp: isAbs_def split: list.splits)
  then have "goJoin [c, e] = goClean (c @ slash # e)" by (simp add: goJoin_def)
  moreover have "isAbs (c @ slash # e)" using c by (simp add: isAbs_def)
  ultimately show ?thesis by simp
qed

lemma splitOn_append_any: "splitOn c (a @ c # b) = splitOn c a @ splitOn c b"
  by (induction a) (auto split: list.splits)

lemma pathElems_join:
  assumes "isAbs c" "slash \<notin> set e" "plainElem e"
  shows "pathElems (goJoin [c, e]) = pathElems c @ [e]"
proof -
  obtain s where c: "c = slash # s" using assms(1) by (auto simp: isAbs_def split: list.splits)
  then have j: "goJoin [c, e] = goClean (c @ slash # e)" by (simp add: goJoin_def)
  have a: "isAbs (c @ slash # e)" using c by (simp add: isAbs_def)
  have "splitOn slash (c @ slash # e) = splitOn slash c @ [e]"
    by (simp add: splitOn_append_any splitOn_single [OF assms(2)])
  then show ?thesis using assms(1,3) a unfolding j pathElems_goClean
    by (simp add: pathElems_def cleanElems_def plainElem_def)
qed

lemma isAbs_goAbs: "isAbs (fsCwd fs) \<Longrightarrow> isAbs (goAbs fs p)"
  by (simp add: goAbs_def isAbs_join)

lemma existing_abs:
  "isAbs (fsCwd fs) \<Longrightarrow> normalizeExisting fs p = Inr r \<Longrightarrow> isAbs r"
  by (auto simp: normalizeExisting_def InspectExistingPath_def bindR_Inr_iff isAbs_goAbs Let_def
    split: if_splits option.splits)

lemma join_all:
  assumes "isAbs c" "list_all plainElem es"
  shows "isAbs (foldl (\<lambda>a e. goJoin [a, e]) c es) \<and> pathElems (foldl (\<lambda>a e. goJoin [a, e]) c es) = pathElems c @ es"
  using assms
proof (induction es arbitrary: c)
  case (Cons e es)
  then have "slash \<notin> set e" by (simp add: plainElem_def)
  then show ?case using Cons.IH [of "goJoin [c, e]"] Cons.prems
    by (simp add: isAbs_join pathElems_join)
qed simp

lemma strict_below:
  assumes "prefix r c" "es \<noteq> []" shows "strict_prefix r (c @ es)"
  using assms by (auto simp: prefix_def strict_prefix_def)

lemma writeWalk_inside:
  assumes "writeWalk fs root c parts = Inr p" "isAbs root" "isAbs c" "isAbs (fsCwd fs)" "list_all plainElem parts"
    "prefix (pathElems root) (pathElems c)"
  shows "strict_prefix (pathElems root) (pathElems p)"
  using assms
proof (induction fs root c parts rule: writeWalk.induct)
  case (2 fs root c part)
  then have "slash \<notin> set part" "plainElem part" by (auto simp: plainElem_def)
  then have "pathElems p = pathElems c @ [part]"
    using 2 pathElems_join by (auto simp: Let_def split: if_splits)
  then show ?case using strict_below [OF "2.prems"(6), of "[part]"] by simp
next
  case (3 fs root c part p2 rest)
  let ?d = "goJoin [c, part]"
  have part: "plainElem part" "list_all plainElem (p2 # rest)" using "3.prems"(5) by simp_all
  then have sl: "slash \<notin> set part" by (simp add: plainElem_def)
  note d = isAbs_join [OF "3.prems"(3), of part] pathElems_join [OF "3.prems"(3) sl part(1)]
  have pre: "prefix (pathElems root) (pathElems ?d)" using "3.prems"(6) unfolding d(2) by (rule prefix_prefix)
  show ?case
  proof (cases "fsLstat fs ?d")
    case NotExist
    then have "p = goClean (foldl (\<lambda>a e. goJoin [a, e]) ?d (p2 # rest))"
      using "3.prems"(1) by (auto simp: Let_def split: if_splits)
    then have "pathElems p = pathElems ?d @ (p2 # rest)" using join_all [OF d(1) part(2)] by simp
    then show ?thesis using strict_below [OF pre] by simp
  next
    case Directory
    then have "writeWalk fs root ?d (p2 # rest) = Inr p" using "3.prems"(1) by (simp add: Let_def)
    then show ?thesis using "3.IH"(1) [OF refl Directory] "3.prems"(2,4) d(1) part(2) pre by blast
  next
    case Symlink
    then obtain t where t: "fsEval fs ?d = Some t" "pathWithinRoot root (goClean (goAbs fs t))"
      "writeWalk fs root (goClean (goAbs fs t)) (p2 # rest) = Inr p"
      using "3.prems"(1) by (auto simp: Let_def split: if_splits option.splits)
    have a: "isAbs (goClean (goAbs fs t))" using isAbs_goAbs [OF "3.prems"(4)] by simp
    then have "prefix (pathElems root) (pathElems (goClean (goAbs fs t)))"
      using t(2) within_prefix [OF "3.prems"(2)] by simp
    then show ?thesis using "3.IH"(2) [OF refl Symlink t(1) refl] t a "3.prems"(2,4) part(2) by simp
  qed (use "3.prems"(1) in \<open>simp_all add: Let_def\<close>)
qed simp

lemma resolve_inside:
  assumes "ResolveRelativePath fs root relative = Inr p" "isAbs (fsCwd fs)"
  shows "\<exists>r. normalizeExisting fs root = Inr r \<and> strict_prefix (pathElems r) (pathElems p)"
proof -
  let ?c = "goClean relative"
  obtain r q where rq: "normalizeExisting fs root = Inr r" "normalizeExisting fs (goJoin [r, goDir ?c]) = Inr q"
    "pathWithinRoot r q" "p = goClean (goJoin [q, goBase ?c])" and na: "\<not> isAbs relative"
    and c: "\<not> (?c = ''.'' \<or> ?c = ''..'' \<or> hasPrefix ?c ''../'')"
    using assms(1) unfolding ResolveRelativePath_def Let_def
    by (auto simp: bindR_Inr_iff split: if_splits)
  have es: "pathElems relative \<noteq> []" "list_all plainElem (pathElems relative)" using relative_clean [OF na] c by auto
  let ?e = "last (pathElems relative)"
  have e: "plainElem ?e" using es by (simp add: list_all_iff)
  have j: "?c = joinWith [slash] (pathElems relative)" using na es by (simp add: goClean_elems renderPath_def)
  have s: "splitOn slash ?c = pathElems relative"
    unfolding j using es by (intro splitOn_join) (auto simp: list_all_iff plainElem_def)
  have "last ?c \<noteq> slash"
  proof
    assume l: "last ?c = slash"
    then have "?c = butlast ?c @ slash # []" by (metis append_butlast_last_id goClean_nonempty)
    then have "splitOn slash ?c = splitOn slash (butlast ?c) @ splitOn slash []" by (metis splitOn_append_any)
    then have "?e = []" using s by (metis last_snoc splitOn.simps(1))
    then show False using e by (simp add: plainElem_def)
  qed
  then have "dropWhile (\<lambda>x. x = slash) (rev ?c) = rev ?c"
    by (cases "rev ?c") (auto simp: last_rev [symmetric])
  then have b: "goBase ?c = ?e" using s e by (simp add: goBase_def plainElem_def)
  have q: "isAbs q" "isAbs r" using existing_abs [OF assms(2)] rq by blast+
  have "slash \<notin> set ?e" using e by (simp add: plainElem_def)
  then have "pathElems p = pathElems q @ [?e]" unfolding rq(4) pathElems_goClean b using q(1) e by (intro pathElems_join)
  moreover have "prefix (pathElems r) (pathElems q)" using within_prefix [OF q(2,1)] rq(3) by simp
  ultimately show ?thesis using rq(1) strict_below by auto
qed

lemma resolve_write_inside:
  assumes "ResolveRelativePathForWrite fs root relative = Inr p" "isAbs (fsCwd fs)"
  shows "\<exists>r. normalizeExisting fs root = Inr r \<and> strict_prefix (pathElems r) (pathElems p)"
proof -
  obtain r where r: "ValidateRelativePath relative = None" "normalizeExisting fs root = Inr r"
    "writeWalk fs r r (splitOn slash (goClean relative)) = Inr p"
    using assms(1) unfolding ResolveRelativePathForWrite_def by (auto simp: bindR_Inr_iff split: option.splits)
  have na: "\<not> isAbs relative" and es: "pathElems relative \<noteq> []" "list_all plainElem (pathElems relative)"
    using r(1) by (auto simp: valid_relative)
  have "goClean relative = joinWith [slash] (pathElems relative)" using na es by (simp add: goClean_elems renderPath_def)
  then have "splitOn slash (goClean relative) = pathElems relative"
    using es by (auto intro!: splitOn_join simp: list_all_iff plainElem_def)
  moreover have "isAbs r" using existing_abs [OF assms(2)] r(2) by blast
  ultimately show ?thesis using r assms(2) es(2) writeWalk_inside by auto
qed

text \<open>C25. No path leaves the workspace: whatever the file system answers, a path that
  \<^verbatim>\<open>ResolveRelativePath\<close> or \<^verbatim>\<open>ResolveRelativePathForWrite\<close> returns lies strictly beneath the
  real root, element by element; a symlink in a parent never leads out and the root itself is
  never returned.\<close>

theorem resolved_paths_stay_inside:
  assumes "ResolveRelativePath fs root relative = Inr p \<or> ResolveRelativePathForWrite fs root relative = Inr p"
    and "isAbs (fsCwd fs)"
  shows "\<exists>r. normalizeExisting fs root = Inr r \<and> strict_prefix (pathElems r) (pathElems p)"
  using assms resolve_inside resolve_write_inside by blast

text \<open>A file system with one symlink that leads out of the workspace and one that stays inside.\<close>

definition linkFs :: filesystem where
  "linkFs = \<lparr>fsCwd = ''/'',
     fsEval = (\<lambda>p. if p = ''/w/out'' then Some ''/etc'' else if p = ''/w/in'' then Some ''/w/real'' else Some p),
     fsMissing = (\<lambda>_. False),
     fsLstat = (\<lambda>p. if p = ''/w/out'' \<or> p = ''/w/in'' then Symlink else Directory)\<rparr>"

lemma resolved_paths_stay_inside_witness:
  "ResolveRelativePathForWrite linkFs ''/w'' ''out/f'' = Inl ErrPathOutsideRoots \<and>
   ResolveRelativePathForWrite linkFs ''/w'' ''in/f'' = Inr ''/w/real/f'' \<and>
   (\<exists>r. normalizeExisting linkFs ''/w'' = Inr r \<and> strict_prefix (pathElems r) (pathElems ''/w/real/f''))"
proof -
  have a: "ResolveRelativePathForWrite linkFs ''/w'' ''in/f'' = Inr ''/w/real/f''" by code_simp
  moreover have "ResolveRelativePathForWrite linkFs ''/w'' ''out/f'' = Inl ErrPathOutsideRoots" by code_simp
  moreover have "isAbs (fsCwd linkFs)" by code_simp
  then have "\<exists>r. normalizeExisting linkFs ''/w'' = Inr r \<and> strict_prefix (pathElems r) (pathElems ''/w/real/f'')"
    using resolved_paths_stay_inside a by blast
  ultimately show ?thesis by blast
qed

end
