(* ===== verification/CheckpointResults.thy ===== *)
theory CheckpointResults
  imports CheckpointDiff PathsResults
begin

text \<open>
  What the text side of the execution checkpoints promises: the bounds of what is captured and
  stored, the parsers against the formats Git prints, and the one input that makes the hunk parser
  panic.
\<close>

section \<open>The bounded writer\<close>

definition newlines :: "gostring \<Rightarrow> int" where
  "newlines s = int (count_list s newlineChar)"

text \<open>What fits: the byte bound, and no byte after the last allowed newline.\<close>

definition fits :: "int \<Rightarrow> int \<Rightarrow> gostring \<Rightarrow> bool" where
  "fits maxBytes maxLines s \<longleftrightarrow>
     (maxBytes > 0 \<longrightarrow> int (length s) \<le> maxBytes) \<and> (maxLines > 0 \<longrightarrow> s = [] \<or> newlines (butlast s) < maxLines)"

lemma newlines_simps [simp]:
  "newlines [] = 0" "newlines (c # s) = (if c = newlineChar then 1 else 0) + newlines s"
  "newlines (a @ b) = newlines a + newlines b"
  by (simp_all add: newlines_def)

lemma newlines_nonneg [simp]: "0 \<le> newlines s"
  by (simp add: newlines_def)

lemma fits_snoc:
  "fits mb ml (s @ [c]) \<longleftrightarrow> (mb > 0 \<longrightarrow> int (length s) < mb) \<and> (ml > 0 \<longrightarrow> newlines s < ml)"
  by (auto simp: fits_def)

lemma newlines_butlast: "newlines (butlast s) \<le> newlines s"
  by (cases s rule: rev_cases) simp_all

lemma fits_append: "fits mb ml (s @ t) \<Longrightarrow> fits mb ml s"
proof (induction t rule: rev_induct)
  case (snoc c t)
  then have f: "(mb > 0 \<longrightarrow> int (length (s @ t)) < mb) \<and> (ml > 0 \<longrightarrow> newlines (s @ t) < ml)"
    using fits_snoc [of mb ml "s @ t" c] by simp
  then have "fits mb ml (s @ t)" using newlines_butlast [of "s @ t"] by (auto simp: fits_def)
  then show ?case by (rule snoc.IH)
qed simp

text \<open>The state of the writer after the bytes \<open>s\<close>.\<close>

definition wrote :: "int \<Rightarrow> int \<Rightarrow> gostring \<Rightarrow> bounded_writer \<Rightarrow> bool" where
  "wrote mb ml s w \<longleftrightarrow>
     (\<exists>rest. s = bwBytes w @ rest \<and> bwTruncated w = (rest \<noteq> []) \<and>
        (rest \<noteq> [] \<longrightarrow> \<not> fits mb ml (bwBytes w @ [hd rest]))) \<and>
     bwLines w = newlines (bwBytes w) \<and> fits mb ml (bwBytes w)"

lemma wrote_start: "wrote mb ml [] newWriter"
  by (simp add: wrote_def newWriter_def fits_def)

lemma wrote_byte:
  assumes "wrote mb ml s w"
  shows "wrote mb ml (s @ [c]) (writeByte mb ml c w)"
proof -
  obtain rest where r: "s = bwBytes w @ rest" "bwTruncated w = (rest \<noteq> [])"
    "rest \<noteq> [] \<longrightarrow> \<not> fits mb ml (bwBytes w @ [hd rest])" and l: "bwLines w = newlines (bwBytes w)"
    "fits mb ml (bwBytes w)" using assms by (auto simp: wrote_def)
  have full: "(mb > 0 \<and> int (length (bwBytes w)) \<ge> mb) \<or> (ml > 0 \<and> bwLines w \<ge> ml) \<longleftrightarrow>
      \<not> fits mb ml (bwBytes w @ [x])" for x
    by (auto simp: fits_snoc l(1))
  show ?thesis
  proof (cases "fits mb ml (bwBytes w @ [c])")
    case True
    then have "rest = []" using r(3) full by blast
    then show ?thesis using r l(1) full [of c] True by (simp add: writeByte_def wrote_def)
  next
    case False
    then have "writeByte mb ml c w = w\<lparr>bwTruncated := True\<rparr>" using full [of c] by (simp add: writeByte_def)
    then show ?thesis using r(1,3) l False
      by (auto simp: wrote_def hd_append intro!: exI [of _ "rest @ [c]"])
  qed
qed

lemma wrote_write: "wrote mb ml s w \<Longrightarrow> wrote mb ml (s @ t) (boundedWrite mb ml t w)"
  unfolding boundedWrite_def
proof (induction t arbitrary: s w)
  case (Cons c t)
  then show ?case using Cons.IH [OF wrote_byte [OF Cons.prems, of c]] by simp
qed simp

lemma wrote_chunks:
  "wrote mb ml s w \<Longrightarrow> wrote mb ml (s @ concat chunks) (fold (boundedWrite mb ml) chunks w)"
proof (induction chunks arbitrary: s w)
  case (Cons t chunks)
  then show ?case using Cons.IH [OF wrote_write [OF Cons.prems, of t]] by simp
qed simp

text \<open>The writer of a command whose output arrives in pieces.\<close>

definition writeChunks :: "int \<Rightarrow> int \<Rightarrow> gostring list \<Rightarrow> bounded_writer" where
  "writeChunks maxBytes maxLines chunks = fold (boundedWrite maxBytes maxLines) chunks newWriter"

text \<open>The bounded writer is the longest prefix: however Git's output arrives in pieces,
  the writer keeps the longest prefix of the whole that meets the byte bound and has nothing after the
  last allowed newline, and reports truncation exactly when something is missing.\<close>

theorem bounded_writer_longest_prefix:
  "prefix (bwBytes (writeChunks mb ml chunks)) (concat chunks) \<and> fits mb ml (bwBytes (writeChunks mb ml chunks)) \<and>
    (\<nexists>p. prefix p (concat chunks) \<and> fits mb ml p \<and> length p > length (bwBytes (writeChunks mb ml chunks))) \<and>
    (bwTruncated (writeChunks mb ml chunks) \<longleftrightarrow> bwBytes (writeChunks mb ml chunks) \<noteq> concat chunks)"
proof -
  define v where "v = writeChunks mb ml chunks"
  have "wrote mb ml (concat chunks) v" using wrote_chunks [OF wrote_start, of mb ml chunks] by (simp add: v_def writeChunks_def)
  then obtain rest where r: "concat chunks = bwBytes v @ rest" "bwTruncated v = (rest \<noteq> [])"
    "rest \<noteq> [] \<longrightarrow> \<not> fits mb ml (bwBytes v @ [hd rest])" "fits mb ml (bwBytes v)" by (auto simp: wrote_def)
  have "\<not> fits mb ml p" if p: "prefix p (concat chunks)" "length p > length (bwBytes v)" for p
  proof -
    obtain q where q: "p = bwBytes v @ q" "q \<noteq> []" "prefix q rest"
      using p r(1) by (auto simp: prefix_def append_eq_append_conv2)
    then have "p = (bwBytes v @ [hd rest]) @ tl q" by (cases q) (auto simp: prefix_def)
    moreover have "rest \<noteq> []" using q by auto
    ultimately show ?thesis using r(3) fits_append by metis
  qed
  then show ?thesis using r by (fold v_def) auto
qed
lemma writer_prefix:
  "limitedOutput mb ml raw = (p, t) \<Longrightarrow> prefix p raw \<and> fits mb ml p \<and> (t \<longleftrightarrow> p \<noteq> raw)"
proof -
  assume l: "limitedOutput mb ml raw = (p, t)"
  have "wrote mb ml ([] @ raw) (boundedWrite mb ml raw newWriter)" by (rule wrote_write [OF wrote_start])
  then obtain rest where "raw = p @ rest" "t = (rest \<noteq> [])" "fits mb ml p"
    using l by (auto simp: wrote_def limitedOutput_def Let_def)
  then show ?thesis by auto
qed

section \<open>Bounded text\<close>

lemma newlines_encodeRune: "newlines (encodeRune r) = (if r = 10 then 1 else 0)"
proof (cases "r < 128")
  case True
  then have "encodeRune r = [unbyte r]" by (rule encodeRune_ascii)
  moreover have "unbyte r = newlineChar \<longleftrightarrow> r = 10"
  proof
    assume "unbyte r = newlineChar"
    then have "byte (unbyte r) = (10::nat)" by simp
    then show "r = 10" using True by simp
  next
    assume "r = 10"
    moreover have "unbyte 10 = newlineChar" by code_simp
    ultimately show "unbyte r = newlineChar" by simp
  qed
  ultimately show ?thesis by simp
next
  case False
  have "\<forall>b \<in> set (encodeRuneB r). 128 \<le> b" using False by (auto simp: encodeRuneB_def)
  moreover have "b < 256" if "b \<in> set (encodeRuneB r)" for b using encodeRuneB_bytes [OF that] .
  ultimately have "\<forall>c \<in> set (encodeRune r). 128 \<le> (byte c :: nat)" by (auto simp: encodeRune_def)
  then have "newlineChar \<notin> set (encodeRune r)" by force
  then show ?thesis using False by (simp add: newlines_def)
qed

lemma newlines_encodeRunes: "newlines (encodeRunes rs) = int (count_list rs 10)"
  by (induction rs) (simp_all add: newlines_encodeRune)

lemma boundLoop_spec:
  assumes "boundLoop mb ml rs b l = (p, t)" "l \<le> ml" "int (length b) \<le> mb"
  shows "\<exists>n \<le> length rs. p = b @ encodeRunes (take n rs) \<and> int (length p) \<le> mb \<and>
    l + int (count_list (take n rs) 10) \<le> ml \<and> (t \<longleftrightarrow> n < length rs) \<and>
    (n < length rs \<longrightarrow> int (length p) + int (length (encodeRune (rs ! n))) > mb \<or> l + int (count_list (take n rs) 10) \<ge> ml)"
  using assms
proof (induction rs arbitrary: b l)
  case Nil
  then show ?case by simp
next
  case (Cons r rs)
  show ?case
  proof (cases "int (length b) + int (length (encodeRune r)) > mb \<or> l \<ge> ml")
    case True
    then have "p = b \<and> t" using Cons.prems(1) by auto
    then show ?thesis using True Cons.prems(2,3) by (intro exI [of _ 0]) auto
  next
    case False
    let ?l = "if r = 10 then l + 1 else l"
    have "boundLoop mb ml rs (b @ encodeRune r) ?l = (p, t)" using Cons.prems(1) False by simp
    moreover have "?l \<le> ml" "int (length (b @ encodeRune r)) \<le> mb" using False by auto
    ultimately obtain n where n: "n \<le> length rs" "p = (b @ encodeRune r) @ encodeRunes (take n rs)" "int (length p) \<le> mb"
      "?l + int (count_list (take n rs) 10) \<le> ml" "t \<longleftrightarrow> n < length rs"
      "n < length rs \<longrightarrow> int (length p) + int (length (encodeRune (rs ! n))) > mb \<or> ?l + int (count_list (take n rs) 10) \<ge> ml"
      using Cons.IH [of "b @ encodeRune r" ?l] by blast
    have c: "l + int (count_list (take (Suc n) (r # rs)) 10) = ?l + int (count_list (take n rs) 10)" by auto
    show ?thesis
    proof (intro exI [of _ "Suc n"] conjI)
      show "l + int (count_list (take (Suc n) (r # rs)) 10) \<le> ml" using n(4) c by linarith
      show "Suc n < length (r # rs) \<longrightarrow> int (length p) + int (length (encodeRune ((r # rs) ! Suc n))) > mb \<or>
          l + int (count_list (take (Suc n) (r # rs)) 10) \<ge> ml"
        using n(6) unfolding c by simp
    qed (use n in simp_all)
  qed
qed

text \<open>Bounded text is cut between characters: of any text the function returns the first
  characters, as many as fit (the next one would pass the byte bound, or the line bound is reached), and
  reports truncation exactly when some are left; the bounds hold for the result.\<close>

theorem boundCheckpointText_correct:
  assumes "maxBytes > 0" "maxLines > 0" "boundCheckpointText value maxBytes maxLines = (p, t)"
  shows "\<exists>n \<le> length (runes value). p = encodeRunes (take n (runes value)) \<and>
    int (length p) \<le> maxBytes \<and> newlines p \<le> maxLines \<and> (t \<longleftrightarrow> n < length (runes value)) \<and>
    (t \<longrightarrow> int (length p) + int (length (encodeRune (runes value ! n))) > maxBytes \<or> newlines p = maxLines)"
proof -
  have "boundLoop maxBytes maxLines (runes value) [] 0 = (p, t)"
    using assms by (simp add: boundCheckpointText_def split: if_splits)
  from boundLoop_spec [OF this] obtain n where n: "n \<le> length (runes value)" "p = encodeRunes (take n (runes value))"
    "int (length p) \<le> maxBytes" "int (count_list (take n (runes value)) 10) \<le> maxLines" "t \<longleftrightarrow> n < length (runes value)"
    "n < length (runes value) \<longrightarrow> int (length p) + int (length (encodeRune (runes value ! n))) > maxBytes \<or>
       int (count_list (take n (runes value)) 10) \<ge> maxLines"
    using assms(1,2) by auto
  have "newlines p = int (count_list (take n (runes value)) 10)" unfolding n(2) by (rule newlines_encodeRunes)
  then show ?thesis using n by (intro exI [of _ n]) auto
qed

lemma boundCheckpointText_correct_witness:
  "boundCheckpointText [CHR ''a'', CHR 0xC3, CHR 0xA9, CHR ''b''] 2 5 = (''a'', True) \<and>
   int (length ''a'') \<le> 2 \<and> newlines ''a'' \<le> 5"
proof -
  have "boundCheckpointText [CHR ''a'', CHR 0xC3, CHR 0xA9, CHR ''b''] 2 5 = (''a'', True)" by code_simp
  then show ?thesis using boundCheckpointText_correct [of 2 5] by fastforce
qed

section \<open>Hunk headers\<close>

lemma indexFrom_hit: "hasPrefix s p \<Longrightarrow> indexFrom p i s = Some i"
  by (cases s; cases p) auto

lemma indexFrom_skip:
  "c \<notin> set a \<Longrightarrow> indexFrom (c # p) i (a @ s) = indexFrom (c # p) (i + length a) s"
proof (induction a arbitrary: i)
  case (Cons x a)
  then show ?case using Cons.IH [of "Suc i"] by auto
qed simp

lemma goCut_showNat: "goCut CHR '','' (showNat a @ CHR '','' # showNat b) = (showNat a, Some (showNat b))"
  by (rule goCut_append) (simp add: showNat_def digitsOf_no isDigitChar_def)

lemma range_pair:
  assumes "a < 2 ^ 63" "b < 2 ^ 63"
  shows "parseCheckpointHunkRange (showNat a @ '','' @ showNat b) = Some (int a, int b)"
  using assms by (simp add: parseCheckpointHunkRange_def goCut_showNat goAtoi_showNat)

lemma spaceAt_notspace:
  assumes "c \<in> set (showNat n) \<or> c = CHR '','' \<or> c = CHR ''-'' \<or> c = CHR ''+''"
  shows "spaceAt (c # s) = 0"
proof -
  have "c \<noteq> hd w \<and> w \<noteq> []" if "w \<in> set spaceSeqs" for w
  proof -
    have "list_all (\<lambda>w. w \<noteq> [] \<and> \<not> isDigitChar (hd w) \<and> hd w \<notin> {CHR '','', CHR ''-'', CHR ''+''}) spaceSeqs"
      by code_simp
    then have w: "w \<noteq> []" "\<not> isDigitChar (hd w)" "hd w \<notin> {CHR '','', CHR ''-'', CHR ''+''}"
      using that by (auto simp: list_all_iff)
    have "isDigitChar c" if "c \<in> set (showNat n)"
      using that digitsOf_isDigit [of n] by (auto simp: showNat_def list_all_iff)
    then show ?thesis using w assms by auto
  qed
  then have "\<not> hasPrefix (c # s) w" if "w \<in> set spaceSeqs" for w
    using that by (cases w) fastforce+
  then have "find (hasPrefix (c # s)) spaceSeqs = None" by (simp add: find_None_iff)
  then show ?thesis by (simp add: spaceAt_def)
qed

lemma fieldsFrom_word:
  assumes "\<And>c s. c \<in> set a \<Longrightarrow> spaceAt (c # s) = 0"
  shows "fieldsFrom w (a @ s) = fieldsFrom (w @ a) s"
  using assms
proof (induction a arbitrary: w)
  case (Cons c a)
  then show ?case using Cons.IH [of "w @ [c]"] by simp
qed simp

lemma spaceAt_blank: "spaceAt (CHR '' '' # s) = 1"
proof -
  let ?P = "\<lambda>w. \<not> hasPrefix (CHR '' '' # s) w"
  have "spaceSeqs = take 5 spaceSeqs @ ('' '' # drop 6 spaceSeqs)" by code_simp
  moreover have "list_all (\<lambda>w. w \<noteq> [] \<and> hd w \<noteq> CHR '' '') (take 5 spaceSeqs)" by code_simp
  then have "?P w" if "w \<in> set (take 5 spaceSeqs)" for w
    using that by (cases w) (fastforce simp: list_all_iff)+
  then have "dropWhile ?P (take 5 spaceSeqs @ ('' '' # drop 6 spaceSeqs)) = '' '' # drop 6 spaceSeqs"
    by (subst dropWhile_append2) simp_all
  ultimately have "find (hasPrefix (CHR '' '' # s)) spaceSeqs = Some '' ''"
    by (simp add: find_dropWhile o_def)
  then show ?thesis by (simp add: spaceAt_def)
qed

lemma number_word:
  "c \<in> set (CHR ''-'' # showNat a @ '','' @ showNat b) \<Longrightarrow> spaceAt (c # s) = 0"
  "c \<in> set (CHR ''+'' # showNat a @ '','' @ showNat b) \<Longrightarrow> spaceAt (c # s) = 0"
  by (auto intro: spaceAt_notspace)

lemma header_fields:
  "goFields (''-'' @ showNat a @ '','' @ showNat b @ '' +'' @ showNat c @ '','' @ showNat d) =
     [''-'' @ showNat a @ '','' @ showNat b, ''+'' @ showNat c @ '','' @ showNat d]"
proof -
  let ?o = "CHR ''-'' # showNat a @ '','' @ showNat b" and ?n = "CHR ''+'' # showNat c @ '','' @ showNat d"
  have "fieldsFrom [] (?o @ '' '' @ ?n) = fieldsFrom ?o ('' '' @ ?n)"
    by (subst fieldsFrom_word) (use number_word(1) [of _ a b] in simp_all)
  also have "\<dots> = ?o # fieldsFrom [] (?n @ [])" by (simp add: spaceAt_blank)
  also have "fieldsFrom [] (?n @ []) = fieldsFrom ?n []"
    by (subst fieldsFrom_word) (use number_word(2) [of _ c d] in simp_all)
  finally show ?thesis by (simp add: goFields_def)
qed

definition rangeText :: "nat \<Rightarrow> nat \<Rightarrow> nat \<Rightarrow> nat \<Rightarrow> gostring" where
  "rangeText a b c d = ''-'' @ showNat a @ '','' @ showNat b @ '' +'' @ showNat c @ '','' @ showNat d"

text \<open>Hunk headers round trip: a header as Git prints it, with any function context behind
  the second marker, is read back as the four numbers it was printed from.\<close>

theorem hunk_header_roundtrip:
  assumes "a < 2 ^ 63" "b < 2 ^ 63" "c < 2 ^ 63" "d < 2 ^ 63"
  shows "parseCheckpointHunkHeader (''@@ '' @ rangeText a b c d @ '' @@'' @ context1) =
    Some (Some (int a, int b, int c, int d))"
proof -
  let ?o = "''-'' @ showNat a @ '','' @ showNat b" and ?n = "''+'' @ showNat c @ '','' @ showNat d"
  have no: "CHR '' '' \<notin> set ?o" "CHR '' '' \<notin> set ?n" by (simp_all add: showNat_def digitsOf_no isDigitChar_def)
  let ?rest = "rangeText a b c d @ '' @@'' @ context1"
  have r: "?rest = ?o @ '' '' @ ?n @ '' @@'' @ context1" by (simp add: rangeText_def)
  have "goIndex ?rest '' @@'' = indexFrom '' @@'' (length ?o) ('' '' @ ?n @ '' @@'' @ context1)"
    unfolding r goIndex_def by (subst indexFrom_skip [OF no(1)]) simp
  also have "\<dots> = indexFrom '' @@'' (Suc (length ?o)) (?n @ '' @@'' @ context1)" by simp
  also have "\<dots> = indexFrom '' @@'' (Suc (length ?o) + length ?n) ('' @@'' @ context1)"
    by (rule indexFrom_skip [OF no(2)])
  also have "\<dots> = Some (length (rangeText a b c d))" by (simp add: indexFrom_hit rangeText_def)
  finally have i: "goIndex ?rest '' @@'' = Some (length (rangeText a b c d))" .
  have f: "goFields (rangeText a b c d) = [?o, ?n]" unfolding rangeText_def by (rule header_fields)
  show ?thesis using f assms
    by (simp add: parseCheckpointHunkHeader_def i [simplified] range_pair [simplified])
qed

lemma hunk_header_roundtrip_witness:
  "parseCheckpointHunkHeader ''@@ -12,0 +13,7 @@ func main() {'' = Some (Some (12, 0, 13, 7))"
proof -
  have t: "rangeText 12 0 13 7 = ''-12,0 +13,7''" by code_simp
  have "parseCheckpointHunkHeader (''@@ '' @ rangeText 12 0 13 7 @ '' @@'' @ '' func main() {'') =
      Some (Some (int 12, int 0, int 13, int 7))"
    by (rule hunk_header_roundtrip) simp_all
  then show ?thesis by (simp add: t)
qed

section \<open>The panic of the hunk parser\<close>

lemma header_None: "parseCheckpointHunkHeader h = None \<longleftrightarrow> length h < 3"
  by (auto simp: parseCheckpointHunkHeader_def split: option.splits list.splits)

lemma hunkLoop_None:
  "hunkLoop o1 hs ls = None \<longleftrightarrow>
     (\<exists>l \<in> set ls. hasPrefix (toValidUTF8 l) ''@@ '' \<and> length (trimSpace (toValidUTF8 l)) < 3)"
proof (induction ls arbitrary: o1 hs)
  case (Cons l ls)
  show ?case
  proof (cases "hasPrefix (toValidUTF8 l) ''@@ ''")
    case False
    then show ?thesis using Cons.IH by (simp add: Let_def)
  next
    case True
    note IH = Cons.IH
    show ?thesis
    proof (cases "parseCheckpointHunkHeader (trimSpace (toValidUTF8 l))")
      case None
      then have "length (trimSpace (toValidUTF8 l)) < 3" using header_None by blast
      then show ?thesis using True None by (simp add: Let_def)
    next
      case (Some r)
      then have "\<not> length (trimSpace (toValidUTF8 l)) < 3" using header_None by (metis option.distinct(1))
      moreover have "hunkLoop o1 hs (l # ls) = None \<longleftrightarrow>
          (\<exists>l \<in> set ls. hasPrefix (toValidUTF8 l) ''@@ '' \<and> length (trimSpace (toValidUTF8 l)) < 3)"
        using True Some IH by (cases r) (auto simp: Let_def split: prod.splits)
      ultimately show ?thesis by auto
    qed
  qed
qed simp

lemma trimL_drops:
  assumes "[] \<notin> set seqs"
  shows "\<exists>p. s = p @ trimL seqs s \<and> set p \<subseteq> \<Union> (set ` set seqs)"
  using assms
proof (induction seqs s rule: trimL.induct)
  case (2 seqs c s)
  show ?case
  proof (cases "find (hasPrefix (c # s)) seqs")
    case (Some w)
    then have w: "w \<in> set seqs" "hasPrefix (c # s) w" by (auto simp: find_Some_iff)
    have "w \<noteq> []" using w(1) "2.prems" by metis
    then obtain v where v: "w = c # v" "s = v @ drop (length v) s" using w(2)
      by (cases w) (auto simp: hasPrefix_iff)
    obtain p where "drop (length v) s = p @ trimL seqs (drop (length v) s)" "set p \<subseteq> \<Union> (set ` set seqs)"
      using "2.IH" [OF Some "2.prems"] v(1) by auto
    moreover have "trimL seqs (c # s) = trimL seqs (drop (length v) s)" using Some v(1) by simp
    ultimately have "c # s = (w @ p) @ trimL seqs (c # s)" using v by simp
    moreover have "set w \<subseteq> \<Union> (set ` set seqs)" using w(1) by blast
    ultimately show ?thesis using \<open>set p \<subseteq> \<Union> (set ` set seqs)\<close> by (intro exI [of _ "w @ p"]) simp
  qed simp
qed simp

lemma trimL_stop:
  assumes "[] \<notin> set seqs" "\<forall>w \<in> set seqs. c \<notin> set w"
  shows "\<exists>x. trimL seqs (a @ c # b) = x @ c # b"
proof -
  obtain p where p: "a @ c # b = p @ trimL seqs (a @ c # b)" "set p \<subseteq> \<Union> (set ` set seqs)"
    using trimL_drops [OF assms(1)] by blast
  have "c \<notin> set p" using p(2) assms(2) by auto
  then show ?thesis using p(1) by (auto simp: append_eq_append_conv2 Cons_eq_append_conv)
qed

lemma trim_header:
  assumes "hasPrefix line ''@@ ''"
  shows "\<exists>r. trimSpace line = ''@@'' @ r"
proof -
  obtain t where t: "line = ''@@ '' @ t" using assms by (auto simp: hasPrefix_iff)
  have all: "list_all (\<lambda>w. w \<noteq> [] \<and> CHR ''@'' \<notin> set w) spaceSeqs" by code_simp
  have "\<not> hasPrefix line w" if "w \<in> set spaceSeqs" for w
  proof
    assume h: "hasPrefix line w"
    have "w \<noteq> [] \<and> CHR ''@'' \<notin> set w" using that all by (simp add: list_all_iff)
    then show False using h t by (cases w) auto
  qed
  then have l: "trimL spaceSeqs line = line" by (intro trimL_id) (simp add: noPre_def)
  have "[] \<notin> set (map rev spaceSeqs)" "\<forall>w \<in> set (map rev spaceSeqs). CHR ''@'' \<notin> set w"
    using all by (auto simp: list_all_iff)
  from trimL_stop [OF this, of "rev t @ '' ''" "''@''"]
  obtain x where "trimL (map rev spaceSeqs) (rev line) = x @ ''@@''" by (auto simp: t)
  then show ?thesis by (simp add: trimSpace_def l trimR_def)
qed

text \<open>The hunk parser panics on exactly one kind of patch: one with a line that starts like a
  hunk header and is nothing but the marker (\<^verbatim>\<open>header[3:]\<close> of a trimmed line of two bytes).\<close>

theorem parseCheckpointUnifiedHunks_panics:
  "parseCheckpointUnifiedHunks patch = None \<longleftrightarrow>
     list_ex (\<lambda>l. hasPrefix (toValidUTF8 l) ''@@ '' \<and> trimSpace (toValidUTF8 l) = ''@@'') (splitAfter newlineChar patch)"
proof -
  have "length (trimSpace l) < 3 \<longleftrightarrow> trimSpace l = ''@@''" if "hasPrefix l ''@@ ''" for l
    using trim_header [OF that] by auto
  then show ?thesis unfolding parseCheckpointUnifiedHunks_def hunkLoop_None list_ex_iff by blast
qed

text \<open>Such a patch is what the bounded writer makes of Git's output when the bytes left end right
  behind the marker of a hunk.\<close>

lemma truncated_patch_panics:
  "limitedOutput 3 100 ''@@ -1 +1 @@'' = (''@@ '', True) \<and> parseCheckpointUnifiedHunks ''@@ '' = None"
  by code_simp

section \<open>Name and status\<close>

text \<open>The records of \<^verbatim>\<open>git diff --name-status -z\<close>, with the score behind the letter.\<close>

definition statusLetter :: "gostring \<Rightarrow> char" where
  "statusLetter s =
     (if s = ''added'' then CHR ''A'' else if s = ''modified'' then CHR ''M'' else if s = ''deleted'' then CHR ''D''
      else if s = ''type_changed'' then CHR ''T'' else if s = ''unmerged'' then CHR ''U''
      else if s = ''renamed'' then CHR ''R'' else CHR ''C'')"

definition twoPaths :: "name_status \<Rightarrow> bool" where
  "twoPaths c \<longleftrightarrow> nsStatus c = ''renamed'' \<or> nsStatus c = ''copied''"

text \<open>A rename and a copy carry their similarity in per cent, three digits: \<^verbatim>\<open>R100\<close>, \<^verbatim>\<open>C075\<close>.\<close>

definition score :: "nat \<Rightarrow> gostring" where
  "score n = replicate (3 - length (digitsOf n)) (CHR ''0'') @ digitsOf n"

definition statusCode :: "name_status \<times> nat \<Rightarrow> gostring" where
  "statusCode x = statusLetter (nsStatus (fst x)) # (if twoPaths (fst x) then score (snd x) else [])"

definition recordParts :: "name_status \<times> nat \<Rightarrow> gostring list" where
  "recordParts x = statusCode x # (if twoPaths (fst x) then [nsPrevious (fst x)] else []) @ [nsPath (fst x)]"

definition printNameStatus :: "(name_status \<times> nat) list \<Rightarrow> gostring" where
  "printNameStatus xs = concat (map (\<lambda>p. p @ [CHR 0x00]) (concat (map recordParts xs)))"

definition printable :: "name_status \<Rightarrow> bool" where
  "printable c \<longleftrightarrow>
     nsStatus c \<in> {''added'', ''modified'', ''deleted'', ''type_changed'', ''unmerged'', ''renamed'', ''copied''} \<and>
     ValidateRelativePath (nsPath c) = None \<and>
     (if twoPaths c then ValidateRelativePath (nsPrevious c) = None else nsPrevious c = [])"

lemma split_terminated:
  "\<forall>p \<in> set ps. c \<notin> set p \<Longrightarrow> splitOn c (concat (map (\<lambda>p. p @ [c]) ps)) = ps @ [[]]"
proof (induction ps)
  case (Cons p ps)
  then have "splitOn c (p @ c # concat (map (\<lambda>p. p @ [c]) ps)) = p # splitOn c (concat (map (\<lambda>p. p @ [c]) ps))"
    by (intro splitOn_append) simp
  then show ?case using Cons by simp
qed simp

lemma valid_plain: "ValidateRelativePath p = None \<Longrightarrow> p \<noteq> [] \<and> CHR 0x00 \<notin> set p"
  by (auto simp: ValidateRelativePath_def Let_def split: if_splits)

lemma statusName_letter:
  "printable c \<Longrightarrow> statusName (statusLetter (nsStatus c)) = Some (nsStatus c)"
  by (auto simp: printable_def statusLetter_def statusName_def)

lemma letter_two: "printable c \<Longrightarrow> statusLetter (nsStatus c) = CHR ''R'' \<or> statusLetter (nsStatus c) = CHR ''C'' \<longleftrightarrow> twoPaths c"
  by (auto simp: printable_def statusLetter_def twoPaths_def)

lemma record_parsed:
  assumes "printable (fst x)"
  shows "nameStatusLoop limit acc (recordParts x @ rest) =
    (if limit \<le> length acc then Some (acc, True) else nameStatusLoop limit (acc @ [fst x]) rest)"
proof -
  let ?c = "fst x"
  have p: "nsPath ?c \<noteq> []" using assms valid_plain by (auto simp: printable_def)
  have "statusPaths (statusLetter (nsStatus ?c)) ((if twoPaths ?c then [nsPrevious ?c] else []) @ nsPath ?c # rest) =
      Some (nsPrevious ?c, nsPath ?c, rest)"
    using letter_two [OF assms] p assms by (cases "twoPaths ?c") (auto simp: statusPaths_def printable_def)
  then have sp: "statusPaths (statusLetter (nsStatus ?c)) (tl (recordParts x) @ rest) = Some (nsPrevious ?c, nsPath ?c, rest)"
    by (simp add: recordParts_def)
  have v: "ValidateRelativePath (nsPath ?c) = None" "nsPrevious ?c = [] \<or> ValidateRelativePath (nsPrevious ?c) = None"
    using assms by (auto simp: printable_def split: if_splits)
  have r: "recordParts x @ rest =
      (statusLetter (nsStatus ?c) # (if twoPaths ?c then score (snd x) else [])) # tl (recordParts x) @ rest"
    by (simp add: recordParts_def statusCode_def)
  have c: "\<lparr>nsStatus = nsStatus ?c, nsPath = nsPath ?c, nsPrevious = nsPrevious ?c\<rparr> = ?c" by simp
  have ok: "\<not> (nsPrevious ?c \<noteq> [] \<and> ValidateRelativePath (nsPrevious ?c) \<noteq> None)" using v(2) by auto
  show ?thesis unfolding r by (simp add: sp statusName_letter [OF assms] v(1) ok c del: not_None_eq)
qed

lemma records_parsed:
  "list_all (printable \<circ> fst) xs \<Longrightarrow>
   nameStatusLoop limit acc (concat (map recordParts xs) @ [[]]) =
     (if limit \<le> length acc + length xs then Some (acc @ take (limit - length acc) (map fst xs), True)
      else Some (acc @ map fst xs, False))"
proof (induction xs arbitrary: acc)
  case (Cons x xs)
  then show ?case by (simp add: record_parsed take_Cons' Suc_diff_le)
qed simp

lemma score_plain: "CHR 0x00 \<notin> set (score n)"
proof
  assume "CHR 0x00 \<in> set (score n)"
  then have "CHR 0x00 \<in> set (digitsOf n)" by (auto simp: score_def)
  then show False using digitsOf_digits by fastforce
qed

text \<open>C30. What Git prints is what is parsed, similarity scores of renames and copies included: for changes with valid
  paths (two of them for a rename or copy) the parser returns the first ones up to the limit, and says truncated as soon as
  the limit is reached; below the limit it returns the list that was printed. The scores are read over.\<close>

theorem name_status_roundtrip:
  assumes "list_all (printable \<circ> fst) xs"
  shows "parseCheckpointNameStatus (printNameStatus xs) limit = Some (take limit (map fst xs), limit \<le> length xs)"
proof -
  have "CHR 0x00 \<notin> set p" if c: "x \<in> set xs" "p \<in> set (recordParts x)" for x p
  proof -
    have "printable (fst x)" using assms c(1) by (simp add: list_all_iff)
    then show ?thesis using c(2) valid_plain score_plain
      by (auto simp: recordParts_def statusCode_def printable_def statusLetter_def split: if_splits)
  qed
  then have "splitOn (CHR 0x00) (printNameStatus xs) = concat (map recordParts xs) @ [[]]"
    unfolding printNameStatus_def by (intro split_terminated) auto
  then show ?thesis using records_parsed [OF assms, of limit "[]"] by (simp add: parseCheckpointNameStatus_def)
qed

definition exChanges :: "(name_status \<times> nat) list" where
  "exChanges = [(\<lparr>nsStatus = ''renamed'', nsPath = ''b'', nsPrevious = ''a''\<rparr>, 100),
     (\<lparr>nsStatus = ''copied'', nsPath = ''c'', nsPrevious = ''a''\<rparr>, 75), (\<lparr>nsStatus = ''added'', nsPath = ''c/d'', nsPrevious = []\<rparr>, 0)]"

lemma printed_scores: "take 2 (map statusCode exChanges) = [''R100'', ''C075'']"
  by code_simp

lemma name_status_roundtrip_witness:
  "parseCheckpointNameStatus (printNameStatus exChanges) 3 =
   Some ([\<lparr>nsStatus = ''renamed'', nsPath = ''b'', nsPrevious = ''a''\<rparr>, \<lparr>nsStatus = ''copied'', nsPath = ''c'', nsPrevious = ''a''\<rparr>,
     \<lparr>nsStatus = ''added'', nsPath = ''c/d'', nsPrevious = []\<rparr>], True)"
proof -
  have "list_all (printable \<circ> fst) exChanges" by code_simp
  from name_status_roundtrip [OF this, of 3] show ?thesis by (simp add: exChanges_def)
qed

section \<open>What is stored stays within the bounds\<close>

definition patchBytes :: "checkpoint_hunk list \<Rightarrow> int" where
  "patchBytes hs = (\<Sum>h\<leftarrow>hs. int (length (chPatch h)))"

definition patchLines :: "checkpoint_hunk list \<Rightarrow> int" where
  "patchLines hs = (\<Sum>h\<leftarrow>hs. newlines (chPatch h))"

lemma patch_simps [simp]:
  "patchBytes [] = 0" "patchBytes (h # hs) = int (length (chPatch h)) + patchBytes hs"
  "patchLines [] = 0" "patchLines (h # hs) = newlines (chPatch h) + patchLines hs"
  "patchBytes (gs @ hs) = patchBytes gs + patchBytes hs" "patchLines (gs @ hs) = patchLines gs + patchLines hs"
  by (simp_all add: patchBytes_def patchLines_def)

text \<open>What a budget has left never gets negative, and it goes down by exactly what is kept.\<close>

definition budgetOk :: "content_budget \<Rightarrow> bool" where
  "budgetOk b \<longleftrightarrow> cbBytes b \<ge> 0 \<and> cbLines b \<ge> 0 \<and> cbHunks b \<ge> 0"

definition spent :: "checkpoint_hunk list \<Rightarrow> content_budget \<Rightarrow> content_budget \<Rightarrow> bool" where
  "spent hs b b' \<longleftrightarrow> budgetOk b' \<and> cbBytes b = cbBytes b' + patchBytes hs \<and>
     cbLines b = cbLines b' + patchLines hs \<and> cbHunks b = cbHunks b' + int (length hs)"

lemma bound_text_bounds:
  assumes "boundCheckpointText v mb ml = (p, t)" "mb > 0" "ml > 0"
  shows "int (length p) \<le> mb \<and> newlines p \<le> ml"
proof -
  have l: "boundLoop mb ml (runes v) [] 0 = (p, t)" using assms by (simp add: boundCheckpointText_def split: if_splits)
  obtain n where "p = encodeRunes (take n (runes v))" "int (length p) \<le> mb" "int (count_list (take n (runes v)) 10) \<le> ml"
    using boundLoop_spec [OF l] assms(2,3) by auto
  then show ?thesis using newlines_encodeRunes by simp
qed

lemma boundHunk_spent:
  assumes "boundHunk h b = (h', t, b')" "cbBytes b > 0" "cbLines b > 0" "cbHunks b > 0"
  shows "spent [h'] b b' \<and> length (chHeader h') \<le> 1024"
proof -
  obtain p u where p: "boundCheckpointText (toValidUTF8 (chPatch h)) (cbBytes b) (cbLines b) = (p, u)" by fastforce
  then have "int (length p) \<le> cbBytes b \<and> newlines p \<le> cbLines b" using assms(2,3) by (rule bound_text_bounds)
  then show ?thesis using assms p
    by (auto simp: boundHunk_def Let_def spent_def budgetOk_def newlines_def)
qed

lemma boundHunks_spent:
  "boundHunks hs b = (out, b') \<Longrightarrow> budgetOk b \<Longrightarrow> spent out b b' \<and> list_all (\<lambda>h. length (chHeader h) \<le> 1024) out"
proof (induction hs arbitrary: b out b')
  case Nil
  then show ?case by (simp add: spent_def)
next
  case (Cons h hs)
  show ?case
  proof (cases "cbBytes b \<le> 0 \<or> cbLines b \<le> 0 \<or> cbHunks b \<le> 0")
    case True
    then show ?thesis using Cons.prems by (auto simp: spent_def budgetOk_def)
  next
    case False
    obtain h' t c where h: "boundHunk h b = (h', t, c)" by (cases "boundHunk h b") auto
    then have s: "spent [h'] b c" "length (chHeader h') \<le> 1024" using boundHunk_spent [OF h] False by auto
    show ?thesis
    proof (cases t)
      case True
      then show ?thesis using Cons.prems(1) False h s by auto
    next
      case f: False
      obtain r d where r: "boundHunks hs c = (r, d)" by fastforce
      have "spent r c d \<and> list_all (\<lambda>h. length (chHeader h) \<le> 1024) r"
        using Cons.IH [OF r] s(1) by (simp add: spent_def)
      moreover have "out = h' # r" "b' = d" using Cons.prems(1) False h f r by auto
      ultimately show ?thesis using s by (auto simp: spent_def)
    qed
  qed
qed

definition storedPath :: "gostring \<Rightarrow> bool" where
  "storedPath p \<longleftrightarrow> goClean p = p \<and> \<not> isAbs p \<and> pathElems p \<noteq> [] \<and> list_all plainElem (pathElems p)"

lemma normalized_stored: "normalizeCheckpointRelativePath fs ws ex r = Inr p \<Longrightarrow> storedPath p"
  by (auto simp: normalizeCheckpointRelativePath_def NormalizeWorkspaceRelativePath_def storedPath_def valid_relative
    bindR_Inr_iff split: option.splits if_splits)

lemma prepareFiles_spent:
  "prepareFiles fs ws ex seen files b = Inr (out, b') \<Longrightarrow> budgetOk b \<Longrightarrow>
   spent (concat (map cfHunks out)) b b' \<and> length out = length files \<and>
   distinct (map checkpointKey out) \<and> set (map checkpointKey out) \<inter> set seen = {} \<and>
   list_all (\<lambda>f. storedPath (cfPath f) \<and> list_all (\<lambda>h. length (chHeader h) \<le> 1024) (cfHunks f)) out"
proof (induction files arbitrary: seen b out b')
  case Nil
  then show ?case by (simp add: spent_def)
next
  case (Cons f files)
  obtain path previous where p: "normalizeCheckpointRelativePath fs ws ex (cfPath f) = Inr path"
    "(if cfPrevious f \<noteq> [] then normalizeCheckpointRelativePath fs ws ex (cfPrevious f) else Inr []) = Inr previous"
    using Cons.prems(1) by (auto split: sum.splits)
  obtain hs c where h: "boundHunks (cfHunks f) b = (hs, c)" by fastforce
  let ?g = "f\<lparr>cfPath := path, cfPrevious := previous\<rparr>"
  have k: "checkpointKey ?g \<notin> set seen" using Cons.prems(1) p h by (auto simp: Let_def split: if_splits)
  obtain r where r: "prepareFiles fs ws ex (checkpointKey ?g # seen) files c = Inr (r, b')" "out = ?g\<lparr>cfHunks := hs\<rparr> # r"
    using Cons.prems(1) k p h by (auto simp: Let_def bindR_Inr_iff)
  have s: "spent hs b c" "list_all (\<lambda>h. length (chHeader h) \<le> 1024) hs"
    using boundHunks_spent [OF h Cons.prems(2)] by auto
  have IH: "spent (concat (map cfHunks r)) c b'" "length r = length files" "distinct (map checkpointKey r)"
    "set (map checkpointKey r) \<inter> set (checkpointKey ?g # seen) = {}"
    "list_all (\<lambda>f. storedPath (cfPath f) \<and> list_all (\<lambda>h. length (chHeader h) \<le> 1024) (cfHunks f)) r"
    using Cons.IH [OF r(1)] s(1) by (auto simp: spent_def)
  have kk: "checkpointKey (?g\<lparr>cfHunks := hs\<rparr>) = checkpointKey ?g" by (simp add: checkpointKey_def)
  have "spent (hs @ concat (map cfHunks r)) b b'" using s(1) IH(1) by (simp add: spent_def)
  then show ?case using IH(2-5) s(2) normalized_stored [OF p(1)] k kk by (auto simp: r(2))
qed

lemma preparePlanExecutionChanges_bounded_aux:
  assumes "preparePlanExecutionChanges fs workspace wsExists rawSummary files = Inr (summary, out)"
  shows "length out \<le> 500 \<and> distinct (map checkpointKey out) \<and> list_all (\<lambda>f. storedPath (cfPath f)) out \<and>
    length (concat (map cfHunks out)) \<le> 512 \<and> patchBytes (concat (map cfHunks out)) \<le> 524288 \<and>
    patchLines (concat (map cfHunks out)) \<le> 12000 \<and>
    list_all (\<lambda>h. length (chHeader h) \<le> 1024) (concat (map cfHunks out))"
proof -
  obtain b where p: "prepareFiles fs workspace wsExists [] (take maxTaskCheckpointFiles files) startBudget = Inr (out, b)"
    using assms by (auto simp: preparePlanExecutionChanges_def bindR_Inr_iff Let_def)
  have "budgetOk startBudget" by code_simp
  note s = prepareFiles_spent [OF p this]
  then have l: "spent (concat (map cfHunks out)) startBudget b" "length out \<le> maxTaskCheckpointFiles" by auto
  then have "length out \<le> 500" "length (concat (map cfHunks out)) \<le> 512" "patchBytes (concat (map cfHunks out)) \<le> 524288"
    "patchLines (concat (map cfHunks out)) \<le> 12000"
    by (auto simp: spent_def budgetOk_def startBudget_def maxTaskCheckpointFiles_def maxTaskCheckpointHunks_def
      maxTaskCheckpointPatchBytes_def maxTaskCheckpointPatchLines_def)
  moreover have "list_all (\<lambda>f. storedPath (cfPath f)) out" "list_all (\<lambda>h. length (chHeader h) \<le> 1024) (concat (map cfHunks out))"
    using s by (auto simp: list_all_iff)
  ultimately show ?thesis using s by blast
qed

text \<open>C31. Whatever a caller hands in, the change set that is stored is bounded: at most 500 files under
  pairwise different keys, each with a cleaned path below the workspace, and over all of them at most
  512 hunks, 524288 bytes and 12000 lines of patch text, with headers of at most 1024 bytes.\<close>

theorem preparePlanExecutionChanges_bounded:
  assumes "preparePlanExecutionChanges fs workspace wsExists rawSummary files = Inr (summary, out)"
  shows "length out \<le> 500 \<and> distinct (map checkpointKey out) \<and> list_all (\<lambda>f. storedPath (cfPath f)) out \<and>
    length (concat (map cfHunks out)) \<le> 512 \<and> patchBytes (concat (map cfHunks out)) \<le> 524288 \<and>
    patchLines (concat (map cfHunks out)) \<le> 12000 \<and>
    list_all (\<lambda>h. length (chHeader h) \<le> 1024) (concat (map cfHunks out))"
  using assms by (rule preparePlanExecutionChanges_bounded_aux)

definition sampleFile :: checkpoint_file where
  "sampleFile = \<lparr>cfPath = ''a/../b.go'', cfPrevious = [], cfStatus = ''modified'', cfStaged = False, cfBinary = False,
     cfAdditions = 1, cfDeletions = 0,
     cfHunks = [\<lparr>chHeader = '' @@ -1 +1 @@ '', chPatch = ''+x'' @ [newlineChar], chOldStart = 1, chOldCount = 1,
       chNewStart = 1, chNewCount = 1\<rparr>]\<rparr>"

definition storedFile :: checkpoint_file where
  "storedFile = sampleFile\<lparr>cfPath := ''b.go'', cfHunks := [\<lparr>chHeader = ''@@ -1 +1 @@'', chPatch = ''+x'' @ [newlineChar],
     chOldStart = 1, chOldCount = 1, chNewStart = 1, chNewCount = 1\<rparr>]\<rparr>"

lemma preparePlanExecutionChanges_bounded_witness:
  "preparePlanExecutionChanges linkFs ''/w'' False RawEmpty [sampleFile] = Inr (RawValue (JObj []), [storedFile]) \<and>
   storedPath (cfPath storedFile) \<and> patchBytes (cfHunks storedFile) \<le> 524288"
proof -
  have "preparePlanExecutionChanges linkFs ''/w'' False RawEmpty [sampleFile] = Inr (RawValue (JObj []), [storedFile])"
    by code_simp
  from this preparePlanExecutionChanges_bounded [OF this] show ?thesis by simp
qed

text \<open>A path whose drive prefix stands behind \<open>./\<close> passes the first normalisation and is refused by
  the second one, which the capture of a checkpoint always runs.\<close>

lemma second_normalisation_refuses:
  "normalizeCheckpointRelativePath linkFs ''/w'' False ''./C:/x'' = Inr ''C:/x'' \<and>
   normalizeCheckpointRelativePath linkFs ''/w'' False ''C:/x'' = Inl ErrInvalidRelativePath"
  by code_simp

end
