(* ===== verification/ObjectMap.thy ===== *)
theory ObjectMap
  imports Store
begin

text \<open>
  The laws of a marshalled \<^verbatim>\<open>map[string]any\<close>: its members are in byte order of their keys,
  every key once, and writing a member is the update of a finite map. The interface is the locale
  \<open>member_map\<close>; its interpretation is the member list of \<open>Store\<close>.
\<close>

section \<open>Byte order\<close>

lemma byteLess_irrefl [simp]: "\<not> byteLess a a"
  by (induction a) simp_all

lemma byteLess_trans: "byteLess a b \<Longrightarrow> byteLess b c \<Longrightarrow> byteLess a c"
proof (induction a b arbitrary: c rule: byteLess.induct)
  case (2 d ds)
  then show ?case by (cases c) simp_all
next
  case (4 x cs y ds)
  then show ?case by (cases c) auto
qed simp_all

lemma byteLess_total: "a \<noteq> b \<Longrightarrow> byteLess a b \<or> byteLess b a"
proof (induction a b rule: byteLess.induct)
  case (4 x cs y ds)
  have "x = y" if "\<not> (byte x :: nat) < byte y" "\<not> (byte y :: nat) < byte x"
    using that by (metis nat_neq_iff of_char_eq_iff)
  then show ?case using 4 by auto
qed simp_all

section \<open>Members in order\<close>

definition sortedMembers :: "(gostring \<times> json) list \<Rightarrow> bool" where
  "sortedMembers ms \<longleftrightarrow> sorted_wrt byteLess (map fst ms)"

lemma sorted_wrt_distinct: "sorted_wrt byteLess ks \<Longrightarrow> distinct ks"
  by (induction ks) auto

lemma putMember_keys: "fst ` set (putMember k v ms) = insert k (fst ` set ms)"
  by (induction k v ms rule: putMember.induct) auto

lemma putMember_sorted: "sortedMembers ms \<Longrightarrow> sortedMembers (putMember k v ms)"
proof (induction k v ms rule: putMember.induct)
  case (2 k v k' v' ms)
  have tail: "\<forall>x \<in> fst ` set ms. byteLess k' x" "sortedMembers ms"
    using "2.prems" by (auto simp: sortedMembers_def)
  show ?case
  proof (cases "k = k'")
    case True
    then show ?thesis using "2.prems" by (simp add: sortedMembers_def)
  next
    case neq: False
    show ?thesis
    proof (cases "byteLess k k'")
      case True
      then have "\<forall>x \<in> fst ` set ms. byteLess k x" using tail(1) byteLess_trans by blast
      then show ?thesis using neq True "2.prems" by (simp add: sortedMembers_def)
    next
      case False
      then have "byteLess k' k" using neq byteLess_total by blast
      then have "\<forall>x \<in> fst ` set (putMember k v ms). byteLess k' x" using tail(1) by (simp add: putMember_keys)
      moreover have "sortedMembers (putMember k v ms)" using "2.IH" neq False tail(2) by simp
      ultimately show ?thesis using neq False by (simp add: sortedMembers_def)
    qed
  qed
qed (simp add: sortedMembers_def)

lemma putMember_map: "map_of (putMember k v ms) = (map_of ms)(k \<mapsto> v)"
  by (induction k v ms rule: putMember.induct) (auto simp: fun_eq_iff)

lemma jsonMember_sorted: "sortedMembers ms \<Longrightarrow> jsonMember k ms = map_of ms k"
proof -
  assume "sortedMembers ms"
  then have "distinct (map fst ms)" by (auto simp: sortedMembers_def intro: sorted_wrt_distinct)
  then have "map_of (rev ms) = map_of ms" by (subst map_of_inject_set) (simp_all flip: rev_map)
  then show ?thesis by (simp add: jsonMember_def)
qed

section \<open>The interface\<close>

locale member_map =
  fixes ok :: "'m \<Rightarrow> bool" and put :: "'k \<Rightarrow> 'v \<Rightarrow> 'm \<Rightarrow> 'm" and get :: "'m \<Rightarrow> 'k \<Rightarrow> 'v option"
  assumes put_ok: "ok m \<Longrightarrow> ok (put k v m)"
    and get_put: "ok m \<Longrightarrow> get (put k v m) = (get m)(k \<mapsto> v)"
begin

definition putAll :: "('k \<times> 'v) list \<Rightarrow> 'm \<Rightarrow> 'm" where
  "putAll kvs m = fold (\<lambda>(k, v). put k v) kvs m"

lemma putAll_ok: "ok m \<Longrightarrow> ok (putAll kvs m)"
  unfolding putAll_def by (induction kvs arbitrary: m) (auto simp: put_ok)

lemma get_putAll: "ok m \<Longrightarrow> get (putAll kvs m) = get m ++ map_of (rev kvs)"
  unfolding putAll_def
proof (induction kvs arbitrary: m)
  case (Cons kv kvs)
  obtain k v where kv: "kv = (k, v)" by fastforce
  have "get (fold (\<lambda>(k, v). put k v) kvs (put k v m)) = get (put k v m) ++ map_of (rev kvs)"
    using Cons.IH [OF put_ok [OF Cons.prems]] .
  then show ?case by (simp add: kv get_put [OF Cons.prems] map_add_assoc)
qed simp

lemma get_last: "ok m \<Longrightarrow> get (putAll (kvs @ [(k, v)]) m) k = Some v"
  by (simp add: get_putAll)

end

interpretation members: member_map sortedMembers putMember "\<lambda>ms k. jsonMember k ms"
proof
  show "sortedMembers (putMember k v m)" if "sortedMembers m" for k v and m :: "(gostring \<times> json) list"
    using that by (rule putMember_sorted)
  show "(\<lambda>x. jsonMember x (putMember k v m)) = (\<lambda>x. jsonMember x m)(k \<mapsto> v)"
    if "sortedMembers m" for k v and m :: "(gostring \<times> json) list"
    using that by (simp add: fun_eq_iff jsonMember_sorted putMember_sorted putMember_map)
qed

lemma sortedMembers_Nil [simp]: "sortedMembers []"
  by (simp add: sortedMembers_def)

lemma objectMap_members: "objectMap ms = members.putAll ms []"
  by (simp add: objectMap_def members.putAll_def)

lemma objectMap_sorted [simp]: "sortedMembers (objectMap ms)"
  by (simp add: objectMap_members members.putAll_ok)

lemma jsonMember_objectMap: "jsonMember k (objectMap ms) = jsonMember k ms"
  using members.get_putAll [OF sortedMembers_Nil, of ms] by (simp add: objectMap_members jsonMember_def fun_eq_iff)
end
