(* ===== verification/CaptureResults.thy ===== *)
theory CaptureResults
  imports CheckpointCapture CheckpointResults ObjectMap
begin

text \<open>
  What a capture of the workspace does to the repository and what an available checkpoint is worth:
  only the temporary index is written, the tree it names is a real object name, every record of the
  index was made from a safe path and a real object name, and the stored metadata are read back.
\<close>

section \<open>Invariants of steps\<close>

definition keeps :: "(capture_state \<Rightarrow> bool) \<Rightarrow> 'a capture \<Rightarrow> bool" where
  "keeps P m \<longleftrightarrow> (\<forall>s. P s \<longrightarrow> P (fst (m s)))"

named_theorems keeps_intros

lemma keeps_bind [keeps_intros]: "keeps P m \<Longrightarrow> (\<And>x. keeps P (f x)) \<Longrightarrow> keeps P (bindC m f)"
  by (auto simp: keeps_def bindC_def Let_def split: option.splits)

lemma keeps_pure [keeps_intros]: "keeps P (pureC x)"
  by (simp add: keeps_def pureC_def)

lemma keeps_if [keeps_intros]: "(b \<Longrightarrow> keeps P m) \<Longrightarrow> (\<not> b \<Longrightarrow> keeps P n) \<Longrightarrow> keeps P (if b then m else n)"
  by simp

lemma keeps_option [keeps_intros]:
  "(v = None \<Longrightarrow> keeps P m) \<Longrightarrow> (\<And>x. v = Some x \<Longrightarrow> keeps P (f x)) \<Longrightarrow> keeps P (case v of None \<Rightarrow> m | Some x \<Rightarrow> f x)"
  by (cases v) simp_all

lemma keeps_sum [keeps_intros]:
  "(\<And>e. v = Inl e \<Longrightarrow> keeps P (g e)) \<Longrightarrow> (\<And>x. v = Inr x \<Longrightarrow> keeps P (f x)) \<Longrightarrow> keeps P (case v of Inl e \<Rightarrow> g e | Inr x \<Rightarrow> f x)"
  by (cases v) simp_all

text \<open>The steps as functions of what they are given, without the state.\<close>

lemma step_forms:
  "checkTop w root topOut =
     (case InspectExistingPath (wsFs w) (trimSpace topOut) of
        Inl _ \<Rightarrow> failC ''git_root_mismatch''
      | Inr topIdentity \<Rightarrow> if piReal topIdentity \<noteq> root then failC ''git_root_mismatch''
          else bindC (updateC (\<lambda>r. r\<lparr>gcWorkspaceRoot := root\<rparr>)) (\<lambda>_. pureC root))"
  "checkInside w root inside =
     (if map_option trimSpace inside \<noteq> Some ''true'' then failC ''not_git_workspace''
      else bindC (gitOr w ''git_unreadable'' [] [] [''rev-parse'', ''--show-toplevel'']) (checkTop w root))"
  "captureRoot w p =
     (case InspectExistingPath (wsFs w) p of
        Inl _ \<Rightarrow> failC ''workspace_unavailable''
      | Inr identity \<Rightarrow> if \<not> wsIsDir w (piReal identity) then failC ''workspace_unavailable''
          else bindC (gitC w [] [] [''rev-parse'', ''--is-inside-work-tree'']) (checkInside w (piReal identity)))"
  by (auto simp: fun_eq_iff checkTop_def checkInside_def captureRoot_def split: sum.split)

lemma identity_forms:
  "commonIdentity w root common =
     (case InspectExistingPath (wsFs w) (if isAbs (trimSpace common) then trimSpace common else goJoin [root, trimSpace common]) of
        Inl _ \<Rightarrow> failC ''git_unreadable''
      | Inr i \<Rightarrow> updateC (\<lambda>r. r\<lparr>gcRepositoryIdentity := piReal i\<rparr>))"
  "originIdentity w root origin =
     (let o1 = (case origin of None \<Rightarrow> [] | Some v \<Rightarrow> trimSpace v) in
      if o1 \<noteq> [] then updateC (\<lambda>r. r\<lparr>gcRepositoryIdentity := o1\<rparr>)
      else bindC (gitOr w ''git_unreadable'' [] [] [''rev-parse'', ''--git-common-dir'']) (commonIdentity w root))"
  by (simp_all add: fun_eq_iff commonIdentity_def originIdentity_def Let_def split: sum.split)

lemma tree_forms:
  "protectTree w i tree =
     (if \<not> isRepositoryGitObjectID tree then failC ''checkpoint_unavailable''
      else bindC (updateC (\<lambda>r. r\<lparr>gcProtectionRef := ''refs/specrelay/execution-snapshots/'' @ i @ ''/worktree''\<rparr>)) (\<lambda>_.
        bindC (gitOr w ''checkpoint_unavailable'' [] []
            [''update-ref'', ''refs/specrelay/execution-snapshots/'' @ i @ ''/worktree'', tree]) (\<lambda>_.
          updateC (\<lambda>r. r\<lparr>gcAvailable := True, gcReason := []\<rparr>))))"
  "nameTree w i out =
     bindC (updateC (\<lambda>r. r\<lparr>gcWorktreeTree := trimSpace out\<rparr>)) (\<lambda>_. protectTree w i (trimSpace out))"
  by (simp_all add: fun_eq_iff protectTree_def nameTree_def Let_def)

section \<open>The commands\<close>

text \<open>A command either only reads, or stores objects, or works on the temporary index, or sets the
  snapshot's own reference.\<close>

definition safeCommand :: "workspace \<Rightarrow> uuid \<Rightarrow> git_command \<Rightarrow> bool" where
  "safeCommand w snapshotID c \<longleftrightarrow>
     (gmEnv c = [] \<and> gmArgs c \<noteq> [] \<and> hd (gmArgs c) \<in> {''rev-parse'', ''ls-files'', ''hash-object''}) \<or>
     (gmEnv c = [] \<and> gmArgs c = [''config'', ''--get'', ''remote.origin.url'']) \<or>
     (\<exists>temp. wsTempName w = Some temp \<and> gmEnv c = [''GIT_INDEX_FILE='' @ temp] \<and> gmArgs c \<noteq> [] \<and>
        hd (gmArgs c) \<in> {''read-tree'', ''update-index'', ''write-tree''}) \<or>
     (gmEnv c = [] \<and> (\<exists>tree. isRepositoryGitObjectID tree \<and>
        gmArgs c = [''update-ref'', ''refs/specrelay/execution-snapshots/'' @ snapshotID @ ''/worktree'', tree]))"

definition safeHistory :: "workspace \<Rightarrow> uuid \<Rightarrow> capture_state \<Rightarrow> bool" where
  "safeHistory w snapshotID s \<longleftrightarrow> (\<forall>c \<in> set (csHistory s). safeCommand w snapshotID c)"

lemma safe_git [keeps_intros]:
  "safeCommand w i \<lparr>gmEnv = env, gmInput = input, gmArgs = args\<rparr> \<Longrightarrow> keeps (safeHistory w i) (gitC w env input args)"
  by (simp add: keeps_def gitC_def safeHistory_def Let_def)

lemma safe_fail [keeps_intros]: "keeps (safeHistory w i) (failC r)"
  by (simp add: keeps_def failC_def safeHistory_def)

lemma safe_update [keeps_intros]: "keeps (safeHistory w i) (updateC f)"
  by (simp add: keeps_def updateC_def safeHistory_def)

lemma safe_addIndexInfo [keeps_intros]: "keeps (safeHistory w i) (addIndexInfo mode oid p)"
  by (simp add: keeps_def addIndexInfo_def safeHistory_def)

lemma safe_gitOr [keeps_intros]:
  "safeCommand w i \<lparr>gmEnv = env, gmInput = input, gmArgs = args\<rparr> \<Longrightarrow> keeps (safeHistory w i) (gitOr w r env input args)"
  unfolding gitOr_def by (intro keeps_intros)

lemma safe_reads [keeps_intros]:
  "safeCommand w i \<lparr>gmEnv = [], gmInput = input, gmArgs = ''rev-parse'' # args\<rparr>"
  "safeCommand w i \<lparr>gmEnv = [], gmInput = input, gmArgs = [''config'', ''--get'', ''remote.origin.url'']\<rparr>"
  "safeCommand w i \<lparr>gmEnv = [], gmInput = input, gmArgs = ''ls-files'' # args\<rparr>"
  "safeCommand w i \<lparr>gmEnv = [], gmInput = input, gmArgs = ''hash-object'' # args\<rparr>"
  by (simp_all add: safeCommand_def)

lemma safe_index:
  assumes "wsTempName w = Some temp"
  shows "safeCommand w i \<lparr>gmEnv = indexEnv temp, gmInput = input, gmArgs = ''read-tree'' # args\<rparr>"
    "safeCommand w i \<lparr>gmEnv = indexEnv temp, gmInput = input, gmArgs = ''update-index'' # args\<rparr>"
    "safeCommand w i \<lparr>gmEnv = indexEnv temp, gmInput = input, gmArgs = ''write-tree'' # args\<rparr>"
  using assms by (simp_all add: safeCommand_def indexEnv_def)

lemma safe_addHashed [keeps_intros]: "keeps (safeHistory w i) (addHashed mode oid p)"
  unfolding addHashed_def by (intro keeps_intros)

lemma safe_hash [keeps_intros]: "keeps (safeHistory w i) (hashCheckpointContent w input)"
  unfolding hashCheckpointContent_def by (intro keeps_intros)

lemma safe_file [keeps_intros]: "keeps (safeHistory w i) (captureFile w a entries p)"
  unfolding captureFile_def by (cases "wsFile w a") (auto simp: Let_def intro!: keeps_intros split: option.splits)

lemma safe_candidate [keeps_intros]: "keeps (safeHistory w i) (captureCandidate w root entries c)"
  unfolding captureCandidate_def
  by (intro keeps_intros) (auto intro!: keeps_intros split: path_error.splits)

lemma safe_candidates [keeps_intros]: "keeps (safeHistory w i) (captureCandidates w root entries cs)"
  by (induction cs) (auto intro!: keeps_intros)

lemma safe_root [keeps_intros]: "keeps (safeHistory w i) (captureRoot w p)"
  unfolding step_forms by (intro keeps_intros)

lemma safe_identity [keeps_intros]: "keeps (safeHistory w i) (captureIdentity w root)"
  unfolding captureIdentity_def identity_forms Let_def by (intro keeps_intros)

lemma safe_head [keeps_intros]: "keeps (safeHistory w i) (captureHead w)"
  unfolding captureHead_def by (intro keeps_intros)

lemma safe_readIndex [keeps_intros]: "keeps (safeHistory w i) (readIndex w)"
  unfolding readIndex_def by (intro keeps_intros) (auto intro!: keeps_intros)

lemma safe_readCandidates [keeps_intros]: "keeps (safeHistory w i) (readCandidates w)"
  unfolding readCandidates_def by (intro keeps_intros)

lemma keeps_updateIndex:
  assumes "\<And>input. keeps P (gitOr w ''checkpoint_unavailable'' (indexEnv temp) input [''update-index'', ''-z'', ''--index-info''])"
  shows "keeps P (updateIndex w temp)"
proof -
  have "keeps P (bindC (gitOr w ''checkpoint_unavailable'' (indexEnv temp) input [''update-index'', ''-z'', ''--index-info''])
      (\<lambda>out. pureC (Some out)))" for input
    by (intro keeps_bind keeps_pure assms)
  then show ?thesis by (simp add: keeps_def updateIndex_def pureC_def)
qed

lemma safe_writeTree:
  assumes "wsTempName w = Some temp" shows "keeps (safeHistory w i) (writeTree w temp i)"
  unfolding writeTree_def tree_forms
  by (intro keeps_intros keeps_updateIndex safe_index [OF assms]) (simp add: safeCommand_def)

lemma safe_steps: "keeps (safeHistory w i) (captureSteps w p i)"
  unfolding captureSteps_def by (intro keeps_intros safe_writeTree safe_index)
text \<open>C32. A capture leaves the repository alone: whatever Git answers and whatever the files are,
  every command it runs either only reads, stores loose objects, works on the temporary index, or sets the
  reference of this snapshot to a real object; the user's index, branches and files are never written.\<close>

theorem capture_commands_safe:
  "list_all (safeCommand w snapshotID) (fst (captureRepositoryGitCheckpoint w p snapshotID))"
proof -
  let ?s0 = "\<lparr>csHistory = [], csResult = zeroCheckpoint\<lparr>gcReason := ''not_git_workspace''\<rparr>, csIndexInfo = []\<rparr>"
  have "safeHistory w snapshotID ?s0" by (simp add: safeHistory_def)
  then have "safeHistory w snapshotID (fst (captureSteps w p snapshotID ?s0))"
    using safe_steps by (simp add: keeps_def)
  then show ?thesis
    by (simp add: captureRepositoryGitCheckpoint_def Let_def safeHistory_def list_all_iff)
qed

section \<open>Availability\<close>

text \<open>Before the last step the checkpoint is unavailable and has a reason.\<close>

definition pending :: "capture_state \<Rightarrow> bool" where
  "pending s \<longleftrightarrow> \<not> gcAvailable (csResult s) \<and> gcReason (csResult s) \<noteq> []"

lemma pending_fail [keeps_intros]: "r \<noteq> [] \<Longrightarrow> keeps pending (failC r)"
  by (simp add: keeps_def failC_def pending_def)

lemma pending_git [keeps_intros]: "keeps pending (gitC w env input args)"
  by (simp add: keeps_def gitC_def pending_def Let_def)

lemma pending_gitOr [keeps_intros]: "r \<noteq> [] \<Longrightarrow> keeps pending (gitOr w r env input args)"
  unfolding gitOr_def by (intro keeps_intros)

lemma pending_update [keeps_intros]:
  "(\<And>r. gcAvailable (f r) = gcAvailable r \<and> gcReason (f r) = gcReason r) \<Longrightarrow> keeps pending (updateC f)"
  by (simp add: keeps_def updateC_def pending_def)

lemma pending_addIndexInfo [keeps_intros]: "keeps pending (addIndexInfo mode oid p)"
  by (simp add: keeps_def addIndexInfo_def pending_def)

lemma pending_addHashed [keeps_intros]: "keeps pending (addHashed mode oid p)"
  unfolding addHashed_def by (intro keeps_intros) simp_all

lemma pending_hash [keeps_intros]: "keeps pending (hashCheckpointContent w input)"
  unfolding hashCheckpointContent_def by (intro keeps_intros)

lemma pending_file [keeps_intros]: "keeps pending (captureFile w a entries p)"
  unfolding captureFile_def by (cases "wsFile w a") (auto simp: Let_def intro!: keeps_intros split: option.splits)

lemma pending_candidate [keeps_intros]: "keeps pending (captureCandidate w root entries c)"
  unfolding captureCandidate_def
  by (auto intro!: keeps_intros split: path_error.splits)

lemma pending_candidates [keeps_intros]: "keeps pending (captureCandidates w root entries cs)"
  by (induction cs) (auto intro!: keeps_intros)

lemma pending_root [keeps_intros]: "keeps pending (captureRoot w p)"
  unfolding step_forms by (auto intro!: keeps_intros)

lemma pending_identity [keeps_intros]: "keeps pending (captureIdentity w root)"
  unfolding captureIdentity_def identity_forms Let_def by (auto intro!: keeps_intros)

lemma pending_head [keeps_intros]: "keeps pending (captureHead w)"
  unfolding captureHead_def by (auto intro!: keeps_intros)

lemma pending_readIndex [keeps_intros]: "keeps pending (readIndex w)"
  unfolding readIndex_def by (auto intro!: keeps_intros)

lemma pending_readCandidates [keeps_intros]: "keeps pending (readCandidates w)"
  unfolding readCandidates_def by (auto intro!: keeps_intros)

text \<open>The last two commands of a settled capture: the tree is what \<^verbatim>\<open>write-tree\<close> answered for the
  temporary index, and \<^verbatim>\<open>update-ref\<close> was asked to protect it and succeeded.\<close>

definition protects :: "workspace \<Rightarrow> gostring \<Rightarrow> gostring \<Rightarrow> git_command list \<Rightarrow> bool" where
  "protects w ref tree commands \<longleftrightarrow>
     (\<exists>earlier temp out answer.
        wsTempName w = Some temp \<and>
        commands = earlier @ [\<lparr>gmEnv = [''GIT_INDEX_FILE='' @ temp], gmInput = [], gmArgs = [''write-tree'']\<rparr>,
          \<lparr>gmEnv = [], gmInput = [], gmArgs = [''update-ref'', ref, tree]\<rparr>] \<and>
        wsGit w earlier \<lparr>gmEnv = [''GIT_INDEX_FILE='' @ temp], gmInput = [], gmArgs = [''write-tree'']\<rparr> = Some out \<and>
        tree = trimSpace out \<and>
        wsGit w (butlast commands) \<lparr>gmEnv = [], gmInput = [], gmArgs = [''update-ref'', ref, tree]\<rparr> = Some answer)"

definition settled :: "workspace \<Rightarrow> uuid \<Rightarrow> capture_state \<Rightarrow> bool" where
  "settled w i s \<longleftrightarrow> gcAvailable (csResult s) \<and> gcReason (csResult s) = [] \<and>
     isRepositoryGitObjectID (gcWorktreeTree (csResult s)) \<and>
     gcProtectionRef (csResult s) = ''refs/specrelay/execution-snapshots/'' @ i @ ''/worktree'' \<and>
     protects w (gcProtectionRef (csResult s)) (gcWorktreeTree (csResult s)) (csHistory s)"

definition ended :: "workspace \<Rightarrow> uuid \<Rightarrow> capture_state \<Rightarrow> bool" where
  "ended w i s \<longleftrightarrow> pending s \<or> settled w i s"

text \<open>A step that finishes the capture from a pending state.\<close>

definition finishes :: "workspace \<Rightarrow> uuid \<Rightarrow> 'a capture \<Rightarrow> bool" where
  "finishes w i m \<longleftrightarrow> (\<forall>s. pending s \<longrightarrow> ended w i (fst (m s)))"

lemma finishes_bind: "keeps pending m \<Longrightarrow> (\<And>x. finishes w i (f x)) \<Longrightarrow> finishes w i (bindC m f)"
  by (auto simp: keeps_def finishes_def ended_def bindC_def Let_def split: option.splits)

lemma finishes_keeps: "keeps pending m \<Longrightarrow> finishes w i m"
  by (simp add: keeps_def finishes_def ended_def)

lemma finishes_option:
  "(v = None \<Longrightarrow> finishes w i m) \<Longrightarrow> (\<And>x. v = Some x \<Longrightarrow> finishes w i (f x)) \<Longrightarrow> finishes w i (case v of None \<Rightarrow> m | Some x \<Rightarrow> f x)"
  by (cases v) simp_all

lemma protect_settles:
  assumes "pending s" "gcWorktreeTree (csResult s) = trimSpace out" "wsTempName w = Some temp"
    and "csHistory s = earlier @ [\<lparr>gmEnv = indexEnv temp, gmInput = [], gmArgs = [''write-tree'']\<rparr>]"
    and "wsGit w earlier \<lparr>gmEnv = indexEnv temp, gmInput = [], gmArgs = [''write-tree'']\<rparr> = Some out"
  shows "ended w i (fst (protectTree w i (trimSpace out) s))"
proof -
  let ?ref = "''refs/specrelay/execution-snapshots/'' @ i @ ''/worktree''"
  let ?c = "\<lparr>gmEnv = [], gmInput = [], gmArgs = [''update-ref'', ?ref, trimSpace out]\<rparr>"
  show ?thesis
  proof (cases "isRepositoryGitObjectID (trimSpace out)")
    case False
    then show ?thesis using assms(1) by (simp add: protectTree_def failC_def ended_def pending_def)
  next
    case True
    note ran = protectTree_def bindC_def updateC_def gitOr_def gitC_def failC_def pureC_def Let_def
    show ?thesis
    proof (cases "wsGit w (csHistory s) ?c")
      case None
      then show ?thesis using True assms(1) by (simp add: ran ended_def pending_def)
    next
      case (Some answer)
      have "protects w ?ref (trimSpace out) (csHistory s @ [?c])"
        unfolding protects_def using assms(3-5) Some by (intro exI conjI) (assumption | simp add: indexEnv_def butlast_append)+
      then show ?thesis using True assms(2) Some by (simp add: ran ended_def settled_def)
    qed
  qed
qed

lemma tree_finishes:
  assumes "wsTempName w = Some temp"
  shows "finishes w i (bindC (gitOr w ''checkpoint_unavailable'' (indexEnv temp) [] [''write-tree'']) (nameTree w i))"
  unfolding finishes_def
proof (intro allI impI)
  fix s assume p: "pending s"
  let ?c = "\<lparr>gmEnv = indexEnv temp, gmInput = [], gmArgs = [''write-tree'']\<rparr>"
  show "ended w i (fst (bindC (gitOr w ''checkpoint_unavailable'' (indexEnv temp) [] [''write-tree'']) (nameTree w i) s))"
  proof (cases "wsGit w (csHistory s) ?c")
    case None
    then show ?thesis using p by (simp add: bindC_def gitOr_def gitC_def failC_def Let_def ended_def pending_def)
  next
    case (Some out)
    let ?s = "s\<lparr>csHistory := csHistory s @ [?c], csResult := (csResult s)\<lparr>gcWorktreeTree := trimSpace out\<rparr>\<rparr>"
    have "pending ?s" using p by (simp add: pending_def)
    from protect_settles [OF this _ assms, of out "csHistory s" i] Some show ?thesis
      by (simp add: bindC_def gitOr_def gitC_def pureC_def updateC_def nameTree_def Let_def)
  qed
qed

lemma writeTree_finishes: "wsTempName w = Some temp \<Longrightarrow> finishes w i (writeTree w temp i)"
  unfolding writeTree_def by (intro finishes_bind tree_finishes keeps_updateIndex) (auto intro!: keeps_intros)

lemma steps_finish: "finishes w i (captureSteps w p i)"
  unfolding captureSteps_def
  by (intro finishes_bind finishes_option writeTree_finishes finishes_keeps) (auto intro!: keeps_intros)

text \<open>C33. A checkpoint is available exactly when it has no reason to be unavailable; then its reference belongs to the
  snapshot, and the capture ended with two commands that Git accepted: the temporary index was written as a tree, which the
  checkpoint names, and the reference was set to that tree.\<close>

theorem capture_available:
  assumes "captureRepositoryGitCheckpoint w p snapshotID = (commands, c)"
  shows "(gcAvailable c \<longleftrightarrow> gcReason c = []) \<and>
    (gcAvailable c \<longrightarrow> isRepositoryGitObjectID (gcWorktreeTree c) \<and>
       gcProtectionRef c = ''refs/specrelay/execution-snapshots/'' @ snapshotID @ ''/worktree'' \<and>
       protects w (gcProtectionRef c) (gcWorktreeTree c) commands)"
proof -
  let ?s0 = "\<lparr>csHistory = [], csResult = zeroCheckpoint\<lparr>gcReason := ''not_git_workspace''\<rparr>, csIndexInfo = []\<rparr>"
  have "pending ?s0" by (simp add: pending_def zeroCheckpoint_def)
  then have "ended w snapshotID (fst (captureSteps w p snapshotID ?s0))"
    using steps_finish [of w snapshotID p] by (simp add: finishes_def)
  then show ?thesis using assms
    by (auto simp: captureRepositoryGitCheckpoint_def Let_def ended_def pending_def settled_def)
qed

definition sampleTree :: gostring where
  "sampleTree = replicate 40 CHR ''a''"

definition sampleWorkspace :: workspace where
  "sampleWorkspace = \<lparr>wsFs = linkFs, wsIsDir = (\<lambda>_. True),
     wsFile = (\<lambda>p. if p = ''/w/f'' then FileRegular False 2 (Some [''hi'']) else FileMissing),
     wsTempName = Some ''/tmp/i'', wsSha256 = (\<lambda>_. ''00''), wsPrint = (\<lambda>_. ''{}''),
     wsGit = (\<lambda>h c. let name = hd (gmArgs c); a = hd (tl (gmArgs c)) in
         if name = ''rev-parse'' then
           (if a = ''--is-inside-work-tree'' then Some (''true'' @ [newlineChar])
            else if a = ''--show-toplevel'' then Some (''/w'' @ [newlineChar]) else Some sampleTree)
         else if name = ''config'' then Some ''origin''
         else if name = ''ls-files'' then Some (if a = ''--stage'' then [] else ''f'' @ [CHR 0x00])
         else Some (sampleTree @ [newlineChar]))\<rparr>"

lemma capture_available_witness:
  "gcAvailable (snd (captureRepositoryGitCheckpoint sampleWorkspace ''/w'' ''s1'')) \<and>
   gcFileCount (snd (captureRepositoryGitCheckpoint sampleWorkspace ''/w'' ''s1'')) = 1 \<and>
   gmArgs (last (fst (captureRepositoryGitCheckpoint sampleWorkspace ''/w'' ''s1''))) =
     [''update-ref'', ''refs/specrelay/execution-snapshots/s1/worktree'', sampleTree]"
proof -
  have a: "gcAvailable (snd (captureRepositoryGitCheckpoint sampleWorkspace ''/w'' ''s1'')) \<and>
      gcFileCount (snd (captureRepositoryGitCheckpoint sampleWorkspace ''/w'' ''s1'')) = 1 \<and>
      gcWorktreeTree (snd (captureRepositoryGitCheckpoint sampleWorkspace ''/w'' ''s1'')) = sampleTree" by code_simp
  then show ?thesis
    using capture_available [of sampleWorkspace "''/w''" "''s1''"
        "fst (captureRepositoryGitCheckpoint sampleWorkspace ''/w'' ''s1'')"
        "snd (captureRepositoryGitCheckpoint sampleWorkspace ''/w'' ''s1'')"] by (auto simp: protects_def)
qed

section \<open>Reading a checkpoint back\<close>

lemma metadata_members:
  assumes "gcAvailable c"
  shows "repositoryCheckpointMetadata c =
    [(''available'', JBool True), (''fileCount'', JInt (gcFileCount c)), (''head'', JStr (gcHead c)),
     (''oversizedFileCount'', JInt (gcOversizedCount c)), (''protectionRef'', JStr (gcProtectionRef c)),
     (''repositoryIdentity'', JStr (gcRepositoryIdentity c)), (''specialFileCount'', JInt (gcSpecialFileCount c)),
     (''version'', JInt 1), (''worktreeTree'', JStr (gcWorktreeTree c))]"
  using assms by (simp add: repositoryCheckpointMetadata_def objectMap_def)

lemma field_matches:
  "matchField checkpointFields ''available'' = Some ''available''"
  "matchField checkpointFields ''head'' = Some ''head''"
  "matchField checkpointFields ''protectionRef'' = Some ''protectionRef''"
  "matchField checkpointFields ''repositoryIdentity'' = Some ''repositoryIdentity''"
  "matchField checkpointFields ''worktreeTree'' = Some ''worktreeTree''"
  "matchField checkpointFields ''fileCount'' = None" "matchField checkpointFields ''oversizedFileCount'' = None"
  "matchField checkpointFields ''specialFileCount'' = None" "matchField checkpointFields ''version'' = None"
  by code_simp+

definition readBack :: "git_checkpoint \<Rightarrow> git_checkpoint" where
  "readBack c = c\<lparr>gcReason := [], gcWorkspaceRoot := [], gcFileCount := 0, gcOversizedCount := 0, gcSpecialFileCount := 0\<rparr>"

lemma decode_metadata:
  assumes "gcAvailable c"
  shows "decodeCheckpoint (JObj (repositoryCheckpointMetadata c)) = Some (readBack c)"
proof -
  have "zeroCheckpoint\<lparr>gcAvailable := True, gcHead := gcHead c, gcProtectionRef := gcProtectionRef c,
      gcRepositoryIdentity := gcRepositoryIdentity c, gcWorktreeTree := gcWorktreeTree c\<rparr> = readBack c"
    using assms by (simp add: zeroCheckpoint_def readBack_def)
  then show ?thesis
    by (simp add: decodeCheckpoint_def looseStruct_def metadata_members [OF assms] field_matches looseBool_def
      looseString_def)
qed

text \<open>C34. The stored checkpoint reads back: when the metadata of an available checkpoint were merged
  into a change summary, whatever else the summary holds, the next snapshot extracts that checkpoint
  from it (the counts and the workspace root are not stored for reading).\<close>

theorem checkpoint_roundtrip:
  assumes "gcAvailable c" "isRepositoryGitObjectID (gcWorktreeTree c)"
    "mergePlanExecutionChangeSummary raw [(''gitCheckpoint'', JObj (repositoryCheckpointMetadata c))] = Inr stored"
  shows "extractRepositoryCheckpoint stored = readBack c"
proof -
  obtain ms where ms: "summaryObject raw = Inr ms"
    "stored = RawValue (JObj (putMember ''gitCheckpoint'' (JObj (repositoryCheckpointMetadata c)) ms))"
    using assms(3) by (auto simp: mergePlanExecutionChangeSummary_def bindR_Inr_iff)
  have "sortedMembers ms"
    using ms(1) by (auto simp: summaryObject_def split: raw_json.splits json.splits)
  then have "jsonMember ''gitCheckpoint'' (putMember ''gitCheckpoint'' (JObj (repositoryCheckpointMetadata c)) ms) =
      Some (JObj (repositoryCheckpointMetadata c))"
    using members.get_put by (metis fun_upd_same)
  then show ?thesis using assms(1,2) decode_metadata [OF assms(1)]
    by (simp add: extractRepositoryCheckpoint_def ms(2) readBack_def)
qed

definition sampleCheckpoint :: git_checkpoint where
  "sampleCheckpoint = zeroCheckpoint\<lparr>gcAvailable := True, gcWorktreeTree := sampleTree, gcHead := ''h'', gcFileCount := 3\<rparr>"

lemma checkpoint_roundtrip_witness:
  "extractRepositoryCheckpoint
     (RawValue (JObj (putMember ''gitCheckpoint'' (JObj (repositoryCheckpointMetadata sampleCheckpoint)) [(''note'', JNull)]))) =
   readBack sampleCheckpoint"
proof (rule checkpoint_roundtrip)
  show "gcAvailable sampleCheckpoint" "isRepositoryGitObjectID (gcWorktreeTree sampleCheckpoint)" by code_simp+
  show "mergePlanExecutionChangeSummary (RawValue (JObj [(''note'', JNull)]))
      [(''gitCheckpoint'', JObj (repositoryCheckpointMetadata sampleCheckpoint))] =
    Inr (RawValue (JObj (putMember ''gitCheckpoint'' (JObj (repositoryCheckpointMetadata sampleCheckpoint)) [(''note'', JNull)])))"
    by code_simp
qed

text \<open>The directory part of a path goes through \<^verbatim>\<open>TrimSpace\<close>, so a file of a directory whose name
  ends in a blank is looked up in another directory.\<close>

lemma trailing_blank_directory:
  "ResolveRelativePath linkFs ''/w'' ''dir /f'' = Inr ''/w/dir/f''"
  by code_simp

end
