(* ===== verification/SnapshotResults.thy ===== *)
theory SnapshotResults
  imports Cancellation CaptureResults
begin

text \<open>
  What the execution snapshots promise: every plan has one unbroken, bounded chain of them, and an
  accepted drift is gone.
\<close>

section \<open>The newest row\<close>

lemma newestBy_fold:
  fixes f :: "'r \<Rightarrow> int"
  shows "fold (\<lambda>r best. case best of None \<Rightarrow> Some r | Some b \<Rightarrow> if f r > f b then Some r else best) rs (Some x) = Some y \<Longrightarrow>
   (y = x \<or> y \<in> set rs) \<and> f x \<le> f y \<and> (\<forall>r \<in> set rs. f r \<le> f y)"
proof (induction rs arbitrary: x)
  case (Cons r rs)
  show ?case
  proof (cases "f r > f x")
    case True
    then have "(y = r \<or> y \<in> set rs) \<and> f r \<le> f y \<and> (\<forall>r \<in> set rs. f r \<le> f y)" using Cons by simp
    then show ?thesis using True by auto
  next
    case False
    then have "(y = x \<or> y \<in> set rs) \<and> f x \<le> f y \<and> (\<forall>r \<in> set rs. f r \<le> f y)" using Cons by simp
    then show ?thesis using False by auto
  qed
qed simp

lemma newestBy_Some: "newestBy f rs = Some y \<Longrightarrow> y \<in> set rs \<and> (\<forall>r \<in> set rs. f r \<le> f y)"
  by (cases rs) (auto simp: newestBy_def dest: newestBy_fold)

lemma newestBy_None: "newestBy f rs = None \<longleftrightarrow> rs = []"
proof -
  have "fold (\<lambda>r best. case best of None \<Rightarrow> Some r | Some b \<Rightarrow> if f r > f b then Some r else best) rs (Some x) \<noteq> None" for rs x
    by (induction rs arbitrary: x) auto
  then show ?thesis by (cases rs) (auto simp: newestBy_def)
qed

lemma newestBy_snoc:
  assumes "\<forall>r \<in> set rs. f r < f x" shows "newestBy f (rs @ [x]) = Some x"
proof (cases "newestBy f rs")
  case None
  then have "rs = []" by (simp add: newestBy_None)
  then show ?thesis by (simp add: newestBy_def)
next
  case (Some y)
  then have "f y < f x" using newestBy_Some [OF Some] assms by blast
  then show ?thesis using Some by (simp add: newestBy_def)
qed

section \<open>The chain\<close>

definition chainLink :: "plan_snapshot \<Rightarrow> plan_snapshot \<Rightarrow> bool" where
  "chainLink a b \<longleftrightarrow> snSequence b = snSequence a + 1 \<and> snPrevious b = Some (snId a) \<and> snKind b \<noteq> ''generation_baseline''"

definition boundedFiles :: "checkpoint_file list \<Rightarrow> bool" where
  "boundedFiles fs \<longleftrightarrow> length fs \<le> 500 \<and> list_all (\<lambda>f. storedPath (cfPath f)) fs \<and>
     length (concat (map cfHunks fs)) \<le> 512 \<and> patchBytes (concat (map cfHunks fs)) \<le> 524288 \<and>
     patchLines (concat (map cfHunks fs)) \<le> 12000"

text \<open>The rows of one plan, in the order they were written.\<close>

definition snapshotChain :: "plan_snapshot list \<Rightarrow> bool" where
  "snapshotChain ss \<longleftrightarrow>
     (case ss of [] \<Rightarrow> True
      | s # _ \<Rightarrow> snSequence s = 1 \<and> snPrevious s = None \<and> snKind s \<noteq> ''task_checkpoint'') \<and>
     successively chainLink ss \<and> list_all (\<lambda>s. snKind s \<in> set snapshotKinds \<and> boundedFiles (snFiles s)) ss"

definition snapshotsOk :: "db \<Rightarrow> bool" where
  "snapshotsOk d \<longleftrightarrow> (\<forall>planID. snapshotChain (filter (\<lambda>s. snPlan s = planID) (dbSnapshots d)))"

lemma chain_sequences:
  "snapshotChain ss \<Longrightarrow> i < length ss \<Longrightarrow> snSequence (ss ! i) = int i + 1"
proof (induction i)
  case 0
  then show ?case by (cases ss) (auto simp: snapshotChain_def)
next
  case (Suc i)
  then have "chainLink (ss ! i) (ss ! Suc i)" by (simp add: snapshotChain_def successively_conv_nth)
  then show ?case using Suc by (simp add: chainLink_def)
qed

lemma chain_newest: "snapshotChain ss \<Longrightarrow> ss \<noteq> [] \<Longrightarrow> newestBy snSequence ss = Some (last ss)"
proof -
  assume c: "snapshotChain ss" and n: "ss \<noteq> []"
  have s: "ss = butlast ss @ [last ss]" using n by simp
  have "\<forall>r \<in> set (butlast ss). snSequence r < snSequence (last ss)"
  proof
    fix r assume "r \<in> set (butlast ss)"
    then obtain i where i: "i < length (butlast ss)" "r = butlast ss ! i" by (auto simp: in_set_conv_nth)
    then have "r = ss ! i" "i < length ss - 1" by (simp_all add: nth_butlast)
    then show "snSequence r < snSequence (last ss)"
      using chain_sequences [OF c, of i] chain_sequences [OF c, of "length ss - 1"] n by (simp add: last_conv_nth)
  qed
  then show ?thesis using newestBy_snoc s by metis
qed

lemma captureSnapshotTx_cases:
  assumes "captureSnapshotTx e i planID kind taskID gp summary files wk d = Inr (d', row)"
  obtains s n c raw out where
    "row = newSnapshot i kind taskID (latestPlanExecutionSnapshot planID d) s (case wk of None \<Rightarrow> ssGit s | Some w \<Rightarrow> w) n out"
    "d' = d\<lparr>dbSnapshots := dbSnapshots d @ [row]\<rparr>"
    "kind \<in> set snapshotKinds"
    "kind = ''generation_baseline'' \<Longrightarrow> latestPlanExecutionSnapshot planID d = None"
    "kind = ''task_checkpoint'' \<Longrightarrow> latestPlanExecutionSnapshot planID d \<noteq> None"
    "loadPlanSnapshotState e planID (case latestPlanExecutionSnapshot planID d of
        Some p \<Rightarrow> if trimSpace gp = [] then snGenerationProvider p else gp | None \<Rightarrow> gp) d = Inr s"
    "prepareIn e (wkPath (case wk of None \<Rightarrow> ssGit s | Some w \<Rightarrow> w)) c = Inr (raw, out)"
proof -
  have k: "kind \<in> set snapshotKinds" "\<not> (kind = ''generation_baseline'' \<and> latestPlanExecutionSnapshot planID d \<noteq> None)"
    "\<not> (kind = ''task_checkpoint'' \<and> latestPlanExecutionSnapshot planID d = None)"
    using assms by (auto simp: captureSnapshotTx_def Let_def split: if_splits)
  let ?gp = "case latestPlanExecutionSnapshot planID d of Some p \<Rightarrow> if trimSpace gp = [] then snGenerationProvider p else gp | None \<Rightarrow> gp"
  obtain s where s: "loadPlanSnapshotState e planID ?gp d = Inr s"
    using assms k by (auto simp: captureSnapshotTx_def Let_def bindR_Inr_iff)
  let ?git = "case wk of None \<Rightarrow> ssGit s | Some w \<Rightarrow> w"
  obtain c c3 n where c: "prepareIn e (wkPath ?git) c = Inr c3"
    "row = newSnapshot i kind taskID (latestPlanExecutionSnapshot planID d) s ?git n (snd c3)"
    "d' = d\<lparr>dbSnapshots := dbSnapshots d @ [row]\<rparr>"
    using assms k s unfolding captureSnapshotTx_def Let_def bindR_Inr_iff
    by (auto simp: bindR_Inr_iff)
  obtain raw out where "c3 = (raw, out)" by fastforce
  then show thesis using that c k s by simp
qed
lemma newSnapshot_simps [simp]:
  "snId (newSnapshot i kind taskID prev s git n out) = i"
  "snPlan (newSnapshot i kind taskID prev s git n out) = ssPlan s"
  "snKind (newSnapshot i kind taskID prev s git n out) = kind"
  "snPrevious (newSnapshot i kind taskID prev s git n out) = map_option snId prev"
  "snSequence (newSnapshot i kind taskID prev s git n out) = (case prev of None \<Rightarrow> 1 | Some p \<Rightarrow> snSequence p + 1)"
  "snFiles (newSnapshot i kind taskID prev s git n out) = out"
  by (simp_all add: newSnapshot_def)

lemma loaded_plan: "loadPlanSnapshotState e planID gp d = Inr s \<Longrightarrow> ssPlan s = planID"
  by (auto simp: loadPlanSnapshotState_def Let_def bindR_Inr_iff split: option.splits)

lemma capture_keeps_chains:
  assumes "captureSnapshotTx e i planID kind taskID gp summary files wk d = Inr (d', row)" "snapshotsOk d"
  shows "snapshotsOk d'"
  using assms(1)
proof (cases rule: captureSnapshotTx_cases)
  case (1 s n c raw out)
  let ?old = "filter (\<lambda>s. snPlan s = planID) (dbSnapshots d)"
  let ?prev = "latestPlanExecutionSnapshot planID d"
  have chain: "snapshotChain ?old" using assms(2) by (simp add: snapshotsOk_def)
  have row: "snPlan row = planID" "snKind row = kind" "snFiles row = out" using 1(1) loaded_plan [OF 1(6)] by simp_all
  have "boundedFiles out"
    using preparePlanExecutionChanges_bounded_aux [OF 1(7) [unfolded prepareIn_def]] by (simp add: boundedFiles_def)
  then have new: "snKind row \<in> set snapshotKinds \<and> boundedFiles (snFiles row)" using row 1(3) by simp
  have "snapshotChain (?old @ [row])"
  proof (cases "?old = []")
    case True
    then have "?prev = None" by (simp add: latestPlanExecutionSnapshot_def newestBy_def)
    then show ?thesis using True new 1(1,5) row by (auto simp: snapshotChain_def)
  next
    case False
    then have p: "?prev = Some (last ?old)" using chain_newest [OF chain] by (simp add: latestPlanExecutionSnapshot_def)
    then have "chainLink (last ?old) row" using 1(1,4) row by (auto simp: chainLink_def)
    then show ?thesis using False chain new
      by (auto simp: snapshotChain_def successively_append_iff split: list.splits)
  qed
  then show ?thesis using assms(2) row(1) by (auto simp: snapshotsOk_def 1(2))
qed

section \<open>Drift\<close>

text \<open>The present context does not depend on the snapshots and audits, and of the provider asked
  for it only keeps the provider.\<close>

lemma load_frame:
  assumes "loadPlanSnapshotState e planID gp d = Inr s"
    and "dbPlans d' = dbPlans d" "dbIntakes d' = dbIntakes d" "dbProjects d' = dbProjects d"
  shows "\<exists>g. loadPlanSnapshotState e planID gp' d' = Inr (s\<lparr>ssGenerationProvider := g\<rparr>)"
proof -
  have find: "findIntake k d' = findIntake k d" "findProject k d' = findProject k d" for k
    by (simp_all add: findIntake_def findProject_def assms)
  obtain p where p: "findRow planID (dbPlans d) = Some p" using assms(1) by (cases "findRow planID (dbPlans d)") (simp_all add: loadPlanSnapshotState_def)
  obtain k where k: "findIntake (plIntake p) d = Some k" using assms(1) by (cases "findIntake (plIntake p) d") (simp_all add: loadPlanSnapshotState_def p)
  obtain pr where pr: "findProject (lProject p) d = Some pr" using assms(1) by (cases "findProject (lProject p) d") (simp_all add: loadPlanSnapshotState_def p k)
  obtain st where st: "pjSettings pr = Some st" using assms(1) by (cases "pjSettings pr") (simp_all add: loadPlanSnapshotState_def p k pr)
  obtain ep where ep: "providerFromPlanConfigSnapshot (plConfig p) = Inr ep"
    using assms(1) by (cases "providerFromPlanConfigSnapshot (plConfig p)") (simp_all add: loadPlanSnapshotState_def p k pr st Let_def)
  obtain fs where fs: "keyExecutionFields st (plConfig p) = Inr fs"
    using assms(1) by (cases "keyExecutionFields st (plConfig p)") (simp_all add: loadPlanSnapshotState_def p k pr st ep Let_def)
  show ?thesis using assms(1) by (simp add: loadPlanSnapshotState_def p k pr st ep fs Let_def find assms(2)) auto
qed

text \<open>Right after a capture without a given workspace no compared field differs.\<close>

definition cleanDrift :: "uuid \<Rightarrow> plan_snapshot \<Rightarrow> plan_drift" where
  "cleanDrift planID row = \<lparr>pdPlan = planID, pdBaseline = Some (snId row), pdSequence = snSequence row,
     pdStatus = ''clean'', pdRequires = False, pdDifferences = RawValue (JArr [])\<rparr>"

lemma fresh_snapshot_clean:
  assumes "captureSnapshotTx e i planID kind taskID gp summary files None d = Inr (d', row)" "snapshotsOk d"
    and "dbSnapshots d'' = dbSnapshots d'" "dbPlans d'' = dbPlans d" "dbIntakes d'' = dbIntakes d" "dbProjects d'' = dbProjects d"
  shows "GetPlanDrift e planID d'' = Inr (cleanDrift planID row)"
  using assms(1)
proof (cases rule: captureSnapshotTx_cases)
  case (1 s n c raw out)
  let ?new = "filter (\<lambda>s. snPlan s = planID) (dbSnapshots d'')"
  have "snapshotsOk d'" by (rule capture_keeps_chains [OF assms(1,2)])
  then have chain: "snapshotChain ?new" using assms(3) by (simp add: snapshotsOk_def)
  have "snPlan row = planID" using 1(1) loaded_plan [OF 1(6)] by simp
  then have "?new = filter (\<lambda>s. snPlan s = planID) (dbSnapshots d) @ [row]" by (simp add: assms(3) 1(2))
  then have l: "latestPlanExecutionSnapshot planID d'' = Some row"
    using chain_newest [OF chain] by (simp add: latestPlanExecutionSnapshot_def)
  obtain g where g: "loadPlanSnapshotState e planID (snGenerationProvider row) d'' = Inr (s\<lparr>ssGenerationProvider := g\<rparr>)"
    using load_frame [OF 1(6) assms(4-6)] by blast
  have "filter (\<lambda>(f, x, y). x \<noteq> y) (driftFields e row (s\<lparr>ssGenerationProvider := g\<rparr>)) = []"
    by (simp add: driftFields_def 1(1) newSnapshot_def)
  then show ?thesis by (simp add: GetPlanDrift_def l g cleanDrift_def)
qed

lemma audit_frame:
  assumes "insertPlanDriftAuditTx i projectID planID action original new1 target rawDiff channel reason d = Inr (d', a)"
  shows "d' = d\<lparr>dbAudits := dbAudits d @ [a]\<rparr>"
  using assms by (auto simp: insertPlanDriftAuditTx_def Let_def split: option.splits)

lemma capture_frame:
  assumes "captureSnapshotTx e i planID kind taskID gp summary files wk d = Inr (d', row)"
  shows "dbPlans d' = dbPlans d" "dbIntakes d' = dbIntakes d" "dbProjects d' = dbProjects d" "dbAudits d' = dbAudits d"
    "dbSnapshots d' = dbSnapshots d @ [row]"
  using captureSnapshotTx_cases [OF assms] by (force, force, force, force, force)

text \<open>Accepting the present context ends the drift.\<close>

lemma accept_steps:
  assumes "AcceptPlanExecutionSnapshot e snapID auditID planID original rawDiff channel reason d = Inr (d', accepted, audit)"
  obtains p b d1 where "findRow planID (dbPlans d) = Some p" "expectLatest planID original d = Inr b"
    "captureSnapshotTx e snapID planID ''user_accepted'' None (snGenerationProvider b) RawEmpty [] None d = Inr (d1, accepted)"
    "insertPlanDriftAuditTx auditID (lProject p) planID ''snapshot_updated'' (Some (snId b)) (Some (snId accepted)) None
      rawDiff channel reason d1 = Inr (d', audit)"
proof -
  obtain p where p: "ValidatePlanDriftAudit ''snapshot_updated'' channel reason rawDiff = None" "findRow planID (dbPlans d) = Some p"
    using assms by (auto simp: AcceptPlanExecutionSnapshot_def split: option.splits)
  obtain b where b: "expectLatest planID original d = Inr b"
    using assms by (auto simp: AcceptPlanExecutionSnapshot_def bindR_Inr_iff p)
  have "\<exists>d1. captureSnapshotTx e snapID planID ''user_accepted'' None (snGenerationProvider b) RawEmpty [] None d = Inr (d1, accepted) \<and>
    insertPlanDriftAuditTx auditID (lProject p) planID ''snapshot_updated'' (Some (snId b)) (Some (snId accepted)) None
      rawDiff channel reason d1 = Inr (d', audit)"
    using assms by (auto simp: AcceptPlanExecutionSnapshot_def captureWithoutChanges_def bindR_Inr_iff p b)
  then show thesis using that p(2) b by blast
qed

lemma accept_clean:
  assumes "AcceptPlanExecutionSnapshot e snapID auditID planID original rawDiff channel reason d = Inr (d', accepted, audit)"
    and "snapshotsOk d"
  shows "GetPlanDrift e planID d' = Inr (cleanDrift planID accepted)"
  using assms(1)
proof (cases rule: accept_steps)
  case (1 p b d1)
  then have "d' = d1\<lparr>dbAudits := dbAudits d1 @ [audit]\<rparr>" by (blast dest: audit_frame)
  then show ?thesis
    by (intro fresh_snapshot_clean [OF 1(3) assms(2)]) (simp_all add: capture_frame [OF 1(3)])
qed

definition replacePlan :: "time \<Rightarrow> update_params \<Rightarrow> db \<Rightarrow> db" where
  "replacePlan now u d = d\<lparr>dbPlans := updateRow (upPlan u) (\<lambda>p. p\<lparr>plTitle := upTitle u, plSpec := upSpec u,
      plMarkdown := upMarkdown u, plConfig := upConfig u, lUpdated := now, lVersion := lVersion p + 1,
      plContentVersion := plContentVersion p + 1\<rparr>) (dbPlans d)\<rparr>"

lemma update_steps:
  assumes "UpdatePlanExecutionSnapshot e now snapID auditID u d = Inr (d', p, accepted, audit)"
  obtains q b d1 where "findRow (upPlan u) (dbPlans d) = Some q" "expectLatest (upPlan u) (upOriginal u) d = Inr b"
    "captureSnapshotTx e snapID (upPlan u) ''user_accepted'' None (snGenerationProvider b) RawEmpty [] None (replacePlan now u d) =
       Inr (d1, accepted)"
    "insertPlanDriftAuditTx auditID (lProject q) (upPlan u) ''snapshot_updated'' (Some (snId b)) (Some (snId accepted)) None
      (upRawDiff u) (upChannel u) (upReason u) d1 = Inr (d', audit)"
proof -
  have v: "ValidatePlanDriftAudit ''snapshot_updated'' (upChannel u) (upReason u) (upRawDiff u) = None"
    using assms by (auto simp: UpdatePlanExecutionSnapshot_def split: option.splits)
  obtain b where b: "expectLatest (upPlan u) (upOriginal u) d = Inr b"
    using assms by (auto simp: UpdatePlanExecutionSnapshot_def bindR_Inr_iff split: option.splits if_splits)
  obtain q where q: "findRow (upPlan u) (dbPlans d) = Some q"
    using assms b by (auto simp: UpdatePlanExecutionSnapshot_def split: option.splits if_splits)
  have "\<exists>d1. captureSnapshotTx e snapID (upPlan u) ''user_accepted'' None (snGenerationProvider b) RawEmpty [] None (replacePlan now u d) =
       Inr (d1, accepted) \<and>
    insertPlanDriftAuditTx auditID (lProject q) (upPlan u) ''snapshot_updated'' (Some (snId b)) (Some (snId accepted)) None
      (upRawDiff u) (upChannel u) (upReason u) d1 = Inr (d', audit)"
    using assms by (auto simp: UpdatePlanExecutionSnapshot_def captureWithoutChanges_def v b q Let_def bindR_Inr_iff
      replacePlan_def [symmetric] split: if_splits)
  then show thesis using that b q by blast
qed

lemma replacePlan_frame [simp]:
  "dbSnapshots (replacePlan now u d) = dbSnapshots d" "dbAudits (replacePlan now u d) = dbAudits d"
  by (simp_all add: replacePlan_def)

lemma update_clean:
  assumes "UpdatePlanExecutionSnapshot e now snapID auditID u d = Inr (d', p, accepted, audit)" "snapshotsOk d"
  shows "GetPlanDrift e (upPlan u) d' = Inr (cleanDrift (upPlan u) accepted)"
  using assms(1)
proof (cases rule: update_steps)
  case (1 q b d1)
  have d': "d' = d1\<lparr>dbAudits := dbAudits d1 @ [audit]\<rparr>" using 1(4) by (blast dest: audit_frame)
  have "snapshotsOk (replacePlan now u d)" using assms(2) by (simp add: snapshotsOk_def)
  then show ?thesis
    by (rule fresh_snapshot_clean [OF 1(3)]) (simp_all add: d' capture_frame [OF 1(3)])
qed

section \<open>The rows as a transition system\<close>

text \<open>One write of a committed operation on snapshots or audits, with any arguments; an update that cancels a plan, with
  the row its trigger inserts, whatever operation it belongs to; the deletion of a plan, and of a project with its plans,
  whose rows go with them. Everything else of the database may change in between.\<close>

inductive snapshot_step :: "db \<Rightarrow> db \<Rightarrow> bool" where
  capture: "captureSnapshotTx e i planID kind taskID gp summary files wk d = Inr (d', row) \<Longrightarrow> snapshot_step d d'"
| checkpoint: "CapturePlanExecutionCheckpoint e i projectID planID taskID summary files d = Inr (d', row) \<Longrightarrow> snapshot_step d d'"
| accept: "AcceptPlanExecutionSnapshot e i j planID original rawDiff channel reason d = Inr (d', row, a) \<Longrightarrow> snapshot_step d d'"
| update: "UpdatePlanExecutionSnapshot e now i j u d = Inr (d', p, row, a) \<Longrightarrow> snapshot_step d d'"
| regenerate: "RecordPlanRegenerationAudit i planID original target rawDiff channel reason d = Inr (d', a) \<Longrightarrow> snapshot_step d d'"
| abandon: "RecordPlanExecutionAbandonedAudit i planID original rawDiff channel reason d = Inr (d', a) \<Longrightarrow> snapshot_step d d'"
| cancelled: "findRow planID (dbPlans d) = Some old \<Longrightarrow> findRow planID (dbPlans d1) = Some new \<Longrightarrow>
    dbSnapshots d1 = dbSnapshots d \<Longrightarrow> dbAudits d1 = dbAudits d \<Longrightarrow> snapshot_step d (auditPlanExecutionAbandoned i old new d1)"
| delete: "DeletePlan now planID version d = Inr d' \<Longrightarrow> snapshot_step d d'"
| delete_project: "dbSnapshots d' = filter (\<lambda>s. snPlan s \<notin> plans) (dbSnapshots d) \<Longrightarrow>
    dbAudits d' = filter (\<lambda>a. daPlan a \<notin> plans) (dbAudits d) \<Longrightarrow> snapshot_step d d'"
| other: "dbSnapshots d' = dbSnapshots d \<Longrightarrow> dbAudits d' = dbAudits d \<Longrightarrow> snapshot_step d d'"

definition auditsOk :: "db \<Rightarrow> bool" where
  "auditsOk d \<longleftrightarrow> (\<forall>planID. map daSequence (filter (\<lambda>a. daPlan a = planID) (dbAudits d)) =
     map (\<lambda>k. int k + 1) [0..<length (filter (\<lambda>a. daPlan a = planID) (dbAudits d))])"

definition snapshot_inv :: "db \<Rightarrow> bool" where
  "snapshot_inv d \<longleftrightarrow> snapshotsOk d \<and> auditsOk d"

lemma newest_of_numbered:
  assumes "map f rs = map (\<lambda>k. int k + 1) [0..<length rs]"
  shows "(case newestBy f rs of None \<Rightarrow> 0 | Some r \<Rightarrow> f r) = int (length rs)"
proof (cases "rs = []")
  case False
  then obtain xs x where rs: "rs = xs @ [x]" by (cases rs rule: rev_cases) auto
  have n: "map f xs = map (\<lambda>k. int k + 1) [0..<length xs]" "f x = int (length xs) + 1" using assms by (simp_all add: rs)
  have "\<forall>r \<in> set xs. f r < f x"
  proof
    fix r assume "r \<in> set xs"
    then have "f r \<in> set (map (\<lambda>k. int k + 1) [0..<length xs])" using n(1) by (metis image_eqI list.set_map)
    then show "f r < f x" using n(2) by auto
  qed
  then show ?thesis using newestBy_snoc [of xs f x] n(2) by (simp add: rs)
qed (simp add: newestBy_def)

lemma audit_keeps:
  assumes "insertPlanDriftAuditTx i projectID planID action original new1 target rawDiff channel reason d = Inr (d', a)"
    and "snapshot_inv d"
  shows "snapshot_inv d'"
proof -
  let ?as = "filter (\<lambda>a. daPlan a = planID) (dbAudits d)"
  have n: "map daSequence ?as = map (\<lambda>k. int k + 1) [0..<length ?as]" using assms(2) by (simp add: snapshot_inv_def auditsOk_def)
  have d': "d' = d\<lparr>dbAudits := dbAudits d @ [a]\<rparr>" by (rule audit_frame [OF assms(1)])
  have "daPlan a = planID \<and> daSequence a = (case newestBy daSequence ?as of None \<Rightarrow> 0 | Some a \<Rightarrow> daSequence a) + 1"
    using assms(1) by (auto simp: insertPlanDriftAuditTx_def Let_def split: option.splits)
  then have a: "daPlan a = planID" "daSequence a = int (length ?as) + 1" using newest_of_numbered [OF n] by simp_all
  have "auditsOk d'" using assms(2) n a by (auto simp: snapshot_inv_def auditsOk_def d')
  then show ?thesis using assms(2) by (simp add: snapshot_inv_def snapshotsOk_def d')
qed

lemma capture_keeps:
  assumes "captureSnapshotTx e i planID kind taskID gp summary files wk d = Inr (d', row)" "snapshot_inv d"
  shows "snapshot_inv d'"
  using capture_keeps_chains [OF assms(1)] assms(2)
  by (simp add: snapshot_inv_def auditsOk_def capture_frame(4) [OF assms(1)])

lemma snapshot_inv_frame:
  "dbSnapshots d' = dbSnapshots d \<Longrightarrow> dbAudits d' = dbAudits d \<Longrightarrow> snapshot_inv d' = snapshot_inv d"
  by (simp add: snapshot_inv_def snapshotsOk_def auditsOk_def)

text \<open>The row of the trigger is numbered like any other, and rows of deleted plans leave no gap in those of others.\<close>

lemma abandoned_keeps:
  assumes "snapshot_inv d" shows "snapshot_inv (auditPlanExecutionAbandoned i old new d)"
proof (cases "lStatus old \<noteq> ''cancelled'' \<and> lStatus new = ''cancelled''")
  case True
  let ?as = "filter (\<lambda>a. daPlan a = lId new) (dbAudits d)"
  have n: "map daSequence ?as = map (\<lambda>k. int k + 1) [0..<length ?as]" using assms by (simp add: snapshot_inv_def auditsOk_def)
  define a where "a = abandonedRow i old new d"
  have "auditPlanExecutionAbandoned i old new d = d\<lparr>dbAudits := dbAudits d @ [a]\<rparr>"
    using True by (simp add: auditPlanExecutionAbandoned_def a_def)
  moreover have "daPlan a = lId new" by (simp add: a_def abandonedRow_def)
  moreover have "daSequence a = int (length ?as) + 1"
    by (simp only: a_def abandonedRow_def drift_audit.simps newest_of_numbered [OF n])
  ultimately have a: "auditPlanExecutionAbandoned i old new d = d\<lparr>dbAudits := dbAudits d @ [a]\<rparr>" "daPlan a = lId new"
    "daSequence a = int (length ?as) + 1" .
  have "auditsOk (d\<lparr>dbAudits := dbAudits d @ [a]\<rparr>)"
    using assms n a(2,3) by (auto simp: snapshot_inv_def auditsOk_def)
  then show ?thesis using assms by (simp add: a(1) snapshot_inv_def snapshotsOk_def)
next
  case False
  then show ?thesis using assms by (auto simp: auditPlanExecutionAbandoned_def)
qed

lemma snapshot_inv_cascade:
  assumes "snapshot_inv d" "dbSnapshots d' = filter (\<lambda>s. \<not> gone (snPlan s)) (dbSnapshots d)"
    "dbAudits d' = filter (\<lambda>a. \<not> gone (daPlan a)) (dbAudits d)"
  shows "snapshot_inv d'"
proof -
  have "filter (\<lambda>s. snPlan s = k) (dbSnapshots d') = (if gone k then [] else filter (\<lambda>s. snPlan s = k) (dbSnapshots d))"
    "filter (\<lambda>a. daPlan a = k) (dbAudits d') = (if gone k then [] else filter (\<lambda>a. daPlan a = k) (dbAudits d))" for k
    unfolding assms(2,3) by (auto simp: filter_empty_conv intro: filter_cong)
  then show ?thesis using assms(1) by (simp add: snapshot_inv_def snapshotsOk_def auditsOk_def snapshotChain_def)
qed

lemma DeletePlan_rows:
  assumes "DeletePlan now i v d = Inr d'"
  shows "dbSnapshots d' = filter (\<lambda>s. snPlan s \<noteq> i) (dbSnapshots d)" "dbAudits d' = filter (\<lambda>a. daPlan a \<noteq> i) (dbAudits d)"
proof -
  obtain p where p: "findRow i (dbPlans d) = Some p" using assms by (auto simp: DeletePlan_def split: option.splits)
  have "d' = deletePlanRow i (emit now (lProject p) ''plan.deleted'' ''plan'' i (v + 1) [] (deleteTaskJobs i d))"
    using assms by (auto simp: DeletePlan_def p split: if_splits)
  then show "dbSnapshots d' = filter (\<lambda>s. snPlan s \<noteq> i) (dbSnapshots d)" "dbAudits d' = filter (\<lambda>a. daPlan a \<noteq> i) (dbAudits d)"
    by (simp_all add: deletePlanRow_def deleteTaskJobs_def emit_def insertEvent_def Let_def)
qed

lemma stale_refused:
  "latestPlanExecutionSnapshot planID d = Some b \<Longrightarrow> original \<noteq> nilUUID \<Longrightarrow> snId b \<noteq> original \<Longrightarrow>
     isl (AcceptPlanExecutionSnapshot e i j planID original rawDiff channel reason d)"
  by (simp add: AcceptPlanExecutionSnapshot_def expectLatest_def split: option.splits)

lemma step_keeps: "snapshot_step d d' \<Longrightarrow> snapshot_inv d \<Longrightarrow> snapshot_inv d'"
proof (induction rule: snapshot_step.induct)
  case (capture e i planID kind taskID gp summary files wk d d' row)
  then show ?case by (blast intro: capture_keeps)
next
  case (checkpoint e i projectID planID taskID summary files d d' row)
  then have "captureSnapshotTx e i planID ''task_checkpoint'' (Some taskID) [] summary files None d = Inr (d', row)"
    by (simp add: CapturePlanExecutionCheckpoint_def split: option.splits if_splits)
  then show ?case by (rule capture_keeps) (rule checkpoint(2))
next
  case (accept e i j planID original rawDiff channel reason d d' row a)
  from accept(1) show ?case
  proof (cases rule: accept_steps)
    case (1 p b d1)
    show ?thesis by (rule audit_keeps [OF 1(4) capture_keeps [OF 1(3) accept(2)]])
  qed
next
  case (update e now i j u d d' p row a)
  have "snapshot_inv (replacePlan now u d)" using update(2) snapshot_inv_frame [of "replacePlan now u d" d] by simp
  from update(1) show ?case
  proof (cases rule: update_steps)
    case (1 q b d1)
    show ?thesis by (rule audit_keeps [OF 1(4) capture_keeps [OF 1(3) \<open>snapshot_inv (replacePlan now u d)\<close>]])
  qed
next
  case (regenerate i planID original target rawDiff channel reason d d' a)
  then have "\<exists>proj. insertPlanDriftAuditTx i proj planID ''plan_regenerated'' (Some original) None
      (Some target) rawDiff channel reason d = Inr (d', a)"
    by (simp add: RecordPlanRegenerationAudit_def exI split: option.splits if_splits)
  then obtain proj where "insertPlanDriftAuditTx i proj planID ''plan_regenerated'' (Some original) None
      (Some target) rawDiff channel reason d = Inr (d', a)" by blast
  then show ?case by (rule audit_keeps) (rule regenerate(2))
next
  case (abandon i planID original rawDiff channel reason d d' a)
  then have "\<exists>proj. insertPlanDriftAuditTx i proj planID ''execution_abandoned'' (Some original) None
      (Some planID) rawDiff channel reason d = Inr (d', a)"
    by (simp add: RecordPlanExecutionAbandonedAudit_def exI split: option.splits if_splits)
  then obtain proj where "insertPlanDriftAuditTx i proj planID ''execution_abandoned'' (Some original) None
      (Some planID) rawDiff channel reason d = Inr (d', a)" by blast
  then show ?case by (rule audit_keeps) (rule abandon(2))
next
  case (cancelled planID d old d1 new i)
  then show ?case using abandoned_keeps snapshot_inv_frame [of d1 d] by simp
next
  case (delete now planID version d d')
  then show ?case using snapshot_inv_cascade [of d d' "\<lambda>k. k = planID"] DeletePlan_rows by simp
next
  case (delete_project d' plans d)
  then show ?case using snapshot_inv_cascade [of d d' "\<lambda>k. k \<in> plans"] by simp
next
  case (other d' d)
  then show ?case using snapshot_inv_frame [of d' d] by simp
qed

text \<open>C35. The snapshots of every plan form one chain: numbered 1, 2, 3 and so on, each naming the row
  before it as its predecessor, a generation baseline only in front, a task checkpoint never in front,
  and every stored change set within the bounds of a checkpoint; the audit rows of a plan are numbered
  the same way. No sequence of committed captures, checkpoints, acceptances, plan updates, audits, cancellations of plans
  with the audit row of their trigger, and deletions of plans and projects breaks this, whatever Git and the file system
  answer.\<close>

theorem snapshot_invariant:
  assumes "snapshot_step\<^sup>*\<^sup>* d d'" "snapshot_inv d"
  shows "snapshot_inv d'"
  using assms by (induction rule: rtranclp_induct) (auto intro: step_keeps)

definition sampleEnv :: snapshot_env where
  "sampleEnv = \<lparr>enSha = (\<lambda>s. s), enPrint = (\<lambda>v. if v = JNull then ''null'' else ''text''), enBytes = (\<lambda>_. []),
     enLexer = (\<lambda>_. RawInvalid), enGitOut = (\<lambda>_ _. None), enDiffGit = (\<lambda>_. None),
     enWorkspace = sampleWorkspace\<lparr>wsGit := (\<lambda>_ _. None)\<rparr>\<rparr>"

definition sampleIntake :: intake where
  "sampleIntake = \<lparr>ikId = ''intake'', ikProject = ''proj'', ikKind = ''requirement'', ikParent = None, ikTitle = ''T'',
     ikBody = ''B'', ikStatus = ''planned'', ikVersion = 1, ikUpdated = 0\<rparr>"

definition contextDb :: db where
  "contextDb = emptyDb\<lparr>dbProjects := [sampleProject], dbIntakes := [sampleIntake], dbPlans := [samplePlan ''ready'']\<rparr>"

text \<open>The database behind a result, for the examples.\<close>

definition committed :: "error + db \<times> 'x \<Rightarrow> db" where
  "committed r = (case r of Inl _ \<Rightarrow> emptyDb | Inr y \<Rightarrow> fst y)"

definition baselineDb :: db where
  "baselineDb = committed (captureWithoutChanges sampleEnv ''s1'' ''plan'' ''generation_baseline'' None [] None contextDb)"

definition changedDb :: db where
  "changedDb = baselineDb\<lparr>dbIntakes := [sampleIntake\<lparr>ikVersion := 2\<rparr>]\<rparr>"

definition acceptedDb :: db where
  "acceptedDb = committed (AcceptPlanExecutionSnapshot sampleEnv ''s2'' ''a1'' ''plan'' ''s1'' (RawValue (JArr [])) ''http'' ''seen'' changedDb)"

lemma sample_chain:
  "map snId (dbSnapshots acceptedDb) = [''s1'', ''s2'']"
  "(case GetPlanDrift sampleEnv ''plan'' changedDb of Inl _ \<Rightarrow> [] | Inr p \<Rightarrow> pdStatus p) = ''drifted''"
  by code_simp+

lemma committed_step:
  assumes "\<not> isl r" "\<And>d' x. r = Inr (d', x) \<Longrightarrow> snapshot_step d d'"
  shows "snapshot_step d (committed r)"
  using assms by (cases r) (auto simp: committed_def)

lemma baseline_step: "snapshot_step contextDb baselineDb"
  unfolding baselineDb_def
proof (rule committed_step)
  show "\<not> isl (captureWithoutChanges sampleEnv ''s1'' ''plan'' ''generation_baseline'' None [] None contextDb)" by code_simp
qed (auto simp: captureWithoutChanges_def intro: snapshot_step.capture)

lemma sample_steps: "snapshot_step\<^sup>*\<^sup>* contextDb acceptedDb"
proof -
  have "snapshot_step baselineDb changedDb" by (rule snapshot_step.other) (simp_all add: changedDb_def)
  moreover have "snapshot_step changedDb acceptedDb" unfolding acceptedDb_def
  proof (rule committed_step)
    show "\<not> isl (AcceptPlanExecutionSnapshot sampleEnv ''s2'' ''a1'' ''plan'' ''s1'' (RawValue (JArr [])) ''http'' ''seen'' changedDb)"
      by code_simp
  qed (auto intro: snapshot_step.accept)
  ultimately show ?thesis using baseline_step by (meson converse_rtranclp_into_rtranclp rtranclp.rtrancl_refl)
qed

lemma context_inv: "snapshot_inv contextDb"
  by (simp add: snapshot_inv_def snapshotsOk_def auditsOk_def contextDb_def emptyDb_def snapshotChain_def)

lemma sample_inv: "snapshot_inv baselineDb"
  by (rule step_keeps [OF baseline_step context_inv])

lemma snapshot_invariant_witness: "snapshot_inv acceptedDb"
  by (rule snapshot_invariant [OF sample_steps context_inv])

text \<open>C36. Accepting a drift ends it: right after an acceptance or a plan update the drift of the plan
  against its new baseline is clean, whatever had changed; and an acceptance that names a snapshot
  which is no longer the latest one is refused.\<close>

theorem acceptance_ends_drift:
  assumes "snapshot_inv d"
  shows "(AcceptPlanExecutionSnapshot e i j planID original rawDiff channel reason d = Inr (d', row, a) \<longrightarrow>
      GetPlanDrift e planID d' = Inr (cleanDrift planID row)) \<and>
    (UpdatePlanExecutionSnapshot e now i j u d = Inr (d', p, row, a) \<longrightarrow>
      GetPlanDrift e (upPlan u) d' = Inr (cleanDrift (upPlan u) row)) \<and>
    (latestPlanExecutionSnapshot planID d = Some b \<and> original \<noteq> nilUUID \<and> snId b \<noteq> original \<longrightarrow>
      isl (AcceptPlanExecutionSnapshot e i j planID original rawDiff channel reason d))"
  using accept_clean [of e i j planID original rawDiff channel reason d d' row a]
    update_clean [of e now i j u d d' p row a] stale_refused [of planID d b original e i j rawDiff channel reason]
    assms by (simp add: snapshot_inv_def)

lemma acceptance_ends_drift_witness:
  "GetPlanDrift sampleEnv ''plan'' acceptedDb = Inr (cleanDrift ''plan'' (last (dbSnapshots acceptedDb)))"
proof -
  let ?r = "AcceptPlanExecutionSnapshot sampleEnv ''s2'' ''a1'' ''plan'' ''s1'' (RawValue (JArr [])) ''http'' ''seen'' changedDb"
  have "\<not> isl ?r" by code_simp
  then obtain d' row a where r: "?r = Inr (d', row, a)" by (cases ?r) auto
  then have d': "d' = acceptedDb" by (simp add: acceptedDb_def committed_def)
  have "snapshot_inv changedDb"
    using snapshot_inv_frame [of changedDb baselineDb] sample_inv by (simp add: changedDb_def)
  then have "GetPlanDrift sampleEnv ''plan'' d' = Inr (cleanDrift ''plan'' row)"
    using acceptance_ends_drift [of changedDb sampleEnv "''s2''" "''a1''" "''plan''" "''s1''"] r by blast
  moreover have "last (dbSnapshots d') = row" using r
    by (cases rule: accept_steps) (auto dest!: audit_frame simp: capture_frame(5))
  ultimately show ?thesis by (simp add: d')
qed

end
