(* ===== verification/SchedulerResults.thy ===== *)
theory SchedulerResults
  imports Scheduler
begin

text \<open>
  The properties of the scheduling gate: what a state that passes the graph check looks like,
  what \<^verbatim>\<open>nextPlanTask\<close> guarantees about the task it returns, when it reports completion, and
  that a healthy plan is never stuck.
\<close>

section \<open>The graph check\<close>

definition isFinal :: "plan_task \<Rightarrow> bool" where
  "isFinal t \<longleftrightarrow> ptType t = ''final_validation''"

lemma indexTasks_aux:
  "indexTasks s n i m f ts = Inr (m', f') \<Longrightarrow>
     distinct (map ptKey ts) \<and> (\<forall>j < length ts. m (ptKey (ts ! j)) = None \<and> m' (ptKey (ts ! j)) = Some (i + j)) \<and>
     (\<forall>k. k \<notin> ptKey ` set ts \<longrightarrow> m' k = m k) \<and> f' = f + length (filter isFinal ts) \<and>
     (\<forall>j < length ts. isFinal (ts ! j) \<longrightarrow> Suc (i + j) = n)"
proof (induction ts arbitrary: i m f)
  case (Cons t ts)
  let ?m = "m(ptKey t \<mapsto> i)" and ?f = "if isFinal t then Suc f else f"
  have t: "m (ptKey t) = None" "isFinal t \<Longrightarrow> Suc i = n" "indexTasks s n (Suc i) ?m ?f ts = Inr (m', f')"
    using Cons.prems by (auto simp: isFinal_def split: if_splits)
  note ih = Cons.IH [OF t(3)]
  have new: "ptKey t \<notin> ptKey ` set ts"
  proof
    assume "ptKey t \<in> ptKey ` set ts"
    then obtain j where "j < length ts" "ptKey (ts ! j) = ptKey t" by (auto simp: in_set_conv_nth)
    then have "?m (ptKey t) = None" using ih by metis
    then show False by simp
  qed
  then have here: "m' (ptKey t) = Some i" using ih by simp
  have idx: "m (ptKey ((t # ts) ! j)) = None \<and> m' (ptKey ((t # ts) ! j)) = Some (i + j) \<and>
      (isFinal ((t # ts) ! j) \<longrightarrow> Suc (i + j) = n)" if j: "j < Suc (length ts)" for j
  proof (cases j)
    case 0
    then show ?thesis using t(1,2) here by simp
  next
    case (Suc k)
    then have k: "k < length ts" using j by simp
    then have "ptKey (ts ! k) \<noteq> ptKey t" using new imageI [OF nth_mem [OF k], of ptKey] by metis
    moreover note ih [THEN conjunct2, THEN conjunct1, rule_format, OF k]
      ih [THEN conjunct2, THEN conjunct2, THEN conjunct2, THEN conjunct2, rule_format, OF k]
    ultimately show ?thesis using Suc by simp
  qed
  have rest: "\<forall>k. k \<notin> ptKey ` set (t # ts) \<longrightarrow> m' k = m k" using ih by auto
  have "distinct (map ptKey (t # ts))" using ih new by simp
  moreover have "f' = f + length (filter isFinal (t # ts))" using ih by auto
  ultimately show ?case using idx rest by simp
qed simp

lemma indexTasks_Inl: "indexTasks s n i m f ts = Inl bs \<Longrightarrow> bs \<noteq> []"
  by (induction ts arbitrary: i m f) (auto split: if_splits)

lemma checkMetadata_nth:
  "checkMetadata u i m ts = [] \<Longrightarrow> j < length ts \<Longrightarrow> checkTaskMetadata u (i + j) m (ts ! j) = []"
proof (induction ts arbitrary: i j)
  case (Cons t ts)
  then show ?case
    by (cases j) (fastforce simp: Let_def split: if_splits)+
qed simp

lemma checkCriteria_ok:
  "checkCriteria u t seen ks = [] \<Longrightarrow>
     distinct (map trimSpace ks) \<and> (\<forall>k \<in> set ks. trimSpace k \<noteq> [] \<and> trimSpace k \<notin> seen)"
  by (induction ks arbitrary: seen) (fastforce simp: Let_def split: if_splits)+

lemma checkDependencyKeys_ok:
  "checkDependencyKeys t i m seen ds = [] \<Longrightarrow> distinct ds \<and> (\<forall>d \<in> set ds. d \<notin> seen \<and> (\<exists>k < i. m d = Some k))"
  by (induction ds arbitrary: seen) (auto split: if_splits option.splits)

lemma checkTaskMetadata_ok:
  assumes "checkTaskMetadata u i m t = []"
  shows "\<exists>ks ds. decodeKeys (ptAcceptanceDefinition t) = Some ks \<and> ks \<noteq> [] \<and> distinct (map trimSpace ks) \<and>
    (\<forall>k \<in> set ks. trimSpace k \<noteq> []) \<and> decodeStringList (ptDependencyKeys t) = Some ds \<and> distinct ds \<and>
    (\<forall>d \<in> set ds. \<exists>k < i. m d = Some k)"
  using assms unfolding checkTaskMetadata_def
  by (auto simp: Let_def split: option.splits list.splits if_splits dest!: checkCriteria_ok checkDependencyKeys_ok)

text \<open>The graph that the check accepts, in execution order.\<close>

definition graph_ok :: "plan_task list \<Rightarrow> bool" where
  "graph_ok ts \<longleftrightarrow> distinct (map ptKey ts) \<and>
     (\<forall>j < length ts. isFinal (ts ! j) \<longleftrightarrow> Suc j = length ts) \<and>
     (\<forall>j < length ts. \<exists>ks ds. decodeKeys (ptAcceptanceDefinition (ts ! j)) = Some ks \<and> ks \<noteq> [] \<and>
        distinct (map trimSpace ks) \<and> (\<forall>k \<in> set ks. trimSpace k \<noteq> []) \<and>
        decodeStringList (ptDependencyKeys (ts ! j)) = Some ds \<and> distinct ds \<and>
        (\<forall>d \<in> set ds. \<exists>k < j. ptKey (ts ! k) = d))"

lemma validate_cases:
  assumes "validatePlanExecutionState u s = []"
  shows "esExecutable s" "\<not> persistedProblems (esProblems s)" "esTasks s \<noteq> []"
    "esCompat s \<or> (\<exists>m. indexTasks s (length (esTasks s)) 0 Map.empty 0 (esTasks s) = Inr (m, 1) \<and>
       checkMetadata u 0 m (esTasks s) = [])"
  using assms unfolding validatePlanExecutionState_def
  by (auto split: if_splits sum.splits dest: indexTasks_Inl)

lemma count_one_last:
  assumes "length (filter P xs) = 1" "\<forall>j < length xs. P (xs ! j) \<longrightarrow> Suc j = length xs"
  shows "\<forall>j < length xs. P (xs ! j) \<longleftrightarrow> Suc j = length xs"
proof (intro allI impI iffI)
  fix j assume j: "j < length xs" "Suc j = length xs"
  obtain x where "x \<in> set (filter P xs)" using assms(1) by (cases "filter P xs") auto
  then obtain i where "i < length xs" "P (xs ! i)" by (auto simp: in_set_conv_nth)
  then show "P (xs ! j)" using assms(2) j by (metis Suc_inject)
qed (use assms(2) in blast)

lemma validated_graph_aux:
  assumes "validatePlanExecutionState u s = []" "\<not> esCompat s"
  shows "esExecutable s \<and> \<not> persistedProblems (esProblems s) \<and> esTasks s \<noteq> [] \<and> graph_ok (esTasks s)"
proof -
  let ?ts = "esTasks s"
  note v = validate_cases [OF assms(1)]
  obtain m where m: "indexTasks s (length ?ts) 0 Map.empty 0 ?ts = Inr (m, 1)" "checkMetadata u 0 m ?ts = []"
    using v(4) assms(2) by blast
  note i = indexTasks_aux [OF m(1)]
  have fin: "\<forall>j < length ?ts. isFinal (?ts ! j) \<longleftrightarrow> Suc j = length ?ts"
    by (rule count_one_last) (use i in simp_all)
  have earlier: "\<exists>k < j. ptKey (?ts ! k) = d" if "m d = Some k" "k < j" for d k j
  proof -
    have "d \<in> ptKey ` set ?ts" using i that(1) by (metis option.distinct(1))
    then obtain l where l: "l < length ?ts" "ptKey (?ts ! l) = d" by (auto simp: in_set_conv_nth)
    then have "m d = Some l" using i by auto
    then show ?thesis using that l by auto
  qed
  have "\<exists>ks ds. decodeKeys (ptAcceptanceDefinition (?ts ! j)) = Some ks \<and> ks \<noteq> [] \<and>
      distinct (map trimSpace ks) \<and> (\<forall>k \<in> set ks. trimSpace k \<noteq> []) \<and>
      decodeStringList (ptDependencyKeys (?ts ! j)) = Some ds \<and> distinct ds \<and>
      (\<forall>d \<in> set ds. \<exists>k < j. ptKey (?ts ! k) = d)" if j: "j < length ?ts" for j
  proof -
    obtain ks ds where "decodeKeys (ptAcceptanceDefinition (?ts ! j)) = Some ks" "ks \<noteq> []"
      "distinct (map trimSpace ks)" "\<forall>k \<in> set ks. trimSpace k \<noteq> []"
      "decodeStringList (ptDependencyKeys (?ts ! j)) = Some ds" "distinct ds" "\<forall>d \<in> set ds. \<exists>k < j. m d = Some k"
      using checkTaskMetadata_ok [OF checkMetadata_nth [OF m(2) j]] by auto
    then show ?thesis using earlier by blast
  qed
  then show ?thesis using v(1-3) i fin by (simp add: graph_ok_def)
qed

text \<open>C19. A plan state that passes \<^verbatim>\<open>validatePlanExecutionState\<close> in structured mode is
  executable, has no stored problems, and its tasks form a graph in execution order: unique keys, the
  last task and only it is the final validation, complete unique acceptance keys, and
  dependencies that are unique and stand earlier.\<close>

theorem validated_graph:
  assumes "validatePlanExecutionState u s = []" "\<not> esCompat s"
  shows "esExecutable s \<and> \<not> persistedProblems (esProblems s) \<and> esTasks s \<noteq> [] \<and> graph_ok (esTasks s)"
  by (rule validated_graph_aux [OF assms])

section \<open>The next task\<close>

text \<open>A task that no longer holds anything up.\<close>

definition settledTask :: "plan_task \<Rightarrow> bool" where
  "settledTask t \<longleftrightarrow> lStatus t = ''succeeded'' \<and> acceptanceSchedulingBlocker t = None"

lemma scanTasks_Next:
  "scanTasks s automatic ts = Next t \<Longrightarrow>
     \<exists>before after. ts = before @ t # after \<and> (\<forall>b \<in> set before. settledTask b) \<and> lStatus t \<noteq> ''succeeded'' \<and>
       dependencyBlockers s t = [] \<and> (automatic \<longrightarrow> lStatus t = ''pending'')"
proof (induction ts)
  case (Cons x ts)
  show ?case
  proof (cases "lStatus x = ''succeeded''")
    case True
    then have "settledTask x" "scanTasks s automatic ts = Next t"
      using Cons.prems by (auto simp: settledTask_def split: option.splits)
    then show ?thesis using Cons.IH by (metis append_Cons set_ConsD)
  next
    case False
    then show ?thesis using Cons.prems by (intro exI [of _ "[]"] exI [of _ ts]) (auto split: if_splits)
  qed
qed simp

lemma scanTasks_Complete: "scanTasks s automatic ts = Complete \<Longrightarrow> \<forall>t \<in> set ts. settledTask t"
  by (induction ts) (auto simp: settledTask_def split: if_splits option.splits)

lemma scanTasks_pending:
  "\<forall>t \<in> set before. settledTask t \<Longrightarrow> lStatus t = ''pending'' \<Longrightarrow> dependencyBlockers s t = [] \<Longrightarrow>
     scanTasks s automatic (before @ t # after) = Next t"
  by (induction before) (auto simp: settledTask_def)

lemma scanTasks_settled: "\<forall>t \<in> set ts. settledTask t \<Longrightarrow> scanTasks s automatic ts = Complete"
  by (induction ts) (auto simp: settledTask_def)

lemma taskByKey_eq:
  assumes "distinct (map ptKey ts)" "t \<in> set ts"
  shows "taskByKey ts (ptKey t) = t"
proof -
  have "distinct (map fst (rev (map (\<lambda>t. (ptKey t, t)) ts)))" using assms(1) by (metis (no_types, lifting) comp_def distinct_rev fst_conv map_eq_conv map_map rev_map)
  then have "map_of (rev (map (\<lambda>t. (ptKey t, t)) ts)) (ptKey t) = Some t"
    by (rule map_of_is_SomeI) (use assms(2) in simp)
  then show ?thesis by (simp add: taskByKey_def)
qed

lemma dependencyBlocker_settled: "dependencyBlocker t d = [] \<longleftrightarrow> settledTask d"
  by (simp add: dependencyBlocker_def settledTask_def split: option.splits)

lemma dependencyBlockers_settled:
  "\<not> esCompat s \<Longrightarrow> decodeStringList (ptDependencyKeys t) = Some ds \<Longrightarrow>
     dependencyBlockers s t = [] \<longleftrightarrow> (\<forall>d \<in> set ds. settledTask (taskByKey (esTasks s) d))"
  by (simp add: dependencyBlockers_def dependencyBlocker_settled concat_eq_Nil_conv)

lemma nextPlanTask_Next:
  assumes "nextPlanTask u s automatic allowed = Next t"
  shows "validatePlanExecutionState u s = []" "activeTaskBlockers s allowed = []" "scanTasks s automatic (esTasks s) = Next t"
  using assms by (auto simp: nextPlanTask_def split: if_splits)


text \<open>C21. \<^verbatim>\<open>nextPlanTask\<close> reports a complete plan only when the plan has tasks and every one of
  them succeeded with its acceptance passed, item by item.\<close>

theorem nextPlanTask_complete:
  assumes "nextPlanTask u s automatic allowed = Complete"
  shows "esTasks s \<noteq> [] \<and> (\<forall>t \<in> set (esTasks s). lStatus t = ''succeeded'' \<and> acceptanceStatusPassed (ptAcceptanceStatus t) \<and>
    (\<exists>keys r. decodeKeys (ptAcceptanceDefinition t) = Some keys \<and>
       decodeResult [''reason'', ''items''] [''key'', ''status'', ''reason''] (ptAcceptanceResult t) = Some r \<and>
       (\<forall>k \<in> set keys. \<exists>i \<in> set (acItems r). riKey i = k \<and> acceptanceStatusPassed (riStatus i))))"
proof -
  have v: "validatePlanExecutionState u s = []" "scanTasks s automatic (esTasks s) = Complete"
    using assms by (auto simp: nextPlanTask_def split: if_splits)
  have item: "\<exists>i \<in> set results. riKey i = k \<and> acceptanceStatusPassed (riStatus i)"
    if bi: "blockingItems keys results = []" "k \<in> set keys" for keys results k
  proof -
    let ?m = "map_of (rev (map (\<lambda>i. (riKey i, \<lparr>abKey = riKey i, abStatus = riStatus i, abReason = riReason i\<rparr>)) results))"
    obtain b where b: "?m k = Some b" "acceptanceStatusPassed (abStatus b)"
      using bi by (auto simp: blockingItems_def Let_def split: option.splits if_splits)
    then show ?thesis using map_of_SomeD [OF b(1)] by auto
  qed
  have "acceptanceStatusPassed (ptAcceptanceStatus t) \<and> (\<exists>keys r. decodeKeys (ptAcceptanceDefinition t) = Some keys \<and>
       decodeResult [''reason'', ''items''] [''key'', ''status'', ''reason''] (ptAcceptanceResult t) = Some r \<and>
       (\<forall>k \<in> set keys. \<exists>i \<in> set (acItems r). riKey i = k \<and> acceptanceStatusPassed (riStatus i)))"
    if "acceptanceSchedulingBlocker t = None" for t
    using that item unfolding acceptanceSchedulingBlocker_def Let_def
    by (auto split: option.splits if_splits)
  then show ?thesis using validate_cases(3) [OF v(1)] scanTasks_Complete [OF v(2)] by (simp add: settledTask_def)
qed

text \<open>C22. A healthy structured plan is never stuck: when its state passes the check and every task is
  pending or settled, the scheduler returns the first pending task, or completion if there is none.\<close>

theorem nextPlanTask_progress:
  assumes "validatePlanExecutionState u s = []" "\<not> esCompat s"
    and "\<forall>t \<in> set (esTasks s). lStatus t = ''pending'' \<or> settledTask t"
  shows "nextPlanTask u s automatic allowed =
    (case filter (\<lambda>t. lStatus t = ''pending'') (esTasks s) of [] \<Rightarrow> Complete | t # _ \<Rightarrow> Next t)"
proof -
  have g: "graph_ok (esTasks s)" using validated_graph_aux [OF assms(1,2)] by blast
  have "activeTaskBlockers s allowed = []"
    using assms(3) by (fastforce simp: activeTaskBlockers_def filter_empty_conv settledTask_def)
  then have n: "nextPlanTask u s automatic allowed = scanTasks s automatic (esTasks s)"
    using assms(1) by (simp add: nextPlanTask_def)
  show ?thesis
  proof (cases "filter (\<lambda>t. lStatus t = ''pending'') (esTasks s)")
    case Nil
    then have "\<forall>t \<in> set (esTasks s). settledTask t" using assms(3) by (auto simp: filter_empty_conv)
    then show ?thesis using n Nil scanTasks_settled by simp
  next
    case (Cons t rest)
    then obtain before after where b: "esTasks s = before @ t # after" "\<forall>x \<in> set before. lStatus x \<noteq> ''pending''" "lStatus t = ''pending''"
      by (auto simp: filter_eq_Cons_iff)
    then have settled: "\<forall>x \<in> set before. settledTask x" using assms(3) by auto
    have "length before < length (esTasks s)" "esTasks s ! length before = t" using b(1) by simp_all
    then obtain ds where ds: "decodeStringList (ptDependencyKeys t) = Some ds"
      "\<forall>d \<in> set ds. \<exists>k < length before. ptKey (esTasks s ! k) = d"
      using g unfolding graph_ok_def by blast
    have "settledTask (taskByKey (esTasks s) d)" if dd: "d \<in> set ds" for d
    proof -
      obtain k where k: "k < length before" "ptKey (esTasks s ! k) = d" using ds(2) dd by blast
      then have "ptKey (before ! k) = d" using b(1) by (simp add: nth_append)
      moreover have "distinct (map ptKey (esTasks s))" using g by (simp add: graph_ok_def)
      moreover have "before ! k \<in> set (esTasks s)" using k(1) b(1) by simp
      ultimately have "taskByKey (esTasks s) d = before ! k" using taskByKey_eq by metis
      then show ?thesis using settled k(1) by simp
    qed
    then have "dependencyBlockers s t = []" using dependencyBlockers_settled [OF assms(2) ds(1)] by simp
    then show ?thesis using n Cons scanTasks_pending [OF settled b(3)] b(1) by simp
  qed
qed

section \<open>Witnesses\<close>

definition graphTask :: "gostring \<Rightarrow> gostring \<Rightarrow> gostring list \<Rightarrow> gostring \<Rightarrow> gostring \<Rightarrow> plan_task" where
  "graphTask i kind ds status acc =
     (sampleTask i status)\<lparr>ptType := kind, ptDependencyKeys := RawValue (JArr (map JStr ds)), ptAcceptanceStatus := acc,
        ptAcceptanceResult := buildAcceptanceResult (RawValue (JArr [JObj [(''key'', JStr ''A'')]])) acc []\<rparr>"

definition graphState :: "plan_task list \<Rightarrow> execution_state" where
  "graphState ts = \<lparr>esPlan = ''plan'', esProject = ''proj'', esVersion = 1, esStatus = ''running'', esExecutable = True,
     esCompat = False, esProblems = RawValue (JArr []), esConfig = RawValue (JObj []), esTasks = ts\<rparr>"

definition halfDone :: execution_state where
  "halfDone = graphState [graphTask ''T1'' ''implementation'' [] ''succeeded'' ''passed'',
     graphTask ''T2'' ''final_validation'' [''T1''] ''pending'' ''pending'']"

definition allDone :: execution_state where
  "allDone = graphState [graphTask ''T1'' ''implementation'' [] ''succeeded'' ''passed'',
     graphTask ''T2'' ''final_validation'' [''T1''] ''succeeded'' ''passed'']"

lemma halfDone_valid: "validatePlanExecutionState ascii_unicode halfDone = []" "\<not> esCompat halfDone"
  by code_simp+

lemma halfDone_tasks: "\<forall>t \<in> set (esTasks halfDone). lStatus t = ''pending'' \<or> settledTask t"
  unfolding settledTask_def by code_simp

lemma halfDone_next:
  "nextPlanTask ascii_unicode halfDone True None = Next (graphTask ''T2'' ''final_validation'' [''T1''] ''pending'' ''pending'')"
  by code_simp

lemma allDone_next: "nextPlanTask ascii_unicode allDone True None = Complete"
  by code_simp

lemma validated_graph_witness: "graph_ok (esTasks halfDone)"
  using validated_graph [OF halfDone_valid] by blast


lemma nextPlanTask_complete_witness: "esTasks allDone \<noteq> [] \<and> lStatus (hd (esTasks allDone)) = ''succeeded''"
  using nextPlanTask_complete [OF allDone_next] hd_in_set by blast

lemma nextPlanTask_progress_witness:
  "nextPlanTask ascii_unicode halfDone True None =
     (case filter (\<lambda>t. lStatus t = ''pending'') (esTasks halfDone) of [] \<Rightarrow> Complete | t # _ \<Rightarrow> Next t)"
  by (rule nextPlanTask_progress [OF halfDone_valid halfDone_tasks])

end
