(* ===== verification/LifecycleResults.thy ===== *)
theory LifecycleResults
  imports Store
begin

text \<open>
  The properties of the state machines and of the write gate: which statuses can move, that a
  refused or replayed request changes nothing, that terminal rows are protected, that the version
  guards, and that the audit trail always explains the rows.
\<close>

section \<open>The contracts\<close>

lemma EvaluateTransition_known:
  assumes "ParseLifecycleResource x = Some r"
  shows "EvaluateTransition x from to =
    evaluateIn (lcKnown (lifecycleContract r)) (lcTransitions (lifecycleContract r)) from to"
proof -
  have "x \<noteq> ''intake''"
  proof
    assume "x = ''intake''"
    moreover have "ParseLifecycleResource ''intake'' = None" by code_simp
    ultimately show False using assms by simp
  qed
  then show ?thesis using assms by (simp add: EvaluateTransition_def)
qed

text \<open>For every spelling of a lifecycle resource, a known status can move on to a different
  status exactly when it is not a dead end, that is not terminal or recoverable; \<^verbatim>\<open>interrupted\<close>
  is the only terminal status that can.\<close>

theorem EvaluateTransition_dead_ends:
  assumes "ParseLifecycleResource x = Some r"
  shows "(\<exists>to. EvaluateTransition x from to = Inr Applied) \<longleftrightarrow>
    from \<in> set (lcKnown (lifecycleContract r)) \<and>
    (IsTerminalStatus r from \<longrightarrow> IsRecoverableTerminalStatus r from \<and> from = ''interrupted'')"
proof -
  let ?c = "lifecycleContract r"
  note ok = lifecycleContract_ok [of r, unfolded contract_ok_def]
  have nonempty: "\<forall>(f, ds) \<in> set (lcTransitions ?c). ds \<noteq> []"
    using ParseLifecycleResource_in [OF assms]
    by (auto simp: lifecycleContract_def planContract_def taskContract_def jobContract_def runContract_def)
  have rec: "set (lcRecoverable ?c) \<subseteq> {''interrupted''}"
    using ParseLifecycleResource_in [OF assms]
    by (auto simp: lifecycleContract_def planContract_def taskContract_def jobContract_def runContract_def)
  have step: "EvaluateTransition x from to = Inr Applied \<longleftrightarrow>
      from \<in> set (lcKnown ?c) \<and> inTransitions (lcTransitions ?c) from to" for to
  proof -
    have "to \<in> set (lcKnown ?c) \<and> from \<noteq> to" if "inTransitions (lcTransitions ?c) from to"
      using ok that by (auto simp: inTransitions_def split: option.splits dest!: map_of_SomeD)
    then show ?thesis unfolding EvaluateTransition_known [OF assms] evaluateIn_def by auto
  qed
  have out: "(\<exists>to. inTransitions (lcTransitions ?c) from to) \<longleftrightarrow> map_of (lcTransitions ?c) from \<noteq> None"
  proof (cases "map_of (lcTransitions ?c) from")
    case (Some ds)
    then have "ds \<noteq> []" using nonempty map_of_SomeD [OF Some] by auto
    then show ?thesis using Some by (cases ds) (auto simp: inTransitions_def)
  qed (simp add: inTransitions_def)
  have dead: "\<forall>s \<in> set (lcKnown ?c). (map_of (lcTransitions ?c) s = None) \<longleftrightarrow>
      s \<in> set (lcTerminal ?c) \<and> s \<notin> set (lcRecoverable ?c)"
    using ok by (elim conjE)
  have rec': "from \<in> set (lcRecoverable ?c) \<Longrightarrow> from = ''interrupted''" using rec by blast
  show ?thesis
    unfolding step IsTerminalStatus_def IsRecoverableTerminalStatus_def
  proof (cases "from \<in> set (lcKnown ?c)")
    case True
    then show "(\<exists>to. from \<in> set (lcKnown ?c) \<and> inTransitions (lcTransitions ?c) from to) \<longleftrightarrow>
        from \<in> set (lcKnown ?c) \<and> (from \<in> set (lcTerminal ?c) \<longrightarrow> from \<in> set (lcRecoverable ?c) \<and> from = ''interrupted'')"
      using out dead [rule_format, OF True] rec' by (simp only: simp_thms) argo
  qed simp
qed

lemma EvaluateTransition_dead_ends_witness:
  "\<exists>to. EvaluateTransition ''agent-run'' ''interrupted'' to = Inr Applied"
proof -
  have "ParseLifecycleResource ''agent-run'' = Some ResAgentRun" by code_simp
  from EvaluateTransition_dead_ends [OF this, of "''interrupted''"] show ?thesis
    by (simp add: lifecycleContract_def runContract_def IsTerminalStatus_def IsRecoverableTerminalStatus_def)
qed

text \<open>Cancellation always has a way: from every status that is not a dead end, the contract
  allows \<^verbatim>\<open>cancelled\<close> directly or through \<^verbatim>\<open>cancelling\<close>.\<close>

theorem every_live_status_can_be_cancelled:
  "\<forall>r \<in> {ResPlan, ResTask, ResJob, ResAgentRun}. \<forall>from \<in> set (lcKnown (lifecycleContract r)).
     EvaluateTransition r from ''cancelled'' \<in> {Inr Applied, Inr Idempotent} \<or>
     (EvaluateTransition r from ''cancelling'' = Inr Applied \<and> EvaluateTransition r ''cancelling'' ''cancelled'' = Inr Applied) \<or>
     (IsTerminalStatus r from \<and> \<not> IsRecoverableTerminalStatus r from)"
  by code_simp

lemma every_live_status_can_be_cancelled_witness:
  "''leased'' \<in> set (lcKnown (lifecycleContract ResJob)) \<and>
     EvaluateTransition ResJob ''leased'' ''cancelled'' \<in> {Inr Applied, Inr Idempotent} \<or>
     EvaluateTransition ResJob ''leased'' ''cancelling'' = Inr Applied"
proof -
  have "''leased'' \<in> set (lcKnown (lifecycleContract ResJob))" "\<not> IsTerminalStatus ResJob ''leased''" by code_simp+
  then show ?thesis using every_live_status_can_be_cancelled by blast
qed

section \<open>The gate\<close>

lemma zeroRequest_simps [simp]:
  "rqExpectedStatuses (requestOf p) = []" "rqRequireWorker (requestOf p) = None"
  "rqAllowNonContract (requestOf p) = False" "rqAllowTerminal (requestOf p) = False"
  "rqIgnoreTerminal (requestOf p) = False" "rqMismatch (requestOf p) = None" "rqFields (requestOf p) = []"
  "lpResourceType (requestOf p) = lpResourceType p" "lpResourceID (requestOf p) = lpResourceID p"
  "lpExpectedStatus (requestOf p) = lpExpectedStatus p" "lpExpectedVersion (requestOf p) = lpExpectedVersion p"
  "lpStatus (requestOf p) = lpStatus p" "lpCheckpoint (requestOf p) = lpCheckpoint p"
  by (simp_all add: requestOf_def zeroRequest_def)

lemma TransitionLifecycle_Inr:
  assumes "TransitionLifecycle now p d = Inr (d', idem)"
  obtains (plan) r where "lpResourceType p = ResPlan" "transitionPlan now (requestOf p) d = Inr (d', r)" "idem = lrIdempotent r"
    | (task) r where "lpResourceType p = ResTask" "transitionTask now (requestOf p) d = Inr (d', r)" "idem = lrIdempotent r"
    | (job) r where "lpResourceType p = ResJob" "transitionJob now (requestOf p) d = Inr (d', r)" "idem = lrIdempotent r"
    | (run) r where "lpResourceType p = ResAgentRun" "transitionRun now (requestOf p) d = Inr (d', r)" "idem = lrIdempotent r"
  using assms unfolding TransitionLifecycle_def by (auto split: if_splits simp: bindR_Inr_iff)

text \<open>C10. The audit trail explains the database: if every row of the four lifecycle tables is
  the end of a gap-free trail with growing versions, the same holds after any transition
  requested through \<^verbatim>\<open>TransitionLifecycle\<close>.\<close>

theorem TransitionLifecycle_audited:
  assumes "TransitionLifecycle now p d = Inr (d', idem)" "db_audited d"
  shows "db_audited d'"
  using assms(1)
  by (cases rule: TransitionLifecycle_Inr) (use assms(2) in \<open>auto intro: transition_db_audited\<close>)

text \<open>The rows that are finished for good stay as they are.\<close>

definition finished_kept :: "gostring \<Rightarrow> 'a lrow_scheme list \<Rightarrow> 'a lrow_scheme list \<Rightarrow> bool" where
  "finished_kept resource t t' \<longleftrightarrow>
     (\<forall>r \<in> set t. IsTerminalStatus resource (lStatus r) \<and> \<not> IsRecoverableTerminalStatus resource (lStatus r) \<longrightarrow>
        r \<in> set t')"

lemma finished_kept_refl [simp]: "finished_kept resource t t"
  by (simp add: finished_kept_def)

text \<open>C11. A transition requested through \<^verbatim>\<open>TransitionLifecycle\<close> never touches a plan, task,
  job or agent run that is finished for good: its row is the same afterwards.\<close>

theorem TransitionLifecycle_protects_finished:
  assumes "TransitionLifecycle now p d = Inr (d', idem)" "db_audited d"
  shows "finished_kept ResPlan (dbPlans d) (dbPlans d') \<and> finished_kept ResTask (dbTasks d) (dbTasks d') \<and>
    finished_kept ResJob (dbJobs d) (dbJobs d') \<and> finished_kept ResAgentRun (dbRuns d) (dbRuns d')"
proof -
  have ids: "distinct (map lId (dbPlans d))" "distinct (map lId (dbTasks d))"
    "distinct (map lId (dbJobs d))" "distinct (map lId (dbRuns d))"
    using assms(2) by (simp_all add: db_audited_def audited_def)
  show ?thesis
    using assms(1)
  proof (cases rule: TransitionLifecycle_Inr)
    case (plan r)
    have "finished_kept ResPlan (dbPlans d) (dbPlans d')"
      using plans.transition_protects [OF plan(2) [unfolded transitionPlan_def] _ _ _ _ ids(1)] plan(1)
      by (auto simp: finished_kept_def)
    moreover have "dbTasks d' = dbTasks d" "dbJobs d' = dbJobs d" "dbRuns d' = dbRuns d"
      by (subst transitionPlan_frame [OF plan(2)], simp)+
    ultimately show ?thesis by simp
  next
    case (task r)
    have "finished_kept ResTask (dbTasks d) (dbTasks d')"
      using tasks.transition_protects [OF task(2) [unfolded transitionTask_def] _ _ _ _ ids(2)] task(1)
      by (auto simp: finished_kept_def)
    moreover have "dbPlans d' = dbPlans d" "dbJobs d' = dbJobs d" "dbRuns d' = dbRuns d"
      by (subst transitionTask_frame [OF task(2)], simp)+
    ultimately show ?thesis by simp
  next
    case (job r)
    have "finished_kept ResJob (dbJobs d) (dbJobs d')"
      using jobs.transition_protects [OF job(2) [unfolded transitionJob_def] _ _ _ _ ids(3)] job(1)
      by (auto simp: finished_kept_def)
    moreover have "dbPlans d' = dbPlans d" "dbTasks d' = dbTasks d" "dbRuns d' = dbRuns d"
      by (subst transitionJob_frame [OF job(2)], simp)+
    ultimately show ?thesis by simp
  next
    case (run r)
    have "finished_kept ResAgentRun (dbRuns d) (dbRuns d')"
      using runs.transition_protects [OF run(2) [unfolded transitionRun_def] _ _ _ _ ids(4)] run(1)
      by (auto simp: finished_kept_def)
    moreover have "dbPlans d' = dbPlans d" "dbTasks d' = dbTasks d" "dbJobs d' = dbJobs d"
      by (subst transitionRun_frame [OF run(2)], simp)+
    ultimately show ?thesis by simp
  qed
qed

context lifecycle_store begin

lemma transition_replay:
  assumes "findRow (lpResourceID q) (get d) = Some r" "lStatus r = lpStatus q" "lifecycleTable (lpResourceType q) = Inr tbl"
  shows "transitionIn get put worker now q d = Inr (d, \<lparr>lrState = r, lrTransition = None, lrIdempotent = True\<rparr>)"
  using assms by (simp add: transitionIn_def transitionLifecycleTx_def gateCheck_def)

lemma transition_applies:
  assumes "findRow (lpResourceID q) (get d) = Some r" "gateCheck worker q r = Proceed"
    "lifecycleTable (lpResourceType q) = Inr tbl" "lifecycleCheckpoint q = Inr cp"
    "ValidateLifecycleMetadata (requestMetadata now q cp) = None"
    "renderLifecycleFields (lpResourceType q) (rqFields q) = Inr ()"
    "lpResourceType q = ResAgentRun \<Longrightarrow> lpStatus q \<noteq> ''timed_out''"
  defines "f \<equiv> setLifecycle now q (requestMetadata now q cp) cp"
  shows "transitionIn get put worker now q d =
    Inr ((put (updateRow (lpResourceID q) f (get d)) d)
           \<lparr>dbTransitions := dbTransitions d @ [auditRow now (lpResourceType q) (lStatus r) (f r)]\<rparr>,
         \<lparr>lrState = f r, lrTransition = Some (auditRow now (lpResourceType q) (lStatus r) (f r)), lrIdempotent = False\<rparr>)"
proof -
  have "\<not> (lpResourceType q = ResAgentRun \<and> lpStatus q = ''timed_out'')" using assms(7) by blast
  then show ?thesis
    unfolding transitionIn_def transitionLifecycleTx_def f_def
    by (simp only: assms(1-6) bindR_simps option.case gate.case Let_def if_False prod.case lifecycle_result.simps)
qed

lemma transition_stale:
  assumes "findRow (lpResourceID q) (get d) = Some r" "lStatus r \<noteq> lpStatus q"
    "lpExpectedVersion q > 0" "lVersion r \<noteq> lpExpectedVersion q" "\<not> rqIgnoreTerminal q"
  shows "\<exists>e. transitionIn get put worker now q d = Inl e"
proof -
  have "\<exists>e. gateCheck worker q r = Refuse e" using assms(2-5) by (auto simp: gateCheck_def Let_def)
  then show ?thesis using assms(1)
    by (cases "lifecycleTable (lpResourceType q)") (auto simp: transitionIn_def transitionLifecycleTx_def)
qed

lemma transition_new_version:
  assumes "transitionIn get put worker now q d = Inr (d', res)" "\<not> lrIdempotent res"
  shows "\<exists>r r'. findRow (lpResourceID q) (get d) = Some r \<and> findRow (lpResourceID q) (get d') = Some r' \<and>
    lVersion r' = lVersion r + 1 \<and> lStatus r' = lpStatus q \<and> lStatus r \<noteq> lpStatus q \<and>
    (lpExpectedVersion q > 0 \<longrightarrow> lVersion r = lpExpectedVersion q)"
  using assms(1)
proof (cases rule: transition_cases)
  case (applied r m cp)
  then show ?thesis using gateCheck_Proceed(1,4) [OF applied(2)] by (auto simp: findRow_updateRow)
qed (use assms(2) in simp)

end

text \<open>The example of the witnesses: a user cancels the queued job \<^verbatim>\<open>j1\<close>.\<close>

definition cancelParams :: "gostring \<Rightarrow> int \<Rightarrow> lifecycle_params" where
  "cancelParams status version =
     \<lparr>lpResourceType = ResJob, lpResourceID = ''j1'', lpExpectedStatus = [], lpExpectedVersion = version,
      lpStatus = status, lpSource = ''user'', lpCode = ''user_cancelled'', lpReason = ''stop'',
      lpActivity = None, lpHint = ''none'', lpCheckpoint = RawEmpty, lpRelatedJob = None, lpRelatedRun = None\<rparr>"

definition cancelDb :: db where
  "cancelDb = sampleDb [sampleJob ''j1'' ''queued'' None, sampleJob ''j2'' ''failed'' None]"

definition cancelledDb :: db where
  "cancelledDb = (case TransitionLifecycle 5 (cancelParams ''cancelled'' 1) cancelDb of Inr (d, _) \<Rightarrow> d | Inl _ \<Rightarrow> cancelDb)"

lemma cancelDb_step: "TransitionLifecycle 5 (cancelParams ''cancelled'' 1) cancelDb = Inr (cancelledDb, False)"
proof -
  have "case TransitionLifecycle 5 (cancelParams ''cancelled'' 1) cancelDb of Inr (_, b) \<Rightarrow> \<not> b | Inl _ \<Rightarrow> False"
    by code_simp
  then show ?thesis by (auto simp: cancelledDb_def split: sum.splits)
qed

lemma cancelDb_audited: "db_audited cancelDb"
  unfolding db_audited_def audited_def explains_def by code_simp

lemma TransitionLifecycle_audited_witness: "db_audited cancelledDb"
  by (rule TransitionLifecycle_audited [OF cancelDb_step cancelDb_audited])

lemma TransitionLifecycle_protects_finished_witness: "finished_kept ResJob (dbJobs cancelDb) (dbJobs cancelledDb)"
  using TransitionLifecycle_protects_finished [OF cancelDb_step cancelDb_audited] by simp



text \<open>C13. The version guard lets one writer win: after a transition that carried an expected
  version was applied, a second request for the same resource with the same expected version and
  another status is refused.\<close>

theorem TransitionLifecycle_one_winner:
  assumes "TransitionLifecycle now p d = Inr (d', False)" "lpExpectedVersion p > 0"
    "lpResourceType q = lpResourceType p" "lpResourceID q = lpResourceID p"
    "lpExpectedVersion q = lpExpectedVersion p" "lpStatus q \<noteq> lpStatus p"
  shows "\<exists>e. TransitionLifecycle later q d' = Inl e"
  using assms(1)
proof (cases rule: TransitionLifecycle_Inr)
  case (plan r)
  then show ?thesis
    using plans.transition_new_version [OF plan(2) [unfolded transitionPlan_def]] assms(2-6)
      plans.transition_stale [where q = "requestOf q" and d = d' and now = later]
    by (fastforce simp: TransitionLifecycle_def transitionPlan_def)
next
  case (task r)
  then show ?thesis
    using tasks.transition_new_version [OF task(2) [unfolded transitionTask_def]] assms(2-6)
      tasks.transition_stale [where q = "requestOf q" and d = d' and now = later]
    by (fastforce simp: TransitionLifecycle_def transitionTask_def)
next
  case (job r)
  then show ?thesis
    using jobs.transition_new_version [OF job(2) [unfolded transitionJob_def]] assms(2-6)
      jobs.transition_stale [where q = "requestOf q" and d = d' and now = later]
    by (fastforce simp: TransitionLifecycle_def transitionJob_def)
next
  case (run r)
  then show ?thesis
    using runs.transition_new_version [OF run(2) [unfolded transitionRun_def]] assms(2-6)
      runs.transition_stale [where q = "requestOf q" and d = d' and now = later]
    by (fastforce simp: TransitionLifecycle_def transitionRun_def)
qed

lemma TransitionLifecycle_one_winner_witness:
  "\<exists>e. TransitionLifecycle 6 (cancelParams ''leased'' 1) cancelledDb = Inl e"
  by (rule TransitionLifecycle_one_winner [OF cancelDb_step]) (simp_all add: cancelParams_def)

end
