(* ===== verification/QueueResults.thy ===== *)
theory QueueResults
  imports Queue LifecycleResults ObjectMap
begin

text \<open>
  The properties of the job queue: the step relation of its operations, the invariant that a
  project has at most one task job in flight, the accounting of attempts, the bounded back-off, and
  the exclusiveness of workspace leases.
\<close>

section \<open>Requests of the queue\<close>

lemma jobRequest_simps [simp]:
  "lpResourceType (jobRequest i s src c r h cp) = ResJob" "lpResourceID (jobRequest i s src c r h cp) = i"
  "lpStatus (jobRequest i s src c r h cp) = s" "lpSource (jobRequest i s src c r h cp) = src"
  "lpReason (jobRequest i s src c r h cp) = r" "lpHint (jobRequest i s src c r h cp) = h"
  "lpCode (jobRequest i s src c r h cp) = c" "lpCheckpoint (jobRequest i s src c r h cp) = cp"
  "lpExpectedStatus (jobRequest i s src c r h cp) = []" "lpExpectedVersion (jobRequest i s src c r h cp) = 0"
  "lpRelatedJob (jobRequest i s src c r h cp) = None" "lpRelatedRun (jobRequest i s src c r h cp) = None"
  "rqExpectedStatuses (jobRequest i s src c r h cp) = []" "rqRequireWorker (jobRequest i s src c r h cp) = None"
  "rqAllowNonContract (jobRequest i s src c r h cp) = False" "rqAllowTerminal (jobRequest i s src c r h cp) = False"
  "rqIgnoreTerminal (jobRequest i s src c r h cp) = False" "rqMismatch (jobRequest i s src c r h cp) = None"
  "rqFields (jobRequest i s src c r h cp) = []"
  by (simp_all add: jobRequest_def zeroRequest_def)

lemmas queue_requests = claimRequest_def runningRequest_def deferRequest_def releaseRequest_def completeRequest_def

lemma claim_set [simp]:
  "jType (setLifecycle now (claimRequest i w l) m cp r) = jType r"
  "jWorkerID (setLifecycle now (claimRequest i w l) m cp r) = Some w"
  "jLease (setLifecycle now (claimRequest i w l) m cp r) = Some (now + l)"
  "jAttempt (setLifecycle now (claimRequest i w l) m cp r) = jAttempt r + 1"
  by (simp_all add: setLifecycle_def applyFields_def claimRequest_def job_fields)

lemma running_set [simp]:
  "jType (setLifecycle now (runningRequest i w) m cp r) = jType r"
  "jAttempt (setLifecycle now (runningRequest i w) m cp r) = jAttempt r"
  by (simp_all add: setLifecycle_def applyFields_def runningRequest_def)

lemma defer_set [simp]:
  "jType (setLifecycle now (deferRequest i w l) m cp r) = jType r"
  "jAttempt (setLifecycle now (deferRequest i w l) m cp r) = max (jAttempt r - 1) 0"
  "jWorkerID (setLifecycle now (deferRequest i w l) m cp r) = None"
  "jLease (setLifecycle now (deferRequest i w l) m cp r) = None"
  "jRunAfter (setLifecycle now (deferRequest i w l) m cp r) = now + l"
  by (simp_all add: setLifecycle_def applyFields_def deferRequest_def job_fields)

lemma release_set [simp]:
  "jType (setLifecycle now (releaseRequest i w) m cp r) = jType r"
  "jAttempt (setLifecycle now (releaseRequest i w) m cp r) = max (jAttempt r - 1) 0"
  "jWorkerID (setLifecycle now (releaseRequest i w) m cp r) = None"
  "jLease (setLifecycle now (releaseRequest i w) m cp r) = None"
  by (simp_all add: setLifecycle_def applyFields_def releaseRequest_def job_fields)

lemma complete_set [simp]:
  "jType (setLifecycle now (completeRequest i w) m cp r) = jType r"
  by (simp add: setLifecycle_def applyFields_def completeRequest_def job_fields)

lemma fail_set [simp]:
  "jType (setLifecycle now (failRequest j w msg out) m cp r) = jType r"
  "jRunAfter (setLifecycle now (failRequest j w msg out) m cp r) = fst (snd out)"
  by (simp_all add: setLifecycle_def applyFields_def failRequest_def job_fields case_prod_beta)

lemma queue_request_ids [simp]:
  "lpResourceType (claimRequest i w l) = ResJob" "lpResourceID (claimRequest i w l) = i" "lpStatus (claimRequest i w l) = ''leased''"
  "lpResourceType (runningRequest i w) = ResJob" "lpResourceID (runningRequest i w) = i" "lpStatus (runningRequest i w) = ''running''"
  "lpResourceType (deferRequest i w l) = ResJob" "lpResourceID (deferRequest i w l) = i" "lpStatus (deferRequest i w l) = ''queued''"
  "lpResourceType (releaseRequest i w) = ResJob" "lpResourceID (releaseRequest i w) = i" "lpStatus (releaseRequest i w) = ''queued''"
  "lpResourceType (completeRequest i w) = ResJob" "lpResourceID (completeRequest i w) = i" "lpStatus (completeRequest i w) = ''succeeded''"
  by (simp_all add: queue_requests)

lemma same_row: "distinct (map lId t) \<Longrightarrow> a \<in> set t \<Longrightarrow> b \<in> set t \<Longrightarrow> lId a = lId b \<Longrightarrow> a = b"
  by (metis findRow_unique option.inject)

lemma fail_request [simp]:
  "lpResourceType (failRequest j w msg out) = ResJob" "lpResourceID (failRequest j w msg out) = lId j"
  "lpStatus (failRequest j w msg out) = fst out"
  by (simp_all add: failRequest_def case_prod_beta)

section \<open>One task job per project\<close>

text \<open>At most one task job of a project is leased or running.\<close>

definition exclusive :: "job list \<Rightarrow> bool" where
  "exclusive t \<longleftrightarrow> (\<forall>j \<in> set t. \<forall>k \<in> set t. activeTaskJob (lProject j) j \<and> activeTaskJob (lProject j) k \<longrightarrow> lId j = lId k)"

lemma exclusive_update:
  assumes "exclusive t"
    and keep: "\<And>r. lId (f r) = lId r" "\<And>r. lProject (f r) = lProject r" "\<And>r. jType (f r) = jType r"
    and old: "\<And>r. r \<in> set t \<Longrightarrow> lId r = i \<Longrightarrow> activeTaskJob (lProject r) (f r) \<Longrightarrow>
      activeTaskJob (lProject r) r \<or> (\<forall>a \<in> set t. \<not> activeTaskJob (lProject r) a)"
  shows "exclusive (updateRow i f t)"
  unfolding exclusive_def
proof (intro ballI impI)
  fix j k assume jk: "j \<in> set (updateRow i f t)" "k \<in> set (updateRow i f t)"
    "activeTaskJob (lProject j) j \<and> activeTaskJob (lProject j) k"
  obtain a where a: "a \<in> set t" "j = (if lId a = i then f a else a)" using set_updateRow [OF jk(1)] by blast
  obtain b where b: "b \<in> set t" "k = (if lId b = i then f b else b)" using set_updateRow [OF jk(2)] by blast
  have ids: "lId j = lId a" "lProject j = lProject a" "lId k = lId b" "lProject k = lProject b"
    using a(2) b(2) keep by auto
  have same: "lProject b = lProject a" using jk(3) ids by (simp add: activeTaskJob_def)
  have A: "activeTaskJob (lProject a) a \<or> (lId a = i \<and> (\<forall>x \<in> set t. \<not> activeTaskJob (lProject a) x))"
    using jk(3) a old [OF a(1)] ids by (auto split: if_splits)
  have B: "activeTaskJob (lProject a) b \<or> (lId b = i \<and> (\<forall>x \<in> set t. \<not> activeTaskJob (lProject a) x))"
    using jk(3) b old [OF b(1)] ids same by (auto split: if_splits)
  show "lId j = lId k"
    using A B assms(1) a(1) b(1) unfolding ids exclusive_def by metis
qed

lemma exclusive_inactive:
  assumes "exclusive t" "\<And>r. lId (f r) = lId r" "\<And>r. lProject (f r) = lProject r" "\<And>r. jType (f r) = jType r"
    "\<And>r. lStatus (f r) \<notin> {''leased'', ''running''}"
  shows "exclusive (updateRow i f t)"
  by (rule exclusive_update [OF assms(1-4)]) (use assms(5) in \<open>auto simp: activeTaskJob_def\<close>)

lemma firstBy_in: "firstBy before xs = Some x \<Longrightarrow> x \<in> set xs"
  by (induction xs) (auto split: option.splits if_splits)

lemma claimCandidate_in:
  "claimCandidate now locked d = Some j \<Longrightarrow>
     j \<in> set (dbJobs d) \<and> claimable now d j \<and> lProject j \<notin> set locked \<and> lId j \<notin> set locked"
  unfolding claimCandidate_def using firstBy_in by fastforce

lemma ClaimJob_exclusive:
  assumes "ClaimJob now locked w lease d = Inr (d', j)" "exclusive (dbJobs d)" "distinct (map lId (dbJobs d))"
  shows "exclusive (dbJobs d')"
proof -
  obtain c res where c: "claimCandidate now locked d = Some c"
    "transitionJob now (claimRequest (lId c) w lease) d = Inr (d', res)"
    using assms(1) unfolding ClaimJob_def by (auto simp: bindR_Inr_iff split: option.splits)
  note cc = claimCandidate_in [OF c(1)]
  from c(2) show ?thesis
    unfolding transitionJob_def
  proof (cases rule: jobs.transition_cases)
    case (applied r m cp)
    show ?thesis
      unfolding applied(6)
    proof (rule exclusive_update [OF assms(2)])
      fix a assume a: "a \<in> set (dbJobs d)" "lId a = lpResourceID (claimRequest (lId c) w lease)"
        "activeTaskJob (lProject a) (setLifecycle now (claimRequest (lId c) w lease) m cp a)"
      then have "a = c" using cc same_row [OF assms(3)] by simp
      then show "activeTaskJob (lProject a) a \<or> (\<forall>x \<in> set (dbJobs d). \<not> activeTaskJob (lProject a) x)"
        using a(3) cc by (auto simp: claimable_def activeTaskJob_def)
    qed simp_all
  qed (use assms(2) in simp)
qed

lemma running_expected [simp]: "expectedStatuses (runningRequest i w) = [''leased'']"
  "expectedStatuses (claimRequest i w l) = [''queued'', ''retry_wait'']"
  "expectedStatuses (completeRequest i w) = [''running'']"
  "expectedStatuses (releaseRequest i w) = [''leased'']"
  "expectedStatuses (deferRequest i w l) = [''leased'', ''running'']"
  "expectedStatuses (failRequest j w msg out) = [''leased'', ''running'']"
  by (simp_all add: expectedStatuses_def queue_requests failRequest_def case_prod_beta)

lemma MarkJobRunning_exclusive:
  assumes "transitionJob now (runningRequest i w) d = Inr (d', res)" "exclusive (dbJobs d)" "distinct (map lId (dbJobs d))"
  shows "exclusive (dbJobs d')"
  using assms(1) unfolding transitionJob_def
proof (cases rule: jobs.transition_cases)
  case (applied r m cp)
  have "lStatus r = ''leased''" using gateCheck_Proceed(3) [OF applied(2)] by simp
  moreover have "a = r" if "a \<in> set (dbJobs d)" "lId a = i" for a
    using that findRow_Some [OF applied(1)] same_row [OF assms(3)] by simp
  ultimately show ?thesis
    unfolding applied(6) by (intro exclusive_update [OF assms(2)]) (auto simp: activeTaskJob_def)
qed (use assms(2) in simp)

lemma inactive_transition_exclusive:
  assumes "transitionJob now q d = Inr (d', res)" "exclusive (dbJobs d)"
    "lpStatus q \<notin> {''leased'', ''running''}" "\<And>m cp r. jType (setLifecycle now q m cp r) = jType r"
  shows "exclusive (dbJobs d')"
  using assms(1) unfolding transitionJob_def
proof (cases rule: jobs.transition_cases)
  case (applied r m cp)
  show ?thesis unfolding applied(6) by (rule exclusive_inactive [OF assms(2)]) (use assms(3,4) in simp_all)
qed (use assms(2) in simp)

lemma failOutcome_status: "fst (failOutcome now j b) \<in> {''retry_wait'', ''failed''}"
  by (simp add: failOutcome_def)

section \<open>Steps that bypass the gate\<close>

lemma audited_map:
  assumes "audited resource ts t"
    "\<And>r. lId (f r) = lId r" "\<And>r. lStatus (f r) = lStatus r" "\<And>r. lVersion r \<le> lVersion (f r)"
  shows "audited resource ts (map f t)"
proof -
  have "explains as (f r)" if "explains as r" for as r
    using that assms(3,4) by (auto simp: explains_def intro: order_trans)
  then show ?thesis using assms(1,2) by (auto simp: audited_def comp_def)
qed

lemma insertEvent_frame [simp]:
  "dbJobs (insertEvent now p d) = dbJobs d" "dbTasks (insertEvent now p d) = dbTasks d"
  "dbPlans (insertEvent now p d) = dbPlans d" "dbRuns (insertEvent now p d) = dbRuns d"
  "dbLeases (insertEvent now p d) = dbLeases d" "dbTransitions (insertEvent now p d) = dbTransitions d"
  "dbProjects (insertEvent now p d) = dbProjects d" "dbIntakes (insertEvent now p d) = dbIntakes d"
  by (simp_all add: insertEvent_def)

lemma notifyJob_frame [simp]:
  "dbJobs (notifyJob i d) = dbJobs d" "dbTasks (notifyJob i d) = dbTasks d"
  "dbPlans (notifyJob i d) = dbPlans d" "dbRuns (notifyJob i d) = dbRuns d"
  "dbLeases (notifyJob i d) = dbLeases d" "dbTransitions (notifyJob i d) = dbTransitions d"
  "dbProjects (notifyJob i d) = dbProjects d" "dbIntakes (notifyJob i d) = dbIntakes d"
  "dbEvents (notifyJob i d) = dbEvents d"
  by (simp_all add: notifyJob_def)

lemma updateIntakeStatus_frame [simp]:
  "dbJobs (fst (updateIntakeStatus now i a b d)) = dbJobs d" "dbTasks (fst (updateIntakeStatus now i a b d)) = dbTasks d"
  "dbPlans (fst (updateIntakeStatus now i a b d)) = dbPlans d" "dbRuns (fst (updateIntakeStatus now i a b d)) = dbRuns d"
  "dbLeases (fst (updateIntakeStatus now i a b d)) = dbLeases d"
  "dbTransitions (fst (updateIntakeStatus now i a b d)) = dbTransitions d"
  "dbProjects (fst (updateIntakeStatus now i a b d)) = dbProjects d"
  by (simp_all add: updateIntakeStatus_def Let_def)

text \<open>What the tables of the queue look like to the invariants: a step that leaves them is
  neutral.\<close>

definition sameTables :: "db \<Rightarrow> db \<Rightarrow> bool" where
  "sameTables d d' \<longleftrightarrow> dbJobs d' = dbJobs d \<and> dbTasks d' = dbTasks d \<and> dbPlans d' = dbPlans d \<and>
     dbRuns d' = dbRuns d \<and> dbTransitions d' = dbTransitions d"

lemma failIntake_frame [simp]:
  "dbJobs (failIntake now j msg d) = dbJobs d" "dbTasks (failIntake now j msg d) = dbTasks d"
  "dbPlans (failIntake now j msg d) = dbPlans d" "dbRuns (failIntake now j msg d) = dbRuns d"
  "dbLeases (failIntake now j msg d) = dbLeases d" "dbTransitions (failIntake now j msg d) = dbTransitions d"
  by (simp_all add: failIntake_def Let_def split: option.splits)

lemma FailJob_steps:
  assumes "FailJob now j w msg b d = Inr d'"
  obtains d1 res where "transitionJob now (failRequest j w msg (failOutcome now j b)) d = Inr (d1, res)" "sameTables d1 d'"
    "dbLeases d' = dbLeases d1"
  using assms unfolding FailJob_def Let_def by (fastforce simp: bindR_Inr_iff sameTables_def)

section \<open>The queue as a transition system\<close>

text \<open>A job id that no row has and no audit row mentions.\<close>

definition freshJob :: "uuid \<Rightarrow> db \<Rightarrow> bool" where
  "freshJob i d \<longleftrightarrow> i \<notin> lId ` set (dbJobs d) \<and> trail ResJob i (dbTransitions d) = []"

text \<open>One committed operation of the queue, with any arguments; an operation that fails leaves the
  database. A new job has a fresh id.\<close>

inductive queue_step :: "db \<Rightarrow> db \<Rightarrow> bool" where
  enqueue: "freshJob (njID p) d \<Longrightarrow> queue_step d (fst (insertJob now p d))"
| claim: "ClaimJob now locked w lease d = Inr (d', j) \<Longrightarrow> queue_step d d'"
| start: "MarkJobRunning now i w d = Inr (d', j) \<Longrightarrow> queue_step d d'"
| defer1: "DeferJobForWorkspace now i w delay d = Inr d' \<Longrightarrow> queue_step d d'"
| release: "ReleaseLeasedJob now i w d = Inr d' \<Longrightarrow> queue_step d d'"
| complete: "CompleteJob now i w d = Inr d' \<Longrightarrow> queue_step d d'"
| fail: "FailJob now j w msg retryable d = Inr d' \<Longrightarrow> queue_step d d'"
| acquire: "AcquireWorkspaceLease now fresh proj i path w dur d = Inr d' \<Longrightarrow> queue_step d d'"
| renew_job: "RenewJobLease now i w dur d = Inr d' \<Longrightarrow> queue_step d d'"
| renew_lease: "RenewWorkspaceLease now i w dur d = Inr d' \<Longrightarrow> queue_step d d'"
| release_lease: "queue_step d (ReleaseWorkspaceLease i w d)"

inductive_cases queue_stepE: "queue_step d d'"

definition queue_inv :: "db \<Rightarrow> bool" where
  "queue_inv d \<longleftrightarrow> exclusive (dbJobs d) \<and> db_audited d \<and>
     distinct (map wlPath (dbLeases d)) \<and> distinct (map wlJob (dbLeases d))"

lemma sameTables_inv:
  assumes "sameTables d d'" "dbLeases d' = dbLeases d" "queue_inv d"
  shows "queue_inv d'"
  using assms by (simp add: sameTables_def queue_inv_def db_audited_def)

lemma transitionJob_inv:
  assumes "transitionJob now q d = Inr (d', res)" "lpResourceType q = ResJob" "queue_inv d" "exclusive (dbJobs d')"
  shows "queue_inv d'"
proof -
  have "dbLeases d' = dbLeases d" by (subst transitionJob_frame [OF assms(1)]) simp
  then show ?thesis using assms(3,4) transitionJob_audited [OF assms(1,2)] by (simp add: queue_inv_def)
qed

lemma queue_inv_ids: "queue_inv d \<Longrightarrow> distinct (map lId (dbJobs d))"
  by (simp add: queue_inv_def db_audited_def audited_def)

lemma enqueue_inv:
  assumes "queue_inv d" "freshJob (njID p) d"
  shows "queue_inv (fst (insertJob now p d))"
proof (cases "find (\<lambda>j. jIdempotencyKey j = njIdempotencyKey p) (dbJobs d)")
  case (Some j)
  then show ?thesis
    by (intro sameTables_inv [OF _ _ assms(1)]) (simp_all add: insertJob_def sameTables_def)
next
  case None
  let ?j = "newJobRow now p"
  have j: "lId ?j = njID p" "lStatus ?j = ''queued''" by (simp_all add: newJobRow_def)
  have d': "dbJobs (fst (insertJob now p d)) = dbJobs d @ [?j]" "sameTables (d\<lparr>dbJobs := dbJobs d @ [?j]\<rparr>) (fst (insertJob now p d))"
    "dbLeases (fst (insertJob now p d)) = dbLeases d"
    using None by (simp_all add: insertJob_def Let_def sameTables_def)
  have "\<not> activeTaskJob proj ?j" for proj using j(2) by (simp add: activeTaskJob_def)
  moreover have "exclusive (dbJobs d)" using assms(1) by (simp add: queue_inv_def)
  ultimately have "exclusive (dbJobs d @ [?j])" by (simp add: exclusive_def ball_Un)
  have "trail ResJob (njID p) (dbTransitions d) = []" using assms(2) by (simp add: freshJob_def)
  then have "explains (trail ResJob (lId ?j) (dbTransitions d)) ?j" by (simp add: explains_def j(1))
  then have "audited ResJob (dbTransitions d) (dbJobs d @ [?j])"
    using assms(1,2) j(1) by (simp add: queue_inv_def db_audited_def audited_def ball_Un freshJob_def)
  then show ?thesis
    using assms(1) d' \<open>exclusive (dbJobs d @ [?j])\<close> by (simp add: queue_inv_def db_audited_def sameTables_def)
qed

lemma renewJobs_inv:
  assumes "renewJobs now i w dur d = Inr d'" "queue_inv d"
  shows "queue_inv d'"
proof -
  let ?f = "\<lambda>j. if renewsJob i w j then j\<lparr>jLease := Some (now + dur), lUpdated := now\<rparr> else j"
  have d': "d' = d\<lparr>dbJobs := map ?f (dbJobs d)\<rparr>" using assms(1) by (simp add: renewJobs_def split: if_splits)
  have act: "activeTaskJob p (?f j) = activeTaskJob p j" "lId (?f j) = lId j" "lProject (?f j) = lProject j" for p j
    by (auto simp: activeTaskJob_def)
  have "exclusive (map ?f (dbJobs d))"
    using assms(2) unfolding queue_inv_def exclusive_def by (simp only: set_map ball_simps act) simp
  moreover have "audited ResJob (dbTransitions d) (map ?f (dbJobs d))"
    using assms(2) by (intro audited_map) (auto simp: queue_inv_def db_audited_def)
  ultimately show ?thesis using assms(2) unfolding d' by (simp add: queue_inv_def db_audited_def)
qed

lemma lease_update_inv:
  assumes "queue_inv d" "distinct (map wlPath ls)" "distinct (map wlJob ls)"
  shows "queue_inv (d\<lparr>dbLeases := ls\<rparr>)"
  using assms by (simp add: queue_inv_def db_audited_def)

lemma acquire_inv:
  assumes "AcquireWorkspaceLease now fresh proj i path w dur d = Inr d'" "queue_inv d"
  shows "queue_inv d'"
proof -
  have ls: "distinct (map wlPath (dbLeases d))" "distinct (map wlJob (dbLeases d))" using assms(2) by (auto simp: queue_inv_def)
  let ?others = "filter (\<lambda>l. wlPath l \<noteq> path) (dbLeases d)"
  show ?thesis
  proof (cases "find (\<lambda>l. wlPath l = path) (dbLeases d)")
    case None
    then have none: "\<forall>l \<in> set (dbLeases d). wlPath l \<noteq> path" by (auto simp: find_None_iff)
    then have "\<forall>l \<in> set (dbLeases d). wlJob l \<noteq> i"
      using assms(1) None by (auto simp: AcquireWorkspaceLease_def Let_def split: if_splits)
    then show ?thesis
      using assms None none ls by (auto simp: AcquireWorkspaceLease_def Let_def split: if_splits intro!: lease_update_inv)
  next
    case (Some l)
    let ?f = "\<lambda>l. if wlPath l = path
        then l\<lparr>wlId := fresh, wlProject := proj, wlWorker := w, wlJob := i,
               wlHeartbeat := now, wlExpires := now + dur, wlVersion := wlVersion l + 1\<rparr> else l"
    have d': "d' = d\<lparr>dbLeases := map ?f (dbLeases d)\<rparr>" and o1: "\<forall>l \<in> set ?others. wlJob l \<noteq> i"
      using assms(1) Some by (auto simp: AcquireWorkspaceLease_def Let_def split: if_splits)
    have "map wlPath (map ?f (dbLeases d)) = map wlPath (dbLeases d)" by auto
    moreover have "distinct (map wlJob (map ?f (dbLeases d)))"
    proof -
      have "inj_on (\<lambda>l. wlJob (?f l)) (set (dbLeases d))"
      proof (rule inj_onI)
        fix a b assume ab: "a \<in> set (dbLeases d)" "b \<in> set (dbLeases d)" "wlJob (?f a) = wlJob (?f b)"
        show "a = b"
        proof (cases "wlPath a = path"; cases "wlPath b = path")
          assume "wlPath a = path" "wlPath b = path"
          then show ?thesis using ab ls(1) by (metis distinct_map inj_onD)
        next
          assume "wlPath a \<noteq> path" "wlPath b \<noteq> path"
          then show ?thesis using ab ls(2) by (simp add: distinct_map inj_on_def)
        qed (use ab o1 in auto)
      qed
      moreover have "distinct (dbLeases d)" using ls(1) by (simp add: distinct_map)
      ultimately show ?thesis by (simp add: distinct_map comp_def)
    qed
    ultimately show ?thesis using ls(1) unfolding d' by (intro lease_update_inv [OF assms(2)]) (simp_all only:)
  qed
qed

lemma queue_step_inv:
  assumes "queue_step x y" "queue_inv x"
  shows "queue_inv y"
proof -
  note inv = assms(2)
  note ids = queue_inv_ids [OF inv] and ex = inv [unfolded queue_inv_def, THEN conjunct1]
  from assms(1) show ?thesis
  proof (cases rule: queue_step.cases)
    case (enqueue p now)
    then show ?thesis using enqueue_inv inv by simp
  next
    case (claim now locked w lease j)
    obtain c res where c: "claimCandidate now locked x = Some c" "transitionJob now (claimRequest (lId c) w lease) x = Inr (y, res)"
      using claim unfolding ClaimJob_def by (auto simp: bindR_Inr_iff split: option.splits)
    show ?thesis by (rule transitionJob_inv [OF c(2) _ inv ClaimJob_exclusive [OF claim ex ids]]) simp
  next
    case (start now i w j)
    obtain res where "transitionJob now (runningRequest i w) x = Inr (y, res)"
      using start unfolding MarkJobRunning_def by (auto simp: bindR_Inr_iff split: option.splits)
    from transitionJob_inv [OF this _ inv MarkJobRunning_exclusive [OF this ex ids]] show ?thesis by simp
  next
    case (defer1 now i w delay)
    obtain d1 res where t: "transitionJob now (deferRequest i w (max delay 0)) x = Inr (d1, res)" "y = notifyJob i d1"
      using defer1 unfolding DeferJobForWorkspace_def by (auto simp: bindR_Inr_iff)
    have "exclusive (dbJobs d1)" by (rule inactive_transition_exclusive [OF t(1) ex]) simp_all
    then have "queue_inv d1" using transitionJob_inv [OF t(1) _ inv] by simp
    then show ?thesis by (rule sameTables_inv [rotated 2]) (simp_all add: t(2) sameTables_def)
  next
    case (release now i w)
    obtain d1 res where t: "transitionJob now (releaseRequest i w) x = Inr (d1, res)" "y = notifyJob i d1"
      using release unfolding ReleaseLeasedJob_def by (auto simp: bindR_Inr_iff)
    have "exclusive (dbJobs d1)" by (rule inactive_transition_exclusive [OF t(1) ex]) simp_all
    then have "queue_inv d1" using transitionJob_inv [OF t(1) _ inv] by simp
    then show ?thesis by (rule sameTables_inv [rotated 2]) (simp_all add: t(2) sameTables_def)
  next
    case (complete now i w)
    obtain d1 res where t: "transitionJob now (completeRequest i w) x = Inr (d1, res)" "y = (if lrIdempotent res then x else d1)"
      using complete unfolding CompleteJob_def by (auto simp: bindR_Inr_iff)
    have "exclusive (dbJobs d1)" by (rule inactive_transition_exclusive [OF t(1) ex]) simp_all
    then show ?thesis using transitionJob_inv [OF t(1) _ inv] t(2) inv by simp
  next
    case (fail now j w msg b)
    then obtain d1 res where t: "transitionJob now (failRequest j w msg (failOutcome now j b)) x = Inr (d1, res)"
      "sameTables d1 y" "dbLeases y = dbLeases d1" by (rule FailJob_steps)
    have "exclusive (dbJobs d1)"
      by (rule inactive_transition_exclusive [OF t(1) ex]) (use failOutcome_status [of now j b] in auto)
    then show ?thesis using transitionJob_inv [OF t(1) _ inv] sameTables_inv [OF t(2,3)] by simp
  next
    case (acquire now fresh proj i path w dur)
    then show ?thesis using acquire_inv inv by blast
  next
    case (renew_job now i w dur)
    then show ?thesis using renewJobs_inv inv by (simp add: RenewJobLease_def)
  next
    case (renew_lease now i w dur)
    let ?ls = "map (\<lambda>l. if renewsLease now i w l
        then l\<lparr>wlHeartbeat := now, wlExpires := now + dur, wlVersion := wlVersion l + 1\<rparr> else l) (dbLeases x)"
    have "map wlPath ?ls = map wlPath (dbLeases x)" "map wlJob ?ls = map wlJob (dbLeases x)" by auto
    then have "queue_inv (x\<lparr>dbLeases := ?ls\<rparr>)" using inv by (intro lease_update_inv) (simp_all only: queue_inv_def)
    then show ?thesis using renew_lease renewJobs_inv by (auto simp: RenewWorkspaceLease_def split: if_splits)
  next
    case (release_lease i w)
    then show ?thesis using inv
      by (simp add: ReleaseWorkspaceLease_def queue_inv_def db_audited_def distinct_map_filter)
  qed
qed

text \<open>C14. The queue invariant: at most one task job of a project is leased or running, every row
  is explained by the audit trail, no workspace is leased twice and no job holds two leases.
  It holds in every database that any sequence of queue operations reaches from one where it holds.\<close>

theorem queue_invariant:
  assumes "queue_step\<^sup>*\<^sup>* d d'" "queue_inv d"
  shows "queue_inv d'"
  using assms by (induction rule: rtranclp_induct) (auto intro: queue_step_inv)

section \<open>Claiming\<close>

lemma mustObject_checkpoint: "lpCheckpoint q = mustObject ms \<Longrightarrow> \<exists>cp. lifecycleCheckpoint q = Inr cp"
  by (simp add: lifecycleCheckpoint_def mustObject_def Let_def)

lemma trim_texts [simp]:
  "trimSpace ''worker_claimed'' = ''worker_claimed''" "trimSpace ''worker claimed queued job'' = ''worker claimed queued job''"
  "trimSpace ''worker_started'' = ''worker_started''" "trimSpace ''worker started job execution'' = ''worker started job execution''"
  by (rule trimSpace_tight, simp add: tight_def)+

lemma claim_gate:
  assumes "claimable now d j"
  shows "gateCheck worker (claimRequest (lId j) w lease) j = Proceed"
proof -
  have s: "lStatus j = ''queued'' \<or> lStatus j = ''retry_wait''" using assms by (auto simp: claimable_def)
  moreover have "EvaluateTransition ResJob ''queued'' ''leased'' = Inr Applied"
    "EvaluateTransition ResJob ''retry_wait'' ''leased'' = Inr Applied" by code_simp+
  moreover have "rqRequireWorker (claimRequest (lId j) w lease) = None" "lpExpectedVersion (claimRequest (lId j) w lease) = 0"
    by (simp_all add: claimRequest_def)
  moreover have "\<not> IsTerminalStatus ResJob ''queued''" "\<not> IsTerminalStatus ResJob ''retry_wait''" by code_simp+
  ultimately show ?thesis
    by (auto simp: gateCheck_def workerCheck_def contractCheck_def lifecycleContains_def Let_def)
qed

lemma claim_metadata:
  assumes "lifecycleCheckpoint (claimRequest i w lease) = Inr cp"
  shows "ValidateLifecycleMetadata (requestMetadata now (claimRequest i w lease) cp) = None"
  by (simp add: ValidateLifecycleMetadata_def requestMetadata_def claimRequest_def statusSources_def recoveryHints_def
      isObject_def)

lemma claim_columns: "renderLifecycleFields ResJob (rqFields (claimRequest i w lease)) = Inr ()"
  by (simp add: claimRequest_def job_fields lifecycleFieldColumns_def)

lemma firstBy_None [simp]: "firstBy before xs = None \<longleftrightarrow> xs = []"
  by (cases xs) (auto split: option.splits)

lemma firstBy_first:
  assumes "firstBy before xs = Some x" "y \<in> set xs"
    and trans: "\<And>a b c. \<not> before a b \<Longrightarrow> \<not> before b c \<Longrightarrow> \<not> before a c" and irr: "\<And>a. \<not> before a a"
    and asym: "\<And>a b. before a b \<Longrightarrow> \<not> before b a"
  shows "\<not> before y x"
  using assms(1,2)
proof (induction xs arbitrary: x)
  case (Cons z zs)
  show ?case
  proof (cases "firstBy before zs")
    case None
    then show ?thesis using Cons.prems irr by simp
  next
    case (Some v)
    then have v: "\<not> before y v" if "y \<in> set zs" using Cons.IH that by blast
    show ?thesis
    proof (cases "before v z")
      case True
      then have "x = v" using Cons.prems(1) Some by simp
      then show ?thesis using Cons.prems(2) v asym [OF True] by auto
    next
      case False
      then have "x = z" using Cons.prems(1) Some by simp
      then show ?thesis using Cons.prems(2) trans [OF v False] irr by auto
    qed
  qed
qed simp

text \<open>
  What a claim may take, in words of its own. Of two plans that still have tasks to run the one that was started
  earlier is served first, a started one before one that was not; then the older one, then the smaller id.
\<close>

fun earlierStart :: "time option \<Rightarrow> time option \<Rightarrow> bool" where
  "earlierStart (Some s) (Some t) = (s < t)"
| "earlierStart (Some s) None = True"
| "earlierStart None t = False"

definition servedBefore :: "plan \<Rightarrow> plan \<Rightarrow> bool" where
  "servedBefore p q \<longleftrightarrow>
     earlierStart (plStarted p) (plStarted q) \<or>
     plStarted p = plStarted q \<and> (plCreated p < plCreated q \<or> plCreated p = plCreated q \<and> byteLess (lId p) (lId q))"

definition hasUnfinished :: "uuid \<Rightarrow> db \<Rightarrow> plan \<Rightarrow> bool" where
  "hasUnfinished proj d p \<longleftrightarrow>
     lProject p = proj \<and> (lStatus p = ''running'' \<or> lStatus p = ''validating'') \<and> plExecutable p \<and>
     \<not> (\<forall>t \<in> set (dbTasks d). ptPlan t = lId p \<longrightarrow> lStatus t = ''succeeded'')"

definition hasTurn :: "uuid \<Rightarrow> db \<Rightarrow> uuid \<Rightarrow> bool" where
  "hasTurn proj d i \<longleftrightarrow>
     (\<exists>p \<in> set (dbPlans d). lId p = i \<and> hasUnfinished proj d p \<and>
        (\<forall>q \<in> set (dbPlans d). hasUnfinished proj d q \<longrightarrow> \<not> servedBefore q p))"

text \<open>A job is due when it waits and its time has come, its project is automated and, for a task, no other task of the
  project is leased or running and the task belongs to the plan that has the turn.\<close>

definition dueJob :: "time \<Rightarrow> db \<Rightarrow> job \<Rightarrow> bool" where
  "dueJob now d j \<longleftrightarrow>
     (lStatus j = ''queued'' \<or> lStatus j = ''retry_wait'') \<and> \<not> now < jRunAfter j \<and>
     (\<exists>p \<in> set (dbProjects d). pjId p = lProject j \<and> pjAutomation p) \<and>
     (jType j = ''task.execute'' \<longrightarrow>
        \<not> (\<exists>k \<in> set (dbJobs d). lProject k = lProject j \<and> jType k = ''task.execute'' \<and>
             (lStatus k = ''leased'' \<or> lStatus k = ''running'')) \<and>
        (\<exists>t \<in> set (dbTasks d). lId t = jAggregateID j \<and> hasTurn (lProject j) d (ptPlan t)))"

lemma served_starts: "startsBefore p q = servedBefore p q"
  by (cases "plStarted p"; cases "plStarted q") (auto simp: startsBefore_def servedBefore_def)

lemma turn_unfinished: "ownsTurn proj d p \<longleftrightarrow> hasUnfinished proj d p"
  by (auto simp: ownsTurn_def hasUnfinished_def)

lemma byteLess_asym: "byteLess a b \<Longrightarrow> \<not> byteLess b a"
  using byteLess_trans [of a b a] by auto

lemma byteLess_negtrans: "\<not> byteLess a b \<Longrightarrow> \<not> byteLess b c \<Longrightarrow> \<not> byteLess a c"
  using byteLess_trans [of b a c] byteLess_total [of a b] by auto

lemma served_irr: "\<not> servedBefore p p"
  by (cases "plStarted p") (simp_all add: servedBefore_def)

lemma served_asym: "servedBefore p q \<Longrightarrow> \<not> servedBefore q p"
  by (cases "plStarted p"; cases "plStarted q") (auto simp: servedBefore_def dest: byteLess_asym)

lemma served_trans: "\<not> servedBefore a b \<Longrightarrow> \<not> servedBefore b c \<Longrightarrow> \<not> servedBefore a c"
  by (cases "plStarted a"; cases "plStarted b"; cases "plStarted c")
    (auto simp: servedBefore_def dest: byteLess_negtrans)

lemma served_total: "\<not> servedBefore p q \<Longrightarrow> \<not> servedBefore q p \<Longrightarrow> lId p = lId q"
  by (cases "plStarted p"; cases "plStarted q") (auto simp: servedBefore_def dest: byteLess_total)

lemma turnOwner_hasTurn: "(\<exists>owner. turnOwner proj d = Some owner \<and> lId owner = i) \<longleftrightarrow> hasTurn proj d i"
proof -
  let ?ps = "filter (ownsTurn proj d) (dbPlans d)"
  have first: "owner \<in> set ?ps \<and> (\<forall>q \<in> set ?ps. \<not> servedBefore q owner)" if "turnOwner proj d = Some owner" for owner
  proof
    have o: "firstBy servedBefore ?ps = Some owner"
      using that by (simp add: turnOwner_def served_starts [abs_def])
    then show "owner \<in> set ?ps" by (rule firstBy_in)
    show "\<forall>q \<in> set ?ps. \<not> servedBefore q owner"
    proof
      fix q
      assume "q \<in> set ?ps"
      then show "\<not> servedBefore q owner"
        by (rule firstBy_first [OF o]) (fact served_trans served_irr served_asym)+
    qed
  qed
  show ?thesis
  proof
    assume "\<exists>owner. turnOwner proj d = Some owner \<and> lId owner = i"
    then show "hasTurn proj d i" using first by (fastforce simp: hasTurn_def turn_unfinished)
  next
    assume "hasTurn proj d i"
    then obtain p where p: "p \<in> set ?ps" "lId p = i" "\<forall>q \<in> set ?ps. \<not> servedBefore q p"
      by (auto simp: hasTurn_def turn_unfinished)
    then obtain owner where o: "turnOwner proj d = Some owner"
      by (cases "turnOwner proj d") (auto simp: turnOwner_def filter_empty_conv)
    have "lId owner = lId p" using first [OF o] p by (intro served_total) auto
    then show "\<exists>owner. turnOwner proj d = Some owner \<and> lId owner = i" using o p(2) by blast
  qed
qed

lemma claimable_due: "claimable now d j \<longleftrightarrow> dueJob now d j"
proof -
  have "(case turnOwner (lProject j) d of None \<Rightarrow> False | Some owner \<Rightarrow> \<exists>t \<in> set (dbTasks d). lId t = jAggregateID j \<and> ptPlan t = lId owner) \<longleftrightarrow>
      (\<exists>t \<in> set (dbTasks d). lId t = jAggregateID j \<and> hasTurn (lProject j) d (ptPlan t))"
    by (auto simp: turnOwner_hasTurn [symmetric] split: option.splits)
  then show ?thesis unfolding claimable_def dueJob_def by (auto simp: activeTaskJob_def not_less)
qed

text \<open>C15. \<^verbatim>\<open>ClaimJob\<close> fails only with "no rows", and then every due job is locked by another
  transaction, itself or through its project; otherwise it takes a due job that no due and unlocked job goes before: none
  has a lower priority number, and none of the same priority was created earlier. A job is due as \<open>dueJob\<close> spells out.
  The job comes back leased to the worker until the end of the lease, with one more attempt, and the other jobs stay.\<close>

theorem ClaimJob_correct:
  assumes "distinct (map lId (dbJobs d))"
  shows "case ClaimJob now locked w lease d of
     Inl e \<Rightarrow> e = ErrNoRows \<and> (\<forall>k \<in> set (dbJobs d). dueJob now d k \<longrightarrow> lProject k \<in> set locked \<or> lId k \<in> set locked)
   | Inr (d', j') \<Rightarrow>
       (\<exists>j \<in> set (dbJobs d). dueJob now d j \<and> lProject j \<notin> set locked \<and> lId j \<notin> set locked \<and>
          lId j' = lId j \<and> jAttempt j' = jAttempt j + 1 \<and> lVersion j' = lVersion j + 1 \<and>
          (\<forall>k \<in> set (dbJobs d). dueJob now d k \<and> lProject k \<notin> set locked \<and> lId k \<notin> set locked \<longrightarrow>
             jPriority j < jPriority k \<or> jPriority j = jPriority k \<and> jCreated j \<le> jCreated k)) \<and>
       lStatus j' = ''leased'' \<and> jWorkerID j' = Some w \<and> jLease j' = Some (now + lease) \<and>
       j' \<in> set (dbJobs d') \<and> (\<forall>k \<in> set (dbJobs d). lId k \<noteq> lId j' \<longrightarrow> k \<in> set (dbJobs d'))"
proof (cases "claimCandidate now locked d")
  case None
  then show ?thesis by (auto simp: ClaimJob_def claimCandidate_def filter_empty_conv claimable_due)
next
  case (Some j)
  note j = claimCandidate_in [OF Some]
  let ?q = "claimRequest (lId j) w lease"
  have row: "findRow (lId j) (dbJobs d) = Some j" using findRow_unique [OF assms] j by blast
  obtain cp where cp: "lifecycleCheckpoint ?q = Inr cp"
    using mustObject_checkpoint [of ?q] by (auto simp: claimRequest_def)
  let ?f = "setLifecycle now ?q (requestMetadata now ?q cp) cp"
  have t: "transitionJob now ?q d = Inr (d\<lparr>dbJobs := updateRow (lId j) ?f (dbJobs d),
      dbTransitions := dbTransitions d @ [auditRow now ResJob (lStatus j) (?f j)]\<rparr>,
      \<lparr>lrState = ?f j, lrTransition = Some (auditRow now ResJob (lStatus j) (?f j)), lrIdempotent = False\<rparr>)"
    using jobs.transition_applies [of ?q d j "''jobs''" cp now] row claim_gate [of now d j jWorkerID w lease] j cp
      claim_metadata [OF cp] claim_columns
    by (simp add: transitionJob_def lifecycleTable_def putJobs_def)
  have c: "ClaimJob now locked w lease d = Inr (d\<lparr>dbJobs := updateRow (lId j) ?f (dbJobs d),
      dbTransitions := dbTransitions d @ [auditRow now ResJob (lStatus j) (?f j)]\<rparr>, ?f j)"
    using Some row by (simp add: ClaimJob_def t findRow_updateRow)
  have "\<not> claimsBefore k j" if "k \<in> set (dbJobs d)" "dueJob now d k" "lProject k \<notin> set locked" "lId k \<notin> set locked" for k
    using firstBy_first [OF Some [unfolded claimCandidate_def], of k] that by (fastforce simp: claimsBefore_def claimable_due)
  then have "jPriority j < jPriority k \<or> jPriority j = jPriority k \<and> jCreated j \<le> jCreated k"
    if "k \<in> set (dbJobs d)" "dueJob now d k" "lProject k \<notin> set locked" "lId k \<notin> set locked" for k
    using that unfolding claimsBefore_def by fastforce
  moreover have "?f j \<in> set (updateRow (lId j) ?f (dbJobs d))" using j by (force simp: updateRow_def)
  moreover have "k \<in> set (updateRow (lId j) ?f (dbJobs d))" if "k \<in> set (dbJobs d)" "lId k \<noteq> lId j" for k
    using that by (force simp: updateRow_def)
  ultimately show ?thesis unfolding c using j by (auto simp: claimable_due)
qed

section \<open>Attempts\<close>

lemma defer_result:
  assumes "transitionJob now q d = Inr (d', res)" "findRow (lpResourceID q) (dbJobs d) = Some r"
    "lStatus r \<noteq> lpStatus q" "\<not> rqIgnoreTerminal q"
  shows "\<exists>m cp. findRow (lpResourceID q) (dbJobs d') = Some (setLifecycle now q m cp r)"
  using assms(1) unfolding transitionJob_def
proof (cases rule: jobs.transition_cases)
  case (replay s)
  then show ?thesis using assms(2-4)
    by (auto simp: gateCheck_def contractCheck_def Let_def split: if_splits option.splits sum.splits)
next
  case (applied s m cp)
  then show ?thesis using assms(2) by (auto simp: findRow_updateRow)
qed

lemma ClaimJob_result:
  assumes "distinct (map lId (dbJobs d))" "ClaimJob now locked w lease d = Inr (d', j')"
  shows "lStatus j' = ''leased''" "\<And>k. k \<in> set (dbJobs d) \<Longrightarrow> lId k = lId j' \<Longrightarrow> jAttempt j' = jAttempt k + 1"
    "findRow (lId j') (dbJobs d') = Some j'"
proof -
  obtain c res where c: "claimCandidate now locked d = Some c"
    "transitionJob now (claimRequest (lId c) w lease) d = Inr (d', res)" "findRow (lId c) (dbJobs d') = Some j'"
    using assms(2) unfolding ClaimJob_def by (auto simp: bindR_Inr_iff split: option.splits)
  have row: "findRow (lId c) (dbJobs d) = Some c" using findRow_unique [OF assms(1)] claimCandidate_in [OF c(1)] by blast
  have "lStatus c \<noteq> ''leased''" using claimCandidate_in [OF c(1)] by (auto simp: claimable_def)
  then obtain m cp where j': "j' = setLifecycle now (claimRequest (lId c) w lease) m cp c"
    using defer_result [OF c(2)] row c(3) by (auto simp: claimRequest_def)
  show "lStatus j' = ''leased''" "findRow (lId j') (dbJobs d') = Some j'" using j' c(3) by simp_all
  show "jAttempt j' = jAttempt k + 1" if "k \<in> set (dbJobs d)" "lId k = lId j'" for k
  proof -
    have "c \<in> set (dbJobs d)" using claimCandidate_in [OF c(1)] by blast
    moreover have "lId k = lId c" using that(2) j' by simp
    ultimately have "k = c" by (rule same_row [OF assms(1) that(1)])
    then show ?thesis using j' by simp
  qed
qed

text \<open>Waiting is free: when a claimed job is put back because its workspace is busy, or
  released at shutdown before it started, it has the number of attempts it had before the claim
  and no worker.\<close>

theorem waiting_costs_no_attempt:
  assumes "ClaimJob now locked w lease d = Inr (d1, j1)" "distinct (map lId (dbJobs d))"
    and "k \<in> set (dbJobs d)" "lId k = lId j1" "0 \<le> jAttempt k"
    and "DeferJobForWorkspace later (lId j1) w delay d1 = Inr d2 \<or> ReleaseLeasedJob later (lId j1) w d1 = Inr d2"
  shows "\<exists>k2. findRow (lId k) (dbJobs d2) = Some k2 \<and> lStatus k2 = ''queued'' \<and> jAttempt k2 = jAttempt k \<and> jWorkerID k2 = None"
proof -
  note c = ClaimJob_result [OF assms(2,1)]
  have row: "findRow (lId j1) (dbJobs d1) = Some j1" and st: "lStatus j1 = ''leased''" and at: "jAttempt j1 = jAttempt k + 1"
    using c assms(3,4) by simp_all
  from assms(6) show ?thesis
  proof
    assume "DeferJobForWorkspace later (lId j1) w delay d1 = Inr d2"
    then obtain e res where t: "transitionJob later (deferRequest (lId j1) w (max delay 0)) d1 = Inr (e, res)" "d2 = notifyJob (lId j1) e"
      by (auto simp: DeferJobForWorkspace_def bindR_Inr_iff)
    have "\<not> rqIgnoreTerminal (deferRequest (lId j1) w (max delay 0))" by (simp add: deferRequest_def)
    then show ?thesis using defer_result [OF t(1), of j1] row st at assms(4,5) t(2) by auto
  next
    assume "ReleaseLeasedJob later (lId j1) w d1 = Inr d2"
    then obtain e res where t: "transitionJob later (releaseRequest (lId j1) w) d1 = Inr (e, res)" "d2 = notifyJob (lId j1) e"
      by (auto simp: ReleaseLeasedJob_def bindR_Inr_iff)
    have "\<not> rqIgnoreTerminal (releaseRequest (lId j1) w)" by (simp add: releaseRequest_def)
    then show ?thesis using defer_result [OF t(1), of j1] row st at assms(4,5) t(2) by auto
  qed
qed

section \<open>Failure\<close>

lemma fail_gate:
  assumes "lStatus r \<in> {''leased'', ''running''}" "jWorkerID r = Some w"
  shows "gateCheck jWorkerID (failRequest j w msg (failOutcome now j b)) r = Proceed"
proof -
  let ?q = "failRequest j w msg (failOutcome now j b)"
  have f: "rqRequireWorker ?q = Some w" "rqAllowNonContract ?q" "lpExpectedVersion ?q = 0"
    by (simp_all add: failRequest_def case_prod_beta)
  have "\<not> IsTerminalStatus ResJob ''leased''" "\<not> IsTerminalStatus ResJob ''running''" by code_simp+
  then show ?thesis using assms f failOutcome_status [of now j b]
    by (auto simp: gateCheck_def Let_def lifecycleContains_def workerCheck_def contractCheck_def split: sum.splits)
qed

text \<open>C17. Failing a job that its worker holds: it waits for a retry exactly when the failure is
  retryable and an attempt is left, with a delay that doubles with the attempts and lies between
  one and 64 seconds; otherwise it is failed for good. Either way the lease is given up.\<close>

theorem FailJob_backoff:
  assumes "findRow (lId j) (dbJobs d) = Some r" "lStatus r \<in> {''leased'', ''running''}" "jWorkerID r = Some w"
    "trimSpace msg \<noteq> []" "0 \<le> jAttempt j"
  shows "\<exists>d' r'. FailJob now j w msg retryable d = Inr d' \<and> findRow (lId j) (dbJobs d') = Some r' \<and> jLease r' = None \<and>
    (if retryable \<and> jAttempt j < jMaxAttempts j
     then lStatus r' = ''retry_wait'' \<and> jRunAfter r' - now = 1000000 * 2 ^ min (nat (jAttempt j)) 6 \<and>
       1000000 \<le> jRunAfter r' - now \<and> jRunAfter r' - now \<le> 64000000
     else lStatus r' = ''failed'' \<and> jRunAfter r' = now)"
proof -
  let ?o = "failOutcome now j retryable" and ?q = "failRequest j w msg (failOutcome now j retryable)"
  obtain cp where cp: "lifecycleCheckpoint ?q = Inr cp"
    using mustObject_checkpoint [of ?q] by (auto simp: failRequest_def case_prod_beta)
  have code: "lpCode ?q \<in> {''automatic_retry'', ''execution_failed''}" "lpHint ?q \<in> {''automatic_retry'', ''none''}"
    "lpSource ?q = ''worker''" "lpReason ?q = msg"
    by (auto simp: failRequest_def failOutcome_def)
  have texts: "trimSpace ''automatic_retry'' = ''automatic_retry''" "trimSpace ''execution_failed'' = ''execution_failed''"
    by (rule trimSpace_tight, simp add: tight_def)+
  have meta: "ValidateLifecycleMetadata (requestMetadata now ?q cp) = None"
    using code assms(4) texts
    by (auto simp: ValidateLifecycleMetadata_def requestMetadata_def statusSources_def recoveryHints_def isObject_def)
  have cols: "renderLifecycleFields (lpResourceType ?q) (rqFields ?q) = Inr ()"
    by (simp add: failRequest_def case_prod_beta job_fields lifecycleFieldColumns_def)
  let ?f = "setLifecycle now ?q (requestMetadata now ?q cp) cp"
  obtain d1 where t: "transitionJob now ?q d = Inr (d1, \<lparr>lrState = ?f r,
      lrTransition = Some (auditRow now (lpResourceType ?q) (lStatus r) (?f r)), lrIdempotent = False\<rparr>)"
    "dbJobs d1 = updateRow (lId j) ?f (dbJobs d)"
    using jobs.transition_applies [of ?q d r "''jobs''" cp now] assms(1) fail_gate [OF assms(2,3)] cp meta cols
    by (simp add: transitionJob_def lifecycleTable_def putJobs_def)
  obtain d' where d': "FailJob now j w msg retryable d = Inr d'" "dbJobs d' = dbJobs d1"
    by (simp add: FailJob_def t Let_def)
  have row: "findRow (lId j) (dbJobs d') = Some (?f r)"
    unfolding d'(2) t(2) using assms(1) by (simp add: findRow_updateRow)
  have lease: "jLease (?f r) = None"
    by (simp add: setLifecycle_def applyFields_def failRequest_def job_fields case_prod_beta)
  have delay: "1000000 * 2 ^ min (nat (jAttempt j)) 6 \<le> (64000000 :: int)" "1000000 \<le> (1000000 * 2 ^ min (nat (jAttempt j)) 6 :: int)"
  proof -
    have "(2::int) ^ min (nat (jAttempt j)) 6 \<le> 2 ^ 6" by (rule power_increasing) simp_all
    then show "1000000 * 2 ^ min (nat (jAttempt j)) 6 \<le> (64000000 :: int)" by simp
  qed simp
  have "nat (min (jAttempt j) 6) = min (nat (jAttempt j)) 6" by simp
  then show ?thesis using d'(1) row lease delay by (auto simp: failOutcome_def)
qed

section \<open>Ownership\<close>

text \<open>A worker that does not hold a leased or running job cannot finish it or give it back:
  every such operation fails with "not found", and it cannot start a leased one.\<close>

theorem foreign_worker_refused:
  assumes "findRow i (dbJobs d) = Some r" "lStatus r \<in> {''leased'', ''running''}" "jWorkerID r \<noteq> Some w" "w \<noteq> []"
  shows "DeferJobForWorkspace now i w delay d = Inl ErrNotFound \<and> ReleaseLeasedJob now i w d = Inl ErrNotFound \<and>
    CompleteJob now i w d = Inl ErrNotFound \<and> (lId j = i \<longrightarrow> FailJob now j w msg b d = Inl ErrNotFound) \<and>
    (lStatus r = ''leased'' \<longrightarrow> MarkJobRunning now i w d = Inl ErrNotFound)"
proof -
  have refuse: "transitionJob now q d = Inl ErrNotFound"
    if "lpResourceType q = ResJob" "lpResourceID q = i" "rqRequireWorker q = Some w" "rqMismatch q = Some ErrNotFound"
      "lStatus r \<noteq> lpStatus q" "lpExpectedVersion q = 0" for q
  proof -
    have nt: "\<not> IsTerminalStatus ResJob ''leased''" "\<not> IsTerminalStatus ResJob ''running''" by code_simp+
    have w: "(case jWorkerID r of None \<Rightarrow> [] | Some x \<Rightarrow> x) \<noteq> w" using assms(3,4) by (auto split: option.splits)
    then have "gateCheck jWorkerID q r = Refuse ErrNotFound"
      using that assms(2) nt by (auto simp: gateCheck_def Let_def workerCheck_def mismatch_def)
    then show ?thesis
      using assms(1) that(1,2) by (simp add: transitionJob_def transitionIn_def transitionLifecycleTx_def lifecycleTable_def)
  qed
  have s: "lStatus r \<noteq> ''queued''" "lStatus r \<noteq> ''succeeded''" "lStatus r \<noteq> ''retry_wait''" "lStatus r \<noteq> ''failed''"
    using assms(2) by auto
  have "transitionJob now (deferRequest i w (max delay 0)) d = Inl ErrNotFound"
    "transitionJob now (releaseRequest i w) d = Inl ErrNotFound"
    "transitionJob now (completeRequest i w) d = Inl ErrNotFound"
    by (rule refuse, simp_all add: queue_requests s)+
  moreover have "transitionJob now (failRequest j w msg (failOutcome now j b)) d = Inl ErrNotFound" if "lId j = i"
    by (rule refuse) (use failOutcome_status [of now j b] s that in \<open>auto simp: failRequest_def case_prod_beta\<close>)
  moreover have "transitionJob now (runningRequest i w) d = Inl ErrNotFound" if "lStatus r = ''leased''"
    by (rule refuse) (use that in \<open>simp_all add: queue_requests\<close>)
  ultimately show ?thesis
    by (simp add: DeferJobForWorkspace_def ReleaseLeasedJob_def CompleteJob_def FailJob_def MarkJobRunning_def Let_def)
qed

text \<open>The worker check comes after the replay check, so starting a job that already runs succeeds
  for any worker: it is told that the job runs, although another worker holds it.\<close>

lemma foreign_worker_starts_running_job:
  assumes "findRow i (dbJobs d) = Some r" "lStatus r = ''running''"
  shows "MarkJobRunning now i w d = Inr (d, r)"
proof -
  have "transitionJob now (runningRequest i w) d = Inr (d, \<lparr>lrState = r, lrTransition = None, lrIdempotent = True\<rparr>)"
    unfolding transitionJob_def
    by (rule jobs.transition_replay [of _ d r "''jobs''"]) (use assms in \<open>simp_all add: lifecycleTable_def\<close>)
  then show ?thesis using assms(1) by (simp add: MarkJobRunning_def)
qed

section \<open>Witnesses\<close>

definition queueDb :: db where
  "queueDb = (sampleDb [sampleJob ''j1'' ''queued'' None, sampleJob ''j2'' ''queued'' None])
     \<lparr>dbPlans := [samplePlan ''running''], dbTasks := [sampleTask ''task'' ''queued'']\<rparr>"

definition claimedDb :: db where
  "claimedDb = (case ClaimJob 5 [] ''w1'' 60 queueDb of Inr (d, _) \<Rightarrow> d | Inl _ \<Rightarrow> queueDb)"

definition claimedJob :: job where
  "claimedJob = (case ClaimJob 5 [] ''w1'' 60 queueDb of Inr (_, j) \<Rightarrow> j | Inl _ \<Rightarrow> sampleJob ''j1'' ''queued'' None)"

lemma claimed: "ClaimJob 5 [] ''w1'' 60 queueDb = Inr (claimedDb, claimedJob)"
proof -
  have "\<not> isl (ClaimJob 5 [] ''w1'' 60 queueDb)" by code_simp
  then show ?thesis by (auto simp: claimedDb_def claimedJob_def isl_def split: sum.splits prod.splits)
qed

lemma claimedJob_row:
  "lId claimedJob = ''j1'' \<and> jAttempt claimedJob = 1 \<and> jMaxAttempts claimedJob = 3 \<and> jWorkerID claimedJob = Some ''w1''"
  by code_simp

lemma queueDb_jobs: "map lId (dbJobs queueDb) = [''j1'', ''j2'']" "\<forall>j \<in> set (dbJobs queueDb). jAttempt j = 0"
  by code_simp+

lemma queueDb_inv: "queue_inv queueDb"
  unfolding queue_inv_def exclusive_def db_audited_def audited_def explains_def by code_simp

lemma queueDb_ids: "distinct (map lId (dbJobs queueDb))"
  by (rule queue_inv_ids [OF queueDb_inv])

lemma queue_invariant_witness: "queue_inv claimedDb"
proof (rule queue_invariant [OF _ queueDb_inv])
  have "queue_step queueDb claimedDb" by (rule queue_step.claim [OF claimed])
  then show "queue_step\<^sup>*\<^sup>* queueDb claimedDb" by simp
qed

lemma ClaimJob_correct_witness:
  "\<exists>d' j'. ClaimJob 5 [] ''w1'' 60 queueDb = Inr (d', j') \<and> jLease j' = Some 65 \<and> j' \<in> set (dbJobs d')"
  using ClaimJob_correct [OF queueDb_ids, of 5 "[]" "''w1''" 60] claimed by simp

definition deferredDb :: db where
  "deferredDb = (case DeferJobForWorkspace 9 ''j1'' ''w1'' 1500000 claimedDb of Inr d \<Rightarrow> d | Inl _ \<Rightarrow> claimedDb)"

lemma deferred: "DeferJobForWorkspace 9 ''j1'' ''w1'' 1500000 claimedDb = Inr deferredDb"
proof -
  have "\<not> isl (DeferJobForWorkspace 9 ''j1'' ''w1'' 1500000 claimedDb)" by code_simp
  then show ?thesis by (auto simp: deferredDb_def isl_def split: sum.splits)
qed

lemma waiting_costs_no_attempt_witness:
  "\<exists>k2. findRow ''j1'' (dbJobs deferredDb) = Some k2 \<and> lStatus k2 = ''queued'' \<and> jAttempt k2 = 0"
proof -
  obtain k where k: "k \<in> set (dbJobs queueDb)" "lId k = ''j1''" "jAttempt k = 0"
    using queueDb_jobs by (cases "dbJobs queueDb") auto
  show ?thesis
    using waiting_costs_no_attempt [OF claimed queueDb_ids k(1), of 9 1500000 deferredDb] k deferred claimedJob_row by auto
qed

lemma claimed_row:
  "findRow ''j1'' (dbJobs claimedDb) = Some claimedJob" "lStatus claimedJob = ''leased''"
  using ClaimJob_result [OF queueDb_ids claimed] claimedJob_row by simp_all

lemma FailJob_backoff_witness:
  "\<exists>d' r'. FailJob 7 claimedJob ''w1'' ''exit 1'' True claimedDb = Inr d' \<and> findRow ''j1'' (dbJobs d') = Some r' \<and>
     lStatus r' = ''retry_wait'' \<and> jRunAfter r' = 2000007"
proof -
  have "trimSpace ''exit 1'' \<noteq> []" by code_simp
  from FailJob_backoff [of claimedJob claimedDb claimedJob "''w1''" "''exit 1''" 7 True, OF _ _ _ this]
  show ?thesis using claimed_row claimedJob_row by (auto simp: algebra_simps)
qed

lemma foreign_worker_refused_witness:
  "CompleteJob 7 ''j1'' ''w2'' claimedDb = Inl ErrNotFound \<and> MarkJobRunning 7 ''j1'' ''w2'' claimedDb = Inl ErrNotFound"
  using foreign_worker_refused [OF claimed_row(1), of "''w2''" 7] claimed_row claimedJob_row by simp

end
