(* ===== verification/ExecutionResults.thy ===== *)
theory ExecutionResults
  imports Execution SnapshotResults SchedulerResults QueueResults
begin

text \<open>
  What running a plan keeps of the database: the invariants of the queue and of the snapshots, through
  an interface that says what the operations are built from, and the rule that a plan has at most one
  queued or running task.
\<close>

section \<open>Frames\<close>

lemma emit_frame [simp]:
  "dbJobs (emit now p k a i v pl d) = dbJobs d" "dbTasks (emit now p k a i v pl d) = dbTasks d"
  "dbPlans (emit now p k a i v pl d) = dbPlans d" "dbRuns (emit now p k a i v pl d) = dbRuns d"
  "dbLeases (emit now p k a i v pl d) = dbLeases d" "dbTransitions (emit now p k a i v pl d) = dbTransitions d"
  "dbProjects (emit now p k a i v pl d) = dbProjects d" "dbIntakes (emit now p k a i v pl d) = dbIntakes d"
  "dbSnapshots (emit now p k a i v pl d) = dbSnapshots d" "dbAudits (emit now p k a i v pl d) = dbAudits d"
  by (simp_all add: emit_def insertEvent_def)

lemma setPlanConfig_frame [simp]:
  "dbJobs (setPlanConfig p c d) = dbJobs d" "dbTasks (setPlanConfig p c d) = dbTasks d"
  "dbRuns (setPlanConfig p c d) = dbRuns d" "dbLeases (setPlanConfig p c d) = dbLeases d"
  "dbTransitions (setPlanConfig p c d) = dbTransitions d"
  "dbSnapshots (setPlanConfig p c d) = dbSnapshots d" "dbAudits (setPlanConfig p c d) = dbAudits d"
  by (simp_all add: setPlanConfig_def)

lemma closeIntake_frame [simp]:
  "dbJobs (closeIntake now t i d) = dbJobs d" "dbTasks (closeIntake now t i d) = dbTasks d"
  "dbPlans (closeIntake now t i d) = dbPlans d" "dbRuns (closeIntake now t i d) = dbRuns d"
  "dbLeases (closeIntake now t i d) = dbLeases d" "dbTransitions (closeIntake now t i d) = dbTransitions d"
  "dbSnapshots (closeIntake now t i d) = dbSnapshots d" "dbAudits (closeIntake now t i d) = dbAudits d"
  by (simp_all add: closeIntake_def updateIntakeStatus_def Let_def split: option.splits)

lemma planRequest_simps [simp]:
  "lpResourceType (planRequest i s src c r h cp) = ResPlan" "lpResourceID (planRequest i s src c r h cp) = i"
  "lpStatus (planRequest i s src c r h cp) = s" "rqFields (planRequest i s src c r h cp) = []"
  "rqExpectedStatuses (planRequest i s src c r h cp) = []" "lpExpectedStatus (planRequest i s src c r h cp) = []"
  by (simp_all add: planRequest_def zeroRequest_def)

lemma taskRequest_simps [simp]:
  "lpResourceType (taskRequest i s src c r h) = ResTask" "lpResourceID (taskRequest i s src c r h) = i"
  "lpStatus (taskRequest i s src c r h) = s" "rqFields (taskRequest i s src c r h) = []"
  "rqExpectedStatuses (taskRequest i s src c r h) = []" "lpExpectedStatus (taskRequest i s src c r h) = []"
  by (simp_all add: taskRequest_def zeroRequest_def)

lemma plan_request_types [simp]:
  "lpResourceType (runPlanRequest p v a al t j) = ResPlan" "lpResourceType (resumePlanRequest s t j) = ResPlan"
  "lpResourceType (blockPlanRequest s src r t jo bs) = ResPlan" "lpResourceType (validatingRequest t' jo) = ResPlan"
  "lpResourceType (settlePlanRequest t' st src c r h jo) = ResPlan"
  by (simp_all add: runPlanRequest_def resumePlanRequest_def blockPlanRequest_def validatingRequest_def settlePlanRequest_def)

lemma task_request_types [simp]:
  "lpResourceType (queueTaskRequest t src r j) = ResTask" "lpResourceType (unqueueRequest i r jo) = ResTask"
  "lpResourceType (startTaskRequest i jo) = ResTask" "lpResourceType (finishRequest t s b sm jo) = ResTask"
  "lpResourceType (continueRequest i j) = ResTask"
  by (simp_all add: queueTaskRequest_def unqueueRequest_def startTaskRequest_def finishRequest_def continueRequest_def)

section \<open>What a committed operation went through\<close>

lemma queuePlanTx_steps:
  assumes "queuePlanTx e u now jobID snapID auditID selection planID version automatic d = Inr (d', j)"
  obtains d0 s t where "loadPlanExecutionStateTx now planID d = Inr (d0, s)" "esVersion s = version"
    "esStatus s \<in> (if automatic then {''ready''} else {''ready'', ''blocked''})"
    "nextPlanTask u s automatic None = Next t" "lStatus t \<in> set retryable" "requirePlanExecutionBaseline planID d0 = Inr ()"
    "queueNext e now jobID snapID auditID (if automatic then ([], False) else executionProviderFromContext selection)
       automatic (if automatic then [''ready''] else [''ready'', ''blocked'']) s t d0 = Inr (d', j)"
proof -
  obtain d0 s where l: "loadPlanExecutionStateTx now planID d = Inr (d0, s)"
    using assms by (auto simp: queuePlanTx_def bindR_Inr_iff)
  obtain t where t: "nextPlanTask u s automatic None = Next t"
    using assms l by (cases "nextPlanTask u s automatic None") (auto simp: queuePlanTx_def Let_def split: if_splits)
  have g: "esVersion s = version" "lifecycleContains (if automatic then [''ready''] else [''ready'', ''blocked'']) (esStatus s)"
    "lifecycleContains retryable (lStatus t)"
    using assms l t by (auto simp: queuePlanTx_def Let_def split: if_splits)
  have "requirePlanExecutionBaseline planID d0 = Inr ()"
    using assms by (auto simp: queuePlanTx_def Let_def l t g bindR_Inr_iff)
  then show thesis using assms g t l
    by (intro that [of d0 s t]) (auto simp: queuePlanTx_def Let_def lifecycleContains_def split: if_splits)
qed

lemma QueueTask_steps:
  assumes "QueueTask u now jobID selection taskID version d = Inr (d', j)"
  obtains row d0 s t n where "findRow taskID (dbTasks d) = Some row" "loadPlanExecutionStateTx now (ptPlan row) d = Inr (d0, s)"
    "stateTask taskID s = Some t" "lVersion t = version" "nextPlanTask u s False None = Next n" "lId n = taskID"
    "lStatus t \<in> set retryable" "queueGiven now jobID (executionProviderFromContext selection) version s t d0 = Inr (d', j)"
proof -
  obtain row where row: "findRow taskID (dbTasks d) = Some row"
    using assms by (cases "findRow taskID (dbTasks d)") (auto simp: QueueTask_def)
  obtain d0 s where l: "loadPlanExecutionStateTx now (ptPlan row) d = Inr (d0, s)"
    using assms row by (auto simp: QueueTask_def bindR_Inr_iff)
  obtain t where t: "stateTask taskID s = Some t"
    using assms row l by (cases "stateTask taskID s") (auto simp: QueueTask_def)
  have g: "lVersion t = version" "lifecycleContains [''running'', ''ready'', ''blocked'', ''interrupted''] (esStatus s)"
    using assms row l t by (auto simp: QueueTask_def split: if_splits)
  obtain n where n: "nextPlanTask u s False None = Next n"
    using assms row l t g by (cases "nextPlanTask u s False None") (auto simp: QueueTask_def)
  have h: "lId n = taskID" "lifecycleContains retryable (lStatus t)"
    using assms row l t g n by (auto simp: QueueTask_def split: if_splits)
  have r: "lStatus t \<in> set retryable" using h(2) by (simp add: lifecycleContains_def)
  have "requirePlanExecutionBaseline (esPlan s) d0 = Inr ()"
    using assms by (auto simp: QueueTask_def row l t g n h bindR_Inr_iff)
  then show thesis using assms by (intro that [OF row l t g(1) n h(1) r]) (simp add: QueueTask_def row l t g n h)
qed

lemma StartTask_steps:
  assumes "StartTask u now taskID d = Inr (d', r)"
  obtains row d0 s t where "findRow taskID (dbTasks d) = Some row" "loadPlanExecutionStateTx now (ptPlan row) d = Inr (d0, s)"
    "stateTask taskID s = Some t" "startBlockers u s t \<noteq> []"
    "r = Inl (ErrPlanExecutionBlocked (esPlan s) (Some taskID) (startBlockers u s t))"
    "blockQueuedTaskForSchedulingTx now s t (relatedJob [''leased'', ''running''] taskID d0) (startBlockers u s t) d0 = Inr d'"
  | row d0 s t t' where "findRow taskID (dbTasks d) = Some row" "loadPlanExecutionStateTx now (ptPlan row) d = Inr (d0, s)"
    "stateTask taskID s = Some t" "startBlockers u s t = []" "lStatus t = ''queued''" "r = Inr t'"
    "startNow now taskID (relatedJob [''leased'', ''running''] taskID d0) d0 = Inr (d', t')"
proof -
  obtain row where row: "findRow taskID (dbTasks d) = Some row"
    using assms by (cases "findRow taskID (dbTasks d)") (auto simp: StartTask_def)
  obtain d0 s where l: "loadPlanExecutionStateTx now (ptPlan row) d = Inr (d0, s)"
    using assms row by (auto simp: StartTask_def bindR_Inr_iff)
  obtain t where t: "stateTask taskID s = Some t"
    using assms row l by (cases "stateTask taskID s") (auto simp: StartTask_def)
  show thesis
  proof (cases "startBlockers u s t = []")
    case True
    have q: "lStatus t = ''queued''" using assms row l t True by (auto simp: StartTask_def Let_def split: if_splits)
    have "requirePlanExecutionBaseline (esPlan s) d0 = Inr ()"
      using assms by (auto simp: StartTask_def Let_def row l t True q bindR_Inr_iff)
    then show ?thesis using assms that(2) [OF row l t True q] by (auto simp: StartTask_def Let_def row l t True q bindR_Inr_iff)
  next
    case False
    then show ?thesis using assms that(1) [OF row l t False] by (auto simp: StartTask_def Let_def row l t bindR_Inr_iff)
  qed
qed

lemma finishTask_steps:
  assumes "finishTask e u now nextJobID snapID planID taskID sessionID success message wk captureCheckpoint d = Inr d'"
  obtains "d' = d"
  | d0 s t summary where "loadPlanExecutionStateTx now planID d = Inr (d0, s)" "stateTask taskID s = Some t" "lStatus t = ''running''"
    "summary = boundSummary (toValidUTF8 message)"
    "finishRunning e u now nextJobID snapID t sessionID success summary wk captureCheckpoint d d0 = Inr d'"
proof -
  obtain d0 s where l: "loadPlanExecutionStateTx now planID d = Inr (d0, s)"
    using assms by (auto simp: finishTask_def Let_def bindR_Inr_iff)
  obtain t where t: "stateTask taskID s = Some t"
    using assms l by (cases "stateTask taskID s") (auto simp: finishTask_def Let_def)
  show thesis using assms that l t by (cases "lStatus t = ''running''") (auto simp: finishTask_def Let_def split: if_splits)
qed

lemma finishRunning_steps:
  assumes "finishRunning e u now nextJobID snapID t sessionID success summary wk captureCheckpoint old d = Inr d'"
  obtains "d' = old"
  | jobID d1 tr where "transitionTask now (finishRequest t sessionID success (fst summary) jobID) d = Inr (d1, tr)" "\<not> success"
    "\<exists>k pl. blockFailedPlan now t summary jobID (emit now (lProject t) k ''task'' (lId t) (lVersion (lrState tr)) pl d1) = Inr d'"
  | jobID d1 tr d3 where "transitionTask now (finishRequest t sessionID success (fst summary) jobID) d = Inr (d1, tr)" "success"
    "\<exists>k pl. captureFinish e snapID t wk captureCheckpoint (emit now (lProject t) k ''task'' (lId t) (lVersion (lrState tr)) pl d1) = Inr d3"
    "settlePlan u now nextJobID t jobID d3 = Inr d'"
proof -
  define jobID where "jobID = relatedJob [''leased'', ''running'', ''retry_wait''] (lId t) d"
  obtain d1 tr where t: "transitionTask now (finishRequest t sessionID success (fst summary) jobID) d = Inr (d1, tr)"
    using assms by (auto simp: finishRunning_def Let_def bindR_Inr_iff jobID_def)
  note u = assms [unfolded finishRunning_def Let_def jobID_def [symmetric] t bindR_simps prod.case]
  show thesis
  proof (cases "lrIdempotent tr")
    case True
    then show ?thesis using u that(1) by simp
  next
    case False
    show ?thesis
    proof (cases success)
      case True
      then show ?thesis using u that(3) [OF t True] \<open>\<not> lrIdempotent tr\<close> by (auto simp: bindR_Inr_iff)
    next
      case False
      then show ?thesis using u that(2) [OF t False] \<open>\<not> lrIdempotent tr\<close> by auto
    qed
  qed
qed

lemma settlePlan_steps:
  assumes "settlePlan u now nextJobID t jobID d = Inr d'"
  obtains d1 s where "loadPlanExecutionStateTx now (ptPlan t) d = Inr (d1, s)" "esStatus s \<in> {''cancelled'', ''completed''}" "d' = d1"
  | d1 s where "loadPlanExecutionStateTx now (ptPlan t) d = Inr (d1, s)" "cancelStoppedPlan now t jobID d1 = Inr d'"
  | d1 s p where "loadPlanExecutionStateTx now (ptPlan t) d = Inr (d1, s)" "findRow (ptPlan t) (dbPlans d1) = Some p"
    "esStatus s \<notin> {''cancelled'', ''completed''}" "advancePlan u now nextJobID t jobID (plIntake p) s d1 = Inr d'"
proof -
  obtain d1 s where l: "loadPlanExecutionStateTx now (ptPlan t) d = Inr (d1, s)"
    using assms by (auto simp: settlePlan_def bindR_Inr_iff)
  show thesis
  proof (cases "esStatus s \<in> {''cancelled'', ''completed''}")
    case True
    then show ?thesis using assms that(1) [OF l] by (auto simp: settlePlan_def l)
  next
    case False
    then obtain p where p: "findRow (ptPlan t) (dbPlans d1) = Some p"
      using assms by (cases "findRow (ptPlan t) (dbPlans d1)") (auto simp: settlePlan_def l)
    then obtain pr where "findProject (lProject p) d1 = Some pr"
      using assms False by (cases "findProject (lProject p) d1") (auto simp: settlePlan_def l)
    then show ?thesis using assms False p that(2) [OF l] that(3) [OF l p] by (auto simp: settlePlan_def l split: if_splits)
  qed
qed

lemma advancePlan_steps:
  assumes "advancePlan u now nextJobID t jobID intakeID s d = Inr d'"
  obtains bs where "nextPlanTask u s True None = Blocked bs" "blockPlanAfterSchedulingGateTx now s (lId t) jobID bs d = Inr d'"
  | "nextPlanTask u s True None = Complete" "completePlan now t intakeID jobID d = Inr d'"
  | n provider where "nextPlanTask u s True None = Next n" "queueFollowing now nextJobID provider t n d = Inr d'"
  using assms unfolding advancePlan_def by (cases "nextPlanTask u s True None") (auto simp: bindR_Inr_iff)

section \<open>Invariants of the building blocks\<close>

text \<open>
  The interface between an invariant and the operations of this component: what they are composed of
  keeps \<open>before\<close> until the job is inserted, and \<open>after\<close> from then on.
\<close>

locale execution_invariant =
  fixes before after :: "db \<Rightarrow> bool" and jobID :: uuid
  assumes load: "loadPlanExecutionStateTx now planID d = Inr (d', s) \<Longrightarrow> before d \<Longrightarrow> before d'"
    and task: "transitionTask now tq d = Inr (d', tr) \<Longrightarrow> lpResourceType tq = ResTask \<Longrightarrow> before d \<Longrightarrow> before d'"
    and plan: "transitionPlan now pq d = Inr (d', pr) \<Longrightarrow> lpResourceType pq = ResPlan \<Longrightarrow> before d \<Longrightarrow> before d'"
    and config: "before d \<Longrightarrow> before (setPlanConfig planID c d)"
    and capture: "captureSnapshotTx e i planID kind taskID gp summary files wk d = Inr (d', row) \<Longrightarrow> before d \<Longrightarrow> before d'"
    and audit: "insertPlanDriftAuditTx i projectID planID action original new1 target rawDiff channel reason d = Inr (d', a) \<Longrightarrow>
      before d \<Longrightarrow> before d'"
    and intake: "before d \<Longrightarrow> before (fst (updateIntakeStatus now i from to d))"
    and event: "before d \<Longrightarrow> before (insertEvent now ev d)"
    and insert: "before d \<Longrightarrow> njID nj = jobID \<Longrightarrow> after (fst (insertJob now nj d))"
    and event_after: "after d \<Longrightarrow> after (insertEvent now ev d)"
    and weaken: "before d \<Longrightarrow> after d"
begin

lemma emit_before: "before d \<Longrightarrow> before (emit now p k a i v pl d)"
  by (simp add: emit_def event)

lemma emit_after: "after d \<Longrightarrow> after (emit now p k a i v pl d)"
  by (simp add: emit_def event_after)

lemma taskJob_id [simp]: "njID (taskJob i p t pl pr rq n w v) = i"
  by (simp add: taskJob_def)

lemma insert_taskJob:
  "before d \<Longrightarrow> insertJob now (taskJob jobID p t pl pr rq n w v) d = (d', j) \<Longrightarrow> after d'"
  using insert [of d "taskJob jobID p t pl pr rq n w v" now] by simp

lemma acceptProvider:
  assumes "acceptProvider e snapID auditID s config d = Inr d'" "before d"
  shows "before d'"
  using assms
  by (auto simp: acceptProvider_def captureWithoutChanges_def bindR_Inr_iff split: if_splits option.splits
      dest: capture audit)

lemma queueNext:
  assumes "queueNext e now jobID snapID auditID provider automatic allowed s t d = Inr (d', j)" "before d"
  shows "after d'"
proof -
  obtain config d1 pr d2 tr d3 n where q: "transitionPlan now (runPlanRequest (esPlan s) (esVersion s) automatic allowed (lId t) jobID) d = Inr (d1, pr)"
    "transitionTask now (queueTaskRequest t (lSource (lrState pr)) ''earliest dependency-ready task queued'' jobID) d1 = Inr (d2, tr)"
    "acceptProvider e snapID auditID s config (setPlanConfig (esPlan s) config d2) = Inr d3"
    "d' = emit now (esProject s) ''plan.running'' ''plan'' (esPlan s) (lVersion (lrState pr))
       [(''jobId'', JStr (lId j)), (''taskId'', JStr (lId t))] (fst (insertJob now (taskJob jobID (esProject s) (lId t) (esPlan s)
         (fst provider) (snd provider) n now (lVersion (lrState tr))) d3))"
    using assms(1) unfolding queueNext_def by (auto simp: bindR_Inr_iff case_prod_beta Let_def)
  have "before d3" using acceptProvider [OF q(3)] config task [OF q(2)] plan [OF q(1)] assms(2) by simp
  then show ?thesis unfolding q(4) by (intro emit_after insert) simp_all
qed

lemma queuePlanTx:
  assumes "queuePlanTx e u now jobID snapID auditID selection planID version automatic d = Inr (d', j)" "before d"
  shows "after d'"
  using assms(1) by (cases rule: queuePlanTx_steps) (auto dest!: queueNext intro: load assms(2))

lemma QueuePlanAutomatically:
  assumes "QueuePlanAutomatically e u now jobID snapID auditID selection planID d = Inr (d', j)" "before d"
  shows "after d'"
  using assms unfolding QueuePlanAutomatically_def
  by (auto simp: bindR_Inr_iff split: if_splits option.splits intro: weaken queuePlanTx)

lemma resumePlan:
  assumes "resumePlan now s taskID i d = Inr (d', c)" "before d"
  shows "before d'"
  using assms by (auto simp: resumePlan_def bindR_Inr_iff split: if_splits dest: plan)

lemma queueGiven:
  assumes "queueGiven now jobID provider version s t d = Inr (d', j)" "before d"
  shows "after d'"
proof -
  obtain d1 tr where q: "transitionTask now ((queueTaskRequest t ''user'' ''earliest dependency-ready task explicitly queued'' jobID)
       \<lparr>lpExpectedVersion := version\<rparr>) d = Inr (d1, tr)"
    using assms(1) by (auto simp: queueGiven_def bindR_Inr_iff)
  obtain d2 c where r: "resumePlan now s (lId t) jobID d1 = Inr (d2, c)"
    using assms(1) q by (auto simp: queueGiven_def bindR_Inr_iff)
  obtain n where n: "projectMaxAttempts (esProject s) d2 = Inr n"
    using assms(1) q r by (auto simp: queueGiven_def bindR_Inr_iff)
  have "before d2" using resumePlan [OF r] task [OF q] assms(2) by simp
  then show ?thesis using assms(1) q r n
    by (auto simp: queueGiven_def case_prod_beta Let_def split: option.splits intro!: emit_after insert)
qed

lemma QueueTask:
  assumes "QueueTask u now jobID selection taskID version d = Inr (d', j)" "before d"
  shows "after d'"
  using assms(1) by (cases rule: QueueTask_steps) (auto dest!: queueGiven intro: load assms(2))

lemma unqueueTask:
  assumes "unqueueTask now t reason i d = Inr d'" "before d"
  shows "before d'"
  using assms by (auto simp: unqueueTask_def bindR_Inr_iff split: if_splits dest: task)

lemma blockQueued:
  assumes "blockQueuedTaskForSchedulingTx now s t i bs d = Inr d'" "before d"
  shows "before d'"
proof -
  obtain d1 where d1: "unqueueTask now t (fst (boundSummary (blockedText bs))) i d = Inr d1"
    using assms(1) by (auto simp: blockQueuedTaskForSchedulingTx_def Let_def bindR_Inr_iff)
  have "before d1" by (rule unqueueTask [OF d1 assms(2)])
  then show ?thesis using assms(1)
    by (auto simp: blockQueuedTaskForSchedulingTx_def Let_def bindR_Inr_iff d1 split: if_splits dest!: plan intro!: emit_before)
qed

lemma startNow:
  assumes "startNow now taskID i d = Inr (d', t)" "before d"
  shows "before d'"
proof -
  obtain d1 tr where d1: "transitionTask now (startTaskRequest taskID i) d = Inr (d1, tr)"
    using assms(1) by (auto simp: startNow_def bindR_Inr_iff)
  have "before d1" using task [OF d1] assms(2) by simp
  then show ?thesis using assms(1)
    by (auto simp: startNow_def bindR_Inr_iff d1 split: if_splits option.splits dest!: plan intro!: emit_before)
qed

lemma StartTask:
  assumes "StartTask u now taskID d = Inr (d', r)" "before d"
  shows "before d'"
  using assms(1) by (cases rule: StartTask_steps) (auto dest!: blockQueued startNow intro: load assms(2))

lemma blockFailedPlan:
  "blockFailedPlan now t summary i d = Inr d' \<Longrightarrow> before d \<Longrightarrow> before d'"
  by (auto simp: blockFailedPlan_def bindR_Inr_iff dest!: plan intro!: emit_before)

lemma cancelStoppedPlan:
  assumes "cancelStoppedPlan now t i d = Inr d'" "before d"
  shows "before d'"
  using assms by (auto simp: cancelStoppedPlan_def bindR_Inr_iff dest!: plan intro!: emit_before)

lemma blockPlanAfter:
  "blockPlanAfterSchedulingGateTx now s taskID i bs d = Inr d' \<Longrightarrow> before d \<Longrightarrow> before d'"
  by (auto simp: blockPlanAfterSchedulingGateTx_def bindR_Inr_iff case_prod_beta Let_def dest!: plan intro!: emit_before)

lemma closeIntake: "before d \<Longrightarrow> before (closeIntake now t i d)"
  by (auto simp: closeIntake_def Let_def split: option.splits intro!: emit_before intake)

lemma completePlan:
  "completePlan now t intakeID i d = Inr d' \<Longrightarrow> before d \<Longrightarrow> before d'"
  by (auto simp: completePlan_def bindR_Inr_iff dest!: plan intro!: emit_before closeIntake)

lemma queueFollowing:
  assumes "queueFollowing now jobID provider t n d = Inr d'" "before d"
  shows "after d'"
proof -
  obtain d1 tr where d1: "transitionTask now (continueRequest (lId n) jobID) d = Inr (d1, tr)"
    using assms(1) by (auto simp: queueFollowing_def bindR_Inr_iff split: if_splits)
  have "before d1" using task [OF d1] assms(2) by simp
  then show ?thesis using assms(1)
    by (auto simp: queueFollowing_def bindR_Inr_iff d1 case_prod_beta Let_def split: if_splits intro!: emit_after insert)
qed

lemma advancePlan:
  assumes "advancePlan u now jobID t i intakeID s d = Inr d'" "before d"
  shows "after d'"
  using assms(1)
  by (cases rule: advancePlan_steps) (auto dest: blockPlanAfter completePlan queueFollowing intro: weaken assms(2))

lemma settlePlan:
  assumes "settlePlan u now jobID t i d = Inr d'" "before d"
  shows "after d'"
  using assms(1)
proof (cases rule: settlePlan_steps)
  case (1 d1 s)
  show ?thesis using load [OF 1(1) assms(2)] 1(3) by (simp add: weaken)
next
  case (2 d1 s)
  show ?thesis by (rule weaken [OF cancelStoppedPlan [OF 2(2) load [OF 2(1) assms(2)]]])
next
  case (3 d1 s p)
  show ?thesis by (rule advancePlan [OF 3(4) load [OF 3(1) assms(2)]])
qed

lemma captureFinish:
  "captureFinish e snapID t wk b d = Inr d' \<Longrightarrow> before d \<Longrightarrow> before d'"
  by (auto simp: captureFinish_def captureWithoutChanges_def bindR_Inr_iff split: if_splits dest: capture)

lemma finishRunning:
  assumes "finishRunning e u now jobID snapID t sessionID success summary wk b old d = Inr d'" "before d" "after old"
  shows "after d'"
  using assms(1)
proof (cases rule: finishRunning_steps)
  case 1
  then show ?thesis using assms(3) by simp
next
  case (2 i d1 tr)
  have "before d1" using task [OF 2(1)] assms(2) by simp
  then show ?thesis using 2(3) by (auto dest!: blockFailedPlan intro!: weaken emit_before)
next
  case (3 i d1 tr d3)
  have "before d1" using task [OF 3(1)] assms(2) by simp
  then have "before d3" using 3(3) by (auto dest!: captureFinish intro!: emit_before)
  then show ?thesis by (rule settlePlan [OF 3(4)])
qed

lemma finishTask:
  assumes "finishTask e u now jobID snapID planID taskID sessionID success message wk b d = Inr d'" "before d"
  shows "after d'"
  using assms(1)
proof (cases rule: finishTask_steps)
  case 1
  then show ?thesis using assms(2) by (simp add: weaken)
next
  case (2 d0 s t summary)
  show ?thesis by (rule finishRunning [OF 2(5) load [OF 2(1) assms(2)] weaken [OF assms(2)]])
qed

end

section \<open>The queue and the snapshots\<close>

definition store_inv :: "db \<Rightarrow> bool" where
  "store_inv d \<longleftrightarrow> queue_inv d \<and> snapshot_inv d"

definition store_fresh :: "uuid \<Rightarrow> db \<Rightarrow> bool" where
  "store_fresh i d \<longleftrightarrow> store_inv d \<and> freshJob i d"

lemma store_fresh_inv: "store_fresh i d \<Longrightarrow> store_inv d"
  by (simp add: store_fresh_def)

lemma store_inv_frame:
  assumes "dbJobs d' = dbJobs d" "dbTasks d' = dbTasks d" "dbPlans d' = dbPlans d" "dbRuns d' = dbRuns d"
    "dbLeases d' = dbLeases d" "dbTransitions d' = dbTransitions d" "dbSnapshots d' = dbSnapshots d" "dbAudits d' = dbAudits d"
  shows "store_inv d' = store_inv d"
  using assms snapshot_inv_frame [of d' d] by (simp add: store_inv_def queue_inv_def db_audited_def)

lemma store_fresh_frame:
  assumes "dbJobs d' = dbJobs d" "dbTasks d' = dbTasks d" "dbPlans d' = dbPlans d" "dbRuns d' = dbRuns d"
    "dbLeases d' = dbLeases d" "dbTransitions d' = dbTransitions d" "dbSnapshots d' = dbSnapshots d" "dbAudits d' = dbAudits d"
  shows "store_fresh i d' = store_fresh i d"
  using store_inv_frame [OF assms] assms(1,6) by (simp add: store_fresh_def freshJob_def)

lemma transitionTask_same:
  assumes "transitionTask now q d = Inr (d', r)"
  shows "dbJobs d' = dbJobs d" "dbPlans d' = dbPlans d" "dbRuns d' = dbRuns d" "dbLeases d' = dbLeases d"
    "dbSnapshots d' = dbSnapshots d" "dbAudits d' = dbAudits d" "dbProjects d' = dbProjects d" "dbIntakes d' = dbIntakes d"
  by (subst transitionTask_frame [OF assms], simp)+

lemma transitionPlan_same:
  assumes "transitionPlan now q d = Inr (d', r)"
  shows "dbJobs d' = dbJobs d" "dbTasks d' = dbTasks d" "dbRuns d' = dbRuns d" "dbLeases d' = dbLeases d"
    "dbSnapshots d' = dbSnapshots d" "dbAudits d' = dbAudits d" "dbProjects d' = dbProjects d" "dbIntakes d' = dbIntakes d"
  by (subst transitionPlan_frame [OF assms], simp)+

lemma trail_other: "ltResource a \<noteq> resource \<Longrightarrow> trail resource i (ts @ [a]) = trail resource i ts"
  by (simp add: trail_def)

lemma task_keeps_store:
  assumes "transitionTask now q d = Inr (d', r)" "lpResourceType q = ResTask" "store_fresh i d"
  shows "store_fresh i d'"
proof -
  note same = transitionTask_same [OF assms(1)]
  have "trail ResJob i (dbTransitions d') = trail ResJob i (dbTransitions d)"
    using assms(1,2) unfolding transitionTask_def
    by (cases rule: tasks.transition_cases) (simp_all add: trail_other auditRow_def)
  moreover have "db_audited d'"
    using transitionTask_audited [OF assms(1,2)] assms(3) by (simp add: store_fresh_def store_inv_def queue_inv_def)
  ultimately show ?thesis
    using assms(3) snapshot_inv_frame [of d' d] same by (simp add: store_fresh_def store_inv_def queue_inv_def freshJob_def)
qed

lemma plan_keeps_store:
  assumes "transitionPlan now q d = Inr (d', r)" "lpResourceType q = ResPlan" "store_fresh i d"
  shows "store_fresh i d'"
proof -
  note same = transitionPlan_same [OF assms(1)]
  have "trail ResJob i (dbTransitions d') = trail ResJob i (dbTransitions d)"
    using assms(1,2) unfolding transitionPlan_def
    by (cases rule: plans.transition_cases) (simp_all add: trail_other auditRow_def)
  moreover have "db_audited d'"
    using transitionPlan_audited [OF assms(1,2)] assms(3) by (simp add: store_fresh_def store_inv_def queue_inv_def)
  ultimately show ?thesis
    using assms(3) snapshot_inv_frame [of d' d] same by (simp add: store_fresh_def store_inv_def queue_inv_def freshJob_def)
qed

lemma recoveredTask_simps [simp]:
  "lId (recoveredTask now t) = lId t" "lStatus (recoveredTask now t) = lStatus t" "lVersion (recoveredTask now t) = lVersion t + 1"
  "ptPlan (recoveredTask now t) = ptPlan t"
  by (simp_all add: recoveredTask_def)

lemma load_tasks:
  assumes "loadPlanExecutionStateTx now planID d = Inr (d', s)"
  obtains g where "d' = d\<lparr>dbTasks := map g (dbTasks d)\<rparr>" "set (esTasks s) = {t \<in> set (dbTasks d'). ptPlan t = planID}"
    "\<And>t. lId (g t) = lId t" "\<And>t. lStatus (g t) = lStatus t" "\<And>t. lVersion t \<le> lVersion (g t)" "\<And>t. ptPlan (g t) = ptPlan t"
    "esPlan s = planID"
proof -
  obtain p where p: "findRow planID (dbPlans d) = Some p"
    using assms by (cases "findRow planID (dbPlans d)") (auto simp: loadPlanExecutionStateTx_def)
  let ?g = "\<lambda>t. if plCompat p \<and> ptPlan t = planID \<and> recoverLegacy t then recoveredTask now t else t"
  define g where "g = ?g"
  have g: "lId (g t) = lId t" "lStatus (g t) = lStatus t" "lVersion t \<le> lVersion (g t)" "ptPlan (g t) = ptPlan t" for t
    by (simp_all add: g_def)
  have d': "d' = d\<lparr>dbTasks := map g (dbTasks d)\<rparr>" "esPlan s = planID"
    "esTasks s = map g (sortBy (taskBefore (plCompat p)) (filter (\<lambda>t. ptPlan t = planID) (dbTasks d)))"
    using assms by (auto simp: loadPlanExecutionStateTx_def p Let_def g_def)
  have "set (esTasks s) = {t \<in> set (dbTasks d'). ptPlan t = planID}"
    by (auto simp: d' sortBy_set g(4))
  then show thesis by (intro that [of g] d' g)
qed

lemma load_keeps_store:
  assumes "loadPlanExecutionStateTx now planID d = Inr (d', s)" "store_fresh i d"
  shows "store_fresh i d'"
  using assms(1)
proof (cases rule: load_tasks)
  case (1 g)
  have "audited ResTask (dbTransitions d) (map g (dbTasks d))"
    using assms(2) 1(3-5) by (intro audited_map) (auto simp: store_fresh_def store_inv_def queue_inv_def db_audited_def)
  then show ?thesis
    using assms(2) snapshot_inv_frame [of d' d]
    by (simp add: 1(1) store_fresh_def store_inv_def queue_inv_def db_audited_def freshJob_def)
qed

lemma config_keeps_store: "store_fresh i d \<Longrightarrow> store_fresh i (setPlanConfig planID c d)"
proof -
  assume d: "store_fresh i d"
  have "audited ResPlan (dbTransitions d) (updateRow planID (\<lambda>p. p\<lparr>plConfig := c\<rparr>) (dbPlans d))"
    unfolding updateRow_def
    using d by (intro audited_map) (auto simp: store_fresh_def store_inv_def queue_inv_def db_audited_def)
  then show ?thesis
    using d snapshot_inv_frame [of "setPlanConfig planID c d" d]
    by (simp add: store_fresh_def store_inv_def queue_inv_def db_audited_def freshJob_def) (simp add: setPlanConfig_def)
qed

lemma capture_keeps_store:
  assumes "captureSnapshotTx e j planID kind taskID gp summary files wk d = Inr (d', row)" "store_fresh i d"
  shows "store_fresh i d'"
proof -
  have d': "d' = d\<lparr>dbSnapshots := dbSnapshots d @ [row]\<rparr>" using assms(1) by (cases rule: captureSnapshotTx_cases) simp
  have "snapshot_inv d'" using capture_keeps [OF assms(1)] assms(2) by (simp add: store_fresh_def store_inv_def)
  then show ?thesis using assms(2)
    by (simp add: d' store_fresh_def store_inv_def queue_inv_def db_audited_def freshJob_def)
qed

lemma audit_keeps_store:
  assumes "insertPlanDriftAuditTx j projectID planID action original new1 target rawDiff channel reason d = Inr (d', a)" "store_fresh i d"
  shows "store_fresh i d'"
proof -
  note d' = audit_frame [OF assms(1)]
  have "snapshot_inv d'" using audit_keeps [OF assms(1)] assms(2) by (simp add: store_fresh_def store_inv_def)
  then show ?thesis using assms(2)
    by (simp add: d' store_fresh_def store_inv_def queue_inv_def db_audited_def freshJob_def)
qed

lemma insertEvent_snapshots [simp]:
  "dbSnapshots (insertEvent now p d) = dbSnapshots d" "dbAudits (insertEvent now p d) = dbAudits d"
  by (simp_all add: insertEvent_def)

lemma insertJob_same [simp]:
  "dbTasks (fst (insertJob now p d)) = dbTasks d" "dbPlans (fst (insertJob now p d)) = dbPlans d"
  "dbRuns (fst (insertJob now p d)) = dbRuns d" "dbSnapshots (fst (insertJob now p d)) = dbSnapshots d"
  "dbAudits (fst (insertJob now p d)) = dbAudits d" "dbTransitions (fst (insertJob now p d)) = dbTransitions d"
  "dbLeases (fst (insertJob now p d)) = dbLeases d"
  by (simp_all add: insertJob_def notifyJob_def Let_def split: option.splits)

lemma insert_keeps_store:
  assumes "store_fresh i d" "njID nj = i"
  shows "store_inv (fst (insertJob now nj d))"
  using assms enqueue_inv [of d nj now] snapshot_inv_frame [of "fst (insertJob now nj d)" d]
  by (simp add: store_inv_def store_fresh_def)

interpretation running: execution_invariant "store_fresh i" store_inv i for i
proof unfold_locales
  fix d :: db and now
  show "store_fresh i d \<Longrightarrow> store_fresh i (fst (updateIntakeStatus now k a b d))" for k a b
    using store_fresh_frame [of "fst (updateIntakeStatus now k a b d)" d i]
    by (simp add: updateIntakeStatus_def Let_def)
  show "store_fresh i d \<Longrightarrow> store_fresh i (insertEvent now ev d)" for ev
    using store_fresh_frame [of "insertEvent now ev d" d i] by simp
  show "store_inv d \<Longrightarrow> store_inv (insertEvent now ev d)" for ev
    using store_inv_frame [of "insertEvent now ev d" d] by simp
qed (fact load_keeps_store task_keeps_store plan_keeps_store config_keeps_store capture_keeps_store audit_keeps_store
    insert_keeps_store store_fresh_inv)+

section \<open>One active task per plan\<close>

definition activeTask :: "plan_task \<Rightarrow> bool" where
  "activeTask t \<longleftrightarrow> lStatus t = ''queued'' \<or> lStatus t = ''running''"

definition oneActive :: "plan_task list \<Rightarrow> bool" where
  "oneActive ts \<longleftrightarrow> (\<forall>s \<in> set ts. \<forall>t \<in> set ts. ptPlan s = ptPlan t \<and> activeTask s \<and> activeTask t \<longrightarrow> lId s = lId t)"

text \<open>A change of the task table that activates at most the tasks \<open>A\<close>.\<close>

definition activates :: "uuid set \<Rightarrow> plan_task list \<Rightarrow> plan_task list \<Rightarrow> bool" where
  "activates A ts ts' \<longleftrightarrow> (\<exists>g. ts' = map g ts \<and>
     (\<forall>t \<in> set ts. lId (g t) = lId t \<and> ptPlan (g t) = ptPlan t \<and> (activeTask (g t) \<longrightarrow> activeTask t \<or> lId t \<in> A)))"

lemma activates_refl [simp]: "activates A ts ts"
  unfolding activates_def by (rule exI [of _ id]) simp

lemma activates_trans: "activates A ts ts' \<Longrightarrow> activates B ts' ts'' \<Longrightarrow> activates (A \<union> B) ts ts''"
proof -
  assume "activates A ts ts'" "activates B ts' ts''"
  then obtain g h where "ts' = map g ts" "ts'' = map h ts'"
    "\<forall>t \<in> set ts. lId (g t) = lId t \<and> ptPlan (g t) = ptPlan t \<and> (activeTask (g t) \<longrightarrow> activeTask t \<or> lId t \<in> A)"
    "\<forall>t \<in> set ts'. lId (h t) = lId t \<and> ptPlan (h t) = ptPlan t \<and> (activeTask (h t) \<longrightarrow> activeTask t \<or> lId t \<in> B)"
    unfolding activates_def by blast
  then show ?thesis unfolding activates_def by (intro exI [of _ "h \<circ> g"]) auto
qed

text \<open>Activating one task of a plan without active tasks, or none.\<close>

lemma activates_one:
  assumes "activates {i} ts ts'" "oneActive ts" "\<And>s t. s \<in> set ts \<Longrightarrow> t \<in> set ts \<Longrightarrow> lId t = i \<Longrightarrow> ptPlan s = ptPlan t \<Longrightarrow> \<not> activeTask s"
  shows "oneActive ts'"
proof -
  obtain g where g: "ts' = map g ts"
    "\<forall>t \<in> set ts. lId (g t) = lId t \<and> ptPlan (g t) = ptPlan t \<and> (activeTask (g t) \<longrightarrow> activeTask t \<or> lId t = i)"
    using assms(1) unfolding activates_def by auto
  show ?thesis unfolding oneActive_def g(1)
  proof (intro ballI impI)
    fix x y assume "x \<in> set (map g ts)" "y \<in> set (map g ts)" and xy: "ptPlan x = ptPlan y \<and> activeTask x \<and> activeTask y"
    then obtain a b where ab: "a \<in> set ts" "x = g a" "b \<in> set ts" "y = g b" by auto
    then have p: "ptPlan a = ptPlan b" "activeTask a \<or> lId a = i" "activeTask b \<or> lId b = i" using g(2) xy by metis+
    have "lId a = lId b"
      using p assms(2,3) ab(1,3) unfolding oneActive_def by metis
    then show "lId x = lId y" using ab g(2) by metis
  qed
qed

lemma activates_none:
  assumes "activates {} ts ts'" "oneActive ts"
  shows "oneActive ts'"
proof -
  obtain g where g: "ts' = map g ts" "\<forall>t \<in> set ts. lId (g t) = lId t \<and> ptPlan (g t) = ptPlan t \<and> (activeTask (g t) \<longrightarrow> activeTask t)"
    using assms(1) unfolding activates_def by auto
  show ?thesis unfolding oneActive_def g(1)
  proof (intro ballI impI)
    fix x y assume "x \<in> set (map g ts)" "y \<in> set (map g ts)" and xy: "ptPlan x = ptPlan y \<and> activeTask x \<and> activeTask y"
    then obtain a b where ab: "a \<in> set ts" "x = g a" "b \<in> set ts" "y = g b" by auto
    then have "ptPlan a = ptPlan b" "activeTask a" "activeTask b" using g(2) xy by metis+
    then have "lId a = lId b" using assms(2) ab(1,3) unfolding oneActive_def by blast
    then show "lId x = lId y" using ab g(2) by metis
  qed
qed

text \<open>Requests that keep a task in its plan.\<close>

definition keepsPlan :: "plan_task lifecycle_request \<Rightarrow> bool" where
  "keepsPlan q \<longleftrightarrow> (\<forall>now m cp r. ptPlan (setLifecycle now q m cp r) = ptPlan r)"

lemma keepsPlan_requests [simp]:
  "keepsPlan (queueTaskRequest t src r j)" "keepsPlan (queueTaskRequest t src r j\<lparr>lpExpectedVersion := v\<rparr>)"
  "keepsPlan (unqueueRequest i r jo)" "keepsPlan (startTaskRequest i jo)" "keepsPlan (finishRequest t s b sm jo)"
  "keepsPlan (continueRequest i j)"
  by (simp_all add: keepsPlan_def setLifecycle_def applyFields_def queueTaskRequest_def unqueueRequest_def
      startTaskRequest_def finishRequest_def continueRequest_def setStarted_def setFinished_def setTaskSession_def
      setAcceptanceStatus_def setAcceptanceResult_def)

lemma transitionTask_activates:
  assumes "transitionTask now q d = Inr (d', r)" "keepsPlan q" "lpStatus q \<in> {''queued'', ''running''} \<Longrightarrow> lpResourceID q \<in> A"
  shows "activates A (dbTasks d) (dbTasks d')"
  using assms(1) unfolding transitionTask_def
proof (cases rule: tasks.transition_cases)
  case (applied s m cp)
  then show ?thesis
    using assms(2,3) unfolding activates_def applied(6) updateRow_def
    by (intro exI [of _ "\<lambda>r. if lId r = lpResourceID q then setLifecycle now q m cp r else r"])
      (auto simp: keepsPlan_def activeTask_def)
qed simp

lemma load_activates:
  assumes "loadPlanExecutionStateTx now planID d = Inr (d', s)"
  shows "activates {} (dbTasks d) (dbTasks d')"
  using assms
proof (cases rule: load_tasks)
  case (1 g)
  then show ?thesis unfolding activates_def by (intro exI [of _ g]) (auto simp: activeTask_def)
qed

lemma gate_no_active:
  assumes "loadPlanExecutionStateTx now planID d = Inr (d', s)" "nextPlanTask u s automatic None = Next n"
    "x \<in> set (dbTasks d')" "ptPlan x = planID"
  shows "\<not> activeTask x"
proof -
  have "activeTaskBlockers s None = []" using assms(2) by (auto simp: nextPlanTask_def split: if_splits)
  moreover have "x \<in> set (esTasks s)" using assms(1) by (cases rule: load_tasks) (use assms(3,4) in auto)
  ultimately show ?thesis by (auto simp: activeTaskBlockers_def activeTask_def filter_empty_conv)
qed

lemma transitionTask_still:
  assumes "transitionTask now q d = Inr (d', r)" "keepsPlan q" "expectedStatuses q = [''queued'']" "distinct (map lId (dbTasks d))"
  shows "activates {} (dbTasks d) (dbTasks d')"
  using assms(1) unfolding transitionTask_def
proof (cases rule: tasks.transition_cases)
  case (applied s m cp)
  have "x = s" if "x \<in> set (dbTasks d)" "lId x = lpResourceID q" for x
    using that findRow_Some [OF applied(1)] same_row [OF assms(4)] by simp
  moreover have "activeTask s" using gateCheck_Proceed(3) [OF applied(2)] assms(3) by (simp add: activeTask_def)
  ultimately show ?thesis
    using assms(2) unfolding activates_def applied(6) updateRow_def
    by (intro exI [of _ "\<lambda>r. if lId r = lpResourceID q then setLifecycle now q m cp r else r"]) (auto simp: keepsPlan_def)
qed simp

lemma capture_db:
  assumes "captureSnapshotTx e i planID kind taskID gp summary files wk d = Inr (d', row)"
  shows "d' = d\<lparr>dbSnapshots := dbSnapshots d @ [row]\<rparr>"
  using assms by (cases rule: captureSnapshotTx_cases) simp

lemma acceptProvider_tasks: "acceptProvider e i j s c d = Inr d' \<Longrightarrow> dbTasks d' = dbTasks d"
  by (auto simp: acceptProvider_def captureWithoutChanges_def bindR_Inr_iff split: if_splits option.splits
      dest!: audit_frame capture_db)

lemma captureFinish_tasks: "captureFinish e i t wk b d = Inr d' \<Longrightarrow> dbTasks d' = dbTasks d"
  by (auto simp: captureFinish_def captureWithoutChanges_def bindR_Inr_iff split: if_splits dest!: capture_db)

lemma queue_request_status [simp]:
  "lpStatus (queueTaskRequest t src r j) = ''queued''" "lpResourceID (queueTaskRequest t src r j) = lId t"
  "lpStatus (unqueueRequest i r jo) = ''pending''" "lpResourceID (unqueueRequest i r jo) = i"
  "lpStatus (startTaskRequest i jo) = ''running''" "lpResourceID (startTaskRequest i jo) = i"
  "expectedStatuses (startTaskRequest i jo) = [''queued'']"
  "lpStatus (finishRequest t s b sm jo) = (if b then ''succeeded'' else ''failed'')" "lpResourceID (finishRequest t s b sm jo) = lId t"
  "lpStatus (continueRequest i j) = ''queued''" "lpResourceID (continueRequest i j) = i"
  by (simp_all add: queueTaskRequest_def unqueueRequest_def startTaskRequest_def finishRequest_def continueRequest_def
      expectedStatuses_def)

lemma queueNext_activates:
  assumes "queueNext e now jobID snapID auditID provider automatic allowed s t d = Inr (d', j)"
  shows "activates {lId t} (dbTasks d) (dbTasks d')"
proof -
  obtain config where c: "planConfigSnapshotWithProvider (esConfig s) (fst provider) = Inr config"
    using assms by (auto simp: queueNext_def bindR_Inr_iff)
  obtain d1 pr where p: "transitionPlan now (runPlanRequest (esPlan s) (esVersion s) automatic allowed (lId t) jobID) d = Inr (d1, pr)"
    using assms c by (auto simp: queueNext_def bindR_Inr_iff)
  obtain d2 tr where q: "transitionTask now (queueTaskRequest t (lSource (lrState pr)) ''earliest dependency-ready task queued'' jobID) d1 = Inr (d2, tr)"
    using assms c p by (auto simp: queueNext_def bindR_Inr_iff)
  obtain d3 where a: "acceptProvider e snapID auditID s config (setPlanConfig (esPlan s) config d2) = Inr d3"
    using assms c p q by (auto simp: queueNext_def bindR_Inr_iff)
  have "dbTasks d' = dbTasks d3"
    using assms c p q a by (auto simp: queueNext_def bindR_Inr_iff case_prod_beta Let_def)
  then have "dbTasks d' = dbTasks d2" "dbTasks d1 = dbTasks d"
    using acceptProvider_tasks [OF a] transitionPlan_same(2) [OF p] by simp_all
  then show ?thesis using transitionTask_activates [OF q, of "{lId t}"] by simp
qed

lemma queueGiven_activates:
  assumes "queueGiven now jobID provider version s t d = Inr (d', j)"
  shows "activates {lId t} (dbTasks d) (dbTasks d')"
proof -
  obtain d1 tr where q: "transitionTask now ((queueTaskRequest t ''user'' ''earliest dependency-ready task explicitly queued'' jobID)
       \<lparr>lpExpectedVersion := version\<rparr>) d = Inr (d1, tr)"
    using assms(1) by (auto simp: queueGiven_def bindR_Inr_iff)
  obtain d2 c where r: "resumePlan now s (lId t) jobID d1 = Inr (d2, c)"
    using assms(1) q by (auto simp: queueGiven_def bindR_Inr_iff)
  have "dbTasks d' = dbTasks d2"
    using assms(1) q r by (auto simp: queueGiven_def bindR_Inr_iff case_prod_beta Let_def split: option.splits)
  moreover have "dbTasks d2 = dbTasks d1"
    using r by (auto simp: resumePlan_def bindR_Inr_iff split: if_splits dest: transitionPlan_same)
  ultimately show ?thesis using transitionTask_activates [OF q, of "{lId t}"] by simp
qed

lemma queueFollowing_activates:
  assumes "queueFollowing now jobID provider t n d = Inr d'"
  shows "activates {lId n} (dbTasks d) (dbTasks d')"
proof -
  obtain d1 tr where q: "transitionTask now (continueRequest (lId n) jobID) d = Inr (d1, tr)"
    using assms(1) by (auto simp: queueFollowing_def bindR_Inr_iff split: if_splits)
  then have "dbTasks d' = dbTasks d1"
    using assms(1) by (auto simp: queueFollowing_def bindR_Inr_iff case_prod_beta Let_def split: if_splits)
  then show ?thesis using transitionTask_activates [OF q, of "{lId n}"] by simp
qed

lemma block_activates:
  assumes "blockQueuedTaskForSchedulingTx now s t i bs d = Inr d'"
  shows "activates {} (dbTasks d) (dbTasks d')"
proof -
  obtain d1 where d1: "unqueueTask now t (fst (boundSummary (blockedText bs))) i d = Inr d1"
    using assms(1) by (auto simp: blockQueuedTaskForSchedulingTx_def Let_def bindR_Inr_iff)
  have "activates {} (dbTasks d) (dbTasks d1)"
    using d1 by (auto simp: unqueueTask_def bindR_Inr_iff split: if_splits intro: transitionTask_activates)
  moreover have "dbTasks d' = dbTasks d1" using assms(1)
    by (auto simp: blockQueuedTaskForSchedulingTx_def Let_def bindR_Inr_iff d1 split: if_splits dest: transitionPlan_same)
  ultimately show ?thesis by simp
qed

lemma startNow_activates:
  assumes "startNow now taskID i d = Inr (d', t)" "distinct (map lId (dbTasks d))"
  shows "activates {} (dbTasks d) (dbTasks d')"
proof -
  obtain d1 tr where d1: "transitionTask now (startTaskRequest taskID i) d = Inr (d1, tr)"
    using assms(1) by (auto simp: startNow_def bindR_Inr_iff)
  have "dbTasks d' = dbTasks d1" using assms(1)
    by (auto simp: startNow_def bindR_Inr_iff d1 split: if_splits option.splits dest: transitionPlan_same)
  then show ?thesis using transitionTask_still [OF d1 _ _ assms(2)] by simp
qed

lemma activates_ids: "activates A ts ts' \<Longrightarrow> map lId ts' = map lId ts"
  by (auto simp: activates_def)

lemma nextPlanTask_member: "nextPlanTask u s automatic allowed = Next n \<Longrightarrow> n \<in> set (esTasks s)"
  by (auto simp: nextPlanTask_def split: if_splits dest!: scanTasks_Next)

text \<open>The gate lets one task of the plan become active.\<close>

lemma gate_one_active:
  assumes "loadPlanExecutionStateTx now planID d = Inr (d0, s)" "nextPlanTask u s automatic None = Next n"
    "activates {lId n} (dbTasks d0) ts" "oneActive (dbTasks d)" "distinct (map lId (dbTasks d))"
  shows "oneActive ts"
proof (rule activates_one [OF assms(3)])
  show "oneActive (dbTasks d0)" by (rule activates_none [OF load_activates [OF assms(1)] assms(4)])
  have ids: "distinct (map lId (dbTasks d0))" using activates_ids [OF load_activates [OF assms(1)]] assms(5) by simp
  have n: "n \<in> set (dbTasks d0)" "ptPlan n = planID"
    using nextPlanTask_member [OF assms(2)] assms(1) by (auto elim!: load_tasks)
  show "\<not> activeTask x" if "x \<in> set (dbTasks d0)" "t \<in> set (dbTasks d0)" "lId t = lId n" "ptPlan x = ptPlan t" for x t
  proof -
    have "t = n" using same_row [OF ids that(2) n(1) that(3)] .
    then show ?thesis using gate_no_active [OF assms(1,2) that(1)] that(4) n(2) by simp
  qed
qed

lemma queuePlanTx_one:
  assumes "queuePlanTx e u now jobID snapID auditID selection planID version automatic d = Inr (d', j)"
    "oneActive (dbTasks d)" "distinct (map lId (dbTasks d))"
  shows "oneActive (dbTasks d')"
  using assms(1)
proof (cases rule: queuePlanTx_steps)
  case (1 d0 s t)
  show ?thesis by (rule gate_one_active [OF 1(1,4) queueNext_activates [OF 1(7)] assms(2,3)])
qed

lemma QueuePlanAutomatically_one:
  assumes "QueuePlanAutomatically e u now jobID snapID auditID selection planID d = Inr (d', j)"
    "oneActive (dbTasks d)" "distinct (map lId (dbTasks d))"
  shows "oneActive (dbTasks d')"
  using assms by (auto simp: QueuePlanAutomatically_def bindR_Inr_iff split: if_splits option.splits intro: queuePlanTx_one)

lemma stateTask_id: "stateTask i s = Some t \<Longrightarrow> lId t = i \<and> t \<in> set (esTasks s)"
  by (auto simp: stateTask_def find_Some_iff)

lemma QueueTask_one:
  assumes "QueueTask u now jobID selection taskID version d = Inr (d', j)"
    "oneActive (dbTasks d)" "distinct (map lId (dbTasks d))"
  shows "oneActive (dbTasks d')"
  using assms(1)
proof (cases rule: QueueTask_steps)
  case (1 row d0 s t n)
  have "lId t = lId n" using 1(6) stateTask_id [OF 1(3)] by simp
  then have "activates {lId n} (dbTasks d0) (dbTasks d')" using queueGiven_activates [OF 1(8)] by simp
  then show ?thesis by (rule gate_one_active [OF 1(2,5) _ assms(2,3)])
qed

lemma StartTask_one:
  assumes "StartTask u now taskID d = Inr (d', r)" "oneActive (dbTasks d)" "distinct (map lId (dbTasks d))"
  shows "oneActive (dbTasks d')"
  using assms(1)
proof (cases rule: StartTask_steps)
  case (1 row d0 s t)
  show ?thesis by (rule activates_none [OF block_activates [OF 1(6)] activates_none [OF load_activates [OF 1(2)] assms(2)]])
next
  case (2 row d0 s t t')
  have "distinct (map lId (dbTasks d0))" using activates_ids [OF load_activates [OF 2(2)]] assms(3) by simp
  from startNow_activates [OF 2(7) this]
  show ?thesis by (rule activates_none) (rule activates_none [OF load_activates [OF 2(2)] assms(2)])
qed

section \<open>Finishing a task\<close>

lemma settle_tasks:
  "blockFailedPlan now t sm i d = Inr d' \<Longrightarrow> dbTasks d' = dbTasks d"
  "cancelStoppedPlan now t i d = Inr d' \<Longrightarrow> dbTasks d' = dbTasks d"
  "blockPlanAfterSchedulingGateTx now s k i bs d = Inr d' \<Longrightarrow> dbTasks d' = dbTasks d"
  "completePlan now t k i d = Inr d' \<Longrightarrow> dbTasks d' = dbTasks d"
  by (auto simp: blockFailedPlan_def cancelStoppedPlan_def blockPlanAfterSchedulingGateTx_def completePlan_def bindR_Inr_iff
      case_prod_beta Let_def dest: transitionPlan_same)

lemma settlePlan_one:
  assumes "settlePlan u now jobID t i d = Inr d'" "oneActive (dbTasks d)" "distinct (map lId (dbTasks d))"
  shows "oneActive (dbTasks d')"
  using assms(1)
proof (cases rule: settlePlan_steps)
  case (1 d1 s)
  show ?thesis unfolding 1(3) by (rule activates_none [OF load_activates [OF 1(1)] assms(2)])
next
  case (2 d1 s)
  show ?thesis unfolding settle_tasks(2) [OF 2(2)] by (rule activates_none [OF load_activates [OF 2(1)] assms(2)])
next
  case (3 d1 s p)
  have one: "oneActive (dbTasks d1)" by (rule activates_none [OF load_activates [OF 3(1)] assms(2)])
  from 3(4) show ?thesis
  proof (cases rule: advancePlan_steps)
    case (1 bs)
    then show ?thesis using one settle_tasks(3) by metis
  next
    case 2
    then show ?thesis using one settle_tasks(4) by metis
  next
    case (3 n provider)
    show ?thesis by (rule gate_one_active [OF \<open>loadPlanExecutionStateTx now (ptPlan t) d = Inr (d1, s)\<close> 3(1)
        queueFollowing_activates [OF 3(2)] assms(2,3)])
  qed
qed

lemma finishTask_one:
  assumes "finishTask e u now jobID snapID planID taskID sessionID success message wk b d = Inr d'"
    "oneActive (dbTasks d)" "distinct (map lId (dbTasks d))"
  shows "oneActive (dbTasks d')"
  using assms(1)
proof (cases rule: finishTask_steps)
  case 1
  then show ?thesis using assms(2) by simp
next
  case (2 d0 s t summary)
  note l = load_activates [OF 2(1)]
  have fin: "activates {} (dbTasks d0) (dbTasks d1)"
    if "transitionTask now (finishRequest t sessionID success sm i) d0 = Inr (d1, tr)" for i d1 tr sm
    by (rule transitionTask_activates [OF that]) (simp_all split: if_splits)
  have one: "oneActive (dbTasks d1) \<and> distinct (map lId (dbTasks d1))"
    if "transitionTask now (finishRequest t sessionID success sm i) d0 = Inr (d1, tr)" for i d1 tr sm
    using activates_none [OF fin [OF that] activates_none [OF l assms(2)]] activates_ids [OF fin [OF that]] activates_ids [OF l] assms(3)
    by simp
  from 2(5) show ?thesis
  proof (cases rule: finishRunning_steps)
    case 1
    then show ?thesis using assms(2) by simp
  next
    case (2 i d1 tr)
    then show ?thesis using one [OF 2(1)] by (auto dest!: settle_tasks)
  next
    case (3 i d1 tr d3)
    have "dbTasks d3 = dbTasks d1" using 3(3) by (auto dest!: captureFinish_tasks)
    then show ?thesis using settlePlan_one [OF 3(4)] one [OF 3(1)] by simp
  qed
qed

section \<open>Completion\<close>

definition completedPlans :: "db \<Rightarrow> uuid set" where
  "completedPlans d = set (map lId (filter (\<lambda>p. lStatus p = ''completed'') (dbPlans d)))"

lemma transitionPlan_completed:
  assumes "transitionPlan now q d = Inr (d', r)"
  shows "completedPlans d' \<subseteq> completedPlans d \<union> (if lpStatus q = ''completed'' then {lpResourceID q} else {})"
  using assms unfolding transitionPlan_def
  by (cases rule: plans.transition_cases) (auto simp: completedPlans_def updateRow_def split: if_splits)

lemma completed_frame: "dbPlans d' = dbPlans d \<Longrightarrow> completedPlans d' = completedPlans d"
  by (simp add: completedPlans_def)

lemma completed_config [simp]: "completedPlans (setPlanConfig p c d) = completedPlans d"
proof -
  let ?f = "\<lambda>q. if lId q = p then q\<lparr>plConfig := c\<rparr> else q"
  have f: "lId (?f q) = lId q" "lStatus (?f q) = lStatus q" for q :: plan by simp_all
  show ?thesis
    by (simp add: completedPlans_def setPlanConfig_def updateRow_def filter_map comp_def f image_image)
qed

lemma completed_closeIntake [simp]: "completedPlans (closeIntake now t i d) = completedPlans d"
  by (rule completed_frame) simp

lemma completed_emit [simp]: "completedPlans (emit now p k a i v pl d) = completedPlans d"
  by (rule completed_frame) simp

lemma load_plans:
  assumes "loadPlanExecutionStateTx now planID d = Inr (d', s)"
  shows "dbPlans d' = dbPlans d"
  using assms by (cases rule: load_tasks) simp

lemma plan_request_status [simp]:
  "lpStatus (runPlanRequest p v a al t j) = ''running''" "lpStatus (resumePlanRequest s t j) = ''running''"
  "lpStatus (blockPlanRequest s src r t jo bs) = ''blocked''" "lpStatus (validatingRequest t' jo) = ''validating''"
  "lpStatus (settlePlanRequest t' st src c r h jo) = st" "lpResourceID (settlePlanRequest t' st src c r h jo) = ptPlan t'"
  by (simp_all add: runPlanRequest_def resumePlanRequest_def blockPlanRequest_def validatingRequest_def settlePlanRequest_def)

text \<open>What a plan has to show before it may be completed.\<close>

definition planDone :: "uuid \<Rightarrow> db \<Rightarrow> bool" where
  "planDone i d \<longleftrightarrow> (\<exists>t \<in> set (dbTasks d). ptPlan t = i) \<and> (\<forall>t \<in> set (dbTasks d). ptPlan t = i \<longrightarrow> settledTask t)"

lemma settle_completed:
  "blockFailedPlan now t sm i d = Inr d' \<Longrightarrow> completedPlans d' \<subseteq> completedPlans d"
  "cancelStoppedPlan now t i d = Inr d' \<Longrightarrow> completedPlans d' \<subseteq> completedPlans d"
  "blockPlanAfterSchedulingGateTx now s k i bs d = Inr d' \<Longrightarrow> completedPlans d' \<subseteq> completedPlans d"
  "completePlan now t k i d = Inr d' \<Longrightarrow> completedPlans d' \<subseteq> insert (ptPlan t) (completedPlans d)"
proof -
  show "blockFailedPlan now t sm i d = Inr d' \<Longrightarrow> completedPlans d' \<subseteq> completedPlans d"
    by (auto simp: blockFailedPlan_def bindR_Inr_iff split: if_splits dest!: transitionPlan_completed)
  show "cancelStoppedPlan now t i d = Inr d' \<Longrightarrow> completedPlans d' \<subseteq> completedPlans d"
    by (auto simp: cancelStoppedPlan_def bindR_Inr_iff split: if_splits dest!: transitionPlan_completed)
  show "blockPlanAfterSchedulingGateTx now s k i bs d = Inr d' \<Longrightarrow> completedPlans d' \<subseteq> completedPlans d"
    by (auto simp: blockPlanAfterSchedulingGateTx_def bindR_Inr_iff case_prod_beta Let_def split: if_splits dest!: transitionPlan_completed)
  show "completePlan now t k i d = Inr d' \<Longrightarrow> completedPlans d' \<subseteq> insert (ptPlan t) (completedPlans d)"
    by (auto simp: completePlan_def bindR_Inr_iff split: if_splits dest!: transitionPlan_completed)
qed

lemma nextPlanTask_Complete:
  assumes "nextPlanTask u s automatic allowed = Complete"
  shows "esTasks s \<noteq> [] \<and> (\<forall>t \<in> set (esTasks s). settledTask t)"
proof -
  have "validatePlanExecutionState u s = []" "scanTasks s automatic (esTasks s) = Complete"
    using assms by (auto simp: nextPlanTask_def split: if_splits)
  then show ?thesis using scanTasks_Complete validate_cases(3) by blast
qed

lemma settlePlan_completes:
  assumes "settlePlan u now jobID t i d = Inr d'" "k \<in> completedPlans d' - completedPlans d"
  shows "planDone k d'"
  using assms(1)
proof (cases rule: settlePlan_steps)
  case (1 d1 s)
  then show ?thesis using assms(2) completed_frame [OF load_plans [OF 1(1)]] by simp
next
  case (2 d1 s)
  then show ?thesis using assms(2) completed_frame [OF load_plans [OF 2(1)]] settle_completed(2) [OF 2(2)] by auto
next
  case (3 d1 s p)
  note c = completed_frame [OF load_plans [OF 3(1)]]
  from 3(4) show ?thesis
  proof (cases rule: advancePlan_steps)
    case (1 bs)
    then show ?thesis using assms(2) c settle_completed(3) [OF 1(2)] by auto
  next
    case 2
    have k: "k = ptPlan t" using settle_completed(4) [OF 2(2)] assms(2) c by auto
    have "set (esTasks s) = {x \<in> set (dbTasks d1). ptPlan x = ptPlan t}" using 3(1) by (cases rule: load_tasks) simp
    then have "planDone k d1" using nextPlanTask_Complete [OF 2(1)] unfolding planDone_def k
      by (metis (mono_tags, lifting) list.set_sel(1) mem_Collect_eq)
    then show ?thesis by (simp add: planDone_def settle_tasks(4) [OF 2(2)])
  next
    case (3 n provider)
    obtain d2 tr where q: "transitionTask now (continueRequest (lId n) jobID) d1 = Inr (d2, tr)"
      using 3(2) by (auto simp: queueFollowing_def bindR_Inr_iff split: if_splits)
    have "dbPlans d' = dbPlans d1"
      using 3(2) q by (auto simp: queueFollowing_def bindR_Inr_iff case_prod_beta Let_def split: if_splits dest: transitionTask_same)
    from completed_frame [OF this] show ?thesis using assms(2) c by simp
  qed
qed

lemma finishTask_completes:
  assumes "finishTask e u now jobID snapID planID taskID sessionID success message wk b d = Inr d'"
    "k \<in> completedPlans d' - completedPlans d"
  shows "planDone k d'"
  using assms(1)
proof (cases rule: finishTask_steps)
  case 1
  then show ?thesis using assms(2) by simp
next
  case (2 d0 s t summary)
  note c = completed_frame [OF load_plans [OF 2(1)]]
  from 2(5) show ?thesis
  proof (cases rule: finishRunning_steps)
    case 1
    then show ?thesis using assms(2) by simp
  next
    case (2 i d1 tr)
    obtain k pl where "blockFailedPlan now t summary i (emit now (lProject t) k ''task'' (lId t) (lVersion (lrState tr)) pl d1) = Inr d'"
      using 2(3) by blast
    from settle_completed(1) [OF this] have "completedPlans d' \<subseteq> completedPlans d1" by simp
    then show ?thesis using assms(2) c completed_frame [OF transitionTask_same(2) [OF 2(1)]] by auto
  next
    case (3 i d1 tr d3)
    have "dbPlans d3 = dbPlans d1"
      using 3(3) by (auto simp: captureFinish_def captureWithoutChanges_def bindR_Inr_iff split: if_splits dest!: capture_db)
    from completed_frame [OF this] have "completedPlans d3 = completedPlans d"
      using c completed_frame [OF transitionTask_same(2) [OF 3(1)]] by simp
    then show ?thesis using settlePlan_completes [OF 3(4)] assms(2) by simp
  qed
qed

text \<open>Queueing and starting complete nothing.\<close>

lemma transitionPlan_not_completed:
  "transitionPlan now q d = Inr (d', r) \<Longrightarrow> lpStatus q \<noteq> ''completed'' \<Longrightarrow> completedPlans d' \<subseteq> completedPlans d"
  using transitionPlan_completed [of now q d d' r] by simp

lemma acceptProvider_plans: "acceptProvider e i j s c d = Inr d' \<Longrightarrow> dbPlans d' = dbPlans d"
  by (auto simp: acceptProvider_def captureWithoutChanges_def bindR_Inr_iff split: if_splits option.splits
      dest!: audit_frame capture_db)

lemma queueNext_completed:
  assumes "queueNext e now jobID snapID auditID provider automatic allowed s t d = Inr (d', j)"
  shows "completedPlans d' \<subseteq> completedPlans d"
proof -
  obtain config where c: "planConfigSnapshotWithProvider (esConfig s) (fst provider) = Inr config"
    using assms by (auto simp: queueNext_def bindR_Inr_iff)
  obtain d1 pr where p: "transitionPlan now (runPlanRequest (esPlan s) (esVersion s) automatic allowed (lId t) jobID) d = Inr (d1, pr)"
    using assms c by (auto simp: queueNext_def bindR_Inr_iff)
  obtain d2 tr where q: "transitionTask now (queueTaskRequest t (lSource (lrState pr)) ''earliest dependency-ready task queued'' jobID) d1 = Inr (d2, tr)"
    using assms c p by (auto simp: queueNext_def bindR_Inr_iff)
  obtain d3 where a: "acceptProvider e snapID auditID s config (setPlanConfig (esPlan s) config d2) = Inr d3"
    using assms c p q by (auto simp: queueNext_def bindR_Inr_iff)
  have "dbPlans d' = dbPlans d3"
    using assms c p q a by (auto simp: queueNext_def bindR_Inr_iff case_prod_beta Let_def)
  from completed_frame [OF this] completed_frame [OF acceptProvider_plans [OF a]] completed_frame [OF transitionTask_same(2) [OF q]]
    transitionPlan_not_completed [OF p]
  show ?thesis by simp
qed

lemma queueGiven_completed:
  assumes "queueGiven now jobID provider version s t d = Inr (d', j)"
  shows "completedPlans d' \<subseteq> completedPlans d"
proof -
  obtain d1 tr where q: "transitionTask now ((queueTaskRequest t ''user'' ''earliest dependency-ready task explicitly queued'' jobID)
       \<lparr>lpExpectedVersion := version\<rparr>) d = Inr (d1, tr)"
    using assms(1) by (auto simp: queueGiven_def bindR_Inr_iff)
  obtain d2 c where r: "resumePlan now s (lId t) jobID d1 = Inr (d2, c)"
    using assms(1) q by (auto simp: queueGiven_def bindR_Inr_iff)
  have "dbPlans d' = dbPlans d2"
    using assms(1) q r by (auto simp: queueGiven_def bindR_Inr_iff case_prod_beta Let_def split: option.splits)
  note completed_frame [OF this]
  moreover have "completedPlans d2 \<subseteq> completedPlans d1"
    using r transitionPlan_not_completed [of now "resumePlanRequest s (lId t) jobID" d1]
    by (auto simp: resumePlan_def bindR_Inr_iff split: if_splits)
  ultimately show ?thesis using completed_frame [OF transitionTask_same(2) [OF q]] by simp
qed

lemma block_completed:
  assumes "blockQueuedTaskForSchedulingTx now s t i bs d = Inr d'"
  shows "completedPlans d' \<subseteq> completedPlans d"
proof -
  obtain d1 where d1: "unqueueTask now t (fst (boundSummary (blockedText bs))) i d = Inr d1"
    using assms(1) by (auto simp: blockQueuedTaskForSchedulingTx_def Let_def bindR_Inr_iff)
  then have "dbPlans d1 = dbPlans d" by (auto simp: unqueueTask_def bindR_Inr_iff split: if_splits dest: transitionTask_same)
  note c = completed_frame [OF this]
  show ?thesis using assms(1) unfolding c [symmetric]
    by (auto simp: blockQueuedTaskForSchedulingTx_def Let_def bindR_Inr_iff d1 split: if_splits dest!: transitionPlan_not_completed)
qed

lemma startNow_completed:
  assumes "startNow now taskID i d = Inr (d', t)"
  shows "completedPlans d' \<subseteq> completedPlans d"
proof -
  obtain d1 tr where d1: "transitionTask now (startTaskRequest taskID i) d = Inr (d1, tr)"
    using assms(1) by (auto simp: startNow_def bindR_Inr_iff)
  note c = completed_frame [OF transitionTask_same(2) [OF d1]]
  show ?thesis using assms(1) unfolding c [symmetric]
    by (auto simp: startNow_def bindR_Inr_iff d1 split: if_splits option.splits dest!: transitionPlan_not_completed)
qed

lemma StartTask_completed:
  assumes "StartTask u now taskID d = Inr (d', r)"
  shows "completedPlans d' \<subseteq> completedPlans d"
  using assms
proof (cases rule: StartTask_steps)
  case (1 row d0 s t)
  then show ?thesis using block_completed [OF 1(6)] completed_frame [OF load_plans [OF 1(2)]] by simp
next
  case (2 row d0 s t t')
  then show ?thesis using startNow_completed [OF 2(7)] completed_frame [OF load_plans [OF 2(2)]] by simp
qed

lemma queuePlanTx_completed:
  assumes "queuePlanTx e u now jobID snapID auditID selection planID version automatic d = Inr (d', j)"
  shows "completedPlans d' \<subseteq> completedPlans d"
  using assms
proof (cases rule: queuePlanTx_steps)
  case (1 d0 s t)
  then show ?thesis using queueNext_completed [OF 1(7)] completed_frame [OF load_plans [OF 1(1)]] by simp
qed

lemma QueueTask_completed:
  assumes "QueueTask u now jobID selection taskID version d = Inr (d', j)"
  shows "completedPlans d' \<subseteq> completedPlans d"
  using assms
proof (cases rule: QueueTask_steps)
  case (1 row d0 s t n)
  then show ?thesis using queueGiven_completed [OF 1(8)] completed_frame [OF load_plans [OF 1(2)]] by simp
qed

end
