(* ===== verification/CancellationResults.thy ===== *)
theory CancellationResults
  imports Cancellation ExecutionResults
begin

text \<open>
  What stopping work keeps: the operations of \<^verbatim>\<open>Cancellation\<close> are built from requests that
  release a job, put a task back and never complete a plan. An interface names these requests; its
  interpretations give the invariant of the database and the rule for completed plans. The last section
  says what a stopped plan leaves behind.
\<close>

section \<open>Requests that only stop work\<close>

definition quietJob :: "job lifecycle_request \<Rightarrow> bool" where
  "quietJob q \<longleftrightarrow> lpResourceType q = ResJob \<and> lpStatus q \<notin> {''leased'', ''running''} \<and>
     (\<forall>now m cp r. jType (setLifecycle now q m cp r) = jType r)"

definition quietTask :: "plan_task lifecycle_request \<Rightarrow> bool" where
  "quietTask q \<longleftrightarrow> lpResourceType q = ResTask \<and> keepsPlan q \<and>
     (lpStatus q \<in> {''queued'', ''running''} \<longrightarrow> expectedStatuses q \<noteq> [] \<and> set (expectedStatuses q) \<subseteq> {''queued'', ''running''})"

definition quietPlan :: "plan lifecycle_request \<Rightarrow> bool" where
  "quietPlan q \<longleftrightarrow> lpResourceType q = ResPlan \<and> lpStatus q \<noteq> ''completed''"

lemma quietJobs [simp]:
  "quietJob (cancelJobRequest i w)" "quietJob (stopJobRequest reason i)" "quietJob (driftJobRequest i w report)"
  by (simp_all add: quietJob_def cancelJobRequest_def stopJobRequest_def driftJobRequest_def jobRequest_def zeroRequest_def
      setLifecycle_def applyFields_def setLeaseNone_def setLastError_def)

lemma quietTasks [simp]:
  "quietTask (returnPendingRequest t m j)" "quietTask (returnQueuedRequest t s m j)" "quietTask (stopTaskRequest reason t j)"
  "quietTask (stopTaskRequest reason t j\<lparr>lpExpectedVersion := v\<rparr>)" "quietTask (driftTaskRequest t report i)"
  by (simp_all add: quietTask_def keepsPlan_def returnPendingRequest_def returnQueuedRequest_def stopTaskRequest_def
      driftTaskRequest_def setLifecycle_def applyFields_def setStarted_def setFinished_def keepTaskSession_def expectedStatuses_def)

lemma quietPlans [simp]: "quietPlan (stopPlanRequest p v)" "quietPlan (driftPlanRequest p t report i)"
  by (simp_all add: quietPlan_def stopPlanRequest_def driftPlanRequest_def)

lemma StopPlan_steps:
  assumes "StopPlan now i v d = Inr (d', r)"
  obtains d1 pr p d2 d3 where "transitionPlan now (stopPlanRequest i v) d = Inr (d1, pr)" "findRow i (dbPlans d1) = Some p"
    "foldR (stopJob now ''plan stopped by user'') (planJobs [''queued'', ''retry_wait'', ''leased''] i d1) d1 = Inr d2"
    "foldR (stopPlanTask now (lProject p)) (queuedTasks i d2) d2 = Inr d3"
    "d' = (if lrIdempotent pr then d3
       else emit now (lProject p) ''plan.cancelled'' ''plan'' (lId p) (lVersion p) [(''reason'', JStr ''stopped by user'')] d3)"
    "r = (p, planJobs [''running''] i d1)"
proof -
  obtain d1 pr where p: "transitionPlan now (stopPlanRequest i v) d = Inr (d1, pr)"
    using assms(1) by (auto simp: StopPlan_def bindR_Inr_iff)
  obtain row where row: "findRow i (dbPlans d1) = Some row"
    using assms(1) p by (auto simp: StopPlan_def bindR_Inr_iff split: option.splits)
  obtain d2 where j: "foldR (stopJob now ''plan stopped by user'') (planJobs [''queued'', ''retry_wait'', ''leased''] i d1) d1 = Inr d2"
    using assms(1) p row by (auto simp: StopPlan_def bindR_Inr_iff)
  obtain d3 where t: "foldR (stopPlanTask now (lProject row)) (queuedTasks i d2) d2 = Inr d3"
    using assms(1) p row j by (auto simp: StopPlan_def bindR_Inr_iff)
  show thesis by (rule that [OF p row j t]) (use assms(1) p row j t in \<open>auto simp: StopPlan_def bindR_Inr_iff\<close>)
qed

locale quiet_invariant =
  fixes holds :: "db \<Rightarrow> bool"
  assumes event: "holds d \<Longrightarrow> holds (insertEvent now p d)"
    and job: "transitionJob now qj d = Inr (d', rj) \<Longrightarrow> quietJob qj \<Longrightarrow> holds d \<Longrightarrow> holds d'"
    and task: "transitionTask now qt d = Inr (d', rt) \<Longrightarrow> quietTask qt \<Longrightarrow> holds d \<Longrightarrow> holds d'"
    and plan: "transitionPlan now qp d = Inr (d', rp) \<Longrightarrow> quietPlan qp \<Longrightarrow> holds d \<Longrightarrow> holds d'"
begin

lemma emit: "holds d \<Longrightarrow> holds (emit now p k a i v pl d)"
  by (simp add: emit_def event)

lemma CancelJob: "CancelJob now i w d = Inr d' \<Longrightarrow> holds d \<Longrightarrow> holds d'"
  by (auto simp: CancelJob_def bindR_Inr_iff intro: job [OF _ quietJobs(1)])

lemma ReturnTaskPending: "ReturnTaskPending now t m d = Inr d' \<Longrightarrow> holds d \<Longrightarrow> holds d'"
  by (auto simp: ReturnTaskPending_def split: sum.splits if_splits intro!: emit elim!: task [OF _ quietTasks(1)])

lemma ReturnTaskQueuedForRetry: "ReturnTaskQueuedForRetry now t s m d = Inr d' \<Longrightarrow> holds d \<Longrightarrow> holds d'"
  by (auto simp: ReturnTaskQueuedForRetry_def bindR_Inr_iff intro!: emit elim!: task [OF _ quietTasks(2)])

lemma stopJob: "stopJob now reason i d = Inr d' \<Longrightarrow> holds d \<Longrightarrow> holds d'"
  by (auto simp: stopJob_def bindR_Inr_iff intro: job [OF _ quietJobs(2)])

lemma stopJobs: "foldR (stopJob now reason) js d = Inr d' \<Longrightarrow> holds d \<Longrightarrow> holds d'"
  by (erule foldR_invariant) (auto intro: stopJob)

lemma StopTask: "StopTask now i v d = Inr (d', r) \<Longrightarrow> holds d \<Longrightarrow> holds d'"
  by (auto simp: StopTask_def stopQueuedTask_def bindR_Inr_iff Let_def split: option.splits if_splits
      intro!: emit elim!: task [OF _ quietTasks(4)] intro: stopJobs)

lemma stopPlanTask: "stopPlanTask now p i d = Inr d' \<Longrightarrow> holds d \<Longrightarrow> holds d'"
  by (auto simp: stopPlanTask_def bindR_Inr_iff intro!: emit intro: task [OF _ quietTasks(3)])

lemma stopPlanTasks: "foldR (stopPlanTask now p) ts d = Inr d' \<Longrightarrow> holds d \<Longrightarrow> holds d'"
  by (erule foldR_invariant) (auto intro: stopPlanTask)

lemma StopPlan: "StopPlan now i v d = Inr (d', r) \<Longrightarrow> holds d \<Longrightarrow> holds d'"
  by (erule StopPlan_steps, drule plan [OF _ quietPlans(1)], assumption, drule (1) stopJobs, drule (1) stopPlanTasks)
    (simp add: emit)

lemma driftTask: "driftTask now j v i d = Inr d' \<Longrightarrow> holds d \<Longrightarrow> holds d'"
  by (auto simp: driftTask_def bindR_Inr_iff Let_def intro!: emit elim!: plan [OF _ quietPlans(2)] task [OF _ quietTasks(5)])

lemma BlockTaskJobForDrift: "BlockTaskJobForDrift now j w report d = Inr d' \<Longrightarrow> holds d \<Longrightarrow> holds d'"
  by (auto simp: BlockTaskJobForDrift_def bindR_Inr_iff split: raw_json.splits if_splits option.splits
      intro: driftTask job [OF _ quietJobs(3)])

end

section \<open>The invariants\<close>

definition run_inv :: "db \<Rightarrow> bool" where
  "run_inv d \<longleftrightarrow> store_inv d \<and> oneActive (dbTasks d)"

lemma run_inv_ids: "run_inv d \<Longrightarrow> distinct (map lId (dbTasks d))"
  by (simp add: run_inv_def store_inv_def queue_inv_def db_audited_def audited_def)

lemma transitionJob_same:
  assumes "transitionJob now q d = Inr (d', r)"
  shows "dbTasks d' = dbTasks d" "dbPlans d' = dbPlans d" "dbRuns d' = dbRuns d" "dbLeases d' = dbLeases d"
    "dbSnapshots d' = dbSnapshots d" "dbAudits d' = dbAudits d"
  by (subst transitionJob_frame [OF assms], simp)+

lemma transitionTask_quiet:
  assumes "transitionTask now q d = Inr (d', r)" "quietTask q" "distinct (map lId (dbTasks d))"
  shows "activates {} (dbTasks d) (dbTasks d')"
  using assms(1) unfolding transitionTask_def
proof (cases rule: tasks.transition_cases)
  case (applied s m cp)
  have "x = s" if "x \<in> set (dbTasks d)" "lId x = lpResourceID q" for x
    using that findRow_Some [OF applied(1)] same_row [OF assms(3)] by simp
  moreover have "lpStatus q \<in> {''queued'', ''running''} \<Longrightarrow> activeTask s"
    using gateCheck_Proceed(3) [OF applied(2)] assms(2) by (auto simp: activeTask_def quietTask_def)
  ultimately show ?thesis
    using assms(2) unfolding activates_def applied(6) updateRow_def
    by (intro exI [of _ "\<lambda>r. if lId r = lpResourceID q then setLifecycle now q m cp r else r"])
      (auto simp: keepsPlan_def quietTask_def activeTask_def)
qed simp

lemma task_keeps_inv:
  assumes "transitionTask now q d = Inr (d', r)" "lpResourceType q = ResTask" "store_inv d"
  shows "store_inv d'"
  using assms(3) transitionTask_same [OF assms(1)] transitionTask_audited [OF assms(1,2)] snapshot_inv_frame [of d' d]
  by (simp add: store_inv_def queue_inv_def)

lemma plan_keeps_inv:
  assumes "transitionPlan now q d = Inr (d', r)" "lpResourceType q = ResPlan" "store_inv d"
  shows "store_inv d'"
  using assms(3) transitionPlan_same [OF assms(1)] transitionPlan_audited [OF assms(1,2)] snapshot_inv_frame [of d' d]
  by (simp add: store_inv_def queue_inv_def)

lemma job_keeps_inv:
  assumes "transitionJob now q d = Inr (d', r)" "quietJob q" "store_inv d"
  shows "store_inv d'"
proof -
  have "exclusive (dbJobs d')"
    by (rule inactive_transition_exclusive [OF assms(1)]) (use assms(2,3) in \<open>auto simp: quietJob_def store_inv_def queue_inv_def\<close>)
  then show ?thesis
    using transitionJob_inv [OF assms(1)] assms(2,3) transitionJob_same [OF assms(1)] snapshot_inv_frame [of d' d]
    by (simp add: quietJob_def store_inv_def)
qed

interpretation quiet_run: quiet_invariant run_inv
proof unfold_locales
  fix d d' :: db and now
  show "run_inv (insertEvent now p d)" if "run_inv d" for p
    using that store_inv_frame [of "insertEvent now p d" d] by (simp add: run_inv_def)
  show "run_inv d'" if "transitionJob now q d = Inr (d', r)" "quietJob q" "run_inv d" for q r
    using job_keeps_inv [OF that(1,2)] transitionJob_same [OF that(1)] that(3) by (simp add: run_inv_def)
  show "run_inv d'" if "transitionTask now q d = Inr (d', r)" "quietTask q" "run_inv d" for q r
    using task_keeps_inv [OF that(1)] activates_none [OF transitionTask_quiet [OF that(1,2) run_inv_ids [OF that(3)]]] that(2,3)
    by (simp add: run_inv_def quietTask_def)
  show "run_inv d'" if "transitionPlan now q d = Inr (d', r)" "quietPlan q" "run_inv d" for q r
    using plan_keeps_inv [OF that(1)] transitionPlan_same [OF that(1)] that(2,3) by (simp add: run_inv_def quietPlan_def)
qed

interpretation quiet_completed: quiet_invariant "\<lambda>d. completedPlans d \<subseteq> C" for C
proof unfold_locales
  fix d d' :: db and now
  show "completedPlans (insertEvent now p d) \<subseteq> C" if "completedPlans d \<subseteq> C" for p
    using that completed_frame [of "insertEvent now p d" d] by (simp add: insertEvent_def)
  show "completedPlans d' \<subseteq> C" if "transitionJob now q d = Inr (d', r)" "quietJob q" "completedPlans d \<subseteq> C" for q r
    using that completed_frame [OF transitionJob_same(2) [OF that(1)]] by simp
  show "completedPlans d' \<subseteq> C" if "transitionTask now q d = Inr (d', r)" "quietTask q" "completedPlans d \<subseteq> C" for q r
    using that completed_frame [OF transitionTask_same(2) [OF that(1)]] by simp
  show "completedPlans d' \<subseteq> C" if "transitionPlan now q d = Inr (d', r)" "quietPlan q" "completedPlans d \<subseteq> C" for q r
    using that transitionPlan_not_completed [OF that(1)] by (auto simp: quietPlan_def)
qed

section \<open>A stopped plan\<close>

text \<open>A change of a table that ends the rows \<open>A\<close> and leaves every other row as it was.\<close>

definition settles :: "gostring set \<Rightarrow> ('a lrow_scheme \<Rightarrow> 'b) \<Rightarrow> uuid set \<Rightarrow> 'a lrow_scheme list \<Rightarrow> 'a lrow_scheme list \<Rightarrow> bool" where
  "settles live key A rs rs' \<longleftrightarrow> (\<exists>g. rs' = map g rs \<and>
     (\<forall>r \<in> set rs. lId (g r) = lId r \<and> key (g r) = key r \<and> (if lId r \<in> A then lStatus (g r) \<notin> live else g r = r)))"

lemma settles_refl [simp]: "settles live key {} rs rs"
  unfolding settles_def by (intro exI [of _ id]) simp

lemma settles_ids: "settles live key A rs rs' \<Longrightarrow> map lId rs' = map lId rs"
  by (auto simp: settles_def)

lemma settles_trans: "settles live key A rs rs' \<Longrightarrow> settles live key B rs' rs'' \<Longrightarrow> settles live key (A \<union> B) rs rs''"
proof -
  assume "settles live key A rs rs'" "settles live key B rs' rs''"
  then obtain g h where "rs' = map g rs" "rs'' = map h rs'"
    "\<forall>r \<in> set rs. lId (g r) = lId r \<and> key (g r) = key r \<and> (if lId r \<in> A then lStatus (g r) \<notin> live else g r = r)"
    "\<forall>r \<in> set rs'. lId (h r) = lId r \<and> key (h r) = key r \<and> (if lId r \<in> B then lStatus (h r) \<notin> live else h r = r)"
    unfolding settles_def by blast
  then show ?thesis unfolding settles_def by (intro exI [of _ "h \<circ> g"]) (auto split: if_splits; metis)
qed

lemma settles_fold:
  assumes "foldR f js d = Inr d'" "distinct (map lId (rows d))"
    "\<And>i d d'. f i d = Inr d' \<Longrightarrow> distinct (map lId (rows d)) \<Longrightarrow> settles live key {i} (rows d) (rows d')"
  shows "settles live key (set js) (rows d) (rows d')"
  using assms(1,2)
proof (induction js arbitrary: d)
  case (Cons i js)
  then obtain d1 where d1: "f i d = Inr d1" "foldR f js d1 = Inr d'" by (auto simp: bindR_Inr_iff)
  note first = assms(3) [OF d1(1) Cons.prems(2)]
  have "settles live key (set js) (rows d1) (rows d')"
    using Cons.IH [OF d1(2)] settles_ids [OF first] Cons.prems(2) by simp
  from settles_trans [OF first this] show ?case by simp
qed simp

text \<open>One request that ends its row, or finds it ended.\<close>

lemma settles_update:
  assumes "\<And>r. key (f r) = key r" "\<And>r. lId (f r) = lId r" "\<And>r. lStatus (f r) \<notin> live"
  shows "settles live key {i} rs (updateRow i f rs)"
  unfolding settles_def updateRow_def using assms by (intro exI [of _ "\<lambda>r. if lId r = i then f r else r"]) auto

lemma settles_found:
  assumes "findRow i rs = Some r" "lStatus r \<notin> live" "distinct (map lId rs)"
  shows "settles live key {i} rs rs"
  unfolding settles_def
proof (intro exI [of _ id] conjI ballI)
  fix x assume "x \<in> set rs"
  then show "if lId x \<in> {i} then lStatus (id x) \<notin> live else id x = x"
    using findRow_Some [OF assms(1)] same_row [OF assms(3)] assms(2) by auto
qed simp_all

abbreviation "liveJob \<equiv> {''queued'', ''retry_wait'', ''leased'', ''running''}"
abbreviation "jobOf \<equiv> \<lambda>j. (jAggregateType j, jAggregateID j)"

lemma replay_ended:
  assumes "gateCheck worker q r = Replay"
  shows "lStatus r = lpStatus q \<or> (rqIgnoreTerminal q \<and> IsTerminalStatus (lpResourceType q) (lStatus r))"
  using assms by (auto simp: gateCheck_def contractCheck_def Let_def split: if_splits option.splits sum.splits)

lemma terminal_job: "IsTerminalStatus ResJob s \<Longrightarrow> s \<notin> liveJob"
  by (auto simp: IsTerminalStatus_def lifecycleContract_def jobContract_def)

lemma stopJob_settles:
  assumes "stopJob now reason i d = Inr d'" "distinct (map lId (dbJobs d))"
  shows "settles liveJob jobOf {i} (dbJobs d) (dbJobs d')"
proof -
  have r: "lpStatus (stopJobRequest reason i) = ''cancelled''" "lpResourceID (stopJobRequest reason i) = i"
    "lpResourceType (stopJobRequest reason i) = ResJob"
    by (simp_all add: stopJobRequest_def jobRequest_def zeroRequest_def)
  obtain res where "transitionJob now (stopJobRequest reason i) d = Inr (d', res)"
    using assms(1) by (auto simp: stopJob_def bindR_Inr_iff)
  then show ?thesis unfolding transitionJob_def
  proof (cases rule: jobs.transition_cases)
    case (replay row)
    then have "lStatus row \<notin> liveJob" using replay_ended [OF replay(2)] terminal_job r by auto
    from settles_found [OF replay(1) [unfolded r] this assms(2)] show ?thesis unfolding replay(3) .
  next
    case (applied row m cp)
    show ?thesis unfolding applied(6) r(2)
      by (rule settles_update) (simp_all add: r, simp add: setLifecycle_def applyFields_def stopJobRequest_def jobRequest_def zeroRequest_def setLeaseNone_def)
  qed
qed

lemma stopPlanTask_settles:
  assumes "stopPlanTask now p i d = Inr d'" "distinct (map lId (dbTasks d))"
  shows "settles {''queued''} ptPlan {i} (dbTasks d) (dbTasks d')"
proof -
  let ?q = "stopTaskRequest ''plan stopped by user'' i (currentTaskJobID i d)"
  have r: "lpStatus ?q = ''pending''" "lpResourceID ?q = i" "rqIgnoreTerminal ?q = False"
    by (simp_all add: stopTaskRequest_def) (simp add: taskRequest_def zeroRequest_def)
  obtain d1 res where d1: "transitionTask now ?q d = Inr (d1, res)" "dbTasks d' = dbTasks d1"
    using assms(1) by (auto simp: stopPlanTask_def bindR_Inr_iff)
  from d1(1) have "settles {''queued''} ptPlan {i} (dbTasks d) (dbTasks d1)" unfolding transitionTask_def
  proof (cases rule: tasks.transition_cases)
    case (replay row)
    then have "lStatus row \<notin> {''queued''}" using replay_ended [OF replay(2)] r by auto
    from settles_found [OF replay(1) [unfolded r] this assms(2)] show ?thesis unfolding replay(3) .
  next
    case (applied row m cp)
    have "keepsPlan ?q" using quietTasks(3) by (simp only: quietTask_def)
    then show ?thesis unfolding applied(6) r(2) by (intro settles_update) (simp_all add: r keepsPlan_def)
  qed
  then show ?thesis by (simp add: d1(2))
qed

abbreviation "planTask i ts \<equiv> \<lambda>j. jAggregateType j = ''task'' \<and> list_ex (\<lambda>t. lId t = jAggregateID j \<and> ptPlan t = i) ts"

lemma settles_planTask:
  assumes "settles live ptPlan A ts ts'"
  shows "planTask i ts' j = planTask i ts j"
proof -
  obtain g where g: "ts' = map g ts" "\<forall>t \<in> set ts. lId (g t) = lId t \<and> ptPlan (g t) = ptPlan t"
    using assms unfolding settles_def by blast
  have "list_ex (\<lambda>t. lId t = k \<and> ptPlan t = i) (map g ts) = list_ex (\<lambda>t. lId t = k \<and> ptPlan t = i) ts" for k
    using g(2) by (induction ts) auto
  then show ?thesis by (simp only: g(1))
qed

lemma filter_map_same: "\<forall>x \<in> set xs. P (g x) = P x \<and> (P x \<longrightarrow> g x = x) \<Longrightarrow> filter P (map g xs) = filter P xs"
  by (induction xs) auto

lemma settles_rest:
  assumes "settles live key A rs rs'"
  shows "filter (\<lambda>r. lId r \<notin> A) rs' = filter (\<lambda>r. lId r \<notin> A) rs"
proof -
  obtain g where g: "rs' = map g rs"
    "\<forall>r \<in> set rs. lId (g r) = lId r \<and> key (g r) = key r \<and> (if lId r \<in> A then lStatus (g r) \<notin> live else g r = r)"
    using assms unfolding settles_def by blast
  show ?thesis unfolding g(1) by (rule filter_map_same) (use g(2) in auto)
qed

text \<open>What is left of the rows that were ended, and of the running ones.\<close>

lemma settles_none:
  assumes "settles live key {x. x \<in> set (map lId (filter P rs))} rs rs'" "\<And>r. P r \<longleftrightarrow> Q (key r) \<and> lStatus r \<in> set S" "set S \<subseteq> live"
  shows "filter P rs' = []"
proof -
  obtain g where g: "rs' = map g rs" "\<forall>r \<in> set rs. lId (g r) = lId r \<and> key (g r) = key r \<and>
      (if lId r \<in> set (map lId (filter P rs)) then lStatus (g r) \<notin> live else g r = r)"
    using assms(1) unfolding settles_def by auto
  have "\<not> P (g r)" if r: "r \<in> set rs" for r
  proof (cases "lId r \<in> set (map lId (filter P rs))")
    case True
    then show ?thesis using g(2) r assms(2,3) by auto
  next
    case False
    then have "\<not> P r" using r by auto
    then show ?thesis using g(2) r False by auto
  qed
  then show ?thesis by (auto simp: g(1) filter_empty_conv)
qed

lemma settles_others:
  assumes "settles live key A rs rs'" "\<And>r. r \<in> set rs \<Longrightarrow> lId r \<in> A \<Longrightarrow> lStatus r \<notin> set S" "set S \<subseteq> live"
    "\<And>r. P r \<longleftrightarrow> Q (key r) \<and> lStatus r \<in> set S"
  shows "filter P rs' = filter P rs"
proof -
  obtain g where g: "rs' = map g rs"
    "\<forall>r \<in> set rs. lId (g r) = lId r \<and> key (g r) = key r \<and> (if lId r \<in> A then lStatus (g r) \<notin> live else g r = r)"
    using assms(1) unfolding settles_def by blast
  have "P (g r) = P r \<and> (P r \<longrightarrow> g r = r)" if "r \<in> set rs" for r
    using g(2) that assms(2) [OF that] assms(3) by (auto simp: assms(4) split: if_splits)
  then show ?thesis unfolding g(1) by (intro filter_map_same) simp
qed

lemma planJobs_alt: "planJobs S i d = map lId (filter (\<lambda>j. planTask i (dbTasks d) j \<and> lStatus j \<in> set S) (dbJobs d))"
  by (simp add: planJobs_def conj_ac)

lemma stopJob_same: "stopJob now reason j d = Inr d' \<Longrightarrow> dbTasks d' = dbTasks d \<and> dbPlans d' = dbPlans d"
  by (auto simp: stopJob_def bindR_Inr_iff dest: transitionJob_same)

lemma stopPlanTask_same: "stopPlanTask now p j d = Inr d' \<Longrightarrow> dbJobs d' = dbJobs d \<and> dbPlans d' = dbPlans d"
  by (auto simp: stopPlanTask_def bindR_Inr_iff dest: transitionTask_same)

lemma StopPlan_rows:
  assumes "StopPlan now i v d = Inr (d', p, ids)" "run_inv d"
  shows "settles liveJob jobOf (set (planJobs [''queued'', ''retry_wait'', ''leased''] i d)) (dbJobs d) (dbJobs d')"
    "settles {''queued''} ptPlan (set (queuedTasks i d)) (dbTasks d) (dbTasks d')"
    "ids = planJobs [''running''] i d" "findRow i (dbPlans d') = Some p" "IsTerminalStatus ResPlan (lStatus p)"
proof -
  let ?L = "[''queued'', ''retry_wait'', ''leased'']"
  obtain d1 pr d2 d3 where s: "transitionPlan now (stopPlanRequest i v) d = Inr (d1, pr)" "findRow i (dbPlans d1) = Some p"
    "foldR (stopJob now ''plan stopped by user'') (planJobs ?L i d1) d1 = Inr d2"
    "foldR (stopPlanTask now (lProject p)) (queuedTasks i d2) d2 = Inr d3"
    "d' = (if lrIdempotent pr then d3
       else emit now (lProject p) ''plan.cancelled'' ''plan'' (lId p) (lVersion p) [(''reason'', JStr ''stopped by user'')] d3)"
    "ids = planJobs [''running''] i d1"
    using assms(1) by (cases rule: StopPlan_steps) auto
  note p = transitionPlan_same [OF s(1)]
  have same: "dbTasks d2 = dbTasks d" "dbPlans d2 = dbPlans d1"
  proof -
    have "dbTasks d2 = dbTasks d1 \<and> dbPlans d2 = dbPlans d1" by (rule foldR_invariant [OF s(3)]) (simp, metis stopJob_same)
    then show "dbTasks d2 = dbTasks d" "dbPlans d2 = dbPlans d1" by (simp_all add: p(2))
  qed
  have tasks: "dbJobs d3 = dbJobs d2" "dbPlans d3 = dbPlans d2"
  proof -
    have "dbJobs d3 = dbJobs d2 \<and> dbPlans d3 = dbPlans d2" by (rule foldR_invariant [OF s(4)]) (simp, metis stopPlanTask_same)
    then show "dbJobs d3 = dbJobs d2" "dbPlans d3 = dbPlans d2" by simp_all
  qed
  have eqs: "planJobs S i d1 = planJobs S i d" "queuedTasks i d2 = queuedTasks i d" for S
    by (simp_all add: planJobs_def queuedTasks_def p same)
  have ids: "distinct (map lId (dbJobs d1))" "distinct (map lId (dbTasks d2))"
    using assms(2) run_inv_ids [OF assms(2)] queue_inv_ids [of d] by (simp_all add: p same run_inv_def store_inv_def)
  have "settles liveJob jobOf (set (planJobs ?L i d1)) (dbJobs d1) (dbJobs d2)"
    by (rule settles_fold [where rows = dbJobs, OF s(3) ids(1)]) (erule (1) stopJob_settles)
  then show "settles liveJob jobOf (set (planJobs ?L i d)) (dbJobs d) (dbJobs d')"
    using tasks by (simp add: eqs p s(5))
  have "settles {''queued''} ptPlan (set (queuedTasks i d2)) (dbTasks d2) (dbTasks d3)"
    by (rule settles_fold [where rows = dbTasks, OF s(4) ids(2)]) (erule (1) stopPlanTask_settles)
  then show "settles {''queued''} ptPlan (set (queuedTasks i d)) (dbTasks d) (dbTasks d')"
    by (simp add: eqs same s(5))
  show "ids = planJobs [''running''] i d" by (simp add: s(6) eqs)
  show "findRow i (dbPlans d') = Some p" using s(2) tasks same by (simp add: s(5))
  have q: "lpResourceID (stopPlanRequest i v) = i" "lpStatus (stopPlanRequest i v) = ''cancelled''"
    "lpResourceType (stopPlanRequest i v) = ResPlan" by (simp_all add: stopPlanRequest_def)
  have c: "IsTerminalStatus ResPlan ''cancelled''"
    by (simp add: IsTerminalStatus_def lifecycleContract_def planContract_def)
  from s(1) show "IsTerminalStatus ResPlan (lStatus p)" unfolding transitionPlan_def
  proof (cases rule: plans.transition_cases)
    case (replay r)
    then show ?thesis using replay_ended [OF replay(2)] s(2) c by (auto simp: q)
  next
    case (applied r m cp)
    then show ?thesis using s(2) c by (auto simp: q findRow_updateRow)
  qed
qed

lemma stop_plan_rests:
  assumes "StopPlan now i v d = Inr (d', p, ids)" "run_inv d"
  shows "queuedTasks i d' = [] \<and> planJobs [''queued'', ''retry_wait'', ''leased''] i d' = [] \<and>
    ids = planJobs [''running''] i d' \<and> findRow i (dbPlans d') = Some p \<and> IsTerminalStatus ResPlan (lStatus p) \<and>
    filter (\<lambda>t. lId t \<notin> set (queuedTasks i d)) (dbTasks d') = filter (\<lambda>t. lId t \<notin> set (queuedTasks i d)) (dbTasks d) \<and>
    filter (\<lambda>j. lId j \<notin> set (planJobs [''queued'', ''retry_wait'', ''leased''] i d)) (dbJobs d') =
    filter (\<lambda>j. lId j \<notin> set (planJobs [''queued'', ''retry_wait'', ''leased''] i d)) (dbJobs d)"
proof -
  let ?L = "[''queued'', ''retry_wait'', ''leased'']"
  note jobs = StopPlan_rows(1) [OF assms] and tasks = StopPlan_rows(2) [OF assms]
  have plan: "planTask i (dbTasks d') j = planTask i (dbTasks d) j" for j by (rule settles_planTask [OF tasks])
  have "queuedTasks i d' = []"
    unfolding queuedTasks_def
    by (subst settles_none [of "{''queued''}" ptPlan "\<lambda>t. ptPlan t = i \<and> lStatus t = ''queued''" "dbTasks d" _ "\<lambda>p. p = i"
        "[''queued'']"]) (use tasks in \<open>simp_all add: queuedTasks_def\<close>)
  moreover have "planJobs ?L i d' = []"
    unfolding planJobs_alt plan
    by (subst settles_none [of liveJob jobOf "\<lambda>j. planTask i (dbTasks d) j \<and> lStatus j \<in> set ?L" "dbJobs d" _
        "\<lambda>(a, b). a = ''task'' \<and> list_ex (\<lambda>t. lId t = b \<and> ptPlan t = i) (dbTasks d)" ?L]) (use jobs in \<open>simp_all add: planJobs_alt\<close>)
  moreover have "planJobs [''running''] i d' = planJobs [''running''] i d"
  proof -
    have "lStatus j \<notin> set [''running'']" if j: "j \<in> set (dbJobs d)" "lId j \<in> set (planJobs ?L i d)" for j :: job
    proof -
      obtain x where "x \<in> set (dbJobs d)" "lId j = lId x" "lStatus x \<in> set ?L" using j(2) by (auto simp: planJobs_alt)
      moreover have "distinct (map lId (dbJobs d))" using queue_inv_ids assms(2) by (simp add: run_inv_def store_inv_def)
      ultimately show ?thesis using same_row j(1) by fastforce
    qed
    then show ?thesis unfolding planJobs_alt plan
      by (subst settles_others [OF jobs, of "[''running'']" _
        "\<lambda>(a, b). a = ''task'' \<and> list_ex (\<lambda>t. lId t = b \<and> ptPlan t = i) (dbTasks d)"]) (simp_all add: planJobs_alt)
  qed
  ultimately show ?thesis
    using StopPlan_rows(3-5) [OF assms] settles_rest [OF jobs] settles_rest [OF tasks] by simp
qed

end
