(* ===== verification/RecoveryResults.thy ===== *)
theory RecoveryResults
  imports Recovery CancellationResults
begin

text \<open>
  What shutdown and recovery keep of the database, through the interface of \<^verbatim>\<open>CancellationResults\<close>
  and what it lacks for them, and which jobs a recovery pass leaves alone.
\<close>

section \<open>The requests\<close>

lemma quiet_shutdown_jobs [simp]:
  "quietJob (requeueOwnedRequest j)" "quietJob (cancelOwnedRequest j)" "quietJob (requeueUnstartedRequest now r e obs)"
  by (simp_all add: quietJob_def requeueOwnedRequest_def cancelOwnedRequest_def requeueUnstartedRequest_def jobRequest_def
      zeroRequest_def setLifecycle_def applyFields_def job_fields)

lemma outcome_status: "ocStatus (chooseRecoveryOutcome run b e) \<in> {''cancelled'', ''interrupted''}"
  by (simp add: chooseRecoveryOutcome_def)

lemma quiet_lose_job: "ocStatus oc \<in> {''cancelled'', ''interrupted''} \<Longrightarrow> quietJob (loseJobRequest j run e oc cp)"
  by (auto simp: quietJob_def loseJobRequest_def jobRequest_def zeroRequest_def setLifecycle_def applyFields_def job_fields)

lemma quiet_recover_task:
  "ocStatus oc \<in> {''cancelled'', ''interrupted''} \<Longrightarrow> quietTask (recoverTaskRequest j e oc cp)"
  by (auto simp: quietTask_def keepsPlan_def recoverTaskRequest_def recoveredTaskStatus_def setLifecycle_def applyFields_def
      setStarted_def setFinished_def)

lemma quiet_shutdown_task [simp]: "quietTask (shutdownTaskRequest j)"
  by (simp add: quietTask_def keepsPlan_def shutdownTaskRequest_def setLifecycle_def applyFields_def setStarted_def setFinished_def)

lemma quiet_blocking_plans [simp]: "quietPlan (shutdownPlanRequest c)" "quietPlan (recoverPlanRequest p e oc cp)"
  by (simp_all add: quietPlan_def shutdownPlanRequest_def recoverPlanRequest_def)

lemma run_requests [simp]:
  "lpResourceType (cancelRunRequest r) = ResAgentRun" "lpResourceType (loseRunRequest r e oc cp j) = ResAgentRun"
  "lpResourceID (loseRunRequest r e oc cp j) = lId r"
  by (simp_all add: cancelRunRequest_def loseRunRequest_def runRequest_def zeroRequest_def)

section \<open>The interface\<close>

locale quiet_system = quiet_invariant +
  assumes run: "transitionRun now qr d = Inr (d', rr) \<Longrightarrow> lpResourceType qr = ResAgentRun \<Longrightarrow> holds d \<Longrightarrow> holds d'"
    and leases: "holds d \<Longrightarrow> holds (d\<lparr>dbLeases := filter P (dbLeases d)\<rparr>)"
    and runtimes: "holds d \<Longrightarrow> holds (d\<lparr>dbRuntimes := rs\<rparr>)"
    and notify: "holds d \<Longrightarrow> holds (notifyJob i d)"
begin

lemma cancelRuns: "foldR (cancelRun now) rs d = Inr d' \<Longrightarrow> holds d \<Longrightarrow> holds d'"
  by (erule foldR_invariant) (auto simp: cancelRun_def bindR_Inr_iff intro: run)

lemma stopOwnedJob: "stopOwnedJob now j d = Inr d' \<Longrightarrow> holds d \<Longrightarrow> holds d'"
  by (auto simp: stopOwnedJob_def bindR_Inr_iff split: if_splits intro!: notify elim!: job [OF _ quiet_shutdown_jobs(1)] job [OF _ quiet_shutdown_jobs(2)])

lemma stopOwnedJobs: "stopOwnedJobs now js d = Inr d' \<Longrightarrow> holds d \<Longrightarrow> holds d'"
  by (auto simp: stopOwnedJobs_def bindR_Inr_iff Let_def intro!: leases elim!: foldR_invariant stopOwnedJob)

lemma stopOwnedTasks:
  assumes "stopOwnedTasks walk now js d = Inr d'" "holds d"
  shows "holds d'"
proof -
  obtain d1 cs where s: "foldR (returnOwnedTask now) js (d, []) = Inr (d1, cs)"
    "foldR (blockOwnedPlan now) (walk (lastChanges cs)) (fold (emitTaskChange now) cs d1) = Inr d'"
    using assms(1) by (auto simp: stopOwnedTasks_def bindR_Inr_iff)
  have "holds (fst (d1, cs))"
    using s(1) by (rule foldR_invariant)
      (auto simp: assms(2) returnOwnedTask_def bindR_Inr_iff split: if_splits option.splits elim!: task [OF _ quiet_shutdown_task])
  then have "holds (fold (emitTaskChange now) cs d1)"
    by (induction cs arbitrary: d1) (simp_all add: emitTaskChange_def emit)
  with s(2) show ?thesis
    by (rule foldR_invariant)
      (auto simp: blockOwnedPlan_def bindR_Inr_iff intro!: emit elim!: plan [OF _ quiet_blocking_plans(1)])
qed

lemma ReconcileInstanceShutdown: "ReconcileInstanceShutdown walk now i d = Inr d' \<Longrightarrow> holds d \<Longrightarrow> holds d'"
  by (auto simp: ReconcileInstanceShutdown_def stopOwnedRuns_def Let_def bindR_Inr_iff split: if_splits
      dest!: stopOwnedJobs stopOwnedTasks cancelRuns)

lemma runtime_instances:
  "RegisterRuntimeInstance now i b d = Inr d' \<Longrightarrow> holds d \<Longrightarrow> holds d'"
  "HeartbeatRuntimeInstance now i d = Inr d' \<Longrightarrow> holds d \<Longrightarrow> holds d'"
  "UnregisterRuntimeInstance i d = Inr d' \<Longrightarrow> holds d \<Longrightarrow> holds d'"
  by (auto simp: RegisterRuntimeInstance_def HeartbeatRuntimeInstance_def UnregisterRuntimeInstance_def Let_def
      split: if_splits option.splits intro: runtimes)

lemma loseRun: "loseRun now r e oc cp j d = Inr d' \<Longrightarrow> holds d \<Longrightarrow> holds d'"
  by (auto simp: loseRun_def bindR_Inr_iff intro: run)

lemma requeueUnstartedJob: "requeueUnstartedJob now j e obs d = Inr d' \<Longrightarrow> holds d \<Longrightarrow> holds d'"
  by (auto simp: requeueUnstartedJob_def bindR_Inr_iff intro!: notify elim!: job [OF _ quiet_shutdown_jobs(3)])

lemma blockRecoveredPlan: "blockRecoveredPlan now j e oc cp d = Inr d' \<Longrightarrow> holds d \<Longrightarrow> holds d'"
  by (auto simp: blockRecoveredPlan_def bindR_Inr_iff split: option.splits if_splits intro!: emit elim!: plan [OF _ quiet_blocking_plans(2)])

lemma convergeRecoveredTask:
  assumes "convergeRecoveredTask now j e oc cp d = Inr d'" "ocStatus oc \<in> {''cancelled'', ''interrupted''}" "holds d"
  shows "holds d'"
  using assms(1,3) by (auto simp: convergeRecoveredTask_def bindR_Inr_iff split: if_splits intro: emit
      dest!: blockRecoveredPlan elim!: task [OF _ quiet_recover_task [OF assms(2)]])

lemma convergeLostJob:
  assumes "convergeLostJob now j run e oc obs d = Inr d'" "ocStatus oc \<in> {''cancelled'', ''interrupted''}" "holds d"
  shows "holds d'"
proof -
  let ?cp = "recoveryCheckpoint e (ocHint oc) obs now"
  obtain d1 d2 res where s: "(case run of None \<Rightarrow> Inr d | Some r \<Rightarrow> loseRun now r e oc ?cp (Some (rjId j)) d) = Inr d1"
    "transitionJob now (loseJobRequest j run e oc ?cp) d1 = Inr (d2, res)"
    "convergeRecoveredTask now j e oc ?cp (d2\<lparr>dbLeases := filter (\<lambda>l. wlJob l \<noteq> rjId j) (dbLeases d2)\<rparr>) = Inr d'"
    using assms(1) by (auto simp: convergeLostJob_def Let_def bindR_Inr_iff)
  have "holds d1" using s(1) assms(3) by (auto split: option.splits intro: loseRun)
  from job [OF s(2) quiet_lose_job [OF assms(2)] this] have "holds d2" .
  then show ?thesis using convergeRecoveredTask [OF s(3) assms(2)] leases by blast
qed

lemma recoverJob: "recoverJob h now obs j d = Inr d' \<Longrightarrow> holds d \<Longrightarrow> holds d'"
  by (auto simp: recoverJob_def Let_def split: option.splits if_splits
      intro: requeueUnstartedJob dest: convergeLostJob [OF _ outcome_status])

lemma reconcileStandaloneRun: "reconcileStandaloneRun h now obs r d = Inr d' \<Longrightarrow> holds d \<Longrightarrow> holds d'"
  by (auto simp: reconcileStandaloneRun_def Let_def split: option.splits if_splits intro: loseRun)

lemma ReconcileRuntimeState:
  assumes "ReconcileRuntimeState h now obs d = Inr d'" "holds d"
  shows "holds d'"
proof -
  obtain d1 d2 where s: "foldR (recoverJob h now obs) (recoveryJobs d) d = Inr d1"
    "foldR (reconcileStandaloneRun h now obs) (standaloneRuns d1) d1 = Inr d2" "d' = dropDeadRuntimes now (dropExpiredLeases now d2)"
    using assms(1) by (auto simp: ReconcileRuntimeState_def reconcileStandaloneRuns_def bindR_Inr_iff)
  have "holds d1" by (rule foldR_invariant [where P = holds, OF s(1) assms(2)]) (erule (1) recoverJob)
  then have "holds d2" by (rule foldR_invariant [where P = holds, OF s(2)]) (erule (1) reconcileStandaloneRun)
  then show ?thesis by (simp add: s(3) dropDeadRuntimes_def dropExpiredLeases_def runtimes leases)
qed

end

section \<open>The invariants\<close>

lemma transitionRun_same:
  assumes "transitionRun now q d = Inr (d', r)"
  shows "dbJobs d' = dbJobs d" "dbTasks d' = dbTasks d" "dbPlans d' = dbPlans d" "dbLeases d' = dbLeases d"
    "dbSnapshots d' = dbSnapshots d" "dbAudits d' = dbAudits d" "dbRuntimes d' = dbRuntimes d"
  by (subst transitionRun_frame [OF assms], simp)+

interpretation system_run: quiet_system run_inv
proof unfold_locales
  fix d d' :: db and now
  show "run_inv d'" if "transitionRun now q d = Inr (d', r)" "lpResourceType q = ResAgentRun" "run_inv d" for q r
    using that transitionRun_same [OF that(1)] transitionRun_audited [OF that(1,2)] snapshot_inv_frame [of d' d]
    by (simp add: run_inv_def store_inv_def queue_inv_def)
  show "run_inv (d\<lparr>dbLeases := filter P (dbLeases d)\<rparr>)" if "run_inv d" for P
    using that snapshot_inv_frame [of "d\<lparr>dbLeases := filter P (dbLeases d)\<rparr>" d]
    by (simp add: run_inv_def store_inv_def queue_inv_def db_audited_def distinct_map_filter)
  show "run_inv (d\<lparr>dbRuntimes := rs\<rparr>)" if "run_inv d" for rs
    using that store_inv_frame [of "d\<lparr>dbRuntimes := rs\<rparr>" d] by (simp add: run_inv_def)
  show "run_inv (notifyJob i d)" if "run_inv d" for i
    using that store_inv_frame [of "notifyJob i d" d] by (simp add: run_inv_def notifyJob_def)
qed

interpretation system_completed: quiet_system "\<lambda>d. completedPlans d \<subseteq> C" for C
proof unfold_locales
  fix d d' :: db and now
  show "completedPlans d' \<subseteq> C" if "transitionRun now q d = Inr (d', r)" "lpResourceType q = ResAgentRun" "completedPlans d \<subseteq> C" for q r
    using that completed_frame [OF transitionRun_same(3) [OF that(1)]] by simp
  show "completedPlans (d\<lparr>dbLeases := filter P (dbLeases d)\<rparr>) \<subseteq> C" if "completedPlans d \<subseteq> C" for P
    using that completed_frame [of "d\<lparr>dbLeases := filter P (dbLeases d)\<rparr>" d] by simp
  show "completedPlans (d\<lparr>dbRuntimes := rs\<rparr>) \<subseteq> C" if "completedPlans d \<subseteq> C" for rs
    using that completed_frame [of "d\<lparr>dbRuntimes := rs\<rparr>" d] by simp
  show "completedPlans (notifyJob i d) \<subseteq> C" if "completedPlans d \<subseteq> C" for i
    using that completed_frame [of "notifyJob i d" d] by (simp add: notifyJob_def)
qed

text \<open>Runs are updated, never added or removed.\<close>

interpretation system_runs: quiet_system "\<lambda>d. map lId (dbRuns d) = L" for L
proof unfold_locales
  fix d d' :: db and now
  show "map lId (dbRuns d') = L" if "transitionRun now q d = Inr (d', r)" "map lId (dbRuns d) = L" for q r
    using that(1) unfolding transitionRun_def by (cases rule: runs.transition_cases) (simp_all add: that(2))
  show "map lId (dbRuns d') = L" if "transitionPlan now q d = Inr (d', r)" "map lId (dbRuns d) = L" for q r
    using that transitionPlan_same(3) [OF that(1)] by simp
  show "map lId (dbRuns d') = L" if "transitionTask now q d = Inr (d', r)" "map lId (dbRuns d) = L" for q r
    using that transitionTask_same(3) [OF that(1)] by simp
  show "map lId (dbRuns d') = L" if "transitionJob now q d = Inr (d', r)" "map lId (dbRuns d) = L" for q r
    using that transitionJob_same(3) [OF that(1)] by simp
qed (simp_all add: insertEvent_def notifyJob_def)

section \<open>What a pass does to a job\<close>

text \<open>The parts of the database that belong to one job, and the instances.\<close>

definition sameFor :: "uuid \<Rightarrow> db \<Rightarrow> db \<Rightarrow> bool" where
  "sameFor i d d' \<longleftrightarrow> findRow i (dbJobs d') = findRow i (dbJobs d) \<and>
     filter (\<lambda>r. arJob r = Some i) (dbRuns d') = filter (\<lambda>r. arJob r = Some i) (dbRuns d) \<and>
     filter (\<lambda>l. wlJob l = i) (dbLeases d') = filter (\<lambda>l. wlJob l = i) (dbLeases d) \<and> dbRuntimes d' = dbRuntimes d \<and>
     map lId (dbRuns d') = map lId (dbRuns d)"

lemma sameFor_refl [simp]: "sameFor i d d"
  by (simp add: sameFor_def)

lemma sameFor_trans: "sameFor i d d1 \<Longrightarrow> sameFor i d1 d2 \<Longrightarrow> sameFor i d d2"
  by (simp add: sameFor_def)

lemma sameFor_frame:
  "dbJobs d' = dbJobs d \<Longrightarrow> dbRuns d' = dbRuns d \<Longrightarrow> dbLeases d' = dbLeases d \<Longrightarrow> dbRuntimes d' = dbRuntimes d \<Longrightarrow> sameFor i d d'"
  by (simp add: sameFor_def)

lemma sameFor_emit: "sameFor i d (emit now p k a x v pl d)"
  by (rule sameFor_frame) (simp_all add: emit_def insertEvent_def)

lemma sameFor_transitions:
  "transitionTask now qt d = Inr (d', rt) \<Longrightarrow> sameFor i d d'"
  "transitionPlan now qp d = Inr (d', rp) \<Longrightarrow> sameFor i d d'"
proof -
  show "sameFor i d d'" if "transitionTask now qt d = Inr (d', rt)"
    by (subst transitionTask_frame [OF that]) (rule sameFor_frame, simp_all)
  show "sameFor i d d'" if "transitionPlan now qp d = Inr (d', rp)"
    by (subst transitionPlan_frame [OF that]) (rule sameFor_frame, simp_all)
qed

lemma sameFor_job:
  assumes "transitionJob now q d = Inr (d', r)" "lpResourceID q \<noteq> i"
  shows "sameFor i d d'"
proof -
  have "findRow i (dbJobs d') = findRow i (dbJobs d)"
    using assms(1) unfolding transitionJob_def
    by (cases rule: jobs.transition_cases) (use assms(2) in \<open>auto simp: findRow_updateRow option.map_ident\<close>)
  moreover have "dbRuntimes d' = dbRuntimes d" by (subst transitionJob_frame [OF assms(1)]) simp
  ultimately show ?thesis using transitionJob_same [OF assms(1)] by (simp add: sameFor_def)
qed

lemma sameFor_run:
  assumes "transitionRun now q d = Inr (d', res)" "\<And>x. x \<in> set (dbRuns d) \<Longrightarrow> lId x = lpResourceID q \<Longrightarrow> arJob x \<noteq> Some i"
    "\<And>m cp x. arJob (setLifecycle now q m cp x) = arJob x"
  shows "sameFor i d d'"
  using assms(1) unfolding transitionRun_def
proof (cases rule: runs.transition_cases)
  case (applied s m cp)
  have "filter (\<lambda>r. arJob r = Some i) (dbRuns d') = filter (\<lambda>r. arJob r = Some i) (dbRuns d)"
    unfolding applied(6) updateRow_def using assms(2,3) by (intro filter_map_same) auto
  then show ?thesis using transitionRun_same [OF assms(1)] by (simp add: sameFor_def applied(6))
qed simp

lemma sameFor_leases: "j \<noteq> i \<Longrightarrow> sameFor i d (d\<lparr>dbLeases := filter (\<lambda>l. wlJob l \<noteq> j) (dbLeases d)\<rparr>)"
  by (auto simp: sameFor_def intro: filter_cong)

lemma loseRun_sameFor:
  assumes "loseRun now r e oc cp j d = Inr d'" "\<And>x. x \<in> set (dbRuns d) \<Longrightarrow> lId x = lId r \<Longrightarrow> arJob x \<noteq> Some i"
  shows "sameFor i d d'"
proof -
  have k: "arJob (setLifecycle now (loseRunRequest r e oc cp j) m c x) = arJob x" for m c x
    by (simp add: setLifecycle_def applyFields_def loseRunRequest_def setTermination_def setFailureCategory_def setRunFinished_def)
  show ?thesis using assms(1) by (auto simp: loseRun_def bindR_Inr_iff k intro: sameFor_run [OF _ assms(2)])
qed

lemma activeRecoveryRun_member:
  "activeRecoveryRun i d = Some r \<Longrightarrow> r \<in> set (dbRuns d) \<and> arJob r = Some i \<and> lStatus r \<in> liveRunStatuses"
  unfolding activeRecoveryRun_def by (drule newestBy_Some) simp

lemma convergeTask_sameFor:
  assumes "convergeRecoveredTask now j e oc cp d = Inr d'"
  shows "sameFor i d d'"
proof -
  have block: "sameFor i d1 d2" if "blockRecoveredPlan now j e oc cp d1 = Inr d2" for d1 d2
    using that by (auto simp: blockRecoveredPlan_def bindR_Inr_iff split: option.splits if_splits
        intro: sameFor_transitions sameFor_trans [OF sameFor_transitions(2) sameFor_emit])
  show ?thesis
  proof (cases "rjType j \<noteq> ''task.execute'' \<or> rjTaskStatus j \<in> {[], ''succeeded'', ''failed'', ''interrupted'', ''cancelled''}")
    case True
    then show ?thesis using assms by (simp add: convergeRecoveredTask_def)
  next
    case False
    then obtain d1 r where d1: "transitionTask now (recoverTaskRequest j e oc cp) d = Inr (d1, r)"
      using assms by (auto simp: convergeRecoveredTask_def bindR_Inr_iff)
    note same = sameFor_transitions(1) [OF d1, of i]
    show ?thesis using assms False d1
      by (auto simp: convergeRecoveredTask_def split: if_splits dest!: block
          intro: sameFor_trans [OF same] sameFor_trans [OF sameFor_trans [OF same sameFor_emit]])
  qed
qed

lemma converge_steps:
  assumes "convergeLostJob now j run e oc obs d = Inr d'"
  obtains d1 d2 res where
    "(case run of None \<Rightarrow> Inr d | Some r \<Rightarrow> loseRun now r e oc (recoveryCheckpoint e (ocHint oc) obs now) (Some (rjId j)) d) = Inr d1"
    "transitionJob now (loseJobRequest j run e oc (recoveryCheckpoint e (ocHint oc) obs now)) d1 = Inr (d2, res)"
    "convergeRecoveredTask now j e oc (recoveryCheckpoint e (ocHint oc) obs now)
       (d2\<lparr>dbLeases := filter (\<lambda>l. wlJob l \<noteq> rjId j) (dbLeases d2)\<rparr>) = Inr d'"
  using assms by (auto simp: convergeLostJob_def Let_def bindR_Inr_iff)

lemma job_request_ids [simp]:
  "lpResourceID (loseJobRequest j run e oc cp) = rjId j" "lpResourceID (requeueUnstartedRequest now j e obs) = rjId j"
  "lpStatus (loseJobRequest j run e oc cp) = ocStatus oc" "lpStatus (requeueUnstartedRequest now j e obs) = ''queued''"
  "lpResourceType (loseJobRequest j run e oc cp) = ResJob" "lpResourceType (requeueUnstartedRequest now j e obs) = ResJob"
  by (simp_all add: loseJobRequest_def requeueUnstartedRequest_def jobRequest_def zeroRequest_def)

lemma recoverJob_sameFor:
  assumes "recoverJob h now obs j d = Inr d'" "rjId j \<noteq> i" "distinct (map lId (dbRuns d))"
  shows "sameFor i d d'"
proof -
  let ?run = "activeRecoveryRun (rjId j) d"
  have requeue: "sameFor i d d'" if "requeueUnstartedJob now j e obs d = Inr d'" for e
    using that sameFor_job [of now "requeueUnstartedRequest now j e obs" d _ _ i] assms(2)
    by (auto simp: requeueUnstartedJob_def bindR_Inr_iff notifyJob_def sameFor_def)
  have lose: "sameFor i d d'" if "convergeLostJob now j ?run e oc obs d = Inr d'" for e oc
    using that
  proof (cases rule: converge_steps)
    case (1 d1 d2 res)
    have "arJob x \<noteq> Some i" if "?run = Some r" "x \<in> set (dbRuns d)" "lId x = lId r" for x r
      using activeRecoveryRun_member [OF that(1)] same_row [OF assms(3) that(2) _ that(3)] assms(2) by auto
    then have "sameFor i d d1" using 1(1) by (auto split: option.splits elim!: loseRun_sameFor)
    moreover have "sameFor i d1 d2" using sameFor_job [OF 1(2)] assms(2) by simp
    ultimately show ?thesis
      using convergeTask_sameFor [OF 1(3), of i] sameFor_leases [OF assms(2), of d2] sameFor_trans by meson
  qed
  show ?thesis using assms(1) by (auto simp: recoverJob_def Let_def split: option.splits if_splits intro: requeue lose)
qed

section \<open>The verdict of a pass\<close>

definition jobEvidence :: "recovery_host \<Rightarrow> time \<Rightarrow> gostring \<Rightarrow> db \<Rightarrow> job \<Rightarrow> evidence option" where
  "jobEvidence h now obs d j = collectRecoveryEvidence h now obs (recoveryJob d j) (activeRecoveryRun (lId j) d) d"

text \<open>
  Who still has a job, told from the rows and the host and not from the evidence that the code collects. A
  heartbeat counts for three intervals, at least for thirty seconds; the products are 64-bit nanoseconds.
\<close>

definition patience :: "int \<Rightarrow> int" where
  "patience interval = max 30000000000 (wrapInt (interval * 3))"

text \<open>The instance behind a job: the owner of its run or, without one, what stands before the colon of its worker.\<close>

definition ownerOf :: "job \<Rightarrow> agent_run option \<Rightarrow> gostring" where
  "ownerOf j run =
     (let named = (case run of None \<Rightarrow> [] | Some r \<Rightarrow> trimSpace (arOwner r));
          worker = trimSpace (case jWorkerID j of None \<Rightarrow> [] | Some w \<Rightarrow> w)
      in if named \<noteq> [] then named
         else if CHR '':'' \<in> set worker then trimSpace (takeWhile (\<lambda>c. c \<noteq> CHR '':'') worker) else [])"

definition ownerBeats :: "time \<Rightarrow> db \<Rightarrow> gostring \<Rightarrow> bool" where
  "ownerBeats now d owner \<longleftrightarrow>
     (case find (\<lambda>r. rtId r = trimSpace owner) (dbRuntimes d) of
        None \<Rightarrow> False
      | Some r \<Rightarrow> nanos now \<le> nanos (rtHeartbeat r) + patience (wrapInt (rtIntervalMS r * 1000000)))"

text \<open>The lease of the job itself, and the lock of its workspace, which only a task that has started needs.\<close>

definition leaseRuns :: "time \<Rightarrow> job \<Rightarrow> bool" where
  "leaseRuns now j \<longleftrightarrow> (case jLease j of None \<Rightarrow> False | Some t \<Rightarrow> now \<le> t)"

definition lockHeld :: "time \<Rightarrow> db \<Rightarrow> job \<Rightarrow> bool" where
  "lockHeld now d j \<longleftrightarrow>
     (if jType j \<noteq> ''task.execute'' then True
      else case findRow (jAggregateID j) (dbTasks d) of
        None \<Rightarrow> True
      | Some t \<Rightarrow>
          if lStatus t \<in> {''running'', ''cancelling''}
          then (case find (\<lambda>l. wlJob l = lId j) (dbLeases d) of
                  None \<Rightarrow> False
                | Some l \<Rightarrow> now \<le> wlExpires l \<and> wlWorker l = (case jWorkerID j of None \<Rightarrow> [] | Some w \<Rightarrow> w))
          else lStatus t \<in> {[], ''pending'', ''queued''})"

text \<open>The newest sign of life of a run: its heartbeat or its log, else the activity in its row.\<close>

definition runBeats :: "recovery_host \<Rightarrow> time \<Rightarrow> agent_run \<Rightarrow> bool" where
  "runBeats h now r \<longleftrightarrow>
     (let c = runCheckpoint r; interval = wrapInt (rcInterval c * 1000000);
          written = (case rhModTime h (arLogPath r) of None \<Rightarrow> rcLog c | Some t \<Rightarrow> max t (rcLog c));
          sign = (if max written (rcHeartbeat c) = zeroTime then lActivity r else max written (rcHeartbeat c))
      in nanos now \<le> nanos sign + patience (if 0 < interval then interval else 5000000000))"

text \<open>
  The process of a run, which only its own instance may look at: it is alive when it takes a signal, is
  neither a zombie nor dead, and does not have another start time than the run recorded; when the signal
  fails in another way nothing is known.
\<close>

definition looksAt :: "gostring \<Rightarrow> gostring \<Rightarrow> agent_run \<Rightarrow> int \<Rightarrow> bool" where
  "looksAt observer owner r pid \<longleftrightarrow> arPid r = Some pid \<and> 0 < pid \<and> (observer = [] \<or> owner \<in> {[], observer})"

definition processLives :: "recovery_host \<Rightarrow> agent_run \<Rightarrow> int \<Rightarrow> bool" where
  "processLives h r pid \<longleftrightarrow>
     rhKill h pid \<in> {KillOk, KillNoPermission} \<and>
     (case map_option goFields (Option.bind (rhStat h pid) afterLastName) of
        None \<Rightarrow> True
      | Some fs \<Rightarrow>
          (case fs of [] \<Rightarrow> True | state # _ \<Rightarrow> state \<noteq> ''Z'' \<and> state \<noteq> ''X'') \<and>
          (length fs < 20 \<or> rcIdentity (runCheckpoint r) \<in> {[], ''linux-start:'' @ fs ! 19}))"

text \<open>
  A job without a live run is spared while its lease runs and its owner, if it has one, beats. One with a
  live run is spared when its process lives or cannot be told, and otherwise while its owner and its run
  beat or, when it has no owner, while lease, lock and run are all fresh.
\<close>

definition spared :: "recovery_host \<Rightarrow> time \<Rightarrow> gostring \<Rightarrow> db \<Rightarrow> job \<Rightarrow> bool" where
  "spared h now observer d j \<longleftrightarrow>
     (let run = activeRecoveryRun (lId j) d; owner = ownerOf j run in
      case run of
        None \<Rightarrow> leaseRuns now j \<and> (owner = [] \<or> ownerBeats now d owner)
      | Some r \<Rightarrow>
          (case arPid r of None \<Rightarrow> False | Some pid \<Rightarrow> looksAt observer owner r pid \<and> (rhKill h pid = KillFailed \<or> processLives h r pid)) \<or>
          (if owner = [] then leaseRuns now j \<and> lockHeld now d j else ownerBeats now d owner) \<and> runBeats h now r)"

lemma patience_stale: "patience i = staleAfter i"
  by (simp add: patience_def staleAfter_def minimumRuntimeInstanceStaleAfter_def max.commute)

lemma cut_colon: "goCut c s = (if c \<in> set s then (takeWhile (\<lambda>x. x \<noteq> c) s, Some (tl (dropWhile (\<lambda>x. x \<noteq> c) s))) else (s, None))"
  by (induction s) (auto split: prod.splits)

lemma owner_code: "evOwner (ownerEvidence now (recoveryJob d j) run d) = ownerOf j run"
  by (simp add: ownerEvidence_def ownerOf_def workerInstanceID_def recoveryJob_def cut_colon Let_def)

lemma ownerBeats_code:
  "evOwnerFresh (ownerEvidence now (recoveryJob d j) run d) \<longleftrightarrow> ownerOf j run \<noteq> [] \<and> ownerBeats now d (ownerOf j run)"
proof -
  have o: "ownerOf j run = trimSpace (ownerOf j run)" by (cases run) (simp_all add: ownerOf_def Let_def)
  have "ownerBeats now d (ownerOf j run) \<longleftrightarrow> rlFresh (runtimeInstanceLiveness (ownerOf j run) now d)" if "ownerOf j run \<noteq> []"
    using that o by (auto simp: ownerBeats_def runtimeInstanceLiveness_def findRuntime_def noLiveness_def patience_stale Let_def
      split: option.splits)
  moreover have "evOwnerFresh (ownerEvidence now (recoveryJob d j) run d) \<longleftrightarrow>
      ownerOf j run \<noteq> [] \<and> rlFresh (runtimeInstanceLiveness (ownerOf j run) now d)"
    using owner_code [of now d j run] by (simp add: ownerEvidence_def Let_def)
  ultimately show ?thesis by blast
qed

lemma leaseRuns_code: "evJobLease (ownerEvidence now (recoveryJob d j) run d) \<longleftrightarrow> leaseRuns now j"
  by (auto simp: ownerEvidence_def leaseRuns_def recoveryJob_def Let_def split: option.splits)

lemma lockHeld_code:
  "evWorkspaceLease (ownerEvidence now (recoveryJob d j) run d) \<and> evLockOwned (ownerEvidence now (recoveryJob d j) run d) \<longleftrightarrow>
   lockHeld now d j"
  by (auto simp: ownerEvidence_def lockHeld_def recoveryJob_def beforeExecution_def Let_def split: option.splits)

lemma runBeats_code: "evHeartbeatFresh (runEvidence h now r e) \<longleftrightarrow> runBeats h now r"
  by (auto simp: runEvidence_def runBeats_def patience_stale max.commute Let_def split: option.splits)

lemma run_evidence_keeps [simp]:
  "evOwner (runEvidence h now r e) = evOwner e" "evOwnerFresh (runEvidence h now r e) = evOwnerFresh e"
  "evJobLease (runEvidence h now r e) = evJobLease e" "evWorkspaceLease (runEvidence h now r e) = evWorkspaceLease e"
  "evLockOwned (runEvidence h now r e) = evLockOwned e" "evKnown (runEvidence h now r e) = evKnown e"
  by (simp_all add: runEvidence_def Let_def)

lemma owner_evidence_unknown [simp]: "\<not> evKnown (ownerEvidence now j run d)"
  by (simp add: ownerEvidence_def Let_def)

lemma processLives_code:
  assumes "0 < pid" "rhKill h pid \<noteq> KillFailed"
  shows "\<exists>p. InspectProcess h pid = Some p \<and>
    (peRunning p \<and> \<not> (rcIdentity (runCheckpoint r) \<noteq> [] \<and> peIdentity p \<noteq> [] \<and> rcIdentity (runCheckpoint r) \<noteq> peIdentity p) \<longleftrightarrow>
     processLives h r pid)"
  using assms
  by (cases "rhKill h pid"; cases "rhStat h pid"; cases "afterLastName (the (rhStat h pid))";
      cases "goFields (the (afterLastName (the (rhStat h pid))))")
    (auto simp: InspectProcess_def processLives_def statEvidence_def Let_def)

text \<open>The code spares exactly these jobs.\<close>

lemma spared_code:
  "spared h now observer d j \<longleftrightarrow>
     (case jobEvidence h now observer d j of None \<Rightarrow> True | Some e \<Rightarrow> recoveryCandidateActive (activeRecoveryRun (lId j) d) e)"
proof (cases "activeRecoveryRun (lId j) d")
  case None
  then show ?thesis
    by (auto simp: spared_def jobEvidence_def collectRecoveryEvidence_def recoveryCandidateActive_def owner_code ownerBeats_code
      leaseRuns_code Let_def)
next
  case (Some r)
  let ?e = "runEvidence h now r (ownerEvidence now (recoveryJob d j) (Some r) d)"
  let ?owner = "ownerOf j (Some r)"
  have rest: "(\<not> (evKnown x \<and> evAlive x) \<longrightarrow> recoveryCandidateActive (Some r) x =
      ((if ?owner = [] then leaseRuns now j \<and> lockHeld now d j else ownerBeats now d ?owner) \<and> runBeats h now r))"
    if "evOwner x = evOwner ?e" "evOwnerFresh x = evOwnerFresh ?e" "evJobLease x = evJobLease ?e"
      "evWorkspaceLease x = evWorkspaceLease ?e" "evLockOwned x = evLockOwned ?e" "evHeartbeatFresh x = evHeartbeatFresh ?e" for x
    using that lockHeld_code [of now d j "Some r"]
    by (auto simp: recoveryCandidateActive_def owner_code ownerBeats_code leaseRuns_code runBeats_code Let_def)
  have looks: "looksAt observer ?owner r pid \<longleftrightarrow>
      arPid r = Some pid \<and> (observer = [] \<or> evOwner ?e = [] \<or> evOwner ?e = observer) \<and> pid > 0" for pid
    by (auto simp: looksAt_def owner_code)
  have j: "jobEvidence h now observer d j = inspectRun h observer r ?e"
    by (simp add: jobEvidence_def collectRecoveryEvidence_def Some Let_def)
  show ?thesis
  proof (cases "\<exists>pid. looksAt observer ?owner r pid")
    case False
    let ?x = "?e\<lparr>evInspectable := (observer = [] \<or> evOwner ?e = [] \<or> evOwner ?e = observer)\<rparr>"
    have x: "jobEvidence h now observer d j = Some ?x"
      using False unfolding j inspectRun_def looks by (auto simp: Let_def split: option.splits)
    have "recoveryCandidateActive (Some r) ?x \<longleftrightarrow>
        (if ?owner = [] then leaseRuns now j \<and> lockHeld now d j else ownerBeats now d ?owner) \<and> runBeats h now r"
      using rest [of ?x] by simp
    moreover have "\<not> (case arPid r of None \<Rightarrow> False | Some pid \<Rightarrow> looksAt observer ?owner r pid \<and> P pid)" for P
      using False by (simp split: option.splits)
    ultimately show ?thesis by (simp only: spared_def Some x Let_def option.case) simp
  next
    case True
    then obtain pid where pid: "looksAt observer ?owner r pid" "arPid r = Some pid" "0 < pid" by (auto simp: looksAt_def)
    show ?thesis
    proof (cases "rhKill h pid = KillFailed")
      case True
      then have "jobEvidence h now observer d j = None"
        using pid looks [of pid] by (simp add: j inspectRun_def InspectProcess_def Let_def)
      then show ?thesis using pid True by (simp add: spared_def Some Let_def)
    next
      case False
      obtain p where p: "InspectProcess h pid = Some p"
        "peRunning p \<and> \<not> (rcIdentity (runCheckpoint r) \<noteq> [] \<and> peIdentity p \<noteq> [] \<and> rcIdentity (runCheckpoint r) \<noteq> peIdentity p)
           \<longleftrightarrow> processLives h r pid"
        using processLives_code [OF pid(3) False] by blast
      have "jobEvidence h now observer d j =
          Some (?e\<lparr>evInspectable := True, evKnown := True, evIdentity := peIdentity p, evAlive := processLives h r pid\<rparr>)"
        using pid looks [of pid] p by (simp add: j inspectRun_def Let_def)
      then show ?thesis using pid False rest
        by (cases "processLives h r pid") (simp_all add: spared_def Some Let_def, simp add: recoveryCandidateActive_def)
    qed
  qed
qed

lemma find_filter: "find P xs = (case filter P xs of [] \<Rightarrow> None | x # _ \<Rightarrow> Some x)"
  by (induction xs) auto

lemma evidence_same:
  assumes "sameFor (rjId j) d dx"
  shows "activeRecoveryRun (rjId j) dx = activeRecoveryRun (rjId j) d"
    "collectRecoveryEvidence h now obs j run dx = collectRecoveryEvidence h now obs j run d"
proof -
  have split: "filter (\<lambda>r. arJob r = Some (rjId j) \<and> lStatus r \<in> liveRunStatuses) rs =
      filter (\<lambda>r. lStatus r \<in> liveRunStatuses) (filter (\<lambda>r. arJob r = Some (rjId j)) rs)" for rs
    by (simp add: conj_commute)
  have "filter (\<lambda>r. arJob r = Some (rjId j)) (dbRuns dx) = filter (\<lambda>r. arJob r = Some (rjId j)) (dbRuns d)"
    using assms by (simp add: sameFor_def)
  then show "activeRecoveryRun (rjId j) dx = activeRecoveryRun (rjId j) d"
    unfolding activeRecoveryRun_def split by (rule arg_cong)
  have eqs: "find (\<lambda>l. wlJob l = rjId j) (dbLeases dx) = find (\<lambda>l. wlJob l = rjId j) (dbLeases d)"
    "findRuntime i dx = findRuntime i d" for i
    using assms by (simp_all add: find_filter findRuntime_def sameFor_def)
  show "collectRecoveryEvidence h now obs j run dx = collectRecoveryEvidence h now obs j run d"
    unfolding collectRecoveryEvidence_def ownerEvidence_def runtimeInstanceLiveness_def eqs by (rule refl)
qed

lemma recoveryJob_id [simp]: "rjId (recoveryJob d j) = lId j"
  by (simp add: recoveryJob_def Let_def)

definition settledJob :: "job option \<Rightarrow> bool" where
  "settledJob jo = (case jo of None \<Rightarrow> False
     | Some j \<Rightarrow> lStatus j \<in> {''queued'', ''cancelled'', ''interrupted''} \<and> jWorkerID j = None \<and> jLease j = None)"

lemma active_not_terminal: "s \<in> activeStatuses \<Longrightarrow> \<not> IsTerminalStatus ResJob s"
  by (auto simp: activeStatuses_def IsTerminalStatus_def lifecycleContract_def jobContract_def)

lemma job_settles:
  assumes "transitionJob now q d = Inr (d', res)" "findRow i (dbJobs d) = Some j" "lpResourceID q = i" "lpResourceType q = ResJob"
    "lStatus j \<in> activeStatuses" "lpStatus q \<in> {''queued'', ''cancelled'', ''interrupted''}"
    "\<And>m cp x. jWorkerID (setLifecycle now q m cp x) = None \<and> jLease (setLifecycle now q m cp x) = None"
  shows "settledJob (findRow i (dbJobs d'))"
  using assms(1) unfolding transitionJob_def
proof (cases rule: jobs.transition_cases)
  case (replay r)
  then show ?thesis using replay_ended [OF replay(2)] active_not_terminal [OF assms(5)] assms(2-6)
    by (auto simp: activeStatuses_def)
next
  case (applied r m cp)
  then show ?thesis using assms(2,3,6,7) by (auto simp: settledJob_def findRow_updateRow)
qed

lemma lease_fields [simp]:
  "jWorkerID (setLifecycle now (requeueUnstartedRequest t j e obs) m cp x) = None"
  "jLease (setLifecycle now (requeueUnstartedRequest t j e obs) m cp x) = None"
  "jWorkerID (setLifecycle now (loseJobRequest j run e oc c) m cp x) = None"
  "jLease (setLifecycle now (loseJobRequest j run e oc c) m cp x) = None"
  by (simp_all add: setLifecycle_def applyFields_def requeueUnstartedRequest_def loseJobRequest_def job_fields)

lemma lostJob_settles:
  assumes "convergeLostJob now j run e oc obs d = Inr d'" "ocStatus oc \<in> {''cancelled'', ''interrupted''}"
    "findRow (rjId j) (dbJobs d) = Some row" "lStatus row \<in> activeStatuses"
  shows "settledJob (findRow (rjId j) (dbJobs d'))"
  using assms(1)
proof (cases rule: converge_steps)
  case (1 d1 d2 res)
  have "dbJobs d1 = dbJobs d" using 1(1) by (auto simp: loseRun_def bindR_Inr_iff split: option.splits dest: transitionRun_same)
  then have "settledJob (findRow (rjId j) (dbJobs d2))"
    by (intro job_settles [OF 1(2)]) (use assms(2-4) in auto)
  moreover have "findRow (rjId j) (dbJobs d') = findRow (rjId j) (dbJobs d2)"
    using convergeTask_sameFor [OF 1(3), of "rjId j"] by (simp add: sameFor_def)
  ultimately show ?thesis by simp
qed

lemma recoverJob_own:
  assumes "recoverJob h now obs (recoveryJob d j) dx = Inr dy" "sameFor (lId j) d dx" "findRow (lId j) (dbJobs d) = Some j"
    "lStatus j \<in> activeStatuses"
  shows "if spared h now obs d j then dy = dx else settledJob (findRow (lId j) (dbJobs dy))"
proof -
  let ?run = "activeRecoveryRun (lId j) d"
  note same = evidence_same [of "recoveryJob d j" d dx, simplified, OF assms(2)]
  have row: "findRow (rjId (recoveryJob d j)) (dbJobs dx) = Some j" using assms(2,3) by (simp add: sameFor_def)
  have requeue: "settledJob (findRow (lId j) (dbJobs dy))" if "requeueUnstartedJob now (recoveryJob d j) e obs dx = Inr dy" for e
    using that row assms(4)
    by (auto simp: requeueUnstartedJob_def bindR_Inr_iff notifyJob_def elim!: job_settles)
  show ?thesis
    using assms(1) by (auto simp: recoverJob_def Let_def same spared_code jobEvidence_def split: option.splits if_splits
        intro: requeue dest: lostJob_settles [OF _ outcome_status row assms(4)])
qed

lemma foldR_split:
  assumes "foldR f (xs @ y # ys) s = Inr s'"
  obtains sx sy where "foldR f xs s = Inr sx" "f y sx = Inr sy" "foldR f ys sy = Inr s'"
proof -
  have "\<exists>sx sy. foldR f xs s = Inr sx \<and> f y sx = Inr sy \<and> foldR f ys sy = Inr s'"
    using assms by (induction xs arbitrary: s) (auto simp: bindR_Inr_iff)
  then show thesis using that by blast
qed

lemma pass_sameFor:
  assumes "foldR (recoverJob h now obs) js d = Inr d'" "\<And>x. x \<in> set js \<Longrightarrow> rjId x \<noteq> i" "distinct (map lId (dbRuns d))"
  shows "sameFor i d d'"
proof -
  have "sameFor i d d' \<and> distinct (map lId (dbRuns d'))"
  proof (rule foldR_invariant [OF assms(1)])
    fix x s s' assume x: "x \<in> set js" "recoverJob h now obs x s = Inr s'" "sameFor i d s \<and> distinct (map lId (dbRuns s))"
    have "sameFor i s s'" by (rule recoverJob_sameFor [OF x(2) assms(2) [OF x(1)]]) (use x(3) in simp)
    then show "sameFor i d s' \<and> distinct (map lId (dbRuns s'))" using x(3) sameFor_trans by (auto simp: sameFor_def)
  qed (use assms(3) in simp)
  then show ?thesis by simp
qed

lemma standalone_sameFor:
  assumes "foldR (reconcileStandaloneRun h now obs) rs d = Inr d'" "set rs \<subseteq> set (dbRuns d)" "distinct (map lId (dbRuns d))"
    "\<And>r. r \<in> set rs \<Longrightarrow> arJob r \<noteq> Some i"
  shows "sameFor i d d'"
proof (rule foldR_invariant [OF assms(1)])
  fix r s s' assume r: "r \<in> set rs" "reconcileStandaloneRun h now obs r s = Inr s'" "sameFor i d s"
  have other: "arJob x \<noteq> Some i" if "x \<in> set (dbRuns s)" "lId x = lId r" for x
  proof
    assume i: "arJob x = Some i"
    then have "x \<in> set (filter (\<lambda>r. arJob r = Some i) (dbRuns s))" using that by simp
    moreover have "filter (\<lambda>r. arJob r = Some i) (dbRuns s) = filter (\<lambda>r. arJob r = Some i) (dbRuns d)"
      using r(3) by (simp add: sameFor_def)
    ultimately have "x \<in> set (dbRuns d)" by simp
    then have "x = r" using same_row [OF assms(3) _ _ that(2)] r(1) assms(2) by blast
    then show False using assms(4) [OF r(1)] i by simp
  qed
  have "sameFor i s s'" using r(2)
    by (auto simp: reconcileStandaloneRun_def Let_def split: option.splits if_splits intro: loseRun_sameFor [OF _ other])
  then show "sameFor i d s'" using r(3) sameFor_trans by blast
qed simp

lemma standalone_jobs:
  assumes "foldR (reconcileStandaloneRun h now obs) rs d = Inr d'"
  shows "dbJobs d' = dbJobs d"
  using assms
proof (rule foldR_invariant)
  show "dbJobs s' = dbJobs d" if "reconcileStandaloneRun h now obs r s = Inr s'" "dbJobs s = dbJobs d" for r s s'
    using that by (auto simp: reconcileStandaloneRun_def Let_def loseRun_def bindR_Inr_iff split: option.splits if_splits
        dest: transitionRun_same)
qed simp

lemma drops_sameFor:
  assumes "findRow i (dbJobs d) = Some j" "lStatus j \<in> activeStatuses"
  shows "findRow i (dbJobs (dropDeadRuntimes now (dropExpiredLeases now d))) = Some j"
    "filter (\<lambda>r. arJob r = Some i) (dbRuns (dropDeadRuntimes now (dropExpiredLeases now d))) = filter (\<lambda>r. arJob r = Some i) (dbRuns d)"
    "filter (\<lambda>l. wlJob l = i) (dbLeases (dropDeadRuntimes now (dropExpiredLeases now d))) = filter (\<lambda>l. wlJob l = i) (dbLeases d)"
  using assms findRow_Some [OF assms(1)]
  by (auto simp: dropDeadRuntimes_def dropExpiredLeases_def list_ex_iff intro!: filter_cong)

lemma recovery_verdict_aux:
  assumes "ReconcileRuntimeState h now obs d = Inr d'" "run_inv d" "j \<in> set (dbJobs d)" "lStatus j \<in> activeStatuses"
  shows "if spared h now obs d j
    then findRow (lId j) (dbJobs d') = Some j \<and> filter (\<lambda>r. arJob r = Some (lId j)) (dbRuns d') = filter (\<lambda>r. arJob r = Some (lId j)) (dbRuns d) \<and>
      filter (\<lambda>l. wlJob l = lId j) (dbLeases d') = filter (\<lambda>l. wlJob l = lId j) (dbLeases d)
    else settledJob (findRow (lId j) (dbJobs d'))"
proof -
  have ids: "distinct (map lId (dbJobs d))" "distinct (map lId (dbRuns d))"
    using assms(2) by (simp_all add: run_inv_def store_inv_def queue_inv_def db_audited_def audited_def)
  have row: "findRow (lId j) (dbJobs d) = Some j" by (rule findRow_unique [OF ids(1) assms(3)])
  obtain d1 d2 where s: "foldR (recoverJob h now obs) (recoveryJobs d) d = Inr d1"
    "foldR (reconcileStandaloneRun h now obs) (standaloneRuns d1) d1 = Inr d2" "d' = dropDeadRuntimes now (dropExpiredLeases now d2)"
    using assms(1) by (auto simp: ReconcileRuntimeState_def reconcileStandaloneRuns_def bindR_Inr_iff)
  obtain xs ys where split: "dbJobs d = xs @ j # ys" using assms(3) by (meson split_list)
  let ?act = "\<lambda>xs. map (recoveryJob d) (filter (\<lambda>j. lStatus j \<in> activeStatuses) xs)"
  have js: "recoveryJobs d = ?act xs @ recoveryJob d j # ?act ys" using assms(4) by (simp add: recoveryJobs_def split)
  have others: "rjId x \<noteq> lId j" if "x \<in> set (?act xs) \<or> x \<in> set (?act ys)" for x
    using that ids(1) by (auto simp: split) (metis image_eqI)+
  obtain da db where f: "foldR (recoverJob h now obs) (?act xs) d = Inr da" "recoverJob h now obs (recoveryJob d j) da = Inr db"
    "foldR (recoverJob h now obs) (?act ys) db = Inr d1"
    using s(1) unfolding js by (rule foldR_split)
  have a: "sameFor (lId j) d da" by (rule pass_sameFor [OF f(1) _ ids(2)]) (use others in blast)
  have own: "if spared h now obs d j then db = da else settledJob (findRow (lId j) (dbJobs db))"
    by (rule recoverJob_own [OF f(2) a row assms(4)])
  have "map lId (dbRuns db) = map lId (dbRuns da)" using system_runs.recoverJob [OF f(2) refl] .
  then have "distinct (map lId (dbRuns db))" using a ids(2) by (simp add: sameFor_def)
  then have b: "sameFor (lId j) db d1" by (intro pass_sameFor [OF f(3)]) (use others in blast)
  show ?thesis
  proof (cases "spared h now obs d j")
    case True
    then have c: "sameFor (lId j) d d1" using own a b sameFor_trans by auto
    then have "findRow (lId j) (dbJobs d1) = Some j" using row by (simp add: sameFor_def)
    then have "arJob r \<noteq> Some (lId j)" if "r \<in> set (standaloneRuns d1)" for r
      using that assms(4) by (auto simp: standaloneRuns_def)
    then have "sameFor (lId j) d1 d2"
      by (intro standalone_sameFor [OF s(2)]) (use c ids(2) in \<open>auto simp: standaloneRuns_def sameFor_def\<close>)
    with c have "sameFor (lId j) d d2" by (rule sameFor_trans)
    with True show ?thesis using drops_sameFor [of "lId j" d2 j now] row assms(4) by (simp add: s(3) sameFor_def)
  next
    case False
    then have "settledJob (findRow (lId j) (dbJobs d1))" using own b by (simp add: sameFor_def)
    then show ?thesis using False standalone_jobs [OF s(2)] by (simp add: s(3) dropDeadRuntimes_def dropExpiredLeases_def)
  qed
qed

end
