(* ===== verification/Run.thy ===== *)
theory Run
  imports RecoveryResults
begin

text \<open>
  The database as the server changes it: every committed operation of the queue, of running a plan, of
  its snapshots, of stopping work, of shutdown and of recovery is one step of one relation, in any order
  and number, with any clock, provider, Git, host and caller. What holds of all its steps holds of the
  system.
\<close>

section \<open>Steps\<close>

inductive system_step :: "db \<Rightarrow> db \<Rightarrow> bool" where
  queue: "queue_step d d' \<Longrightarrow> system_step d d'"
| queue_plan: "freshJob jobID d \<Longrightarrow> QueuePlan e u now jobID snapID auditID selection planID version d = Inr (d', j) \<Longrightarrow>
    system_step d d'"
| queue_plan_automatically: "freshJob jobID d \<Longrightarrow>
    QueuePlanAutomatically e u now jobID snapID auditID selection planID d = Inr (d', jo) \<Longrightarrow> system_step d d'"
| queue_task: "freshJob jobID d \<Longrightarrow> QueueTask u now jobID selection taskID version d = Inr (d', j) \<Longrightarrow> system_step d d'"
| start_task: "StartTask u now taskID d = Inr (d', r) \<Longrightarrow> system_step d d'"
| finish_task: "freshJob jobID d \<Longrightarrow> FinishTask e u now jobID snapID t sessionID success message d = Inr d' \<Longrightarrow> system_step d d'"
| finish_checkpoint: "freshJob jobID d \<Longrightarrow>
    FinishTaskWithCheckpoint e u now jobID snapID t sessionID success message wk d = Inr d' \<Longrightarrow> system_step d d'"
| capture: "CapturePlanExecutionCheckpoint e i projectID planID taskID summary files d = Inr (d', row) \<Longrightarrow> system_step d d'"
| accept: "AcceptPlanExecutionSnapshot e i k planID original rawDiff channel reason d = Inr (d', row, a) \<Longrightarrow> system_step d d'"
| update: "UpdatePlanExecutionSnapshot e now i k v d = Inr (d', p, row, a) \<Longrightarrow> system_step d d'"
| regenerate: "RecordPlanRegenerationAudit i planID original target rawDiff channel reason d = Inr (d', a) \<Longrightarrow> system_step d d'"
| abandon: "RecordPlanExecutionAbandonedAudit i planID original rawDiff channel reason d = Inr (d', a) \<Longrightarrow> system_step d d'"
| cancel_job: "CancelJob now i w d = Inr d' \<Longrightarrow> system_step d d'"
| return_pending: "ReturnTaskPending now t message d = Inr d' \<Longrightarrow> system_step d d'"
| return_queued: "ReturnTaskQueuedForRetry now t sessionID message d = Inr d' \<Longrightarrow> system_step d d'"
| stop_task: "StopTask now taskID version d = Inr (d', t, ids) \<Longrightarrow> system_step d d'"
| stop_plan: "StopPlan now planID version d = Inr (d', p, ids) \<Longrightarrow> system_step d d'"
| drift: "BlockTaskJobForDrift now j w report d = Inr d' \<Longrightarrow> system_step d d'"
| trigger: "findRow (lId new) (dbPlans d) = Some new \<Longrightarrow> system_step d (auditPlanExecutionAbandoned i old new d)"
| delete_plan: "DeletePlan now planID version d = Inr d' \<Longrightarrow> system_step d d'"
| register: "RegisterRuntimeInstance now i heartbeat d = Inr d' \<Longrightarrow> system_step d d'"
| heartbeat: "HeartbeatRuntimeInstance now i d = Inr d' \<Longrightarrow> system_step d d'"
| unregister: "UnregisterRuntimeInstance i d = Inr d' \<Longrightarrow> system_step d d'"
| shutdown: "ReconcileInstanceShutdown walk now i d = Inr d' \<Longrightarrow> system_step d d'"
| recover: "ReconcileRuntimeState h now observer d = Inr d' \<Longrightarrow> system_step d d'"

inductive_cases system_stepE: "system_step d d'"

section \<open>What the steps leave alone\<close>

lemma transitionJob_still:
  "transitionJob now q d = Inr (d', r) \<Longrightarrow>
   dbTasks d' = dbTasks d \<and> dbPlans d' = dbPlans d \<and> dbSnapshots d' = dbSnapshots d \<and> dbAudits d' = dbAudits d"
  by (simp add: transitionJob_same)

lemma failIntake_tables [simp]:
  "dbTasks (failIntake now j msg d) = dbTasks d" "dbPlans (failIntake now j msg d) = dbPlans d"
  "dbSnapshots (failIntake now j msg d) = dbSnapshots d" "dbAudits (failIntake now j msg d) = dbAudits d"
  by (simp_all add: failIntake_def updateIntakeStatus_def insertEvent_def Let_def split: option.splits)

lemma queue_step_frame:
  assumes "queue_step d d'"
  shows "dbTasks d' = dbTasks d \<and> dbPlans d' = dbPlans d \<and> dbSnapshots d' = dbSnapshots d \<and> dbAudits d' = dbAudits d"
  using assms
proof (cases rule: queue_step.cases)
  case (claim now locked w lease j)
  then show ?thesis unfolding ClaimJob_def by (auto simp: bindR_Inr_iff split: option.splits dest!: transitionJob_still)
next
  case (start now i w j)
  then show ?thesis unfolding MarkJobRunning_def by (auto simp: bindR_Inr_iff split: option.splits dest!: transitionJob_still)
next
  case (defer1 now i w delay)
  then show ?thesis unfolding DeferJobForWorkspace_def by (auto simp: bindR_Inr_iff notifyJob_def dest!: transitionJob_still)
next
  case (release now i w)
  then show ?thesis unfolding ReleaseLeasedJob_def by (auto simp: bindR_Inr_iff notifyJob_def dest!: transitionJob_still)
next
  case (complete now i w)
  then show ?thesis unfolding CompleteJob_def by (auto simp: bindR_Inr_iff dest!: transitionJob_still)
next
  case (fail now j w msg b)
  then show ?thesis unfolding FailJob_def
    by (auto simp: bindR_Inr_iff notifyJob_def insertEvent_def emit_def Let_def split: if_splits dest!: transitionJob_still)
next
  case (acquire now fresh proj i path w dur)
  then show ?thesis unfolding AcquireWorkspaceLease_def
    by (auto simp: bindR_Inr_iff Let_def split: if_splits option.splits)
qed (auto simp: RenewJobLease_def RenewWorkspaceLease_def renewJobs_def ReleaseWorkspaceLease_def split: if_splits)

text \<open>The operations on snapshots and audits touch these tables, and a plan update also its row.\<close>

lemma capture_checkpoint_frame:
  "CapturePlanExecutionCheckpoint e i projectID planID taskID summary files d = Inr (d', row) \<Longrightarrow>
   d' = d\<lparr>dbSnapshots := dbSnapshots d'\<rparr>"
  by (auto simp: CapturePlanExecutionCheckpoint_def split: option.splits if_splits dest!: capture_db)

lemma accept_frame:
  assumes "AcceptPlanExecutionSnapshot e i j planID original rawDiff channel reason d = Inr (d', row, a)"
  shows "d' = d\<lparr>dbSnapshots := dbSnapshots d', dbAudits := dbAudits d'\<rparr>"
  using assms
proof (cases rule: accept_steps)
  case (1 p b d1)
  then show ?thesis using audit_frame [OF 1(4)] capture_db [OF 1(3)] by simp
qed

lemma update_frame:
  assumes "UpdatePlanExecutionSnapshot e now i j u d = Inr (d', p, row, a)"
  shows "d' = (replacePlan now u d)\<lparr>dbSnapshots := dbSnapshots d', dbAudits := dbAudits d'\<rparr>"
  using assms
proof (cases rule: update_steps)
  case (1 q b d1)
  then show ?thesis using audit_frame [OF 1(4)] capture_db [OF 1(3)] by simp
qed

lemma regenerate_frame:
  "RecordPlanRegenerationAudit i planID original target rawDiff channel reason d = Inr (d', a) \<Longrightarrow> d' = d\<lparr>dbAudits := dbAudits d'\<rparr>"
  by (auto simp: RecordPlanRegenerationAudit_def split: option.splits if_splits dest!: audit_frame)

lemma abandon_frame:
  "RecordPlanExecutionAbandonedAudit i planID original rawDiff channel reason d = Inr (d', a) \<Longrightarrow> d' = d\<lparr>dbAudits := dbAudits d'\<rparr>"
  by (auto simp: RecordPlanExecutionAbandonedAudit_def split: option.splits if_splits dest!: audit_frame)

section \<open>The invariant of the system\<close>

lemma fresh_exists: obtains i where "freshJob i d"
proof -
  let ?used = "lId ` set (dbJobs d) \<union> ltResourceID ` set (dbTransitions d)"
  obtain i where "i \<notin> ?used" using ex_new_if_finite [OF infinite_UNIV_listI, of ?used] by auto
  then have "freshJob i d" by (auto simp: freshJob_def trail_def filter_empty_conv)
  then show thesis by (rule that)
qed

text \<open>Changes of the rest of the database that the invariants do not see.\<close>

lemma run_inv_frame:
  assumes "dbJobs d' = dbJobs d" "dbTasks d' = dbTasks d" "dbPlans d' = dbPlans d" "dbRuns d' = dbRuns d"
    "dbLeases d' = dbLeases d" "dbTransitions d' = dbTransitions d" "snapshot_inv d'" "run_inv d"
  shows "run_inv d'"
  using assms by (simp add: run_inv_def store_inv_def queue_inv_def db_audited_def)

lemma replacePlan_inv: "run_inv d \<Longrightarrow> run_inv (replacePlan now u d)"
proof -
  assume inv: "run_inv d"
  have "audited ResPlan (dbTransitions d) (dbPlans (replacePlan now u d))"
    using inv unfolding replacePlan_def updateRow_def
    by (simp, intro audited_map) (auto simp: run_inv_def store_inv_def queue_inv_def db_audited_def)
  then show ?thesis using inv snapshot_inv_frame [of "replacePlan now u d" d]
    by (simp add: run_inv_def store_inv_def queue_inv_def db_audited_def) (simp add: replacePlan_def)
qed

lemma snapshot_steps_inv:
  assumes "snapshot_step d d'" "d' = d\<lparr>dbSnapshots := dbSnapshots d', dbAudits := dbAudits d'\<rparr>" "run_inv d"
  shows "run_inv d'"
  by (rule run_inv_frame [of d' d]) (use assms(2,3) step_keeps [OF assms(1)] in \<open>auto simp: run_inv_def store_inv_def elim: ssubst\<close>)

text \<open>Deleting rows.\<close>

lemma audited_filter: "audited resource ts t \<Longrightarrow> audited resource ts (filter P t)"
  by (auto simp: audited_def distinct_map_filter)

lemma exclusive_filter: "exclusive js \<Longrightarrow> exclusive (filter P js)"
  by (auto simp: exclusive_def)

lemma distinct_filter_map: "distinct (map f t) \<Longrightarrow> distinct (map f (filter P t))"
  by (simp add: distinct_map_filter)

lemma DeletePlan_frame:
  assumes "DeletePlan now i v d = Inr d'"
  obtains P Q R f where "dbJobs d' = filter P (dbJobs d)" "dbLeases d' = filter Q (dbLeases d)" "dbRuns d' = map f (filter R (dbRuns d))"
    "\<And>r. lId (f r) = lId r" "\<And>r. lStatus (f r) = lStatus r" "\<And>r. lVersion (f r) = lVersion r"
    "dbTransitions d' = dbTransitions d"
    "dbPlans d' = filter (\<lambda>p. lId p \<noteq> i) (dbPlans d)" "dbTasks d' = filter (\<lambda>t. ptPlan t \<noteq> i) (dbTasks d)"
    "dbSnapshots d' = filter (\<lambda>s. snPlan s \<noteq> i) (dbSnapshots d)" "dbAudits d' = filter (\<lambda>a. daPlan a \<noteq> i) (dbAudits d)"
proof -
  obtain p where p: "findRow i (dbPlans d) = Some p" using assms by (auto simp: DeletePlan_def split: option.splits)
  have d': "d' = deletePlanRow i (emit now (lProject p) ''plan.deleted'' ''plan'' i (v + 1) [] (deleteTaskJobs i d))"
    using assms by (auto simp: DeletePlan_def p split: if_splits)
  define jobIDs where "jobIDs = set (map lId (filter (planTask i (dbTasks d)) (dbJobs d)))"
  define taskIDs where "taskIDs = set (map lId (filter (\<lambda>t. ptPlan t = i) (dbTasks d)))"
  show thesis
    by (rule that [of "\<lambda>j. \<not> planTask i (dbTasks d) j" "\<lambda>l. wlJob l \<notin> jobIDs"
        "\<lambda>r. r\<lparr>arPlan := (if arPlan r = Some i then None else arPlan r),
           arTask := (case arTask r of None \<Rightarrow> None | Some k \<Rightarrow> if k \<in> taskIDs then None else Some k)\<rparr>"
        "\<lambda>r. case arJob r of None \<Rightarrow> True | Some k \<Rightarrow> k \<notin> jobIDs"])
      (simp_all add: d' deletePlanRow_def deleteTaskJobs_def Let_def jobIDs_def taskIDs_def cong: option.case_cong)
qed

lemma DeletePlan_inv:
  assumes "DeletePlan now i v d = Inr d'" "run_inv d"
  shows "run_inv d'"
  using assms(1)
proof (cases rule: DeletePlan_frame)
  case (1 P Q R f)
  note inv = assms(2) [unfolded run_inv_def store_inv_def queue_inv_def db_audited_def]
  have "audited ResAgentRun (dbTransitions d) (map f (filter R (dbRuns d)))"
    by (rule audited_map [OF audited_filter]) (use inv 1(4-6) in auto)
  moreover have "snapshot_inv d'" by (rule snapshot_inv_cascade [of d _ "\<lambda>k. k = i", OF _ 1(10,11)]) (use inv in simp)
  moreover have "oneActive (dbTasks d')" using inv by (auto simp: oneActive_def 1(9))
  ultimately show ?thesis
    using inv unfolding run_inv_def store_inv_def queue_inv_def db_audited_def 1(1-3,7-9)
    by (simp add: audited_filter exclusive_filter distinct_filter_map)
qed

section \<open>Every step keeps the invariant\<close>

lemma run_inv_before: "run_inv d \<Longrightarrow> freshJob i d \<Longrightarrow> store_fresh i d"
  by (simp add: run_inv_def store_fresh_def)

lemma system_step_inv:
  assumes "system_step d d'" "run_inv d"
  shows "run_inv d'"
proof -
  note inv = assms(2) and ids = run_inv_ids [OF assms(2)]
  have one: "oneActive (dbTasks d)" using inv by (simp add: run_inv_def)
  from assms(1) show ?thesis
  proof (cases rule: system_step.cases)
    case queue
    then show ?thesis using queue_step_inv [OF queue] queue_step_frame [OF queue] inv snapshot_inv_frame [of d' d]
      by (simp add: run_inv_def store_inv_def)
  next
    case (queue_plan i e u now s a sel p v j)
    then show ?thesis using running.queuePlanTx [OF _ run_inv_before [OF inv]] queuePlanTx_one [OF _ one ids]
      by (fastforce simp: QueuePlan_def run_inv_def)
  next
    case (queue_plan_automatically i e u now s a sel p jo)
    then show ?thesis using running.QueuePlanAutomatically [OF _ run_inv_before [OF inv]] QueuePlanAutomatically_one [OF _ one ids]
      by (fastforce simp: run_inv_def)
  next
    case (queue_task i u now sel t v j)
    then show ?thesis using running.QueueTask [OF _ run_inv_before [OF inv]] QueueTask_one [OF _ one ids]
      by (fastforce simp: run_inv_def)
  next
    case (start_task u now t r)
    obtain i where "freshJob i d" by (rule fresh_exists)
    from running.StartTask [OF start_task run_inv_before [OF inv this]] StartTask_one [OF start_task one ids]
    show ?thesis by (simp add: run_inv_def store_fresh_def)
  next
    case (finish_task i e u now s t sid b m)
    then show ?thesis using running.finishTask [OF _ run_inv_before [OF inv]] finishTask_one [OF _ one ids]
      by (fastforce simp: FinishTask_def run_inv_def)
  next
    case (finish_checkpoint i e u now s t sid b m wk)
    then show ?thesis using running.finishTask [OF _ run_inv_before [OF inv]] finishTask_one [OF _ one ids]
      by (fastforce simp: FinishTaskWithCheckpoint_def run_inv_def)
  next
    case capture
    show ?thesis by (rule snapshot_steps_inv [OF snapshot_step.checkpoint [OF capture] _ inv]) (use capture_checkpoint_frame [OF capture] in \<open>metis db.surjective db.update_convs(9,10)\<close>)
  next
    case accept
    show ?thesis by (rule snapshot_steps_inv [OF snapshot_step.accept [OF accept] accept_frame [OF accept] inv])
  next
    case (update e now i k v p row a)
    have "snapshot_inv d'" using step_keeps [OF snapshot_step.update [OF update]] inv by (simp add: run_inv_def store_inv_def)
    then show ?thesis using replacePlan_inv [OF inv, of now v]
      by (subst update_frame [OF update]) (simp add: run_inv_def store_inv_def queue_inv_def db_audited_def snapshot_inv_def snapshotsOk_def auditsOk_def)
  next
    case regenerate
    show ?thesis by (rule snapshot_steps_inv [OF snapshot_step.regenerate [OF regenerate] _ inv]) (use regenerate_frame [OF regenerate] in \<open>metis db.surjective db.update_convs(9,10)\<close>)
  next
    case abandon
    show ?thesis by (rule snapshot_steps_inv [OF snapshot_step.abandon [OF abandon] _ inv]) (use abandon_frame [OF abandon] in \<open>metis db.surjective db.update_convs(9,10)\<close>)
  next
    case (trigger new i old)
    have "snapshot_inv d'" using abandoned_keeps [of d i old new] inv by (simp add: trigger(1) run_inv_def store_inv_def)
    then show ?thesis
      by (intro run_inv_frame [OF _ _ _ _ _ _ _ inv]) (simp_all add: trigger(1) auditPlanExecutionAbandoned_def)
  qed (blast intro: inv DeletePlan_inv quiet_run.CancelJob quiet_run.ReturnTaskPending quiet_run.ReturnTaskQueuedForRetry
      quiet_run.StopTask quiet_run.StopPlan quiet_run.BlockTaskJobForDrift system_run.runtime_instances
      system_run.ReconcileInstanceShutdown system_run.ReconcileRuntimeState)+
qed

section \<open>Completed plans\<close>

lemma snapshot_completed: "dbPlans d' = dbPlans d \<Longrightarrow> k \<in> completedPlans d' - completedPlans d \<Longrightarrow> planDone k d'"
  using completed_frame [of d' d] by simp

lemma QueuePlanAutomatically_completed:
  "QueuePlanAutomatically e u now jobID snapID auditID selection planID d = Inr (d', j) \<Longrightarrow> completedPlans d' \<subseteq> completedPlans d"
  by (auto simp: QueuePlanAutomatically_def bindR_Inr_iff split: if_splits option.splits dest!: queuePlanTx_completed)

lemma replacePlan_completed: "completedPlans (replacePlan now u d) = completedPlans d"
proof -
  let ?f = "\<lambda>q. if lId q = upPlan u then q\<lparr>plTitle := upTitle u, plSpec := upSpec u, plMarkdown := upMarkdown u,
     plConfig := upConfig u, lUpdated := now, lVersion := lVersion q + 1, plContentVersion := plContentVersion q + 1\<rparr> else q"
  have f: "lId (?f q) = lId q" "lStatus (?f q) = lStatus q" for q :: plan by simp_all
  show ?thesis by (simp add: completedPlans_def replacePlan_def updateRow_def filter_map comp_def f image_image)
qed

lemma system_step_completes:
  assumes "system_step d d'" "k \<in> completedPlans d' - completedPlans d"
  shows "planDone k d'"
proof -
  note k = assms(2)
  have none: "planDone k d'" if "completedPlans d' \<subseteq> completedPlans d" using that k by blast
  note quiet = quiet_completed.CancelJob quiet_completed.ReturnTaskPending quiet_completed.ReturnTaskQueuedForRetry
    quiet_completed.StopTask quiet_completed.StopPlan quiet_completed.BlockTaskJobForDrift
    system_completed.runtime_instances system_completed.ReconcileInstanceShutdown system_completed.ReconcileRuntimeState
  from assms(1) show ?thesis
  proof (cases rule: system_step.cases)
    case queue
    then show ?thesis using queue_step_frame none completed_frame by blast
  next
    case queue_plan
    then show ?thesis using none queuePlanTx_completed unfolding QueuePlan_def by blast
  next
    case queue_plan_automatically
    then show ?thesis using none QueuePlanAutomatically_completed by blast
  next
    case queue_task
    then show ?thesis using none QueueTask_completed by blast
  next
    case start_task
    then show ?thesis using none StartTask_completed by blast
  next
    case finish_task
    then show ?thesis using finishTask_completes k unfolding FinishTask_def by blast
  next
    case finish_checkpoint
    then show ?thesis using finishTask_completes k unfolding FinishTaskWithCheckpoint_def by blast
  next
    case capture
    have "dbPlans d' = dbPlans d" by (subst capture_checkpoint_frame [OF capture]) simp
    then show ?thesis using none completed_frame by blast
  next
    case accept
    have "dbPlans d' = dbPlans d" by (subst accept_frame [OF accept]) simp
    then show ?thesis using none completed_frame by blast
  next
    case (update e now i j u p row a)
    have "dbPlans d' = dbPlans (replacePlan now u d)" by (subst update_frame [OF update]) simp
    then show ?thesis using none completed_frame replacePlan_completed by blast
  next
    case trigger
    have "dbPlans d' = dbPlans d" by (simp add: trigger(1) auditPlanExecutionAbandoned_def)
    then show ?thesis using none completed_frame by blast
  next
    case regenerate
    have "dbPlans d' = dbPlans d" by (subst regenerate_frame [OF regenerate]) simp
    then show ?thesis using none completed_frame by blast
  next
    case abandon
    have "dbPlans d' = dbPlans d" by (subst abandon_frame [OF abandon]) simp
    then show ?thesis using none completed_frame by blast
  next
    case delete_plan
    then have "completedPlans d' \<subseteq> completedPlans d" by (cases rule: DeletePlan_frame) (auto simp: completedPlans_def)
    then show ?thesis by (rule none)
  qed (auto intro!: none dest!: quiet [OF _ order_refl])
qed

section \<open>The properties\<close>

text \<open>A plan with one task, its queued job and a baseline.\<close>

definition workDb :: db where
  "workDb = baselineDb\<lparr>dbPlans := [samplePlan ''running''],
     dbTasks := [(sampleTask ''task'' ''queued'')\<lparr>ptType := ''final_validation''\<rparr>], dbJobs := [sampleJob ''j1'' ''queued'' None]\<rparr>"

definition leasedDb :: db where
  "leasedDb = committed (ClaimJob 11 [] ''w'' 60 workDb)"

definition startedDb :: db where
  "startedDb = committed (MarkJobRunning 12 ''j1'' ''w'' leasedDb)"

lemma workDb_inv: "run_inv workDb"
proof -
  have "dbTransitions workDb = []" "dbRuns workDb = []" "dbLeases workDb = []" by code_simp+
  moreover have "snapshot_inv workDb" using sample_inv snapshot_inv_frame [of workDb baselineDb] by (simp add: workDb_def)
  moreover have "exclusive (dbJobs workDb)" by (simp add: workDb_def exclusive_def)
  ultimately show ?thesis
    by (simp add: run_inv_def store_inv_def queue_inv_def db_audited_def audited_def trail_def explains_def oneActive_def)
      (simp add: workDb_def)
qed

lemma step_committed:
  assumes "\<not> isl r" "\<And>d' x. r = Inr (d', x) \<Longrightarrow> system_step d d'"
  shows "system_step d (committed r)"
  using assms by (cases r) (auto simp: committed_def)

lemma work_steps: "system_step workDb leasedDb" "system_step leasedDb startedDb"
proof -
  show "system_step workDb leasedDb" unfolding leasedDb_def
  proof (rule step_committed)
    show "\<not> isl (ClaimJob 11 [] ''w'' 60 workDb)" by code_simp
  qed (auto intro: system_step.queue queue_step.claim)
  show "system_step leasedDb startedDb" unfolding startedDb_def
  proof (rule step_committed)
    show "\<not> isl (MarkJobRunning 12 ''j1'' ''w'' leasedDb)" by code_simp
  qed (auto intro: system_step.queue queue_step.start)
qed

text \<open>C37. The invariant of the running system: at most one job of a project is leased or running, at
  most one task of a plan is queued or running, every status of a plan, task, job and run is explained
  by the audit trail, no workspace and no job has two leases, and the snapshots and audits of every plan
  are numbered chains. It holds after any sequence of operations of the queue, of running plans, of
  snapshots, of stopping, deleting, shutdown and recovery, whatever the clock, the workers, Git and the users do.\<close>

theorem run_invariant:
  assumes "system_step\<^sup>*\<^sup>* d d'" "run_inv d"
  shows "run_inv d'"
  using assms by (induction rule: rtranclp_induct) (auto intro: system_step_inv)

theorem run_invariant_witness: "system_step\<^sup>*\<^sup>* workDb startedDb \<and> run_inv startedDb"
proof -
  have steps: "system_step\<^sup>*\<^sup>* workDb startedDb" using work_steps by (meson r_into_rtranclp rtranclp_trans)
  from run_invariant [OF this workDb_inv] steps show ?thesis by simp
qed

text \<open>C38. No operation completes a plan that is not done: when a plan is completed after a step and
  was not before it, the plan has tasks and every one of them has succeeded with an acceptance result
  that does not block its successors, in the database after that very step.\<close>

theorem completed_only_when_done:
  assumes "system_step d d'" "k \<in> completedPlans d' - completedPlans d"
  shows "planDone k d'"
  using assms by (rule system_step_completes)

definition runningDb :: db where
  "runningDb = workDb\<lparr>dbTasks := [(sampleTask ''task'' ''running'')\<lparr>ptType := ''final_validation''\<rparr>],
     dbJobs := [sampleJob ''j1'' ''running'' (Some ''w'')]\<rparr>"

definition doneDb :: db where
  "doneDb = (case FinishTask sampleEnv ascii_unicode 14 ''j2'' ''s2'' (sampleTask ''task'' ''running'') ''ses'' True ''done'' runningDb of
     Inr d \<Rightarrow> d | Inl _ \<Rightarrow> runningDb)"

lemma done_step: "FinishTask sampleEnv ascii_unicode 14 ''j2'' ''s2'' (sampleTask ''task'' ''running'') ''ses'' True ''done'' runningDb = Inr doneDb"
proof -
  have "\<not> isl (FinishTask sampleEnv ascii_unicode 14 ''j2'' ''s2'' (sampleTask ''task'' ''running'') ''ses'' True ''done'' runningDb)"
    by code_simp
  then show ?thesis by (auto simp: doneDb_def split: sum.splits)
qed

theorem completed_only_when_done_witness: "''plan'' \<in> completedPlans doneDb \<and> planDone ''plan'' doneDb"
proof -
  have c: "''plan'' \<in> completedPlans doneDb" by code_simp
  have "''plan'' \<notin> completedPlans runningDb" by code_simp
  moreover have "freshJob ''j2'' runningDb" by (simp add: freshJob_def runningDb_def sampleJob_def newJobRow_def trail_def) code_simp
  ultimately show ?thesis using completed_only_when_done [OF system_step.finish_task [OF _ done_step]] c by simp
qed

text \<open>C39. A stopped plan comes to rest. After \<^verbatim>\<open>StopPlan\<close> the plan is in a final status, none of
  its tasks is queued and none of its jobs waits, is due for a retry or leased; the jobs that still run
  are exactly the ones returned, whose processes the caller signals. Other tasks and jobs are as before.\<close>

theorem StopPlan_quiesces:
  assumes "StopPlan now i v d = Inr (d', p, ids)" "run_inv d"
  shows "queuedTasks i d' = [] \<and> planJobs [''queued'', ''retry_wait'', ''leased''] i d' = [] \<and>
    ids = planJobs [''running''] i d' \<and> findRow i (dbPlans d') = Some p \<and> IsTerminalStatus ResPlan (lStatus p) \<and>
    filter (\<lambda>t. lId t \<notin> set (queuedTasks i d)) (dbTasks d') = filter (\<lambda>t. lId t \<notin> set (queuedTasks i d)) (dbTasks d) \<and>
    filter (\<lambda>j. lId j \<notin> set (planJobs [''queued'', ''retry_wait'', ''leased''] i d)) (dbJobs d') =
    filter (\<lambda>j. lId j \<notin> set (planJobs [''queued'', ''retry_wait'', ''leased''] i d)) (dbJobs d)"
  by (rule stop_plan_rests [OF assms])

definition stoppedDb :: db where
  "stoppedDb = committed (StopPlan 15 ''plan'' 1 workDb)"

theorem StopPlan_quiesces_witness:
  "map lStatus (dbPlans stoppedDb) = [''cancelled''] \<and> queuedTasks ''plan'' stoppedDb = [] \<and>
     planJobs [''queued'', ''retry_wait'', ''leased''] ''plan'' stoppedDb = []"
proof -
  have "\<not> isl (StopPlan 15 ''plan'' 1 workDb)" by code_simp
  then obtain d' p ids where s: "StopPlan 15 ''plan'' 1 workDb = Inr (d', p, ids)" by (cases "StopPlan 15 ''plan'' 1 workDb") auto
  then have "stoppedDb = d'" by (simp add: stoppedDb_def committed_def)
  moreover have "map lStatus (dbPlans stoppedDb) = [''cancelled'']" by code_simp
  ultimately show ?thesis using StopPlan_quiesces [OF s workDb_inv] by simp
qed

text \<open>C40. The verdict of a recovery pass on a job that the database calls leased, running or
  cancelling. A job is spared, with its runs and its workspace lease as they are, in exactly these cases (\<open>spared\<close>, which
  looks at the rows and the host only): it has no live run, its lease runs, and its owner, if it has one, beats; or it has
  a live run whose process this instance may look at and which is alive or cannot be told; or owner and run both beat; or,
  where no owner is known, its lease, the lock of its workspace and its run are all fresh. Every other job is no longer
  active after the pass and has neither a worker nor a lease.\<close>

theorem recovery_verdict:
  assumes "ReconcileRuntimeState h now observer d = Inr d'" "run_inv d" "j \<in> set (dbJobs d)" "lStatus j \<in> activeStatuses"
  shows "if spared h now observer d j
    then findRow (lId j) (dbJobs d') = Some j \<and> filter (\<lambda>r. arJob r = Some (lId j)) (dbRuns d') = filter (\<lambda>r. arJob r = Some (lId j)) (dbRuns d) \<and>
      filter (\<lambda>l. wlJob l = lId j) (dbLeases d') = filter (\<lambda>l. wlJob l = lId j) (dbLeases d)
    else settledJob (findRow (lId j) (dbJobs d'))"
  by (rule recovery_verdict_aux [OF assms])

definition sampleRun :: agent_run where
  "sampleRun = \<lparr>lId = ''r1'', lProject = ''proj'', lStatus = ''running'', lVersion = 1, lSource = ''system'', lCode = ''created'',
     lReason = ''resource created'', lActivity = 0, lHint = ''none'', lCheckpoint = [], lUpdated = 0,
     arPlan = None, arJob = Some ''j2'', arTask = None, arOperation = None, arExitCode = None, arSession = None,
     arTermination = None, arFailure = None, arDuration = 0, arStarted = 0, arFinished = None, arPid = Some 7,
     arOwner = ''inst'', arLogPath = ''/log'', arCreated = 0\<rparr>"

text \<open>Two running jobs: the process of \<^verbatim>\<open>j2\<close> is alive, \<^verbatim>\<open>j1\<close> has neither owner nor lease.\<close>

definition crashDb :: db where
  "crashDb = runningDb\<lparr>dbJobs := [sampleJob ''j1'' ''running'' (Some ''w''), (sampleJob ''j2'' ''running'' None)\<lparr>jType := ''plan.generate''\<rparr>],
     dbRuns := [sampleRun]\<rparr>"

definition sampleHost :: recovery_host where
  "sampleHost = \<lparr>rhKill = (\<lambda>pid. if pid = 7 then KillOk else KillNoProcess), rhStat = (\<lambda>_. None), rhModTime = (\<lambda>_. None)\<rparr>"

definition recoveredDb :: db where
  "recoveredDb = (case ReconcileRuntimeState sampleHost 1000000 [] crashDb of Inr d \<Rightarrow> d | Inl _ \<Rightarrow> crashDb)"

lemma recovered_step: "ReconcileRuntimeState sampleHost 1000000 [] crashDb = Inr recoveredDb"
proof -
  have "\<not> isl (ReconcileRuntimeState sampleHost 1000000 [] crashDb)" by code_simp
  then show ?thesis by (auto simp: recoveredDb_def split: sum.splits)
qed

lemma crashDb_inv: "run_inv crashDb"
proof -
  have "snapshot_inv crashDb" using workDb_inv snapshot_inv_frame [of crashDb workDb]
    by (simp add: crashDb_def runningDb_def run_inv_def store_inv_def)
  moreover have "exclusive (dbJobs crashDb)" by (simp add: crashDb_def exclusive_def activeTaskJob_def sampleJob_def newJobRow_def)
  moreover have "dbTransitions crashDb = []" "dbLeases crashDb = []" by code_simp+
  ultimately show ?thesis
    by (simp add: run_inv_def store_inv_def queue_inv_def db_audited_def audited_def trail_def explains_def oneActive_def)
      (simp add: crashDb_def runningDb_def workDb_def sampleJob_def newJobRow_def sampleRun_def)
qed

theorem recovery_verdict_witness:
  "settledJob (findRow ''j1'' (dbJobs recoveredDb)) \<and> map_option lStatus (findRow ''j2'' (dbJobs recoveredDb)) = Some ''running'' \<and>
   filter (\<lambda>r. arJob r = Some ''j2'') (dbRuns recoveredDb) = [sampleRun]"
proof -
  let ?j1 = "sampleJob ''j1'' ''running'' (Some ''w'')" and ?j2 = "(sampleJob ''j2'' ''running'' None)\<lparr>jType := ''plan.generate''\<rparr>"
  have jobs: "?j1 \<in> set (dbJobs crashDb)" "?j2 \<in> set (dbJobs crashDb)" by (simp_all add: crashDb_def)
  have ids: "lId ?j1 = ''j1''" "lId ?j2 = ''j2''" "lStatus ?j1 = ''running''" "lStatus ?j2 = ''running''"
    by (simp_all add: sampleJob_def newJobRow_def)
  have "\<not> spared sampleHost 1000000 [] crashDb ?j1" "spared sampleHost 1000000 [] crashDb ?j2" by code_simp+
  moreover have "filter (\<lambda>r. arJob r = Some ''j2'') (dbRuns crashDb) = [sampleRun]" by (simp add: crashDb_def sampleRun_def)
  ultimately show ?thesis
    using recovery_verdict [OF recovered_step crashDb_inv jobs(1)] recovery_verdict [OF recovered_step crashDb_inv jobs(2)] ids
    by (simp add: activeStatuses_def)
qed

section \<open>Where the code stops short\<close>

text \<open>A worker commits the return of its task and dies before it cancels the job of the stopped plan.
  From then on every recovery pass fails as a whole: the task is no longer in a status the pass expects.\<close>

definition stuckDb :: db where
  "stuckDb = runningDb\<lparr>dbPlans := [samplePlan ''cancelled''],
     dbTasks := [(sampleTask ''task'' ''pending'')\<lparr>ptType := ''final_validation''\<rparr>]\<rparr>"

lemma recovery_stuck: "ReconcileRuntimeState sampleHost 1000000 [] stuckDb = Inl ErrInvalidTransition"
  by code_simp

text \<open>An instance that shuts down while its job is leased and the task of the job still queued gets an
  error, and none of its work is stopped.\<close>

definition leasedOnlyDb :: db where
  "leasedOnlyDb = workDb\<lparr>dbJobs := [sampleJob ''j1'' ''leased'' (Some ''inst:0'')]\<rparr>"

lemma shutdown_refused: "ReconcileInstanceShutdown id 20 ''inst'' leasedOnlyDb = Inl ErrInvalidTransition"
  by code_simp

text \<open>An instance with a beat of 60 seconds registers itself again after its row was removed, and is then
  called dead 40 seconds later; before, it had three beats.\<close>

definition beat60 :: "db" where
  "beat60 = (case RegisterRuntimeInstance 0 ''inst'' (60 * 1000000000) emptyDb of Inr d \<Rightarrow> d | Inl _ \<Rightarrow> emptyDb)"

definition beatAgain :: "db" where
  "beatAgain = (case Option.bind (case UnregisterRuntimeInstance ''inst'' beat60 of Inr d \<Rightarrow> Some d | Inl _ \<Rightarrow> None)
     (\<lambda>d. case HeartbeatRuntimeInstance 0 ''inst'' d of Inr d \<Rightarrow> Some d | Inl _ \<Rightarrow> None) of Some d \<Rightarrow> d | None \<Rightarrow> emptyDb)"

lemma reregistered_with_default_beat:
  "rlFresh (runtimeInstanceLiveness ''inst'' 40000000 beat60)" "\<not> rlFresh (runtimeInstanceLiveness ''inst'' 40000000 beatAgain)"
  by code_simp+

end
