(* ===== verification/GitText.thy ===== *)
theory GitText
  imports CheckpointCapture "HOL-Library.AList"
begin

text \<open>
  What \<^verbatim>\<open>app/workspace.go\<close> and \<^verbatim>\<open>app/git_checkpoint.go\<close> read from Git's output: status
  records, index records, tree records, the name-status list of a diff and the numbers of
  \<^verbatim>\<open>--numstat\<close>. A parser that fails gives \<open>None\<close>; its error text is not kept.
\<close>

section \<open>Names\<close>

definition isGitObjectID :: "gostring \<Rightarrow> bool" where
  "isGitObjectID v \<longleftrightarrow> \<not> (length v \<noteq> 40 \<and> length v \<noteq> 64) \<and> even (length v) \<and> list_all isHexChar v"

definition isSHA256 :: "gostring \<Rightarrow> bool" where
  "isSHA256 v \<longleftrightarrow> length v = 64 \<and> even (length v) \<and> list_all isHexChar v"

text \<open>On Unix a path has no volume name and \<^verbatim>\<open>FromSlash\<close> is the identity.\<close>

definition safeGitRelativePath :: "gostring \<Rightarrow> bool" where
  "safeGitRelativePath p \<longleftrightarrow>
     p \<noteq> [] \<and> \<not> isAbs p \<and>
     (let c = goClean p in c \<noteq> ''.'' \<and> c \<noteq> ''..'' \<and> \<not> hasPrefix c ''../'')"

section \<open>Status records\<close>

record porcelain_record =
  prStatus :: gostring
  prPath :: gostring
  prOriginal :: gostring

definition statusHasOriginalPath :: "gostring \<Rightarrow> bool" where
  "statusHasOriginalPath s \<longleftrightarrow> length s = 2 \<and>
     (s ! 0 = CHR ''R'' \<or> s ! 0 = CHR ''C'' \<or> s ! 1 = CHR ''R'' \<or> s ! 1 = CHR ''C'')"

definition isConflictStatus :: "gostring \<Rightarrow> bool" where
  "isConflictStatus s \<longleftrightarrow> s \<in> {''DD'', ''AU'', ''UD'', ''UA'', ''DU'', ''AA'', ''UU''}"

definition statusRecord :: "gostring \<Rightarrow> gostring \<Rightarrow> porcelain_record option" where
  "statusRecord part original =
     (let r = \<lparr>prStatus = take 2 part, prPath = drop 3 part, prOriginal = original\<rparr> in
      if \<not> safeGitRelativePath (prPath r) \<or> (original \<noteq> [] \<and> \<not> safeGitRelativePath original) then None
      else Some r)"

fun porcelainLoop :: "gostring list \<Rightarrow> porcelain_record list option" where
  "porcelainLoop [] = Some []"
| "porcelainLoop (part # rest) =
     (if part = [] then porcelainLoop rest
      else if length part < 4 \<or> part ! 2 \<noteq> CHR '' '' then None
      else if statusHasOriginalPath (take 2 part)
      then (case rest of
              [] \<Rightarrow> None
            | original # rest2 \<Rightarrow>
                if original = [] then None
                else Option.bind (statusRecord part original) (\<lambda>r. map_option ((#) r) (porcelainLoop rest2)))
      else Option.bind (statusRecord part []) (\<lambda>r. map_option ((#) r) (porcelainLoop rest)))"

definition parsePorcelainV1Z :: "gostring \<Rightarrow> porcelain_record list option" where
  "parsePorcelainV1Z raw = (if raw = [] then Some [] else porcelainLoop (splitOn CHR 0x00 raw))"

section \<open>The index\<close>

text \<open>\<^verbatim>\<open>parseIndexEntries\<close>: the records of a path in the order read, sorted at the end.\<close>

fun indexEntriesLoop :: "(gostring \<times> gostring list) list \<Rightarrow> gostring list \<Rightarrow> (gostring \<times> gostring list) list option" where
  "indexEntriesLoop m [] = Some m"
| "indexEntriesLoop m (part # rest) =
     (if part = [] then indexEntriesLoop m rest
      else (case goCut (CHR 0x09) part of
          (meta, Some path) \<Rightarrow>
            if path = [] \<or> \<not> safeGitRelativePath path then None
            else indexEntriesLoop (AList.update path ((case map_of m path of None \<Rightarrow> [] | Some xs \<Rightarrow> xs) @ [meta]) m) rest
        | (_, None) \<Rightarrow> None))"

definition parseIndexEntries :: "gostring \<Rightarrow> (gostring \<times> gostring list) list option" where
  "parseIndexEntries raw =
     map_option (map (\<lambda>(p, xs). (p, sortStrings xs))) (indexEntriesLoop [] (splitOn CHR 0x00 raw))"

text \<open>The submodules of the index, as \<^verbatim>\<open>readStatus\<close> collects them: the set as a list of its members.\<close>

fun submoduleLoop :: "gostring list \<Rightarrow> gostring list \<Rightarrow> gostring list option" where
  "submoduleLoop acc [] = Some acc"
| "submoduleLoop acc (part # rest) =
     (if part = [] then submoduleLoop acc rest
      else (case goCut (CHR 0x09) part of
          (meta, Some path) \<Rightarrow>
            if (case goFields meta of mode # _ \<Rightarrow> mode = ''160000'' | [] \<Rightarrow> False)
            then if safeGitRelativePath path then submoduleLoop (List.insert path acc) rest else None
            else submoduleLoop acc rest
        | (_, None) \<Rightarrow> None))"

section \<open>Trees\<close>

record tree_entry =
  teMode :: gostring
  teType :: gostring
  teOID :: gostring
  tePath :: gostring

text \<open>A Go map from paths to entries, written again for a repeated path.\<close>

type_synonym tree_listing = "(gostring \<times> tree_entry) list"

fun treeLoop :: "tree_listing \<Rightarrow> gostring list \<Rightarrow> tree_listing option" where
  "treeLoop m [] = Some m"
| "treeLoop m (part # rest) =
     (if part = [] then treeLoop m rest
      else (case goCut (CHR 0x09) part of
          (meta, Some path) \<Rightarrow>
            if path = [] then None
            else (case goFields meta of
                [mode, typ, oid] \<Rightarrow>
                  if \<not> safeGitRelativePath path then None
                  else treeLoop (AList.update path \<lparr>teMode = mode, teType = typ, teOID = oid, tePath = path\<rparr> m) rest
              | _ \<Rightarrow> None)
        | (_, None) \<Rightarrow> None))"

definition parseTree :: "gostring \<Rightarrow> tree_listing option" where
  "parseTree output = treeLoop [] (splitOn CHR 0x00 output)"

lemma treeLoop_safe:
  "treeLoop m ps = Some t \<Longrightarrow> list_all safeGitRelativePath (map fst m) \<Longrightarrow> distinct (map fst m) \<Longrightarrow>
     list_all safeGitRelativePath (map fst t) \<and> distinct (map fst t)"
proof (induction m ps rule: treeLoop.induct)
  case (2 m part rest)
  then show ?case
    by (auto split: if_splits prod.splits option.splits list.splits simp: distinct_update)
       (auto simp: list_all_iff update_keys)
qed simp

text \<open>Every path that a tree listing names is relative, stays below the root and is named once.\<close>

lemma parseTree_safe: "parseTree out = Some t \<Longrightarrow> list_all safeGitRelativePath (map fst t) \<and> distinct (map fst t)"
  using treeLoop_safe [of "[]" "splitOn CHR 0x00 out" t] by (simp add: parseTree_def)

section \<open>Differences\<close>

datatype change_status =
    GitChangeAdded | GitChangeModified | GitChangeDeleted | GitChangeRenamed | GitChangeCopied
  | GitChangeType | GitChangeUnknown

record name_status_change =
  ncStatus :: change_status
  ncPath :: gostring
  ncPrevious :: gostring
  ncSimilarity :: int

definition oldLookupPath :: "name_status_change \<Rightarrow> gostring" where
  "oldLookupPath c = (if ncPrevious c \<noteq> [] then ncPrevious c else ncPath c)"

definition changeStatus :: "char \<Rightarrow> change_status" where
  "changeStatus c =
     (if c = CHR ''A'' then GitChangeAdded else if c = CHR ''M'' then GitChangeModified
      else if c = CHR ''D'' then GitChangeDeleted else if c = CHR ''T'' then GitChangeType
      else if c = CHR ''R'' then GitChangeRenamed else if c = CHR ''C'' then GitChangeCopied
      else GitChangeUnknown)"

definition checkedChange :: "name_status_change \<Rightarrow> name_status_change option" where
  "checkedChange c =
     (if \<not> safeGitRelativePath (ncPath c) \<or> (ncPrevious c \<noteq> [] \<and> \<not> safeGitRelativePath (ncPrevious c))
      then None else Some c)"

text \<open>The value \<^verbatim>\<open>strconv.Atoi\<close> returns beside its error: 0, or the nearest bound of the range.\<close>

definition atoiValue :: "gostring \<Rightarrow> int" where
  "atoiValue s =
     (case goAtoi s of
        Some n \<Rightarrow> n
      | None \<Rightarrow>
          (let neg = hasPrefix s ''-''; ds = (if neg \<or> hasPrefix s ''+'' then tl s else s) in
           if ds = [] \<or> \<not> list_all isDigitChar ds then 0 else if neg then - (2 ^ 63) else 2 ^ 63 - 1))"

fun nameStatusZLoop :: "gostring list \<Rightarrow> name_status_change list option" where
  "nameStatusZLoop [] = Some []"
| "nameStatusZLoop (code # rest) =
     (if code = [] then nameStatusZLoop rest
      else (case rest of
          [] \<Rightarrow> None
        | first # rest1 \<Rightarrow>
            if first = [] then None
            else let status = changeStatus (hd code) in
              if status = GitChangeRenamed \<or> status = GitChangeCopied
              then (case rest1 of
                  [] \<Rightarrow> None
                | second # rest2 \<Rightarrow>
                    if second = [] then None
                    else Option.bind
                      (checkedChange \<lparr>ncStatus = status, ncPath = second, ncPrevious = first,
                         ncSimilarity = atoiValue (tl code)\<rparr>)
                      (\<lambda>c. map_option ((#) c) (nameStatusZLoop rest2)))
              else Option.bind
                (checkedChange \<lparr>ncStatus = status, ncPath = first, ncPrevious = [], ncSimilarity = 0\<rparr>)
                (\<lambda>c. map_option ((#) c) (nameStatusZLoop rest1))))"

definition parseNameStatusZ :: "gostring \<Rightarrow> name_status_change list option" where
  "parseNameStatusZ raw = nameStatusZLoop (splitOn CHR 0x00 raw)"

text \<open>The lines of \<^verbatim>\<open>git diff --numstat\<close>: additions, deletions, and whether a file is binary.\<close>

definition numstatLine :: "int \<times> int \<times> bool \<Rightarrow> gostring \<Rightarrow> int \<times> int \<times> bool" where
  "numstatLine acc line = (case acc of (additions, deletions, binary) \<Rightarrow>
     (case goCut (CHR 0x09) line of
        (_, None) \<Rightarrow> acc
      | (first, Some others) \<Rightarrow>
          (let second = fst (goCut (CHR 0x09) others) in
           if first = ''-'' \<or> second = ''-'' then (additions, deletions, True)
           else ((case goAtoi first of Some n \<Rightarrow> wrapInt (additions + n) | None \<Rightarrow> additions),
                 (case goAtoi second of Some n \<Rightarrow> wrapInt (deletions + n) | None \<Rightarrow> deletions), binary))))"

definition numstat :: "gostring \<Rightarrow> int \<times> int \<times> bool" where
  "numstat output = foldl numstatLine (0, 0, False) (splitOn (CHR 0x0A) (trimSpace output))"

end
