(* ===== verification/HostIO.thy ===== *)
theory HostIO
  imports Paths GitText
begin

text \<open>
  The outside of the Git checkpoint engine: a disk with directories, regular files and symbolic links,
  the calls of the package \<^verbatim>\<open>os\<close> that the engine makes on it, and Git. A step has an effect
  even when it fails, so it is a function from the state to the state and a result. Git, the faults of
  the operating system, random names, SHA-256 and the JSON printer are the parameter \<open>host\<close>; what
  it answers may depend on all calls made before. Nobody else changes the disk meanwhile.
\<close>

named_theorems io_defs \<open>definitions of the combinators of steps\<close>

section \<open>The disk\<close>

text \<open>A disk names what is at a path, the list of the elements below the root of the file system.\<close>

datatype node = NFile gostring int | NLink gostring | NDir | NSpecial

type_synonym location = "gostring list"
type_synonym disk = "(location \<times> node) list"

definition nodeAt :: "disk \<Rightarrow> location \<Rightarrow> node option" where
  "nodeAt d l = (if l = [] then Some NDir else map_of d l)"

definition childrenOf :: "disk \<Rightarrow> location \<Rightarrow> gostring list" where
  "childrenOf d l = map last (filter (\<lambda>x. x \<noteq> [] \<and> butlast x = l) (map fst d))"

text \<open>
  Resolving a path: symbolic links on the way are followed, at most as many as the first argument;
  the last element may be anything that exists and is followed too.
\<close>

datatype found = Found location | Missing | Broken

function follow :: "nat \<Rightarrow> disk \<Rightarrow> location \<Rightarrow> gostring list \<Rightarrow> found" where
  "follow n d cur [] = Found cur"
| "follow n d cur (e # es) =
     (if e = [] \<or> e = ''.'' then follow n d cur es
      else if e = ''..'' then follow n d (butlast cur) es
      else (case nodeAt d (cur @ [e]) of
          None \<Rightarrow> Missing
        | Some NDir \<Rightarrow> follow n d (cur @ [e]) es
        | Some (NLink t) \<Rightarrow>
            (case n of 0 \<Rightarrow> Broken
             | Suc m \<Rightarrow> follow m d (if isAbs t then [] else cur) (splitOn slash t @ es))
        | Some _ \<Rightarrow> if es = [] then Found (cur @ [e]) else Broken))"
  by pat_completeness auto
termination by (relation "measures [\<lambda>(n, _, _, _). n, \<lambda>(_, _, _, es). length es]") auto

text \<open>The kernel follows 40 links on the way to the directory of the last element and leaves that one alone.\<close>

definition locate :: "disk \<Rightarrow> gostring \<Rightarrow> found" where
  "locate d p =
     (case rev (pathElems p) of
        [] \<Rightarrow> Found []
      | e # es \<Rightarrow>
          (case follow 40 d [] (rev es) of
             Found c \<Rightarrow> if nodeAt d c = Some NDir then Found (c @ [e]) else Broken
           | r \<Rightarrow> r))"

section \<open>Steps\<close>

datatype git_error =
    ErrNotGitWorkspace | ErrUnsafeGitWorkspace | ErrGitRepository | ErrCheckpointMismatch
  | ErrWorkspaceChanged | ErrDiffUnavailable | ErrPath path_error
  | OsNotExist | OsError | GitFailed | GitText gostring

datatype host_call =
    CallGit git_command | CallLstat gostring | CallEval gostring | CallReadDir gostring
  | CallReadFile gostring | CallRemove gostring | CallMkdir gostring | CallCreate gostring
  | CallWrite gostring gostring | CallChmod gostring | CallSync gostring | CallClose gostring
  | CallRename gostring gostring | CallSymlink gostring gostring

record host =
  hoCwd :: gostring
  hoGit :: "host_call list \<Rightarrow> disk \<Rightarrow> git_command \<Rightarrow> gostring option"
  hoFault :: "host_call list \<Rightarrow> host_call \<Rightarrow> bool"
  hoRandom :: "host_call list \<Rightarrow> nat"
  hoWalk :: "host_call list \<Rightarrow> gostring list \<Rightarrow> gostring list"
  hoTempDir :: gostring
  hoNow :: "host_call list \<Rightarrow> gostring"
  hoSha256 :: "gostring \<Rightarrow> gostring"
  hoPrint :: "json \<Rightarrow> gostring"

record host_state =
  hsDisk :: disk
  hsHistory :: "host_call list"

type_synonym 'a io = "host_state \<Rightarrow> host_state \<times> (git_error + 'a)"

definition pureIO :: "'a \<Rightarrow> 'a io" where
  "pureIO x s = (s, Inr x)"

definition failIO :: "git_error \<Rightarrow> 'a io" where
  "failIO e s = (s, Inl e)"

definition bindIO :: "'a io \<Rightarrow> ('a \<Rightarrow> 'b io) \<Rightarrow> 'b io" where
  "bindIO m f s = (case m s of (s1, Inl e) \<Rightarrow> (s1, Inl e) | (s1, Inr x) \<Rightarrow> f x s1)"

text \<open>\<^verbatim>\<open>_, err := m\<close>: the code looks at the error itself.\<close>

definition attemptIO :: "'a io \<Rightarrow> (git_error + 'a) io" where
  "attemptIO m s = (case m s of (s1, r) \<Rightarrow> (s1, Inr r))"

text \<open>\<^verbatim>\<open>fmt.Errorf("...: %w", err)\<close> with another error of the package in front.\<close>

definition wrapIO :: "(git_error \<Rightarrow> git_error) \<Rightarrow> 'a io \<Rightarrow> 'a io" where
  "wrapIO f m s = (case m s of (s1, Inl e) \<Rightarrow> (s1, Inl (f e)) | r \<Rightarrow> r)"

text \<open>A deferred clean-up that runs when the function fails; its own failure is ignored.\<close>

definition onFailure :: "'a io \<Rightarrow> unit io \<Rightarrow> 'a io" where
  "onFailure m c s = (case m s of (s1, Inl e) \<Rightarrow> (fst (c s1), Inl e) | r \<Rightarrow> r)"

text \<open>A deferred clean-up that always runs.\<close>

definition finallyIO :: "'a io \<Rightarrow> unit io \<Rightarrow> 'a io" where
  "finallyIO m c s = (case m s of (s1, r) \<Rightarrow> (fst (c s1), r))"

definition liftIO :: "path_error + 'a \<Rightarrow> 'a io" where
  "liftIO r s = (s, case r of Inl e \<Rightarrow> Inl (ErrPath e) | Inr x \<Rightarrow> Inr x)"

fun forIO :: "('a \<Rightarrow> unit io) \<Rightarrow> 'a list \<Rightarrow> unit io" where
  "forIO f [] = pureIO ()"
| "forIO f (x # xs) = bindIO (f x) (\<lambda>_. forIO f xs)"

declare pureIO_def [io_defs] failIO_def [io_defs] bindIO_def [io_defs] attemptIO_def [io_defs]
  wrapIO_def [io_defs] onFailure_def [io_defs] finallyIO_def [io_defs] liftIO_def [io_defs]

section \<open>Calls\<close>

text \<open>A call is recorded; it fails when the host lets it, or acts on the disk.\<close>

definition osCall :: "host \<Rightarrow> host_call \<Rightarrow> (disk \<Rightarrow> git_error + disk \<times> 'a) \<Rightarrow> 'a io" where
  "osCall h c act s =
     (let s1 = s\<lparr>hsHistory := hsHistory s @ [c]\<rparr> in
      if hoFault h (hsHistory s) c then (s1, Inl OsError)
      else (case act (hsDisk s) of Inl e \<Rightarrow> (s1, Inl e) | Inr (d, x) \<Rightarrow> (s1\<lparr>hsDisk := d\<rparr>, Inr x)))"

text \<open>An action on the location that a path names.\<close>

definition onLocation :: "gostring \<Rightarrow> (disk \<Rightarrow> location \<Rightarrow> git_error + disk \<times> 'a) \<Rightarrow> disk \<Rightarrow> git_error + disk \<times> 'a" where
  "onLocation p act d =
     (case locate d p of Missing \<Rightarrow> Inl OsNotExist | Broken \<Rightarrow> Inl OsError | Found l \<Rightarrow> act d l)"

definition kindOf :: "node option \<Rightarrow> lstat" where
  "kindOf n = (case n of None \<Rightarrow> NotExist | Some NDir \<Rightarrow> Directory | Some (NLink _) \<Rightarrow> Symlink | Some _ \<Rightarrow> OtherFile)"

definition lstatKind :: "disk \<Rightarrow> gostring \<Rightarrow> lstat" where
  "lstatKind d p =
     (case locate d p of Missing \<Rightarrow> NotExist | Broken \<Rightarrow> StatError | Found l \<Rightarrow> kindOf (nodeAt d l))"

text \<open>\<^verbatim>\<open>os.Lstat\<close> answers with a kind, \<open>NotExist\<close> and \<open>StatError\<close> among them.\<close>

definition osLstat :: "host \<Rightarrow> gostring \<Rightarrow> lstat io" where
  "osLstat h p s =
     (s\<lparr>hsHistory := hsHistory s @ [CallLstat p]\<rparr>,
      Inr (if hoFault h (hsHistory s) (CallLstat p) then StatError else lstatKind (hsDisk s) p))"

text \<open>What the path functions of \<^verbatim>\<open>security\<close> see; \<^verbatim>\<open>EvalSymlinks\<close> gives up after 255 links.\<close>

definition hostFs :: "host \<Rightarrow> host_state \<Rightarrow> filesystem" where
  "hostFs h s =
     \<lparr>fsCwd = hoCwd h,
      fsEval = (\<lambda>p. if hoFault h (hsHistory s) (CallEval p) then None
        else (case follow 255 (hsDisk s) [] (pathElems p) of Found l \<Rightarrow> Some (renderPath True l) | _ \<Rightarrow> None)),
      fsMissing = (\<lambda>p. \<not> hoFault h (hsHistory s) (CallEval p) \<and> follow 255 (hsDisk s) [] (pathElems p) = Missing),
      fsLstat = (\<lambda>p. if hoFault h (hsHistory s) (CallLstat p) then StatError else lstatKind (hsDisk s) p)\<rparr>"

text \<open>A function of \<^verbatim>\<open>security\<close> on the disk as it is.\<close>

definition pathIO :: "host \<Rightarrow> (filesystem \<Rightarrow> path_error + 'a) \<Rightarrow> 'a io" where
  "pathIO h f s = liftIO (f (hostFs h s)) s"

definition osReadDir :: "host \<Rightarrow> gostring \<Rightarrow> gostring list io" where
  "osReadDir h p = osCall h (CallReadDir p) (onLocation p (\<lambda>d l.
     if nodeAt d l = Some NDir then Inr (d, sortStrings (childrenOf d l)) else Inl OsError))"

definition osReadFile :: "host \<Rightarrow> gostring \<Rightarrow> gostring io" where
  "osReadFile h p = osCall h (CallReadFile p) (\<lambda>d.
     case follow 40 d [] (pathElems p) of
       Missing \<Rightarrow> Inl OsNotExist
     | Broken \<Rightarrow> Inl OsError
     | Found l \<Rightarrow> (case nodeAt d l of Some (NFile c _) \<Rightarrow> Inr (d, c) | _ \<Rightarrow> Inl OsError))"

text \<open>\<^verbatim>\<open>os.Remove\<close>: a file, a link or an empty directory.\<close>

definition osRemove :: "host \<Rightarrow> gostring \<Rightarrow> unit io" where
  "osRemove h p = osCall h (CallRemove p) (onLocation p (\<lambda>d l.
     case nodeAt d l of
       None \<Rightarrow> Inl OsNotExist
     | Some NDir \<Rightarrow> if l = [] \<or> childrenOf d l \<noteq> [] then Inl OsError else Inr (AList.delete l d, ())
     | Some _ \<Rightarrow> Inr (AList.delete l d, ())))"

text \<open>A new entry, where there is none.\<close>

definition newEntry :: "node \<Rightarrow> disk \<Rightarrow> location \<Rightarrow> git_error + disk \<times> unit" where
  "newEntry n d l = (if nodeAt d l = None then Inr (AList.update l n d, ()) else Inl OsError)"

definition osMkdir :: "host \<Rightarrow> gostring \<Rightarrow> unit io" where
  "osMkdir h p = osCall h (CallMkdir p) (onLocation p (newEntry NDir))"

definition osCreateNew :: "host \<Rightarrow> gostring \<Rightarrow> unit io" where
  "osCreateNew h p = osCall h (CallCreate p) (onLocation p (newEntry (NFile [] 384)))"

definition osSymlink :: "host \<Rightarrow> gostring \<Rightarrow> gostring \<Rightarrow> unit io" where
  "osSymlink h target p = osCall h (CallSymlink target p) (onLocation p (newEntry (NLink target)))"

text \<open>Writing and changing the mode of a file that was opened under a name.\<close>

definition changeFile :: "(gostring \<Rightarrow> int \<Rightarrow> node) \<Rightarrow> disk \<Rightarrow> location \<Rightarrow> git_error + disk \<times> unit" where
  "changeFile f d l =
     (case nodeAt d l of Some (NFile c m) \<Rightarrow> Inr (AList.update l (f c m) d, ()) | _ \<Rightarrow> Inl OsError)"

definition osWrite :: "host \<Rightarrow> gostring \<Rightarrow> gostring \<Rightarrow> unit io" where
  "osWrite h p content = osCall h (CallWrite p content) (onLocation p (changeFile (\<lambda>c m. NFile (c @ content) m)))"

definition osChmod :: "host \<Rightarrow> gostring \<Rightarrow> int \<Rightarrow> unit io" where
  "osChmod h p mode = osCall h (CallChmod p) (onLocation p (changeFile (\<lambda>c m. NFile c mode)))"

definition osSync :: "host \<Rightarrow> gostring \<Rightarrow> unit io" where
  "osSync h p = osCall h (CallSync p) (\<lambda>d. Inr (d, ()))"

definition osClose :: "host \<Rightarrow> gostring \<Rightarrow> unit io" where
  "osClose h p = osCall h (CallClose p) (\<lambda>d. Inr (d, ()))"

text \<open>\<^verbatim>\<open>os.Rename\<close> of something that is not a directory replaces what is not a directory.\<close>

definition osRename :: "host \<Rightarrow> gostring \<Rightarrow> gostring \<Rightarrow> unit io" where
  "osRename h a b = osCall h (CallRename a b) (onLocation a (\<lambda>d l.
     case nodeAt d l of
       None \<Rightarrow> Inl OsNotExist
     | Some NDir \<Rightarrow> Inl OsError
     | Some n \<Rightarrow> onLocation b (\<lambda>d l2.
         if nodeAt d l2 = Some NDir then Inl OsError
         else Inr (AList.update l2 n (AList.delete l d), ())) d))"

text \<open>A call on a file of the directory for temporary files, which the disk of the model leaves out.\<close>

definition tempCall :: "host \<Rightarrow> host_call \<Rightarrow> unit io" where
  "tempCall h c = osCall h c (\<lambda>d. Inr (d, ()))"

text \<open>A name that ends with a number drawn at random, and a random \<^verbatim>\<open>uuid\<close>.\<close>

definition freshName :: "host \<Rightarrow> gostring \<Rightarrow> gostring io" where
  "freshName h stem s = (s, Inr (stem @ showNat (hoRandom h (hsHistory s))))"

definition uuidText :: "nat \<Rightarrow> gostring" where
  "uuidText n =
     hexPad 8 (n div 2 ^ 96) @ ''-'' @ hexPad 4 (n div 2 ^ 80) @ ''-'' @ hexPad 4 (n div 2 ^ 64) @ ''-''
     @ hexPad 4 (n div 2 ^ 48) @ ''-'' @ hexPad 12 n"

definition freshUuid :: "host \<Rightarrow> gostring io" where
  "freshUuid h s = (s, Inr (uuidText (hoRandom h (hsHistory s))))"

text \<open>A Git command; it works on its own directory and not on the disk of the model.\<close>

definition gitCall :: "host \<Rightarrow> git_command \<Rightarrow> gostring io" where
  "gitCall h c s =
     (s\<lparr>hsHistory := hsHistory s @ [CallGit c]\<rparr>,
      case hoGit h (hsHistory s) (hsDisk s) c of None \<Rightarrow> Inl GitFailed | Some out \<Rightarrow> Inr out)"

text \<open>The order in which Go walks over a map with these keys: any order, picked by the host.\<close>

definition walkOrder :: "host \<Rightarrow> host_state \<Rightarrow> gostring list \<Rightarrow> gostring list" where
  "walkOrder h s ks =
     (let w = hoWalk h (hsHistory s) ks in
      if distinct w \<and> list_all (\<lambda>k. k \<in> set ks) w \<and> list_all (\<lambda>k. k \<in> set w) ks then w else ks)"

end
