(* ===== verification/DiskResults.thy ===== *)
theory DiskResults
  imports HostIO PathsResults
begin

text \<open>
  Reasoning about steps on the disk: which location a path names when no link is on the way, what
  each call changes, and rules that carry a property of the disk through the combinators, on the
  normal return and on every error return.
\<close>

section \<open>Trees\<close>

definition isLink :: "node option \<Rightarrow> bool" where
  "isLink n = (case n of Some (NLink _) \<Rightarrow> True | _ \<Rightarrow> False)"

text \<open>Every entry lies in a directory.\<close>

definition treeDisk :: "disk \<Rightarrow> bool" where
  "treeDisk d = list_all (\<lambda>(l, _). l = [] \<or> nodeAt d (butlast l) = Some NDir) d"

lemma nodeAt_Nil [simp]: "nodeAt d [] = Some NDir"
  by (simp add: nodeAt_def)

lemma treeDisk_iff: "treeDisk d \<longleftrightarrow> (\<forall>l. l \<noteq> [] \<longrightarrow> nodeAt d l \<noteq> None \<longrightarrow> nodeAt d (butlast l) = Some NDir)"
proof -
  have k: "(\<exists>n. map_of d l = Some n) = (l \<in> fst ` set d)" for l by (metis domIff dom_map_of_conv_image_fst not_Some_eq)
  show ?thesis unfolding treeDisk_def list_all_iff
    by (auto simp: nodeAt_def k split: if_splits) (metis fst_conv image_eqI k not_Some_eq)+
qed

lemma tree_parents:
  assumes "treeDisk d" "nodeAt d l \<noteq> None" "strict_prefix xs l" shows "nodeAt d xs = Some NDir"
  using assms(2,3)
proof (induction l rule: rev_induct)
  case (snoc x l)
  then have "nodeAt d l = Some NDir"
    using assms(1) unfolding treeDisk_iff by (metis append_is_Nil_conv butlast_snoc list.distinct(1))
  moreover have "xs = l \<or> strict_prefix xs l" using snoc.prems(2) by (auto simp: strict_prefix_def)
  ultimately show ?case using snoc.IH by auto
qed simp

lemma nodeAt_update [simp]: "l \<noteq> [] \<Longrightarrow> nodeAt (AList.update l n d) xs = (if xs = l then Some n else nodeAt d xs)"
  by (simp add: nodeAt_def update_conv')

lemma nodeAt_delete [simp]: "l \<noteq> [] \<Longrightarrow> nodeAt (AList.delete l d) xs = (if xs = l then None else nodeAt d xs)"
  by (simp add: nodeAt_def delete_conv')

lemma childrenOf_Nil:
  "childrenOf d l = [] \<longleftrightarrow> (\<forall>x. nodeAt d (l @ [x]) = None)"
proof -
  have "nodeAt d (l @ [x]) = None \<longleftrightarrow> l @ [x] \<notin> set (map fst d)" for x
    by (simp add: nodeAt_def map_of_eq_None_iff)
  moreover have "childrenOf d l = [] \<longleftrightarrow> (\<forall>y \<in> set (map fst d). y = [] \<or> butlast y \<noteq> l)"
    by (auto simp: childrenOf_def filter_empty_conv)
  moreover have "\<dots> \<longleftrightarrow> (\<forall>x. l @ [x] \<notin> set (map fst d))"
    by (metis append_butlast_last_id append_is_Nil_conv butlast_snoc list.distinct(1))
  ultimately show ?thesis by simp
qed

section \<open>The location of a path\<close>

text \<open>No link lies strictly above a location.\<close>

definition clearTo :: "disk \<Rightarrow> location \<Rightarrow> bool" where
  "clearTo d l \<longleftrightarrow> (\<forall>xs. strict_prefix xs l \<longrightarrow> \<not> isLink (nodeAt d xs))"

lemma strict_take: "strict_prefix (take k es) (es @ [e])"
  using append_take_drop_id [of k es] by (metis append_assoc append_is_Nil_conv list.distinct(1) prefixI
    strict_prefix_def append_self_conv)

lemma follow_found:
  assumes "follow n d cur es = Found l" "list_all plainElem es"
    "\<And>k. k < length es \<Longrightarrow> \<not> isLink (nodeAt d (cur @ take (Suc k) es))" "nodeAt d cur = Some NDir"
  shows "l = cur @ es \<and> (\<forall>k < length es. nodeAt d (cur @ take k es) = Some NDir)"
  using assms
proof (induction es arbitrary: cur)
  case (Cons e es)
  have e: "e \<noteq> []" "e \<noteq> ''.''" "e \<noteq> ''..''" and es: "list_all plainElem es"
    using Cons.prems(2) by (simp_all add: plainElem_def [of e])
  have c: "\<not> isLink (nodeAt d (cur @ [e]))" using Cons.prems(3) [of 0] by simp
  have up: "\<not> isLink (nodeAt d ((cur @ [e]) @ take (Suc k) es))" if "k < length es" for k
    using Cons.prems(3) [of "Suc k"] that by simp
  show ?case
  proof (cases "nodeAt d (cur @ [e]) = Some NDir")
    case True
    then have "follow n d (cur @ [e]) es = Found l" using Cons.prems(1) e by simp
    then have "l = (cur @ [e]) @ es \<and> (\<forall>k < length es. nodeAt d ((cur @ [e]) @ take k es) = Some NDir)"
      using Cons.IH [OF _ es up True] by simp
    then show ?thesis using Cons.prems(4) by (auto simp: less_Suc_eq_0_disj)
  next
    case False
    then have "es = [] \<and> l = cur @ [e]" using Cons.prems(1) e c
      by (auto simp: isLink_def split: option.splits node.splits if_splits)
    then show ?thesis using Cons.prems(4) by simp
  qed
qed simp

lemma follow_dirs:
  assumes "list_all plainElem es" "\<And>k. k < length es \<Longrightarrow> nodeAt d (cur @ take (Suc k) es) = Some NDir"
  shows "follow n d cur es = Found (cur @ es)"
  using assms
proof (induction es arbitrary: cur)
  case (Cons e es)
  have "e \<noteq> []" "e \<noteq> ''.''" "e \<noteq> ''..''" using Cons.prems(1) by (auto simp: plainElem_def)
  moreover have "nodeAt d (cur @ [e]) = Some NDir" using Cons.prems(2) [of 0] by simp
  moreover have "nodeAt d ((cur @ [e]) @ take (Suc k) es) = Some NDir" if "k < length es" for k
    using Cons.prems(2) [of "Suc k"] that by simp
  ultimately show ?case using Cons.IH [of "cur @ [e]"] Cons.prems(1) by simp
qed simp

lemma follow_missing:
  assumes "follow n d cur es = Missing" "list_all plainElem es"
    "\<And>k. k < length es \<Longrightarrow> \<not> isLink (nodeAt d (cur @ take (Suc k) es))"
  shows "\<exists>k < length es. nodeAt d (cur @ take (Suc k) es) = None"
  using assms
proof (induction es arbitrary: cur)
  case (Cons e es)
  have e: "e \<noteq> []" "e \<noteq> ''.''" "e \<noteq> ''..''" using Cons.prems(2) by (auto simp: plainElem_def)
  have c: "\<not> isLink (nodeAt d (cur @ [e]))" using Cons.prems(3) [of 0] by simp
  have up: "\<not> isLink (nodeAt d ((cur @ [e]) @ take (Suc k) es))" if "k < length es" for k
    using Cons.prems(3) [of "Suc k"] that by simp
  show ?case
  proof (cases "nodeAt d (cur @ [e])")
    case (Some m)
    then have "m = NDir" "follow n d (cur @ [e]) es = Missing" using Cons.prems(1) e c
      by (auto simp: isLink_def split: node.splits if_splits)
    then obtain k where "k < length es" "nodeAt d ((cur @ [e]) @ take (Suc k) es) = None"
      using Cons.IH [of "cur @ [e]"] Cons.prems(2) up by auto
    then show ?thesis by (intro exI [of _ "Suc k"]) simp
  qed auto
qed simp

text \<open>Below a location without links on the way, a path names the location of its elements.\<close>

lemma locate_found:
  assumes "isAbs p" "clearTo d (pathElems p)" "locate d p = Found l"
  shows "l = pathElems p" and "l \<noteq> [] \<Longrightarrow> nodeAt d (butlast l) = Some NDir"
proof -
  have "l = pathElems p \<and> (l \<noteq> [] \<longrightarrow> nodeAt d (butlast l) = Some NDir)"
  proof (cases "pathElems p" rule: rev_cases)
    case Nil
    then show ?thesis using assms(3) by (simp add: locate_def)
  next
    case (snoc es e)
    obtain c where c: "follow 40 d [] es = Found c" "nodeAt d c = Some NDir" "l = c @ [e]"
      using assms(3) by (auto simp: locate_def snoc split: found.splits if_splits)
    have "list_all plainElem es" using abs_plain [OF assms(1)] by (simp add: snoc)
    moreover have "\<not> isLink (nodeAt d ([] @ take (Suc k) es))" if "k < length es" for k
      using assms(2) strict_take [of "Suc k" es e] unfolding clearTo_def snoc append_Nil by blast
    ultimately have "c = es" using follow_found [OF c(1)] by simp
    then show ?thesis using c snoc by simp
  qed
  then show "l = pathElems p" and "l \<noteq> [] \<Longrightarrow> nodeAt d (butlast l) = Some NDir" by auto
qed

lemma locate_dirs:
  assumes "isAbs p" "\<And>xs. strict_prefix xs (pathElems p) \<Longrightarrow> nodeAt d xs = Some NDir"
  shows "locate d p = Found (pathElems p)"
proof (cases "pathElems p" rule: rev_cases)
  case Nil
  then show ?thesis by (simp add: locate_def)
next
  case (snoc es e)
  have "list_all plainElem es" using abs_plain [OF assms(1)] by (simp add: snoc)
  moreover have "nodeAt d ([] @ take (Suc k) es) = Some NDir" if "k < length es" for k
    using assms(2) strict_take [of "Suc k" es e] unfolding snoc append_Nil by blast
  ultimately have "follow 40 d [] es = Found es" using follow_dirs [of es d "[]"] by simp
  moreover have "nodeAt d es = Some NDir" using assms(2) [of es] by (simp add: snoc strict_prefix_def)
  ultimately show ?thesis by (simp add: locate_def snoc)
qed

lemma locate_missing:
  assumes "isAbs p" "clearTo d (pathElems p)" "locate d p = Missing" "treeDisk d"
  shows "nodeAt d (pathElems p) = None"
proof (cases "pathElems p" rule: rev_cases)
  case Nil
  then show ?thesis using assms(3) by (simp add: locate_def)
next
  case (snoc es e)
  have f: "follow 40 d [] es = Missing"
    using assms(3) by (auto simp: locate_def snoc split: found.splits if_splits)
  have "list_all plainElem es" using abs_plain [OF assms(1)] by (simp add: snoc)
  moreover have "\<not> isLink (nodeAt d ([] @ take (Suc k) es))" if "k < length es" for k
    using assms(2) strict_take [of "Suc k" es e] unfolding clearTo_def snoc append_Nil by blast
  ultimately obtain k where k: "k < length es" "nodeAt d (take (Suc k) es) = None"
    using follow_missing [OF f] by auto
  show ?thesis using tree_parents [OF assms(4) _ strict_take [of "Suc k" es e]] k(2) snoc by fastforce
qed

end
