(* ===== verification/Steps.thy ===== *)
theory Steps
  imports DiskResults
begin

text \<open>
  A calculus for steps: a triple has a postcondition for the normal return and one for every error
  return, both about the disk, so that what a step does to the disk is known whatever happens.
\<close>

named_theorems step_rules \<open>rules for the combinators of steps\<close>

definition triple :: "(disk \<Rightarrow> bool) \<Rightarrow> 'a io \<Rightarrow> ('a \<Rightarrow> disk \<Rightarrow> bool) \<Rightarrow> (disk \<Rightarrow> bool) \<Rightarrow> bool" where
  "triple A m Q E \<longleftrightarrow> (\<forall>s s1 r. m s = (s1, r) \<longrightarrow> A (hsDisk s) \<longrightarrow>
     (case r of Inr x \<Rightarrow> Q x (hsDisk s1) | Inl _ \<Rightarrow> E (hsDisk s1)))"

lemma tripleI:
  assumes "\<And>s s1 r. m s = (s1, r) \<Longrightarrow> A (hsDisk s) \<Longrightarrow>
    (\<forall>x. r = Inr x \<longrightarrow> Q x (hsDisk s1)) \<and> (\<forall>e. r = Inl e \<longrightarrow> E (hsDisk s1))"
  shows "triple A m Q E"
  using assms unfolding triple_def by (fastforce split: sum.splits)

lemma tripleD:
  assumes "triple A m Q E" "m s = (s1, r)" "A (hsDisk s)"
  shows "r = Inr x \<Longrightarrow> Q x (hsDisk s1)" and "r = Inl e \<Longrightarrow> E (hsDisk s1)"
  using assms unfolding triple_def by force+

text \<open>A fact that holds on both returns.\<close>

lemma triple_always:
  assumes "triple A m (\<lambda>_. E) E" "m s = (s1, r)" "A (hsDisk s)" shows "E (hsDisk s1)"
  using tripleD [OF assms] by (cases r) auto

lemma triple_weaken:
  assumes "triple A m Q E" "\<And>d. A' d \<Longrightarrow> A d" "\<And>x d. Q x d \<Longrightarrow> Q' x d" "\<And>d. E d \<Longrightarrow> E' d"
  shows "triple A' m Q' E'"
  using assms unfolding triple_def by (fastforce split: sum.splits)

lemma triple_pure [step_rules]: "(\<And>d. A d \<Longrightarrow> Q x d) \<Longrightarrow> triple A (pureIO x) Q E"
  by (auto simp: triple_def pureIO_def)

lemma triple_fail [step_rules]: "(\<And>d. A d \<Longrightarrow> E d) \<Longrightarrow> triple A (failIO e) Q E"
  by (auto simp: triple_def failIO_def)

lemma triple_bind [step_rules]:
  assumes "triple A m B E" "\<And>x. triple (B x) (f x) Q E" shows "triple A (bindIO m f) Q E"
proof (rule tripleI)
  fix s s2 r assume run: "bindIO m f s = (s2, r)" and a: "A (hsDisk s)"
  obtain s1 r1 where m: "m s = (s1, r1)" by fastforce
  show "(\<forall>x. r = Inr x \<longrightarrow> Q x (hsDisk s2)) \<and> (\<forall>e. r = Inl e \<longrightarrow> E (hsDisk s2))"
  proof (cases r1)
    case (Inl e)
    then show ?thesis using run m tripleD(2) [OF assms(1) m a] by (auto simp: bindIO_def)
  next
    case (Inr x)
    then have "f x s1 = (s2, r)" using run m by (simp add: bindIO_def)
    then show ?thesis using tripleD [OF assms(2)] tripleD(1) [OF assms(1) m a Inr] by blast
  qed
qed

lemma triple_attempt [step_rules]:
  assumes "triple A m (\<lambda>x. Q (Inr x)) (\<lambda>d. \<forall>e. Q (Inl e) d)" shows "triple A (attemptIO m) Q E"
proof (rule tripleI)
  fix s s1 r assume run: "attemptIO m s = (s1, r)" and a: "A (hsDisk s)"
  obtain r1 where m: "m s = (s1, r1)" "r = Inr r1" using run by (auto simp: attemptIO_def split: prod.splits)
  show "(\<forall>x. r = Inr x \<longrightarrow> Q x (hsDisk s1)) \<and> (\<forall>e. r = Inl e \<longrightarrow> E (hsDisk s1))"
    using tripleD [OF assms m(1) a] m(2) by (cases r1) auto
qed

lemma triple_wrap [step_rules]: "triple A m Q E \<Longrightarrow> triple A (wrapIO f m) Q E"
  unfolding triple_def wrapIO_def by (fastforce split: sum.splits prod.splits)

lemma triple_lift [step_rules]:
  "(\<And>d. A d \<Longrightarrow> E d) \<Longrightarrow> (\<And>d x. A d \<Longrightarrow> r = Inr x \<Longrightarrow> Q x d) \<Longrightarrow> triple A (liftIO r) Q E"
  unfolding triple_def liftIO_def by (auto split: sum.splits)

lemma triple_onFailure:
  assumes "triple A m Q B" "triple B c (\<lambda>_. E) E" shows "triple A (onFailure m c) Q E"
proof (rule tripleI)
  fix s s2 r assume run: "onFailure m c s = (s2, r)" and a: "A (hsDisk s)"
  obtain s1 r1 where m: "m s = (s1, r1)" by fastforce
  obtain s3 r3 where c: "c s1 = (s3, r3)" by fastforce
  show "(\<forall>x. r = Inr x \<longrightarrow> Q x (hsDisk s2)) \<and> (\<forall>e. r = Inl e \<longrightarrow> E (hsDisk s2))"
  proof (cases r1)
    case (Inl e)
    then have "B (hsDisk s1)" by (rule tripleD(2) [OF assms(1) m a])
    then have "E (hsDisk s3)" by (rule triple_always [OF assms(2) c])
    then show ?thesis using run m c Inl by (auto simp: onFailure_def)
  next
    case (Inr x)
    then show ?thesis using run m tripleD(1) [OF assms(1) m a] by (auto simp: onFailure_def)
  qed
qed

lemma triple_for:
  assumes "\<And>xs x ys. zs = xs @ x # ys \<Longrightarrow> triple (I xs) (f x) (\<lambda>_. I (xs @ [x])) E"
  shows "triple (I []) (forIO f zs) (\<lambda>_. I zs) E"
proof -
  have "triple (I xs) (forIO f ys) (\<lambda>_. I zs) E" if "zs = xs @ ys" for xs ys
    using that
  proof (induction ys arbitrary: xs)
    case Nil
    then show ?case by (simp add: triple_pure)
  next
    case (Cons y ys)
    have "triple (I xs) (f y) (\<lambda>_. I (xs @ [y])) E" using assms Cons.prems by blast
    moreover have "triple (I (xs @ [y])) (forIO f ys) (\<lambda>_. I zs) E" using Cons by simp
    ultimately show ?case by (auto intro: triple_bind)
  qed
  from this [of "[]" zs] show ?thesis by simp
qed

lemma triple_if [step_rules]:
  "(b \<Longrightarrow> triple A m Q E) \<Longrightarrow> (\<not> b \<Longrightarrow> triple A n Q E) \<Longrightarrow> triple A (if b then m else n) Q E"
  by simp

lemma triple_absurd: "(\<And>d. \<not> A d) \<Longrightarrow> triple A m Q E"
  by (simp add: triple_def)

lemma triple_case_sum:
  "(\<And>e. r = Inl e \<Longrightarrow> triple A (f e) Q E) \<Longrightarrow> (\<And>x. r = Inr x \<Longrightarrow> triple A (g x) Q E) \<Longrightarrow>
     triple A (case r of Inl e \<Rightarrow> f e | Inr x \<Rightarrow> g x) Q E"
  by (cases r) auto

lemma triple_case_option:
  "(r = None \<Longrightarrow> triple A f Q E) \<Longrightarrow> (\<And>x. r = Some x \<Longrightarrow> triple A (g x) Q E) \<Longrightarrow>
     triple A (case r of None \<Rightarrow> f | Some x \<Rightarrow> g x) Q E"
  by (cases r) auto

section \<open>Steps that leave the disk alone\<close>

definition quiet :: "'a io \<Rightarrow> bool" where
  "quiet m \<longleftrightarrow> (\<forall>s. hsDisk (fst (m s)) = hsDisk s)"

named_theorems quiet_steps \<open>steps that leave the disk alone\<close>

lemma triple_quiet: "quiet m \<Longrightarrow> (\<And>d x. A d \<Longrightarrow> Q x d) \<Longrightarrow> (\<And>d. A d \<Longrightarrow> E d) \<Longrightarrow> triple A m Q E"
  unfolding triple_def quiet_def by (metis (no_types, lifting) fst_conv sum.case_eq_if)

lemma quietD: "quiet m \<Longrightarrow> m s = (s1, r) \<Longrightarrow> hsDisk s1 = hsDisk s"
  unfolding quiet_def by (metis fst_conv)

lemma quiet_basic [quiet_steps]:
  "quiet (pureIO x)" "quiet (failIO e)" "quiet (liftIO r)" "quiet (gitCall h c)" "quiet (pathIO h g)"
  "quiet (osLstat h p)" "quiet (freshName h stem)" "quiet (freshUuid h)"
  by (simp_all add: quiet_def io_defs gitCall_def pathIO_def osLstat_def freshName_def freshUuid_def)

lemma quiet_bind [quiet_steps]: "quiet m \<Longrightarrow> (\<And>x. quiet (f x)) \<Longrightarrow> quiet (bindIO m f)"
  unfolding quiet_def bindIO_def by (auto split: prod.splits sum.splits) (metis fst_conv)+

lemma quiet_unary [quiet_steps]:
  "quiet m \<Longrightarrow> quiet (attemptIO m)" "quiet m \<Longrightarrow> quiet (wrapIO f m)"
  "quiet m \<Longrightarrow> quiet c \<Longrightarrow> quiet (onFailure m c)" "quiet m \<Longrightarrow> quiet c \<Longrightarrow> quiet (finallyIO m c)"
  unfolding quiet_def io_defs by (simp_all split: prod.splits sum.splits) (metis fst_conv)+

lemma quiet_for [quiet_steps]: "(\<And>x. quiet (f x)) \<Longrightarrow> quiet (forIO f xs)"
  by (induction xs) (auto intro: quiet_steps)

lemma quiet_case [quiet_steps]:
  "(\<And>e. quiet (f e)) \<Longrightarrow> (\<And>x. quiet (g x)) \<Longrightarrow> quiet (case r of Inl e \<Rightarrow> f e | Inr x \<Rightarrow> g x)"
  by (cases r) auto

lemma quiet_if [quiet_steps]: "quiet m \<Longrightarrow> quiet n \<Longrightarrow> quiet (if b then m else n)"
  by simp

lemma quiet_call:
  "(\<And>d d1 x. act d = Inr (d1, x) \<Longrightarrow> d1 = d) \<Longrightarrow> quiet (osCall h c act)"
  by (auto simp: quiet_def osCall_def Let_def split: sum.splits)

lemma quiet_calls [quiet_steps]:
  "quiet (osReadDir h p)" "quiet (osReadFile h p)" "quiet (osSync h p)" "quiet (osClose h p)" "quiet (tempCall h c)"
  unfolding osReadDir_def osReadFile_def osSync_def osClose_def tempCall_def onLocation_def
  by (rule quiet_call, auto split: found.splits if_splits option.splits node.splits)+

section \<open>Calls\<close>

text \<open>What \<^verbatim>\<open>Lstat\<close> says is true, unless it says that it failed.\<close>

lemma triple_lstat:
  assumes "\<And>d k. A d \<Longrightarrow> k = StatError \<or> k = lstatKind d p \<Longrightarrow> Q k d"
  shows "triple A (osLstat h p) Q E"
  using assms by (auto simp: triple_def osLstat_def)

text \<open>An action on a path without links on the way acts on the location of its elements.\<close>

lemma triple_location:
  assumes "isAbs p" "\<And>d. A d \<Longrightarrow> clearTo d (pathElems p)"
    and "\<And>d d1 x. A d \<Longrightarrow> (pathElems p \<noteq> [] \<Longrightarrow> nodeAt d (butlast (pathElems p)) = Some NDir) \<Longrightarrow>
      act d (pathElems p) = Inr (d1, x) \<Longrightarrow> Q x d1"
    and "\<And>d. A d \<Longrightarrow> E d"
  shows "triple A (osCall h c (onLocation p act)) Q E"
proof (rule tripleI)
  fix s s1 r assume run: "osCall h c (onLocation p act) s = (s1, r)" and a: "A (hsDisk s)"
  let ?d = "hsDisk s"
  show "(\<forall>x. r = Inr x \<longrightarrow> Q x (hsDisk s1)) \<and> (\<forall>e. r = Inl e \<longrightarrow> E (hsDisk s1))"
  proof (cases r)
    case (Inl e)
    then have "hsDisk s1 = ?d" using run by (auto simp: osCall_def Let_def split: if_splits sum.splits)
    then show ?thesis using Inl assms(4) [OF a] by simp
  next
    case (Inr x)
    then have "onLocation p act ?d = Inr (hsDisk s1, x)"
      using run by (auto simp: osCall_def Let_def split: if_splits sum.splits)
    then obtain l where l: "locate ?d p = Found l" "act ?d l = Inr (hsDisk s1, x)"
      by (auto simp: onLocation_def split: found.splits)
    note f = locate_found [OF assms(1) assms(2) [OF a] l(1)]
    then show ?thesis using Inr assms(3) [OF a] l(2) by simp
  qed
qed

end
