(* ===== verification/GitEngine.thy ===== *)
theory GitEngine
  imports HostIO
begin

text \<open>
  \<^verbatim>\<open>GitCheckpointEngine\<close> of \<^verbatim>\<open>app/git_checkpoint.go\<close>: opening a repository, reading its
  state, writing a checkpoint and verifying one. Timeouts are failures of Git; the name of the Git
  binary plays no part.
\<close>

section \<open>Data\<close>

record git_engine =
  geAllowedRoots :: "gostring list"
  geMaxDiffBytes :: int
  geMaxDiffLines :: int
  geMaxDiffContext :: int
  geMaxDiffFileSize :: int

record git_repository =
  reRoot :: gostring
  reGitDir :: gostring
  reCommonDir :: gostring
  reIdentity :: gostring
  reIndexPath :: gostring

record status_summary =
  suDirty :: bool
  suPreExisting :: bool
  suStaged :: "gostring list"
  suUnstaged :: "gostring list"
  suUntracked :: "gostring list"
  suDeleted :: "gostring list"
  suRenamed :: "gostring list"
  suSubmodules :: "gostring list"
  suDirtySubmodules :: "gostring list"
  suConflicted :: "gostring list"

record head_state =
  hdRef :: gostring
  hdBranch :: gostring
  hdHead :: gostring
  hdDetached :: bool
  hdUnborn :: bool

record git_state = head_state +
  stRoot :: gostring
  stGitDir :: gostring
  stCommonDir :: gostring
  stIdentity :: gostring
  stIndexPresent :: bool
  stIndexTree :: gostring
  stIndexBlob :: gostring
  stTree :: gostring
  stStatus :: status_summary
  stFingerprint :: gostring

record checkpoint_refs =
  rfWorktree :: gostring
  rfIndexTree :: gostring
  rfIndex :: gostring
  rfMetadata :: gostring
  rfHead :: gostring

record engine_checkpoint = git_state +
  ecID :: gostring
  ecCapturedAt :: gostring
  ecRefs :: checkpoint_refs
  ecMetadataBlob :: gostring

section \<open>Running Git\<close>

definition gitPrefix :: "gostring \<Rightarrow> gostring list" where
  "gitPrefix root =
     [''--literal-pathspecs'', ''-c'', ''core.quotePath=false'', ''-c'', ''diff.external='',
      ''-c'', ''core.hooksPath=/dev/null'', ''-C'', root]"

definition gitInput :: "host \<Rightarrow> git_repository \<Rightarrow> gostring \<Rightarrow> gostring list \<Rightarrow> gostring list \<Rightarrow> gostring io" where
  "gitInput h repo input extraEnv args =
     gitCall h \<lparr>gmEnv = [''GIT_OPTIONAL_LOCKS=0'', ''GIT_EXTERNAL_DIFF=''] @ extraEnv, gmInput = input,
       gmArgs = gitPrefix (reRoot repo) @ args\<rparr>"

definition gitRun :: "host \<Rightarrow> git_repository \<Rightarrow> gostring list \<Rightarrow> gostring list \<Rightarrow> gostring io" where
  "gitRun h repo extraEnv args = gitInput h repo [] extraEnv args"

text \<open>A command whose failure is reported as a certain error.\<close>

definition gitOrFail :: "host \<Rightarrow> git_repository \<Rightarrow> git_error \<Rightarrow> gostring list \<Rightarrow> gostring io" where
  "gitOrFail h repo e args = wrapIO (\<lambda>_. e) (gitRun h repo [] args)"

section \<open>Opening a repository\<close>

definition validateAllowedRoot :: "filesystem \<Rightarrow> gostring list \<Rightarrow> gostring \<Rightarrow> bool" where
  "validateAllowedRoot fs roots root \<longleftrightarrow>
     roots = [] \<or> (\<exists>allowed \<in> set roots. PathWithinRoot fs allowed root = Inr True)"

definition checkAllowedRoot :: "host \<Rightarrow> git_engine \<Rightarrow> gostring \<Rightarrow> unit io" where
  "checkAllowedRoot h eng root s =
     (if validateAllowedRoot (hostFs h s) (geAllowedRoots eng) root then pureIO () s
      else failIO ErrUnsafeGitWorkspace s)"

fun allPresent :: "host \<Rightarrow> gostring \<Rightarrow> gostring list \<Rightarrow> bool io" where
  "allPresent h p [] = pureIO True"
| "allPresent h p (name # names) =
     bindIO (osLstat h (goJoin [p, name])) (\<lambda>k.
       if k = NotExist \<or> k = StatError then pureIO False else allPresent h p names)"

definition looksLikeBareRepository :: "host \<Rightarrow> gostring \<Rightarrow> bool io" where
  "looksLikeBareRepository h p = allPresent h p [''HEAD'', ''objects'', ''refs'']"

definition requireDirectory :: "host \<Rightarrow> gostring \<Rightarrow> unit io" where
  "requireDirectory h p =
     bindIO (osLstat h p) (\<lambda>k.
       if k = NotExist then failIO OsNotExist else if k = StatError then failIO OsError
       else if k \<noteq> Directory then failIO (GitText ''project workspace must be a directory'') else pureIO ())"

definition requireMarker :: "host \<Rightarrow> gostring \<Rightarrow> unit io" where
  "requireMarker h root =
     bindIO (osLstat h (goJoin [root, ''.git''])) (\<lambda>k.
       if k = StatError then failIO ErrNotGitWorkspace
       else if k = NotExist
       then bindIO (looksLikeBareRepository h root) (\<lambda>bare. if bare then pureIO () else failIO ErrNotGitWorkspace)
       else pureIO ())"

text \<open>The real path of something Git printed.\<close>

definition inspectOr :: "host \<Rightarrow> git_error \<Rightarrow> gostring \<Rightarrow> gostring io" where
  "inspectOr h e p = wrapIO (\<lambda>_. e) (pathIO h (\<lambda>fs. NormalizeExistingPath fs p))"

definition checkWorkTree :: "host \<Rightarrow> git_engine \<Rightarrow> git_repository \<Rightarrow> unit io" where
  "checkWorkTree h eng repo =
     bindIO (gitOrFail h repo ErrNotGitWorkspace [''rev-parse'', ''--is-inside-work-tree'']) (\<lambda>inside.
       if trimSpace inside \<noteq> ''true'' then failIO ErrNotGitWorkspace
       else bindIO (gitOrFail h repo ErrGitRepository [''rev-parse'', ''--show-toplevel'']) (\<lambda>topOut.
         bindIO (inspectOr h ErrGitRepository (trimSpace topOut)) (\<lambda>real.
           if real \<noteq> reRoot repo then failIO ErrUnsafeGitWorkspace
           else checkAllowedRoot h eng real)))"

definition absoluteIn :: "gostring \<Rightarrow> gostring \<Rightarrow> gostring" where
  "absoluteIn root p = (if isAbs p then p else goJoin [root, p])"

definition openDirectories :: "host \<Rightarrow> git_repository \<Rightarrow> git_repository io" where
  "openDirectories h repo =
     bindIO (gitOrFail h repo ErrGitRepository [''rev-parse'', ''--absolute-git-dir'']) (\<lambda>gitDir.
     bindIO (inspectOr h ErrGitRepository (trimSpace gitDir)) (\<lambda>gitReal.
     bindIO (gitOrFail h (repo\<lparr>reGitDir := gitReal\<rparr>) ErrGitRepository [''rev-parse'', ''--git-common-dir'']) (\<lambda>commonDir.
     bindIO (inspectOr h ErrGitRepository (absoluteIn (reRoot repo) (trimSpace commonDir))) (\<lambda>commonReal.
     bindIO (gitOrFail h repo ErrGitRepository [''rev-parse'', ''--git-path'', ''index'']) (\<lambda>indexOut.
       let indexPath = absoluteIn (reRoot repo) (trimSpace indexOut) in
     bindIO (inspectOr h ErrGitRepository (goDir indexPath)) (\<lambda>parentReal.
       pureIO (repo\<lparr>reGitDir := gitReal, reCommonDir := commonReal,
                    reIndexPath := goJoin [parentReal, goBase indexPath]\<rparr>)))))))"

definition openIdentity :: "host \<Rightarrow> git_repository \<Rightarrow> git_repository io" where
  "openIdentity h repo =
     bindIO (attemptIO (gitRun h repo [] [''config'', ''--get'', ''remote.origin.url''])) (\<lambda>origin.
       pureIO (repo\<lparr>reIdentity :=
         (case origin of Inr out \<Rightarrow> if trimSpace out \<noteq> [] then trimSpace out else reCommonDir repo
          | Inl _ \<Rightarrow> reCommonDir repo)\<rparr>))"

definition openRepository :: "host \<Rightarrow> git_engine \<Rightarrow> gostring \<Rightarrow> git_repository io" where
  "openRepository h eng configured =
     bindIO (pathIO h (\<lambda>fs. NormalizeExistingPath fs configured)) (\<lambda>root.
       let repo0 = \<lparr>reRoot = root, reGitDir = [], reCommonDir = [], reIdentity = [], reIndexPath = []\<rparr> in
     bindIO (requireDirectory h root) (\<lambda>_.
     bindIO (checkAllowedRoot h eng root) (\<lambda>_.
     bindIO (requireMarker h root) (\<lambda>_.
     bindIO (checkWorkTree h eng repo0) (\<lambda>_.
     bindIO (openDirectories h repo0) (\<lambda>repo1.
     bindIO (openIdentity h repo1) (\<lambda>repo.
     bindIO (gitOrFail h repo ErrGitRepository [''fsck'', ''--connectivity-only'', ''--no-dangling'']) (\<lambda>_.
     bindIO (gitOrFail h repo ErrGitRepository
       [''status'', ''--porcelain=v1'', ''-z'', ''--untracked-files=all'', ''--ignore-submodules=none'']) (\<lambda>_.
       pureIO repo)))))))))"

section \<open>Head and status\<close>

definition readHead :: "host \<Rightarrow> git_repository \<Rightarrow> head_state io" where
  "readHead h repo =
     bindIO (attemptIO (gitRun h repo [] [''symbolic-ref'', ''-q'', ''HEAD''])) (\<lambda>refOut.
     bindIO (attemptIO (gitRun h repo [] [''rev-parse'', ''--verify'', ''HEAD''])) (\<lambda>headOut.
       let ref = (case refOut of Inr out \<Rightarrow> trimSpace out | Inl _ \<Rightarrow> []);
           branch = trimPrefix ref ''refs/heads/'' in
       case headOut of
         Inr out \<Rightarrow>
           (let head = trimSpace out in
            if \<not> isGitObjectID head then failIO ErrGitRepository
            else pureIO \<lparr>hdRef = ref, hdBranch = branch, hdHead = head, hdDetached = (ref = [] \<and> head \<noteq> []), hdUnborn = False\<rparr>)
       | Inl _ \<Rightarrow>
           if ref \<noteq> [] then pureIO \<lparr>hdRef = ref, hdBranch = branch, hdHead = [], hdDetached = False, hdUnborn = True\<rparr>
           else failIO ErrGitRepository))"

definition emptySummary :: status_summary where
  "emptySummary = \<lparr>suDirty = False, suPreExisting = False, suStaged = [], suUnstaged = [], suUntracked = [],
     suDeleted = [], suRenamed = [], suSubmodules = [], suDirtySubmodules = [], suConflicted = []\<rparr>"

definition addIf :: "bool \<Rightarrow> gostring \<Rightarrow> gostring list \<Rightarrow> gostring list" where
  "addIf b x xs = (if b then xs @ [x] else xs)"

definition summarise :: "gostring list \<Rightarrow> status_summary \<Rightarrow> porcelain_record \<Rightarrow> status_summary" where
  "summarise submodules u r =
     (let st = prStatus r; p = prPath r; x = st ! 0; y = st ! 1 in
      if st = ''??'' then u\<lparr>suUntracked := suUntracked u @ [p]\<rparr>
      else if st = ''!!'' then u
      else u\<lparr>suStaged := addIf (x \<noteq> CHR '' '' \<and> x \<noteq> CHR ''?'') p (suStaged u),
             suUnstaged := addIf (y \<noteq> CHR '' '' \<and> y \<noteq> CHR ''?'') p (suUnstaged u),
             suDeleted := addIf (x = CHR ''D'' \<or> y = CHR ''D'') p (suDeleted u),
             suRenamed := addIf (x = CHR ''R'' \<or> y = CHR ''R'') (prOriginal r @ '' -> '' @ p) (suRenamed u),
             suConflicted := addIf (isConflictStatus st) p (suConflicted u),
             suDirtySubmodules := addIf (p \<in> set submodules) p (suDirtySubmodules u)\<rparr>)"

definition summaryOf :: "gostring list \<Rightarrow> porcelain_record list \<Rightarrow> status_summary" where
  "summaryOf submodules records =
     (let u = foldl (summarise submodules) (emptySummary\<lparr>suSubmodules := submodules\<rparr>) records in
      \<lparr>suDirty = records \<noteq> [], suPreExisting = records \<noteq> [],
       suStaged = sortStrings (suStaged u), suUnstaged = sortStrings (suUnstaged u),
       suUntracked = sortStrings (suUntracked u), suDeleted = sortStrings (suDeleted u),
       suRenamed = sortStrings (suRenamed u), suSubmodules = sortStrings (suSubmodules u),
       suDirtySubmodules = sortStrings (suDirtySubmodules u), suConflicted = sortStrings (suConflicted u)\<rparr>)"

definition parseOr :: "gostring \<Rightarrow> 'a option \<Rightarrow> 'a io" where
  "parseOr e r = (case r of None \<Rightarrow> failIO (GitText e) | Some x \<Rightarrow> pureIO x)"

definition readStatus :: "host \<Rightarrow> git_repository \<Rightarrow> status_summary io" where
  "readStatus h repo =
     bindIO (gitRun h repo [] [''status'', ''--porcelain=v1'', ''-z'', ''--untracked-files=all'', ''--ignore-submodules=none'']) (\<lambda>raw.
     bindIO (parseOr ''parse Git status'' (parsePorcelainV1Z raw)) (\<lambda>records.
     bindIO (gitRun h repo [] [''ls-files'', ''--stage'', ''-z'']) (\<lambda>indexRaw.
     bindIO (parseOr ''invalid Git index entry'' (submoduleLoop [] (splitOn CHR 0x00 indexRaw))) (\<lambda>submodules.
       pureIO (summaryOf submodules records)))))"

section \<open>The state of a workspace\<close>

definition listMember :: "gostring \<Rightarrow> gostring list \<Rightarrow> (gostring \<times> json) list" where
  "listMember k xs = (if xs = [] then [] else [(k, JArr (map JStr xs))])"

definition memberUnlessEmpty :: "gostring \<Rightarrow> gostring \<Rightarrow> (gostring \<times> json) list" where
  "memberUnlessEmpty k x = (if x = [] then [] else [(k, JStr x)])"

definition summaryJson :: "status_summary \<Rightarrow> json" where
  "summaryJson u = JObj ([(''dirty'', JBool (suDirty u)), (''preExistingChanges'', JBool (suPreExisting u))]
     @ listMember ''staged'' (suStaged u) @ listMember ''unstaged'' (suUnstaged u)
     @ listMember ''untracked'' (suUntracked u) @ listMember ''deleted'' (suDeleted u)
     @ listMember ''renamed'' (suRenamed u) @ listMember ''submodules'' (suSubmodules u)
     @ listMember ''dirtySubmodules'' (suDirtySubmodules u) @ listMember ''conflicted'' (suConflicted u))"

definition stateJson :: "'a git_state_scheme \<Rightarrow> json" where
  "stateJson st = JObj
     [(''workspaceRoot'', JStr (stRoot st)), (''repositoryIdentity'', JStr (stIdentity st)),
      (''headRef'', JStr (hdRef st)), (''head'', JStr (hdHead st)), (''detached'', JBool (hdDetached st)),
      (''unborn'', JBool (hdUnborn st)), (''indexPresent'', JBool (stIndexPresent st)),
      (''indexTree'', JStr (stIndexTree st)), (''indexBlob'', JStr (stIndexBlob st)),
      (''worktreeTree'', JStr (stTree st)), (''status'', summaryJson (stStatus st))]"

definition gitStateFingerprint :: "host \<Rightarrow> 'a git_state_scheme \<Rightarrow> gostring" where
  "gitStateFingerprint h st = hoSha256 h (hoPrint h (stateJson st))"

definition readOptionalFile :: "host \<Rightarrow> gostring \<Rightarrow> (gostring \<times> bool) io" where
  "readOptionalFile h p =
     bindIO (attemptIO (osReadFile h p)) (\<lambda>r.
       case r of
         Inr content \<Rightarrow> pureIO (content, True)
       | Inl e \<Rightarrow> if e = OsNotExist then pureIO ([], False) else failIO e)"

text \<open>The tree that Git writes for an index: a copy of the index bytes in a temporary file.\<close>

definition materializeEmpty :: "host \<Rightarrow> git_repository \<Rightarrow> gostring \<Rightarrow> gostring \<Rightarrow> unit io" where
  "materializeEmpty h repo tree listed =
     (if listed \<noteq> [] then pureIO ()
      else bindIO (gitInput h repo [] [] [''mktree'']) (\<lambda>stored.
        if trimSpace stored \<noteq> tree then failIO (GitText ''materialize Git tree'') else pureIO ()))"

definition treeOfIndexFile :: "host \<Rightarrow> git_repository \<Rightarrow> gostring \<Rightarrow> bool \<Rightarrow> bool \<Rightarrow> gostring \<Rightarrow> gostring io" where
  "treeOfIndexFile h repo indexBytes indexPresent includeWorktree tmp =
     (let env = [''GIT_INDEX_FILE='' @ tmp] in
      bindIO (if indexPresent then tempCall h (CallWrite tmp indexBytes)
              else bindIO (attemptIO (tempCall h (CallRemove tmp))) (\<lambda>_.
                   bindIO (gitRun h repo env [''read-tree'', ''--empty'']) (\<lambda>_. pureIO ()))) (\<lambda>_.
      bindIO (if includeWorktree then bindIO (gitRun h repo env [''add'', ''-A'', ''--'', ''.'']) (\<lambda>_. pureIO ())
              else pureIO ()) (\<lambda>_.
      bindIO (gitRun h repo env [''write-tree'']) (\<lambda>output.
        let tree = trimSpace output in
        if \<not> isGitObjectID tree then failIO (GitText ''Git returned invalid tree object'')
        else bindIO (gitRun h repo [] [''ls-tree'', tree]) (\<lambda>listed.
             bindIO (materializeEmpty h repo tree listed) (\<lambda>_. pureIO tree))))))"

definition treeFromIndex :: "host \<Rightarrow> git_repository \<Rightarrow> gostring \<Rightarrow> bool \<Rightarrow> bool \<Rightarrow> gostring io" where
  "treeFromIndex h repo indexBytes indexPresent includeWorktree =
     bindIO (freshName h (hoTempDir h @ ''/specrelay-git-index-'')) (\<lambda>tmp.
     bindIO (tempCall h (CallCreate tmp)) (\<lambda>_.
     bindIO (onFailure (tempCall h (CallClose tmp)) (tempCall h (CallRemove tmp))) (\<lambda>_.
       finallyIO (treeOfIndexFile h repo indexBytes indexPresent includeWorktree tmp) (tempCall h (CallRemove tmp)))))"

definition captureState :: "host \<Rightarrow> git_repository \<Rightarrow> bool \<Rightarrow> git_state io" where
  "captureState h repo writeIndexBlob =
     bindIO (readOptionalFile h (reIndexPath repo)) (\<lambda>(indexBytes, indexPresent).
     bindIO (readStatus h repo) (\<lambda>status.
     bindIO (readHead h repo) (\<lambda>hd.
     bindIO (gitInput h repo indexBytes [] (if writeIndexBlob then [''hash-object'', ''-w'', ''--stdin''] else [''hash-object'', ''--stdin''])) (\<lambda>output.
     bindIO (treeFromIndex h repo indexBytes indexPresent False) (\<lambda>indexTree.
     bindIO (treeFromIndex h repo indexBytes indexPresent True) (\<lambda>worktreeTree.
       let st = \<lparr>hdRef = hdRef hd, hdBranch = hdBranch hd, hdHead = hdHead hd, hdDetached = hdDetached hd, hdUnborn = hdUnborn hd,
                 stRoot = reRoot repo, stGitDir = reGitDir repo, stCommonDir = reCommonDir repo, stIdentity = reIdentity repo,
                 stIndexPresent = indexPresent, stIndexTree = indexTree, stIndexBlob = trimSpace output,
                 stTree = worktreeTree, stStatus = status, stFingerprint = []\<rparr>
       in pureIO (st\<lparr>stFingerprint := gitStateFingerprint h st\<rparr>)))))))"

definition inspectWorkspace :: "host \<Rightarrow> git_engine \<Rightarrow> gostring \<Rightarrow> git_state io" where
  "inspectWorkspace h eng workspace =
     bindIO (openRepository h eng workspace) (\<lambda>repo. captureState h repo False)"

section \<open>Writing and verifying a checkpoint\<close>

definition baseRef :: "gostring \<Rightarrow> gostring" where
  "baseRef i = ''refs/specrelay/checkpoints/'' @ i"

definition checkpointOf :: "gostring \<Rightarrow> gostring \<Rightarrow> git_state \<Rightarrow> engine_checkpoint" where
  "checkpointOf i now st =
     git_state.extend st
       \<lparr>ecID = i, ecCapturedAt = now,
        ecRefs = \<lparr>rfWorktree = baseRef i @ ''/worktree'', rfIndexTree = baseRef i @ ''/index-tree'',
          rfIndex = baseRef i @ ''/index'', rfMetadata = baseRef i @ ''/metadata'',
          rfHead = (if hdHead st \<noteq> [] then baseRef i @ ''/head'' else [])\<rparr>,
        ecMetadataBlob = []\<rparr>"

definition metadataJson :: "engine_checkpoint \<Rightarrow> json" where
  "metadataJson c = JObj ([(''id'', JStr (ecID c)), (''capturedAt'', JStr (ecCapturedAt c)),
     (''workspaceRoot'', JStr (stRoot c)), (''repositoryIdentity'', JStr (stIdentity c))]
     @ memberUnlessEmpty ''headRef'' (hdRef c) @ memberUnlessEmpty ''head'' (hdHead c)
     @ [(''detached'', JBool (hdDetached c)), (''unborn'', JBool (hdUnborn c)),
        (''indexPresent'', JBool (stIndexPresent c)), (''indexTree'', JStr (stIndexTree c)),
        (''indexBlob'', JStr (stIndexBlob c)), (''worktreeTree'', JStr (stTree c)),
        (''status'', summaryJson (stStatus c)), (''fingerprint'', JStr (stFingerprint c))])"

definition createLine :: "gostring \<Rightarrow> gostring \<Rightarrow> gostring" where
  "createLine ref oid = ''create '' @ ref @ '' '' @ oid @ [CHR 0x0A]"

definition refTransaction :: "engine_checkpoint \<Rightarrow> gostring" where
  "refTransaction c =
     (let f = ecRefs c in
      ''start'' @ [CHR 0x0A] @ createLine (rfWorktree f) (stTree c) @ createLine (rfIndexTree f) (stIndexTree c)
      @ createLine (rfIndex f) (stIndexBlob c) @ createLine (rfMetadata f) (ecMetadataBlob c)
      @ (if rfHead f \<noteq> [] then createLine (rfHead f) (hdHead c) else [])
      @ ''prepare'' @ [CHR 0x0A] @ ''commit'' @ [CHR 0x0A])"

definition timeNow :: "host \<Rightarrow> gostring io" where
  "timeNow h s = (s, Inr (hoNow h (hsHistory s)))"

definition CreateCheckpoint :: "host \<Rightarrow> git_engine \<Rightarrow> gostring \<Rightarrow> engine_checkpoint io" where
  "CreateCheckpoint h eng workspace =
     bindIO (openRepository h eng workspace) (\<lambda>repo.
     bindIO (captureState h repo True) (\<lambda>st.
     bindIO (freshUuid h) (\<lambda>i.
     bindIO (timeNow h) (\<lambda>now.
       let c = checkpointOf i now st in
     bindIO (gitInput h repo (hoPrint h (metadataJson c)) [] [''hash-object'', ''-w'', ''--stdin'']) (\<lambda>oid.
       let c2 = c\<lparr>ecMetadataBlob := trimSpace oid\<rparr> in
     bindIO (gitInput h repo (refTransaction c2) [] [''update-ref'', ''--stdin'']) (\<lambda>_.
       pureIO c2))))))"

definition refChecks :: "engine_checkpoint \<Rightarrow> (gostring \<times> gostring \<times> gostring) list" where
  "refChecks c =
     [(rfWorktree (ecRefs c), stTree c, ''tree''), (rfIndexTree (ecRefs c), stIndexTree c, ''tree''),
      (rfIndex (ecRefs c), stIndexBlob c, ''blob''), (rfMetadata (ecRefs c), ecMetadataBlob c, ''blob'')]
     @ (if hdHead c \<noteq> [] then [(rfHead (ecRefs c), hdHead c, ''commit'')] else [])"

definition verifyRef :: "host \<Rightarrow> git_repository \<Rightarrow> engine_checkpoint \<Rightarrow> gostring \<times> gostring \<times> gostring \<Rightarrow> unit io" where
  "verifyRef h repo c check = (case check of (ref, oid, typ) \<Rightarrow>
     if \<not> hasPrefix ref (baseRef (ecID c) @ ''/'') then failIO (GitText ''checkpoint ref is outside the controlled namespace'')
     else bindIO (gitOrFail h repo (GitText ''checkpoint object protection ref is missing or changed'') [''rev-parse'', ''--verify'', ref]) (\<lambda>output.
       if trimSpace output \<noteq> oid then failIO (GitText ''checkpoint object protection ref is missing or changed'')
       else bindIO (gitOrFail h repo (GitText ''checkpoint object is unreadable or has the wrong type'') [''cat-file'', ''-t'', oid]) (\<lambda>typeOut.
         if trimSpace typeOut \<noteq> typ then failIO (GitText ''checkpoint object is unreadable or has the wrong type'')
         else pureIO ())))"

definition verifyCheckpoint :: "host \<Rightarrow> git_repository \<Rightarrow> engine_checkpoint \<Rightarrow> unit io" where
  "verifyCheckpoint h repo c =
     (if ecID c = [] \<or> stRoot c \<noteq> reRoot repo \<or> stIdentity c \<noteq> reIdentity repo then failIO ErrCheckpointMismatch
      else if rfWorktree (ecRefs c) = [] \<or> rfIndexTree (ecRefs c) = [] \<or> rfIndex (ecRefs c) = [] \<or> rfMetadata (ecRefs c) = []
      then failIO (GitText ''checkpoint protection refs are incomplete'')
      else if hdHead c \<noteq> [] \<and> rfHead (ecRefs c) = [] then failIO (GitText ''checkpoint HEAD protection ref is missing'')
      else forIO (verifyRef h repo c) (refChecks c))"

definition listTree :: "host \<Rightarrow> git_repository \<Rightarrow> gostring \<Rightarrow> tree_listing io" where
  "listTree h repo tree =
     bindIO (gitRun h repo [] [''ls-tree'', ''-r'', ''-z'', ''--full-tree'', tree]) (\<lambda>output.
       parseOr ''invalid Git tree record'' (parseTree output))"

definition readBlob :: "host \<Rightarrow> git_repository \<Rightarrow> gostring \<Rightarrow> int \<Rightarrow> gostring io" where
  "readBlob h repo oid limit =
     (if \<not> isGitObjectID oid then failIO (GitText ''invalid Git blob object ID'')
      else bindIO (gitRun h repo [] [''cat-file'', ''blob'', oid]) (\<lambda>output.
        if limit \<ge> 0 \<and> int (length output) > limit then failIO (GitText ''Git blob exceeds the limit'') else pureIO output))"

end
