(* ===== verification/GitRestore.thy ===== *)
theory GitRestore
  imports GitEngine Scheduler
begin

text \<open>
  \<^verbatim>\<open>Restore\<close> of \<^verbatim>\<open>app/git_checkpoint.go\<close>: the checks made before anything changes, the
  removal of controlled paths that the checkpoint does not have, the writing of the files and links it
  has, the index and the head.
\<close>

section \<open>Before anything changes\<close>

definition extraPaths :: "tree_listing \<Rightarrow> tree_listing \<Rightarrow> gostring list" where
  "extraPaths target current = map fst (filter (\<lambda>(p, _). map_of target p = None) current)"

definition outsideRel :: "gostring option \<Rightarrow> bool" where
  "outsideRel r \<longleftrightarrow> (case r of None \<Rightarrow> True | Some rel \<Rightarrow> rel = ''..'' \<or> hasPrefix rel ''../'')"

text \<open>\<^verbatim>\<open>preflightRestoreAncestors\<close>: every ancestor is a directory or missing, or will be removed.\<close>

fun ancestorsFrom :: "host \<Rightarrow> gostring \<Rightarrow> gostring list \<Rightarrow> gostring \<Rightarrow> gostring list \<Rightarrow> unit io" where
  "ancestorsFrom h root extra current [] = pureIO ()"
| "ancestorsFrom h root extra current (part # parts) =
     (let c = goJoin [current, part] in
      bindIO (osLstat h c) (\<lambda>k.
        if k = NotExist then pureIO ()
        else if k = StatError then failIO OsError
        else if k = Directory then ancestorsFrom h root extra c parts
        else (case goRel root c of
                None \<Rightarrow> failIO OsError
              | Some rel \<Rightarrow>
                  if rel \<in> set extra then pureIO ()
                  else failIO (GitText ''an uncontrolled file or symlink blocks a target parent directory''))))"

definition preflightRestoreAncestors :: "host \<Rightarrow> gostring \<Rightarrow> gostring list \<Rightarrow> gostring \<Rightarrow> unit io" where
  "preflightRestoreAncestors h root extra p =
     (let rel = goRel root (goDir p) in
      if outsideRel rel then failIO (ErrPath ErrPathOutsideRoots)
      else if rel = Some ''.'' then pureIO ()
      else ancestorsFrom h root extra root (splitOn slash (the rel)))"

text \<open>\<^verbatim>\<open>WalkDir\<close> over a directory: an unreadable directory or an uncontrolled file stops it.\<close>

definition belowDir :: "disk \<Rightarrow> location \<Rightarrow> (location \<times> node) list" where
  "belowDir d l = filter (\<lambda>(x, _). x \<noteq> l \<and> take (length l) x = l) d"

definition pathBelow :: "gostring \<Rightarrow> location \<Rightarrow> location \<Rightarrow> gostring" where
  "pathBelow p l x = goJoin (p # drop (length l) x)"

definition controlledBelow :: "host \<Rightarrow> host_call list \<Rightarrow> gostring \<Rightarrow> gostring list \<Rightarrow> gostring \<Rightarrow> location \<Rightarrow> location \<times> node \<Rightarrow> bool" where
  "controlledBelow h hist root extra p l entry = (case entry of (x, n) \<Rightarrow>
     if n = NDir then \<not> hoFault h hist (CallReadDir (pathBelow p l x))
     else (case goRel root (pathBelow p l x) of None \<Rightarrow> False | Some rel \<Rightarrow> rel \<in> set extra))"

definition directoryContainsOnlyControlledExtras :: "host \<Rightarrow> gostring \<Rightarrow> gostring list \<Rightarrow> gostring \<Rightarrow> unit io" where
  "directoryContainsOnlyControlledExtras h root extra p s =
     osCall h (CallReadDir p) (onLocation p (\<lambda>d l.
       if list_all (controlledBelow h (hsHistory s) root extra p l) (belowDir d l) then Inr (d, ())
       else Inl (GitText ''uncontrolled path would be removed''))) s"

definition preflightTarget :: "host \<Rightarrow> git_repository \<Rightarrow> gostring list \<Rightarrow> gostring \<times> tree_entry \<Rightarrow> unit io" where
  "preflightTarget h repo extra target = (case target of (p, entry) \<Rightarrow>
     let absolute = goJoin [reRoot repo, p]; submodule = (teMode entry = ''160000'') in
     if \<not> safeGitRelativePath p then failIO (GitText ''unsafe checkpoint path'')
     else if teMode entry \<notin> {''100644'', ''100755'', ''120000'', ''160000''} then failIO (GitText ''unsupported Git mode'')
     else
       bindIO (if submodule then pureIO () else
         bindIO (gitRun h repo [] [''cat-file'', ''-e'', teOID entry @ ''^{blob}'']) (\<lambda>_. pureIO ())) (\<lambda>_.
       bindIO (preflightRestoreAncestors h (reRoot repo) extra absolute) (\<lambda>_.
       bindIO (osLstat h absolute) (\<lambda>k.
         if k = StatError then failIO OsError
         else if submodule
         then (if k \<noteq> Directory then failIO (GitText ''cannot restore submodule'') else pureIO ())
         else if k = Directory then directoryContainsOnlyControlledExtras h (reRoot repo) extra absolute
         else pureIO ()))))"

definition targetsInOrder :: "tree_listing \<Rightarrow> gostring list \<Rightarrow> (gostring \<times> tree_entry) list" where
  "targetsInOrder m ks = map (\<lambda>k. (k, the (map_of m k))) ks"

definition checkCurrent :: "gostring \<Rightarrow> unit io" where
  "checkCurrent p = (if safeGitRelativePath p then pureIO () else failIO (GitText ''unsafe current controlled path''))"

definition preflightRestore :: "host \<Rightarrow> git_repository \<Rightarrow> tree_listing \<Rightarrow> tree_listing \<Rightarrow> unit io" where
  "preflightRestore h repo target current s =
     bindIO (forIO (preflightTarget h repo (extraPaths target current)) (targetsInOrder target (walkOrder h s (map fst target))))
       (\<lambda>_. forIO checkCurrent (map fst current)) s"

section \<open>Removing\<close>

text \<open>Deeper paths first; \<open>depthOf\<close> is \<^verbatim>\<open>strings.Count(path, "/")\<close>.\<close>

definition depthOf :: "gostring \<Rightarrow> nat" where
  "depthOf p = length (filter (\<lambda>c. c = slash) p)"

definition deeperFirst :: "gostring \<Rightarrow> gostring \<Rightarrow> bool" where
  "deeperFirst a b \<longleftrightarrow> (if depthOf a \<noteq> depthOf b then depthOf a > depthOf b else byteLess b a)"

definition shallowFirst :: "gostring \<Rightarrow> gostring \<Rightarrow> bool" where
  "shallowFirst a b \<longleftrightarrow> (if depthOf a \<noteq> depthOf b then depthOf a < depthOf b else byteLess a b)"

text \<open>The parents of a removed file, given by their elements from the last one: the empty ones go.\<close>

fun removeEmptyParents :: "host \<Rightarrow> location \<Rightarrow> gostring list \<Rightarrow> unit io" where
  "removeEmptyParents h root [] = pureIO ()"
| "removeEmptyParents h root (e # es) =
     (if rev (e # es) = root then pureIO ()
      else bindIO (attemptIO (osRemove h (renderPath True (rev (e # es))))) (\<lambda>r.
        case r of Inl _ \<Rightarrow> pureIO () | Inr _ \<Rightarrow> removeEmptyParents h root es))"

definition removeExtraAt :: "host \<Rightarrow> gostring \<Rightarrow> gostring \<Rightarrow> gostring \<Rightarrow> unit io" where
  "removeExtraAt h root mode absolute =
     bindIO (osLstat h absolute) (\<lambda>k.
       if k = NotExist then pureIO ()
       else if k = StatError then failIO OsError
       else if mode = ''160000'' \<or> k = Directory
       then bindIO (osReadDir h absolute) (\<lambda>entries.
              if entries \<noteq> [] then failIO (GitText ''cannot remove controlled directory'')
              else osRemove h absolute)
       else bindIO (osRemove h absolute) (\<lambda>_.
              removeEmptyParents h (pathElems root) (rev (pathElems (goDir absolute)))))"

definition removeExtra :: "host \<Rightarrow> git_repository \<Rightarrow> tree_listing \<Rightarrow> gostring \<Rightarrow> unit io" where
  "removeExtra h repo current p =
     bindIO (pathIO h (\<lambda>fs. ResolveRelativePathForWrite fs (reRoot repo) p))
       (removeExtraAt h (reRoot repo) (teMode (the (map_of current p))))"

section \<open>Writing\<close>

fun makeParents :: "host \<Rightarrow> gostring \<Rightarrow> gostring list \<Rightarrow> unit io" where
  "makeParents h current [] = pureIO ()"
| "makeParents h current (part # parts) =
     (let c = goJoin [current, part] in
      bindIO (osLstat h c) (\<lambda>k.
        if k = NotExist then bindIO (osMkdir h c) (\<lambda>_. makeParents h c parts)
        else if k = StatError then failIO OsError
        else if k = Symlink then failIO (GitText ''restore parent is a symlink'')
        else if k \<noteq> Directory then failIO (GitText ''restore parent is not a directory'')
        else makeParents h c parts))"

definition ensureSafeParentDirectories :: "host \<Rightarrow> gostring \<Rightarrow> gostring \<Rightarrow> unit io" where
  "ensureSafeParentDirectories h root parent =
     bindIO (pathIO h (\<lambda>fs. NormalizeExistingPath fs root)) (\<lambda>real.
       let rel = goRel real parent in
       if outsideRel rel then failIO (ErrPath ErrPathOutsideRoots)
       else if rel = Some ''.'' then pureIO ()
       else makeParents h real (splitOn slash (the rel)))"

definition removeReplaceablePath :: "host \<Rightarrow> gostring \<Rightarrow> unit io" where
  "removeReplaceablePath h p =
     bindIO (osLstat h p) (\<lambda>k.
       if k = NotExist then pureIO ()
       else if k = StatError then failIO OsError
       else if k \<noteq> Directory then osRemove h p
       else bindIO (osReadDir h p) (\<lambda>entries.
         if entries \<noteq> [] then failIO (GitText ''refusing to replace a non-empty directory because it may contain ignored files'')
         else osRemove h p))"

definition writeTemporary :: "host \<Rightarrow> gostring \<Rightarrow> gostring \<Rightarrow> gostring \<Rightarrow> int \<Rightarrow> unit io" where
  "writeTemporary h p tmp content mode =
     bindIO (osWrite h tmp content) (\<lambda>_.
     bindIO (osChmod h tmp mode) (\<lambda>_.
     bindIO (osSync h tmp) (\<lambda>_.
     bindIO (osClose h tmp) (\<lambda>_.
       osRename h tmp p))))"

definition closeAndRemove :: "host \<Rightarrow> gostring \<Rightarrow> unit io" where
  "closeAndRemove h tmp = bindIO (attemptIO (osClose h tmp)) (\<lambda>_. osRemove h tmp)"

definition replaceWithRegularFile :: "host \<Rightarrow> gostring \<Rightarrow> gostring \<Rightarrow> int \<Rightarrow> unit io" where
  "replaceWithRegularFile h p content mode =
     bindIO (removeReplaceablePath h p) (\<lambda>_.
     bindIO (freshName h ''.specrelay-restore-'') (\<lambda>name.
       let tmp = goJoin [goDir p, name] in
     bindIO (osCreateNew h tmp) (\<lambda>_.
       onFailure (writeTemporary h p tmp content mode) (closeAndRemove h tmp))))"

definition replaceWithSymlink :: "host \<Rightarrow> gostring \<Rightarrow> gostring \<Rightarrow> unit io" where
  "replaceWithSymlink h p target =
     (if CHR 0x00 \<in> set target then failIO (GitText ''symlink target contains NUL'')
      else bindIO (removeReplaceablePath h p) (\<lambda>_.
        bindIO (freshUuid h) (\<lambda>u.
          let tmp = goJoin [goDir p, ''.specrelay-link-'' @ u] in
        bindIO (osSymlink h target tmp) (\<lambda>_.
          onFailure (osRename h tmp p) (osRemove h tmp)))))"

definition fileMode :: "gostring \<Rightarrow> int" where
  "fileMode mode = (if mode = ''100755'' then 493 else 420)"

definition writeTarget :: "host \<Rightarrow> git_repository \<Rightarrow> gostring \<times> tree_entry \<Rightarrow> unit io" where
  "writeTarget h repo target = (case target of (p, entry) \<Rightarrow>
     if teMode entry = ''160000'' then pureIO ()
     else
       bindIO (pathIO h (\<lambda>fs. ResolveRelativePathForWrite fs (reRoot repo) p)) (\<lambda>absolute.
       bindIO (ensureSafeParentDirectories h (reRoot repo) (goDir absolute)) (\<lambda>_.
       bindIO (readBlob h repo (teOID entry) (-1)) (\<lambda>content.
         if teMode entry = ''120000'' then replaceWithSymlink h absolute content
         else replaceWithRegularFile h absolute content (fileMode (teMode entry))))))"

definition applyWorktreeRestore :: "host \<Rightarrow> git_repository \<Rightarrow> tree_listing \<Rightarrow> tree_listing \<Rightarrow> unit io" where
  "applyWorktreeRestore h repo target current =
     bindIO (forIO (removeExtra h repo current) (sortBy deeperFirst (extraPaths target current))) (\<lambda>_.
       forIO (writeTarget h repo) (targetsInOrder target (sortBy shallowFirst (map fst target))))"

section \<open>Index and head\<close>

definition writeIndexLock :: "host \<Rightarrow> gostring \<Rightarrow> gostring \<Rightarrow> gostring \<Rightarrow> unit io" where
  "writeIndexLock h indexPath lock content =
     bindIO (osWrite h lock content) (\<lambda>_.
     bindIO (osSync h lock) (\<lambda>_.
     bindIO (osClose h lock) (\<lambda>_.
       osRename h lock indexPath)))"

definition dropIndex :: "host \<Rightarrow> gostring \<Rightarrow> gostring \<Rightarrow> unit io" where
  "dropIndex h indexPath lock =
     bindIO (osClose h lock) (\<lambda>_.
     bindIO (attemptIO (osRemove h indexPath)) (\<lambda>r.
       case r of
         Inl e \<Rightarrow> if e = OsNotExist then osRemove h lock else failIO e
       | Inr _ \<Rightarrow> osRemove h lock))"

definition restoreIndexAtomically :: "host \<Rightarrow> gostring \<Rightarrow> gostring \<Rightarrow> bool \<Rightarrow> unit io" where
  "restoreIndexAtomically h indexPath content present =
     (let lock = indexPath @ ''.lock'' in
      bindIO (osCreateNew h lock) (\<lambda>_.
        onFailure (if present then writeIndexLock h indexPath lock content else dropIndex h indexPath lock)
          (closeAndRemove h lock)))"

definition restoreHead :: "host \<Rightarrow> git_repository \<Rightarrow> engine_checkpoint \<Rightarrow> unit io" where
  "restoreHead h repo c =
     (if hdRef c \<noteq> []
      then if \<not> hasPrefix (hdRef c) ''refs/heads/'' then failIO (GitText ''checkpoint symbolic HEAD is not a local branch'')
           else bindIO
             (if hdUnborn c then bindIO (attemptIO (gitRun h repo [] [''update-ref'', ''-d'', hdRef c])) (\<lambda>_. pureIO ())
              else bindIO (gitRun h repo [] [''update-ref'', hdRef c, hdHead c]) (\<lambda>_. pureIO ()))
             (\<lambda>_. bindIO (gitRun h repo [] [''symbolic-ref'', ''HEAD'', hdRef c]) (\<lambda>_. pureIO ()))
      else if \<not> hdDetached c \<or> hdHead c = [] then failIO (GitText ''checkpoint has no restorable branch or detached HEAD'')
      else bindIO (gitRun h repo [] [''update-ref'', ''--no-deref'', ''HEAD'', hdHead c]) (\<lambda>_. pureIO ()))"

section \<open>Restore\<close>

definition checkApproved :: "gostring \<Rightarrow> git_state \<Rightarrow> unit io" where
  "checkApproved expected current =
     (if trimSpace expected \<noteq> [] \<and> stFingerprint current \<noteq> trimSpace expected then failIO ErrWorkspaceChanged else pureIO ())"

text \<open>What is read before the first change: the two trees and the bytes of the index.\<close>

definition prepareRestore ::
  "host \<Rightarrow> git_repository \<Rightarrow> engine_checkpoint \<Rightarrow> gostring \<Rightarrow> (tree_listing \<times> tree_listing \<times> gostring) io" where
  "prepareRestore h repo c expected =
     bindIO (verifyCheckpoint h repo c) (\<lambda>_.
     bindIO (captureState h repo False) (\<lambda>current.
     bindIO (checkApproved expected current) (\<lambda>_.
     bindIO (listTree h repo (stTree c)) (\<lambda>targetEntries.
     bindIO (listTree h repo (stTree current)) (\<lambda>currentEntries.
     bindIO (readBlob h repo (stIndexBlob c) (-1)) (\<lambda>indexBytes.
     bindIO (preflightRestore h repo targetEntries currentEntries) (\<lambda>_.
       pureIO (targetEntries, currentEntries, indexBytes))))))))"

definition finishRestore :: "host \<Rightarrow> git_repository \<Rightarrow> engine_checkpoint \<Rightarrow> gostring \<Rightarrow> unit io" where
  "finishRestore h repo c indexBytes =
     bindIO (restoreIndexAtomically h (reIndexPath repo) indexBytes (stIndexPresent c)) (\<lambda>_.
     bindIO (restoreHead h repo c) (\<lambda>_.
     bindIO (captureState h repo False) (\<lambda>verified.
       if stFingerprint verified \<noteq> stFingerprint c then failIO (GitText ''restored Git state fingerprint mismatch'')
       else pureIO ())))"

definition Restore :: "host \<Rightarrow> git_engine \<Rightarrow> engine_checkpoint \<Rightarrow> gostring \<Rightarrow> unit io" where
  "Restore h eng c expected =
     bindIO (openRepository h eng (stRoot c)) (\<lambda>repo.
     bindIO (prepareRestore h repo c expected) (\<lambda>(targetEntries, currentEntries, indexBytes).
     bindIO (applyWorktreeRestore h repo targetEntries currentEntries) (\<lambda>_.
       finishRestore h repo c indexBytes)))"

end
