(* ===== verification/DiskEffects.thy ===== *)
theory DiskEffects
  imports Steps GitRestore
begin

text \<open>
  What each call does to the disk, stated for an absolute clean path, which is its elements: the
  triples name the disk before the call, so that they read as a relation between the disk before and
  the disk after.
\<close>

section \<open>Paths from elements\<close>

lemma abs_render:
  assumes "list_all plainElem es"
  shows "isAbs (renderPath True es)" "pathElems (renderPath True es) = es" "goClean (renderPath True es) = renderPath True es"
proof -
  have c: "canonElems True es" using assms unfolding canonElems_def list_all_iff by (intro exI [of _ 0] exI [of _ es]) simp
  show a: "isAbs (renderPath True es)" using renderPath_elems(1) [OF c] by simp
  show e: "pathElems (renderPath True es) = es" by (rule pathElems_render [OF c])
  show "goClean (renderPath True es) = renderPath True es" using a e by (simp add: goClean_elems)
qed

lemma render_abs: "isAbs p \<Longrightarrow> goClean p = renderPath True (pathElems p)"
  by (simp add: goClean_elems)

lemma join_clean: "c \<noteq> [] \<Longrightarrow> goClean (goJoin [c, e]) = goJoin [c, e]"
  by (simp add: goJoin_def)

lemma join_render:
  assumes "list_all plainElem es" "plainElem e"
  shows "goJoin [renderPath True es, e] = renderPath True (es @ [e])"
proof -
  have "slash \<notin> set e" using assms(2) by (simp add: plainElem_def)
  note a = abs_render [OF assms(1)]
  have "pathElems (goJoin [renderPath True es, e]) = es @ [e]"
    using pathElems_join [OF a(1) \<open>slash \<notin> set e\<close> assms(2)] a(2) by simp
  moreover have "isAbs (goJoin [renderPath True es, e])" by (rule isAbs_join [OF a(1)])
  moreover have "goClean (goJoin [renderPath True es, e]) = goJoin [renderPath True es, e]"
    by (rule join_clean) (simp add: renderPath_def)
  ultimately show ?thesis using render_abs by metis
qed

lemma join_relative:
  assumes "list_all plainElem es" "list_all plainElem fs" "fs \<noteq> []"
  shows "goJoin [renderPath True es, joinWith [slash] fs] = renderPath True (es @ fs)"
proof -
  let ?c = "renderPath True es"
  have s: "splitOn slash (joinWith [slash] fs) = fs"
    using assms(2,3) by (intro splitOn_join) (auto simp: list_all_iff plainElem_def)
  have j: "goJoin [?c, joinWith [slash] fs] = goClean (?c @ slash # joinWith [slash] fs)"
    by (simp add: goJoin_def renderPath_def)
  have a: "isAbs (?c @ slash # joinWith [slash] fs)" by (simp add: isAbs_def renderPath_def)
  have "foldl (cleanStep True) out fs = rev fs @ out" for out
    using assms(2) by (induction fs arbitrary: out) (auto simp: plainElem_def)
  moreover have "cleanElems True (splitOn slash ?c) = es"
    using abs_render(2) [OF assms(1)] abs_render(1) [OF assms(1)] by (simp add: pathElems_def)
  ultimately have "pathElems (?c @ slash # joinWith [slash] fs) = es @ fs"
    using a by (simp add: pathElems_def splitOn_append_any s cleanElems_def)
  then show ?thesis using a j by (simp add: render_abs)
qed

lemma dir_render:
  assumes "list_all plainElem (es @ [e])"
  shows "goDir (renderPath True (es @ [e])) = renderPath True es"
proof -
  have "slash \<notin> set e" using assms by (auto simp: plainElem_def list_all_iff)
  then have d: "dropWhile (\<lambda>c. c \<noteq> slash) (rev e @ slash # x) = slash # x" for x
    by (subst dropWhile_append2) (use \<open>slash \<notin> set e\<close> in auto)
  have es: "list_all plainElem es" using assms by simp
  show ?thesis
  proof (cases "es = []")
    case True
    then show ?thesis using d [of "[]"] abs_render(3) [of "[]"] by (simp add: goDir_def renderPath_def)
  next
    case False
    then have j: "joinWith [slash] (es @ [e]) = joinWith [slash] es @ slash # e"
      by (induction "[slash]" es rule: joinWith.induct) auto
    have r: "rev (renderPath True (es @ [e])) = rev e @ slash # rev (renderPath True es)"
      by (simp add: renderPath_def j)
    have "goDir (renderPath True (es @ [e])) = goClean (renderPath True es @ [slash])"
      unfolding goDir_def r by (simp add: d)
    also have "\<dots> = renderPath True (pathElems (renderPath True es @ [slash]))"
      by (rule render_abs) (simp add: renderPath_def isAbs_def)
    also have "pathElems (renderPath True es @ [slash]) = es"
      using abs_render(2) [OF es] splitOn_append_any [of slash "renderPath True es" "[]"]
      by (simp add: pathElems_def cleanElems_def renderPath_def isAbs_def)
    finally show ?thesis .
  qed
qed

lemma rel_render:
  assumes "list_all plainElem es" "list_all plainElem fs"
  shows "goRel (renderPath True es) (renderPath True (es @ fs)) = Some (if fs = [] then ''.'' else joinWith [slash] fs)"
proof -
  have a: "list_all plainElem (es @ fs)" using assms by simp
  have n: "commonPrefix es (es @ fs) = length es" by (simp add: commonPrefix_full)
  have "renderPath True es = renderPath True (es @ fs) \<longleftrightarrow> fs = []"
    using abs_render(2) [OF assms(1)] abs_render(2) [OF a] by (metis append_self_conv)
  then show ?thesis using abs_render [OF assms(1)] abs_render [OF a] n by (simp add: goRel_def Let_def)
qed

lemma outside_render:
  assumes "list_all plainElem es" "list_all plainElem fs"
  shows "\<not> outsideRel (goRel (renderPath True es) (renderPath True (es @ fs)))"
  using join_plain [OF assms(2)] by (simp add: rel_render [OF assms] outsideRel_def)

section \<open>Single calls\<close>

lemma tree_clear: "treeDisk d \<Longrightarrow> l \<noteq> [] \<Longrightarrow> nodeAt d (butlast l) = Some NDir \<Longrightarrow> clearTo d l"
proof -
  assume t: "treeDisk d" "l \<noteq> []" "nodeAt d (butlast l) = Some NDir"
  have "nodeAt d xs = Some NDir" if "strict_prefix xs l" for xs
  proof (cases "xs = butlast l")
    case False
    have "prefix xs (butlast l)" using that t(2) by (metis append_butlast_last_id prefix_snoc strict_prefix_def)
    then show ?thesis using tree_parents [OF t(1), of "butlast l"] False t(3) by (simp add: strict_prefix_def)
  qed (simp add: t(3))
  then show "clearTo d l" by (simp add: clearTo_def isLink_def)
qed

lemma tree_update:
  assumes "treeDisk d" "l \<noteq> []" "nodeAt d (butlast l) = Some NDir" "n = NDir \<or> nodeAt d l \<noteq> Some NDir"
  shows "treeDisk (AList.update l n d)"
proof -
  have "nodeAt d (butlast xs) \<noteq> Some NDir \<or> butlast xs \<noteq> l \<or> n = NDir" for xs using assms(4) by auto
  moreover have "butlast l \<noteq> l" using assms(2) by (metis append_butlast_last_id not_Cons_self2 append_self_conv)
  ultimately show ?thesis using assms(1-3) unfolding treeDisk_iff by (auto split: if_splits)
qed

lemma tree_delete:
  assumes "treeDisk d" "l \<noteq> []" "nodeAt d l = Some NDir \<Longrightarrow> childrenOf d l = []"
  shows "treeDisk (AList.delete l d)"
proof -
  have "nodeAt d xs = None" if "butlast xs = l" "xs \<noteq> []" for xs
    using assms(1,3) that unfolding childrenOf_Nil treeDisk_iff by (metis append_butlast_last_id)
  then show ?thesis using assms(1,2) unfolding treeDisk_iff by (auto split: if_splits)
qed

text \<open>The disk after differs at one place only.\<close>

definition differsAt :: "location \<Rightarrow> disk \<Rightarrow> disk \<Rightarrow> bool" where
  "differsAt l d d1 \<longleftrightarrow> (\<forall>xs. xs \<noteq> l \<longrightarrow> nodeAt d1 xs = nodeAt d xs)"

lemma lstat_triple:
  assumes "list_all plainElem l" "clearTo d l" "treeDisk d" "Q StatError"
    "\<And>k. k = kindOf (nodeAt d l) \<or> nodeAt d l = None \<and> k = StatError \<Longrightarrow> Q k"
  shows "triple (\<lambda>x. x = d) (osLstat h (renderPath True l)) (\<lambda>k x. x = d \<and> Q k) E"
proof (rule triple_lstat)
  fix x k assume x: "x = d" and k: "k = StatError \<or> k = lstatKind x (renderPath True l)"
  note a = abs_render [OF assms(1)]
  have c: "clearTo d (pathElems (renderPath True l))" using assms(2) a(2) by simp
  have "k = StatError \<or> k = kindOf (nodeAt d l)"
  proof (cases "locate d (renderPath True l)")
    case (Found l1)
    then show ?thesis using k x locate_found(1) [OF a(1) c Found] a(2) by (auto simp: lstatKind_def)
  next
    case Missing
    then have "nodeAt d l = None" using locate_missing [OF a(1) c Missing assms(3)] a(2) by simp
    then show ?thesis using k x Missing by (auto simp: lstatKind_def kindOf_def)
  qed (use k x in \<open>auto simp: lstatKind_def\<close>)
  then show "x = d \<and> Q k" using x assms(4,5) by blast
qed

lemma remove_triple:
  assumes "list_all plainElem l" "clearTo d l" "treeDisk d"
  shows "triple (\<lambda>x. x = d) (osRemove h (renderPath True l))
    (\<lambda>_ x. treeDisk x \<and> differsAt l d x \<and> l \<noteq> [] \<and> nodeAt x l = None \<and> nodeAt d l \<noteq> None \<and> nodeAt d (butlast l) = Some NDir)
    (\<lambda>x. x = d)"
  unfolding osRemove_def
proof (rule triple_location)
  note a = abs_render [OF assms(1)]
  show "isAbs (renderPath True l)" by (rule a(1))
  show "clearTo x (pathElems (renderPath True l))" if "x = d" for x using that assms(2) a(2) by simp
  fix x x1 u assume x: "x = d"
    and up: "pathElems (renderPath True l) \<noteq> [] \<Longrightarrow> nodeAt x (butlast (pathElems (renderPath True l))) = Some NDir"
    and act: "(case nodeAt x (pathElems (renderPath True l)) of None \<Rightarrow> Inl OsNotExist
      | Some NDir \<Rightarrow> if pathElems (renderPath True l) = [] \<or> childrenOf x (pathElems (renderPath True l)) \<noteq> [] then Inl OsError
          else Inr (AList.delete (pathElems (renderPath True l)) x, ())
      | Some _ \<Rightarrow> Inr (AList.delete (pathElems (renderPath True l)) x, ())) = Inr (x1, u)"
  have l: "l \<noteq> []" using act a(2) by (cases "l = []") auto
  have "nodeAt d l \<noteq> None \<and> x1 = AList.delete l d \<and> (nodeAt d l = Some NDir \<longrightarrow> childrenOf d l = [])"
    using act x a(2) by (auto split: option.splits node.splits if_splits)
  then show "treeDisk x1 \<and> differsAt l d x1 \<and> l \<noteq> [] \<and> nodeAt x1 l = None \<and> nodeAt d l \<noteq> None \<and> nodeAt d (butlast l) = Some NDir"
    using tree_delete [OF assms(3) l] l up x a(2) by (auto simp: differsAt_def)
qed simp

lemma new_triple:
  assumes "list_all plainElem l" "clearTo d l" "treeDisk d"
  shows "triple (\<lambda>x. x = d) (osCall h c (onLocation (renderPath True l) (newEntry n)))
    (\<lambda>_ x. treeDisk x \<and> differsAt l d x \<and> l \<noteq> [] \<and> nodeAt x l = Some n \<and> nodeAt d l = None \<and> nodeAt d (butlast l) = Some NDir)
    (\<lambda>x. x = d)"
proof (rule triple_location)
  note a = abs_render [OF assms(1)]
  show "isAbs (renderPath True l)" by (rule a(1))
  show "clearTo x (pathElems (renderPath True l))" if "x = d" for x using that assms(2) a(2) by simp
  fix x x1 u assume x: "x = d"
    and up: "pathElems (renderPath True l) \<noteq> [] \<Longrightarrow> nodeAt x (butlast (pathElems (renderPath True l))) = Some NDir"
    and act: "newEntry n x (pathElems (renderPath True l)) = Inr (x1, u)"
  have n: "nodeAt d l = None" "x1 = AList.update l n d" using act x a(2) by (auto simp: newEntry_def split: if_splits)
  have l: "l \<noteq> []" using n(1) by (cases "l = []") auto
  then show "treeDisk x1 \<and> differsAt l d x1 \<and> l \<noteq> [] \<and> nodeAt x1 l = Some n \<and> nodeAt d l = None \<and> nodeAt d (butlast l) = Some NDir"
    using n tree_update [OF assms(3) l] up x a(2) by (auto simp: differsAt_def)
qed simp

lemma change_triple:
  assumes "list_all plainElem l" "clearTo d l" "treeDisk d" "nodeAt d l = Some (NFile c0 m0)"
    and "\<And>c m. f c m \<noteq> NDir"
  shows "triple (\<lambda>x. x = d) (osCall h c (onLocation (renderPath True l) (changeFile f)))
    (\<lambda>_ x. treeDisk x \<and> differsAt l d x \<and> nodeAt x l = Some (f c0 m0)) (\<lambda>x. x = d)"
proof (rule triple_location)
  note a = abs_render [OF assms(1)]
  show "isAbs (renderPath True l)" by (rule a(1))
  show "clearTo x (pathElems (renderPath True l))" if "x = d" for x using that assms(2) a(2) by simp
  fix x x1 u assume x: "x = d" and act: "changeFile f x (pathElems (renderPath True l)) = Inr (x1, u)"
  have l: "l \<noteq> []" using assms(4) by (cases "l = []") auto
  have "x1 = AList.update l (f c0 m0) d" using act x a(2) assms(4) by (auto simp: changeFile_def)
  moreover have "nodeAt d (butlast l) = Some NDir" using assms(3,4) l unfolding treeDisk_iff by simp
  ultimately show "treeDisk x1 \<and> differsAt l d x1 \<and> nodeAt x1 l = Some (f c0 m0)"
    using tree_update [OF assms(3) l] assms(4) l by (auto simp: differsAt_def)
qed simp

end
