(* ===== verification/RestoreSteps.thy ===== *)
theory RestoreSteps
  imports DiskEffects
begin

text \<open>
  The composite steps of a restore: replacing a path by a file or a link, making parent
  directories, removing a controlled path and the directories that become empty. Each is a relation
  between the disk before and after, on success and on failure.
\<close>

lemma triple_ghost:
  assumes "\<And>d. A d \<Longrightarrow> triple (\<lambda>x. x = d) m Q E" shows "triple A m Q E"
  using assms unfolding triple_def by blast

text \<open>Nothing outside a set of locations is different.\<close>

definition away :: "location set \<Rightarrow> disk \<Rightarrow> disk \<Rightarrow> bool" where
  "away S d x \<longleftrightarrow> treeDisk x \<and> (\<forall>xs. xs \<notin> S \<longrightarrow> nodeAt x xs = nodeAt d xs)"

lemma away_refl: "treeDisk d \<Longrightarrow> away S d d"
  by (simp add: away_def)

lemma away_step: "away S d x \<Longrightarrow> treeDisk y \<Longrightarrow> differsAt l x y \<Longrightarrow> l \<in> S \<Longrightarrow> away S d y"
  by (auto simp: away_def differsAt_def)

lemma differsAt_away: "treeDisk x \<Longrightarrow> differsAt l d x \<Longrightarrow> l \<in> S \<Longrightarrow> away S d x"
  by (auto simp: away_def differsAt_def)

text \<open>What was there is still there, except at one location: new entries may have appeared.\<close>

definition spares :: "location \<Rightarrow> disk \<Rightarrow> disk \<Rightarrow> bool" where
  "spares l d x \<longleftrightarrow> treeDisk x \<and> (\<forall>xs. xs \<noteq> l \<longrightarrow> nodeAt d xs \<noteq> None \<longrightarrow> nodeAt x xs = nodeAt d xs)"

lemma spares_refl: "treeDisk d \<Longrightarrow> spares l d d"
  by (simp add: spares_def)

lemma away_spares: "away {l, t} d x \<Longrightarrow> t = l \<or> nodeAt d t = None \<Longrightarrow> spares l d x"
  by (auto simp: away_def spares_def)

section \<open>Siblings\<close>

lemma sibling_clear:
  assumes "clearTo d l" "l \<noteq> []" "away {l, butlast l @ [e]} d x"
  shows "clearTo x l" "clearTo x (butlast l @ [e])"
proof -
  have n: "xs \<noteq> l \<and> xs \<noteq> butlast l @ [e]" if "strict_prefix xs l \<or> strict_prefix xs (butlast l @ [e])" for xs
    using that assms(2) prefix_length_less [of xs l] prefix_length_less [of xs "butlast l @ [e]"] by auto
  have p: "strict_prefix xs l" if "strict_prefix xs (butlast l @ [e])" for xs
  proof -
    have "prefix xs (butlast l)" using that by (metis prefix_snoc strict_prefix_def)
    then obtain zs where "butlast l = xs @ zs" by (auto simp: prefix_def)
    then have "l = xs @ (zs @ [last l])" using assms(2) by (metis append_assoc append_butlast_last_id)
    then show ?thesis by (metis append_is_Nil_conv list.distinct(1) prefixI self_append_conv strict_prefix_def)
  qed
  have "nodeAt x xs = nodeAt d xs" if "strict_prefix xs l \<or> strict_prefix xs (butlast l @ [e])" for xs
    using assms(3) n [OF that] by (simp add: away_def)
  then show "clearTo x l" "clearTo x (butlast l @ [e])" using assms(1) p unfolding clearTo_def by auto
qed

lemma plain_sibling:
  "list_all plainElem l \<Longrightarrow> plainElem e \<Longrightarrow> list_all plainElem (butlast l @ [e])"
  by (auto simp: list_all_iff dest: in_set_butlastD)

lemma no_slash_number: "slash \<notin> set (showNat n)"
  unfolding showNat_def by (rule digitsOf_no) (simp add: isDigitChar_def)

lemma hexDigit_no_slash: "n < 16 \<Longrightarrow> hexDigit n \<noteq> slash"
proof -
  have "list_all (\<lambda>n. hexDigit n \<noteq> slash) [0..<16]" by code_simp
  then show "n < 16 \<Longrightarrow> hexDigit n \<noteq> slash" by (simp only: list_all_iff) simp
qed

lemma no_slash_hex: "slash \<notin> set (hexPad k n)"
proof (induction k arbitrary: n)
  case (Suc k)
  have "hexDigit (n mod 16) \<noteq> slash" by (rule hexDigit_no_slash) simp
  then show ?case using Suc by auto
qed simp

lemma plain_temporary: "plainElem (''.specrelay-restore-'' @ showNat n)" "plainElem (''.specrelay-link-'' @ uuidText n)"
  using no_slash_number no_slash_hex by (simp_all add: plainElem_def uuidText_def)

section \<open>Replacing a path\<close>

lemma remove_replaceable:
  assumes "list_all plainElem l" "clearTo d l" "treeDisk d"
  shows "triple (\<lambda>x. x = d) (removeReplaceablePath h (renderPath True l))
    (\<lambda>_ x. treeDisk x \<and> differsAt l d x \<and> nodeAt x l = None) (\<lambda>x. x = d)"
  unfolding removeReplaceablePath_def
proof (rule triple_bind)
  show "triple (\<lambda>x. x = d) (osLstat h (renderPath True l))
      (\<lambda>k x. x = d \<and> (k = StatError \<or> k = kindOf (nodeAt d l))) (\<lambda>x. x = d)"
    by (rule lstat_triple [OF assms]) auto
  fix k
  have remove: "triple (\<lambda>x. x = d) (osRemove h (renderPath True l))
      (\<lambda>_ x. treeDisk x \<and> differsAt l d x \<and> nodeAt x l = None) (\<lambda>x. x = d)"
    by (rule triple_weaken [OF remove_triple [OF assms]]) auto
  have listing: "triple (\<lambda>x. x = d) (osReadDir h (renderPath True l)) (\<lambda>_ x. x = d) (\<lambda>x. x = d)"
    by (rule triple_quiet) (auto intro: quiet_steps)
  have missing: "nodeAt d l = None" if "NotExist = kindOf (nodeAt d l)"
    using that by (auto simp: kindOf_def split: option.splits node.splits)
  show "triple (\<lambda>x. x = d \<and> (k = StatError \<or> k = kindOf (nodeAt d l)))
    (if k = NotExist then pureIO () else if k = StatError then failIO OsError
     else if k \<noteq> Directory then osRemove h (renderPath True l)
     else bindIO (osReadDir h (renderPath True l)) (\<lambda>entries.
       if entries \<noteq> [] then failIO (GitText ''refusing to replace a non-empty directory because it may contain ignored files'')
       else osRemove h (renderPath True l)))
    (\<lambda>_ x. treeDisk x \<and> differsAt l d x \<and> nodeAt x l = None) (\<lambda>x. x = d)"
    by (intro triple_if triple_pure triple_fail triple_weaken [OF remove]
        triple_weaken [OF triple_bind [OF listing triple_if [OF triple_fail remove]]])
      (use missing assms(3) in \<open>auto simp: differsAt_def\<close>)
qed

lemma rename_triple:
  assumes "list_all plainElem a" "list_all plainElem b" "clearTo d a" "clearTo d b" "treeDisk d"
    "nodeAt d a = Some n" "n \<noteq> NDir"
  shows "triple (\<lambda>x. x = d) (osRename h (renderPath True a) (renderPath True b))
    (\<lambda>_ x. away {a, b} d x \<and> nodeAt x b = Some n \<and> (a \<noteq> b \<longrightarrow> nodeAt x a = None)) (\<lambda>x. x = d)"
  unfolding osRename_def
proof (rule triple_location)
  note pa = abs_render [OF assms(1)] and pb = abs_render [OF assms(2)]
  show "isAbs (renderPath True a)" by (rule pa(1))
  show "clearTo x (pathElems (renderPath True a))" if "x = d" for x using that assms(3) pa(2) by simp
  fix x x1 u assume x: "x = d" and act: "(case nodeAt x (pathElems (renderPath True a)) of None \<Rightarrow> Inl OsNotExist
    | Some NDir \<Rightarrow> Inl OsError
    | Some n \<Rightarrow> onLocation (renderPath True b) (\<lambda>d l2. if nodeAt d l2 = Some NDir then Inl OsError
        else Inr (AList.update l2 n (AList.delete (pathElems (renderPath True a)) d), ())) x) = Inr (x1, u)"
  have on: "onLocation (renderPath True b) (\<lambda>d l2. if nodeAt d l2 = Some NDir then Inl OsError
      else Inr (AList.update l2 n (AList.delete a d), ())) d = Inr (x1, u)"
    using act assms(6,7) unfolding x pa(2) by (auto split: node.splits)
  then obtain l where l: "locate d (renderPath True b) = Found l" "nodeAt d l \<noteq> Some NDir"
    "x1 = AList.update l n (AList.delete a d)"
    by (auto simp: onLocation_def split: found.splits if_splits)
  have "clearTo d (pathElems (renderPath True b))" using assms(4) pb(2) by simp
  note lb = locate_found [OF pb(1) this l(1)]
  have b: "l = b" "b \<noteq> []" using lb(1) l(2) pb(2) by auto
  have up: "nodeAt d (butlast b) = Some NDir" using lb(2) b by simp
  have a: "a \<noteq> []" using assms(6,7) by (cases "a = []") auto
  have "butlast b \<noteq> a" using up assms(6,7) by auto
  then have "treeDisk x1" unfolding l(3) b(1) using assms(5,6,7) a b l(2) up
    by (intro tree_update tree_delete) auto
  then show "away {a, b} d x1 \<and> nodeAt x1 b = Some n \<and> (a \<noteq> b \<longrightarrow> nodeAt x1 a = None)"
    using l(3) a b by (auto simp: away_def)
qed simp

section \<open>Writing a file or a link\<close>

text \<open>The result of a replacement: the new entry and nothing else.\<close>

definition replaced :: "location \<Rightarrow> node \<Rightarrow> disk \<Rightarrow> disk \<Rightarrow> bool" where
  "replaced l n d x \<longleftrightarrow> treeDisk x \<and> differsAt l d x \<and> nodeAt x l = Some n"

lemma write_temporary:
  assumes l: "list_all plainElem l" "l \<noteq> []" "clearTo d l" "treeDisk d" and e: "plainElem e"
    and t: "t = butlast l @ [e]" "nodeAt d t = Some (NFile [] m0)"
  shows "triple (\<lambda>x. x = d) (writeTemporary h (renderPath True l) (renderPath True t) content mode)
    (\<lambda>_ x. away {l, t} d x \<and> nodeAt x l = Some (NFile content mode) \<and> (t \<noteq> l \<longrightarrow> nodeAt x t = None))
    (away {l, t} d)"
proof -
  define holds where "holds c m x \<longleftrightarrow> away {l, t} d x \<and> nodeAt x t = Some (NFile c m)" for c m and x :: disk
  have pt: "list_all plainElem t" using plain_sibling [OF l(1) e] t(1) by simp
  have clear: "clearTo x l" "clearTo x t" if "away {l, t} d x" for x
    using sibling_clear [OF l(3,2), of e x] that t(1) by auto
  have change: "triple (holds c m) (osCall h k (onLocation (renderPath True t) (changeFile f)))
      (\<lambda>_ x. away {l, t} d x \<and> nodeAt x t = Some (f c m)) (away {l, t} d)"
    if "\<And>c m. f c m \<noteq> NDir" for c m f k
  proof (rule triple_ghost)
    fix x assume x: "holds c m x"
    then have tr: "treeDisk x" by (simp add: holds_def away_def)
    show "triple (\<lambda>y. y = x) (osCall h k (onLocation (renderPath True t) (changeFile f)))
        (\<lambda>_ y. away {l, t} d y \<and> nodeAt y t = Some (f c m)) (away {l, t} d)"
      by (rule triple_weaken [OF change_triple [OF pt clear(2) tr, of c m f]])
        (use x that in \<open>auto simp: holds_def intro: away_step\<close>)
  qed
  have still: "triple (holds c m) q (\<lambda>_. holds c m) (away {l, t} d)" if "quiet q" for q :: "unit io" and c m
    by (rule triple_quiet [OF that]) (auto simp: holds_def)
  have "triple (holds content mode) (osRename h (renderPath True t) (renderPath True l))
      (\<lambda>_ x. away {l, t} d x \<and> nodeAt x l = Some (NFile content mode) \<and> (t \<noteq> l \<longrightarrow> nodeAt x t = None)) (away {l, t} d)"
  proof (rule triple_ghost)
    fix x assume x: "holds content mode x"
    then have a: "away {l, t} d x" "treeDisk x" "nodeAt x t = Some (NFile content mode)" by (simp_all add: holds_def away_def)
    show "triple (\<lambda>y. y = x) (osRename h (renderPath True t) (renderPath True l))
      (\<lambda>_ x. away {l, t} d x \<and> nodeAt x l = Some (NFile content mode) \<and> (t \<noteq> l \<longrightarrow> nodeAt x t = None)) (away {l, t} d)"
      by (rule triple_weaken [OF rename_triple [OF pt l(1) clear(2,1) a(2,3)]])
        (use a(1) in \<open>auto simp: away_def\<close>)
  qed
  moreover have "triple (\<lambda>x. x = d) (osWrite h (renderPath True t) content) (\<lambda>_. holds content m0) (away {l, t} d)"
    unfolding osWrite_def
    by (rule triple_weaken [OF change [of "\<lambda>c m. NFile (c @ content) m" "[]" m0]])
      (use t(2) l(4) in \<open>auto simp: holds_def away_refl\<close>)
  moreover have "triple (holds content m0) (osChmod h (renderPath True t) mode) (\<lambda>_. holds content mode) (away {l, t} d)"
    unfolding osChmod_def
    by (rule triple_weaken [OF change [of "\<lambda>c m. NFile c mode" content m0]]) (auto simp: holds_def)
  ultimately show ?thesis unfolding writeTemporary_def
    by (intro triple_bind) (auto intro: still quiet_steps)
qed

lemma remove_temporary:
  assumes l: "list_all plainElem l" "l \<noteq> []" "clearTo d l" and e: "plainElem e" and t: "t = butlast l @ [e]"
  shows "triple (away {l, t} d) (osRemove h (renderPath True t)) (\<lambda>_. away {l, t} d) (away {l, t} d)"
proof (rule triple_ghost)
  fix x assume x: "away {l, t} d x"
  have pt: "list_all plainElem t" using plain_sibling [OF l(1) e] t by simp
  have c: "clearTo x t" using sibling_clear [OF l(3,2), of e x] x t by auto
  have tr: "treeDisk x" using x by (simp add: away_def)
  show "triple (\<lambda>y. y = x) (osRemove h (renderPath True t)) (\<lambda>_. away {l, t} d) (away {l, t} d)"
    by (rule triple_weaken [OF remove_triple [OF pt c tr]]) (use x in \<open>auto intro: away_step\<close>)
qed

text \<open>A temporary entry was made next to a path that was cleared; then the steps after it are run.\<close>

lemma with_temporary:
  assumes l: "list_all plainElem l" "l \<noteq> []" "clearTo d l" "treeDisk d"
    and name: "\<And>A. triple A draw (\<lambda>u x. A x \<and> plainElem (name u)) A"
    and path: "\<And>u. plainElem (name u) \<Longrightarrow> path u = renderPath True (butlast l @ [name u])"
    and steps: "\<And>u x t. plainElem (name u) \<Longrightarrow> t = butlast l @ [name u] \<Longrightarrow> clearTo x l \<Longrightarrow> treeDisk x \<Longrightarrow> nodeAt x t = Some n0 \<Longrightarrow>
      triple (\<lambda>y. y = x) (m u) (\<lambda>_ y. away {l, t} x y \<and> nodeAt y l = Some n \<and> (t \<noteq> l \<longrightarrow> nodeAt y t = None)) (away {l, t} x)"
    and clean: "\<And>u x t. plainElem (name u) \<Longrightarrow> t = butlast l @ [name u] \<Longrightarrow> clearTo x l \<Longrightarrow> triple (away {l, t} x) (c u) (\<lambda>_. away {l, t} x) (away {l, t} x)"
  shows "triple (\<lambda>x. x = d) (bindIO (removeReplaceablePath h (renderPath True l)) (\<lambda>_.
      bindIO draw (\<lambda>u. bindIO (osCall h (k u) (onLocation (path u) (newEntry n0)))
        (\<lambda>_. onFailure (m u) (c u)))))
    (\<lambda>_. replaced l n d) (spares l d)"
proof (rule triple_bind)
  show "triple (\<lambda>x. x = d) (removeReplaceablePath h (renderPath True l))
      (\<lambda>_ x. treeDisk x \<and> differsAt l d x \<and> nodeAt x l = None) (spares l d)"
    by (rule triple_weaken [OF remove_replaceable [OF l(1,3,4)]]) (use l(4) in \<open>auto simp: spares_refl\<close>)
  show "triple (\<lambda>x. treeDisk x \<and> differsAt l d x \<and> nodeAt x l = None)
      (bindIO draw (\<lambda>u. bindIO (osCall h (k u) (onLocation (path u) (newEntry n0)))
        (\<lambda>_. onFailure (m u) (c u))))
      (\<lambda>_. replaced l n d) (spares l d)"
  proof (rule triple_bind, rule triple_weaken [OF name], assumption, assumption)
    show "spares l d x" if "treeDisk x \<and> differsAt l d x \<and> nodeAt x l = None" for x
      using that by (simp add: spares_def differsAt_def)
    fix u
    let ?t = "butlast l @ [name u]"
    show "triple (\<lambda>x. (treeDisk x \<and> differsAt l d x \<and> nodeAt x l = None) \<and> plainElem (name u))
      (bindIO (osCall h (k u) (onLocation (path u) (newEntry n0))) (\<lambda>_. onFailure (m u) (c u)))
      (\<lambda>_. replaced l n d) (spares l d)"
    proof (rule triple_ghost)
      fix x assume xu: "(treeDisk x \<and> differsAt l d x \<and> nodeAt x l = None) \<and> plainElem (name u)"
      then have x: "treeDisk x \<and> differsAt l d x \<and> nodeAt x l = None" and u: "plainElem (name u)" by simp_all
      have pt: "list_all plainElem ?t" by (rule plain_sibling [OF l(1) u])
      have ax: "away {l, ?t} d x" using x by (auto simp: away_def differsAt_def)
      note cx = sibling_clear [OF l(3,2) ax]
      show "triple (\<lambda>y. y = x) (bindIO (osCall h (k u) (onLocation (path u) (newEntry n0)))
          (\<lambda>_. onFailure (m u) (c u))) (\<lambda>_. replaced l n d) (spares l d)"
      proof (rule triple_bind)
        show "triple (\<lambda>y. y = x) (osCall h (k u) (onLocation (path u) (newEntry n0)))
          (\<lambda>_ y. treeDisk y \<and> differsAt ?t x y \<and> nodeAt y ?t = Some n0 \<and> nodeAt x ?t = None) (spares l d)"
          unfolding path [OF u] by (rule triple_weaken [OF new_triple [OF pt cx(2)]]) (use x in \<open>auto simp: spares_def differsAt_def\<close>)
        show "triple (\<lambda>y. treeDisk y \<and> differsAt ?t x y \<and> nodeAt y ?t = Some n0 \<and> nodeAt x ?t = None)
          (onFailure (m u) (c u)) (\<lambda>_. replaced l n d) (spares l d)"
        proof (rule triple_ghost)
          fix y assume y: "treeDisk y \<and> differsAt ?t x y \<and> nodeAt y ?t = Some n0 \<and> nodeAt x ?t = None"
          then have ay: "away {l, ?t} x y" by (auto simp: away_def differsAt_def)
          have cy: "clearTo y l" by (rule sibling_clear(1) [OF cx(1) l(2) ay])
          have tl: "nodeAt d ?t = None \<or> ?t = l" using x y by (auto simp: differsAt_def)
          show "triple (\<lambda>z. z = y) (onFailure (m u) (c u)) (\<lambda>_. replaced l n d) (spares l d)"
          proof (rule triple_onFailure)
            show "triple (\<lambda>z. z = y) (m u) (\<lambda>_. replaced l n d) (away {l, ?t} y)"
              by (rule triple_weaken [OF steps [OF u refl cy]])
                (use x y tl in \<open>auto simp: away_def replaced_def differsAt_def\<close>)
            show "triple (away {l, ?t} y) (c u) (\<lambda>_. spares l d) (spares l d)"
              by (rule triple_weaken [OF clean [OF u refl cy]])
                (use x y tl in \<open>auto simp: away_def spares_def differsAt_def\<close>)
          qed
        qed
      qed
    qed
  qed
qed

lemma sibling_path:
  assumes "list_all plainElem l" "l \<noteq> []" "plainElem e"
  shows "goJoin [goDir (renderPath True l), e] = renderPath True (butlast l @ [e])"
proof -
  have "goDir (renderPath True l) = renderPath True (butlast l)"
    using dir_render [of "butlast l" "last l"] assms(1,2) by simp
  moreover have "list_all plainElem (butlast l)" using assms(1) by (auto simp: list_all_iff dest: in_set_butlastD)
  ultimately show ?thesis using join_render assms(3) by simp
qed

lemma write_file:
  assumes "list_all plainElem l" "l \<noteq> []" "clearTo d l" "treeDisk d"
  shows "triple (\<lambda>x. x = d) (replaceWithRegularFile h (renderPath True l) content mode)
    (\<lambda>_. replaced l (NFile content mode) d) (spares l d)"
  unfolding replaceWithRegularFile_def Let_def osCreateNew_def
proof (rule with_temporary [OF assms, where name = "\<lambda>u. u"])
  show "triple A (freshName h ''.specrelay-restore-'') (\<lambda>u x. A x \<and> plainElem u) A" for A
    using plain_temporary by (auto simp: triple_def freshName_def)
  show path: "goJoin [goDir (renderPath True l), u] = renderPath True (butlast l @ [u])" if "plainElem u" for u
    by (rule sibling_path [OF assms(1,2) that])
  fix u t and x :: disk assume u: "plainElem u" "t = butlast l @ [u]" "clearTo x l"
  show "triple (\<lambda>y. y = x) (writeTemporary h (renderPath True l) (goJoin [goDir (renderPath True l), u]) content mode)
      (\<lambda>_ y. away {l, t} x y \<and> nodeAt y l = Some (NFile content mode) \<and> (t \<noteq> l \<longrightarrow> nodeAt y t = None)) (away {l, t} x)"
    if "treeDisk x" "nodeAt x t = Some (NFile [] 384)"
    using write_temporary [OF assms(1,2) u(3) that(1) u(1,2) that(2)] path [OF u(1)] u(2) by simp
  show "triple (away {l, t} x) (closeAndRemove h (goJoin [goDir (renderPath True l), u])) (\<lambda>_. away {l, t} x) (away {l, t} x)"
    unfolding closeAndRemove_def path [OF u(1)] u(2) [symmetric]
    by (rule triple_bind [where B = "\<lambda>_. away {l, t} x"], rule triple_quiet)
      (auto intro: quiet_steps remove_temporary [OF assms(1,2) u(3,1,2)])
qed

lemma write_link:
  assumes "list_all plainElem l" "l \<noteq> []" "clearTo d l" "treeDisk d"
  shows "triple (\<lambda>x. x = d) (replaceWithSymlink h (renderPath True l) target)
    (\<lambda>_. replaced l (NLink target) d) (spares l d)"
  unfolding replaceWithSymlink_def Let_def osSymlink_def
proof (rule triple_if)
  show "triple (\<lambda>x. x = d) (failIO (GitText ''symlink target contains NUL'')) (\<lambda>_. replaced l (NLink target) d) (spares l d)"
    using assms(4) by (auto intro: triple_fail simp: spares_refl)
  show "triple (\<lambda>x. x = d) (bindIO (removeReplaceablePath h (renderPath True l)) (\<lambda>_. bindIO (freshUuid h) (\<lambda>u.
      bindIO (osCall h (CallSymlink target (goJoin [goDir (renderPath True l), ''.specrelay-link-'' @ u]))
        (onLocation (goJoin [goDir (renderPath True l), ''.specrelay-link-'' @ u]) (newEntry (NLink target))))
      (\<lambda>_. onFailure (osRename h (goJoin [goDir (renderPath True l), ''.specrelay-link-'' @ u]) (renderPath True l))
        (osRemove h (goJoin [goDir (renderPath True l), ''.specrelay-link-'' @ u]))))))
    (\<lambda>_. replaced l (NLink target) d) (spares l d)"
  proof (rule with_temporary [OF assms, where name = "\<lambda>u. ''.specrelay-link-'' @ u"])
    show "triple A (freshUuid h) (\<lambda>u x. A x \<and> plainElem (''.specrelay-link-'' @ u)) A" for A
      using plain_temporary by (auto simp: triple_def freshUuid_def)
    show path: "goJoin [goDir (renderPath True l), ''.specrelay-link-'' @ u] = renderPath True (butlast l @ [''.specrelay-link-'' @ u])"
      if "plainElem (''.specrelay-link-'' @ u)" for u
      by (rule sibling_path [OF assms(1,2) that])
    fix u t and x :: disk assume u: "plainElem (''.specrelay-link-'' @ u)" "t = butlast l @ [''.specrelay-link-'' @ u]" "clearTo x l"
    have pt: "list_all plainElem t" using plain_sibling [OF assms(1) u(1)] u(2) by simp
    show "triple (\<lambda>y. y = x) (osRename h (goJoin [goDir (renderPath True l), ''.specrelay-link-'' @ u]) (renderPath True l))
        (\<lambda>_ y. away {l, t} x y \<and> nodeAt y l = Some (NLink target) \<and> (t \<noteq> l \<longrightarrow> nodeAt y t = None)) (away {l, t} x)"
      if x: "treeDisk x" "nodeAt x t = Some (NLink target)"
    proof -
      have ct: "clearTo x t" using sibling_clear(2) [OF u(3) assms(2) away_refl [OF x(1)]] u(2) by simp
      show ?thesis unfolding path [OF u(1)] u(2) [symmetric]
        by (rule triple_weaken [OF rename_triple [OF pt assms(1) ct u(3) x]]) (use x in \<open>auto simp: away_def\<close>)
    qed
    show "triple (away {l, t} x) (osRemove h (goJoin [goDir (renderPath True l), ''.specrelay-link-'' @ u])) (\<lambda>_. away {l, t} x) (away {l, t} x)"
      unfolding path [OF u(1)] u(2) [symmetric] by (rule remove_temporary [OF assms(1,2) u(3,1,2)])
  qed
qed

section \<open>Parents\<close>

text \<open>Only directories appeared, all of them above a location.\<close>

definition grown :: "location \<Rightarrow> disk \<Rightarrow> disk \<Rightarrow> bool" where
  "grown l d x \<longleftrightarrow> treeDisk x \<and>
     (\<forall>xs. nodeAt x xs = nodeAt d xs \<or> nodeAt d xs = None \<and> nodeAt x xs = Some NDir \<and> strict_prefix xs l)"

lemma grown_refl: "treeDisk d \<Longrightarrow> grown l d d"
  by (simp add: grown_def)

lemma grown_trans:
  assumes "grown l d x" "grown l x y" shows "grown l d y"
proof -
  have "nodeAt y xs = nodeAt d xs \<or> nodeAt d xs = None \<and> nodeAt y xs = Some NDir \<and> strict_prefix xs l" for xs
    using assms unfolding grown_def by (auto dest!: spec [of _ xs])
  then show ?thesis using assms(2) by (simp add: grown_def)
qed

lemma grown_new:
  assumes "treeDisk x" "differsAt l1 d x" "nodeAt d l1 = None" "nodeAt x l1 = Some NDir" "strict_prefix l1 l"
  shows "grown l d x"
proof -
  have "nodeAt x xs = nodeAt d xs \<or> nodeAt d xs = None \<and> nodeAt x xs = Some NDir \<and> strict_prefix xs l" for xs
    using assms(2-5) by (cases "xs = l1") (simp_all add: differsAt_def)
  then show ?thesis using assms(1) by (simp add: grown_def)
qed

lemma grown_link: "grown l d x \<Longrightarrow> isLink (nodeAt x xs) \<Longrightarrow> isLink (nodeAt d xs)"
  unfolding grown_def by (auto simp: isLink_def dest!: spec [of _ xs])

lemma grown_clear: "grown l d x \<Longrightarrow> clearTo d k \<Longrightarrow> clearTo x k"
  using grown_link unfolding clearTo_def by blast

lemma clear_prefix: "clearTo d (xs @ ys) \<Longrightarrow> clearTo d xs"
  unfolding clearTo_def by (metis append_Nil2 prefixI prefix_order.less_le_trans)

lemma make_parents:
  assumes "list_all plainElem (us @ parts)" "clearTo d l" "treeDisk d" "strict_prefix (us @ parts) l"
  shows "triple (\<lambda>x. x = d) (makeParents h (renderPath True us) parts) (\<lambda>_. grown l d) (grown l d)"
  using assms
proof (induction parts arbitrary: us d)
  case Nil
  then show ?case by (auto intro: triple_pure simp: grown_refl)
next
  case (Cons part parts)
  let ?l = "us @ [part]"
  have pl: "list_all plainElem ?l" "list_all plainElem us" "plainElem part" "list_all plainElem (?l @ parts)"
    using Cons.prems(1) by simp_all
  have j: "goJoin [renderPath True us, part] = renderPath True ?l" by (rule join_render [OF pl(2,3)])
  have sp: "strict_prefix ?l l" "strict_prefix (?l @ parts) l"
    using Cons.prems(4) by (auto simp: strict_prefix_def prefix_def)
  have c: "clearTo d ?l" using Cons.prems(2) sp(1) unfolding clearTo_def
    by (meson prefix_order.less_trans)
  have next1: "triple (grown l d) (makeParents h (renderPath True ?l) parts) (\<lambda>_. grown l d) (grown l d)"
  proof (rule triple_ghost)
    fix x assume x: "grown l d x"
    then have tx: "treeDisk x" by (simp add: grown_def)
    show "triple (\<lambda>y. y = x) (makeParents h (renderPath True ?l) parts) (\<lambda>_. grown l d) (grown l d)"
      by (rule triple_weaken [OF Cons.IH [OF pl(4) grown_clear [OF x Cons.prems(2)] tx sp(2)]])
        (use x in \<open>auto intro: grown_trans\<close>)
  qed
  have new: "triple (\<lambda>x. x = d) (osMkdir h (renderPath True ?l)) (\<lambda>_. grown l d) (grown l d)"
    unfolding osMkdir_def
    by (rule triple_weaken [OF new_triple [OF pl(1) c Cons.prems(3)]])
      (use sp(1) Cons.prems(3) in \<open>auto intro: grown_new simp: grown_refl\<close>)
  show ?case unfolding makeParents.simps Let_def j
  proof (rule triple_bind)
    show "triple (\<lambda>x. x = d) (osLstat h (renderPath True ?l)) (\<lambda>k x. x = d \<and> True) (grown l d)"
      by (rule lstat_triple [OF pl(1) c Cons.prems(3)]) simp_all
    show "triple (\<lambda>x. x = d \<and> True) (if k = NotExist then bindIO (osMkdir h (renderPath True ?l)) (\<lambda>_. makeParents h (renderPath True ?l) parts)
        else if k = StatError then failIO OsError
        else if k = Symlink then failIO (GitText ''restore parent is a symlink'')
        else if k \<noteq> Directory then failIO (GitText ''restore parent is not a directory'')
        else makeParents h (renderPath True ?l) parts) (\<lambda>_. grown l d) (grown l d)" for k
      by (intro triple_if triple_fail triple_weaken [OF triple_bind [OF new next1]] triple_weaken [OF next1])
        (use Cons.prems(3) in \<open>auto simp: grown_refl\<close>)
  qed
qed

lemma triple_path:
  assumes "\<And>s y. A (hsDisk s) \<Longrightarrow> f (hostFs h s) = Inr y \<Longrightarrow> Q y (hsDisk s)" "\<And>d. A d \<Longrightarrow> E d"
  shows "triple A (pathIO h f) Q E"
  using assms by (auto simp: triple_def pathIO_def liftIO_def split: sum.splits)

text \<open>A real root: its elements are plain and it is a directory of the tree.\<close>

definition realRoot :: "location \<Rightarrow> disk \<Rightarrow> bool" where
  "realRoot r d \<longleftrightarrow> list_all plainElem r \<and> treeDisk d \<and> nodeAt d r = Some NDir"

lemma real_eval:
  assumes "realRoot r (hsDisk s)" "fsEval (hostFs h s) (renderPath True r) = Some p"
  shows "p = renderPath True r"
proof -
  let ?d = "hsDisk s"
  have t: "treeDisk ?d" "nodeAt ?d r = Some NDir" and pr: "list_all plainElem r" using assms(1) by (simp_all add: realRoot_def)
  have "nodeAt ?d (take (Suc k) r) = Some NDir" for k
    using t tree_parents [OF t(1), of r "take (Suc k) r"] by (metis option.distinct(1) strict_prefix_def take_is_prefix)
  then have "follow 255 ?d [] r = Found r" using follow_dirs [OF pr, of ?d "[]"] by simp
  then show ?thesis using assms(2) abs_render(2) [OF pr] by (auto simp: hostFs_def split: if_splits)
qed

lemma real_normal:
  assumes "realRoot r (hsDisk s)" "isAbs (hoCwd h)" "normalizeExisting (hostFs h s) (renderPath True r) = Inr q \<or>
    NormalizeExistingPath (hostFs h s) (renderPath True r) = Inr q" "trimSpace (renderPath True r) = renderPath True r"
  shows "q = renderPath True r"
proof -
  have pr: "list_all plainElem r" using assms(1) by (simp add: realRoot_def)
  note a = abs_render [OF pr]
  show ?thesis
    using assms(3) real_eval [OF assms(1)] a assms(4)
    by (auto simp: normalizeExisting_def NormalizeExistingPath_def InspectExistingPath_def Let_def goAbs_def bindR_Inr_iff
        split: if_splits option.splits)
qed

end
