(* ===== verification/RestoreResults.thy ===== *)
theory RestoreResults
  imports RestoreSteps
begin

text \<open>
  What a restore of a Git checkpoint guarantees: nothing changes before all checks have passed, files
  that neither tree controls survive whatever fails, and a restore that succeeds leaves exactly the
  files and links of the checkpoint at its paths.
\<close>

section \<open>Resolved paths\<close>

lemma join_fold:
  "list_all plainElem (us @ es) \<Longrightarrow> foldl (\<lambda>a e. goJoin [a, e]) (renderPath True us) es = renderPath True (us @ es)"
proof (induction es arbitrary: us)
  case (Cons e es)
  then have "goJoin [renderPath True us, e] = renderPath True (us @ [e])" by (intro join_render) auto
  then show ?case using Cons.IH [of "us @ [e]"] Cons.prems by simp
qed simp

lemma kind_at:
  assumes "list_all plainElem l" "clearTo (hsDisk s) l" "fsLstat (hostFs h s) (renderPath True l) = k"
    "k = Directory \<or> k = Symlink"
  shows "k = kindOf (nodeAt (hsDisk s) l)"
proof -
  note a = abs_render [OF assms(1)]
  have c: "clearTo (hsDisk s) (pathElems (renderPath True l))" using assms(2) a(2) by simp
  have "lstatKind (hsDisk s) (renderPath True l) = k" using assms(3,4) by (auto simp: hostFs_def split: if_splits)
  then obtain m where m: "locate (hsDisk s) (renderPath True l) = Found m" "k = kindOf (nodeAt (hsDisk s) m)"
    using assms(4) by (auto simp: lstatKind_def split: found.splits)
  then show ?thesis using locate_found(1) [OF a(1) c m(1)] a(2) by simp
qed

lemma walk_real:
  assumes "writeWalk (hostFs h s) root (renderPath True us) parts = Inr p" "list_all plainElem (us @ parts)"
    "clearTo (hsDisk s) (us @ parts)"
  shows "p = renderPath True (us @ parts)"
  using assms
proof (induction parts arbitrary: us rule: induct_list012)
  case (2 part)
  then have j: "goJoin [renderPath True us, part] = renderPath True (us @ [part])" by (intro join_render) auto
  show ?case using 2 j abs_render(3) [of "us @ [part]"] by (auto simp: Let_def split: if_splits)
next
  case (3 part p2 rest)
  let ?l = "us @ [part]"
  have j: "goJoin [renderPath True us, part] = renderPath True ?l" using "3.prems"(2) by (intro join_render) auto
  have pl: "list_all plainElem ?l" "list_all plainElem (?l @ p2 # rest)" using "3.prems"(2) by simp_all
  have f: "foldl (\<lambda>a e. goJoin [a, e]) (renderPath True ?l) (p2 # rest) = renderPath True (?l @ p2 # rest)"
    by (rule join_fold [OF pl(2)])
  have sp: "strict_prefix ?l (us @ part # p2 # rest)" by (auto simp: strict_prefix_def prefix_def)
  have c: "clearTo (hsDisk s) ?l" using clear_prefix [of _ ?l "p2 # rest"] "3.prems"(3) by simp
  have nl: "\<not> isLink (nodeAt (hsDisk s) ?l)" using "3.prems"(3) sp by (simp add: clearTo_def)
  show ?case
  proof (cases "fsLstat (hostFs h s) (renderPath True ?l)")
    case NotExist
    then have "p = goClean (renderPath True (?l @ p2 # rest))"
      using "3.prems"(1) j f by (auto simp: Let_def split: if_splits)
    then show ?thesis using abs_render(3) [OF pl(2)] by simp
  next
    case Directory
    then have "writeWalk (hostFs h s) root (renderPath True ?l) (p2 # rest) = Inr p" using "3.prems"(1) j by (simp add: Let_def)
    then show ?thesis using "3.IH"(2) [of ?l] pl(2) "3.prems"(3) by simp
  next
    case Symlink
    then have "kindOf (nodeAt (hsDisk s) ?l) = Symlink" using kind_at [OF pl(1) c Symlink] by simp
    then show ?thesis using nl by (auto simp: kindOf_def isLink_def split: option.splits node.splits)
  qed (use "3.prems"(1) j in \<open>simp_all add: Let_def\<close>)
qed simp

text \<open>What the engine relies on: the working directory of the process is absolute and the root
  of the repository is a real directory whose name does not begin or end with white space.\<close>

definition rooted :: "host \<Rightarrow> git_repository \<Rightarrow> location \<Rightarrow> disk \<Rightarrow> bool" where
  "rooted h repo r d \<longleftrightarrow> isAbs (hoCwd h) \<and> realRoot r d \<and> reRoot repo = renderPath True r \<and>
     trimSpace (renderPath True r) = renderPath True r"

definition placeOf :: "location \<Rightarrow> gostring \<Rightarrow> location" where
  "placeOf r p = r @ pathElems p"

lemma resolve_real:
  assumes "rooted h repo r (hsDisk s)" "ResolveRelativePathForWrite (hostFs h s) (reRoot repo) p = Inr q"
    "clearTo (hsDisk s) (placeOf r p)"
  shows "q = renderPath True (placeOf r p)" "list_all plainElem (placeOf r p)" "pathElems p \<noteq> []"
proof -
  have root: "isAbs (hoCwd h)" "realRoot r (hsDisk s)" "reRoot repo = renderPath True r"
    "trimSpace (renderPath True r) = renderPath True r" using assms(1) by (simp_all add: rooted_def)
  obtain real where real: "ValidateRelativePath p = None" "normalizeExisting (hostFs h s) (renderPath True r) = Inr real"
    "writeWalk (hostFs h s) real real (splitOn slash (goClean p)) = Inr q"
    using assms(2) root(3) unfolding ResolveRelativePathForWrite_def by (auto simp: bindR_Inr_iff split: option.splits)
  have na: "\<not> isAbs p" and es: "pathElems p \<noteq> []" "list_all plainElem (pathElems p)"
    using real(1) by (auto simp: valid_relative)
  have "goClean p = joinWith [slash] (pathElems p)" using na es by (simp add: goClean_elems renderPath_def)
  then have sp: "splitOn slash (goClean p) = pathElems p"
    using es by (auto intro!: splitOn_join simp: list_all_iff plainElem_def)
  have rr: "real = renderPath True r" using real_normal [OF root(2,1) _ root(4)] real(2) by blast
  have pl: "list_all plainElem (r @ pathElems p)" using root(2) es by (simp add: realRoot_def)
  show "q = renderPath True (placeOf r p)"
    using walk_real [of h s real r "pathElems p" q] real(3) rr sp pl assms(3) by (simp add: placeOf_def)
  show "list_all plainElem (placeOf r p)" "pathElems p \<noteq> []" using pl es by (simp_all add: placeOf_def)
qed

section \<open>Writing one target\<close>

definition targetNode :: "gostring \<Rightarrow> tree_entry \<Rightarrow> node" where
  "targetNode content e = (if teMode e = ''120000'' then NLink content else NFile content (if teMode e = ''100755'' then 493 else 420))"

text \<open>Git's objects are immutable: reading one gives the same bytes at any time.\<close>

definition immutableBlobs :: "host \<Rightarrow> git_repository \<Rightarrow> (gostring \<Rightarrow> gostring) \<Rightarrow> bool" where
  "immutableBlobs h repo blob \<longleftrightarrow> (\<forall>hist d oid out.
     hoGit h hist d \<lparr>gmEnv = [''GIT_OPTIONAL_LOCKS=0'', ''GIT_EXTERNAL_DIFF=''], gmInput = [],
       gmArgs = gitPrefix (reRoot repo) @ [''cat-file'', ''blob'', oid]\<rparr> = Some out \<longrightarrow> out = blob oid)"

definition written :: "host \<Rightarrow> git_repository \<Rightarrow> location \<Rightarrow> tree_entry \<Rightarrow> disk \<Rightarrow> disk \<Rightarrow> bool" where
  "written h repo l e d x \<longleftrightarrow> treeDisk x \<and>
     (\<exists>c. nodeAt x l = Some (targetNode c e) \<and> (\<forall>blob. immutableBlobs h repo blob \<longrightarrow> c = blob (teOID e))) \<and>
     (\<forall>xs. xs \<noteq> l \<longrightarrow> nodeAt x xs = nodeAt d xs \<or> nodeAt d xs = None \<and> nodeAt x xs = Some NDir)"

lemma read_blob:
  "triple A (readBlob h repo oid n) (\<lambda>c d. A d \<and> (\<forall>blob. immutableBlobs h repo blob \<longrightarrow> c = blob oid)) A"
  unfolding readBlob_def gitRun_def gitInput_def
proof (intro triple_if triple_fail triple_bind)
  show "triple A (gitCall h \<lparr>gmEnv = [''GIT_OPTIONAL_LOCKS=0'', ''GIT_EXTERNAL_DIFF=''] @ [], gmInput = [],
      gmArgs = gitPrefix (reRoot repo) @ [''cat-file'', ''blob'', oid]\<rparr>)
    (\<lambda>c d. A d \<and> (\<forall>blob. immutableBlobs h repo blob \<longrightarrow> c = blob oid)) A"
    unfolding triple_def gitCall_def immutableBlobs_def by (auto split: option.splits)
qed (auto intro: triple_fail triple_pure)

lemma safe_parents:
  assumes "rooted h repo r d" "l = r @ es" "list_all plainElem l" "es \<noteq> []" "clearTo d l"
  shows "triple (\<lambda>x. x = d) (ensureSafeParentDirectories h (reRoot repo) (goDir (renderPath True l)))
    (\<lambda>_. grown l d) (grown l d)"
proof -
  have root: "isAbs (hoCwd h)" "realRoot r d" "reRoot repo = renderPath True r"
    "trimSpace (renderPath True r) = renderPath True r" using assms(1) by (simp_all add: rooted_def)
  have t: "treeDisk d" using root(2) by (simp add: realRoot_def)
  let ?u = "butlast es"
  have pl: "list_all plainElem r" "list_all plainElem ?u" using assms(2,3) by (auto simp: list_all_iff dest: in_set_butlastD)
  have dir: "goDir (renderPath True l) = renderPath True (r @ ?u)"
    using dir_render [of "r @ ?u" "last es"] assms(2-4) by simp
  have up: "strict_prefix (r @ ?u) l"
    unfolding assms(2) using assms(4) by (metis append_assoc append_butlast_last_id list.distinct(1) self_append_conv
        prefixI strict_prefix_def)
  have split: "splitOn slash (joinWith [slash] ?u) = ?u" if "?u \<noteq> []"
    using pl(2) that by (intro splitOn_join) (auto simp: list_all_iff plainElem_def)
  have make: "triple (\<lambda>x. x = d) (makeParents h (renderPath True r) ?u) (\<lambda>_. grown l d) (grown l d)"
    by (rule make_parents) (use pl assms(5) t up in auto)
  show ?thesis unfolding ensureSafeParentDirectories_def root(3) dir Let_def
  proof (rule triple_bind)
    show "triple (\<lambda>x. x = d) (pathIO h (\<lambda>fs. NormalizeExistingPath fs (renderPath True r)))
      (\<lambda>real x. x = d \<and> real = renderPath True r) (grown l d)"
      by (rule triple_path) (use real_normal [of r _ h] root t in \<open>auto simp: grown_refl\<close>)
    show "triple (\<lambda>x. x = d \<and> real = renderPath True r)
      (if outsideRel (goRel real (renderPath True (r @ ?u))) then failIO (ErrPath ErrPathOutsideRoots)
       else if goRel real (renderPath True (r @ ?u)) = Some ''.'' then pureIO ()
       else makeParents h real (splitOn slash (the (goRel real (renderPath True (r @ ?u))))))
      (\<lambda>_. grown l d) (grown l d)" for real
    proof (cases "real = renderPath True r")
      case True
      show ?thesis unfolding True
        using outside_render [OF pl] rel_render [OF pl] split join_plain [OF pl(2)] t
        by (intro triple_if triple_fail triple_pure) (auto simp: grown_refl make split: if_splits)
    qed (simp add: triple_def)
  qed
qed

lemma write_target:
  assumes "rooted h repo r d" "clearTo d (placeOf r p)" "teMode e \<noteq> ''160000''"
  shows "triple (\<lambda>x. x = d) (writeTarget h repo (p, e)) (\<lambda>_. written h repo (placeOf r p) e d) (spares (placeOf r p) d)"
proof -
  let ?l = "placeOf r p"
  have t: "treeDisk d" using assms(1) by (simp add: rooted_def realRoot_def)
  show ?thesis unfolding writeTarget_def prod.case if_not_P [OF assms(3)]
  proof (rule triple_bind)
    show "triple (\<lambda>x. x = d) (pathIO h (\<lambda>fs. ResolveRelativePathForWrite fs (reRoot repo) p))
      (\<lambda>q x. x = d \<and> q = renderPath True ?l \<and> list_all plainElem ?l \<and> pathElems p \<noteq> []) (spares ?l d)"
      by (rule triple_path) (use resolve_real [of h repo r _ p] assms(1,2) t in \<open>auto simp: spares_refl\<close>)
    fix q
    show "triple (\<lambda>x. x = d \<and> q = renderPath True ?l \<and> list_all plainElem ?l \<and> pathElems p \<noteq> [])
      (bindIO (ensureSafeParentDirectories h (reRoot repo) (goDir q)) (\<lambda>_. bindIO (readBlob h repo (teOID e) (-1)) (\<lambda>content.
        if teMode e = ''120000'' then replaceWithSymlink h q content
        else replaceWithRegularFile h q content (fileMode (teMode e)))))
      (\<lambda>_. written h repo ?l e d) (spares ?l d)"
    proof (cases "q = renderPath True ?l \<and> list_all plainElem ?l \<and> pathElems p \<noteq> []")
      case True
      then have l: "list_all plainElem ?l" "?l \<noteq> []" "pathElems p \<noteq> []" by (auto simp: placeOf_def)
      have grow: "triple (\<lambda>x. x = d) (ensureSafeParentDirectories h (reRoot repo) (goDir (renderPath True ?l))) (\<lambda>_. grown ?l d) (spares ?l d)"
        by (rule triple_weaken [OF safe_parents [OF assms(1) placeOf_def l(1,3) assms(2)]])
          (auto simp: grown_def spares_def)
      have put: "triple (\<lambda>x. grown ?l d x \<and> (\<forall>blob. immutableBlobs h repo blob \<longrightarrow> content = blob (teOID e)))
          (if teMode e = ''120000'' then replaceWithSymlink h (renderPath True ?l) content
           else replaceWithRegularFile h (renderPath True ?l) content (fileMode (teMode e)))
          (\<lambda>_. written h repo ?l e d) (spares ?l d)" for content
      proof (rule triple_ghost)
        fix x assume x: "grown ?l d x \<and> (\<forall>blob. immutableBlobs h repo blob \<longrightarrow> content = blob (teOID e))"
        then have g: "grown ?l d x" "treeDisk x" by (simp_all add: grown_def)
        have c: "clearTo x ?l" by (rule grown_clear [OF g(1) assms(2)])
        have good: "written h repo ?l e d y" if "replaced ?l (targetNode content e) x y" for y
          using that x unfolding written_def replaced_def grown_def differsAt_def by auto
        have bad: "spares ?l d y" if "spares ?l x y" for y
          using that g(1) unfolding spares_def grown_def by (metis option.distinct(1))
        show "triple (\<lambda>y. y = x) (if teMode e = ''120000'' then replaceWithSymlink h (renderPath True ?l) content
           else replaceWithRegularFile h (renderPath True ?l) content (fileMode (teMode e)))
          (\<lambda>_. written h repo ?l e d) (spares ?l d)"
        proof (rule triple_if)
          assume m: "teMode e = ''120000''"
          show "triple (\<lambda>y. y = x) (replaceWithSymlink h (renderPath True ?l) content) (\<lambda>_. written h repo ?l e d) (spares ?l d)"
            by (rule triple_weaken [OF write_link [OF l(1,2) c g(2)]]) (use good bad m in \<open>auto simp: targetNode_def\<close>)
        next
          assume m: "teMode e \<noteq> ''120000''"
          show "triple (\<lambda>y. y = x) (replaceWithRegularFile h (renderPath True ?l) content (fileMode (teMode e)))
              (\<lambda>_. written h repo ?l e d) (spares ?l d)"
            by (rule triple_weaken [OF write_file [OF l(1,2) c g(2)]]) (use good bad m in \<open>auto simp: targetNode_def fileMode_def\<close>)
        qed
      qed
      have blob: "triple (grown ?l d) (readBlob h repo (teOID e) (-1))
          (\<lambda>c x. grown ?l d x \<and> (\<forall>blob. immutableBlobs h repo blob \<longrightarrow> c = blob (teOID e))) (spares ?l d)"
        by (rule triple_weaken [OF read_blob [of "grown ?l d"]]) (auto simp: grown_def spares_def)
      show ?thesis unfolding conjunct1 [OF True]
        by (rule triple_weaken [OF triple_bind [OF grow triple_bind [OF blob put]]]) auto
    qed (auto intro: triple_absurd)
  qed
qed

section \<open>Removing one controlled path\<close>

text \<open>Only the path itself and directories below the root are gone.\<close>

definition removed :: "location \<Rightarrow> location \<Rightarrow> disk \<Rightarrow> disk \<Rightarrow> bool" where
  "removed r l d x \<longleftrightarrow> treeDisk x \<and>
     (\<forall>xs. nodeAt x xs = nodeAt d xs \<or>
        nodeAt x xs = None \<and> (xs = l \<or> nodeAt d xs = Some NDir \<and> strict_prefix r xs))"

lemma removed_refl: "treeDisk d \<Longrightarrow> removed r l d d"
  by (simp add: removed_def)

lemma removed_step:
  assumes "removed r l d x" "treeDisk y" "differsAt k x y" "nodeAt y k = None"
    "k = l \<or> nodeAt x k = Some NDir \<and> strict_prefix r k"
  shows "removed r l d y"
proof -
  have "nodeAt y xs = nodeAt d xs \<or> nodeAt y xs = None \<and> (xs = l \<or> nodeAt d xs = Some NDir \<and> strict_prefix r xs)" for xs
    using assms unfolding removed_def differsAt_def by (cases "xs = k") (auto dest!: spec [of _ xs])
  then show ?thesis using assms(2) by (simp add: removed_def)
qed

lemma empty_parents:
  assumes "list_all plainElem (r @ us)"
  shows "triple (\<lambda>x. removed r l d x \<and> nodeAt x (r @ us) = Some NDir \<and> nodeAt x l = None)
    (removeEmptyParents h r (rev (r @ us))) (\<lambda>_ x. removed r l d x \<and> nodeAt x l = None) (removed r l d)"
  using assms
proof (induction us rule: rev_induct)
  case Nil
  then show ?case by (cases r rule: rev_cases) (auto intro: triple_pure)
next
  case (snoc u us)
  let ?l = "r @ us @ [u]"
  have pl: "list_all plainElem ?l" "list_all plainElem (r @ us)" using snoc.prems by simp_all
  have below: "strict_prefix r ?l" by (simp add: strict_prefix_def)
  have remove: "triple (\<lambda>x. removed r l d x \<and> nodeAt x ?l = Some NDir \<and> nodeAt x l = None)
      (attemptIO (osRemove h (renderPath True ?l)))
      (\<lambda>q x. removed r l d x \<and> nodeAt x l = None \<and> ((\<exists>u. q = Inr u) \<longrightarrow> nodeAt x (r @ us) = Some NDir)) (removed r l d)"
  proof (rule triple_attempt, rule triple_ghost)
    fix x assume x: "removed r l d x \<and> nodeAt x ?l = Some NDir \<and> nodeAt x l = None"
    then have t: "treeDisk x" by (simp add: removed_def)
    have up: "nodeAt x (r @ us) = Some NDir" using x t unfolding treeDisk_iff
      by (metis append.assoc append_is_Nil_conv butlast_snoc list.distinct(1) option.distinct(1))
    have c: "clearTo x ?l" by (rule tree_clear [OF t]) (use up in \<open>simp_all flip: append_assoc\<close>)
    have "removed r l d y \<and> nodeAt y l = None \<and> nodeAt y (r @ us) = Some NDir"
      if "treeDisk y" "differsAt ?l x y" "nodeAt y ?l = None" for y
      using removed_step [OF conjunct1 [OF x] that] x up that below by (cases "l = ?l") (auto simp: differsAt_def)
    then show "triple (\<lambda>y. y = x) (osRemove h (renderPath True ?l))
        (\<lambda>q x. removed r l d x \<and> nodeAt x l = None \<and> ((\<exists>u. Inr q = Inr u) \<longrightarrow> nodeAt x (r @ us) = Some NDir))
        (\<lambda>d'. \<forall>e. removed r l d d' \<and> nodeAt d' l = None \<and> ((\<exists>u. Inl e = Inr u) \<longrightarrow> nodeAt d' (r @ us) = Some NDir))"
      by (intro triple_weaken [OF remove_triple [OF pl(1) c t]]) (use x in auto)
  qed
  have rest: "removeEmptyParents h r (rev ?l) = bindIO (attemptIO (osRemove h (renderPath True ?l)))
      (\<lambda>q. case q of Inl _ \<Rightarrow> pureIO () | Inr _ \<Rightarrow> removeEmptyParents h r (rev us @ rev r))"
    by simp
  show ?case unfolding rest
  proof (rule triple_bind [OF remove], rule triple_case_sum)
    show "triple (\<lambda>x. removed r l d x \<and> nodeAt x l = None \<and> ((\<exists>u. q = Inr u) \<longrightarrow> nodeAt x (r @ us) = Some NDir))
        (removeEmptyParents h r (rev us @ rev r)) (\<lambda>_ x. removed r l d x \<and> nodeAt x l = None) (removed r l d)"
      if "q = Inr u" for q :: "git_error + unit" and u
      by (rule triple_weaken [OF snoc.IH [OF pl(2), unfolded rev_append]]) (use that in auto)
  qed (auto intro: triple_pure)
qed

lemma remove_extra:
  assumes "rooted h repo r d" "clearTo d (placeOf r p)"
  shows "triple (\<lambda>x. x = d) (removeExtra h repo current p)
    (\<lambda>_ x. removed r (placeOf r p) d x \<and> nodeAt x (placeOf r p) = None) (removed r (placeOf r p) d)"
proof -
  let ?l = "placeOf r p"
  have root: "realRoot r d" "reRoot repo = renderPath True r" using assms(1) by (simp_all add: rooted_def)
  then have t: "treeDisk d" and pr: "list_all plainElem r" by (simp_all add: realRoot_def)
  have er: "pathElems (renderPath True r) = r" by (rule abs_render(2) [OF pr])
  show ?thesis unfolding removeExtra_def
  proof (rule triple_bind)
    show "triple (\<lambda>x. x = d) (pathIO h (\<lambda>fs. ResolveRelativePathForWrite fs (reRoot repo) p))
      (\<lambda>q x. x = d \<and> q = renderPath True ?l \<and> list_all plainElem ?l \<and> pathElems p \<noteq> []) (removed r ?l d)"
      by (rule triple_path) (use resolve_real [of h repo r _ p] assms t in \<open>auto simp: removed_refl\<close>)
    fix q
    show "triple (\<lambda>x. x = d \<and> q = renderPath True ?l \<and> list_all plainElem ?l \<and> pathElems p \<noteq> [])
      (removeExtraAt h (reRoot repo) (teMode (the (map_of current p))) q)
      (\<lambda>_ x. removed r ?l d x \<and> nodeAt x ?l = None) (removed r ?l d)"
    proof (cases "q = renderPath True ?l \<and> list_all plainElem ?l \<and> pathElems p \<noteq> []")
      case True
      let ?u = "butlast (pathElems p)"
      have l: "list_all plainElem ?l" "pathElems p \<noteq> []" using True by simp_all
      have lu: "?l = (r @ ?u) @ [last (pathElems p)]" using l(2) by (simp add: placeOf_def)
      have pu: "list_all plainElem (r @ ?u)" using l(1) unfolding lu by simp
      have "goDir (renderPath True ?l) = renderPath True (r @ ?u)" unfolding lu by (rule dir_render) (use l(1) lu in simp)
      then have dir: "pathElems (goDir (renderPath True ?l)) = r @ ?u" using abs_render(2) [OF pu] by simp
      note remove1 = remove_triple [OF l(1) assms(2) t, of h]
      have clear: "removed r ?l d x \<and> nodeAt x ?l = None"
        if "treeDisk x" "differsAt ?l d x" "nodeAt x ?l = None" for x
        using removed_step [OF removed_refl [OF t] that] that(3) by blast
      have remove: "triple (\<lambda>x. x = d) (osRemove h (renderPath True ?l)) (\<lambda>_ x. removed r ?l d x \<and> nodeAt x ?l = None) (removed r ?l d)"
        by (rule triple_weaken [OF remove1]) (use clear t in \<open>auto simp: removed_refl\<close>)
      have parent: "nodeAt x (r @ ?u) = Some NDir" if "differsAt ?l d x" "nodeAt d (butlast ?l) = Some NDir" for x
      proof -
        have "butlast ?l = r @ ?u" "r @ ?u \<noteq> ?l" unfolding lu by (rule butlast_snoc, simp)
        then show ?thesis using that unfolding differsAt_def by metis
      qed
      have plain: "triple (\<lambda>x. x = d) (osRemove h (renderPath True ?l))
          (\<lambda>_ x. removed r ?l d x \<and> nodeAt x (r @ ?u) = Some NDir \<and> nodeAt x ?l = None) (removed r ?l d)"
        by (rule triple_weaken [OF remove1]) (use clear t parent in \<open>auto simp: removed_refl\<close>)
      have listing: "triple (\<lambda>x. x = d) (osReadDir h (renderPath True ?l)) (\<lambda>_ x. x = d) (removed r ?l d)"
        by (rule triple_quiet) (use t in \<open>auto intro: quiet_steps simp: removed_refl\<close>)
      have missing: "nodeAt d ?l = None" if "NotExist = kindOf (nodeAt d ?l)"
        using that by (auto simp: kindOf_def split: option.splits node.splits)
      have here: "triple (\<lambda>x. x = d) (removeExtraAt h (reRoot repo) mode (renderPath True ?l))
          (\<lambda>_ x. removed r ?l d x \<and> nodeAt x ?l = None) (removed r ?l d)" for mode
        unfolding removeExtraAt_def root(2) er dir
      proof (rule triple_bind)
        show "triple (\<lambda>x. x = d) (osLstat h (renderPath True ?l))
            (\<lambda>k x. x = d \<and> (k = StatError \<or> k = kindOf (nodeAt d ?l))) (removed r ?l d)"
          by (rule lstat_triple [OF l(1) assms(2) t]) auto
        show "triple (\<lambda>x. x = d \<and> (k = StatError \<or> k = kindOf (nodeAt d ?l)))
          (if k = NotExist then pureIO () else if k = StatError then failIO OsError
           else if mode = ''160000'' \<or> k = Directory
           then bindIO (osReadDir h (renderPath True ?l)) (\<lambda>entries.
             if entries \<noteq> [] then failIO (GitText ''cannot remove controlled directory'') else osRemove h (renderPath True ?l))
           else bindIO (osRemove h (renderPath True ?l)) (\<lambda>_. removeEmptyParents h r (rev (r @ ?u))))
          (\<lambda>_ x. removed r ?l d x \<and> nodeAt x ?l = None) (removed r ?l d)" for k
          by (intro triple_if triple_pure triple_fail
              triple_weaken [OF triple_bind [OF listing triple_if [OF triple_fail remove]]]
              triple_weaken [OF triple_bind [OF plain empty_parents [OF pu]]])
            (use missing t in \<open>auto simp: removed_refl\<close>)
      qed
      show ?thesis unfolding conjunct1 [OF True] by (rule triple_weaken [OF here]) auto
    qed (auto intro: triple_absurd)
  qed
qed

end
