(* ===== verification/RestoreOutcome.thy ===== *)
theory RestoreOutcome
  imports RestoreResults
begin

text \<open>
  The restore of a working tree as a whole: what the checks before the first change establish, the two
  loops over the controlled paths, and what is on the disk after a success and after any failure.
\<close>

section \<open>Listings\<close>

text \<open>What Git promises of the trees it lists: clean paths, each once, and no file below another file.\<close>

definition cleanListing :: "tree_listing \<Rightarrow> bool" where
  "cleanListing t \<longleftrightarrow> distinct (map fst t) \<and> list_all (\<lambda>p. goClean p = p) (map fst t)"

definition flatListing :: "tree_listing \<Rightarrow> bool" where
  "flatListing t \<longleftrightarrow> list_all (\<lambda>p. list_all (\<lambda>q. \<not> strict_prefix (pathElems p) (pathElems q)) (map fst t)) (map fst t)"

text \<open>What Git promises of the working tree it just listed: no controlled path leads through a link.\<close>

definition listedPlainly :: "location \<Rightarrow> disk \<Rightarrow> gostring list \<Rightarrow> bool" where
  "listedPlainly r d ps \<longleftrightarrow> list_all (\<lambda>p. list_all (\<lambda>k. \<not> isLink (nodeAt d (take k (placeOf r p)))) [0..<length (placeOf r p)]) ps"

lemma listed_clear: "listedPlainly r d ps \<Longrightarrow> p \<in> set ps \<Longrightarrow> clearTo d (placeOf r p)"
proof -
  assume l: "listedPlainly r d ps" "p \<in> set ps"
  have "\<not> isLink (nodeAt d xs)" if xs: "strict_prefix xs (placeOf r p)" for xs
  proof -
    have "xs = take (length xs) (placeOf r p)" "length xs < length (placeOf r p)"
      using xs prefix_length_less [OF xs] by (auto simp: strict_prefix_def prefix_def)
    then show ?thesis using l unfolding listedPlainly_def list_all_iff by (metis atLeastLessThan_iff le0 set_upt)
  qed
  then show ?thesis by (simp add: clearTo_def)
qed

lemma safe_path:
  assumes "goClean p = p" "safeGitRelativePath p"
  shows "pathElems p \<noteq> []" "list_all plainElem (pathElems p)" "p = joinWith [slash] (pathElems p)"
proof -
  have a: "\<not> isAbs p" and e: "pathElems p \<noteq> [] \<and> list_all plainElem (pathElems p)"
    using assms(2) relative_clean by (auto simp: safeGitRelativePath_def Let_def)
  then show "pathElems p \<noteq> []" "list_all plainElem (pathElems p)" by simp_all
  show "p = joinWith [slash] (pathElems p)" using assms(1) a e by (simp add: goClean_elems renderPath_def)
qed

lemma relative_elems: "list_all plainElem fs \<Longrightarrow> fs \<noteq> [] \<Longrightarrow> pathElems (joinWith [slash] fs) = fs"
proof -
  assume f: "list_all plainElem fs" "fs \<noteq> []"
  then have "canonElems False fs" unfolding canonElems_def list_all_iff by (intro exI [of _ 0] exI [of _ fs]) simp
  then show ?thesis using pathElems_render [of False fs] f(2) by (simp add: renderPath_def)
qed

section \<open>The checks\<close>

definition linksCovered :: "location \<Rightarrow> gostring list \<Rightarrow> disk \<Rightarrow> gostring \<Rightarrow> bool" where
  "linksCovered r extra d p \<longleftrightarrow>
     (\<forall>xs. strict_prefix xs (placeOf r p) \<longrightarrow> isLink (nodeAt d xs) \<longrightarrow> xs \<in> placeOf r ` set extra)"

lemma prefix_between: "strict_prefix a xs \<Longrightarrow> prefix xs (a @ e # ps) \<Longrightarrow> xs = a @ [e] \<or> strict_prefix (a @ [e]) xs"
  by (auto simp: strict_prefix_def prefix_def append_eq_append_conv2 Cons_eq_append_conv)

lemma tree_nothing: "treeDisk d \<Longrightarrow> nodeAt d l \<noteq> Some NDir \<Longrightarrow> strict_prefix l xs \<Longrightarrow> nodeAt d xs = None"
  using tree_parents by blast

lemma ancestors_checked:
  assumes "list_all plainElem r" "list_all plainElem (us @ parts)" "treeDisk d" "nodeAt d (r @ us) = Some NDir"
  shows "triple (\<lambda>x. x = d) (ancestorsFrom h (renderPath True r) extra (renderPath True (r @ us)) parts)
    (\<lambda>_ x. x = d \<and> (\<forall>xs. strict_prefix (r @ us) xs \<longrightarrow> prefix xs (r @ us @ parts) \<longrightarrow> isLink (nodeAt d xs) \<longrightarrow>
       xs \<in> placeOf r ` set extra)) (\<lambda>x. x = d)"
  using assms(2,4)
proof (induction parts arbitrary: us)
  case Nil
  show ?case by (auto intro!: triple_pure dest: prefix_order.less_le_trans)
next
  case (Cons part parts)
  let ?l = "r @ us @ [part]"
  let ?post = "\<lambda>x. x = d \<and> (\<forall>xs. strict_prefix (r @ us) xs \<longrightarrow> prefix xs (r @ us @ part # parts) \<longrightarrow> isLink (nodeAt d xs) \<longrightarrow>
       xs \<in> placeOf r ` set extra)"
  have pl: "list_all plainElem ?l" "list_all plainElem (r @ us)" "plainElem part" "list_all plainElem (us @ [part])"
    using Cons.prems(1) assms(1) by simp_all
  have j: "goJoin [renderPath True (r @ us), part] = renderPath True ?l" using join_render [OF pl(2,3)] by simp
  have clear: "clearTo d ?l" by (rule tree_clear [OF assms(3)]) (use Cons.prems(2) in \<open>simp_all add: butlast_append\<close>)
  have between: "xs = ?l \<or> strict_prefix ?l xs" if "strict_prefix (r @ us) xs" "prefix xs (r @ us @ part # parts)" for xs
    using prefix_between [of "r @ us" xs part parts] that by simp
  have stop: "?post d" if "nodeAt d ?l \<noteq> Some NDir" "isLink (nodeAt d ?l) \<Longrightarrow> ?l \<in> placeOf r ` set extra"
  proof -
    have "xs \<in> placeOf r ` set extra"
      if xs: "strict_prefix (r @ us) xs" "prefix xs (r @ us @ part # parts)" "isLink (nodeAt d xs)" for xs
      using between [OF xs(1,2)] xs(3) \<open>isLink _ \<Longrightarrow> _\<close> tree_nothing [OF assms(3) \<open>nodeAt d ?l \<noteq> Some NDir\<close>]
      by (auto simp: isLink_def)
    then show ?thesis by simp
  qed
  have rel: "?l \<in> placeOf r ` set extra" if "goRel (renderPath True r) (renderPath True ?l) = Some q" "q \<in> set extra" for q
    using that rel_render [OF assms(1) pl(4)] relative_elems [OF pl(4)] by (auto simp: placeOf_def intro!: image_eqI [of _ _ q])
  show ?case unfolding ancestorsFrom.simps Let_def j
  proof (rule triple_bind)
    show "triple (\<lambda>x. x = d) (osLstat h (renderPath True ?l))
        (\<lambda>k x. x = d \<and> (k = StatError \<or> k = kindOf (nodeAt d ?l))) (\<lambda>x. x = d)"
      by (rule lstat_triple [OF pl(1) clear assms(3)]) auto
    fix k
    show "triple (\<lambda>x. x = d \<and> (k = StatError \<or> k = kindOf (nodeAt d ?l)))
      (if k = NotExist then pureIO () else if k = StatError then failIO OsError
       else if k = Directory then ancestorsFrom h (renderPath True r) extra (renderPath True ?l) parts
       else (case goRel (renderPath True r) (renderPath True ?l) of None \<Rightarrow> failIO OsError
         | Some rel \<Rightarrow> if rel \<in> set extra then pureIO ()
             else failIO (GitText ''an uncontrolled file or symlink blocks a target parent directory'')))
      (\<lambda>_. ?post) (\<lambda>x. x = d)"
    proof (cases "k = Directory \<and> k = kindOf (nodeAt d ?l)")
      case True
      then have n: "nodeAt d (r @ us @ [part]) = Some NDir" by (auto simp: kindOf_def split: option.splits node.splits)
      have ih: "triple (\<lambda>x. x = d) (ancestorsFrom h (renderPath True r) extra (renderPath True ?l) parts)
        (\<lambda>_ x. x = d \<and> (\<forall>xs. strict_prefix ?l xs \<longrightarrow> prefix xs (r @ us @ part # parts) \<longrightarrow> isLink (nodeAt d xs) \<longrightarrow>
           xs \<in> placeOf r ` set extra)) (\<lambda>x. x = d)"
        using Cons.IH [of "us @ [part]"] Cons.prems(1) n by simp
      have nl: "\<not> isLink (nodeAt d ?l)" using n by (simp add: isLink_def)
      have "triple (\<lambda>x. x = d) (ancestorsFrom h (renderPath True r) extra (renderPath True ?l) parts) (\<lambda>_. ?post) (\<lambda>x. x = d)"
        by (rule triple_weaken [OF ih]) (use between nl in blast)+
      then show ?thesis using True by (auto elim: triple_weaken)
    next
      case False
      have kinds: "nodeAt d ?l \<noteq> Some NDir" if "k \<noteq> StatError" "k = kindOf (nodeAt d ?l)"
        using False that by (auto simp: kindOf_def)
      have gone: "\<not> isLink (nodeAt d ?l)" if "NotExist = kindOf (nodeAt d ?l)"
        using that by (auto simp: kindOf_def isLink_def split: option.splits node.splits)
      show ?thesis
        by (intro triple_if triple_case_option triple_fail triple_pure)
          (use False kinds gone stop rel in \<open>auto intro: triple_absurd\<close>)
    qed
  qed
qed

lemma root_start: "realRoot r d \<Longrightarrow> strict_prefix xs l \<Longrightarrow> prefix r l \<Longrightarrow> isLink (nodeAt d xs) \<Longrightarrow> strict_prefix r xs"
proof -
  assume d: "realRoot r d" "strict_prefix xs l" "prefix r l" "isLink (nodeAt d xs)"
  have "prefix xs r \<or> strict_prefix r xs"
    using d(2,3) prefix_same_cases [of xs l r] by (auto simp: strict_prefix_def)
  moreover have "\<not> prefix xs r"
    using d(1,4) tree_parents [of d r xs] by (cases "xs = r") (auto simp: realRoot_def isLink_def strict_prefix_def)
  ultimately show ?thesis by blast
qed

lemma preflight_ancestors:
  assumes "realRoot r d" "reRoot repo = renderPath True r" "goClean p = p" "safeGitRelativePath p"
  shows "triple (\<lambda>x. x = d) (preflightRestoreAncestors h (reRoot repo) extra (goJoin [reRoot repo, p]))
    (\<lambda>_ x. x = d \<and> linksCovered r extra d p) (\<lambda>x. x = d)"
proof -
  note safe = safe_path [OF assms(3,4)]
  let ?es = "pathElems p" and ?u = "butlast (pathElems p)"
  have pr: "list_all plainElem r" "treeDisk d" "nodeAt d r = Some NDir" using assms(1) by (simp_all add: realRoot_def)
  have pu: "list_all plainElem ?u" "list_all plainElem ((r @ ?u) @ [last ?es])"
    using safe pr(1) by (auto simp: list_all_iff dest: in_set_butlastD)
  have "goJoin [renderPath True r, p] = renderPath True ((r @ ?u) @ [last ?es])"
    using join_relative [OF pr(1) safe(2,1)] safe(1,3) by simp
  then have dir: "goDir (goJoin [renderPath True r, p]) = renderPath True (r @ ?u)" using dir_render [OF pu(2)] by simp
  have covered: "linksCovered r extra d p"
    if "\<And>xs. strict_prefix r xs \<Longrightarrow> prefix xs (r @ ?u) \<Longrightarrow> isLink (nodeAt d xs) \<Longrightarrow> xs \<in> placeOf r ` set extra"
    unfolding linksCovered_def
  proof (intro allI impI)
    fix xs assume x: "strict_prefix xs (placeOf r p)" "isLink (nodeAt d xs)"
    have "strict_prefix r xs" by (rule root_start [OF assms(1) x(1) _ x(2)]) (simp add: placeOf_def)
    moreover have "placeOf r p = (r @ ?u) @ [last ?es]" using safe(1) by (simp add: placeOf_def)
    then have "prefix xs (r @ ?u)" using x(1) by (metis prefix_snoc strict_prefix_def)
    ultimately show "xs \<in> placeOf r ` set extra" using that x(2) by blast
  qed
  have walk: "triple (\<lambda>x. x = d) (ancestorsFrom h (renderPath True r) extra (renderPath True r) ?u)
    (\<lambda>_ x. x = d \<and> linksCovered r extra d p) (\<lambda>x. x = d)"
    using triple_weaken [OF ancestors_checked [OF pr(1), of "[]" ?u d h extra]] pu(1) pr(2,3) covered by simp
  have split: "splitOn slash (joinWith [slash] ?u) = ?u" if "?u \<noteq> []"
    using pu(1) that by (intro splitOn_join) (auto simp: list_all_iff plainElem_def)
  have covered0: "?u = [] \<Longrightarrow> linksCovered r extra d p" by (rule covered) (auto simp: strict_prefix_def)
  show ?thesis unfolding preflightRestoreAncestors_def assms(2) dir Let_def
    using outside_render [OF pr(1) pu(1)] rel_render [OF pr(1) pu(1)] split join_plain [OF pu(1)] covered0
    by (intro triple_if triple_fail triple_pure) (auto simp: walk split: if_splits)
qed

lemma quiet_git [quiet_steps]: "quiet (gitInput h repo input env args)" "quiet (gitRun h repo env args)"
  unfolding gitRun_def gitInput_def by (auto intro!: quiet_steps)

lemma quiet_only_controlled [quiet_steps]: "quiet (directoryContainsOnlyControlledExtras h root extra p)"
  unfolding quiet_def directoryContainsOnlyControlledExtras_def osCall_def onLocation_def Let_def
  by (auto split: sum.splits found.splits if_splits)

text \<open>What the checks establish of a target.\<close>

definition checkedTarget :: "location \<Rightarrow> gostring list \<Rightarrow> disk \<Rightarrow> gostring \<times> tree_entry \<Rightarrow> bool" where
  "checkedTarget r extra d t \<longleftrightarrow>
     safeGitRelativePath (fst t) \<and> teMode (snd t) \<in> {''100644'', ''100755'', ''120000'', ''160000''} \<and> linksCovered r extra d (fst t)"

lemma preflight_target:
  assumes "realRoot r d" "reRoot repo = renderPath True r" "goClean (fst t) = fst t"
  shows "triple (\<lambda>x. x = d) (preflightTarget h repo extra t) (\<lambda>_ x. x = d \<and> checkedTarget r extra d t) (\<lambda>x. x = d)"
proof -
  obtain p e where t: "t = (p, e)" by force
  let ?good = "\<lambda>x. x = d \<and> checkedTarget r extra d t"
  show ?thesis unfolding preflightTarget_def t prod.case Let_def
  proof (rule triple_if [OF triple_fail triple_if [OF triple_fail triple_bind]])
    assume safe: "\<not> \<not> safeGitRelativePath p" and mode: "\<not> teMode e \<notin> {''100644'', ''100755'', ''120000'', ''160000''}"
    have anc: "triple (\<lambda>x. x = d) (preflightRestoreAncestors h (reRoot repo) extra (goJoin [reRoot repo, p])) (\<lambda>_. ?good) (\<lambda>x. x = d)"
      by (rule triple_weaken [OF preflight_ancestors [OF assms(1,2)]]) (use assms(3) safe mode t in \<open>auto simp: checkedTarget_def\<close>)
    show "triple (\<lambda>x. x = d) (if teMode e = ''160000'' then pureIO ()
        else bindIO (gitRun h repo [] [''cat-file'', ''-e'', teOID e @ ''^{blob}'']) (\<lambda>_. pureIO ())) (\<lambda>_ x. x = d) (\<lambda>x. x = d)"
      by (rule triple_quiet) (auto intro!: quiet_steps)
    show "triple (\<lambda>x. x = d) (bindIO (preflightRestoreAncestors h (reRoot repo) extra (goJoin [reRoot repo, p])) (\<lambda>_.
        bindIO (osLstat h (goJoin [reRoot repo, p])) (\<lambda>k.
          if k = StatError then failIO OsError
          else if teMode e = ''160000'' then if k \<noteq> Directory then failIO (GitText ''cannot restore submodule'') else pureIO ()
          else if k = Directory then directoryContainsOnlyControlledExtras h (reRoot repo) extra (goJoin [reRoot repo, p])
          else pureIO ()))) (\<lambda>_ x. x = d \<and> checkedTarget r extra d (p, e)) (\<lambda>x. x = d)"
      by (rule triple_bind [OF anc], rule triple_quiet) (auto intro!: quiet_steps simp: t)
  qed auto
qed

lemma walkOrder_set: "set (walkOrder h s ks) = set ks"
  by (auto simp: walkOrder_def Let_def list_all_iff)

lemma triple_state:
  assumes "\<And>s. triple A (m s) Q E" shows "triple A (\<lambda>s. m s s) Q E"
  using assms unfolding triple_def by blast

lemma preflight_checked:
  assumes "realRoot r d" "reRoot repo = renderPath True r" "cleanListing target"
  shows "triple (\<lambda>x. x = d) (preflightRestore h repo target current)
    (\<lambda>_ x. x = d \<and> (\<forall>p e. map_of target p = Some e \<longrightarrow> checkedTarget r (extraPaths target current) d (p, e)) \<and>
       (\<forall>p \<in> set (map fst current). safeGitRelativePath p)) (\<lambda>x. x = d)"
proof -
  let ?extra = "extraPaths target current"
  let ?all = "\<lambda>ts. \<forall>t \<in> set ts. checkedTarget r ?extra d t"
  have targets: "triple (\<lambda>x. x = d) (forIO (preflightTarget h repo ?extra) ts) (\<lambda>_ x. x = d \<and> ?all ts) (\<lambda>x. x = d)"
    if "\<And>t. t \<in> set ts \<Longrightarrow> goClean (fst t) = fst t" for ts
  proof -
    have "triple (\<lambda>x. x = d \<and> ?all []) (forIO (preflightTarget h repo ?extra) ts) (\<lambda>_ x. x = d \<and> ?all ts) (\<lambda>x. x = d)"
    proof (rule triple_for, rule triple_ghost)
      fix xs t ys x assume ts: "ts = xs @ t # ys" and x: "x = d \<and> ?all xs"
      have c: "goClean (fst t) = fst t" using that ts by simp
      show "triple (\<lambda>y. y = x) (preflightTarget h repo ?extra t) (\<lambda>_ y. y = d \<and> ?all (xs @ [t])) (\<lambda>y. y = d)"
        by (rule triple_weaken [OF preflight_target [OF assms(1,2) c]]) (use x in auto)
    qed
    then show ?thesis by simp
  qed
  have paths: "triple (\<lambda>x. x = d \<and> A) (forIO checkCurrent ps)
      (\<lambda>_ x. x = d \<and> A \<and> (\<forall>p \<in> set ps. safeGitRelativePath p)) (\<lambda>x. x = d)" for ps A
  proof -
    have "triple (\<lambda>x. x = d \<and> A \<and> (\<forall>p \<in> set []. safeGitRelativePath p)) (forIO checkCurrent ps)
      (\<lambda>_ x. x = d \<and> A \<and> (\<forall>p \<in> set ps. safeGitRelativePath p)) (\<lambda>x. x = d)"
      by (rule triple_for) (auto simp: checkCurrent_def intro: triple_pure triple_fail)
    then show ?thesis by simp
  qed
  show ?thesis unfolding preflightRestore_def
  proof (rule triple_state, rule triple_bind)
    fix s
    let ?ts = "targetsInOrder target (walkOrder h s (map fst target))"
    have "goClean (fst t) = fst t" if "t \<in> set ?ts" for t
      using that assms(3) walkOrder_set [of h s "map fst target"] by (auto simp: targetsInOrder_def cleanListing_def list_all_iff)
    then show "triple (\<lambda>x. x = d) (forIO (preflightTarget h repo ?extra) ?ts) (\<lambda>_ x. x = d \<and> ?all ?ts) (\<lambda>x. x = d)"
      by (rule targets)
    have "checkedTarget r ?extra d (p, e)" if "?all ?ts" "map_of target p = Some e" for p e
    proof -
      have "p \<in> set (walkOrder h s (map fst target))"
        unfolding walkOrder_set using map_of_SomeD [OF that(2)] by force
      then have "(p, e) \<in> set ?ts" using that(2) by (force simp: targetsInOrder_def)
      then show ?thesis using that(1) by blast
    qed
    then show "triple (\<lambda>x. x = d \<and> ?all ?ts) (forIO checkCurrent (map fst current))
      (\<lambda>_ x. x = d \<and> (\<forall>p e. map_of target p = Some e \<longrightarrow> checkedTarget r ?extra d (p, e)) \<and>
         (\<forall>p \<in> set (map fst current). safeGitRelativePath p)) (\<lambda>x. x = d)"
      by (intro triple_weaken [OF paths]) auto
  qed
qed

section \<open>Removing all extras\<close>

text \<open>Only the given places and directories below the root are gone.\<close>

definition cleared :: "location \<Rightarrow> location set \<Rightarrow> disk \<Rightarrow> disk \<Rightarrow> bool" where
  "cleared r P d x \<longleftrightarrow> treeDisk x \<and>
     (\<forall>xs. nodeAt x xs = nodeAt d xs \<or>
        nodeAt x xs = None \<and> (xs \<in> P \<or> nodeAt d xs = Some NDir \<and> strict_prefix r xs))"

lemma cleared_step: "cleared r P d x \<Longrightarrow> removed r l x y \<Longrightarrow> l \<in> P \<Longrightarrow> cleared r P d y"
proof -
  assume c: "cleared r P d x" "removed r l x y" "l \<in> P"
  have "nodeAt y xs = nodeAt d xs \<or> nodeAt y xs = None \<and> (xs \<in> P \<or> nodeAt d xs = Some NDir \<and> strict_prefix r xs)" for xs
    using c unfolding cleared_def removed_def by (auto dest!: spec [of _ xs])
  then show ?thesis using c(2) by (simp add: cleared_def removed_def)
qed

lemma cleared_rooted: "cleared r P d x \<Longrightarrow> rooted h repo r d \<Longrightarrow> r \<notin> P \<Longrightarrow> rooted h repo r x"
  unfolding cleared_def rooted_def realRoot_def by (auto dest!: spec [of _ r])

lemma cleared_link: "cleared r P d x \<Longrightarrow> isLink (nodeAt x xs) \<Longrightarrow> isLink (nodeAt d xs)"
  unfolding cleared_def by (auto simp: isLink_def dest!: spec [of _ xs])

lemma place_root: "pathElems p \<noteq> [] \<Longrightarrow> r \<noteq> placeOf r p"
  by (simp add: placeOf_def)

lemma remove_all:
  assumes "rooted h repo r d" "\<And>p. p \<in> set ps \<Longrightarrow> pathElems p \<noteq> [] \<and> clearTo d (placeOf r p)"
  shows "triple (\<lambda>x. x = d) (forIO (removeExtra h repo current) ps)
    (\<lambda>_ x. cleared r (placeOf r ` set ps) d x \<and> (\<forall>p \<in> set ps. nodeAt x (placeOf r p) = None))
    (cleared r (placeOf r ` set ps) d)"
proof -
  let ?P = "placeOf r ` set ps"
  let ?I = "\<lambda>qs x. cleared r ?P d x \<and> (\<forall>p \<in> set qs. nodeAt x (placeOf r p) = None)"
  have start: "?I [] d" using assms(1) by (simp add: cleared_def rooted_def realRoot_def)
  have "triple (?I []) (forIO (removeExtra h repo current) ps) (\<lambda>_. ?I ps) (cleared r ?P d)"
  proof (rule triple_for, rule triple_ghost)
    fix qs p rs x assume ps: "ps = qs @ p # rs" and x: "?I qs x"
    let ?l = "placeOf r p"
    have p: "?l \<in> ?P" "pathElems p \<noteq> []" "clearTo d ?l" using ps assms(2) by auto
    have "r \<notin> ?P" using assms(2) place_root by blast
    then have rx: "rooted h repo r x" using cleared_rooted x assms(1) by blast
    have cx: "clearTo x ?l" using cleared_link [OF conjunct1 [OF x]] p(3) unfolding clearTo_def by blast
    have gone: "nodeAt y xs = None" if "removed r ?l x y" "nodeAt x xs = None" for y xs
      using that unfolding removed_def by metis
    show "triple (\<lambda>y. y = x) (removeExtra h repo current p) (\<lambda>_. ?I (qs @ [p])) (cleared r ?P d)"
      by (rule triple_weaken [OF remove_extra [OF rx cx]])
        (use cleared_step [OF conjunct1 [OF x] _ p(1)] gone x in auto)
  qed
  then show ?thesis by (rule triple_weaken) (use start in auto)
qed

section \<open>Writing all targets\<close>

definition kept :: "location set \<Rightarrow> disk \<Rightarrow> disk \<Rightarrow> bool" where
  "kept P d x \<longleftrightarrow> (\<forall>xs. xs \<notin> P \<longrightarrow> nodeAt d xs \<noteq> None \<longrightarrow> nodeAt x xs = nodeAt d xs)"

definition grownAway :: "location set \<Rightarrow> disk \<Rightarrow> disk \<Rightarrow> bool" where
  "grownAway P d x \<longleftrightarrow> (\<forall>xs. xs \<notin> P \<longrightarrow> nodeAt x xs = nodeAt d xs \<or> nodeAt d xs = None \<and> nodeAt x xs = Some NDir)"

definition holdsTarget :: "host \<Rightarrow> git_repository \<Rightarrow> location \<Rightarrow> disk \<Rightarrow> gostring \<times> tree_entry \<Rightarrow> bool" where
  "holdsTarget h repo r x t \<longleftrightarrow>
     (\<exists>c. nodeAt x (placeOf r (fst t)) = Some (targetNode c (snd t)) \<and>
       (\<forall>blob. immutableBlobs h repo blob \<longrightarrow> c = blob (teOID (snd t))))"

definition fileTargets :: "(gostring \<times> tree_entry) list \<Rightarrow> (gostring \<times> tree_entry) set" where
  "fileTargets ts = {t \<in> set ts. teMode (snd t) \<noteq> ''160000''}"

lemma grownAway_kept: "grownAway P d x \<Longrightarrow> kept P d x"
  unfolding grownAway_def kept_def by (metis option.distinct(1))

lemma kept_step: "kept P d x \<Longrightarrow> spares l x y \<Longrightarrow> l \<in> P \<Longrightarrow> kept P d y"
  unfolding kept_def spares_def by metis

lemma grownAway_step:
  assumes "grownAway P d x" "written h repo l e x y" "l \<in> P" shows "grownAway P d y"
proof -
  have "nodeAt y xs = nodeAt d xs \<or> nodeAt d xs = None \<and> nodeAt y xs = Some NDir" if "xs \<notin> P" for xs
    using assms that unfolding grownAway_def written_def by (metis option.distinct(1))
  then show ?thesis by (simp add: grownAway_def)
qed

lemma written_rooted:
  assumes "written h repo l e x y" "rooted h repo r x" "r \<noteq> l" shows "rooted h repo r y"
proof -
  have "nodeAt x r = Some NDir" using assms(2) by (simp add: rooted_def realRoot_def)
  then have "nodeAt y r = Some NDir" using assms(1,3) unfolding written_def by (metis option.distinct(1))
  then show ?thesis using assms(1,2) by (simp add: rooted_def realRoot_def written_def)
qed

lemma written_clear:
  assumes "written h repo l e x y" "clearTo x k" "\<not> strict_prefix l k" shows "clearTo y k"
  unfolding clearTo_def
proof (intro allI impI)
  fix xs assume "strict_prefix xs k"
  then have "xs \<noteq> l" "\<not> isLink (nodeAt x xs)" using assms(2,3) by (auto simp: clearTo_def)
  moreover have "nodeAt y xs = nodeAt x xs \<or> nodeAt y xs = Some NDir"
    using assms(1) \<open>xs \<noteq> l\<close> unfolding written_def by blast
  ultimately show "\<not> isLink (nodeAt y xs)" by (auto simp: isLink_def)
qed

lemma written_holds:
  assumes "written h repo (placeOf r (fst t)) (snd t) x y" "holdsTarget h repo r x t1"
    "placeOf r (fst t1) = placeOf r (fst t) \<Longrightarrow> snd t1 = snd t"
  shows "holdsTarget h repo r y t1"
proof (cases "placeOf r (fst t1) = placeOf r (fst t)")
  case True
  then show ?thesis using assms(1,3) by (auto simp: holdsTarget_def written_def)
next
  case False
  obtain c where c: "nodeAt x (placeOf r (fst t1)) = Some (targetNode c (snd t1))"
    "\<forall>blob. immutableBlobs h repo blob \<longrightarrow> c = blob (teOID (snd t1))"
    using assms(2) by (auto simp: holdsTarget_def)
  then have "nodeAt y (placeOf r (fst t1)) = Some (targetNode c (snd t1))"
    using assms(1) False unfolding written_def by (metis option.distinct(1))
  then show ?thesis using c(2) by (auto simp: holdsTarget_def)
qed

lemma write_all:
  fixes ts r
  defines "P \<equiv> (\<lambda>t. placeOf r (fst t)) ` fileTargets ts"
  assumes "rooted h repo r d"
    and "\<And>t. t \<in> fileTargets ts \<Longrightarrow> pathElems (fst t) \<noteq> [] \<and> clearTo d (placeOf r (fst t))"
    and "\<And>t t1. t \<in> fileTargets ts \<Longrightarrow> t1 \<in> fileTargets ts \<Longrightarrow> \<not> strict_prefix (placeOf r (fst t)) (placeOf r (fst t1))"
    and "\<And>t t1. t \<in> fileTargets ts \<Longrightarrow> t1 \<in> fileTargets ts \<Longrightarrow> placeOf r (fst t1) = placeOf r (fst t) \<Longrightarrow> snd t1 = snd t"
  shows "triple (\<lambda>x. x = d) (forIO (writeTarget h repo) ts)
    (\<lambda>_ x. grownAway P d x \<and> (\<forall>t \<in> fileTargets ts. holdsTarget h repo r x t)) (kept P d)"
proof -
  let ?I = "\<lambda>qs x. rooted h repo r x \<and> (\<forall>t \<in> fileTargets ts. clearTo x (placeOf r (fst t))) \<and> grownAway P d x \<and>
    (\<forall>t \<in> fileTargets qs. holdsTarget h repo r x t)"
  have start: "?I [] d" using assms(2,3) by (simp add: grownAway_def fileTargets_def)
  have "triple (?I []) (forIO (writeTarget h repo) ts) (\<lambda>_. ?I ts) (kept P d)"
  proof (rule triple_for, rule triple_ghost)
    fix qs t rs x assume ts: "ts = qs @ t # rs" and x: "?I qs x"
    show "triple (\<lambda>y. y = x) (writeTarget h repo t) (\<lambda>_. ?I (qs @ [t])) (kept P d)"
    proof (cases "teMode (snd t) = ''160000''")
      case True
      then have "fileTargets (qs @ [t]) = fileTargets qs" by (auto simp: fileTargets_def)
      then show ?thesis using x True by (auto simp: writeTarget_def split: prod.splits intro!: triple_pure)
    next
      case False
      let ?l = "placeOf r (fst t)"
      have t: "t \<in> fileTargets ts" "?l \<in> P" using ts False by (auto simp: fileTargets_def P_def)
      have cl: "clearTo x ?l" "rooted h repo r x" "grownAway P d x" using x t(1) by blast+
      have ft: "fileTargets (qs @ [t]) = insert t (fileTargets qs)" "fileTargets qs \<subseteq> fileTargets ts"
        using False ts by (auto simp: fileTargets_def)
      have rl: "r \<noteq> ?l" by (rule place_root) (use assms(3) [OF t(1)] in simp)
      have good: "?I (qs @ [t]) y" if w: "written h repo ?l (snd t) x y" for y
      proof (intro conjI ballI)
        show "rooted h repo r y" by (rule written_rooted [OF w cl(2) rl])
        show "grownAway P d y" by (rule grownAway_step [OF cl(3) w t(2)])
        show "clearTo y (placeOf r (fst t1))" if "t1 \<in> fileTargets ts" for t1
          by (rule written_clear [OF w]) (use x that assms(4) [OF t(1) that] in auto)
        show "holdsTarget h repo r y t1" if "t1 \<in> fileTargets (qs @ [t])" for t1
        proof (cases "t1 = t")
          case True
          then show ?thesis using w by (auto simp: holdsTarget_def written_def)
        next
          case False
          then have "t1 \<in> fileTargets qs" using that ft(1) by blast
          then show ?thesis using written_holds [OF w, of t1] x assms(5) [OF t(1), of t1] ft(2) by blast
        qed
      qed
      have w: "triple (\<lambda>y. y = x) (writeTarget h repo t) (\<lambda>_. written h repo ?l (snd t) x) (spares ?l x)"
        using write_target [OF cl(2,1) False] by simp
      show ?thesis by (rule triple_weaken [OF w]) (use good kept_step [OF grownAway_kept [OF cl(3)] _ t(2)] in auto)
    qed
  qed
  then show ?thesis by (rule triple_weaken) (use start in auto)
qed

section \<open>The whole working tree\<close>

text \<open>What is at a location that is not a directory.\<close>

definition fileAt :: "disk \<Rightarrow> location \<Rightarrow> node option" where
  "fileAt d l = (if nodeAt d l = Some NDir then None else nodeAt d l)"

text \<open>The entry a listing has for a location; submodules are left to themselves.\<close>

definition targetAt :: "location \<Rightarrow> tree_listing \<Rightarrow> location \<Rightarrow> tree_entry option" where
  "targetAt r target = map_of (map (\<lambda>(p, e). (placeOf r p, e)) (filter (\<lambda>(p, e). teMode e \<noteq> ''160000'') target))"

definition gitListing :: "location \<Rightarrow> disk \<Rightarrow> tree_listing \<Rightarrow> tree_listing \<Rightarrow> bool" where
  "gitListing r d target current \<longleftrightarrow> cleanListing target \<and> flatListing target \<and> cleanListing current \<and>
     listedPlainly r d (extraPaths target current)"

lemma place_inj:
  assumes "goClean p = p" "safeGitRelativePath p" "goClean q = q" "safeGitRelativePath q" "placeOf r p = placeOf r q"
  shows "p = q"
  using safe_path(3) [OF assms(1,2)] safe_path(3) [OF assms(3,4)] assms(5) by (simp add: placeOf_def)

lemma target_at:
  assumes "cleanListing target" "\<And>p e. map_of target p = Some e \<Longrightarrow> safeGitRelativePath p"
  shows "targetAt r target xs = Some e \<longleftrightarrow> (\<exists>p. map_of target p = Some e \<and> teMode e \<noteq> ''160000'' \<and> xs = placeOf r p)"
proof -
  let ?f = "filter (\<lambda>(p, e). teMode e \<noteq> ''160000'') target"
  have d: "distinct (map fst target)" and c: "\<And>p. p \<in> fst ` set target \<Longrightarrow> goClean p = p"
    using assms(1) by (auto simp: cleanListing_def list_all_iff)
  have m: "map_of target p = Some e \<longleftrightarrow> (p, e) \<in> set target" for p e using d by (simp add: map_of_eq_Some_iff)
  have s: "safeGitRelativePath p" if "p \<in> fst ` set target" for p using that assms(2) m by auto
  have inj: "inj_on (placeOf r) (fst ` set target)"
    by (rule inj_onI) (use place_inj c s in blast)
  have df: "distinct (map fst ?f)" using d by (simp add: distinct_map_filter)
  have sub: "set (map fst ?f) \<subseteq> fst ` set target" by auto
  have "distinct (map (placeOf r) (map fst ?f))"
    by (rule iffD2 [OF distinct_map], rule conjI [OF df inj_on_subset [OF inj sub]])
  then have "distinct (map fst (map (\<lambda>(p, e). (placeOf r p, e)) ?f))"
    by (simp add: o_def case_prod_beta)
  then have "targetAt r target xs = Some e \<longleftrightarrow> (xs, e) \<in> set (map (\<lambda>(p, e). (placeOf r p, e)) ?f)"
    unfolding targetAt_def by (rule map_of_eq_Some_iff)
  then show ?thesis by (auto simp: m)
qed

definition survivors :: "location \<Rightarrow> tree_listing \<Rightarrow> gostring list \<Rightarrow> disk \<Rightarrow> disk \<Rightarrow> bool" where
  "survivors r target extra d x \<longleftrightarrow>
     (\<forall>xs. fileAt d xs \<noteq> None \<longrightarrow> targetAt r target xs = None \<longrightarrow> xs \<notin> placeOf r ` set extra \<longrightarrow> fileAt x xs = fileAt d xs)"

definition restoredTree :: "host \<Rightarrow> git_repository \<Rightarrow> location \<Rightarrow> tree_listing \<Rightarrow> gostring list \<Rightarrow> disk \<Rightarrow> disk \<Rightarrow> bool" where
  "restoredTree h repo r target extra d x \<longleftrightarrow>
     (\<forall>blob xs. immutableBlobs h repo blob \<longrightarrow> fileAt x xs =
        (case targetAt r target xs of
           Some e \<Rightarrow> Some (targetNode (blob (teOID e)) e)
         | None \<Rightarrow> if xs \<in> placeOf r ` set extra then None else fileAt d xs))"

lemma extras_current: "set (extraPaths target current) = {p \<in> set (map fst current). map_of target p = None}"
  by (force simp: extraPaths_def)

lemma file_targets: "t \<in> fileTargets (targetsInOrder target (sortBy b (map fst target))) \<longleftrightarrow>
    map_of target (fst t) = Some (snd t) \<and> teMode (snd t) \<noteq> ''160000''"
proof -
  obtain p e where t: "t = (p, e)" by force
  have k: "p \<in> fst ` set target \<longleftrightarrow> map_of target p \<noteq> None" by (simp add: map_of_eq_None_iff)
  have "t \<in> set (targetsInOrder target (sortBy b (map fst target))) \<longleftrightarrow> p \<in> fst ` set target \<and> e = the (map_of target p)"
    by (auto simp: targetsInOrder_def sortBy_set t)
  then show ?thesis unfolding k by (auto simp: fileTargets_def t)
qed

lemma file_survives: "cleared r P d x \<Longrightarrow> xs \<notin> P \<Longrightarrow> fileAt x xs = fileAt d xs"
  unfolding cleared_def fileAt_def by (auto dest!: spec [of _ xs])

lemma apply_restored:
  assumes "rooted h repo r d" "gitListing r d target current"
    and "\<And>p e. map_of target p = Some e \<Longrightarrow> checkedTarget r (extraPaths target current) d (p, e)"
    and "\<And>p. p \<in> set (map fst current) \<Longrightarrow> safeGitRelativePath p"
  shows "triple (\<lambda>x. x = d) (applyWorktreeRestore h repo target current)
    (\<lambda>_ x. restoredTree h repo r target (extraPaths target current) d x \<and> survivors r target (extraPaths target current) d x)
    (survivors r target (extraPaths target current) d)"
proof -
  let ?extra = "extraPaths target current" and ?es = "sortBy deeperFirst (extraPaths target current)"
  let ?ts = "targetsInOrder target (sortBy shallowFirst (map fst target))"
  let ?X = "placeOf r ` set ?extra" and ?P = "(\<lambda>t. placeOf r (fst t)) ` fileTargets ?ts"
  have listing: "cleanListing target" "flatListing target" "cleanListing current" "listedPlainly r d ?extra"
    using assms(2) by (simp_all add: gitListing_def)
  have clean: "map_of target p = Some e \<Longrightarrow> goClean p = p" "p \<in> set (map fst current) \<Longrightarrow> goClean p = p" for p e
    using listing(1,3) by (auto simp: cleanListing_def list_all_iff dest!: map_of_SomeD)
  have safe: "map_of target p = Some e \<Longrightarrow> safeGitRelativePath p" for p e
    using assms(3) by (force simp: checkedTarget_def)
  have spot: "targetAt r target xs = Some e \<longleftrightarrow> (\<exists>p. map_of target p = Some e \<and> teMode e \<noteq> ''160000'' \<and> xs = placeOf r p)" for xs e
    by (rule target_at [OF listing(1) safe])
  have P: "xs \<in> ?P \<longleftrightarrow> targetAt r target xs \<noteq> None" for xs
    using spot [of xs] file_targets [of _ target shallowFirst] by (cases "targetAt r target xs") force+
  have extra: "pathElems p \<noteq> [] \<and> clearTo d (placeOf r p)" if "p \<in> set ?es" for p
    using that listed_clear [OF listing(4)] safe_path(1) clean(2) assms(4) by (auto simp: sortBy_set extras_current)
  have rX: "r \<notin> ?X" using extra place_root by (auto simp: sortBy_set)
  have Xs: "placeOf r ` set ?es = ?X" by (simp add: sortBy_set)
  have survive: "survivors r target ?extra d y" if x: "cleared r ?X d x" and y: "kept ?P x y" for x y
    unfolding survivors_def
  proof (intro allI impI)
    fix xs assume f: "fileAt d xs \<noteq> None" "targetAt r target xs = None" "xs \<notin> ?X"
    have "fileAt x xs = fileAt d xs" by (rule file_survives [OF x f(3)])
    moreover from this have "nodeAt y xs = nodeAt x xs"
      using y f(1,2) P [of xs] unfolding kept_def fileAt_def by (metis (full_types))
    then have "fileAt y xs = fileAt x xs" by (simp add: fileAt_def)
    ultimately show "fileAt y xs = fileAt d xs" by simp
  qed
  have exact: "restoredTree h repo r target ?extra d y"
    if x: "cleared r ?X d x" "\<forall>p \<in> set ?es. nodeAt x (placeOf r p) = None"
      and y: "grownAway ?P x y" "\<forall>t \<in> fileTargets ?ts. holdsTarget h repo r y t" for x y
    unfolding restoredTree_def
  proof (intro allI impI)
    fix blob xs assume blob: "immutableBlobs h repo blob"
    show "fileAt y xs = (case targetAt r target xs of Some e \<Rightarrow> Some (targetNode (blob (teOID e)) e)
        | None \<Rightarrow> if xs \<in> ?X then None else fileAt d xs)"
    proof (cases "targetAt r target xs")
      case (Some e)
      then obtain p where p: "map_of target p = Some e" "teMode e \<noteq> ''160000''" "xs = placeOf r p" using spot by blast
      then have "(p, e) \<in> fileTargets ?ts" by (simp add: file_targets)
      then have "nodeAt y xs = Some (targetNode (blob (teOID e)) e)"
        using y(2) blob p(3) by (fastforce simp: holdsTarget_def)
      then show ?thesis using Some by (simp add: fileAt_def targetNode_def)
    next
      case None
      then have "nodeAt y xs = nodeAt x xs \<or> nodeAt x xs = None \<and> nodeAt y xs = Some NDir"
        using y(1) P [of xs] unfolding grownAway_def by blast
      then have "fileAt y xs = fileAt x xs" by (auto simp: fileAt_def)
      moreover have "fileAt x xs = None" if "xs \<in> ?X" using that x(2) by (auto simp: fileAt_def sortBy_set)
      ultimately show ?thesis using None file_survives [OF x(1)] by auto
    qed
  qed
  show ?thesis unfolding applyWorktreeRestore_def
  proof (rule triple_bind)
    have survive0: "survivors r target ?extra d y" if "cleared r ?X d y" for y
      using survive [OF that, of y] by (simp add: kept_def)
    show "triple (\<lambda>x. x = d) (forIO (removeExtra h repo current) ?es)
        (\<lambda>_ x. cleared r ?X d x \<and> (\<forall>p \<in> set ?es. nodeAt x (placeOf r p) = None)) (survivors r target ?extra d)"
      by (rule triple_weaken [OF remove_all [OF assms(1) extra]]) (use survive0 in \<open>unfold Xs, blast+\<close>)
    show "triple (\<lambda>x. cleared r ?X d x \<and> (\<forall>p \<in> set ?es. nodeAt x (placeOf r p) = None)) (forIO (writeTarget h repo) ?ts)
        (\<lambda>_ x. restoredTree h repo r target ?extra d x \<and> survivors r target ?extra d x) (survivors r target ?extra d)" for u :: unit
    proof (rule triple_ghost)
      fix x assume x: "cleared r ?X d x \<and> (\<forall>p \<in> set ?es. nodeAt x (placeOf r p) = None)"
      have rx: "rooted h repo r x" by (rule cleared_rooted [OF conjunct1 [OF x] assms(1) rX])
      have ok: "pathElems (fst t) \<noteq> [] \<and> clearTo x (placeOf r (fst t))" if t: "t \<in> fileTargets ?ts" for t
      proof -
        have m: "map_of target (fst t) = Some (snd t)" using t by (simp add: file_targets)
        have "linksCovered r ?extra d (fst t)" using assms(3) [OF m] by (simp add: checkedTarget_def)
        then have "clearTo x (placeOf r (fst t))"
          using cleared_link [OF conjunct1 [OF x]] x unfolding linksCovered_def clearTo_def
          by (metis (no_types, lifting) image_iff isLink_def option.simps(4) sortBy_set)
        then show ?thesis using safe_path(1) clean(1) [OF m] safe [OF m] by blast
      qed
      have flat: "\<not> strict_prefix (placeOf r (fst t)) (placeOf r (fst t1))"
        if "t \<in> fileTargets ?ts" "t1 \<in> fileTargets ?ts" for t t1
      proof -
        have "fst t \<in> fst ` set target" "fst t1 \<in> fst ` set target"
          using that map_of_SomeD [of target] unfolding file_targets by force+
        then have "\<not> strict_prefix (pathElems (fst t)) (pathElems (fst t1))"
          using listing(2) unfolding flatListing_def list_all_iff by (metis list.set_map)
        then show ?thesis by (simp add: placeOf_def strict_prefix_def)
      qed
      have same: "snd t1 = snd t" if "t \<in> fileTargets ?ts" "t1 \<in> fileTargets ?ts" "placeOf r (fst t1) = placeOf r (fst t)" for t t1
        using that place_inj clean(1) safe unfolding file_targets by (metis option.inject)
      show "triple (\<lambda>y. y = x) (forIO (writeTarget h repo) ?ts)
          (\<lambda>_ x. restoredTree h repo r target ?extra d x \<and> survivors r target ?extra d x) (survivors r target ?extra d)"
        by (rule triple_weaken [OF write_all [OF rx ok flat same]]) (use x exact survive grownAway_kept in blast)+
    qed
  qed
qed

text \<open>The two stages together, as \<^verbatim>\<open>Restore\<close> runs them one after the other.\<close>

lemma restore_stages:
  assumes "rooted h repo r (hsDisk s)" "gitListing r (hsDisk s) target current"
    "preflightRestore h repo target current s = (s1, Inr ())" "applyWorktreeRestore h repo target current s1 = (s2, q)"
  shows "survivors r target (extraPaths target current) (hsDisk s) (hsDisk s2)"
    "q = Inr () \<Longrightarrow> restoredTree h repo r target (extraPaths target current) (hsDisk s) (hsDisk s2)"
proof -
  let ?d = "hsDisk s"
  have root: "realRoot r ?d" "reRoot repo = renderPath True r" "cleanListing target"
    using assms(1,2) by (simp_all add: rooted_def gitListing_def)
  have c: "hsDisk s1 = ?d" "map_of target p = Some e \<Longrightarrow> checkedTarget r (extraPaths target current) ?d (p, e)"
    "p \<in> set (map fst current) \<Longrightarrow> safeGitRelativePath p" for p e
    using tripleD(1) [OF preflight_checked [OF root, of h current] assms(3)] by blast+
  note run = tripleD [OF apply_restored [OF assms(1,2) c(2,3)] assms(4) c(1)]
  show "survivors r target (extraPaths target current) ?d (hsDisk s2)"
    using run by (cases q) auto
  show "q = Inr () \<Longrightarrow> restoredTree h repo r target (extraPaths target current) ?d (hsDisk s2)"
    using run(1) by blast
qed

end
