(* ===== verification/Restored.thy ===== *)
theory Restored
  imports RestoreOutcome
begin

text \<open>
  The contracts of the Git checkpoint engine: \<^verbatim>\<open>Restore\<close> changes nothing before every check
  has passed, keeps the disk a tree, never loses a file that neither tree controls, and when it
  succeeds the working tree holds exactly the files and links of the checkpoint.
\<close>

section \<open>Reading leaves the disk alone\<close>

lemma quiet_split [quiet_steps]:
  "(\<And>a b. quiet (f a b)) \<Longrightarrow> quiet (case p of (a, b) \<Rightarrow> f a b)"
  "quiet m \<Longrightarrow> (\<And>x. quiet (g x)) \<Longrightarrow> quiet (case r of None \<Rightarrow> m | Some x \<Rightarrow> g x)"
  by (simp_all split: prod.split option.split)

lemma quiet_opening [quiet_steps]:
  "quiet (gitOrFail h repo e args)" "quiet (checkAllowedRoot h eng root)" "quiet (allPresent h p names)"
  "quiet (requireDirectory h p)" "quiet (inspectOr h e p)"
proof -
  show "quiet (allPresent h p names)" by (induction names) (auto intro!: quiet_steps)
  show "quiet (checkAllowedRoot h eng root)" by (simp add: quiet_def checkAllowedRoot_def io_defs)
qed (auto simp: gitOrFail_def requireDirectory_def inspectOr_def intro!: quiet_steps)

lemma quiet_openRepository [quiet_steps]: "quiet (openRepository h eng configured)"
proof -
  have "quiet (requireMarker h p)" "quiet (checkWorkTree h eng repo)" "quiet (openDirectories h repo)"
    "quiet (openIdentity h repo)" for p repo
    unfolding requireMarker_def looksLikeBareRepository_def checkWorkTree_def openDirectories_def openIdentity_def Let_def
    by (auto intro!: quiet_steps)
  then show ?thesis unfolding openRepository_def Let_def by (auto intro!: quiet_steps)
qed

lemma quiet_reading [quiet_steps]:
  "quiet (parseOr e r)" "quiet (readHead h repo)" "quiet (readStatus h repo)" "quiet (readOptionalFile h p)"
  "quiet (verifyCheckpoint h repo c)" "quiet (listTree h repo tree)" "quiet (readBlob h repo oid n)" "quiet (checkApproved e st)"
proof -
  show parse: "quiet (parseOr e r)" for e and r :: "'x option"
    by (auto simp: parseOr_def split: option.split intro: quiet_steps)
  show "quiet (readHead h repo)" unfolding readHead_def Let_def by (auto intro!: quiet_steps)
  show "quiet (readStatus h repo)" unfolding readStatus_def by (auto intro!: quiet_steps parse)
  show "quiet (readOptionalFile h p)" unfolding readOptionalFile_def by (auto intro!: quiet_steps)
  have "quiet (verifyRef h repo c x)" for x
    unfolding verifyRef_def by (auto intro!: quiet_steps split: prod.split)
  then show "quiet (verifyCheckpoint h repo c)" unfolding verifyCheckpoint_def by (auto intro!: quiet_steps)
  show "quiet (listTree h repo tree)" unfolding listTree_def by (auto intro!: quiet_steps parse)
  show "quiet (readBlob h repo oid n)" unfolding readBlob_def by (auto intro!: quiet_steps)
  show "quiet (checkApproved e st)" unfolding checkApproved_def by (auto intro!: quiet_steps)
qed

lemma quiet_treeFromIndex [quiet_steps]: "quiet (treeFromIndex h repo content present includeWorktree)"
proof -
  have "quiet (materializeEmpty h repo tree listed)" for tree listed
    unfolding materializeEmpty_def by (auto intro!: quiet_steps)
  then have "quiet (treeOfIndexFile h repo content present includeWorktree tmp)" for tmp
    unfolding treeOfIndexFile_def Let_def by (auto intro!: quiet_steps)
  then show ?thesis unfolding treeFromIndex_def by (auto intro!: quiet_steps)
qed

lemma quiet_captureState [quiet_steps]: "quiet (captureState h repo w)"
  unfolding captureState_def Let_def by (auto intro!: quiet_steps)

lemma quiet_preflight [quiet_steps]: "quiet (preflightRestore h repo target current)"
proof -
  have a: "quiet (ancestorsFrom h root extra c parts)" for root extra c parts
    by (induction parts arbitrary: c) (auto simp: Let_def intro!: quiet_steps)
  then have t: "quiet (preflightTarget h repo extra t)" for extra t
    unfolding preflightTarget_def preflightRestoreAncestors_def Let_def by (auto intro!: quiet_steps split: prod.split)
  have p: "quiet (checkCurrent p)" for p by (auto simp: checkCurrent_def intro!: quiet_steps)
  have "quiet (bindIO (forIO (preflightTarget h repo extra) ts) (\<lambda>_. forIO checkCurrent ps))" for extra ts ps
    by (intro quiet_steps t p)
  then show ?thesis by (auto simp: quiet_def preflightRestore_def)
qed

lemma quiet_prepare [quiet_steps]: "quiet (prepareRestore h repo c expected)"
  unfolding prepareRestore_def by (auto intro!: quiet_steps)

section \<open>Every step keeps the disk a tree\<close>

definition keepsTree :: "'a io \<Rightarrow> bool" where
  "keepsTree m \<longleftrightarrow> triple treeDisk m (\<lambda>_. treeDisk) treeDisk"

named_theorems tree_steps \<open>steps that keep the disk a tree\<close>

lemma tree_quiet: "quiet m \<Longrightarrow> keepsTree m"
  unfolding keepsTree_def by (rule triple_quiet)

lemma tree_bind [tree_steps]: "keepsTree m \<Longrightarrow> (\<And>x. keepsTree (f x)) \<Longrightarrow> keepsTree (bindIO m f)"
  unfolding keepsTree_def by (rule triple_bind)

lemma tree_unary [tree_steps]:
  "keepsTree m \<Longrightarrow> keepsTree (attemptIO m)" "keepsTree m \<Longrightarrow> keepsTree c \<Longrightarrow> keepsTree (onFailure m c)"
  unfolding keepsTree_def by (auto intro: triple_attempt triple_onFailure)

lemma tree_choice [tree_steps]:
  "(b \<Longrightarrow> keepsTree m) \<Longrightarrow> (\<not> b \<Longrightarrow> keepsTree n) \<Longrightarrow> keepsTree (if b then m else n)"
  "(\<And>e. keepsTree (f e)) \<Longrightarrow> (\<And>x. keepsTree (g x)) \<Longrightarrow> keepsTree (case r of Inl e \<Rightarrow> f e | Inr x \<Rightarrow> g x)"
  "(\<And>a b. keepsTree (k a b)) \<Longrightarrow> keepsTree (case p of (a, b) \<Rightarrow> k a b)"
  by (auto split: sum.split prod.split)

lemma tree_for [tree_steps]: "(\<And>x. keepsTree (f x)) \<Longrightarrow> keepsTree (forIO f xs)"
  by (induction xs) (auto intro: tree_bind tree_quiet quiet_basic)

lemma locate_parent: "locate d p = Found l \<Longrightarrow> l \<noteq> [] \<Longrightarrow> nodeAt d (butlast l) = Some NDir"
  by (auto simp: locate_def split: list.splits found.splits if_splits)

lemma tree_call:
  assumes "\<And>d d1 l x. treeDisk d \<Longrightarrow> (l \<noteq> [] \<Longrightarrow> nodeAt d (butlast l) = Some NDir) \<Longrightarrow> act d l = Inr (d1, x) \<Longrightarrow> treeDisk d1"
  shows "keepsTree (osCall h c (onLocation p act))"
proof -
  have "treeDisk d1" if d: "treeDisk d" "onLocation p act d = Inr (d1, x)" for d d1 x
  proof -
    obtain l where l: "locate d p = Found l" "act d l = Inr (d1, x)"
      using d(2) by (auto simp: onLocation_def split: found.splits)
    show ?thesis by (rule assms [OF d(1) locate_parent [OF l(1)] l(2)])
  qed
  then show ?thesis
    by (auto simp: keepsTree_def triple_def osCall_def Let_def split: sum.splits if_splits)
qed

lemma tree_write_calls [tree_steps]:
  "keepsTree (osMkdir h p)" "keepsTree (osCreateNew h p)" "keepsTree (osSymlink h t p)"
  "keepsTree (osWrite h p c)" "keepsTree (osChmod h p m)" "keepsTree (osRemove h p)"
proof -
  have new: "keepsTree (osCall h c (onLocation p (newEntry n)))" for c n
    by (rule tree_call, case_tac "l = []") (auto simp: newEntry_def split: if_splits intro!: tree_update)
  then show "keepsTree (osMkdir h p)" "keepsTree (osCreateNew h p)" "keepsTree (osSymlink h t p)"
    by (simp_all add: osMkdir_def osCreateNew_def osSymlink_def)
  have change: "keepsTree (osCall h c (onLocation p (changeFile f)))" if "\<And>c m. f c m \<noteq> NDir" for c f
  proof (rule tree_call)
    fix d d1 l and x :: unit
    assume d: "treeDisk d" "l \<noteq> [] \<Longrightarrow> nodeAt d (butlast l) = Some NDir" "changeFile f d l = Inr (d1, x)"
    then have "l \<noteq> []" by (auto simp: changeFile_def)
    then show "treeDisk d1" using d tree_update [OF d(1), of l]
      by (auto simp: changeFile_def split: option.splits node.splits)
  qed
  then show "keepsTree (osWrite h p c)" "keepsTree (osChmod h p m)" by (simp_all add: osWrite_def osChmod_def)
  show "keepsTree (osRemove h p)" unfolding osRemove_def
  proof (rule tree_call)
    fix d d1 l and x :: unit
    assume d: "treeDisk d" "(case nodeAt d l of None \<Rightarrow> Inl OsNotExist
      | Some NDir \<Rightarrow> if l = [] \<or> childrenOf d l \<noteq> [] then Inl OsError else Inr (AList.delete l d, ())
      | Some _ \<Rightarrow> Inr (AList.delete l d, ())) = Inr (d1, x)"
    then have "l \<noteq> []" by auto
    then show "treeDisk d1" using d tree_delete [OF d(1), of l] by (auto split: option.splits node.splits if_splits)
  qed
qed

lemma tree_rename [tree_steps]: "keepsTree (osRename h a b)"
  unfolding osRename_def
proof (rule tree_call)
  fix d d1 l and x :: unit
  assume d: "treeDisk d" "(case nodeAt d l of None \<Rightarrow> Inl OsNotExist | Some NDir \<Rightarrow> Inl OsError
     | Some n \<Rightarrow> onLocation b (\<lambda>d l2. if nodeAt d l2 = Some NDir then Inl OsError
         else Inr (AList.update l2 n (AList.delete l d), ())) d) = Inr (d1, x)"
  obtain n where n: "nodeAt d l = Some n" "n \<noteq> NDir" using d(2) by (auto split: option.splits node.splits)
  have l: "l \<noteq> []" using n by auto
  obtain l2 where l2: "locate d b = Found l2" "nodeAt d l2 \<noteq> Some NDir" "d1 = AList.update l2 n (AList.delete l d)"
    using d(2) n by (cases n) (auto simp: onLocation_def split: found.splits if_splits)
  have l2n: "l2 \<noteq> []" using l2(2) by auto
  have up: "nodeAt d (butlast l2) = Some NDir" by (rule locate_parent [OF l2(1) l2n])
  have t: "treeDisk (AList.delete l d)" by (rule tree_delete [OF d(1) l]) (use n in simp)
  show "treeDisk d1" unfolding l2(3)
    by (rule tree_update [OF t l2n]) (use up n l l2(2) in auto)
qed

section \<open>The restore\<close>

lemma tree_removeExtra: "keepsTree (removeExtra h repo current p)"
proof -
  have parents: "keepsTree (removeEmptyParents h root es)" for root es
    by (induction es) (auto intro!: tree_steps intro: tree_quiet quiet_basic)
  have "keepsTree (removeExtraAt h root mode absolute)" for root mode absolute
    unfolding removeExtraAt_def by (intro tree_steps parents tree_quiet quiet_steps)
  then show ?thesis unfolding removeExtra_def by (intro tree_steps) (rule tree_quiet, rule quiet_steps)
qed

lemma tree_writeTarget: "keepsTree (writeTarget h repo t)"
proof -
  have "keepsTree (makeParents h c parts)" for c parts
    by (induction parts arbitrary: c) (auto simp: Let_def intro!: tree_steps intro: tree_quiet quiet_basic)
  then have parents: "keepsTree (ensureSafeParentDirectories h root p)" for root p
    unfolding ensureSafeParentDirectories_def Let_def by (auto intro!: tree_steps intro: tree_quiet quiet_basic)
  have replaceable: "keepsTree (removeReplaceablePath h p)" for p
    unfolding removeReplaceablePath_def by (intro tree_steps tree_quiet quiet_steps)
  have temporary: "keepsTree (writeTemporary h p tmp content mode)" "keepsTree (closeAndRemove h tmp)" for p tmp content mode
    unfolding writeTemporary_def closeAndRemove_def by (intro tree_steps tree_quiet [OF quiet_calls(3)] tree_quiet [OF quiet_calls(4)])+
  have "keepsTree (replaceWithRegularFile h p content mode)" "keepsTree (replaceWithSymlink h p content)" for p content mode
    unfolding replaceWithRegularFile_def replaceWithSymlink_def Let_def
    by (intro tree_steps replaceable temporary tree_quiet [OF quiet_basic(2)] tree_quiet [OF quiet_basic(7)] tree_quiet [OF quiet_basic(8)])+
  then show ?thesis unfolding writeTarget_def
    by (intro tree_steps parents tree_quiet [OF quiet_basic(1)] tree_quiet [OF quiet_basic(5)] tree_quiet [OF quiet_reading(7)]) auto
qed

lemma tree_finish: "keepsTree (finishRestore h repo c content)"
proof -
  have close: "keepsTree (osClose h p)" "keepsTree (osSync h p)" for p by (rule tree_quiet, rule quiet_steps)+
  have "keepsTree (restoreIndexAtomically h p content present)" for p present
    unfolding restoreIndexAtomically_def writeIndexLock_def dropIndex_def closeAndRemove_def Let_def
    by (intro tree_steps close tree_quiet [OF quiet_basic(2)])
  moreover have "quiet (restoreHead h repo c)" unfolding restoreHead_def by (intro quiet_steps)
  ultimately show ?thesis unfolding finishRestore_def
    by (intro tree_steps tree_quiet [OF quiet_captureState] tree_quiet [OF quiet_basic(1)] tree_quiet [OF quiet_basic(2)])
      (auto intro: tree_quiet)
qed

section \<open>An example\<close>

text \<open>
  A workspace \<^verbatim>\<open>/w\<close> with an ignored file, whose current state has a link to a directory outside
  where the checkpoint has a directory with a file and a link. The blobs of this Git hold their own names.
\<close>

definition exOid :: "char \<Rightarrow> gostring" where
  "exOid c = replicate 40 c"

definition treeLine :: "gostring \<Rightarrow> gostring \<Rightarrow> gostring \<Rightarrow> gostring" where
  "treeLine mode oid p = mode @ '' blob '' @ oid @ [CHR 0x09] @ p @ [CHR 0x00]"

definition exGit :: "gostring list \<Rightarrow> gostring" where
  "exGit a =
     (if a = [''rev-parse'', ''--is-inside-work-tree''] then ''true''
      else if a = [''rev-parse'', ''--show-toplevel''] then ''/w''
      else if a = [''rev-parse'', ''--absolute-git-dir''] then ''/w/.git''
      else if a = [''rev-parse'', ''--git-common-dir''] then ''.git''
      else if a = [''rev-parse'', ''--git-path'', ''index''] then ''.git/index''
      else if a = [''symbolic-ref'', ''-q'', ''HEAD''] then ''refs/heads/main''
      else if take 2 a = [''cat-file'', ''blob''] then last a
      else if take 2 a = [''cat-file'', ''-t'']
      then (if last a = exOid CHR ''5'' then ''tree'' else if last a = exOid CHR ''9'' then ''commit'' else ''blob'')
      else if take 2 a = [''rev-parse'', ''--verify'']
      then (if last a \<in> {''HEAD'', baseRef ''7'' @ ''/head''} then exOid CHR ''9''
            else if last a \<in> {baseRef ''7'' @ ''/worktree'', baseRef ''7'' @ ''/index-tree''} then exOid CHR ''5''
            else exOid CHR ''8'')
      else if a = [''write-tree''] then exOid CHR ''6''
      else if take 1 a = [''hash-object''] then exOid CHR ''8''
      else if take 2 a = [''ls-tree'', ''-r'']
      then (if last a = exOid CHR ''5''
            then treeLine ''100755'' (exOid CHR ''1'') ''a/b'' @ treeLine ''120000'' (exOid CHR ''2'') ''a/c''
            else treeLine ''120000'' (exOid CHR ''3'') ''a'' @ treeLine ''100644'' (exOid CHR ''4'') ''old'')
      else if take 1 a = [''ls-tree''] then last a
      else [])"

definition exHost :: host where
  "exHost = \<lparr>hoCwd = ''/'', hoGit = (\<lambda>_ _ c. Some (exGit (drop 9 (gmArgs c)))), hoFault = (\<lambda>_ _. False), hoRandom = (\<lambda>_. 7),
     hoWalk = (\<lambda>_ ks. rev ks), hoTempDir = ''/tmp'', hoNow = (\<lambda>_. []), hoSha256 = (\<lambda>x. x), hoPrint = (\<lambda>_. ''state'')\<rparr>"

definition exEngine :: git_engine where
  "exEngine = \<lparr>geAllowedRoots = [''/w''], geMaxDiffBytes = 0, geMaxDiffLines = 0, geMaxDiffContext = 0, geMaxDiffFileSize = 0\<rparr>"

definition exRepo :: git_repository where
  "exRepo = \<lparr>reRoot = ''/w'', reGitDir = ''/w/.git'', reCommonDir = ''/w/.git'', reIdentity = ''/w/.git'', reIndexPath = ''/w/.git/index''\<rparr>"

definition exDisk :: disk where
  "exDisk = [([''w''], NDir), ([''w'', ''.git''], NDir), ([''w'', ''a''], NLink ''/etc''), ([''etc''], NDir),
     ([''etc'', ''b''], NFile ''secret'' 384), ([''w'', ''notes''], NFile ''mine'' 420), ([''w'', ''old''], NFile ''gone'' 420)]"

definition exTarget :: tree_listing where
  "exTarget = [(''a/b'', \<lparr>teMode = ''100755'', teType = ''blob'', teOID = exOid CHR ''1'', tePath = ''a/b''\<rparr>),
     (''a/c'', \<lparr>teMode = ''120000'', teType = ''blob'', teOID = exOid CHR ''2'', tePath = ''a/c''\<rparr>)]"

definition exCurrent :: tree_listing where
  "exCurrent = [(''a'', \<lparr>teMode = ''120000'', teType = ''blob'', teOID = exOid CHR ''3'', tePath = ''a''\<rparr>),
     (''old'', \<lparr>teMode = ''100644'', teType = ''blob'', teOID = exOid CHR ''4'', tePath = ''old''\<rparr>)]"

definition exCheckpoint :: engine_checkpoint where
  "exCheckpoint = \<lparr>hdRef = ''refs/heads/main'', hdBranch = ''main'', hdHead = exOid CHR ''9'', hdDetached = False, hdUnborn = False,
     stRoot = ''/w'', stGitDir = ''/w/.git'', stCommonDir = ''/w/.git'', stIdentity = ''/w/.git'', stIndexPresent = True,
     stIndexTree = exOid CHR ''5'', stIndexBlob = exOid CHR ''8'', stTree = exOid CHR ''5'', stStatus = emptySummary,
     stFingerprint = ''state'', ecID = ''7'', ecCapturedAt = [],
     ecRefs = \<lparr>rfWorktree = baseRef ''7'' @ ''/worktree'', rfIndexTree = baseRef ''7'' @ ''/index-tree'',
       rfIndex = baseRef ''7'' @ ''/index'', rfMetadata = baseRef ''7'' @ ''/metadata'', rfHead = baseRef ''7'' @ ''/head''\<rparr>,
     ecMetadataBlob = exOid CHR ''8''\<rparr>"

definition exStart :: host_state where
  "exStart = \<lparr>hsDisk = exDisk, hsHistory = []\<rparr>"

definition exChecked :: host_state where
  "exChecked = fst (preflightRestore exHost exRepo exTarget exCurrent exStart)"

definition exRestored :: host_state where
  "exRestored = fst (applyWorktreeRestore exHost exRepo exTarget exCurrent exChecked)"

lemma example_listed: "rooted exHost exRepo [''w''] (hsDisk exStart)" "gitListing [''w''] (hsDisk exStart) exTarget exCurrent"
  by code_simp+

lemma example_checked: "preflightRestore exHost exRepo exTarget exCurrent exStart = (exChecked, Inr ())"
proof -
  have "snd (preflightRestore exHost exRepo exTarget exCurrent exStart) = Inr ()" by code_simp
  then show ?thesis by (simp add: exChecked_def prod_eq_iff)
qed

lemma example_restored: "applyWorktreeRestore exHost exRepo exTarget exCurrent exChecked = (exRestored, Inr ())"
proof -
  have "snd (applyWorktreeRestore exHost exRepo exTarget exCurrent exChecked) = Inr ()" by code_simp
  then show ?thesis by (simp add: exRestored_def prod_eq_iff)
qed

lemma example_blobs: "immutableBlobs exHost exRepo (\<lambda>oid. oid)"
  by (simp add: immutableBlobs_def exHost_def gitPrefix_def exGit_def)

text \<open>A checkpoint whose protected tree is not the one that its reference names.\<close>

definition exMismatch :: engine_checkpoint where
  "exMismatch = exCheckpoint\<lparr>stTree := exOid CHR ''4''\<rparr>"

definition exOpened :: host_state where
  "exOpened = fst (openRepository exHost exEngine (stRoot exMismatch) exStart)"

lemma example_opened: "openRepository exHost exEngine (stRoot exMismatch) exStart = (exOpened, Inr exRepo)"
proof -
  have "snd (openRepository exHost exEngine (stRoot exMismatch) exStart) = Inr exRepo" by code_simp
  then show ?thesis by (simp add: exOpened_def prod_eq_iff)
qed

lemma example_mismatch: "isl (snd (prepareRestore exHost exRepo exMismatch ''state'' exOpened))"
proof -
  have "isl (snd (verifyCheckpoint exHost exRepo exMismatch \<lparr>hsDisk = d, hsHistory = hs\<rparr>))" for d hs by code_simp
  then have "isl (snd (verifyCheckpoint exHost exRepo exMismatch exOpened))" by (metis host_state.surjective unit.exhaust)
  then show ?thesis by (auto simp: prepareRestore_def bindIO_def isl_def split: prod.split)
qed

text \<open>
  The checks do not cover everything: a checkpoint has a file where the current state has a directory with
  one controlled file and an empty directory, which Git does not list. The checks pass, the
  controlled file is removed, and then the file cannot replace the directory that is not empty.
\<close>

definition exHalf :: host_state where
  "exHalf = \<lparr>hsDisk = [([''w''], NDir), ([''w'', ''d''], NDir), ([''w'', ''d'', ''x''], NFile ''x'' 420), ([''w'', ''d'', ''e''], NDir)], hsHistory = []\<rparr>"

definition exHalfTarget :: tree_listing where
  "exHalfTarget = [(''d'', \<lparr>teMode = ''100644'', teType = ''blob'', teOID = exOid CHR ''1'', tePath = ''d''\<rparr>)]"

definition exHalfCurrent :: tree_listing where
  "exHalfCurrent = [(''d/x'', \<lparr>teMode = ''100644'', teType = ''blob'', teOID = exOid CHR ''2'', tePath = ''d/x''\<rparr>)]"

definition exHalfRestored :: "host_state \<times> (git_error + unit)" where
  "exHalfRestored = applyWorktreeRestore exHost exRepo exHalfTarget exHalfCurrent (fst (preflightRestore exHost exRepo exHalfTarget exHalfCurrent exHalf))"

lemma restore_stops_halfway:
  "snd (preflightRestore exHost exRepo exHalfTarget exHalfCurrent exHalf) = Inr ()" "isl (snd exHalfRestored)"
  "fileAt (hsDisk (fst exHalfRestored)) [''w'', ''d'', ''x''] = None \<and> fileAt (hsDisk (fst exHalfRestored)) [''w'', ''d''] = None"
  by code_simp+

section \<open>Claims\<close>

text \<open>C7. A restore of the working tree is exact: if the checks pass and every step succeeds, then at
  every location that is not a directory stands afterwards what the checkpoint has there, nothing where
  the checkpoint has nothing but the current state had a controlled file, and elsewhere what stood there
  before. What the checkpoint has is the blob Git keeps, as a link or as a file with its mode.\<close>

theorem restore_is_exact:
  assumes "rooted h repo r (hsDisk s)" "gitListing r (hsDisk s) target current" "immutableBlobs h repo blob"
    "preflightRestore h repo target current s = (s1, Inr ())"
    "applyWorktreeRestore h repo target current s1 = (s2, Inr ())"
  shows "fileAt (hsDisk s2) xs =
    (case targetAt r target xs of
       Some e \<Rightarrow> Some (targetNode (blob (teOID e)) e)
     | None \<Rightarrow> if xs \<in> placeOf r ` set (extraPaths target current) then None else fileAt (hsDisk s) xs)"
  using restore_stages(2) [OF assms(1,2,4,5)] assms(3) by (simp add: restoredTree_def)

text \<open>C9. Nothing that neither tree controls is lost: a file or a link that stands where neither the
  checkpoint nor the current state has an entry is still there after the restore of the working tree,
  whichever call of the operating system or of Git fails on the way.\<close>

theorem restore_keeps_the_rest:
  assumes "rooted h repo r (hsDisk s)" "gitListing r (hsDisk s) target current"
    "preflightRestore h repo target current s = (s1, Inr ())"
    "applyWorktreeRestore h repo target current s1 = (s2, q)"
    "targetAt r target xs = None" "xs \<notin> placeOf r ` set (extraPaths target current)" "fileAt (hsDisk s) xs = Some n"
  shows "fileAt (hsDisk s2) xs = Some n"
  using restore_stages(1) [OF assms(1-4)] assms(5-7) by (simp add: survivors_def)

text \<open>C18. A restore that is refused changes nothing: if the repository cannot be opened, or any check
  before the first change fails (the protection references, the approved fingerprint, the listings, the
  bytes of the index, the checks of every target), \<^verbatim>\<open>Restore\<close> fails and the disk is as it was.\<close>

theorem refused_restore_changes_nothing:
  assumes "openRepository h eng (stRoot c) s = (s1, r)"
    "case r of Inl _ \<Rightarrow> True | Inr repo \<Rightarrow> isl (snd (prepareRestore h repo c expected s1))"
  shows "isl (snd (Restore h eng c expected s)) \<and> hsDisk (fst (Restore h eng c expected s)) = hsDisk s"
proof (cases r)
  case (Inl e)
  then show ?thesis using assms(1) quietD [OF quiet_openRepository assms(1)] by (simp add: Restore_def bindIO_def)
next
  case (Inr repo)
  obtain s2 e where p: "prepareRestore h repo c expected s1 = (s2, Inl e)"
    using assms(2) Inr by (cases "prepareRestore h repo c expected s1") (auto simp: isl_def)
  have "hsDisk s1 = hsDisk s" "hsDisk s2 = hsDisk s1"
    using quietD [OF quiet_openRepository assms(1)] quietD [OF quiet_prepare p] by simp_all
  then show ?thesis using assms(1) Inr p by (simp add: Restore_def bindIO_def)
qed

text \<open>Whatever the operating system and Git answer, a restore keeps the disk a tree: every entry
  stays in a directory, also after a failure in the middle.\<close>

theorem restore_keeps_tree:
  assumes "treeDisk (hsDisk s)" shows "treeDisk (hsDisk (fst (Restore h eng c expected s)))"
proof -
  have "keepsTree (applyWorktreeRestore h repo target current)" for repo target current
    unfolding applyWorktreeRestore_def by (intro tree_steps tree_removeExtra tree_writeTarget)
  then have "keepsTree (Restore h eng c expected)" unfolding Restore_def
    by (intro tree_steps tree_finish tree_quiet [OF quiet_openRepository] tree_quiet [OF quiet_prepare])
  then show ?thesis unfolding keepsTree_def using assms triple_always by (metis prod.collapse)
qed

lemma restore_is_exact_witness:
  "fileAt (hsDisk exRestored) [''w'', ''a'', ''b''] = Some (NFile (exOid CHR ''1'') 493) \<and>
   fileAt (hsDisk exRestored) [''w'', ''a''] = None \<and> fileAt (hsDisk exRestored) [''w'', ''old''] = None"
proof -
  note exact = restore_is_exact [OF example_listed example_blobs example_checked example_restored]
  have "targetAt [''w''] exTarget [''w'', ''a'', ''b''] = Some \<lparr>teMode = ''100755'', teType = ''blob'', teOID = exOid CHR ''1'', tePath = ''a/b''\<rparr>"
    "targetAt [''w''] exTarget [''w'', ''a''] = None \<and> [''w'', ''a''] \<in> placeOf [''w''] ` set (extraPaths exTarget exCurrent)"
    "targetAt [''w''] exTarget [''w'', ''old''] = None \<and> [''w'', ''old''] \<in> placeOf [''w''] ` set (extraPaths exTarget exCurrent)"
    by code_simp+
  then show ?thesis by (simp add: exact targetNode_def)
qed

lemma restore_keeps_the_rest_witness:
  "fileAt (hsDisk exRestored) [''etc'', ''b''] = Some (NFile ''secret'' 384) \<and>
   fileAt (hsDisk exRestored) [''w'', ''notes''] = Some (NFile ''mine'' 420)"
proof
  note kept = restore_keeps_the_rest [OF example_listed example_checked example_restored]
  show "fileAt (hsDisk exRestored) [''etc'', ''b''] = Some (NFile ''secret'' 384)" by (rule kept) code_simp+
  show "fileAt (hsDisk exRestored) [''w'', ''notes''] = Some (NFile ''mine'' 420)" by (rule kept) code_simp+
qed

lemma refused_restore_changes_nothing_witness:
  "isl (snd (Restore exHost exEngine exMismatch ''state'' exStart)) \<and>
   hsDisk (fst (Restore exHost exEngine exMismatch ''state'' exStart)) = exDisk"
  using refused_restore_changes_nothing [OF example_opened, of "''state''"] example_mismatch by (simp add: exStart_def)

lemma restore_keeps_tree_witness: "treeDisk (hsDisk (fst (Restore exHost exEngine exCheckpoint ''state'' exStart)))"
  by (rule restore_keeps_tree) code_simp

end
