(* ===== verification/Evidence.thy ===== *)
theory Evidence
  imports Snapshot
begin

text \<open>
  \<^verbatim>\<open>repository/execution_evidence.go\<close> and the tables of migration 012: every attempt to run a
  task leaves an append-only closure (checkpoints before and after, file changes, validations), and a
  rollback of an attempt is an operation with a sequence of status events. The checks of the tables
  (values, uniqueness, references, the triggers on the links) are part of an insertion. Random
  identifiers and clock readings inside an operation are drawn by their position.
\<close>

section \<open>Rows\<close>

record evidence_link =
  elProject :: uuid
  elPlan :: uuid
  elTask :: uuid
  elJob :: uuid
  elRun :: uuid

record task_attempt = evidence_link +
  taId :: uuid
  taSequence :: int
  taOrigin :: gostring
  taQueueAttempt :: int
  taSupersedes :: "uuid option"
  taOutcome :: gostring
  taStarted :: time
  taFinished :: time
  taCreated :: time

text \<open>What the other five tables share.\<close>

record evidence_row = evidence_link +
  erId :: uuid
  erAttempt :: uuid
  erSequence :: int
  erCreated :: time

record task_checkpoint = evidence_row +
  tcPhase :: gostring
  tcReferenceState :: gostring
  tcBranch :: gostring
  tcHead :: gostring
  tcIndexTree :: gostring
  tcTree :: gostring
  tcSummary :: raw_json
  tcFingerprint :: gostring
  tcTaskKey :: gostring
  tcConfig :: raw_json

record task_file_change = evidence_row +
  tfPath :: gostring
  tfPrevious :: gostring
  tfKind :: gostring
  tfStaged :: bool
  tfBinary :: bool
  tfAdditions :: "int option"
  tfDeletions :: "int option"
  tfBefore :: gostring
  tfAfter :: gostring
  tfFingerprint :: gostring
  tfSummary :: raw_json

record task_validation = evidence_row +
  tvCommand :: gostring
  tvDirectory :: gostring
  tvStatus :: gostring
  tvExitCode :: "int option"
  tvStarted :: "time option"
  tvFinished :: "time option"
  tvStdout :: gostring
  tvStderr :: gostring
  tvSummary :: raw_json

record task_rollback = evidence_row +
  trSource :: uuid
  trTarget :: uuid
  trKind :: gostring
  trCommand :: gostring
  trReason :: gostring
  trRequestedBy :: gostring

record rollback_event = evidence_row +
  reRollback :: uuid
  reStatus :: gostring
  reMessage :: gostring
  reDetails :: raw_json

text \<open>The database with the evidence; \<open>evBase\<close> are the other tables.\<close>

record evidence_db =
  evBase :: db
  evAttempts :: "task_attempt list"
  evCheckpoints :: "task_checkpoint list"
  evChanges :: "task_file_change list"
  evValidations :: "task_validation list"
  evRollbacks :: "task_rollback list"
  evRollbackEvents :: "rollback_event list"

datatype evidence_error = EvNotFound | EvInvalid gostring | EvConstraint gostring

section \<open>The checks of the tables\<close>

definition lowerHex :: "char \<Rightarrow> bool" where
  "lowerHex c \<longleftrightarrow> c \<in> set ''0123456789abcdef''"

definition oidText :: "gostring \<Rightarrow> bool" where
  "oidText s \<longleftrightarrow> (length s = 40 \<or> length s = 64) \<and> list_all lowerHex s"

definition digestText :: "gostring \<Rightarrow> bool" where
  "digestText s \<longleftrightarrow> length s = 64 \<and> list_all lowerHex s"

definition notBlank :: "gostring \<Rightarrow> bool" where
  "notBlank s \<longleftrightarrow> list_ex (\<lambda>c. c \<noteq> CHR '' '') s"

definition storedObject :: "raw_json \<Rightarrow> bool" where
  "storedObject j \<longleftrightarrow> (case j of RawValue (JObj _) \<Rightarrow> True | _ \<Rightarrow> False)"

definition linkOf :: "'a evidence_link_scheme \<Rightarrow> evidence_link" where
  "linkOf r = \<lparr>elProject = elProject r, elPlan = elPlan r, elTask = elTask r, elJob = elJob r, elRun = elRun r\<rparr>"

definition validAttempt :: "task_attempt \<Rightarrow> bool" where
  "validAttempt a \<longleftrightarrow> taSequence a > 0 \<and> taOrigin a \<in> {''initial'', ''manual_retry'', ''queue_retry'', ''recovery''} \<and>
     taQueueAttempt a > 0 \<and> taOutcome a \<in> {''succeeded'', ''failed'', ''interrupted'', ''cancelled''} \<and>
     taFinished a \<ge> taStarted a \<and> taSupersedes a \<noteq> Some (taId a)"

text \<open>The trigger on attempts: one coherent chain of rows, and an earlier attempt of the same task.\<close>

definition chainExists :: "db \<Rightarrow> 'a evidence_link_scheme \<Rightarrow> bool" where
  "chainExists d r \<longleftrightarrow>
     list_ex (\<lambda>p. lId p = elPlan r \<and> lProject p = elProject r) (dbPlans d) \<and>
     list_ex (\<lambda>t. lId t = elTask r \<and> ptPlan t = elPlan r \<and> lProject t = elProject r) (dbTasks d) \<and>
     list_ex (\<lambda>j. lId j = elJob r \<and> lProject j = elProject r \<and> jType j = ''task.execute'' \<and> jAggregateType j = ''task'' \<and>
       jAggregateID j = elTask r) (dbJobs d) \<and>
     list_ex (\<lambda>x. lId x = elRun r \<and> lProject x = elProject r \<and> arPlan x = Some (elPlan r) \<and> arTask x = Some (elTask r) \<and>
       arJob x = Some (elJob r)) (dbRuns d)"

definition supersedesEarlier :: "task_attempt list \<Rightarrow> task_attempt \<Rightarrow> bool" where
  "supersedesEarlier rows a \<longleftrightarrow> (case taSupersedes a of None \<Rightarrow> True
     | Some i \<Rightarrow> list_ex (\<lambda>x. taId x = i \<and> elProject x = elProject a \<and> elPlan x = elPlan a \<and> elTask x = elTask a \<and>
         taSequence x < taSequence a) rows)"

definition insertAttempt :: "task_attempt \<Rightarrow> evidence_db \<Rightarrow> evidence_error + evidence_db" where
  "insertAttempt a e =
     (if \<not> chainExists (evBase e) a then Inl (EvConstraint ''inconsistent chain'')
      else if \<not> supersedesEarlier (evAttempts e) a then Inl (EvConstraint ''superseded attempt'')
      else if \<not> validAttempt a then Inl (EvConstraint ''check'')
      else if list_ex (\<lambda>x. taId x = taId a \<or> elTask x = elTask a \<and> taSequence x = taSequence a \<or> elRun x = elRun a) (evAttempts e)
      then Inl (EvConstraint ''unique'')
      else Inr (e\<lparr>evAttempts := evAttempts e @ [a]\<rparr>))"

definition linksMatch :: "task_attempt list \<Rightarrow> 'a evidence_row_scheme \<Rightarrow> bool" where
  "linksMatch attempts r \<longleftrightarrow> list_ex (\<lambda>a. taId a = erAttempt r \<and> linkOf a = linkOf r) attempts"

text \<open>An insertion into one of the other tables, with the columns that are unique together.\<close>

definition insertEvidence ::
  "task_attempt list \<Rightarrow> ('a evidence_row_scheme \<Rightarrow> uuid) \<Rightarrow> bool \<Rightarrow> 'a evidence_row_scheme \<Rightarrow> 'a evidence_row_scheme list \<Rightarrow>
     evidence_error + 'a evidence_row_scheme list" where
  "insertEvidence attempts owner ok r rows =
     (if \<not> linksMatch attempts r then Inl (EvConstraint ''different chain'')
      else if \<not> ok \<or> erSequence r \<le> 0 then Inl (EvConstraint ''check'')
      else if list_ex (\<lambda>x. erId x = erId r \<or> owner x = owner r \<and> erSequence x = erSequence r) rows
      then Inl (EvConstraint ''unique'')
      else Inr (rows @ [r]))"

definition validCheckpoint :: "task_checkpoint \<Rightarrow> bool" where
  "validCheckpoint c \<longleftrightarrow>
     tcPhase c \<in> {''before_execution'', ''after_execution'', ''before_rollback'', ''after_rollback''} \<and>
     tcReferenceState c \<in> {''branch'', ''detached'', ''unborn''} \<and> oidText (tcIndexTree c) \<and> oidText (tcTree c) \<and>
     storedObject (tcSummary c) \<and> digestText (tcFingerprint c) \<and>
     hasPrefix (tcTaskKey c) ''P'' \<and> length (tcTaskKey c) \<ge> 4 \<and> list_all isDigitChar (tl (tcTaskKey c)) \<and>
     storedObject (tcConfig c) \<and>
     (tcReferenceState c = ''branch'' \<and> notBlank (tcBranch c) \<and> tcHead c \<noteq> [] \<or>
      tcReferenceState c = ''detached'' \<and> tcBranch c = [] \<and> tcHead c \<noteq> [] \<or>
      tcReferenceState c = ''unborn'' \<and> tcHead c = []) \<and>
     (tcHead c = [] \<or> oidText (tcHead c))"

definition naturalOrNone :: "int option \<Rightarrow> bool" where
  "naturalOrNone n \<longleftrightarrow> (case n of None \<Rightarrow> True | Some k \<Rightarrow> k \<ge> 0)"

definition validChange :: "task_file_change \<Rightarrow> bool" where
  "validChange f \<longleftrightarrow> tfPath f \<noteq> [] \<and>
     tfKind f \<in> {''added'', ''modified'', ''deleted'', ''renamed'', ''copied'', ''type_changed'', ''unmerged'', ''untracked''} \<and>
     naturalOrNone (tfAdditions f) \<and> naturalOrNone (tfDeletions f) \<and> (tfFingerprint f = [] \<or> digestText (tfFingerprint f)) \<and>
     storedObject (tfSummary f) \<and> (tfBefore f = [] \<or> oidText (tfBefore f)) \<and> (tfAfter f = [] \<or> oidText (tfAfter f))"

definition validValidation :: "task_validation \<Rightarrow> bool" where
  "validValidation v \<longleftrightarrow> notBlank (tvCommand v) \<and> notBlank (tvDirectory v) \<and>
     tvStatus v \<in> {''passed'', ''failed'', ''timed_out'', ''skipped'', ''error''} \<and>
     (tvStdout v = [] \<or> digestText (tvStdout v)) \<and> (tvStderr v = [] \<or> digestText (tvStderr v)) \<and> storedObject (tvSummary v) \<and>
     (case tvFinished v of None \<Rightarrow> True | Some f \<Rightarrow> (case tvStarted v of None \<Rightarrow> False | Some s \<Rightarrow> f \<ge> s))"

text \<open>A rollback names two different checkpoints of its attempt.\<close>

definition validRollback :: "task_checkpoint list \<Rightarrow> task_rollback \<Rightarrow> bool" where
  "validRollback cs r \<longleftrightarrow>
     list_ex (\<lambda>c. erId c = trSource r \<and> erAttempt c = erAttempt r) cs \<and> list_ex (\<lambda>c. erId c = trTarget r \<and> erAttempt c = erAttempt r) cs \<and>
     trKind r \<in> {''manual'', ''automatic'', ''recovery''} \<and> notBlank (trReason r) \<and> notBlank (trRequestedBy r) \<and> trSource r \<noteq> trTarget r"

definition validRollbackEvent :: "task_rollback list \<Rightarrow> rollback_event \<Rightarrow> bool" where
  "validRollbackEvent rs v \<longleftrightarrow>
     list_ex (\<lambda>r. erId r = reRollback v \<and> erAttempt r = erAttempt v \<and> linkOf r = linkOf v) rs \<and>
     reStatus v \<in> {''requested'', ''running'', ''succeeded'', ''failed'', ''cancelled''} \<and> storedObject (reDetails v)"

definition insertCheckpoint :: "task_checkpoint \<Rightarrow> evidence_db \<Rightarrow> evidence_error + evidence_db" where
  "insertCheckpoint c e =
     bindR (insertEvidence (evAttempts e) erAttempt (validCheckpoint c) c (evCheckpoints e)) (\<lambda>t. Inr (e\<lparr>evCheckpoints := t\<rparr>))"

definition insertChange :: "task_file_change \<Rightarrow> evidence_db \<Rightarrow> evidence_error + evidence_db" where
  "insertChange f e =
     bindR (insertEvidence (evAttempts e) erAttempt (validChange f) f (evChanges e)) (\<lambda>t. Inr (e\<lparr>evChanges := t\<rparr>))"

definition insertValidation :: "task_validation \<Rightarrow> evidence_db \<Rightarrow> evidence_error + evidence_db" where
  "insertValidation v e =
     bindR (insertEvidence (evAttempts e) erAttempt (validValidation v) v (evValidations e)) (\<lambda>t. Inr (e\<lparr>evValidations := t\<rparr>))"

definition insertRollback :: "task_rollback \<Rightarrow> evidence_db \<Rightarrow> evidence_error + evidence_db" where
  "insertRollback r e =
     bindR (insertEvidence (evAttempts e) erAttempt (validRollback (evCheckpoints e) r) r (evRollbacks e)) (\<lambda>t. Inr (e\<lparr>evRollbacks := t\<rparr>))"

definition insertRollbackEvent :: "rollback_event \<Rightarrow> evidence_db \<Rightarrow> evidence_error + evidence_db" where
  "insertRollbackEvent v e =
     bindR (insertEvidence (evAttempts e) reRollback (validRollbackEvent (evRollbacks e) v) v (evRollbackEvents e))
       (\<lambda>t. Inr (e\<lparr>evRollbackEvents := t\<rparr>))"

section \<open>Saving an attempt\<close>

record checkpoint_input =
  ciId :: uuid
  ciReferenceState :: gostring
  ciBranch :: gostring
  ciHead :: gostring
  ciIndexTree :: gostring
  ciTree :: gostring
  ciSummary :: raw_json
  ciFingerprint :: gostring
  ciConfig :: raw_json
  ciCreated :: "time option"

record change_input =
  fiId :: uuid
  fiPath :: gostring
  fiPrevious :: gostring
  fiKind :: gostring
  fiStaged :: bool
  fiBinary :: bool
  fiAdditions :: "int option"
  fiDeletions :: "int option"
  fiBefore :: gostring
  fiAfter :: gostring
  fiFingerprint :: gostring
  fiSummary :: raw_json
  fiCreated :: "time option"

record validation_input =
  viId :: uuid
  viCommand :: gostring
  viDirectory :: gostring
  viStatus :: gostring
  viExitCode :: "int option"
  viStarted :: "time option"
  viFinished :: "time option"
  viStdout :: gostring
  viStderr :: gostring
  viSummary :: raw_json
  viCreated :: "time option"

record closure_params = evidence_link +
  cpId :: uuid
  cpOrigin :: gostring
  cpQueueAttempt :: int
  cpSupersedes :: "uuid option"
  cpOutcome :: gostring
  cpStarted :: "time option"
  cpFinished :: "time option"
  cpCreated :: "time option"
  cpBefore :: checkpoint_input
  cpAfter :: checkpoint_input
  cpChanges :: "change_input list"
  cpValidations :: "validation_input list"

text \<open>What an operation draws: the uuid and the clock reading of its n-th row.\<close>

record evidence_source =
  esUuid :: "nat \<Rightarrow> uuid"
  esNow :: "nat \<Rightarrow> time"

definition evidenceJSON :: "raw_json \<Rightarrow> raw_json" where
  "evidenceJSON j = (if j = RawEmpty then RawValue (JObj []) else j)"

definition validJSON :: "raw_json \<Rightarrow> bool" where
  "validJSON j \<longleftrightarrow> evidenceJSON j \<noteq> RawInvalid"

definition evidenceID :: "evidence_source \<Rightarrow> nat \<Rightarrow> uuid \<Rightarrow> uuid" where
  "evidenceID s n i = (if i = nilUUID then esUuid s n else i)"

definition evidenceTime :: "evidence_source \<Rightarrow> nat \<Rightarrow> time option \<Rightarrow> time" where
  "evidenceTime s n t = (case t of None \<Rightarrow> esNow s n | Some x \<Rightarrow> x)"

text \<open>\<^verbatim>\<open>coalesce(max(...),0)+1\<close> over the rows of one owner.\<close>

definition nextNumber :: "('r \<Rightarrow> uuid) \<Rightarrow> ('r \<Rightarrow> int) \<Rightarrow> uuid \<Rightarrow> 'r list \<Rightarrow> int" where
  "nextNumber owner number k rows = foldr max (map number (filter (\<lambda>r. owner r = k) rows)) 0 + 1"

text \<open>\<^verbatim>\<open>ORDER BY ... DESC LIMIT 1\<close>.\<close>

definition latestBy :: "('r \<Rightarrow> int) \<Rightarrow> 'r list \<Rightarrow> 'r option" where
  "latestBy number rows = (case sortBy (\<lambda>a b. number b < number a) rows of [] \<Rightarrow> None | r # _ \<Rightarrow> Some r)"

definition checkpointRow :: "evidence_source \<Rightarrow> closure_params \<Rightarrow> uuid \<Rightarrow> gostring \<Rightarrow> nat \<Rightarrow> gostring \<Rightarrow> checkpoint_input \<Rightarrow> task_checkpoint" where
  "checkpointRow s p attempt key n phase i =
     \<lparr>elProject = elProject p, elPlan = elPlan p, elTask = elTask p, elJob = elJob p, elRun = elRun p,
      erId = evidenceID s n (ciId i), erAttempt = attempt, erSequence = int n, erCreated = evidenceTime s n (ciCreated i),
      tcPhase = phase, tcReferenceState = ciReferenceState i, tcBranch = ciBranch i, tcHead = ciHead i,
      tcIndexTree = ciIndexTree i, tcTree = ciTree i, tcSummary = evidenceJSON (ciSummary i), tcFingerprint = ciFingerprint i,
      tcTaskKey = key, tcConfig = evidenceJSON (ciConfig i)\<rparr>"

definition changeRow :: "evidence_source \<Rightarrow> closure_params \<Rightarrow> uuid \<Rightarrow> nat \<Rightarrow> change_input \<Rightarrow> task_file_change" where
  "changeRow s p attempt n i =
     \<lparr>elProject = elProject p, elPlan = elPlan p, elTask = elTask p, elJob = elJob p, elRun = elRun p,
      erId = evidenceID s (n + 2) (fiId i), erAttempt = attempt, erSequence = int n, erCreated = evidenceTime s (n + 2) (fiCreated i),
      tfPath = fiPath i, tfPrevious = fiPrevious i, tfKind = fiKind i, tfStaged = fiStaged i, tfBinary = fiBinary i,
      tfAdditions = fiAdditions i, tfDeletions = fiDeletions i, tfBefore = fiBefore i, tfAfter = fiAfter i,
      tfFingerprint = fiFingerprint i, tfSummary = evidenceJSON (fiSummary i)\<rparr>"

definition validationRow :: "evidence_source \<Rightarrow> closure_params \<Rightarrow> uuid \<Rightarrow> nat \<Rightarrow> validation_input \<Rightarrow> task_validation" where
  "validationRow s p attempt n i =
     (let k = n + 2 + length (cpChanges p) in
      \<lparr>elProject = elProject p, elPlan = elPlan p, elTask = elTask p, elJob = elJob p, elRun = elRun p,
       erId = evidenceID s k (viId i), erAttempt = attempt, erSequence = int n, erCreated = evidenceTime s k (viCreated i),
       tvCommand = viCommand i, tvDirectory = viDirectory i, tvStatus = viStatus i, tvExitCode = viExitCode i,
       tvStarted = viStarted i, tvFinished = viFinished i, tvStdout = viStdout i, tvStderr = viStderr i,
       tvSummary = evidenceJSON (viSummary i)\<rparr>)"

text \<open>The loops over file changes and validations, with the position of the next row.\<close>

fun saveChanges :: "evidence_source \<Rightarrow> closure_params \<Rightarrow> uuid \<Rightarrow> nat \<Rightarrow> change_input list \<Rightarrow> evidence_db \<Rightarrow> evidence_error + evidence_db" where
  "saveChanges s p attempt n [] e = Inr e"
| "saveChanges s p attempt n (i # is) e =
     (if \<not> validJSON (fiSummary i) then Inl (EvInvalid ''file change contains invalid JSON'')
      else bindR (insertChange (changeRow s p attempt n i) e) (saveChanges s p attempt (n + 1) is))"

fun saveValidations :: "evidence_source \<Rightarrow> closure_params \<Rightarrow> uuid \<Rightarrow> nat \<Rightarrow> validation_input list \<Rightarrow> evidence_db \<Rightarrow> evidence_error + evidence_db" where
  "saveValidations s p attempt n [] e = Inr e"
| "saveValidations s p attempt n (i # is) e =
     (if \<not> validJSON (viSummary i) then Inl (EvInvalid ''validation evidence contains invalid JSON'')
      else bindR (insertValidation (validationRow s p attempt n i) e) (saveValidations s p attempt (n + 1) is))"

definition closureProblem :: "closure_params \<Rightarrow> evidence_error option" where
  "closureProblem p =
     (if elProject p = nilUUID \<or> elPlan p = nilUUID \<or> elTask p = nilUUID \<or> elJob p = nilUUID \<or> elRun p = nilUUID
      then Some (EvInvalid ''task execution closure requires project, plan, task, job, and agent run IDs'')
      else if cpStarted p = None \<or> cpFinished p = None then Some (EvInvalid ''task execution closure requires start and finish times'')
      else if \<not> validJSON (ciSummary (cpBefore p)) \<or> \<not> validJSON (ciConfig (cpBefore p)) \<or>
              \<not> validJSON (ciSummary (cpAfter p)) \<or> \<not> validJSON (ciConfig (cpAfter p))
      then Some (EvInvalid ''task execution checkpoint contains invalid JSON'')
      else None)"

definition attemptRow :: "evidence_source \<Rightarrow> closure_params \<Rightarrow> evidence_db \<Rightarrow> task_attempt" where
  "attemptRow s p e =
     \<lparr>elProject = elProject p, elPlan = elPlan p, elTask = elTask p, elJob = elJob p, elRun = elRun p,
      taId = evidenceID s 0 (cpId p), taSequence = nextNumber elTask taSequence (elTask p) (evAttempts e),
      taOrigin = cpOrigin p, taQueueAttempt = cpQueueAttempt p,
      taSupersedes = (case cpSupersedes p of Some i \<Rightarrow> Some i
         | None \<Rightarrow> map_option taId (latestBy taSequence (filter (\<lambda>a. elTask a = elTask p) (evAttempts e)))),
      taOutcome = cpOutcome p, taStarted = the (cpStarted p), taFinished = the (cpFinished p),
      taCreated = evidenceTime s 0 (cpCreated p)\<rparr>"

definition saveClosureTx :: "evidence_source \<Rightarrow> closure_params \<Rightarrow> evidence_db \<Rightarrow> evidence_error + evidence_db \<times> uuid" where
  "saveClosureTx s p e =
     (case find (\<lambda>t. lId t = elTask p \<and> lProject t = elProject p \<and> ptPlan t = elPlan p) (dbTasks (evBase e)) of
        None \<Rightarrow> Inl EvNotFound
      | Some t \<Rightarrow>
          let a = attemptRow s p e; key = ptKey t in
          bindR (insertAttempt a e) (\<lambda>e1.
          bindR (insertCheckpoint (checkpointRow s p (taId a) key 1 ''before_execution'' (cpBefore p)) e1) (\<lambda>e2.
          bindR (insertCheckpoint (checkpointRow s p (taId a) key 2 ''after_execution'' (cpAfter p)) e2) (\<lambda>e3.
          bindR (saveChanges s p (taId a) 1 (cpChanges p) e3) (\<lambda>e4.
          bindR (saveValidations s p (taId a) 1 (cpValidations p) e4) (\<lambda>e5.
            Inr (e5, taId a)))))))"

section \<open>Reading\<close>

record rollback_audit =
  raOperation :: task_rollback
  raStatus :: gostring
  raEvents :: "rollback_event list"

record execution_closure =
  ecAttempt :: task_attempt
  ecCheckpoints :: "task_checkpoint list"
  ecChanges :: "task_file_change list"
  ecValidations :: "task_validation list"
  ecRollbacks :: "rollback_audit list"

definition rowsOf :: "('a evidence_row_scheme \<Rightarrow> uuid) \<Rightarrow> uuid \<Rightarrow> 'a evidence_row_scheme list \<Rightarrow> 'a evidence_row_scheme list" where
  "rowsOf owner k rows = sortBy (\<lambda>a b. erSequence a < erSequence b) (filter (\<lambda>r. owner r = k) rows)"

definition rollbackAudit :: "evidence_db \<Rightarrow> task_rollback \<Rightarrow> rollback_audit" where
  "rollbackAudit e r =
     (let vs = rowsOf reRollback (erId r) (evRollbackEvents e) in
      \<lparr>raOperation = r, raStatus = (if vs = [] then [] else reStatus (last vs)), raEvents = vs\<rparr>)"

definition GetTaskExecutionClosure :: "uuid \<Rightarrow> evidence_db \<Rightarrow> evidence_error + execution_closure" where
  "GetTaskExecutionClosure i e =
     (case find (\<lambda>a. taId a = i) (evAttempts e) of
        None \<Rightarrow> Inl EvNotFound
      | Some a \<Rightarrow> Inr
          \<lparr>ecAttempt = a, ecCheckpoints = rowsOf erAttempt i (evCheckpoints e), ecChanges = rowsOf erAttempt i (evChanges e),
           ecValidations = rowsOf erAttempt i (evValidations e),
           ecRollbacks = map (rollbackAudit e) (rowsOf erAttempt i (evRollbacks e))\<rparr>)"

definition attemptsOf :: "uuid \<Rightarrow> uuid \<Rightarrow> evidence_db \<Rightarrow> task_attempt list" where
  "attemptsOf planID taskID e = filter (\<lambda>a. elPlan a = planID \<and> elTask a = taskID) (evAttempts e)"

definition GetLatestTaskExecutionClosure :: "uuid \<Rightarrow> uuid \<Rightarrow> evidence_db \<Rightarrow> evidence_error + execution_closure" where
  "GetLatestTaskExecutionClosure planID taskID e =
     (case latestBy taSequence (attemptsOf planID taskID e) of
        None \<Rightarrow> Inl EvNotFound | Some a \<Rightarrow> GetTaskExecutionClosure (taId a) e)"

fun closuresOf :: "uuid list \<Rightarrow> evidence_db \<Rightarrow> evidence_error + execution_closure list" where
  "closuresOf [] e = Inr []"
| "closuresOf (i # is) e =
     bindR (GetTaskExecutionClosure i e) (\<lambda>c. bindR (closuresOf is e) (\<lambda>cs. Inr (c # cs)))"

definition ListTaskExecutionClosures :: "uuid \<Rightarrow> uuid \<Rightarrow> evidence_db \<Rightarrow> evidence_error + execution_closure list" where
  "ListTaskExecutionClosures planID taskID e =
     closuresOf (map taId (sortBy (\<lambda>a b. taSequence a < taSequence b) (attemptsOf planID taskID e))) e"

definition SaveTaskExecutionClosure ::
  "evidence_source \<Rightarrow> closure_params \<Rightarrow> evidence_db \<Rightarrow> evidence_error + evidence_db \<times> execution_closure" where
  "SaveTaskExecutionClosure s p e =
     (case closureProblem p of
        Some err \<Rightarrow> Inl err
      | None \<Rightarrow> bindR (saveClosureTx s p e) (\<lambda>(e1, i). bindR (GetTaskExecutionClosure i e1) (\<lambda>c. Inr (e1, c))))"

section \<open>Rollbacks\<close>

record rollback_params =
  rpId :: uuid
  rpAttempt :: uuid
  rpSource :: uuid
  rpTarget :: uuid
  rpKind :: gostring
  rpCommand :: gostring
  rpReason :: gostring
  rpRequestedBy :: gostring
  rpDetails :: raw_json
  rpOccurred :: "time option"

record rollback_event_params =
  vpId :: uuid
  vpRollback :: uuid
  vpStatus :: gostring
  vpMessage :: gostring
  vpDetails :: raw_json
  vpOccurred :: "time option"

definition requestedRollback :: "evidence_source \<Rightarrow> rollback_params \<Rightarrow> task_attempt \<Rightarrow> evidence_db \<Rightarrow> task_rollback" where
  "requestedRollback s p a e =
     \<lparr>elProject = elProject a, elPlan = elPlan a, elTask = elTask a, elJob = elJob a, elRun = elRun a,
      erId = evidenceID s 0 (rpId p), erAttempt = taId a, erSequence = nextNumber erAttempt erSequence (rpAttempt p) (evRollbacks e),
      erCreated = evidenceTime s 0 (rpOccurred p), trSource = rpSource p, trTarget = rpTarget p, trKind = rpKind p,
      trCommand = rpCommand p, trReason = rpReason p, trRequestedBy = rpRequestedBy p\<rparr>"

definition rollbackEventRow ::
  "uuid \<Rightarrow> time \<Rightarrow> task_rollback \<Rightarrow> int \<Rightarrow> gostring \<Rightarrow> gostring \<Rightarrow> raw_json \<Rightarrow> rollback_event" where
  "rollbackEventRow i now r n status message details =
     \<lparr>elProject = elProject r, elPlan = elPlan r, elTask = elTask r, elJob = elJob r, elRun = elRun r,
      erId = i, erAttempt = erAttempt r, erSequence = n, erCreated = now, reRollback = erId r, reStatus = status,
      reMessage = message, reDetails = evidenceJSON details\<rparr>"

definition noteRollback :: "time \<Rightarrow> gostring \<Rightarrow> int \<Rightarrow> json \<Rightarrow> task_rollback \<Rightarrow> evidence_db \<Rightarrow> evidence_db" where
  "noteRollback now typ version payload r e =
     e\<lparr>evBase := insertEvent now \<lparr>neProject = Some (elProject r), neType = typ, neAggregateType = ''task'',
        neAggregateID = elTask r, neVersion = version, nePayload = payload\<rparr> (evBase e)\<rparr>"

definition RecordTaskExecutionRollback ::
  "evidence_source \<Rightarrow> time \<Rightarrow> rollback_params \<Rightarrow> evidence_db \<Rightarrow> evidence_error + evidence_db \<times> rollback_audit" where
  "RecordTaskExecutionRollback s now p e =
     (if \<not> validJSON (rpDetails p) then Inl (EvInvalid ''rollback details contain invalid JSON'')
      else (case find (\<lambda>a. taId a = rpAttempt p) (evAttempts e) of
        None \<Rightarrow> Inl EvNotFound
      | Some a \<Rightarrow>
          let r = requestedRollback s p a e;
              v = rollbackEventRow (esUuid s 1) (evidenceTime s 0 (rpOccurred p)) r 1 ''requested'' (rpReason p) (rpDetails p) in
          bindR (insertRollback r e) (\<lambda>e1.
          bindR (insertRollbackEvent v e1) (\<lambda>e2.
            let payload = JObj (objectMap [(''attemptId'', JStr (rpAttempt p)), (''rollbackId'', JStr (erId r)),
                  (''sourceCheckpointId'', JStr (rpSource p)), (''targetCheckpointId'', JStr (rpTarget p))]);
                e3 = noteRollback now ''task.rollback.requested'' (taSequence a) payload r e2 in
            bindR (GetTaskExecutionClosure (taId a) e3) (\<lambda>c. Inr (e3, last (ecRollbacks c)))))))"

definition validRollbackTransition :: "gostring \<Rightarrow> gostring \<Rightarrow> bool" where
  "validRollbackTransition a b \<longleftrightarrow>
     (if a = ''requested'' then b = ''running'' \<or> b = ''succeeded'' \<or> b = ''failed'' \<or> b = ''cancelled''
      else a = ''running'' \<and> (b = ''succeeded'' \<or> b = ''failed'' \<or> b = ''cancelled''))"

definition AppendTaskExecutionRollbackEvent ::
  "evidence_source \<Rightarrow> time \<Rightarrow> rollback_event_params \<Rightarrow> evidence_db \<Rightarrow> evidence_error + evidence_db \<times> rollback_event" where
  "AppendTaskExecutionRollbackEvent s now p e =
     (if \<not> validJSON (vpDetails p) then Inl (EvInvalid ''rollback event details contain invalid JSON'')
      else (case find (\<lambda>r. erId r = vpRollback p) (evRollbacks e) of
        None \<Rightarrow> Inl EvNotFound
      | Some r \<Rightarrow>
          (case latestBy erSequence (filter (\<lambda>v. reRollback v = erId r) (evRollbackEvents e)) of
             None \<Rightarrow> Inl EvNotFound
           | Some prev \<Rightarrow>
               if \<not> validRollbackTransition (reStatus prev) (vpStatus p) then Inl (EvInvalid ''invalid rollback transition'')
               else
                 let v = rollbackEventRow (evidenceID s 0 (vpId p)) (evidenceTime s 0 (vpOccurred p)) r (erSequence prev + 1)
                           (vpStatus p) (vpMessage p) (vpDetails p) in
                 bindR (insertRollbackEvent v e) (\<lambda>e1.
                   let payload = JObj (objectMap [(''attemptId'', JStr (erAttempt r)), (''rollbackId'', JStr (erId r)),
                         (''message'', JStr (vpMessage p))]) in
                   Inr (noteRollback now (''task.rollback.'' @ vpStatus p) (erSequence v) payload r e1, v)))))"

end
