(* ===== verification/EvidenceResults.thy ===== *)
theory EvidenceResults
  imports Evidence
begin

text \<open>
  What the execution evidence guarantees as long as no owning plan is deleted: attempts, rows and
  rollbacks are numbered without gaps, a closure once saved is read back unchanged for ever, and a
  rollback is a run of a state machine that ends after at most three events.
\<close>

section \<open>Numbering\<close>

definition numberedBy :: "('r \<Rightarrow> uuid) \<Rightarrow> ('r \<Rightarrow> int) \<Rightarrow> 'r list \<Rightarrow> bool" where
  "numberedBy owner number rows \<longleftrightarrow>
     (\<forall>k. map number (filter (\<lambda>r. owner r = k) rows) = map int [1..<Suc (length (filter (\<lambda>r. owner r = k) rows))])"

lemma numbered_Nil [simp]: "numberedBy owner number []"
  by (simp add: numberedBy_def)

lemma numbered_append:
  assumes "numberedBy owner number rows" "number r = int (length (filter (\<lambda>x. owner x = owner r) rows)) + 1"
  shows "numberedBy owner number (rows @ [r])"
  using assms by (auto simp: numberedBy_def)

lemma numbered_max:
  assumes "map number rows = map int [1..<Suc (length rows)]"
  shows "foldr max (map number rows) 0 = int (length rows)"
proof -
  have "foldr max (map int [m..<m + n]) 0 = (if n = 0 then 0 else int (m + n - 1))" for m n
  proof (induction n arbitrary: m)
    case (Suc n)
    have "[m..<m + Suc n] = m # [Suc m..<Suc m + n]" by (simp add: upt_conv_Cons)
    then show ?case using Suc.IH [of "Suc m"] by simp
  qed simp
  from this [of 1 "length rows"] show ?thesis using assms by simp
qed

lemma numbered_next:
  "numberedBy owner number rows \<Longrightarrow> nextNumber owner number k rows = int (length (filter (\<lambda>r. owner r = k) rows)) + 1"
  using numbered_max by (fastforce simp: numberedBy_def nextNumber_def)

lemma insertBy_front: "\<forall>y \<in> set ys. \<not> b y x \<Longrightarrow> insertBy b x ys = x # ys"
  by (cases ys) auto

lemma insertBy_back: "\<forall>y \<in> set ys. b y x \<Longrightarrow> insertBy b x ys = ys @ [x]"
  by (induction ys) auto

lemma sortBy_id: "sorted_wrt (\<lambda>a b. \<not> before b a) xs \<Longrightarrow> sortBy before xs = xs"
  unfolding sortBy_def by (induction xs) (auto simp: insertBy_front)

lemma sortBy_rev: "sorted_wrt (\<lambda>a b. before b a) xs \<Longrightarrow> sortBy before xs = rev xs"
  unfolding sortBy_def by (induction xs) (auto simp: insertBy_back)

lemma numbered_increasing:
  assumes "numberedBy owner number rows"
  shows "sorted_wrt (\<lambda>a b. number a < number b) (filter (\<lambda>r. owner r = k) rows)"
proof -
  have "sorted_wrt (<) (map number (filter (\<lambda>r. owner r = k) rows))"
    using assms unfolding numberedBy_def by (simp add: sorted_wrt_map del: upt_Suc)
  then show ?thesis by (simp add: sorted_wrt_map)
qed

lemma numbered_rows: "numberedBy owner erSequence rows \<Longrightarrow> rowsOf owner k rows = filter (\<lambda>r. owner r = k) rows"
  unfolding rowsOf_def by (rule sortBy_id, rule sorted_wrt_mono_rel [OF _ numbered_increasing]) auto

lemma numbered_latest:
  assumes "numberedBy owner number rows"
  shows "latestBy number (filter (\<lambda>r. owner r = k) rows) =
    (if filter (\<lambda>r. owner r = k) rows = [] then None else Some (last (filter (\<lambda>r. owner r = k) rows)))"
proof -
  have "sortBy (\<lambda>a b. number b < number a) (filter (\<lambda>r. owner r = k) rows) = rev (filter (\<lambda>r. owner r = k) rows)"
    by (rule sortBy_rev, rule numbered_increasing [OF assms])
  then show ?thesis by (cases "filter (\<lambda>r. owner r = k) rows" rule: rev_cases) (simp_all add: latestBy_def)
qed

lemma latestBy_Nil [simp]: "latestBy number [] = None"
  by (simp add: latestBy_def sortBy_def)

section \<open>Tables\<close>

definition tableOk :: "task_attempt list \<Rightarrow> ('a evidence_row_scheme \<Rightarrow> uuid) \<Rightarrow> 'a evidence_row_scheme list \<Rightarrow> bool" where
  "tableOk attempts owner rows \<longleftrightarrow>
     distinct (map erId rows) \<and> list_all (linksMatch attempts) rows \<and> numberedBy owner erSequence rows"

lemma table_insert:
  assumes "tableOk attempts owner rows" "insertEvidence attempts owner ok r rows = Inr rows'"
    "erSequence r = int (length (filter (\<lambda>x. owner x = owner r) rows)) + 1"
  shows "tableOk attempts owner rows'" "rows' = rows @ [r]" "ok" "linksMatch attempts r"
proof -
  have r: "rows' = rows @ [r]" "ok" "linksMatch attempts r" "erId r \<notin> erId ` set rows"
    using assms(2) by (auto simp: insertEvidence_def list_ex_iff split: if_splits)
  then show "tableOk attempts owner rows'" using assms(1,3) numbered_append [of owner erSequence rows r]
    by (auto simp: tableOk_def)
  show "rows' = rows @ [r]" "ok" "linksMatch attempts r" by fact+
qed

lemma table_more: "tableOk attempts owner rows \<Longrightarrow> tableOk (attempts @ more1) owner rows"
  by (auto simp: tableOk_def linksMatch_def list_all_iff list_ex_iff)

lemma table_fresh:
  assumes "tableOk attempts erAttempt rows" "i \<notin> taId ` set attempts"
  shows "filter (\<lambda>r. erAttempt r = i) rows = []"
proof -
  have "erAttempt x \<in> taId ` set attempts" if "x \<in> set rows" for x
    using assms(1) that unfolding tableOk_def linksMatch_def list_all_iff list_ex_iff by (metis imageI)
  then show ?thesis using assms(2) by (auto simp: filter_empty_conv)
qed

section \<open>The invariant\<close>

definition supersedesChain :: "task_attempt list \<Rightarrow> task_attempt \<Rightarrow> bool" where
  "supersedesChain rows a \<longleftrightarrow> (taSupersedes a = None \<longleftrightarrow> taSequence a = 1) \<and> supersedesEarlier rows a"

definition rollbackRun :: "gostring list \<Rightarrow> bool" where
  "rollbackRun sts \<longleftrightarrow> sts \<noteq> [] \<and> hd sts = ''requested'' \<and> successively validRollbackTransition sts"

definition evidenceOk :: "evidence_db \<Rightarrow> bool" where
  "evidenceOk e \<longleftrightarrow>
     distinct (map taId (evAttempts e)) \<and> distinct (map elRun (evAttempts e)) \<and> numberedBy elTask taSequence (evAttempts e) \<and>
     (\<forall>a \<in> set (evAttempts e). supersedesChain (evAttempts e) a \<and>
        map tcPhase (filter (\<lambda>c. erAttempt c = taId a) (evCheckpoints e)) = [''before_execution'', ''after_execution'']) \<and>
     tableOk (evAttempts e) erAttempt (evCheckpoints e) \<and> tableOk (evAttempts e) erAttempt (evChanges e) \<and>
     tableOk (evAttempts e) erAttempt (evValidations e) \<and> tableOk (evAttempts e) erAttempt (evRollbacks e) \<and>
     tableOk (evAttempts e) reRollback (evRollbackEvents e) \<and>
     (\<forall>v \<in> set (evRollbackEvents e). reRollback v \<in> erId ` set (evRollbacks e)) \<and>
     (\<forall>r \<in> set (evRollbacks e). validRollback (evCheckpoints e) r \<and>
        rollbackRun (map reStatus (filter (\<lambda>v. reRollback v = erId r) (evRollbackEvents e))))"

section \<open>Saving\<close>

definition changeRows :: "evidence_source \<Rightarrow> closure_params \<Rightarrow> uuid \<Rightarrow> nat \<Rightarrow> change_input list \<Rightarrow> task_file_change list" where
  "changeRows s p i n fs = map (\<lambda>(k, f). changeRow s p i k f) (enumerate n fs)"

definition validationRows :: "evidence_source \<Rightarrow> closure_params \<Rightarrow> uuid \<Rightarrow> nat \<Rightarrow> validation_input list \<Rightarrow> task_validation list" where
  "validationRows s p i n vs = map (\<lambda>(k, v). validationRow s p i k v) (enumerate n vs)"

lemma row_fields [simp]:
  "erAttempt (changeRow s p i n f) = i" "erSequence (changeRow s p i n f) = int n"
  "erAttempt (validationRow s p i n v) = i" "erSequence (validationRow s p i n v) = int n"
  "erAttempt (checkpointRow s p i key n phase c) = i" "erSequence (checkpointRow s p i key n phase c) = int n"
  "tcPhase (checkpointRow s p i key n phase c) = phase"
  "elTask (attemptRow s p e) = elTask p" "taSequence (attemptRow s p e) = nextNumber elTask taSequence (elTask p) (evAttempts e)"
  by (simp_all add: changeRow_def validationRow_def checkpointRow_def attemptRow_def Let_def)

lemma save_changes:
  assumes "saveChanges s p i n fs e = Inr e1" "tableOk (evAttempts e) erAttempt (evChanges e)"
    "n = length (filter (\<lambda>x. erAttempt x = i) (evChanges e)) + 1"
  shows "e1 = e\<lparr>evChanges := evChanges e @ changeRows s p i n fs\<rparr> \<and> tableOk (evAttempts e) erAttempt (evChanges e1)"
  using assms
proof (induction fs arbitrary: n e)
  case (Cons f fs)
  obtain rows where rows: "insertEvidence (evAttempts e) erAttempt (validChange (changeRow s p i n f)) (changeRow s p i n f) (evChanges e) = Inr rows"
    "saveChanges s p i (n + 1) fs (e\<lparr>evChanges := rows\<rparr>) = Inr e1"
    using Cons.prems(1) by (auto simp: insertChange_def bindR_Inr_iff split: if_splits)
  note t = table_insert [OF Cons.prems(2) rows(1)]
  have seq: "erSequence (changeRow s p i n f) = int (length (filter (\<lambda>x. erAttempt x = erAttempt (changeRow s p i n f)) (evChanges e))) + 1"
    using Cons.prems(3) by simp
  show ?case using Cons.IH [OF rows(2)] t [OF seq] Cons.prems(3) by (auto simp: changeRows_def)
qed (simp add: changeRows_def)

lemma save_validations:
  assumes "saveValidations s p i n vs e = Inr e1" "tableOk (evAttempts e) erAttempt (evValidations e)"
    "n = length (filter (\<lambda>x. erAttempt x = i) (evValidations e)) + 1"
  shows "e1 = e\<lparr>evValidations := evValidations e @ validationRows s p i n vs\<rparr> \<and> tableOk (evAttempts e) erAttempt (evValidations e1)"
  using assms
proof (induction vs arbitrary: n e)
  case (Cons v vs)
  obtain rows where rows: "insertEvidence (evAttempts e) erAttempt (validValidation (validationRow s p i n v)) (validationRow s p i n v) (evValidations e) = Inr rows"
    "saveValidations s p i (n + 1) vs (e\<lparr>evValidations := rows\<rparr>) = Inr e1"
    using Cons.prems(1) by (auto simp: insertValidation_def bindR_Inr_iff split: if_splits)
  note t = table_insert [OF Cons.prems(2) rows(1)]
  have seq: "erSequence (validationRow s p i n v) = int (length (filter (\<lambda>x. erAttempt x = erAttempt (validationRow s p i n v)) (evValidations e))) + 1"
    using Cons.prems(3) by simp
  show ?case using Cons.IH [OF rows(2)] t [OF seq] Cons.prems(3) by (auto simp: validationRows_def)
qed (simp add: validationRows_def)


definition savedClosure :: "evidence_source \<Rightarrow> closure_params \<Rightarrow> gostring \<Rightarrow> evidence_db \<Rightarrow> evidence_db" where
  "savedClosure s p key e =
     (let a = attemptRow s p e; i = taId a in
      e\<lparr>evAttempts := evAttempts e @ [a],
        evCheckpoints := evCheckpoints e @ [checkpointRow s p i key 1 ''before_execution'' (cpBefore p),
          checkpointRow s p i key 2 ''after_execution'' (cpAfter p)],
        evChanges := evChanges e @ changeRows s p i 1 (cpChanges p),
        evValidations := evValidations e @ validationRows s p i 1 (cpValidations p)\<rparr>)"

lemma evidenceOk_tables:
  assumes "evidenceOk e"
  shows "tableOk (evAttempts e) erAttempt (evCheckpoints e)" "tableOk (evAttempts e) erAttempt (evChanges e)"
    "tableOk (evAttempts e) erAttempt (evValidations e)" "tableOk (evAttempts e) erAttempt (evRollbacks e)"
    "tableOk (evAttempts e) reRollback (evRollbackEvents e)"
  using assms by (simp_all add: evidenceOk_def)

lemma save_steps:
  assumes "saveClosureTx s p e = Inr (e1, i)"
  obtains e0 key e2 e3 e4 where "insertAttempt (attemptRow s p e) e = Inr e0"
    "insertCheckpoint (checkpointRow s p (taId (attemptRow s p e)) key 1 ''before_execution'' (cpBefore p)) e0 = Inr e2"
    "insertCheckpoint (checkpointRow s p (taId (attemptRow s p e)) key 2 ''after_execution'' (cpAfter p)) e2 = Inr e3"
    "saveChanges s p (taId (attemptRow s p e)) 1 (cpChanges p) e3 = Inr e4"
    "saveValidations s p (taId (attemptRow s p e)) 1 (cpValidations p) e4 = Inr e1" "i = taId (attemptRow s p e)"
proof (cases "find (\<lambda>t. lId t = elTask p \<and> lProject t = elProject p \<and> ptPlan t = elPlan p) (dbTasks (evBase e))")
  case (Some t)
  show thesis using assms unfolding saveClosureTx_def Some option.case Let_def
    by (elim bindR_Inr_E) (rule that [of _ "ptKey t"], auto)
qed (use assms in \<open>simp add: saveClosureTx_def\<close>)

lemma save_closure:
  assumes "evidenceOk e" "saveClosureTx s p e = Inr (e1, i)"
  obtains key where "e1 = savedClosure s p key e" "i = taId (attemptRow s p e)" "insertAttempt (attemptRow s p e) e = Inr (e\<lparr>evAttempts := evAttempts e @ [attemptRow s p e]\<rparr>)"
    "tableOk (evAttempts e1) erAttempt (evCheckpoints e1)" "tableOk (evAttempts e1) erAttempt (evChanges e1)"
    "tableOk (evAttempts e1) erAttempt (evValidations e1)"
proof -
  note ok = evidenceOk_tables [OF assms(1)]
  let ?a = "attemptRow s p e"
  let ?as = "evAttempts e @ [?a]" and ?e = "e\<lparr>evAttempts := evAttempts e @ [?a]\<rparr>"
  obtain key e0 e2 e3 e4 where t0: "insertAttempt ?a e = Inr e0"
    "insertCheckpoint (checkpointRow s p (taId ?a) key 1 ''before_execution'' (cpBefore p)) e0 = Inr e2"
    and t1: "insertCheckpoint (checkpointRow s p (taId ?a) key 2 ''after_execution'' (cpAfter p)) e2 = Inr e3"
    "saveChanges s p (taId ?a) 1 (cpChanges p) e3 = Inr e4" "saveValidations s p (taId ?a) 1 (cpValidations p) e4 = Inr e1" "i = taId ?a"
    by (rule save_steps [OF assms(2)])
  have "e0 = ?e" using t0(1) by (auto simp: insertAttempt_def split: if_splits)
  then have t: "insertAttempt ?a e = Inr ?e"
    "insertCheckpoint (checkpointRow s p (taId ?a) key 1 ''before_execution'' (cpBefore p)) ?e = Inr e2"
    "insertCheckpoint (checkpointRow s p (taId ?a) key 2 ''after_execution'' (cpAfter p)) e2 = Inr e3"
    "saveChanges s p (taId ?a) 1 (cpChanges p) e3 = Inr e4" "saveValidations s p (taId ?a) 1 (cpValidations p) e4 = Inr e1" "i = taId ?a"
    using t0 t1 by simp_all
  let ?c1 = "checkpointRow s p (taId ?a) key 1 ''before_execution'' (cpBefore p)"
  let ?c2 = "checkpointRow s p (taId ?a) key 2 ''after_execution'' (cpAfter p)"
  have fresh: "taId ?a \<notin> taId ` set (evAttempts e)"
    using t(1) by (auto simp: insertAttempt_def list_ex_iff split: if_splits)
  note empty = table_fresh [OF ok(1) fresh] table_fresh [OF ok(2) fresh] table_fresh [OF ok(3) fresh]
  obtain r2 where r2: "insertEvidence ?as erAttempt (validCheckpoint ?c1) ?c1 (evCheckpoints e) = Inr r2" "e2 = ?e\<lparr>evCheckpoints := r2\<rparr>"
    using t(2) by (auto simp: insertCheckpoint_def bindR_Inr_iff)
  note c1 = table_insert [OF table_more [OF ok(1)] r2(1)]
  have r2': "r2 = evCheckpoints e @ [?c1]" "tableOk ?as erAttempt r2" using c1(1,2) empty(1) by simp_all
  obtain r3 where r3: "insertEvidence ?as erAttempt (validCheckpoint ?c2) ?c2 r2 = Inr r3" "e3 = e2\<lparr>evCheckpoints := r3\<rparr>"
    using t(3) r2(2) by (auto simp: insertCheckpoint_def bindR_Inr_iff)
  have r3': "r3 = r2 @ [?c2]" "tableOk ?as erAttempt r3"
    using table_insert(1,2) [OF r2'(2) r3(1)] empty(1) r2'(1) by simp_all
  have e3: "e3 = e\<lparr>evAttempts := ?as, evCheckpoints := evCheckpoints e @ [?c1, ?c2]\<rparr>" using r2(2) r3(2) r2'(1) r3'(1) by simp
  have c: "tableOk (evAttempts e3) erAttempt (evChanges e3)" "1 = length (filter (\<lambda>x. erAttempt x = taId ?a) (evChanges e3)) + 1"
    using table_more [OF ok(2), of "[?a]"] empty(2) by (simp_all add: e3)
  note e4 = save_changes [OF t(4) c]
  have v: "tableOk (evAttempts e4) erAttempt (evValidations e4)" "1 = length (filter (\<lambda>x. erAttempt x = taId ?a) (evValidations e4)) + 1"
    using table_more [OF ok(3), of "[?a]"] empty(3) e4 by (auto simp: e3)
  note e1 = save_validations [OF t(5) v]
  have final: "e1 = savedClosure s p key e" using e1 e4 e3 by (auto simp: savedClosure_def Let_def)
  show thesis
  proof (rule that [OF final t(6,1)])
    show "tableOk (evAttempts e1) erAttempt (evCheckpoints e1)" using r3'(2) e1 e4 e3 r3' r2' by auto
    show "tableOk (evAttempts e1) erAttempt (evChanges e1)" using e1 e4 by auto
    show "tableOk (evAttempts e1) erAttempt (evValidations e1)" using e1 e4 by auto
  qed
qed


lemma supersedes_more: "supersedesEarlier rows a \<Longrightarrow> supersedesEarlier (rows @ new) a"
  by (auto simp: supersedesEarlier_def split: option.splits)

lemma rollback_more: "validRollback cs r \<Longrightarrow> validRollback (cs @ new) r"
  by (auto simp: validRollback_def)

lemma attempt_supersedes:
  assumes "numberedBy elTask taSequence (evAttempts e)" "supersedesEarlier (evAttempts e) (attemptRow s p e)"
  shows "taSupersedes (attemptRow s p e) = None \<longleftrightarrow> taSequence (attemptRow s p e) = 1"
proof -
  let ?mine = "filter (\<lambda>a. elTask a = elTask p) (evAttempts e)"
  have seq: "taSequence (attemptRow s p e) = int (length ?mine) + 1" using numbered_next [OF assms(1)] by simp
  have sup: "taSupersedes (attemptRow s p e) = (case cpSupersedes p of Some i \<Rightarrow> Some i
      | None \<Rightarrow> if ?mine = [] then None else Some (taId (last ?mine)))"
    using numbered_latest [OF assms(1), of "elTask p"] by (simp add: attemptRow_def split: option.splits)
  show ?thesis
  proof (cases "?mine = []")
    case True
    then have "cpSupersedes p = None"
      using assms(2) sup by (auto simp: supersedesEarlier_def list_ex_iff filter_empty_conv split: option.splits)
    then show ?thesis using True sup seq by simp
  next
    case False
    then show ?thesis using sup seq by (auto split: option.splits)
  qed
qed

lemma save_ok:
  assumes "evidenceOk e" "saveClosureTx s p e = Inr (e1, i)" shows "evidenceOk e1"
proof -
  obtain key where k: "e1 = savedClosure s p key e" "i = taId (attemptRow s p e)"
    "insertAttempt (attemptRow s p e) e = Inr (e\<lparr>evAttempts := evAttempts e @ [attemptRow s p e]\<rparr>)"
    "tableOk (evAttempts e1) erAttempt (evCheckpoints e1)" "tableOk (evAttempts e1) erAttempt (evChanges e1)"
    "tableOk (evAttempts e1) erAttempt (evValidations e1)"
    by (rule save_closure [OF assms])
  define a where "a = attemptRow s p e"
  have new: "taId a \<notin> taId ` set (evAttempts e)" "elRun a \<notin> elRun ` set (evAttempts e)" "supersedesEarlier (evAttempts e) a"
    using k(3) by (auto simp: insertAttempt_def a_def list_ex_iff split: if_splits)
  have num: "numberedBy elTask taSequence (evAttempts e)" using assms(1) by (simp add: evidenceOk_def)
  have at: "evAttempts e1 = evAttempts e @ [a]" "evRollbacks e1 = evRollbacks e" "evRollbackEvents e1 = evRollbackEvents e"
    by (simp_all add: k(1) savedClosure_def Let_def a_def)
  obtain c1 c2 where cs: "evCheckpoints e1 = evCheckpoints e @ [c1, c2]" "erAttempt c1 = taId a" "erAttempt c2 = taId a"
    "tcPhase c1 = ''before_execution''" "tcPhase c2 = ''after_execution''"
    by (simp add: k(1) savedClosure_def Let_def a_def)
  have "supersedesChain (evAttempts e1) a"
    using attempt_supersedes [OF num new(3) [unfolded a_def]] supersedes_more [OF new(3)] by (simp add: supersedesChain_def at a_def)
  moreover have "supersedesChain (evAttempts e1) x" if "x \<in> set (evAttempts e)" for x
    using that assms(1) supersedes_more by (auto simp: evidenceOk_def supersedesChain_def at)
  moreover have "map tcPhase (filter (\<lambda>c. erAttempt c = taId a) (evCheckpoints e1)) = [''before_execution'', ''after_execution'']"
    using table_fresh [OF evidenceOk_tables(1) [OF assms(1)] new(1)] cs by simp
  moreover have "map tcPhase (filter (\<lambda>c. erAttempt c = taId x) (evCheckpoints e1)) = [''before_execution'', ''after_execution'']"
    if "x \<in> set (evAttempts e)" for x
  proof -
    have "taId a \<noteq> taId x" using new(1) that by auto
    then show ?thesis using cs that assms(1) by (simp add: evidenceOk_def)
  qed
  moreover have "numberedBy elTask taSequence (evAttempts e1)"
    unfolding at by (rule numbered_append [OF num]) (simp add: a_def numbered_next [OF num])
  moreover have "tableOk (evAttempts e1) erAttempt (evRollbacks e1)" "tableOk (evAttempts e1) reRollback (evRollbackEvents e1)"
    unfolding at by (rule table_more [OF evidenceOk_tables(4) [OF assms(1)]], rule table_more [OF evidenceOk_tables(5) [OF assms(1)]])
  moreover have "distinct (map taId (evAttempts e1))" "distinct (map elRun (evAttempts e1))"
    using assms(1) new by (simp_all add: evidenceOk_def at)
  ultimately show ?thesis using k(4-6) assms(1) rollback_more
    unfolding evidenceOk_def at cs by auto
qed


section \<open>Rollbacks\<close>

lemma event_row [simp]:
  "reRollback (rollbackEventRow i now r n status message details) = erId r"
  "erSequence (rollbackEventRow i now r n status message details) = n"
  "reStatus (rollbackEventRow i now r n status message details) = status"
  by (simp_all add: rollbackEventRow_def)

lemma note_rollback [simp]:
  "evAttempts (noteRollback now ty n payload r e) = evAttempts e" "evCheckpoints (noteRollback now ty n payload r e) = evCheckpoints e"
  "evChanges (noteRollback now ty n payload r e) = evChanges e" "evValidations (noteRollback now ty n payload r e) = evValidations e"
  "evRollbacks (noteRollback now ty n payload r e) = evRollbacks e" "evRollbackEvents (noteRollback now ty n payload r e) = evRollbackEvents e"
  by (simp_all add: noteRollback_def)

lemma rollback_steps:
  assumes "RecordTaskExecutionRollback s now p e = Inr (e1, audit)"
  obtains a e0 e2 ty n payload where "find (\<lambda>a. taId a = rpAttempt p) (evAttempts e) = Some a"
    "insertRollback (requestedRollback s p a e) e = Inr e0"
    "insertRollbackEvent (rollbackEventRow (esUuid s 1) (evidenceTime s 0 (rpOccurred p)) (requestedRollback s p a e) 1 ''requested'' (rpReason p) (rpDetails p)) e0 = Inr e2"
    "e1 = noteRollback now ty n payload (requestedRollback s p a e) e2"
proof (cases "find (\<lambda>a. taId a = rpAttempt p) (evAttempts e)")
  case (Some a)
  have j: "validJSON (rpDetails p)" using assms by (auto simp: RecordTaskExecutionRollback_def split: if_splits)
  show thesis using assms j unfolding RecordTaskExecutionRollback_def Some option.case Let_def
    by (simp only: not_True_eq_False if_False) (elim bindR_Inr_E, rule that [OF Some], auto)
qed (use assms in \<open>simp add: RecordTaskExecutionRollback_def split: if_splits\<close>)

lemma request_ok:
  assumes "evidenceOk e" "RecordTaskExecutionRollback s now p e = Inr (e1, audit)"
  obtains r v where "evRollbacks e1 = evRollbacks e @ [r]" "evRollbackEvents e1 = evRollbackEvents e @ [v]"
    "evAttempts e1 = evAttempts e" "evCheckpoints e1 = evCheckpoints e" "evChanges e1 = evChanges e" "evValidations e1 = evValidations e"
    "evidenceOk e1"
proof -
  obtain a e0 e2 ty n payload where st: "find (\<lambda>a. taId a = rpAttempt p) (evAttempts e) = Some a"
    "insertRollback (requestedRollback s p a e) e = Inr e0"
    "insertRollbackEvent (rollbackEventRow (esUuid s 1) (evidenceTime s 0 (rpOccurred p)) (requestedRollback s p a e) 1 ''requested'' (rpReason p) (rpDetails p)) e0 = Inr e2"
    "e1 = noteRollback now ty n payload (requestedRollback s p a e) e2"
    by (rule rollback_steps [OF assms(2)])
  note tables = evidenceOk_tables [OF assms(1)]
  define r where "r = requestedRollback s p a e"
  define v where "v = rollbackEventRow (esUuid s 1) (evidenceTime s 0 (rpOccurred p)) r 1 ''requested'' (rpReason p) (rpDetails p)"
  have a: "taId a = rpAttempt p" using st(1) by (simp add: find_Some_iff) metis
  obtain rs where rs: "insertEvidence (evAttempts e) erAttempt (validRollback (evCheckpoints e) r) r (evRollbacks e) = Inr rs" "e0 = e\<lparr>evRollbacks := rs\<rparr>"
    using st(2) by (auto simp: insertRollback_def bindR_Inr_iff r_def)
  have seq: "erSequence r = int (length (filter (\<lambda>x. erAttempt x = erAttempt r) (evRollbacks e))) + 1"
    using tables(4) a numbered_next by (fastforce simp: tableOk_def r_def requestedRollback_def)
  note r = table_insert [OF tables(4) rs(1) seq]
  have fresh: "erId r \<notin> erId ` set (evRollbacks e)"
    using rs(1) by (auto simp: insertEvidence_def list_ex_iff split: if_splits)
  moreover have "reRollback x \<in> erId ` set (evRollbacks e)" if "x \<in> set (evRollbackEvents e)" for x
    using that assms(1) by (simp add: evidenceOk_def)
  ultimately have none: "filter (\<lambda>v. reRollback v = erId r) (evRollbackEvents e) = []"
    by (metis (mono_tags, lifting) filter_False)
  obtain vs where vs: "insertEvidence (evAttempts e) reRollback (validRollbackEvent rs v) v (evRollbackEvents e) = Inr vs" "e2 = e0\<lparr>evRollbackEvents := vs\<rparr>"
    using st(3) rs(2) by (auto simp: insertRollbackEvent_def bindR_Inr_iff v_def r_def)
  have vseq: "erSequence v = int (length (filter (\<lambda>x. reRollback x = reRollback v) (evRollbackEvents e))) + 1" using none by (simp add: v_def)
  note v = table_insert [OF tables(5) vs(1) vseq]
  have e1: "evRollbacks e1 = evRollbacks e @ [r]" "evRollbackEvents e1 = evRollbackEvents e @ [v]"
    "evAttempts e1 = evAttempts e" "evCheckpoints e1 = evCheckpoints e" "evChanges e1 = evChanges e" "evValidations e1 = evValidations e"
    by (simp_all add: st(4) vs(2) rs(2) r(2) v(2))
  have run: "rollbackRun (map reStatus (filter (\<lambda>v. reRollback v = erId x) (evRollbackEvents e1)))" if "x \<in> set (evRollbacks e1)" for x
  proof (cases "x = r")
    case True
    then show ?thesis using none by (simp add: e1 v_def rollbackRun_def)
  next
    case False
    then have "x \<in> set (evRollbacks e)" using that by (simp add: e1)
    moreover from this have "erId x \<noteq> erId r" using fresh by (metis imageI)
    ultimately have x: "x \<in> set (evRollbacks e)" "erId x \<noteq> erId r" by simp_all
    then show ?thesis using assms(1) by (simp add: e1 v_def evidenceOk_def)
  qed
  have ev: "reRollback x \<in> erId ` set (evRollbacks e1)" if "x \<in> set (evRollbackEvents e1)" for x
    using that assms(1) by (auto simp: e1 v_def evidenceOk_def)
  have "tableOk (evAttempts e1) erAttempt (evRollbacks e1)" "tableOk (evAttempts e1) reRollback (evRollbackEvents e1)"
    using r(1,2) v(1,2) by (simp_all add: e1)
  then have "evidenceOk e1" using assms(1) run ev r(3) unfolding evidenceOk_def e1 by auto
  then show thesis using that [OF e1] by blast
qed

lemma append_ok:
  assumes "evidenceOk e" "AppendTaskExecutionRollbackEvent s now p e = Inr (e1, v)"
  shows "evRollbackEvents e1 = evRollbackEvents e @ [v]" "evRollbacks e1 = evRollbacks e"
    "evAttempts e1 = evAttempts e" "evCheckpoints e1 = evCheckpoints e" "evChanges e1 = evChanges e" "evValidations e1 = evValidations e"
    "evidenceOk e1"
proof -
  note tables = evidenceOk_tables [OF assms(1)]
  obtain r where r: "find (\<lambda>r. erId r = vpRollback p) (evRollbacks e) = Some r"
    using assms(2) by (auto simp: AppendTaskExecutionRollbackEvent_def split: if_splits option.splits)
  let ?mine = "filter (\<lambda>v. reRollback v = erId r) (evRollbackEvents e)"
  have num: "numberedBy reRollback erSequence (evRollbackEvents e)" using tables(5) by (simp add: tableOk_def)
  obtain prev where prev: "latestBy erSequence ?mine = Some prev"
    using assms(2) r by (auto simp: AppendTaskExecutionRollbackEvent_def split: if_splits option.splits)
  have ne: "?mine \<noteq> []" "prev = last ?mine" using prev numbered_latest [OF num, of "erId r"] by (auto split: if_splits)
  have trans: "validRollbackTransition (reStatus prev) (vpStatus p)"
    and run: "bindR (insertRollbackEvent (rollbackEventRow (evidenceID s 0 (vpId p)) (evidenceTime s 0 (vpOccurred p)) r (erSequence prev + 1)
        (vpStatus p) (vpMessage p) (vpDetails p)) e) (\<lambda>e1. Inr (noteRollback now (''task.rollback.'' @ vpStatus p)
        (erSequence (rollbackEventRow (evidenceID s 0 (vpId p)) (evidenceTime s 0 (vpOccurred p)) r (erSequence prev + 1)
        (vpStatus p) (vpMessage p) (vpDetails p))) (JObj (objectMap [(''attemptId'', JStr (erAttempt r)), (''rollbackId'', JStr (erId r)),
                         (''message'', JStr (vpMessage p))])) r e1, rollbackEventRow (evidenceID s 0 (vpId p)) (evidenceTime s 0 (vpOccurred p)) r (erSequence prev + 1)
        (vpStatus p) (vpMessage p) (vpDetails p))) = Inr (e1, v)"
    using assms(2) r prev by (auto simp: AppendTaskExecutionRollbackEvent_def Let_def split: if_splits)
  obtain vs where vs: "insertEvidence (evAttempts e) reRollback (validRollbackEvent (evRollbacks e) v) v (evRollbackEvents e) = Inr vs"
    and v: "v = rollbackEventRow (evidenceID s 0 (vpId p)) (evidenceTime s 0 (vpOccurred p)) r (erSequence prev + 1) (vpStatus p) (vpMessage p) (vpDetails p)"
    and e1: "e1 = noteRollback now (''task.rollback.'' @ vpStatus p) (erSequence v) (JObj (objectMap [(''attemptId'', JStr (erAttempt r)), (''rollbackId'', JStr (erId r)),
                         (''message'', JStr (vpMessage p))])) r (e\<lparr>evRollbackEvents := vs\<rparr>)"
    using run by (auto simp: insertRollbackEvent_def bindR_Inr_iff)
  have "map erSequence ?mine = map int [1..<Suc (length ?mine)]" using num unfolding numberedBy_def by blast
  then have "last (map erSequence ?mine) = last (map int [1..<Suc (length ?mine)])" by simp
  then have "erSequence prev = int (length ?mine)" using ne by (simp add: last_map del: upt_Suc)
  then have seq: "erSequence v = int (length (filter (\<lambda>x. reRollback x = reRollback v) (evRollbackEvents e))) + 1" by (simp add: v)
  note t = table_insert [OF tables(5) vs seq]
  show rows: "evRollbackEvents e1 = evRollbackEvents e @ [v]" "evRollbacks e1 = evRollbacks e"
    "evAttempts e1 = evAttempts e" "evCheckpoints e1 = evCheckpoints e" "evChanges e1 = evChanges e" "evValidations e1 = evValidations e"
    using t(2) by (simp_all add: e1)
  have rin: "r \<in> set (evRollbacks e)" using r by (auto simp: find_Some_iff)
  have step: "rollbackRun (map reStatus (filter (\<lambda>v. reRollback v = erId x) (evRollbackEvents e1)))" if "x \<in> set (evRollbacks e)" for x
  proof -
    have old: "rollbackRun (map reStatus (filter (\<lambda>v. reRollback v = erId x) (evRollbackEvents e)))"
      using that assms(1) by (simp add: evidenceOk_def)
    show ?thesis
    proof (cases "erId x = erId r")
      case True
      then have "rollbackRun (map reStatus ?mine @ [vpStatus p])"
        using old trans ne by (auto simp: rollbackRun_def successively_append_iff last_map)
      then show ?thesis using True by (simp add: rows v)
    qed (use old in \<open>simp add: rows v\<close>)
  qed
  have "tableOk (evAttempts e1) reRollback (evRollbackEvents e1)" using t(1,2) by (simp add: rows)
  then show "evidenceOk e1" using assms(1) step rin unfolding evidenceOk_def rows by (auto simp: v)
qed


lemma find_distinct: "distinct (map f xs) \<Longrightarrow> x \<in> set xs \<Longrightarrow> find (\<lambda>y. f y = f x) xs = Some x"
  by (induction xs) force+

section \<open>Histories\<close>

text \<open>The operations on the evidence; the other tables change as they like, but nothing is deleted.\<close>

inductive evidence_step :: "evidence_db \<Rightarrow> evidence_db \<Rightarrow> bool" where
  save: "SaveTaskExecutionClosure s p e = Inr (e1, c) \<Longrightarrow> evidence_step e e1"
| request: "RecordTaskExecutionRollback s now q e = Inr (e1, a) \<Longrightarrow> evidence_step e e1"
| append: "AppendTaskExecutionRollbackEvent s now v e = Inr (e1, w) \<Longrightarrow> evidence_step e e1"
| other: "evidence_step e (e\<lparr>evBase := d\<rparr>)"

inductive_cases evidence_stepE: "evidence_step e e1"

lemma save_tx: "SaveTaskExecutionClosure s p e = Inr (e1, c) \<Longrightarrow>
    closureProblem p = None \<and> (\<exists>i. saveClosureTx s p e = Inr (e1, i) \<and> GetTaskExecutionClosure i e1 = Inr c)"
  by (auto simp: SaveTaskExecutionClosure_def bindR_Inr_iff split: option.splits)

text \<open>Nothing changes or disappears, and what is new belongs to new attempts, rollbacks apart.\<close>

definition grownApart :: "uuid set \<Rightarrow> 'a evidence_row_scheme list \<Rightarrow> 'a evidence_row_scheme list \<Rightarrow> bool" where
  "grownApart ids rows rows1 \<longleftrightarrow> (\<exists>new. rows1 = rows @ new \<and> (\<forall>r \<in> set new. erAttempt r \<notin> ids))"

definition growsTo :: "evidence_db \<Rightarrow> evidence_db \<Rightarrow> bool" where
  "growsTo e e1 \<longleftrightarrow> prefix (evAttempts e) (evAttempts e1) \<and> prefix (evRollbacks e) (evRollbacks e1) \<and>
     prefix (evRollbackEvents e) (evRollbackEvents e1) \<and>
     (let ids = taId ` set (evAttempts e) in
      grownApart ids (evCheckpoints e) (evCheckpoints e1) \<and> grownApart ids (evChanges e) (evChanges e1) \<and>
      grownApart ids (evValidations e) (evValidations e1))"

lemma grownApart_refl [simp]: "grownApart ids rows rows"
  by (simp add: grownApart_def)

lemma grownApart_trans: "grownApart ids x y \<Longrightarrow> grownApart ids1 y z \<Longrightarrow> ids \<subseteq> ids1 \<Longrightarrow> grownApart ids x z"
proof -
  assume g: "grownApart ids x y" "grownApart ids1 y z" "ids \<subseteq> ids1"
  obtain n m where "y = x @ n" "\<forall>r \<in> set n. erAttempt r \<notin> ids" "z = y @ m" "\<forall>r \<in> set m. erAttempt r \<notin> ids1"
    using g(1,2) unfolding grownApart_def by blast
  then show ?thesis using g(3) unfolding grownApart_def by (intro exI [of _ "n @ m"]) auto
qed

lemma growsTo_trans: "growsTo e e1 \<Longrightarrow> growsTo e1 e2 \<Longrightarrow> growsTo e e2"
proof -
  assume g: "growsTo e e1" "growsTo e1 e2"
  have sub: "taId ` set (evAttempts e) \<subseteq> taId ` set (evAttempts e1)"
    using g(1) by (auto simp: growsTo_def prefix_def)
  show ?thesis using g unfolding growsTo_def Let_def
    by (elim conjE, intro conjI) ((rule prefix_order.trans, assumption, assumption) | (rule grownApart_trans [OF _ _ sub], assumption, assumption))+
qed

lemma grown_filter: "grownApart ids x y \<Longrightarrow> i \<in> ids \<Longrightarrow> filter (\<lambda>r. erAttempt r = i) y = filter (\<lambda>r. erAttempt r = i) x"
  unfolding grownApart_def by (auto simp: filter_empty_conv)

lemma step_ok:
  assumes "evidence_step e e1" "evidenceOk e" shows "evidenceOk e1 \<and> growsTo e e1"
  using assms
proof (cases rule: evidence_step.cases)
  case (save s p c)
  then obtain i where i: "saveClosureTx s p e = Inr (e1, i)" using save_tx by blast
  obtain key where k: "e1 = savedClosure s p key e"
      "insertAttempt (attemptRow s p e) e = Inr (e\<lparr>evAttempts := evAttempts e @ [attemptRow s p e]\<rparr>)"
    by (rule save_closure [OF assms(2) i])
  have "taId (attemptRow s p e) \<notin> taId ` set (evAttempts e)"
    using k(2) by (auto simp: insertAttempt_def list_ex_iff split: if_splits)
  then have "growsTo e e1"
    by (auto simp: k(1) growsTo_def savedClosure_def Let_def grownApart_def changeRows_def validationRows_def)
  then show ?thesis using save_ok [OF assms(2) i] by simp
next
  case (request s now q a)
  show ?thesis by (rule request_ok [OF assms(2) request]) (simp add: growsTo_def)
next
  case (append s now v w)
  note a = append_ok [OF assms(2) append]
  show ?thesis using a by (simp add: growsTo_def)
next
  case (other d)
  then show ?thesis using assms(2) by (simp add: growsTo_def evidenceOk_def)
qed

lemma steps_ok: "evidence_step\<^sup>*\<^sup>* e e1 \<Longrightarrow> evidenceOk e \<Longrightarrow> evidenceOk e1 \<and> growsTo e e1"
proof (induction rule: rtranclp_induct)
  case (step y z)
  then show ?case using step_ok [OF step.hyps(2)] growsTo_trans by blast
qed (simp add: growsTo_def)

lemma closure_read:
  assumes "evidenceOk e" "a \<in> set (evAttempts e)"
  shows "GetTaskExecutionClosure (taId a) e = Inr
    \<lparr>ecAttempt = a, ecCheckpoints = filter (\<lambda>r. erAttempt r = taId a) (evCheckpoints e),
     ecChanges = filter (\<lambda>r. erAttempt r = taId a) (evChanges e),
     ecValidations = filter (\<lambda>r. erAttempt r = taId a) (evValidations e),
     ecRollbacks = map (rollbackAudit e) (filter (\<lambda>r. erAttempt r = taId a) (evRollbacks e))\<rparr>"
proof -
  have "find (\<lambda>x. taId x = taId a) (evAttempts e) = Some a"
    using assms by (intro find_distinct) (simp_all add: evidenceOk_def)
  then show ?thesis
    using evidenceOk_tables [OF assms(1)] by (simp add: GetTaskExecutionClosure_def numbered_rows tableOk_def)
qed


lemma saved_rows:
  assumes "evidenceOk e" "SaveTaskExecutionClosure s p e = Inr (e1, c)"
  obtains key where "evidenceOk e1" "attemptRow s p e \<in> set (evAttempts e1)"
    "filter (\<lambda>r. erAttempt r = taId (attemptRow s p e)) (evCheckpoints e1) =
       [checkpointRow s p (taId (attemptRow s p e)) key 1 ''before_execution'' (cpBefore p),
        checkpointRow s p (taId (attemptRow s p e)) key 2 ''after_execution'' (cpAfter p)]"
    "filter (\<lambda>r. erAttempt r = taId (attemptRow s p e)) (evChanges e1) = changeRows s p (taId (attemptRow s p e)) 1 (cpChanges p)"
    "filter (\<lambda>r. erAttempt r = taId (attemptRow s p e)) (evValidations e1) = validationRows s p (taId (attemptRow s p e)) 1 (cpValidations p)"
    "c = \<lparr>ecAttempt = attemptRow s p e, ecCheckpoints = filter (\<lambda>r. erAttempt r = taId (attemptRow s p e)) (evCheckpoints e1),
       ecChanges = filter (\<lambda>r. erAttempt r = taId (attemptRow s p e)) (evChanges e1),
       ecValidations = filter (\<lambda>r. erAttempt r = taId (attemptRow s p e)) (evValidations e1), ecRollbacks = []\<rparr>"
proof -
  let ?a = "attemptRow s p e"
  obtain i where i: "saveClosureTx s p e = Inr (e1, i)" "GetTaskExecutionClosure i e1 = Inr c" using save_tx [OF assms(2)] by blast
  obtain key where k: "e1 = savedClosure s p key e" "i = taId ?a"
      "insertAttempt ?a e = Inr (e\<lparr>evAttempts := evAttempts e @ [?a]\<rparr>)"
    by (rule save_closure [OF assms(1) i(1)])
  have fresh: "taId ?a \<notin> taId ` set (evAttempts e)"
    using k(3) by (auto simp: insertAttempt_def list_ex_iff split: if_splits)
  note none = table_fresh [OF evidenceOk_tables(1) [OF assms(1)] fresh] table_fresh [OF evidenceOk_tables(2) [OF assms(1)] fresh]
    table_fresh [OF evidenceOk_tables(3) [OF assms(1)] fresh] table_fresh [OF evidenceOk_tables(4) [OF assms(1)] fresh]
  have all: "filter (\<lambda>r. erAttempt r = taId ?a) (changeRows s p (taId ?a) n fs) = changeRows s p (taId ?a) n fs"
    "filter (\<lambda>r. erAttempt r = taId ?a) (validationRows s p (taId ?a) n vs) = validationRows s p (taId ?a) n vs" for n fs vs
    by (auto simp: changeRows_def validationRows_def filter_id_conv)
  have ok: "evidenceOk e1" by (rule save_ok [OF assms(1) i(1)])
  have mem: "?a \<in> set (evAttempts e1)" by (simp add: k(1) savedClosure_def Let_def)
  have rows: "filter (\<lambda>r. erAttempt r = taId ?a) (evCheckpoints e1) =
       [checkpointRow s p (taId ?a) key 1 ''before_execution'' (cpBefore p), checkpointRow s p (taId ?a) key 2 ''after_execution'' (cpAfter p)]"
    "filter (\<lambda>r. erAttempt r = taId ?a) (evChanges e1) = changeRows s p (taId ?a) 1 (cpChanges p)"
    "filter (\<lambda>r. erAttempt r = taId ?a) (evValidations e1) = validationRows s p (taId ?a) 1 (cpValidations p)"
    "filter (\<lambda>r. erAttempt r = taId ?a) (evRollbacks e1) = []"
    using none by (simp_all add: k(1) savedClosure_def Let_def all)
  have "c = \<lparr>ecAttempt = ?a, ecCheckpoints = filter (\<lambda>r. erAttempt r = taId ?a) (evCheckpoints e1),
       ecChanges = filter (\<lambda>r. erAttempt r = taId ?a) (evChanges e1),
       ecValidations = filter (\<lambda>r. erAttempt r = taId ?a) (evValidations e1), ecRollbacks = []\<rparr>"
    using i(2) closure_read [OF ok mem] rows(4) by (simp add: k(2))
  then show thesis using that ok mem rows by blast
qed

lemma run_short:
  assumes "rollbackRun sts"
  shows "length sts \<le> 3" "last sts \<notin> {''requested'', ''running''} \<Longrightarrow> \<not> validRollbackTransition (last sts) b"
proof -
  obtain rest where r: "sts = ''requested'' # rest" using assms by (cases sts) (auto simp: rollbackRun_def)
  have "successively validRollbackTransition (''requested'' # rest)" using assms r by (simp add: rollbackRun_def)
  note succ = this
  have t: "x \<in> {''requested'', ''running''}" "y \<noteq> ''requested''" "y = ''running'' \<Longrightarrow> x = ''requested''"
    if "validRollbackTransition x y" for x y
    using that by (auto simp: validRollbackTransition_def split: if_splits)
  show "length sts \<le> 3"
  proof (rule ccontr)
    assume long: "\<not> length sts \<le> 3"
    obtain x xs where x: "rest = x # xs" using long r by (cases rest) auto
    obtain y ys where y: "xs = y # ys" using long r x by (cases xs) auto
    obtain z zs where z: "ys = z # zs" using long r x y by (cases ys) auto
    have v: "validRollbackTransition ''requested'' x" "validRollbackTransition x y" "validRollbackTransition y z"
      using succ by (simp_all add: x y z)
    show False using t(1) [OF v(3)] t(2,3) [OF v(2)] t(2) [OF v(1)] by auto
  qed
qed (simp add: validRollbackTransition_def)

section \<open>Claims\<close>

text \<open>C16. The evidence of a task is a proper history: after any sequence of operations the attempts of
  every task are numbered 1, 2, 3 and each later one names an earlier one of the same task; an attempt
  has exactly the checkpoints before and after; the rows of an attempt are numbered without gaps and belong
  to its project, plan, task, job and run; and every rollback names two checkpoints of its attempt and
  has a status history that the state machine allows.\<close>

theorem evidence_invariant:
  assumes "evidence_step\<^sup>*\<^sup>* e e1" "evidenceOk e" shows "evidenceOk e1"
  using steps_ok assms by blast

text \<open>C28. A saved attempt is history: at any later time the closure that is read for it has the same
  attempt, the two checkpoints, the file changes and the validations in the order in which they
  were handed in; retries and rollbacks add to it and change nothing.\<close>

theorem closure_is_history:
  assumes "evidenceOk e" "SaveTaskExecutionClosure s p e = Inr (e1, c)" "evidence_step\<^sup>*\<^sup>* e1 e2"
  shows "\<exists>rs. GetTaskExecutionClosure (taId (ecAttempt c)) e2 = Inr (c\<lparr>ecRollbacks := rs\<rparr>) \<and> ecRollbacks c = [] \<and>
    ecAttempt c = attemptRow s p e \<and> map tcTree (ecCheckpoints c) = [ciTree (cpBefore p), ciTree (cpAfter p)] \<and>
    map tfPath (ecChanges c) = map fiPath (cpChanges p) \<and> map tvCommand (ecValidations c) = map viCommand (cpValidations p)"
proof -
  let ?a = "attemptRow s p e"
  obtain key where k: "evidenceOk e1" "?a \<in> set (evAttempts e1)"
    "filter (\<lambda>r. erAttempt r = taId ?a) (evCheckpoints e1) =
       [checkpointRow s p (taId ?a) key 1 ''before_execution'' (cpBefore p), checkpointRow s p (taId ?a) key 2 ''after_execution'' (cpAfter p)]"
    "filter (\<lambda>r. erAttempt r = taId ?a) (evChanges e1) = changeRows s p (taId ?a) 1 (cpChanges p)"
    "filter (\<lambda>r. erAttempt r = taId ?a) (evValidations e1) = validationRows s p (taId ?a) 1 (cpValidations p)"
    "c = \<lparr>ecAttempt = ?a, ecCheckpoints = filter (\<lambda>r. erAttempt r = taId ?a) (evCheckpoints e1),
       ecChanges = filter (\<lambda>r. erAttempt r = taId ?a) (evChanges e1),
       ecValidations = filter (\<lambda>r. erAttempt r = taId ?a) (evValidations e1), ecRollbacks = []\<rparr>"
    by (rule saved_rows [OF assms(1,2)])
  have s: "evidenceOk e2" "growsTo e1 e2" using steps_ok [OF assms(3) k(1)] by simp_all
  have mem: "?a \<in> set (evAttempts e2)" "taId ?a \<in> taId ` set (evAttempts e1)"
    using s(2) k(2) by (auto simp: growsTo_def prefix_def)
  have g: "filter (\<lambda>r. erAttempt r = taId ?a) (evCheckpoints e2) = filter (\<lambda>r. erAttempt r = taId ?a) (evCheckpoints e1)"
    "filter (\<lambda>r. erAttempt r = taId ?a) (evChanges e2) = filter (\<lambda>r. erAttempt r = taId ?a) (evChanges e1)"
    "filter (\<lambda>r. erAttempt r = taId ?a) (evValidations e2) = filter (\<lambda>r. erAttempt r = taId ?a) (evValidations e1)"
    using s(2) grown_filter mem(2) unfolding growsTo_def Let_def by blast+
  have names: "map tfPath (changeRows s p i n fs) = map fiPath fs" "map tvCommand (validationRows s p i n vs) = map viCommand vs" for i n fs vs
  proof -
    show "map tfPath (changeRows s p i n fs) = map fiPath fs"
      by (induction fs arbitrary: n) (simp_all add: changeRows_def changeRow_def)
    show "map tvCommand (validationRows s p i n vs) = map viCommand vs"
      by (induction vs arbitrary: n) (simp_all add: validationRows_def validationRow_def Let_def)
  qed
  show ?thesis using closure_read [OF s(1) mem(1)] k(3-5) by (auto simp: k(6) g names checkpointRow_def)
qed

text \<open>C8. A rollback ends: in every history it has between one and three status events, the first
  is the request, and after success, failure or cancellation no event is accepted any more.\<close>

theorem rollback_ends:
  assumes "evidence_step\<^sup>*\<^sup>* e0 e" "evidenceOk e0" "r \<in> set (evRollbacks e)"
    "sts = map reStatus (raEvents (rollbackAudit e r))"
  shows "sts \<noteq> [] \<and> length sts \<le> 3 \<and> hd sts = ''requested'' \<and> raStatus (rollbackAudit e r) = last sts \<and>
    (last sts \<notin> {''requested'', ''running''} \<longrightarrow> vpRollback p = erId r \<longrightarrow> isl (AppendTaskExecutionRollbackEvent s now p e))"
proof -
  have ok: "evidenceOk e" using steps_ok assms(1,2) by blast
  let ?mine = "filter (\<lambda>v. reRollback v = erId r) (evRollbackEvents e)"
  have num: "numberedBy reRollback erSequence (evRollbackEvents e)" using evidenceOk_tables(5) [OF ok] by (simp add: tableOk_def)
  have st: "sts = map reStatus ?mine" by (simp add: assms(4) rollbackAudit_def Let_def numbered_rows [OF num])
  have run: "rollbackRun sts" using ok assms(3) by (simp add: evidenceOk_def st)
  then have ne: "?mine \<noteq> []" by (auto simp: st rollbackRun_def)
  have audit: "raStatus (rollbackAudit e r) = last sts"
    using ne by (simp add: rollbackAudit_def Let_def numbered_rows [OF num] st last_map)
  have refused: "isl (AppendTaskExecutionRollbackEvent s now p e)"
    if "last sts \<notin> {''requested'', ''running''}" "vpRollback p = erId r"
  proof -
    have "find (\<lambda>x. erId x = vpRollback p) (evRollbacks e) = Some r"
      using find_distinct [of erId "evRollbacks e" r] evidenceOk_tables(4) [OF ok] assms(3) that(2) by (simp add: tableOk_def)
    moreover have "latestBy erSequence ?mine = Some (last ?mine)" using numbered_latest [OF num] ne by simp
    moreover have "\<not> validRollbackTransition (reStatus (last ?mine)) (vpStatus p)"
      using run_short(2) [OF run that(1)] ne by (simp add: st last_map)
    ultimately show ?thesis by (simp add: AppendTaskExecutionRollbackEvent_def)
  qed
  show ?thesis using run run_short(1) [OF run] audit refused by (auto simp: rollbackRun_def)
qed


section \<open>An example\<close>

text \<open>A task that was run once, with one changed file and one validation, and then rolled back.\<close>

definition sampleAgentRun :: agent_run where
  "sampleAgentRun =
     \<lparr>lId = ''run'', lProject = ''proj'', lStatus = ''succeeded'', lVersion = 1, lSource = ''system'', lCode = ''created'',
      lReason = [], lActivity = 0, lHint = ''none'', lCheckpoint = [], lUpdated = 0, arPlan = Some ''plan'', arJob = Some ''job'',
      arTask = Some ''task'', arOperation = None, arExitCode = None, arSession = None, arTermination = None, arFailure = None,
      arDuration = 0, arStarted = 0, arFinished = None, arPid = None, arOwner = [], arLogPath = [], arCreated = 0\<rparr>"

definition sampleEvidence :: evidence_db where
  "sampleEvidence = \<lparr>evBase = emptyDb\<lparr>dbPlans := [samplePlan ''executing''], dbTasks := [(sampleTask ''task'' ''running'')\<lparr>ptKey := ''P001''\<rparr>],
     dbJobs := [sampleJob ''job'' ''running'' None], dbRuns := [sampleAgentRun]\<rparr>,
     evAttempts = [], evCheckpoints = [], evChanges = [], evValidations = [], evRollbacks = [], evRollbackEvents = []\<rparr>"

definition sampleSource :: evidence_source where
  "sampleSource = \<lparr>esUuid = (\<lambda>n. replicate (n + 1) CHR ''u''), esNow = (\<lambda>n. 100)\<rparr>"

definition sampleTreeState :: "uuid \<Rightarrow> char \<Rightarrow> checkpoint_input" where
  "sampleTreeState i c = \<lparr>ciId = i, ciReferenceState = ''branch'', ciBranch = ''main'', ciHead = replicate 40 CHR ''a'',
     ciIndexTree = replicate 40 c, ciTree = replicate 40 c, ciSummary = RawEmpty, ciFingerprint = replicate 64 c,
     ciConfig = RawEmpty, ciCreated = None\<rparr>"

definition sampleClosure :: closure_params where
  "sampleClosure = \<lparr>elProject = ''proj'', elPlan = ''plan'', elTask = ''task'', elJob = ''job'', elRun = ''run'', cpId = ''attempt'',
     cpOrigin = ''initial'', cpQueueAttempt = 1, cpSupersedes = None, cpOutcome = ''succeeded'', cpStarted = Some 1, cpFinished = Some 2,
     cpCreated = None, cpBefore = sampleTreeState ''before'' CHR ''b'', cpAfter = sampleTreeState ''after'' CHR ''c'',
     cpChanges = [\<lparr>fiId = nilUUID, fiPath = ''main.go'', fiPrevious = [], fiKind = ''modified'', fiStaged = False, fiBinary = False,
       fiAdditions = Some 3, fiDeletions = Some 1, fiBefore = [], fiAfter = [], fiFingerprint = [], fiSummary = RawEmpty, fiCreated = None\<rparr>],
     cpValidations = [\<lparr>viId = nilUUID, viCommand = ''go test'', viDirectory = ''/w'', viStatus = ''passed'', viExitCode = Some 0,
       viStarted = None, viFinished = None, viStdout = [], viStderr = [], viSummary = RawEmpty, viCreated = None\<rparr>]\<rparr>"

definition sampleRollback :: rollback_params where
  "sampleRollback = \<lparr>rpId = ''rollback'', rpAttempt = ''attempt'', rpSource = ''after'', rpTarget = ''before'', rpKind = ''manual'',
     rpCommand = [], rpReason = ''undo'', rpRequestedBy = ''user'', rpDetails = RawEmpty, rpOccurred = None\<rparr>"

definition sampleOutcome :: "gostring \<Rightarrow> rollback_event_params" where
  "sampleOutcome st = \<lparr>vpId = st, vpRollback = ''rollback'', vpStatus = st, vpMessage = [], vpDetails = RawEmpty, vpOccurred = None\<rparr>"

definition sampleSaved :: "evidence_db \<times> execution_closure" where
  "sampleSaved = projr (SaveTaskExecutionClosure sampleSource sampleClosure sampleEvidence)"

definition sampleRequested :: "evidence_db \<times> rollback_audit" where
  "sampleRequested = projr (RecordTaskExecutionRollback sampleSource 5 sampleRollback (fst sampleSaved))"

definition sampleEnded :: "evidence_db \<times> rollback_event" where
  "sampleEnded = projr (AppendTaskExecutionRollbackEvent sampleSource 6 (sampleOutcome ''succeeded'') (fst sampleRequested))"

lemma projr_Inr: "\<not> isl r \<Longrightarrow> r = Inr (projr r)"
  by (cases r) auto

lemma sample_saved: "SaveTaskExecutionClosure sampleSource sampleClosure sampleEvidence = Inr (fst sampleSaved, snd sampleSaved)"
proof -
  have "\<not> isl (SaveTaskExecutionClosure sampleSource sampleClosure sampleEvidence)" by code_simp
  then show ?thesis unfolding sampleSaved_def prod.collapse by (rule projr_Inr)
qed

lemma sample_requested: "RecordTaskExecutionRollback sampleSource 5 sampleRollback (fst sampleSaved) = Inr (fst sampleRequested, snd sampleRequested)"
proof -
  have "\<not> isl (RecordTaskExecutionRollback sampleSource 5 sampleRollback (fst sampleSaved))" by code_simp
  then show ?thesis unfolding sampleRequested_def prod.collapse by (rule projr_Inr)
qed

lemma sample_ended: "AppendTaskExecutionRollbackEvent sampleSource 6 (sampleOutcome ''succeeded'') (fst sampleRequested) = Inr (fst sampleEnded, snd sampleEnded)"
proof -
  have "\<not> isl (AppendTaskExecutionRollbackEvent sampleSource 6 (sampleOutcome ''succeeded'') (fst sampleRequested))" by code_simp
  then show ?thesis unfolding sampleEnded_def prod.collapse by (rule projr_Inr)
qed

lemma sample_start: "evidenceOk sampleEvidence"
  by (simp add: evidenceOk_def sampleEvidence_def tableOk_def)

lemma sample_history:
  "evidence_step\<^sup>*\<^sup>* (fst sampleSaved) (fst sampleEnded)" "evidence_step\<^sup>*\<^sup>* sampleEvidence (fst sampleEnded)"
proof -
  show later: "evidence_step\<^sup>*\<^sup>* (fst sampleSaved) (fst sampleEnded)"
    using evidence_step.request [OF sample_requested] evidence_step.append [OF sample_ended] by (meson converse_rtranclp_into_rtranclp r_into_rtranclp)
  show "evidence_step\<^sup>*\<^sup>* sampleEvidence (fst sampleEnded)"
    using evidence_step.save [OF sample_saved] later by (rule converse_rtranclp_into_rtranclp)
qed

lemma evidence_invariant_witness: "evidenceOk (fst sampleEnded)"
  by (rule evidence_invariant [OF sample_history(2) sample_start])

lemma closure_is_history_witness:
  "\<exists>rs. GetTaskExecutionClosure ''attempt'' (fst sampleEnded) = Inr ((snd sampleSaved)\<lparr>ecRollbacks := rs\<rparr>) \<and>
     map tfPath (ecChanges (snd sampleSaved)) = [''main.go'']"
proof -
  have "taId (ecAttempt (snd sampleSaved)) = ''attempt''" by code_simp
  then show ?thesis using closure_is_history [OF sample_start sample_saved sample_history(1)] by (auto simp: sampleClosure_def)
qed

lemma rollback_ends_witness:
  "raStatus (rollbackAudit (fst sampleEnded) (hd (evRollbacks (fst sampleEnded)))) = ''succeeded'' \<and>
   isl (AppendTaskExecutionRollbackEvent sampleSource 7 (sampleOutcome ''failed'') (fst sampleEnded))"
proof -
  let ?r = "hd (evRollbacks (fst sampleEnded))" and ?e = "fst sampleEnded"
  let ?sts = "map reStatus (raEvents (rollbackAudit ?e ?r))"
  have f: "evRollbacks ?e \<noteq> []" "?sts = [''requested'', ''succeeded'']" "vpRollback (sampleOutcome ''failed'') = erId ?r"
    by code_simp+
  have r: "?r \<in> set (evRollbacks ?e)" using f(1) by simp
  note ends = rollback_ends [OF sample_history(2) sample_start r refl, of "sampleOutcome ''failed''" sampleSource 7]
  show ?thesis using ends f(2,3) by simp
qed

end
