(* ===== verification/WorkspaceDrift.thy ===== *)
theory WorkspaceDrift
  imports GitEngine Snapshot GoTime
begin

text \<open>
  \<^verbatim>\<open>app/workspace.go\<close>: what the workspace collector reads of a workspace, and the records
  of the context a plan is executed in. The comparison is in the theory \<open>DriftCompare\<close>. The texts of errors, what \<^verbatim>\<open>Lstat\<close> says of size and mode, the bytes of an invalid raw
  message and the error of printing one, and times outside the years 0 to 9999 are parameters. A slice
  whose nil value is printed apart is an option. Git lists no file twice, so the order of the sort is total.
\<close>

section \<open>Data\<close>

datatype drift_severity = SeverityClean | SeveritySafeIgnore | SeverityNeedsConfirmation | SeverityMustBlock

definition severityText :: "drift_severity \<Rightarrow> gostring" where
  "severityText s = (case s of SeverityClean \<Rightarrow> ''clean'' | SeveritySafeIgnore \<Rightarrow> ''safe_ignore''
     | SeverityNeedsConfirmation \<Rightarrow> ''needs_confirmation'' | SeverityMustBlock \<Rightarrow> ''must_block'')"

record workspace_file =
  wfPath :: gostring
  wfOriginal :: gostring
  wfIndexStatus :: gostring
  wfWorktreeStatus :: gostring
  wfKind :: gostring
  wfMode :: gostring
  wfContent :: gostring
  wfIndex :: gostring
  wfSize :: int
  wfEntries :: "gostring list"

record workspace_snapshot =
  wsCaptured :: time
  wsConfigured :: gostring
  wsAbsolute :: gostring
  wsNormalized :: gostring
  wsReadable :: bool
  wsError :: gostring
  wsIsGit :: bool
  wsWorkTree :: gostring
  wsGitDir :: gostring
  wsIdentity :: gostring
  wsBranch :: gostring
  wsDetached :: bool
  wsHead :: gostring
  wsTracked :: "workspace_file list option"
  wsUntracked :: "workspace_file list option"
  wsConflicted :: "workspace_file list option"
  wsStatusDigest :: gostring
  wsContentDigest :: gostring

record execution_context =
  xcId :: uuid
  xcKind :: gostring
  xcSequence :: int
  xcCaptured :: time
  xcRequirement :: uuid
  xcRequirementVersion :: int
  xcRequirementDigest :: gostring
  xcPlan :: uuid
  xcPlanVersion :: int
  xcContentVersion :: int
  xcSpecDigest :: gostring
  xcProjectVersion :: int
  xcConfigVersion :: int
  xcKeyFields :: raw_json
  xcGenerationProvider :: gostring
  xcExecutionProvider :: gostring
  xcWorkspace :: workspace_snapshot
  xcError :: gostring

record context_difference =
  cdField :: gostring
  cdBaseline :: gostring
  cdCurrent :: gostring
  cdSeverity :: drift_severity
  cdReason :: gostring
  cdAction :: gostring

record drift_report =
  drSeverity :: drift_severity
  drDifferences :: "context_difference list"
  drFingerprint :: gostring
  drAllowed :: bool

text \<open>The parameters beside the host.\<close>

record drift_env =
  deHost :: host
  deError :: "git_error \<Rightarrow> gostring"
  deInfo :: "node option \<Rightarrow> int \<times> gostring"
  deMarshalError :: gostring
  deRaw :: gostring
  deFarTime :: "time \<Rightarrow> gostring"

abbreviation sha :: "drift_env \<Rightarrow> gostring \<Rightarrow> gostring" where "sha e \<equiv> hoSha256 (deHost e)"

abbreviation printJson :: "drift_env \<Rightarrow> json \<Rightarrow> gostring" where "printJson e \<equiv> hoPrint (deHost e)"

definition fileJson :: "workspace_file \<Rightarrow> json" where
  "fileJson f = JObj ([(''path'', JStr (wfPath f))] @ memberUnlessEmpty ''originalPath'' (wfOriginal f) @
     [(''indexStatus'', JStr (wfIndexStatus f)), (''worktreeStatus'', JStr (wfWorktreeStatus f)), (''contentKind'', JStr (wfKind f)),
      (''mode'', JStr (wfMode f)), (''contentDigest'', JStr (wfContent f)), (''indexDigest'', JStr (wfIndex f)), (''size'', JInt (wfSize f))]
     @ listMember ''indexEntries'' (wfEntries f))"

definition filesJson :: "workspace_file list option \<Rightarrow> json" where
  "filesJson fs = (case fs of None \<Rightarrow> JNull | Some xs \<Rightarrow> JArr (map fileJson xs))"

definition stableJSON :: "drift_env \<Rightarrow> workspace_file list option \<Rightarrow> gostring" where
  "stableJSON e fs = printJson e (filesJson fs)"

definition filesMember :: "gostring \<Rightarrow> workspace_file list option \<Rightarrow> (gostring \<times> json) list" where
  "filesMember k fs = (case fs of None \<Rightarrow> [] | Some [] \<Rightarrow> [] | Some xs \<Rightarrow> [(k, JArr (map fileJson xs))])"

definition workspaceDigest ::
  "drift_env \<Rightarrow> workspace_file list option \<Rightarrow> workspace_file list option \<Rightarrow> workspace_file list option \<Rightarrow> gostring \<Rightarrow> gostring" where
  "workspaceDigest e tracked untracked conflicts err =
     sha e (printJson e (JObj (filesMember ''tracked'' tracked @ filesMember ''untracked'' untracked @
       filesMember ''conflicts'' conflicts @ memberUnlessEmpty ''error'' err)))"

section \<open>Reading a workspace\<close>

definition validateReadOnlyGitQuery :: "gostring list \<Rightarrow> bool" where
  "validateReadOnlyGitQuery args \<longleftrightarrow>
     (case args of
        [] \<Rightarrow> False
      | a # rest \<Rightarrow>
          a = ''rev-parse'' \<or> a = ''symbolic-ref'' \<and> rest = [''--quiet'', ''--short'', ''HEAD''] \<or>
          a = ''status'' \<or> a = ''ls-files'' \<or> a = ''config'' \<and> length args \<ge> 3 \<and> hd rest = ''--get'')"

definition gitQuery :: "host \<Rightarrow> gostring \<Rightarrow> gostring list \<Rightarrow> gostring io" where
  "gitQuery h workspace args =
     (if \<not> validateReadOnlyGitQuery args then failIO (GitText ''not an approved read-only query'')
      else gitCall h \<lparr>gmEnv = [''GIT_OPTIONAL_LOCKS=0''], gmInput = [], gmArgs = [''-C'', workspace] @ args\<rparr>)"

text \<open>The search for \<^verbatim>\<open>.git\<close> from an absolute path upwards; the elements come last first.\<close>

fun findGitMarker :: "host \<Rightarrow> gostring list \<Rightarrow> gostring io" where
  "findGitMarker h es =
     (let candidate = goJoin [renderPath True (rev es), ''.git''] in
      bindIO (osLstat h candidate) (\<lambda>k.
        if k \<noteq> NotExist \<and> k \<noteq> StatError then pureIO candidate
        else (case es of [] \<Rightarrow> pureIO [] | _ # up \<Rightarrow> findGitMarker h up)))"

declare findGitMarker.simps [simp del]

definition missingFile :: "drift_env \<Rightarrow> workspace_file \<Rightarrow> workspace_file" where
  "missingFile e f = f\<lparr>wfKind := ''missing'', wfContent := sha e ''missing''\<rparr>"

text \<open>What \<^verbatim>\<open>Readlink\<close> or a whole read gives of the node a path names.\<close>

definition osReadNode :: "host \<Rightarrow> gostring \<Rightarrow> gostring io" where
  "osReadNode h p = osCall h (CallReadFile p) (onLocation p (\<lambda>d l.
     case nodeAt d l of Some (NFile c _) \<Rightarrow> Inr (d, c) | Some (NLink t) \<Rightarrow> Inr (d, t) | None \<Rightarrow> Inl OsNotExist | _ \<Rightarrow> Inl OsError))"

definition lstatInfo :: "drift_env \<Rightarrow> gostring \<Rightarrow> (node option) io" where
  "lstatInfo e p s = (s, Inr (case locate (hsDisk s) p of Found l \<Rightarrow> nodeAt (hsDisk s) l | _ \<Rightarrow> None))"

definition readFileState :: "drift_env \<Rightarrow> workspace_file \<Rightarrow> gostring \<Rightarrow> workspace_file io" where
  "readFileState e f path =
     bindIO (osLstat (deHost e) path) (\<lambda>k.
       if k = NotExist then pureIO (missingFile e f)
       else if k = StatError then failIO OsError
       else bindIO (lstatInfo e path) (\<lambda>n.
         let g = f\<lparr>wfSize := fst (deInfo e n), wfMode := snd (deInfo e n)\<rparr> in
         case n of
           Some (NLink _) \<Rightarrow> bindIO (osReadNode (deHost e) path) (\<lambda>t. pureIO (g\<lparr>wfKind := ''symlink'', wfContent := sha e t\<rparr>))
         | Some (NFile _ _) \<Rightarrow> bindIO (osReadNode (deHost e) path) (\<lambda>c. pureIO (g\<lparr>wfKind := ''regular'', wfContent := sha e c\<rparr>))
         | Some NDir \<Rightarrow> pureIO (g\<lparr>wfKind := ''directory'', wfContent := sha e ''directory''\<rparr>)
         | _ \<Rightarrow> pureIO (g\<lparr>wfKind := ''special'', wfContent := sha e (snd (deInfo e n))\<rparr>)))"

definition collectFileState :: "drift_env \<Rightarrow> gostring \<Rightarrow> porcelain_record \<Rightarrow> gostring list \<Rightarrow> workspace_file io" where
  "collectFileState e root r entries =
     (let x = prStatus r ! 0; y = prStatus r ! 1;
          f = \<lparr>wfPath = prPath r, wfOriginal = prOriginal r, wfIndexStatus = encodeRune (of_char x), wfWorktreeStatus = encodeRune (of_char y),
               wfKind = [], wfMode = [], wfContent = [], wfIndex = sha e (joinWith [CHR 0x0A] entries), wfSize = 0, wfEntries = entries\<rparr> in
      if y = CHR ''D'' \<or> x = CHR ''D'' \<and> y = CHR '' '' then pureIO (missingFile e f)
      else bindIO (pathIO (deHost e) (\<lambda>fs. ResolveRelativePath fs root (prPath r))) (readFileState e f))"

definition appendFile :: "workspace_file \<Rightarrow> workspace_file list option \<Rightarrow> workspace_file list option" where
  "appendFile f fs = Some ((case fs of None \<Rightarrow> [] | Some xs \<Rightarrow> xs) @ [f])"

definition addRecord :: "gostring \<Rightarrow> workspace_file \<Rightarrow> workspace_snapshot \<Rightarrow> workspace_snapshot" where
  "addRecord status f w =
     (if status = ''??'' then w\<lparr>wsUntracked := appendFile f (wsUntracked w)\<rparr>
      else if isConflictStatus status then w\<lparr>wsConflicted := appendFile f (wsConflicted w)\<rparr>
      else w\<lparr>wsTracked := appendFile f (wsTracked w)\<rparr>)"

definition fileBefore :: "workspace_file \<Rightarrow> workspace_file \<Rightarrow> bool" where
  "fileBefore a b \<longleftrightarrow> (if wfPath a \<noteq> wfPath b then byteLess (wfPath a) (wfPath b) else byteLess (wfOriginal a) (wfOriginal b))"

definition sortWorkspaceFiles :: "workspace_file list option \<Rightarrow> workspace_file list option" where
  "sortWorkspaceFiles = map_option (sortBy fileBefore)"

definition workspaceCaptureFailure :: "drift_env \<Rightarrow> workspace_snapshot \<Rightarrow> git_error \<Rightarrow> workspace_snapshot" where
  "workspaceCaptureFailure e w err =
     w\<lparr>wsReadable := False, wsError := deError e err,
       wsContentDigest := (if wsContentDigest w = [] then workspaceDigest e None None None (deError e err) else wsContentDigest w)\<rparr>"

type_synonym workspace_capture = "workspace_snapshot \<times> git_error option"

text \<open>A step of the capture: its failure ends the capture with what was collected so far.\<close>

definition captureStep :: "drift_env \<Rightarrow> workspace_snapshot \<Rightarrow> 'a io \<Rightarrow> ('a \<Rightarrow> workspace_capture io) \<Rightarrow> workspace_capture io" where
  "captureStep e w m k = bindIO (attemptIO m) (\<lambda>r. case r of
     Inl err \<Rightarrow> pureIO (workspaceCaptureFailure e w err, Some err) | Inr x \<Rightarrow> k x)"

fun collectRecords :: "drift_env \<Rightarrow> (gostring \<times> gostring list) list \<Rightarrow> porcelain_record list \<Rightarrow> workspace_snapshot \<Rightarrow> workspace_capture io" where
  "collectRecords e index [] w =
     (let t = sortWorkspaceFiles (wsTracked w); u = sortWorkspaceFiles (wsUntracked w); c = sortWorkspaceFiles (wsConflicted w) in
      pureIO (w\<lparr>wsTracked := t, wsUntracked := u, wsConflicted := c, wsContentDigest := workspaceDigest e t u c []\<rparr>, None))"
| "collectRecords e index (r # rs) w =
     captureStep e w (collectFileState e (wsWorkTree w) r (case map_of index (prPath r) of None \<Rightarrow> [] | Some xs \<Rightarrow> xs)) (\<lambda>f.
       collectRecords e index rs (addRecord (prStatus r) f w))"

definition collectStatus :: "drift_env \<Rightarrow> gostring \<Rightarrow> workspace_snapshot \<Rightarrow> workspace_capture io" where
  "collectStatus e real w =
     captureStep e w (gitQuery (deHost e) real [''status'', ''--porcelain=v1'', ''--untracked-files=all'']) (\<lambda>text.
     let w1 = w\<lparr>wsStatusDigest := sha e (trimSpace text)\<rparr> in
     captureStep e w1 (gitQuery (deHost e) real [''status'', ''--porcelain=v1'', ''-z'', ''--untracked-files=all'']) (\<lambda>raw.
     captureStep e w1 (gitQuery (deHost e) real [''ls-files'', ''--stage'', ''-z'']) (\<lambda>indexRaw.
     captureStep e w1 (parseOr ''invalid Git index record'' (parseIndexEntries indexRaw)) (\<lambda>index.
     captureStep e w1 (parseOr ''invalid Git status record'' (parsePorcelainV1Z raw)) (\<lambda>records.
       collectRecords e index records w1)))))"

definition headOf :: "git_error + gostring \<Rightarrow> git_error + gostring \<Rightarrow> workspace_snapshot \<Rightarrow> workspace_snapshot" where
  "headOf head branch w =
     (let w1 = (case head of Inr out \<Rightarrow> w\<lparr>wsHead := trimSpace out\<rparr> | Inl _ \<Rightarrow> w) in
      case branch of Inr out \<Rightarrow> w1\<lparr>wsBranch := trimSpace out\<rparr> | Inl _ \<Rightarrow> if wsHead w1 \<noteq> [] then w1\<lparr>wsDetached := True\<rparr> else w1)"

definition collectRepository :: "drift_env \<Rightarrow> gostring \<Rightarrow> gostring \<Rightarrow> workspace_snapshot \<Rightarrow> workspace_capture io" where
  "collectRepository e real rootOut w =
     (let h = deHost e in
      captureStep e w (pathIO h (\<lambda>fs. InspectExistingPath fs (trimSpace rootOut))) (\<lambda>root.
      let w1 = w\<lparr>wsIsGit := True, wsWorkTree := piReal root\<rparr> in
      captureStep e w1 (gitQuery h real [''rev-parse'', ''--absolute-git-dir'']) (\<lambda>gitDir.
      captureStep e w1 (pathIO h (\<lambda>fs. NormalizeExistingPath fs (trimSpace gitDir))) (\<lambda>dir.
      bindIO (attemptIO (gitQuery h real [''config'', ''--get'', ''remote.origin.url''])) (\<lambda>origin.
      let w2 = w1\<lparr>wsGitDir := dir,
                  wsIdentity := (case origin of Inr out \<Rightarrow> if trimSpace out \<noteq> [] then trimSpace out else dir | Inl _ \<Rightarrow> dir)\<rparr> in
      bindIO (attemptIO (gitQuery h real [''rev-parse'', ''--verify'', ''HEAD''])) (\<lambda>head.
      bindIO (attemptIO (gitQuery h real [''symbolic-ref'', ''--quiet'', ''--short'', ''HEAD''])) (\<lambda>branch.
        collectStatus e real (headOf head branch w2))))))))"

definition emptyWorkspace :: "time \<Rightarrow> gostring \<Rightarrow> workspace_snapshot" where
  "emptyWorkspace now configured =
     \<lparr>wsCaptured = now, wsConfigured = configured, wsAbsolute = [], wsNormalized = [], wsReadable = False, wsError = [], wsIsGit = False,
      wsWorkTree = [], wsGitDir = [], wsIdentity = [], wsBranch = [], wsDetached = False, wsHead = [], wsTracked = None,
      wsUntracked = None, wsConflicted = None, wsStatusDigest = [], wsContentDigest = []\<rparr>"

text \<open>The real path is no link; the directory is opened, one name is read and it is closed.\<close>

definition readableDirectory :: "host \<Rightarrow> gostring \<Rightarrow> unit io" where
  "readableDirectory h p =
     bindIO (osLstat h p) (\<lambda>k.
       if k = NotExist then failIO OsNotExist else if k = StatError then failIO OsError
       else if k \<noteq> Directory then failIO (GitText ''workspace is not a directory'')
       else bindIO (osReadDir h p) (\<lambda>_. osClose h p))"

definition CollectWorkspaceSnapshot :: "drift_env \<Rightarrow> time \<Rightarrow> gostring \<Rightarrow> workspace_capture io" where
  "CollectWorkspaceSnapshot e now configured =
     (let h = deHost e; w = emptyWorkspace now configured in
      captureStep e w (pathIO h (\<lambda>fs. InspectExistingPath fs configured)) (\<lambda>i.
      let w1 = w\<lparr>wsAbsolute := piAbsolute i, wsNormalized := piReal i\<rparr> in
      captureStep e w1 (readableDirectory h (piReal i)) (\<lambda>_.
      let w2 = w1\<lparr>wsReadable := True\<rparr> in
      bindIO (attemptIO (gitQuery h (piReal i) [''rev-parse'', ''--show-toplevel''])) (\<lambda>root.
        case root of
          Inl err \<Rightarrow> bindIO (findGitMarker h (rev (pathElems (piReal i)))) (\<lambda>marker.
            if marker \<noteq> [] then pureIO (workspaceCaptureFailure e w2 err, Some err)
            else pureIO (w2\<lparr>wsStatusDigest := sha e [], wsContentDigest := workspaceDigest e None None None []\<rparr>, None))
        | Inr out \<Rightarrow> collectRepository e (piReal i) out w2))))"

end
