(* ===== verification/DriftCompare.thy ===== *)
theory DriftCompare
  imports WorkspaceDrift
begin

text \<open>
  The second half of \<^verbatim>\<open>app/workspace.go\<close>: checking a captured context, comparing the context a
  plan was made in with the present one field by field, and the report with its severity, its fingerprint
  and the decision whether an agent may be started.
\<close>

section \<open>Checking a captured context\<close>

text \<open>None is no error, otherwise the text of the error.\<close>

definition validateWorkspaceSnapshot :: "workspace_snapshot \<Rightarrow> gostring option" where
  "validateWorkspaceSnapshot w =
     (if trimSpace (wsError w) \<noteq> [] then Some (wsError w)
      else if \<not> wsReadable w then Some ''workspace is not readable''
      else if trimSpace (wsConfigured w) = [] \<or> trimSpace (wsNormalized w) = []
        then Some ''workspace configured and normalized paths are required''
      else if \<not> isSHA256 (wsContentDigest w) then Some ''workspace content digest is missing or invalid''
      else if wsIsGit w \<and> (trimSpace (wsWorkTree w) = [] \<or> trimSpace (wsIdentity w) = [])
        then Some ''Git work tree and repository identity are required''
      else if wsIsGit w \<and> wsBranch w = [] \<and> \<not> wsDetached w \<and> wsHead w \<noteq> []
        then Some ''Git branch or detached HEAD state is required''
      else None)"

definition validateExecutionContextSnapshot :: "execution_context \<Rightarrow> gostring option" where
  "validateExecutionContextSnapshot x =
     (if trimSpace (xcError x) \<noteq> [] then Some (xcError x)
      else if xcRequirement x = nilUUID \<or> xcPlan x = nilUUID then Some ''requirement and plan identities are required''
      else if xcRequirementVersion x < 1 \<or> xcPlanVersion x < 1 \<or> xcContentVersion x < 1 \<or> xcProjectVersion x < 1 \<or> xcConfigVersion x < 1
        then Some ''snapshot versions must be positive''
      else if \<not> isSHA256 (xcRequirementDigest x) \<or> \<not> isSHA256 (xcSpecDigest x)
        then Some ''requirement and plan digests must be SHA-256 values''
      else if trimSpace (xcGenerationProvider x) = [] \<or> trimSpace (xcExecutionProvider x) = []
        then Some ''generation and execution providers are required''
      else if \<not> isObject (xcKeyFields x) then Some ''key execution fields must be a JSON object''
      else validateWorkspaceSnapshot (xcWorkspace x))"

text \<open>\<^verbatim>\<open>canonicalJSON\<close> of \<^verbatim>\<open>workspace.go\<close>.\<close>

definition canonicalRaw :: "raw_json \<Rightarrow> raw_json" where
  "canonicalRaw raw = (case raw of RawValue v \<Rightarrow> RawValue (canonicalJson v) | r \<Rightarrow> r)"

definition rawText :: "drift_env \<Rightarrow> raw_json \<Rightarrow> gostring" where
  "rawText e raw = (case raw of RawEmpty \<Rightarrow> [] | RawInvalid \<Rightarrow> deRaw e | RawValue v \<Rightarrow> printJson e v)"

record context_input =
  inId :: uuid
  inKind :: gostring
  inSequence :: int
  inRequirement :: uuid
  inRequirementVersion :: int
  inRequirementDigest :: gostring
  inPlan :: uuid
  inPlanVersion :: int
  inContentVersion :: int
  inSpecDigest :: gostring
  inProjectVersion :: int
  inConfigVersion :: int
  inKeyFields :: raw_json
  inGenerationProvider :: gostring
  inExecutionProvider :: gostring
  inWorkspacePath :: gostring

definition contextOf :: "context_input \<Rightarrow> workspace_snapshot \<Rightarrow> execution_context" where
  "contextOf i w =
     \<lparr>xcId = inId i, xcKind = inKind i, xcSequence = inSequence i, xcCaptured = wsCaptured w,
      xcRequirement = inRequirement i, xcRequirementVersion = inRequirementVersion i,
      xcRequirementDigest = trimSpace (inRequirementDigest i), xcPlan = inPlan i, xcPlanVersion = inPlanVersion i,
      xcContentVersion = inContentVersion i, xcSpecDigest = trimSpace (inSpecDigest i),
      xcProjectVersion = inProjectVersion i, xcConfigVersion = inConfigVersion i, xcKeyFields = canonicalRaw (inKeyFields i),
      xcGenerationProvider = trimSpace (inGenerationProvider i), xcExecutionProvider = trimSpace (inExecutionProvider i),
      xcWorkspace = w, xcError = []\<rparr>"

text \<open>The error comes with the context; None is no error.\<close>

definition CollectExecutionContext :: "drift_env \<Rightarrow> time \<Rightarrow> context_input \<Rightarrow> (execution_context \<times> gostring option) io" where
  "CollectExecutionContext e now i =
     bindIO (CollectWorkspaceSnapshot e now (inWorkspacePath i)) (\<lambda>(w, err).
     let x = contextOf i w in
       pureIO (case (case err of Some g \<Rightarrow> Some (deError e g) | None \<Rightarrow> validateExecutionContextSnapshot x) of
           None \<Rightarrow> (x, None) | Some text \<Rightarrow> (x\<lparr>xcError := text\<rparr>, Some text)))"

text \<open>The row as a context; the time of the row, which the table of the model leaves out, is an argument.\<close>

definition ExecutionContextFromPlanSnapshot :: "time \<Rightarrow> plan_snapshot \<Rightarrow> execution_context" where
  "ExecutionContextFromPlanSnapshot created n =
     \<lparr>xcId = snId n, xcKind = snKind n, xcSequence = snSequence n, xcCaptured = created,
      xcRequirement = snIntake n, xcRequirementVersion = snRequirementVersion n, xcRequirementDigest = snRequirementDigest n,
      xcPlan = snPlan n, xcPlanVersion = snPlanVersion n, xcContentVersion = snContentVersion n, xcSpecDigest = snSpecDigest n,
      xcProjectVersion = snProjectVersion n, xcConfigVersion = snConfigVersion n, xcKeyFields = canonicalRaw (snKeyFields n),
      xcGenerationProvider = snGenerationProvider n, xcExecutionProvider = snExecutionProvider n,
      xcWorkspace =
        \<lparr>wsCaptured = created, wsConfigured = snWorkspace n, wsAbsolute = snWorkspace n, wsNormalized = snWorkspace n,
         wsReadable = True, wsError = [], wsIsGit = (snGitRoot n \<noteq> [] \<or> snGitIdentity n \<noteq> []), wsWorkTree = snGitRoot n,
         wsGitDir = [], wsIdentity = snGitIdentity n, wsBranch = snGitBranch n,
         wsDetached = (snGitBranch n = [] \<and> snGitHead n \<noteq> []), wsHead = snGitHead n, wsTracked = None, wsUntracked = None,
         wsConflicted = None, wsStatusDigest = snGitDigest n, wsContentDigest = snGitDigest n\<rparr>,
      xcError = []\<rparr>"

section \<open>Differences\<close>

definition severityRank :: "drift_severity \<Rightarrow> nat" where
  "severityRank s = (case s of SeverityMustBlock \<Rightarrow> 3 | SeverityNeedsConfirmation \<Rightarrow> 2 | SeveritySafeIgnore \<Rightarrow> 1 | SeverityClean \<Rightarrow> 0)"

definition difference ::
  "gostring \<Rightarrow> gostring \<Rightarrow> gostring \<Rightarrow> drift_severity \<Rightarrow> gostring \<Rightarrow> gostring \<Rightarrow> context_difference" where
  "difference field a b severity reason action =
     \<lparr>cdField = field, cdBaseline = a, cdCurrent = b, cdSeverity = severity, cdReason = reason, cdAction = action\<rparr>"

text \<open>\<^verbatim>\<open>if b { *differences = append(*differences, ...) }\<close>: what is appended.\<close>

definition noteIf :: "bool \<Rightarrow> context_difference \<Rightarrow> context_difference list" where
  "noteIf b x = (if b then [x] else [])"

definition compareString ::
  "gostring \<Rightarrow> gostring \<Rightarrow> gostring \<Rightarrow> drift_severity \<Rightarrow> gostring \<Rightarrow> gostring \<Rightarrow> context_difference list" where
  "compareString field a b severity reason action = noteIf (a \<noteq> b) (difference field a b severity reason action)"

definition compareServerVersion :: "gostring \<Rightarrow> int \<Rightarrow> int \<Rightarrow> context_difference list" where
  "compareServerVersion field a b =
     (if a = b then []
      else if b > a then [difference field (showInt a) (showInt b) SeveritySafeIgnore
        ''the server resource version increased without changing compared execution content'' ''continue'']
      else [difference field (showInt a) (showInt b) SeverityMustBlock
        ''the server resource version moved backwards'' ''repair_workspace_and_recapture''])"

definition driftTime :: "drift_env \<Rightarrow> time \<Rightarrow> gostring" where
  "driftTime e t = (if t = zeroTime then [] else case formatTime t of Some text \<Rightarrow> text | None \<Rightarrow> deFarTime e t)"

definition formatBool :: "bool \<Rightarrow> gostring" where
  "formatBool b = (if b then ''true'' else ''false'')"

definition compareIdentityFields :: "execution_context \<Rightarrow> execution_context \<Rightarrow> context_difference list" where
  "compareIdentityFields a b =
     compareString ''workspace.configured_path'' (wsConfigured (xcWorkspace a)) (wsConfigured (xcWorkspace b))
       SeverityMustBlock ''the configured project path changed'' ''regenerate_plan'' @
     compareString ''workspace.normalized_path'' (wsNormalized (xcWorkspace a)) (wsNormalized (xcWorkspace b))
       SeverityMustBlock ''the real project path changed'' ''regenerate_plan'' @
     compareString ''requirement.id'' (xcRequirement a) (xcRequirement b)
       SeverityMustBlock ''the plan now points to a different requirement'' ''regenerate_plan'' @
     compareString ''plan.id'' (xcPlan a) (xcPlan b)
       SeverityMustBlock ''the execution context points to a different plan'' ''regenerate_plan''"

definition compareVersionAndContentFields :: "execution_context \<Rightarrow> execution_context \<Rightarrow> context_difference list" where
  "compareVersionAndContentFields a b =
     noteIf (xcRequirementVersion a \<noteq> xcRequirementVersion b)
       (difference ''requirement.version'' (showInt (xcRequirementVersion a)) (showInt (xcRequirementVersion b))
         SeverityMustBlock ''the requirement version changed after planning'' ''regenerate_plan'') @
     compareString ''requirement.digest'' (xcRequirementDigest a) (xcRequirementDigest b)
       SeverityMustBlock ''the requirement content changed after planning'' ''regenerate_plan'' @
     noteIf (xcContentVersion a \<noteq> xcContentVersion b)
       (difference ''plan.content_version'' (showInt (xcContentVersion a)) (showInt (xcContentVersion b))
         SeverityMustBlock ''the executable plan content version changed'' ''regenerate_plan'') @
     compareString ''plan.spec_digest'' (xcSpecDigest a) (xcSpecDigest b)
       SeverityMustBlock ''the executable plan specification changed'' ''regenerate_plan'' @
     compareServerVersion ''plan.resource_version'' (xcPlanVersion a) (xcPlanVersion b) @
     compareServerVersion ''project.version'' (xcProjectVersion a) (xcProjectVersion b) @
     compareServerVersion ''config.version'' (xcConfigVersion a) (xcConfigVersion b)"

definition compareProviderAndSettingsFields :: "drift_env \<Rightarrow> execution_context \<Rightarrow> execution_context \<Rightarrow> context_difference list" where
  "compareProviderAndSettingsFields e a b =
     compareString ''provider.generation'' (xcGenerationProvider a) (xcGenerationProvider b)
       SeverityNeedsConfirmation ''the plan generation provider changed'' ''review_and_accept_or_regenerate'' @
     compareString ''provider.execution'' (xcExecutionProvider a) (xcExecutionProvider b)
       SeverityNeedsConfirmation ''the task execution provider changed'' ''review_and_accept_or_regenerate'' @
     compareString ''settings.key_execution_fields'' (rawText e (canonicalRaw (xcKeyFields a))) (rawText e (canonicalRaw (xcKeyFields b)))
       SeverityNeedsConfirmation ''execution-critical project settings changed'' ''review_and_accept_or_regenerate''"

section \<open>Workspaces\<close>

definition workspaceFilesEqual :: "drift_env \<Rightarrow> workspace_file list option \<Rightarrow> workspace_file list option \<Rightarrow> bool" where
  "workspaceFilesEqual e a b \<longleftrightarrow> stableJSON e a = stableJSON e b"

definition workspaceStateEqual :: "drift_env \<Rightarrow> workspace_snapshot \<Rightarrow> workspace_snapshot \<Rightarrow> bool" where
  "workspaceStateEqual e a b \<longleftrightarrow>
     wsNormalized a = wsNormalized b \<and> wsIsGit a = wsIsGit b \<and> wsWorkTree a = wsWorkTree b \<and> wsIdentity a = wsIdentity b \<and>
     wsBranch a = wsBranch b \<and> wsDetached a = wsDetached b \<and> wsHead a = wsHead b \<and> wsContentDigest a = wsContentDigest b \<and>
     workspaceFilesEqual e (wsConflicted a) (wsConflicted b)"

definition filesOf :: "workspace_file list option \<Rightarrow> workspace_file list" where
  "filesOf fs = (case fs of None \<Rightarrow> [] | Some xs \<Rightarrow> xs)"

definition dirtyChangeReason :: "gostring \<Rightarrow> workspace_file list option \<Rightarrow> workspace_file list option \<Rightarrow> gostring" where
  "dirtyChangeReason kind baseline current =
     (if list_ex (\<lambda>f. \<not> list_ex (\<lambda>g. wfPath g = wfPath f) (filesOf baseline)) (filesOf current)
      then ''new '' @ kind @ '' dirty files appeared'' else kind @ '' dirty file status or content changed'')"

text \<open>The fields of two valid workspaces, with the severity, the reason's end and the action that a matching checkpoint sets.\<close>

definition compareRepository :: "workspace_snapshot \<Rightarrow> workspace_snapshot \<Rightarrow> context_difference list" where
  "compareRepository a b =
     compareString ''git.work_tree'' (wsWorkTree a) (wsWorkTree b)
       SeverityMustBlock ''the Git work tree changed'' ''regenerate_plan'' @
     compareString ''git.repository_identity'' (wsIdentity a) (wsIdentity b)
       SeverityMustBlock ''the Git repository identity changed'' ''regenerate_plan'' @
     noteIf (wsIsGit a \<noteq> wsIsGit b) (difference ''git.is_repository'' (formatBool (wsIsGit a)) (formatBool (wsIsGit b))
       SeverityMustBlock ''the workspace Git repository status changed'' ''regenerate_plan'')"

definition compareHead ::
  "drift_severity \<Rightarrow> gostring \<Rightarrow> gostring \<Rightarrow> workspace_snapshot \<Rightarrow> workspace_snapshot \<Rightarrow> context_difference list" where
  "compareHead severity reasonEnd action a b =
     compareString ''git.branch'' (wsBranch a) (wsBranch b) severity (''the current branch changed'' @ reasonEnd) action @
     noteIf (wsDetached a \<noteq> wsDetached b) (difference ''git.detached_head'' (formatBool (wsDetached a)) (formatBool (wsDetached b))
       severity (''the workspace changed between a branch and detached HEAD'' @ reasonEnd) action) @
     compareString ''git.head'' (wsHead a) (wsHead b) severity (''the HEAD commit changed'' @ reasonEnd) action"

definition compareConflicts ::
  "drift_env \<Rightarrow> drift_severity \<Rightarrow> gostring \<Rightarrow> gostring \<Rightarrow> workspace_snapshot \<Rightarrow> workspace_snapshot \<Rightarrow> context_difference list" where
  "compareConflicts e severity reasonEnd action a b =
     (if filesOf (wsConflicted b) \<noteq> [] then
        [difference ''git.conflicted_files'' (stableJSON e (wsConflicted a)) (stableJSON e (wsConflicted b))
          SeverityMustBlock ''the workspace contains unresolved merge conflicts'' ''resolve_conflicts'']
      else noteIf (\<not> workspaceFilesEqual e (wsConflicted a) (wsConflicted b))
        (difference ''git.conflicted_files'' (stableJSON e (wsConflicted a)) (stableJSON e (wsConflicted b))
          severity (''the conflict set changed'' @ reasonEnd) action))"

definition compareDirty ::
  "drift_env \<Rightarrow> drift_severity \<Rightarrow> gostring \<Rightarrow> gostring \<Rightarrow> workspace_snapshot \<Rightarrow> workspace_snapshot \<Rightarrow> context_difference list" where
  "compareDirty e severity reasonEnd action a b =
     noteIf (\<not> workspaceFilesEqual e (wsTracked a) (wsTracked b))
       (difference ''git.tracked_changes'' (stableJSON e (wsTracked a)) (stableJSON e (wsTracked b)) severity
         (dirtyChangeReason ''tracked'' (wsTracked a) (wsTracked b) @ reasonEnd) action) @
     noteIf (\<not> workspaceFilesEqual e (wsUntracked a) (wsUntracked b))
       (difference ''git.untracked_files'' (stableJSON e (wsUntracked a)) (stableJSON e (wsUntracked b)) severity
         (dirtyChangeReason ''untracked'' (wsUntracked a) (wsUntracked b) @ reasonEnd) action) @
     compareString ''git.workspace_content_digest'' (wsContentDigest a) (wsContentDigest b) severity
       (''dirty file status or content changed'' @ reasonEnd) action"

definition matchesCheckpoint :: "drift_env \<Rightarrow> workspace_snapshot \<Rightarrow> workspace_snapshot option \<Rightarrow> bool" where
  "matchesCheckpoint e current checkpoint \<longleftrightarrow> (case checkpoint of None \<Rightarrow> False | Some c \<Rightarrow> workspaceStateEqual e current c)"

definition compareValid ::
  "drift_env \<Rightarrow> workspace_snapshot \<Rightarrow> workspace_snapshot \<Rightarrow> workspace_snapshot option \<Rightarrow> context_difference list" where
  "compareValid e a b checkpoint =
     (let matched = matchesCheckpoint e b checkpoint;
          severity = (if matched then SeveritySafeIgnore else SeverityNeedsConfirmation);
          reasonEnd = (if matched then ''; the current state exactly matches the latest successful task checkpoint'' else []);
          action = (if matched then ''continue'' else ''review_and_accept_or_regenerate'') in
      compareRepository a b @ compareHead severity reasonEnd action a b @ compareConflicts e severity reasonEnd action a b @
      compareDirty e severity reasonEnd action a b)"

definition compareWorkspaceSnapshots ::
  "drift_env \<Rightarrow> workspace_snapshot option \<Rightarrow> workspace_snapshot option \<Rightarrow> workspace_snapshot option \<Rightarrow> context_difference list" where
  "compareWorkspaceSnapshots e baseline current checkpoint =
     (case baseline of
        None \<Rightarrow> [difference ''workspace.baseline'' ''missing'' ''present'' SeverityMustBlock
          ''the workspace baseline is missing'' ''repair_workspace_and_recapture'']
      | Some a \<Rightarrow> (case current of
          None \<Rightarrow> [difference ''workspace.current'' ''present'' ''missing'' SeverityMustBlock
            ''the current workspace snapshot is missing'' ''repair_workspace_and_recapture'']
        | Some b \<Rightarrow> (case validateWorkspaceSnapshot a of
            Some err \<Rightarrow> [difference ''workspace.baseline_integrity'' ''valid'' err SeverityMustBlock
              ''the saved workspace snapshot is incomplete or damaged'' ''repair_workspace_and_recapture'']
          | None \<Rightarrow> (case validateWorkspaceSnapshot b of
              Some err \<Rightarrow> [difference ''workspace.current_integrity'' ''valid'' err SeverityMustBlock
                ''the workspace cannot be read safely'' ''repair_workspace_and_recapture'']
            | None \<Rightarrow> compareValid e a b checkpoint))))"

section \<open>The report\<close>

definition differenceBefore :: "context_difference \<Rightarrow> context_difference \<Rightarrow> bool" where
  "differenceBefore a b \<longleftrightarrow>
     (if cdField a \<noteq> cdField b then byteLess (cdField a) (cdField b)
      else if cdSeverity a \<noteq> cdSeverity b then severityRank (cdSeverity a) > severityRank (cdSeverity b)
      else byteLess (cdReason a) (cdReason b))"

definition worse :: "drift_severity \<Rightarrow> drift_severity \<Rightarrow> drift_severity" where
  "worse s t = (if severityRank t > severityRank s then t else s)"

definition worstSeverity :: "context_difference list \<Rightarrow> drift_severity" where
  "worstSeverity ds = foldl (\<lambda>s d. worse s (cdSeverity d)) SeverityClean ds"

definition holdsBack :: "drift_severity \<Rightarrow> bool" where
  "holdsBack s \<longleftrightarrow> s = SeverityNeedsConfirmation \<or> s = SeverityMustBlock"

definition differenceJson :: "context_difference \<Rightarrow> json" where
  "differenceJson d = JObj
     [(''field'', JStr (cdField d)), (''baselineValue'', JStr (cdBaseline d)), (''currentValue'', JStr (cdCurrent d)),
      (''severity'', JStr (severityText (cdSeverity d))), (''reason'', JStr (cdReason d)), (''recommendedAction'', JStr (cdAction d))]"

text \<open>The stable part of a context, as it is printed into the fingerprint; None where its settings cannot be printed.\<close>

definition stableJson :: "execution_context \<Rightarrow> json option" where
  "stableJson x =
     (let w = xcWorkspace x in
      map_option (\<lambda>settings. JObj
       [(''requirementId'', JStr (xcRequirement x)), (''requirementVersion'', JInt (xcRequirementVersion x)),
        (''requirementDigest'', JStr (xcRequirementDigest x)), (''planId'', JStr (xcPlan x)),
        (''planContentVersion'', JInt (xcContentVersion x)), (''planSpecDigest'', JStr (xcSpecDigest x)),
        (''keyExecutionFields'', settings), (''generationProvider'', JStr (xcGenerationProvider x)),
        (''executionProvider'', JStr (xcExecutionProvider x)), (''configuredPath'', JStr (wsConfigured w)),
        (''normalizedPath'', JStr (wsNormalized w)), (''gitWorkTree'', JStr (wsWorkTree w)),
        (''repositoryIdentity'', JStr (wsIdentity w)), (''gitBranch'', JStr (wsBranch w)), (''gitDetached'', JBool (wsDetached w)),
        (''gitHead'', JStr (wsHead w)), (''workspaceDigest'', JStr (wsContentDigest w)), (''conflictedFiles'', filesJson (wsConflicted w))])
       (case canonicalRaw (xcKeyFields x) of RawEmpty \<Rightarrow> Some JNull | RawValue v \<Rightarrow> Some v | RawInvalid \<Rightarrow> None))"

definition fingerprintJson :: "context_difference list \<Rightarrow> execution_context \<Rightarrow> json option" where
  "fingerprintJson ds current =
     map_option (\<lambda>ctx. JObj
       [(''differences'', JArr (map differenceJson (filter (\<lambda>d. holdsBack (cdSeverity d)) ds))), (''current'', ctx)])
       (stableJson current)"

definition digestJSON :: "drift_env \<Rightarrow> json option \<Rightarrow> gostring" where
  "digestJSON e v = sha e (case v of None \<Rightarrow> deMarshalError e | Some x \<Rightarrow> printJson e x)"

definition finishDriftReport :: "drift_env \<Rightarrow> context_difference list \<Rightarrow> execution_context \<Rightarrow> drift_report" where
  "finishDriftReport e ds current =
     (let sorted = sortBy differenceBefore ds; severity = worstSeverity sorted in
      \<lparr>drSeverity = severity, drDifferences = sorted, drFingerprint = digestJSON e (fingerprintJson sorted current),
       drAllowed = (severity \<noteq> SeverityNeedsConfirmation \<and> severity \<noteq> SeverityMustBlock)\<rparr>)"

definition contextDifferences :: "drift_env \<Rightarrow> execution_context \<Rightarrow> execution_context \<Rightarrow> execution_context option \<Rightarrow> context_difference list" where
  "contextDifferences e a b checkpoint =
     noteIf (xcCaptured a \<noteq> xcCaptured b) (difference ''snapshot.captured_at'' (driftTime e (xcCaptured a)) (driftTime e (xcCaptured b))
       SeveritySafeIgnore ''capture timestamps do not change execution semantics'' ''continue'') @
     compareIdentityFields a b @ compareVersionAndContentFields a b @ compareProviderAndSettingsFields e a b @
     compareWorkspaceSnapshots e (Some (xcWorkspace a)) (Some (xcWorkspace b))
       (case checkpoint of None \<Rightarrow> None
        | Some c \<Rightarrow> if validateWorkspaceSnapshot (xcWorkspace c) = None then Some (xcWorkspace c) else None)"

definition CompareExecutionContexts ::
  "drift_env \<Rightarrow> execution_context option \<Rightarrow> execution_context \<Rightarrow> execution_context option \<Rightarrow> drift_report" where
  "CompareExecutionContexts e baseline current checkpoint = finishDriftReport e
     (case baseline of
        None \<Rightarrow> [difference ''snapshot.baseline'' ''missing'' ''present'' SeverityMustBlock
          ''the plan has no execution baseline'' ''repair_workspace_and_recapture'']
      | Some a \<Rightarrow> (case validateExecutionContextSnapshot a of
          Some err \<Rightarrow> [difference ''snapshot.baseline_integrity'' ''valid'' err SeverityMustBlock
            ''the baseline snapshot is incomplete or damaged'' ''repair_workspace_and_recapture'']
        | None \<Rightarrow> (case validateExecutionContextSnapshot current of
            Some err \<Rightarrow> [difference ''snapshot.current_integrity'' ''valid'' err SeverityMustBlock
              ''the current execution context could not be read safely'' ''repair_workspace_and_recapture'']
          | None \<Rightarrow> contextDifferences e a current checkpoint))) current"

definition emptyContext :: execution_context where
  "emptyContext =
     \<lparr>xcId = nilUUID, xcKind = [], xcSequence = 0, xcCaptured = zeroTime, xcRequirement = nilUUID, xcRequirementVersion = 0,
      xcRequirementDigest = [], xcPlan = nilUUID, xcPlanVersion = 0, xcContentVersion = 0, xcSpecDigest = [], xcProjectVersion = 0,
      xcConfigVersion = 0, xcKeyFields = RawEmpty, xcGenerationProvider = [], xcExecutionProvider = [],
      xcWorkspace = emptyWorkspace zeroTime [], xcError = []\<rparr>"

definition CompareWorkspaceSnapshots ::
  "drift_env \<Rightarrow> workspace_snapshot option \<Rightarrow> workspace_snapshot option \<Rightarrow> workspace_snapshot option \<Rightarrow> drift_report" where
  "CompareWorkspaceSnapshots e baseline current checkpoint =
     finishDriftReport e (compareWorkspaceSnapshots e baseline current checkpoint)
       (case current of None \<Rightarrow> emptyContext | Some w \<Rightarrow> emptyContext\<lparr>xcCaptured := wsCaptured w, xcWorkspace := w\<rparr>)"

end
