(* ===== verification/DriftResults.thy ===== *)
theory DriftResults
  imports DriftCompare Steps
begin

text \<open>
  What the comparison of execution contexts guarantees: exactly when an agent may be started, what the
  fingerprint of a report stands for, and what a collected workspace is.
\<close>

section \<open>Severity\<close>

named_theorems free_simps \<open>when a list of differences holds nothing back\<close>

definition freeOf :: "context_difference list \<Rightarrow> bool" where
  "freeOf ds \<longleftrightarrow> list_all (\<lambda>d. \<not> holdsBack (cdSeverity d)) ds"

lemma holdsBack_rank: "holdsBack s \<longleftrightarrow> 2 \<le> severityRank s"
  by (cases s) (simp_all add: holdsBack_def severityRank_def)

lemma holdsBack_simps [simp]:
  "\<not> holdsBack SeverityClean" "\<not> holdsBack SeveritySafeIgnore" "holdsBack SeverityNeedsConfirmation" "holdsBack SeverityMustBlock"
  by (simp_all add: holdsBack_def)

lemma worse_rank: "severityRank (worse s t) = max (severityRank s) (severityRank t)"
  by (simp add: worse_def)

lemma worst_from: "holdsBack (foldl (\<lambda>s d. worse s (cdSeverity d)) s ds) \<longleftrightarrow> holdsBack s \<or> \<not> freeOf ds"
proof (induction ds arbitrary: s)
  case (Cons d ds)
  have "holdsBack (worse s (cdSeverity d)) \<longleftrightarrow> holdsBack s \<or> holdsBack (cdSeverity d)"
    by (simp add: holdsBack_rank worse_rank le_max_iff_disj)
  then show ?case using Cons by (auto simp: freeOf_def)
qed (simp add: freeOf_def)

lemma worst_free: "holdsBack (worstSeverity ds) \<longleftrightarrow> \<not> freeOf ds"
  by (simp add: worstSeverity_def worst_from)

lemma free_sorted: "freeOf (sortBy b ds) = freeOf ds"
  by (simp add: freeOf_def list_all_iff sortBy_set)

lemma allowed_free: "drAllowed (finishDriftReport e ds c) \<longleftrightarrow> freeOf ds"
  using worst_free [of "sortBy differenceBefore ds"]
  by (auto simp: finishDriftReport_def Let_def holdsBack_def free_sorted)

lemma free_lists [free_simps]:
  "freeOf []" "freeOf (d # ds) \<longleftrightarrow> \<not> holdsBack (cdSeverity d) \<and> freeOf ds" "freeOf (xs @ ys) \<longleftrightarrow> freeOf xs \<and> freeOf ys"
  by (simp_all add: freeOf_def)

lemma free_notes [free_simps]:
  "cdSeverity (difference f x y s r a) = s"
  "freeOf (noteIf b d) \<longleftrightarrow> \<not> b \<or> \<not> holdsBack (cdSeverity d)"
  "freeOf (compareString f x y s r a) \<longleftrightarrow> x = y \<or> \<not> holdsBack s"
  "freeOf (compareServerVersion f m n) \<longleftrightarrow> m \<le> n"
  by (auto simp: freeOf_def noteIf_def compareString_def difference_def compareServerVersion_def)

section \<open>When an agent may be started\<close>

text \<open>The parts of two contexts that no checkpoint excuses.\<close>

definition sameWork :: "drift_env \<Rightarrow> execution_context \<Rightarrow> execution_context \<Rightarrow> bool" where
  "sameWork e a b \<longleftrightarrow>
     xcRequirement a = xcRequirement b \<and> xcRequirementVersion a = xcRequirementVersion b \<and> xcRequirementDigest a = xcRequirementDigest b \<and>
     xcPlan a = xcPlan b \<and> xcContentVersion a = xcContentVersion b \<and> xcSpecDigest a = xcSpecDigest b \<and>
     xcGenerationProvider a = xcGenerationProvider b \<and> xcExecutionProvider a = xcExecutionProvider b \<and>
     rawText e (canonicalRaw (xcKeyFields a)) = rawText e (canonicalRaw (xcKeyFields b)) \<and>
     xcPlanVersion a \<le> xcPlanVersion b \<and> xcProjectVersion a \<le> xcProjectVersion b \<and> xcConfigVersion a \<le> xcConfigVersion b"

definition samePlace :: "workspace_snapshot \<Rightarrow> workspace_snapshot \<Rightarrow> bool" where
  "samePlace a b \<longleftrightarrow>
     wsConfigured a = wsConfigured b \<and> wsNormalized a = wsNormalized b \<and> wsWorkTree a = wsWorkTree b \<and>
     wsIdentity a = wsIdentity b \<and> wsIsGit a = wsIsGit b"

text \<open>The rest of a workspace: head, branch and the dirty files with their content.\<close>

definition sameContent :: "drift_env \<Rightarrow> workspace_snapshot \<Rightarrow> workspace_snapshot \<Rightarrow> bool" where
  "sameContent e a b \<longleftrightarrow>
     wsBranch a = wsBranch b \<and> wsDetached a = wsDetached b \<and> wsHead a = wsHead b \<and> wsContentDigest a = wsContentDigest b \<and>
     workspaceFilesEqual e (wsConflicted a) (wsConflicted b) \<and> workspaceFilesEqual e (wsTracked a) (wsTracked b) \<and>
     workspaceFilesEqual e (wsUntracked a) (wsUntracked b)"

lemma free_valid:
  "freeOf (compareValid e a b k) \<longleftrightarrow>
     wsWorkTree a = wsWorkTree b \<and> wsIdentity a = wsIdentity b \<and> wsIsGit a = wsIsGit b \<and> filesOf (wsConflicted b) = [] \<and>
     (matchesCheckpoint e b k \<or> sameContent e a b)"
  by (auto simp: compareValid_def compareRepository_def compareHead_def compareConflicts_def compareDirty_def Let_def
    free_simps sameContent_def)

lemma valid_workspace: "validateExecutionContextSnapshot x = None \<Longrightarrow> validateWorkspaceSnapshot (xcWorkspace x) = None"
  by (simp add: validateExecutionContextSnapshot_def split: if_splits)

lemma free_differences:
  assumes "validateExecutionContextSnapshot a = None" "validateExecutionContextSnapshot b = None"
  shows "freeOf (contextDifferences e a b k) \<longleftrightarrow>
     sameWork e a b \<and> samePlace (xcWorkspace a) (xcWorkspace b) \<and> filesOf (wsConflicted (xcWorkspace b)) = [] \<and>
     (sameContent e (xcWorkspace a) (xcWorkspace b) \<or>
      (\<exists>c. k = Some c \<and> validateWorkspaceSnapshot (xcWorkspace c) = None \<and> workspaceStateEqual e (xcWorkspace b) (xcWorkspace c)))"
  using assms [THEN valid_workspace]
  by (auto simp: contextDifferences_def compareIdentityFields_def compareVersionAndContentFields_def
    compareProviderAndSettingsFields_def compareWorkspaceSnapshots_def free_simps free_valid sameWork_def samePlace_def
    matchesCheckpoint_def split: option.splits)

lemma allowed_exact:
  "drAllowed (CompareExecutionContexts e baseline b k) \<longleftrightarrow>
     (\<exists>a. baseline = Some a \<and> validateExecutionContextSnapshot a = None \<and> validateExecutionContextSnapshot b = None \<and>
        sameWork e a b \<and> samePlace (xcWorkspace a) (xcWorkspace b) \<and> filesOf (wsConflicted (xcWorkspace b)) = [] \<and>
        (sameContent e (xcWorkspace a) (xcWorkspace b) \<or>
         (\<exists>c. k = Some c \<and> validateWorkspaceSnapshot (xcWorkspace c) = None \<and> workspaceStateEqual e (xcWorkspace b) (xcWorkspace c))))"
  by (cases baseline) (auto simp: CompareExecutionContexts_def allowed_free free_simps free_differences split: option.splits)

section \<open>The fingerprint\<close>

text \<open>What a fingerprint stands for beside the differences that hold an execution back: the fields listed here and no others.\<close>

definition sameStable :: "execution_context \<Rightarrow> execution_context \<Rightarrow> bool" where
  "sameStable a b \<longleftrightarrow>
     xcRequirement a = xcRequirement b \<and> xcRequirementVersion a = xcRequirementVersion b \<and> xcRequirementDigest a = xcRequirementDigest b \<and>
     xcPlan a = xcPlan b \<and> xcContentVersion a = xcContentVersion b \<and> xcSpecDigest a = xcSpecDigest b \<and>
     canonicalRaw (xcKeyFields a) = canonicalRaw (xcKeyFields b) \<and>
     xcGenerationProvider a = xcGenerationProvider b \<and> xcExecutionProvider a = xcExecutionProvider b \<and>
     (let v = xcWorkspace a; w = xcWorkspace b in wsConfigured v = wsConfigured w \<and> wsNormalized v = wsNormalized w \<and>
        wsWorkTree v = wsWorkTree w \<and> wsIdentity v = wsIdentity w \<and> wsBranch v = wsBranch w \<and> wsDetached v = wsDetached w \<and>
        wsHead v = wsHead w \<and> wsContentDigest v = wsContentDigest w \<and> wsConflicted v = wsConflicted w)"

definition heldBack :: "drift_report \<Rightarrow> context_difference list" where
  "heldBack r = filter (\<lambda>d. holdsBack (cdSeverity d)) (drDifferences r)"

lemma severityText_inj: "severityText a = severityText b \<longleftrightarrow> a = b"
  by (cases a; cases b) (simp_all add: severityText_def)

lemma inj_differenceJson: "inj differenceJson"
  by (rule injI) (simp add: differenceJson_def severityText_inj)

lemma inj_JStr: "inj JStr"
  by (rule injI) simp

lemma fileJson_inj: "fileJson a = fileJson b \<Longrightarrow> a = b"
  by (cases "wfOriginal a = []"; cases "wfOriginal b = []"; cases "wfEntries a = []"; cases "wfEntries b = []")
     (auto simp: fileJson_def memberUnlessEmpty_def listMember_def inj_map_eq_map [OF inj_JStr])

lemma filesJson_inj: "filesJson a = filesJson b \<longleftrightarrow> a = b"
proof -
  have "inj fileJson" by (rule injI) (rule fileJson_inj)
  then show ?thesis by (auto simp: filesJson_def inj_map_eq_map split: option.splits)
qed

lemma valid_settings:
  assumes "validateExecutionContextSnapshot x = None"
  obtains v where "canonicalRaw (xcKeyFields x) = RawValue v"
  using assms
  by (auto simp: validateExecutionContextSnapshot_def isObject_def canonicalRaw_def split: if_splits raw_json.splits)

lemma stableJson_eq:
  assumes "validateExecutionContextSnapshot a = None" "validateExecutionContextSnapshot b = None"
  shows "stableJson a = stableJson b \<longleftrightarrow> sameStable a b"
proof -
  obtain v where v: "canonicalRaw (xcKeyFields a) = RawValue v" using assms(1) by (rule valid_settings)
  obtain w where w: "canonicalRaw (xcKeyFields b) = RawValue w" using assms(2) by (rule valid_settings)
  show ?thesis by (simp add: stableJson_def sameStable_def Let_def v w filesJson_inj)
qed

lemma stableJson_some:
  assumes "validateExecutionContextSnapshot x = None"
  obtains v where "stableJson x = Some v"
proof -
  obtain v where "canonicalRaw (xcKeyFields x) = RawValue v" using assms by (rule valid_settings)
  then show ?thesis by (intro that) (simp add: stableJson_def Let_def)
qed

lemma fingerprint_value:
  assumes "validateExecutionContextSnapshot x = None"
  obtains v where "fingerprintJson ds x = Some v"
  using stableJson_some [OF assms] that by (auto simp: fingerprintJson_def)

lemma fingerprintJson_eq:
  assumes "validateExecutionContextSnapshot a = None" "validateExecutionContextSnapshot b = None"
  shows "fingerprintJson ds a = fingerprintJson es b \<longleftrightarrow>
     filter (\<lambda>d. holdsBack (cdSeverity d)) ds = filter (\<lambda>d. holdsBack (cdSeverity d)) es \<and> sameStable a b"
proof -
  obtain v where v: "stableJson a = Some v" using assms(1) by (rule stableJson_some)
  obtain w where w: "stableJson b = Some w" using assms(2) by (rule stableJson_some)
  have "v = w \<longleftrightarrow> sameStable a b" using stableJson_eq [OF assms] by (simp add: v w)
  then show ?thesis by (simp add: fingerprintJson_def v w inj_map_eq_map [OF inj_differenceJson])
qed

lemma report_fingerprint:
  "drFingerprint (CompareExecutionContexts e baseline c k) =
     digestJSON e (fingerprintJson (drDifferences (CompareExecutionContexts e baseline c k)) c)"
  by (simp add: CompareExecutionContexts_def finishDriftReport_def Let_def)

lemma fingerprint_stands_for:
  assumes "validateExecutionContextSnapshot a = None" "validateExecutionContextSnapshot b = None"
    and "inj_on (digestJSON e) {fingerprintJson ds a, fingerprintJson es b}"
  shows "digestJSON e (fingerprintJson ds a) = digestJSON e (fingerprintJson es b) \<longleftrightarrow>
     filter (\<lambda>d. holdsBack (cdSeverity d)) ds = filter (\<lambda>d. holdsBack (cdSeverity d)) es \<and> sameStable a b"
  using assms(3) fingerprintJson_eq [OF assms(1,2), of ds es] by (simp add: inj_on_def) metis

section \<open>What is collected\<close>

text \<open>A step that always ends with a value of this kind, and a step whose value, when there is one, is of this kind.\<close>

definition givesAll :: "'a io \<Rightarrow> ('a \<Rightarrow> bool) \<Rightarrow> bool" where
  "givesAll m P \<longleftrightarrow> (\<forall>s. \<exists>s1 x. m s = (s1, Inr x) \<and> P x)"

definition mayGive :: "'a io \<Rightarrow> ('a \<Rightarrow> bool) \<Rightarrow> bool" where
  "mayGive m P \<longleftrightarrow> (\<forall>s s1 x. m s = (s1, Inr x) \<longrightarrow> P x)"

lemma givesAll_pure: "P x \<Longrightarrow> givesAll (pureIO x) P"
  by (simp add: givesAll_def io_defs)

lemma givesAll_bind: "givesAll m Q \<Longrightarrow> (\<And>x. Q x \<Longrightarrow> givesAll (k x) P) \<Longrightarrow> givesAll (bindIO m k) P"
  unfolding givesAll_def bindIO_def by (metis (mono_tags, lifting) case_prod_conv sum.simps(6))

lemma givesAll_attempt: "mayGive m Q \<Longrightarrow> givesAll (attemptIO m) (\<lambda>r. case r of Inl _ \<Rightarrow> True | Inr x \<Rightarrow> Q x)"
  unfolding givesAll_def mayGive_def attemptIO_def by (auto split: prod.splits sum.splits)

lemma mayGive_any: "mayGive m (\<lambda>_. True)"
  by (simp add: mayGive_def)

lemma givesAll_captureStep:
  assumes "mayGive m Q" "\<And>err. P (workspaceCaptureFailure e w err, Some err)" "\<And>x. Q x \<Longrightarrow> givesAll (k x) P"
  shows "givesAll (captureStep e w m k) P"
  unfolding captureStep_def
  by (rule givesAll_bind [OF givesAll_attempt [OF assms(1)]]) (auto intro: givesAll_pure assms split: sum.splits)

lemma givesAll_marker: "givesAll (findGitMarker h es) (\<lambda>_. True)"
proof (induction es)
  case Nil
  show ?case by (subst findGitMarker.simps) (simp add: givesAll_def io_defs osLstat_def Let_def)
next
  case (Cons e es)
  then show ?case by (subst findGitMarker.simps) (simp add: givesAll_def io_defs osLstat_def Let_def)
qed

text \<open>Trimming keeps a byte that occurs in no white space.\<close>

lemma trimL_keeps: "c \<in> set s \<Longrightarrow> \<forall>w \<in> set seqs. w \<noteq> [] \<and> c \<notin> set w \<Longrightarrow> c \<in> set (trimL seqs s)"
proof (induction seqs s rule: trimL.induct)
  case (2 seqs d s)
  show ?case
  proof (cases "find (\<lambda>w. hasPrefix (d # s) w) seqs")
    case (Some w)
    then have w: "hasPrefix (d # s) w" "w \<in> set seqs" by (auto simp: find_Some_iff)
    then obtain t where t: "d # s = w @ t" by (auto simp: hasPrefix_iff)
    have "c \<in> set t" using 2 w t by (metis Un_iff set_append)
    moreover have "w \<noteq> []" using 2 w by blast
    ultimately have "c \<in> set (drop (length w - 1) s)" using t by (cases w) auto
    then show ?thesis using 2 Some by simp
  qed (use 2 in simp)
qed simp

lemma trimSpace_keeps_slash: "slash \<in> set s \<Longrightarrow> slash \<in> set (trimSpace s)"
proof -
  have "list_all (\<lambda>w. w \<noteq> [] \<and> slash \<notin> set w) spaceSeqs" by code_simp
  then have no: "\<forall>w \<in> set spaceSeqs. w \<noteq> [] \<and> slash \<notin> set w"
    "\<forall>w \<in> set (map rev spaceSeqs). w \<noteq> [] \<and> slash \<notin> set w"
    by (simp_all add: list_all_iff)
  assume "slash \<in> set s"
  then show ?thesis by (simp add: trimSpace_def trimR_def trimL_keeps no del: set_map)
qed

lemma isAbs_not_blank: "isAbs p \<Longrightarrow> trimSpace p \<noteq> []"
  using trimSpace_keeps_slash [of p] by (auto simp: isAbs_def split: list.splits)

text \<open>The paths that \<^verbatim>\<open>security\<close> returns on the host.\<close>

lemma inspect_on_host:
  assumes "InspectExistingPath (hostFs h s) p = Inr i"
  shows "trimSpace p \<noteq> []" "isAbs (piReal i)"
proof -
  have r: "isAbs r" if "fsEval (hostFs h s) q = Some r" for q r
    using that by (auto simp: hostFs_def renderPath_elems(1) isAbs_def renderPath_def split: if_splits found.splits)
  show "trimSpace p \<noteq> []" using assms by (auto simp: InspectExistingPath_def Let_def split: if_splits)
  show "isAbs (piReal i)" using assms
    by (auto simp: InspectExistingPath_def Let_def goAbs_def r split: if_splits option.splits)
qed

lemma pathIO_inspect:
  "mayGive (pathIO h (\<lambda>fs. InspectExistingPath fs p)) (\<lambda>i. trimSpace p \<noteq> [] \<and> isAbs (piReal i))"
  by (auto simp: mayGive_def pathIO_def liftIO_def dest: inspect_on_host split: sum.splits)

lemma pathIO_normalize: "mayGive (pathIO h (\<lambda>fs. NormalizeExistingPath fs p)) isAbs"
  by (auto simp: mayGive_def pathIO_def liftIO_def NormalizeExistingPath_def bindR_Inr_iff dest: inspect_on_host(2) split: sum.splits)

text \<open>A captured workspace without its digest, and the result of a capture.\<close>

definition soundWorkspace :: "workspace_snapshot \<Rightarrow> bool" where
  "soundWorkspace w \<longleftrightarrow>
     wsError w = [] \<and> wsReadable w \<and> trimSpace (wsConfigured w) \<noteq> [] \<and> trimSpace (wsNormalized w) \<noteq> [] \<and>
     (wsIsGit w \<longrightarrow> trimSpace (wsWorkTree w) \<noteq> [] \<and> trimSpace (wsIdentity w) \<noteq> [] \<and>
       (wsBranch w = [] \<and> wsHead w \<noteq> [] \<longrightarrow> wsDetached w))"

definition captureTold :: "drift_env \<Rightarrow> workspace_capture \<Rightarrow> bool" where
  "captureTold e c \<longleftrightarrow>
     validateWorkspaceSnapshot (fst c) = map_option (deError e) (snd c) \<and> (snd c \<noteq> None \<longrightarrow> \<not> wsReadable (fst c))"

lemma sound_valid: "soundWorkspace w \<Longrightarrow> isSHA256 (wsContentDigest w) \<Longrightarrow> validateWorkspaceSnapshot w = None"
  by (auto simp: soundWorkspace_def validateWorkspaceSnapshot_def)

text \<open>What is relied on: SHA-256 values, errors with a text, and a name from \<^verbatim>\<open>git symbolic-ref --short\<close>.\<close>

definition namedBranch :: "gostring list" where
  "namedBranch = [''symbolic-ref'', ''--quiet'', ''--short'', ''HEAD'']"

definition driftHost :: "drift_env \<Rightarrow> bool" where
  "driftHost e \<longleftrightarrow> (\<forall>x. isSHA256 (sha e x)) \<and> (\<forall>err. trimSpace (deError e err) \<noteq> []) \<and>
     (\<forall>history d c out. hoGit (deHost e) history d c = Some out \<and> drop 2 (gmArgs c) = namedBranch \<longrightarrow> trimSpace out \<noteq> [])"

lemma told_failure: "driftHost e \<Longrightarrow> captureTold e (workspaceCaptureFailure e w err, Some err)"
  by (simp add: captureTold_def workspaceCaptureFailure_def validateWorkspaceSnapshot_def driftHost_def)

lemma digest_sha: "driftHost e \<Longrightarrow> isSHA256 (workspaceDigest e t u c err)"
  by (simp add: workspaceDigest_def driftHost_def)

lemma told_sound: "soundWorkspace w \<Longrightarrow> isSHA256 (wsContentDigest w) \<Longrightarrow> captureTold e (w, None)"
  by (simp add: captureTold_def sound_valid)

lemma branch_given:
  "driftHost e \<Longrightarrow> mayGive (gitQuery (deHost e) ws [''symbolic-ref'', ''--quiet'', ''--short'', ''HEAD'']) (\<lambda>out. trimSpace out \<noteq> [])"
  unfolding mayGive_def
proof (intro allI impI)
  fix s s1 out
  let ?c = "\<lparr>gmEnv = [''GIT_OPTIONAL_LOCKS=0''], gmInput = [], gmArgs = [''-C'', ws] @ namedBranch\<rparr>"
  assume e: "driftHost e"
    and "gitQuery (deHost e) ws [''symbolic-ref'', ''--quiet'', ''--short'', ''HEAD''] s = (s1, Inr out)"
  then have "hoGit (deHost e) (hsHistory s) (hsDisk s) ?c = Some out"
    by (simp add: gitQuery_def validateReadOnlyGitQuery_def gitCall_def namedBranch_def split: option.splits)
  moreover have "drop 2 (gmArgs ?c) = namedBranch" by simp
  ultimately show "trimSpace out \<noteq> []" using e unfolding driftHost_def by blast
qed

lemma sound_addRecord: "soundWorkspace w \<Longrightarrow> soundWorkspace (addRecord status f w)"
  by (simp add: soundWorkspace_def addRecord_def)

lemma told_step:
  "driftHost e \<Longrightarrow> mayGive m Q \<Longrightarrow> (\<And>x. Q x \<Longrightarrow> givesAll (k x) (captureTold e)) \<Longrightarrow>
   givesAll (captureStep e w m k) (captureTold e)"
  by (rule givesAll_captureStep [where Q = Q]) (auto intro: told_failure)

lemma told_records: "driftHost e \<Longrightarrow> soundWorkspace w \<Longrightarrow> givesAll (collectRecords e index rs w) (captureTold e)"
proof (induction rs arbitrary: w)
  case Nil
  then show ?case
    by (auto simp: Let_def soundWorkspace_def digest_sha intro!: givesAll_pure told_sound)
next
  case (Cons r rs)
  show ?case unfolding collectRecords.simps
    by (rule told_step [OF Cons.prems(1) mayGive_any]) (intro Cons sound_addRecord)
qed

lemma told_status: "driftHost e \<Longrightarrow> soundWorkspace w \<Longrightarrow> givesAll (collectStatus e real w) (captureTold e)"
  unfolding collectStatus_def Let_def
  by (intro told_step [OF _ mayGive_any] told_records) (simp_all add: soundWorkspace_def)

lemma sound_headOf:
  "soundWorkspace w \<Longrightarrow> wsHead w = [] \<Longrightarrow> (\<And>out. branch = Inr out \<Longrightarrow> trimSpace out \<noteq> []) \<Longrightarrow> soundWorkspace (headOf head branch w)"
  by (auto simp: soundWorkspace_def headOf_def Let_def split: sum.splits)

lemma told_repository:
  assumes "driftHost e" "soundWorkspace w" "wsHead w = []"
  shows "givesAll (collectRepository e real out w) (captureTold e)"
  unfolding collectRepository_def Let_def
  apply (rule told_step [OF assms(1) pathIO_inspect])
  apply (rule told_step [OF assms(1) mayGive_any])
  apply (rule told_step [OF assms(1) pathIO_normalize])
  apply (rule givesAll_bind [OF givesAll_attempt [OF mayGive_any]])
  apply (rule givesAll_bind [OF givesAll_attempt [OF mayGive_any]])
  apply (rule givesAll_bind [OF givesAll_attempt [OF branch_given [OF assms(1)]]])
  apply (rule told_status [OF assms(1)], rule sound_headOf)
  using assms(2,3) by (auto simp: soundWorkspace_def isAbs_not_blank split: sum.splits)

lemma told_collect: "driftHost e \<Longrightarrow> givesAll (CollectWorkspaceSnapshot e now configured) (captureTold e)"
  unfolding CollectWorkspaceSnapshot_def Let_def
  apply (rule told_step [OF _ pathIO_inspect], assumption)
  apply (rule told_step [OF _ mayGive_any], assumption)
  apply (rule givesAll_bind [OF givesAll_attempt [OF mayGive_any]])
  subgoal for i u root
  proof (cases root)
    case (Inl err)
    assume e: "driftHost e" and i: "trimSpace configured \<noteq> [] \<and> isAbs (piReal i)"
    show ?thesis using e i
      by (auto simp: Inl emptyWorkspace_def soundWorkspace_def isAbs_not_blank digest_sha
        intro!: givesAll_bind [OF givesAll_marker] givesAll_pure told_failure told_sound)
  next
    case (Inr out)
    assume e: "driftHost e" and i: "trimSpace configured \<noteq> [] \<and> isAbs (piReal i)"
    show ?thesis using e i
      by (auto simp: Inr emptyWorkspace_def soundWorkspace_def isAbs_not_blank intro!: told_repository)
  qed
  done

text \<open>Nothing is changed on the way.\<close>

lemma quiet_captureStep [quiet_steps]: "quiet m \<Longrightarrow> (\<And>x. quiet (k x)) \<Longrightarrow> quiet (captureStep e w m k)"
  unfolding captureStep_def by (intro quiet_steps)

lemma quiet_gitQuery [quiet_steps]: "quiet (gitQuery h ws args)"
  unfolding gitQuery_def by (intro quiet_steps)

lemma quiet_nodes [quiet_steps]: "quiet (osReadNode h p)" "quiet (lstatInfo e p)"
  unfolding osReadNode_def lstatInfo_def
  by (rule quiet_call, auto simp: onLocation_def split: found.splits option.splits node.splits) (simp add: quiet_def)

lemma quiet_fileState [quiet_steps]: "quiet (readFileState e f p)" "quiet (collectFileState e root r entries)"
proof -
  show q: "quiet (readFileState e f p)" for f p
    unfolding readFileState_def Let_def by (intro quiet_steps) (auto intro!: quiet_steps split: option.splits node.splits)
  show "quiet (collectFileState e root r entries)"
    unfolding collectFileState_def Let_def by (intro quiet_steps q)
qed

lemma quiet_parseOr [quiet_steps]: "quiet (parseOr t r)"
  by (simp add: parseOr_def quiet_basic split: option.splits)

lemma quiet_records [quiet_steps]: "quiet (collectRecords e index rs w)"
  by (induction rs arbitrary: w) (auto simp: Let_def intro!: quiet_steps)

lemma quiet_marker [quiet_steps]: "quiet (findGitMarker h es)"
  by (induction es) (subst findGitMarker.simps, auto simp: Let_def intro!: quiet_steps)+

lemma quiet_collect: "quiet (CollectWorkspaceSnapshot e now configured)"
  unfolding CollectWorkspaceSnapshot_def collectRepository_def collectStatus_def readableDirectory_def Let_def
  by (intro quiet_steps)

lemma literal_texts:
  "trimSpace ''requirement and plan identities are required'' \<noteq> []" "trimSpace ''snapshot versions must be positive'' \<noteq> []"
  "trimSpace ''requirement and plan digests must be SHA-256 values'' \<noteq> []"
  "trimSpace ''generation and execution providers are required'' \<noteq> []"
  "trimSpace ''key execution fields must be a JSON object'' \<noteq> []"
  by (subst trimSpace_tight, simp add: tight_def, simp)+

lemma context_told:
  assumes "validateExecutionContextSnapshot x = Some text" "validateWorkspaceSnapshot (xcWorkspace x) = None" "xcError x = []"
  shows "validateExecutionContextSnapshot (x\<lparr>xcError := text\<rparr>) = Some text"
proof -
  have "trimSpace text \<noteq> []"
    using assms literal_texts by (auto simp: validateExecutionContextSnapshot_def split: if_splits)
  then show ?thesis by (simp add: validateExecutionContextSnapshot_def)
qed

lemma collect_result:
  assumes "driftHost e"
  obtains s1 w err where "CollectWorkspaceSnapshot e now p s = (s1, Inr (w, err))" "hsDisk s1 = hsDisk s"
    "validateWorkspaceSnapshot w = map_option (deError e) err" "wsReadable w \<longleftrightarrow> err = None"
proof -
  obtain s1 w err where c: "CollectWorkspaceSnapshot e now p s = (s1, Inr (w, err))" and t: "captureTold e (w, err)"
    using told_collect [OF assms] unfolding givesAll_def by (metis surj_pair)
  have "hsDisk s1 = hsDisk s" using quietD [OF quiet_collect c] .
  moreover have "wsReadable w \<longleftrightarrow> err = None"
    using t by (cases err) (auto simp: captureTold_def validateWorkspaceSnapshot_def split: if_splits)
  ultimately show thesis using that c t by (simp add: captureTold_def)
qed

lemma context_result:
  assumes "driftHost e"
  obtains s1 x err where "CollectExecutionContext e now i s = (s1, Inr (x, err))" "hsDisk s1 = hsDisk s"
    "validateExecutionContextSnapshot x = err"
proof -
  obtain s1 w err where c: "CollectWorkspaceSnapshot e now (inWorkspacePath i) s = (s1, Inr (w, err))" "hsDisk s1 = hsDisk s"
    "validateWorkspaceSnapshot w = map_option (deError e) err"
    using collect_result [OF assms] by metis
  show thesis
  proof (cases err)
    case None
    have "xcWorkspace (contextOf i w) = w" "xcError (contextOf i w) = []" by (simp_all add: contextOf_def)
    with None c have "validateExecutionContextSnapshot (contextOf i w) = Some t \<Longrightarrow>
        validateExecutionContextSnapshot (contextOf i w\<lparr>xcError := t\<rparr>) = Some t" for t
      by (intro context_told) simp_all
    with None c that show ?thesis
      by (cases "validateExecutionContextSnapshot (contextOf i w)") (simp_all add: CollectExecutionContext_def io_defs Let_def)
  next
    case (Some g)
    have "trimSpace (deError e g) \<noteq> []" using assms by (simp add: driftHost_def)
    with Some c that show ?thesis
      by (simp add: CollectExecutionContext_def io_defs Let_def validateExecutionContextSnapshot_def)
  qed
qed

section \<open>Properties\<close>

text \<open>C6. An agent may be started exactly when there is a baseline, both contexts are valid, requirement, plan, providers
  and settings are the same, no server version moved backwards, the workspace is in the same place without an unresolved
  conflict, and head, branch and dirty files are as they were, or exactly as a valid task checkpoint has them.\<close>

lemma agent_allowed_exactly:
  "drAllowed (CompareExecutionContexts e baseline current checkpoint) \<longleftrightarrow>
     (\<exists>a. baseline = Some a \<and> validateExecutionContextSnapshot a = None \<and> validateExecutionContextSnapshot current = None \<and>
        sameWork e a current \<and> samePlace (xcWorkspace a) (xcWorkspace current) \<and> filesOf (wsConflicted (xcWorkspace current)) = [] \<and>
        (sameContent e (xcWorkspace a) (xcWorkspace current) \<or>
         (\<exists>c. checkpoint = Some c \<and> validateWorkspaceSnapshot (xcWorkspace c) = None \<and>
            workspaceStateEqual e (xcWorkspace current) (xcWorkspace c))))"
  by (rule allowed_exact)

text \<open>C27. Unless the printer or SHA-256 maps the two printed values to one, the reports of two valid contexts have the
  same fingerprint exactly when they hold the same differences back and the contexts agree in the listed fields: id,
  version and digest of the requirement; id, content version and specification digest of the plan; the settings in
  canonical form; the generation and execution provider; and of the workspace the configured and the real path, the work
  tree, the identity of the repository, branch and whether it is detached, head, content digest and conflicted files.
  Nothing else of a context is covered: neither capture times and errors, id, kind and number of the snapshot, and the
  versions of plan, project and configuration, nor the absolute path, the Git directory, the flags for a Git repository and for readability, the lists of tracked and
  untracked files and the status digest of the workspace.\<close>

lemma fingerprint_exact:
  assumes "r1 = CompareExecutionContexts e b1 c1 k1" "r2 = CompareExecutionContexts e b2 c2 k2"
    and "validateExecutionContextSnapshot c1 = None" "validateExecutionContextSnapshot c2 = None"
    and "inj_on (digestJSON e) {fingerprintJson (drDifferences r1) c1, fingerprintJson (drDifferences r2) c2}"
  shows "drFingerprint r1 = drFingerprint r2 \<longleftrightarrow> heldBack r1 = heldBack r2 \<and> sameStable c1 c2"
  using fingerprint_stands_for [OF assms(3-5)] by (simp add: assms(1,2) report_fingerprint heldBack_def)

text \<open>C23. Collecting a workspace changes nothing and always ends: with a valid workspace when no error is reported, and
  otherwise with one that is marked unreadable and that fails its check with the reported error; a collected context is
  valid exactly when no error is reported, and fails its check with the reported error.\<close>

lemma collected_as_reported:
  assumes "driftHost e"
  shows "(\<exists>s1 w err. CollectWorkspaceSnapshot e now p s = (s1, Inr (w, err)) \<and> hsDisk s1 = hsDisk s \<and>
       validateWorkspaceSnapshot w = map_option (deError e) err \<and> (wsReadable w \<longleftrightarrow> err = None)) \<and>
     (\<exists>s1 x err. CollectExecutionContext e now i s = (s1, Inr (x, err)) \<and> hsDisk s1 = hsDisk s \<and>
       validateExecutionContextSnapshot x = err)"
proof (rule conjI)
  show "\<exists>s1 w err. CollectWorkspaceSnapshot e now p s = (s1, Inr (w, err)) \<and> hsDisk s1 = hsDisk s \<and>
     validateWorkspaceSnapshot w = map_option (deError e) err \<and> (wsReadable w \<longleftrightarrow> err = None)"
    using collect_result [OF assms] by metis
  show "\<exists>s1 x err. CollectExecutionContext e now i s = (s1, Inr (x, err)) \<and> hsDisk s1 = hsDisk s \<and>
     validateExecutionContextSnapshot x = err"
    using context_result [OF assms] by metis
qed

section \<open>A finding\<close>

text \<open>A stored snapshot keeps the digest of the status text, a collected workspace another digest: outside Git or with nothing
  dirty the context of the row and the fresh one always differ, so an unchanged workspace needs a confirmation.\<close>

lemma stored_baseline_always_drifts:
  assumes "snGitDigest n = sha e []" "wsContentDigest (xcWorkspace c) = workspaceDigest e None None None []"
    and "sha e [] \<noteq> sha e (printJson e (JObj []))"
  shows "\<not> drAllowed (CompareExecutionContexts e (Some (ExecutionContextFromPlanSnapshot t n)) c None)"
  using assms
  by (auto simp: allowed_exact sameContent_def ExecutionContextFromPlanSnapshot_def workspaceDigest_def filesMember_def
    memberUnlessEmpty_def)

section \<open>Examples\<close>

definition exDigest :: gostring where
  "exDigest = replicate 64 CHR ''a''"

definition exDriftHost :: host where
  "exDriftHost = \<lparr>hoCwd = ''/'', hoGit = (\<lambda>_ _ c. if drop 2 (gmArgs c) = namedBranch then Some ''main'' else None), hoFault = (\<lambda>_ _. False),
     hoRandom = (\<lambda>_. 7), hoWalk = (\<lambda>_ ks. ks), hoTempDir = ''/tmp'', hoNow = (\<lambda>_. []),
     hoSha256 = (\<lambda>x. if x = ''b'' then replicate 64 CHR ''b'' else exDigest),
     hoPrint = (\<lambda>v. case v of JObj ((_, JArr (_ # _)) # _) \<Rightarrow> ''b'' | _ \<Rightarrow> ''a'')\<rparr>"

definition exDrift :: drift_env where
  "exDrift = \<lparr>deHost = exDriftHost, deError = (\<lambda>_. ''failed''), deInfo = (\<lambda>_. (0, [])), deMarshalError = ''invalid'', deRaw = [],
     deFarTime = (\<lambda>_. [])\<rparr>"

definition exContext :: execution_context where
  "exContext =
     \<lparr>xcId = nilUUID, xcKind = ''generation_baseline'', xcSequence = 1, xcCaptured = 1, xcRequirement = ''r'', xcRequirementVersion = 1,
      xcRequirementDigest = exDigest, xcPlan = ''p'', xcPlanVersion = 1, xcContentVersion = 1, xcSpecDigest = exDigest,
      xcProjectVersion = 1, xcConfigVersion = 1, xcKeyFields = RawValue (JObj []), xcGenerationProvider = ''codex'',
      xcExecutionProvider = ''codex'',
      xcWorkspace = (emptyWorkspace 1 ''/w'')\<lparr>wsNormalized := ''/w'', wsReadable := True, wsIsGit := True, wsWorkTree := ''/w'',
        wsIdentity := ''/w/.git'', wsBranch := ''main'', wsHead := ''1'', wsContentDigest := exDigest\<rparr>,
      xcError = []\<rparr>"

text \<open>A later capture with a newer plan row, and one with another head.\<close>

definition exLater :: execution_context where
  "exLater = exContext\<lparr>xcCaptured := 2, xcPlanVersion := 2\<rparr>"

definition exMoved :: execution_context where
  "exMoved = exContext\<lparr>xcWorkspace := (xcWorkspace exContext)\<lparr>wsHead := ''2''\<rparr>\<rparr>"

abbreviation exReport :: "execution_context \<Rightarrow> drift_report" where
  "exReport c \<equiv> CompareExecutionContexts exDrift (Some exContext) c None"

lemmas compare_defs = compareIdentityFields_def compareVersionAndContentFields_def compareProviderAndSettingsFields_def
  compareWorkspaceSnapshots_def compareValid_def compareRepository_def compareHead_def compareConflicts_def compareDirty_def
  compareString_def compareServerVersion_def noteIf_def matchesCheckpoint_def workspaceFilesEqual_def Let_def

lemma exValid:
  "validateExecutionContextSnapshot exContext = None" "validateExecutionContextSnapshot exLater = None"
  "validateExecutionContextSnapshot exMoved = None"
  by code_simp+

lemma exDifferences:
  "contextDifferences exDrift exContext exLater None =
     [difference ''snapshot.captured_at'' (driftTime exDrift 1) (driftTime exDrift 2) SeveritySafeIgnore
        ''capture timestamps do not change execution semantics'' ''continue'',
      difference ''plan.resource_version'' ''1'' ''2'' SeveritySafeIgnore
        ''the server resource version increased without changing compared execution content'' ''continue'']"
  "contextDifferences exDrift exContext exMoved None =
     [difference ''git.head'' ''1'' ''2'' SeverityNeedsConfirmation ''the HEAD commit changed'' ''review_and_accept_or_regenerate'']"
proof -
  have n: "showInt 1 = ''1''" "showInt 2 = ''2''" by code_simp+
  note w = exValid [THEN valid_workspace]
  show "contextDifferences exDrift exContext exLater None =
     [difference ''snapshot.captured_at'' (driftTime exDrift 1) (driftTime exDrift 2) SeveritySafeIgnore
        ''capture timestamps do not change execution semantics'' ''continue'',
      difference ''plan.resource_version'' ''1'' ''2'' SeveritySafeIgnore
        ''the server resource version increased without changing compared execution content'' ''continue'']"
    using w(1,2) by (simp add: contextDifferences_def compare_defs exLater_def n) (simp add: exContext_def n emptyWorkspace_def filesOf_def)
  show "contextDifferences exDrift exContext exMoved None =
     [difference ''git.head'' ''1'' ''2'' SeverityNeedsConfirmation ''the HEAD commit changed'' ''review_and_accept_or_regenerate'']"
    using w(1,3) by (simp add: contextDifferences_def compare_defs exMoved_def n) (simp add: exContext_def n emptyWorkspace_def filesOf_def)
qed

lemma exReport_later:
  "exReport exLater = finishDriftReport exDrift (contextDifferences exDrift exContext exLater None) exLater"
  "exReport exMoved = finishDriftReport exDrift (contextDifferences exDrift exContext exMoved None) exMoved"
  by (simp_all add: CompareExecutionContexts_def exValid)

lemma exReports: "drAllowed (exReport exLater)" "\<not> drAllowed (exReport exMoved)"
  by (simp_all add: exReport_later allowed_free exDifferences free_simps)

lemma exFingerprints:
  "digestJSON exDrift (fingerprintJson (drDifferences (exReport exLater)) exLater) = exDigest"
  "digestJSON exDrift (fingerprintJson (drDifferences (exReport exMoved)) exMoved) = replicate 64 CHR ''b''"
  by (simp_all add: exReport_later exDifferences finishDriftReport_def sortBy_def Let_def)
     (simp_all add: fingerprintJson_def stableJson_def digestJSON_def exDrift_def exDriftHost_def difference_def
        differenceBefore_def exLater_def exMoved_def exContext_def canonicalRaw_def Let_def)

lemma fingerprint_exact_witness:
  "drFingerprint (exReport exMoved) \<noteq> drFingerprint (exReport exLater)"
proof -
  have "inj_on (digestJSON exDrift)
      {fingerprintJson (drDifferences (exReport exMoved)) exMoved, fingerprintJson (drDifferences (exReport exLater)) exLater}"
    by (simp add: inj_on_def exFingerprints exDigest_def)
  moreover have "\<not> sameStable exMoved exLater" by code_simp
  ultimately show ?thesis
    using fingerprint_exact [OF refl refl exValid(3,2), of exDrift "Some exContext" None "Some exContext" None] by simp
qed

lemma exDriftHost_ok: "driftHost exDrift"
proof -
  have "isSHA256 exDigest" "isSHA256 (replicate 64 CHR ''b'')" by code_simp+
  moreover have "trimSpace ''failed'' = ''failed''" "trimSpace ''main'' = ''main''" by code_simp+
  ultimately show ?thesis by (auto simp: driftHost_def exDrift_def exDriftHost_def split: if_splits)
qed

lemma collected_as_reported_witness:
  "\<exists>s1 w err. CollectWorkspaceSnapshot exDrift 5 ''/w'' \<lparr>hsDisk = [([''w''], NDir)], hsHistory = []\<rparr> = (s1, Inr (w, err)) \<and>
     validateWorkspaceSnapshot w = map_option (\<lambda>_. ''failed'') err"
proof -
  have "deError exDrift = (\<lambda>_. ''failed'')" by (simp add: exDrift_def)
  then show ?thesis
    using conjunct1 [OF collected_as_reported [OF exDriftHost_ok], of 5 "''/w''" "\<lparr>hsDisk = [([''w''], NDir)], hsHistory = []\<rparr>"]
    by metis
qed

end
