(* ===== verification/AgentOutput.thy ===== *)
theory AgentOutput
  imports Snapshot
begin

text \<open>
  \<^verbatim>\<open>agent/agent.go\<close>, the reading side: the bounded capture of what an agent prints, and the parser
  that reads its log line by line and collects tokens, cost, commands and their results. The JSON lexer,
  the range of floating point numbers and \<^verbatim>\<open>time.Parse\<close> are parameters; counters are 64 bits wide.
\<close>

section \<open>Capture\<close>

record limited_capture =
  lcData :: gostring
  lcLimit :: int
  lcTruncated :: bool

definition limitedWrite :: "gostring \<Rightarrow> limited_capture \<Rightarrow> limited_capture" where
  "limitedWrite p w =
     (let remaining = lcLimit w - int (length (lcData w)) in
      if remaining > 0 then
        (if int (length p) > remaining then w\<lparr>lcData := lcData w @ take (nat remaining) p, lcTruncated := True\<rparr>
         else w\<lparr>lcData := lcData w @ p\<rparr>)
      else if p \<noteq> [] then w\<lparr>lcTruncated := True\<rparr> else w)"

text \<open>The shared writer of both output streams; the log may refuse a write, the capture never does.\<close>

record stream_capture =
  scLog :: gostring
  scCapture :: limited_capture
  scBytes :: int

definition streamWrite :: "bool \<Rightarrow> gostring \<Rightarrow> stream_capture \<Rightarrow> stream_capture" where
  "streamWrite refused p w =
     (if refused then w
      else w\<lparr>scLog := scLog w @ p, scCapture := limitedWrite p (scCapture w), scBytes := scBytes w + int (length p)\<rparr>)"

section \<open>Evidence\<close>

datatype metric = MetricUnset | MetricAvailable | MetricFieldsMissing | MetricUnknownFormat | MetricUnsupportedProvider | MetricOutputTooLarge

record agent_usage =
  usInput :: "int option"
  usCachedInput :: "int option"
  usCacheCreation :: "int option"
  usCacheRead :: "int option"
  usOutput :: "int option"
  usTotal :: "int option"
  usCostAmount :: gostring
  usCostCurrency :: gostring
  usTokens :: metric
  usCost :: metric

record output_summary =
  osSteps :: "int option"
  osSucceeded :: "int option"
  osFailed :: "int option"
  osPlanTasks :: "int option"

record validation_evidence =
  veCommand :: gostring
  veStatus :: gostring
  veExitCode :: "int option"
  veStarted :: "time option"
  veFinished :: "time option"
  veDuration :: "int option"
  veSummary :: gostring
  veReason :: gostring
  veAvailability :: metric
  veTruncated :: bool

text \<open>The fields of the parser that its events fill; the others are in the record \<open>cli_parser\<close>.\<close>

record cli_evidence =
  ceProvider :: gostring
  ceEvents :: int
  ceRecognized :: bool
  ceSession :: gostring
  ceUsage :: agent_usage
  ceSummary :: output_summary
  ceValidations :: "validation_evidence list"
  cePending :: "gostring \<rightharpoonup> validation_evidence"
  ceReason :: gostring

text \<open>
  What is outside: the first value of a text, the value a whole text is, the printer, whether a number
  fits a float, a number as a duration of a unit when it is not negative, \<^verbatim>\<open>time.Parse\<close>, and the
  order in which a map of three keys is walked.
\<close>

record agent_env =
  agFirst :: "gostring \<Rightarrow> json option"
  agWhole :: "gostring \<Rightarrow> json option"
  agPrint :: "json \<Rightarrow> gostring"
  agFits :: "gostring \<Rightarrow> bool"
  agDuration :: "gostring \<Rightarrow> int \<Rightarrow> int option"
  agTime :: "gostring \<Rightarrow> time option"
  agWalk :: "(gostring \<times> int) list \<Rightarrow> (gostring \<times> int) list"

definition emptyUsage :: agent_usage where
  "emptyUsage = \<lparr>usInput = None, usCachedInput = None, usCacheCreation = None, usCacheRead = None, usOutput = None, usTotal = None,
     usCostAmount = [], usCostCurrency = [], usTokens = MetricUnset, usCost = MetricUnset\<rparr>"

definition emptyEvidence :: "gostring \<Rightarrow> cli_evidence" where
  "emptyEvidence provider =
     \<lparr>ceProvider = trimSpace provider, ceEvents = 0, ceRecognized = False, ceSession = [], ceUsage = emptyUsage,
      ceSummary = \<lparr>osSteps = None, osSucceeded = None, osFailed = None, osPlanTasks = None\<rparr>, ceValidations = [],
      cePending = Map.empty, ceReason = []\<rparr>"

section \<open>Values of an event\<close>

type_synonym members = "(gostring \<times> json) list"

text \<open>A missing member of a decoded map and a null one are both nil.\<close>

definition fieldOf :: "gostring \<Rightarrow> members \<Rightarrow> json" where
  "fieldOf k ms = (case jsonMember k ms of None \<Rightarrow> JNull | Some v \<Rightarrow> v)"

definition textField :: "gostring \<Rightarrow> members \<Rightarrow> gostring" where
  "textField k ms = (case fieldOf k ms of JStr s \<Rightarrow> s | _ \<Rightarrow> [])"

definition objectField :: "gostring \<Rightarrow> members \<Rightarrow> members option" where
  "objectField k ms = (case fieldOf k ms of JObj xs \<Rightarrow> Some xs | _ \<Rightarrow> None)"

fun jsonText :: "agent_env \<Rightarrow> json \<Rightarrow> gostring" where
  "jsonText e (JStr s) = s"
| "jsonText e (JArr vs) = joinWith '' '' (filter (\<lambda>t. t \<noteq> []) (map (\<lambda>v. trimSpace (jsonText e v)) vs))"
| "jsonText e (JObj ms) = (case jsonMember ''text'' ms of Some (JStr t) \<Rightarrow> t | _ \<Rightarrow> agPrint e (canonicalJson (JObj ms)))"
| "jsonText e _ = []"

fun firstJSONText :: "agent_env \<Rightarrow> members \<Rightarrow> gostring list \<Rightarrow> gostring" where
  "firstJSONText e ms [] = []"
| "firstJSONText e ms (k # ks) =
     (let t = trimSpace (jsonText e (fieldOf k ms)) in if t \<noteq> [] then t else firstJSONText e ms ks)"

text \<open>The text of a number as it stands in the source, and the number when it is a 64-bit integer.\<close>

definition numberText :: "json \<Rightarrow> gostring option" where
  "numberText v = (case v of JInt i \<Rightarrow> Some (showInt i) | JFrac t \<Rightarrow> Some t | _ \<Rightarrow> None)"

definition jsonSignedInt :: "json \<Rightarrow> int option" where
  "jsonSignedInt v = (case v of JInt i \<Rightarrow> if - (2 ^ 63) \<le> i \<and> i < 2 ^ 63 then Some i else None | _ \<Rightarrow> None)"

definition jsonInt :: "json \<Rightarrow> int option" where
  "jsonInt v = (case jsonSignedInt v of Some i \<Rightarrow> if i \<ge> 0 then Some i else None | None \<Rightarrow> None)"

definition increment :: "int option \<Rightarrow> int \<Rightarrow> int option" where
  "increment target amount = Some (wrapInt ((case target of None \<Rightarrow> 0 | Some n \<Rightarrow> n) + amount))"

definition addJSONInt :: "int option \<Rightarrow> json \<Rightarrow> int option" where
  "addJSONInt target v = (case jsonInt v of None \<Rightarrow> target | Some n \<Rightarrow> increment target n)"

definition jsonTimePointer :: "agent_env \<Rightarrow> json \<Rightarrow> time option" where
  "jsonTimePointer e v = (case v of JStr t \<Rightarrow> if trimSpace t = [] then None else agTime e t | _ \<Rightarrow> None)"

definition durationUnits :: "(gostring \<times> int) list" where
  "durationUnits = [(''duration_ms'', 1000000), (''duration_millis'', 1000000), (''duration_seconds'', 1000000000)]"

fun durationFrom :: "agent_env \<Rightarrow> members \<Rightarrow> (gostring \<times> int) list \<Rightarrow> int option" where
  "durationFrom e ms [] = None"
| "durationFrom e ms ((k, unit) # us) =
     (case numberText (fieldOf k ms) of
        None \<Rightarrow> durationFrom e ms us
      | Some t \<Rightarrow> (case agDuration e t unit of None \<Rightarrow> durationFrom e ms us | d \<Rightarrow> d))"

definition jsonDurationPointer :: "agent_env \<Rightarrow> members \<Rightarrow> int option" where
  "jsonDurationPointer e ms = durationFrom e ms (agWalk e durationUnits)"

definition maxEvidenceSummaryBytes :: int where "maxEvidenceSummaryBytes = 16384"
definition maxEvidenceSummaryLines :: int where "maxEvidenceSummaryLines = 200"

text \<open>The loop is the one of \<^verbatim>\<open>boundCheckpointText\<close>.\<close>

definition boundEvidenceText :: "gostring \<Rightarrow> gostring \<times> bool" where
  "boundEvidenceText value =
     (let v = toValidUTF8 value in
      if v = [] then ([], False) else boundLoop maxEvidenceSummaryBytes maxEvidenceSummaryLines (runes v) [] 0)"

definition equalFold :: "gostring \<Rightarrow> gostring \<Rightarrow> bool" where
  "equalFold a b \<longleftrightarrow> foldName a = foldName b"

section \<open>Collecting\<close>

definition captureSession :: "json \<Rightarrow> cli_evidence \<Rightarrow> cli_evidence" where
  "captureSession v p = (if ceSession p \<noteq> [] then p else case v of JStr s \<Rightarrow> p\<lparr>ceSession := trimSpace s\<rparr> | _ \<Rightarrow> p)"

definition captureFailureReason :: "agent_env \<Rightarrow> members \<Rightarrow> cli_evidence \<Rightarrow> cli_evidence" where
  "captureFailureReason e ms p =
     (if ceReason p \<noteq> [] then p
      else p\<lparr>ceReason := fst (boundEvidenceText (firstJSONText e ms [''failure_reason'', ''error'', ''message'', ''result'']))\<rparr>)"

definition captureCost :: "agent_env \<Rightarrow> gostring \<Rightarrow> gostring \<Rightarrow> members \<Rightarrow> agent_usage \<Rightarrow> agent_usage" where
  "captureCost e k currency ms u =
     (if usCostAmount u \<noteq> [] then u
      else case numberText (fieldOf k ms) of
          None \<Rightarrow> u
        | Some t \<Rightarrow> if \<not> agFits e t \<or> hasPrefix t ''-'' then u else u\<lparr>usCostAmount := t, usCostCurrency := currency\<rparr>)"

definition maxCLIEventBytes :: nat where "maxCLIEventBytes = 1048576"

text \<open>Decoding into a struct with the one field \<^verbatim>\<open>tasks\<close>: None is an error, Some None a nil slice.\<close>

fun tasksField :: "nat option \<Rightarrow> members \<Rightarrow> nat option option" where
  "tasksField old [] = Some old"
| "tasksField old ((k, v) # ms) =
     (if matchField [''tasks''] k = None then tasksField old ms
      else case v of JNull \<Rightarrow> tasksField None ms | JArr vs \<Rightarrow> tasksField (Some (length vs)) ms | _ \<Rightarrow> None)"

definition capturePlanTaskCount :: "agent_env \<Rightarrow> json \<Rightarrow> cli_evidence \<Rightarrow> cli_evidence" where
  "capturePlanTaskCount e v p =
     (case v of
        JStr t \<Rightarrow>
          if length t > maxCLIEventBytes then p
          else (case agWhole e t of
              Some (JObj ms) \<Rightarrow> (case tasksField None ms of
                  Some (Some n) \<Rightarrow> p\<lparr>ceSummary := (ceSummary p)\<lparr>osPlanTasks := Some (int n)\<rparr>\<rparr> | _ \<Rightarrow> p)
            | _ \<Rightarrow> p)
      | _ \<Rightarrow> p)"

definition newEvidence :: "gostring \<Rightarrow> validation_evidence" where
  "newEvidence command =
     \<lparr>veCommand = command, veStatus = ''unknown'', veExitCode = None, veStarted = None, veFinished = None, veDuration = None,
      veSummary = [], veReason = [], veAvailability = MetricFieldsMissing, veTruncated = False\<rparr>"

definition exitStatus :: "int \<Rightarrow> gostring" where
  "exitStatus code = (if code = 0 then ''passed'' else ''failed'')"

definition withExitCode :: "json \<Rightarrow> validation_evidence \<Rightarrow> validation_evidence option" where
  "withExitCode v ev = map_option (\<lambda>code. ev\<lparr>veExitCode := Some code, veAvailability := MetricAvailable, veStatus := exitStatus code\<rparr>)
     (jsonSignedInt v)"

text \<open>The status from the exit code, or else from the status of the item.\<close>

definition codexStatus :: "members \<Rightarrow> validation_evidence \<Rightarrow> validation_evidence" where
  "codexStatus item ev =
     (case withExitCode (fieldOf ''exit_code'' item) ev of
        Some x \<Rightarrow> x
      | None \<Rightarrow> (let status = textField ''status'' item in
          if equalFold status ''failed'' \<or> equalFold status ''error'' then ev\<lparr>veStatus := ''failed''\<rparr> else ev))"

definition codexReason :: "agent_env \<Rightarrow> members \<Rightarrow> validation_evidence \<Rightarrow> validation_evidence" where
  "codexReason e item ev =
     (if veStatus ev = ''failed'' then
        (let reason = fst (boundEvidenceText (firstJSONText e item [''failure_reason'', ''error'', ''message''])) in
         ev\<lparr>veReason := (if reason = [] then veSummary ev else reason)\<rparr>)
      else ev)"

definition validationFromCodexItem :: "agent_env \<Rightarrow> members \<Rightarrow> validation_evidence" where
  "validationFromCodexItem e item =
     (let command = trimSpace (jsonText e (fieldOf ''command'' item));
          ev = codexStatus item (newEvidence (if command = [] then trimSpace (jsonText e (fieldOf ''cmd'' item)) else command));
          (summary, truncated) = boundEvidenceText (firstJSONText e item [''aggregated_output'', ''output'', ''stdout'', ''stderr'']) in
      codexReason e item
        (ev\<lparr>veStarted := jsonTimePointer e (fieldOf ''started_at'' item), veFinished := jsonTimePointer e (fieldOf ''finished_at'' item),
           veDuration := jsonDurationPointer e item, veSummary := summary, veTruncated := truncated\<rparr>))"

section \<open>Events of Codex\<close>

definition codexTurn :: "agent_env \<Rightarrow> members \<Rightarrow> cli_evidence \<Rightarrow> cli_evidence" where
  "codexTurn e event p =
     (let p1 = p\<lparr>ceSummary := (ceSummary p)\<lparr>osSteps := increment (osSteps (ceSummary p)) 1\<rparr>\<rparr> in
      case objectField ''usage'' event of
        None \<Rightarrow> p1
      | Some usage \<Rightarrow>
          (let u = ceUsage p1;
               u1 = u\<lparr>usInput := addJSONInt (usInput u) (fieldOf ''input_tokens'' usage),
                 usCachedInput := addJSONInt (usCachedInput u) (fieldOf ''cached_input_tokens'' usage),
                 usOutput := addJSONInt (usOutput u) (fieldOf ''output_tokens'' usage),
                 usTotal := addJSONInt (usTotal u) (fieldOf ''total_tokens'' usage)\<rparr> in
           p1\<lparr>ceUsage := captureCost e ''cost_usd'' ''USD'' usage (captureCost e ''total_cost_usd'' ''USD'' usage u1)\<rparr>))"

definition codexCommand :: "agent_env \<Rightarrow> members \<Rightarrow> cli_evidence \<Rightarrow> cli_evidence" where
  "codexCommand e item p =
     (let ev = validationFromCodexItem e item;
          p1 = (if veCommand ev \<noteq> [] then p\<lparr>ceValidations := ceValidations p @ [ev]\<rparr> else p);
          s = ceSummary p1 in
      p1\<lparr>ceSummary := (if veStatus ev = ''passed'' then s\<lparr>osSucceeded := increment (osSucceeded s) 1\<rparr>
                       else s\<lparr>osFailed := increment (osFailed s) 1\<rparr>)\<rparr>)"

definition codexItem :: "agent_env \<Rightarrow> gostring \<Rightarrow> members \<Rightarrow> cli_evidence \<Rightarrow> cli_evidence" where
  "codexItem e eventType item p =
     (let itemType = textField ''type'' item;
          p1 = (if eventType = ''item.completed'' \<and> itemType = ''command_execution'' then codexCommand e item p else p) in
      if itemType = ''agent_message'' then capturePlanTaskCount e (fieldOf ''text'' item) p1 else p1)"

definition codexStart :: "cli_evidence \<Rightarrow> cli_evidence" where
  "codexStart p =
     (let p1 = p\<lparr>ceRecognized := True, ceEvents := wrapInt (ceEvents p + 1)\<rparr>; s = ceSummary p1 in
      if osSucceeded s = None then p1\<lparr>ceSummary := s\<lparr>osSucceeded := Some 0, osFailed := Some 0\<rparr>\<rparr> else p1)"

definition parseCodexEvent :: "agent_env \<Rightarrow> members \<Rightarrow> cli_evidence \<Rightarrow> cli_evidence" where
  "parseCodexEvent e event p =
     (let eventType = textField ''type'' event in
      if eventType = [] then p
      else (let p1 = codexStart p;
                p2 = (if eventType = ''thread.started'' then captureSession (fieldOf ''thread_id'' event) p1 else p1);
                p3 = (if eventType = ''turn.failed'' then captureFailureReason e event p2 else p2);
                p4 = (if eventType = ''turn.completed'' then codexTurn e event p3 else p3) in
            case objectField ''item'' event of None \<Rightarrow> p4 | Some item \<Rightarrow> codexItem e eventType item p4))"

section \<open>Events of Claude\<close>

definition claudeContent :: "members \<Rightarrow> members list" where
  "claudeContent event =
     (case objectField ''message'' event of
        None \<Rightarrow> []
      | Some message \<Rightarrow>
          (case fieldOf ''content'' message of
             JArr vs \<Rightarrow> List.map_filter (\<lambda>v. case v of JObj ms \<Rightarrow> Some ms | _ \<Rightarrow> None) vs
           | _ \<Rightarrow> []))"

definition claudeCommand :: "agent_env \<Rightarrow> members \<Rightarrow> cli_evidence \<Rightarrow> cli_evidence" where
  "claudeCommand e content p =
     (if textField ''type'' content \<noteq> ''tool_use'' \<or> \<not> equalFold (textField ''name'' content) ''bash'' then p
      else (let input = (case objectField ''input'' content of None \<Rightarrow> [] | Some ms \<Rightarrow> ms);
                command = trimSpace (jsonText e (fieldOf ''command'' input));
                i = trimSpace (jsonText e (fieldOf ''id'' content)) in
            if command = [] \<or> i = [] then p else p\<lparr>cePending := (cePending p)(i \<mapsto> newEvidence command)\<rparr>))"

definition claudeReported :: "members \<Rightarrow> validation_evidence \<Rightarrow> validation_evidence" where
  "claudeReported content ev =
     (case fieldOf ''is_error'' content of
        JBool isError \<Rightarrow> if isError then ev\<lparr>veStatus := ''failed'', veReason := veSummary ev\<rparr> else ev\<lparr>veStatus := ''passed''\<rparr>
      | _ \<Rightarrow> ev)"

definition claudeOutcome :: "agent_env \<Rightarrow> members \<Rightarrow> validation_evidence \<Rightarrow> validation_evidence" where
  "claudeOutcome e content ev =
     (let (summary, truncated) = boundEvidenceText (jsonText e (fieldOf ''content'' content));
          reported = claudeReported content (ev\<lparr>veSummary := summary, veTruncated := truncated\<rparr>) in
      case withExitCode (fieldOf ''exit_code'' content) reported of None \<Rightarrow> reported | Some x \<Rightarrow> x)"

definition claudeResult :: "agent_env \<Rightarrow> members \<Rightarrow> cli_evidence \<Rightarrow> cli_evidence" where
  "claudeResult e content p =
     (if textField ''type'' content \<noteq> ''tool_result'' then p
      else (let i = trimSpace (jsonText e (fieldOf ''tool_use_id'' content)) in
            case cePending p i of
              None \<Rightarrow> p
            | Some ev \<Rightarrow> p\<lparr>cePending := (cePending p)(i := None), ceValidations := ceValidations p @ [claudeOutcome e content ev]\<rparr>))"

definition captureClaudeCommands :: "agent_env \<Rightarrow> members \<Rightarrow> cli_evidence \<Rightarrow> cli_evidence" where
  "captureClaudeCommands e event p = fold (claudeCommand e) (claudeContent event) p"

definition captureClaudeResults :: "agent_env \<Rightarrow> members \<Rightarrow> cli_evidence \<Rightarrow> cli_evidence" where
  "captureClaudeResults e event p = fold (claudeResult e) (claudeContent event) p"

definition claudeUsage :: "agent_env \<Rightarrow> members \<Rightarrow> agent_usage \<Rightarrow> agent_usage" where
  "claudeUsage e event u =
     captureCost e ''total_cost_usd'' ''USD'' event
       (case objectField ''usage'' event of
          None \<Rightarrow> u
        | Some usage \<Rightarrow> u\<lparr>usInput := addJSONInt (usInput u) (fieldOf ''input_tokens'' usage),
            usCacheCreation := addJSONInt (usCacheCreation u) (fieldOf ''cache_creation_input_tokens'' usage),
            usCacheRead := addJSONInt (usCacheRead u) (fieldOf ''cache_read_input_tokens'' usage),
            usOutput := addJSONInt (usOutput u) (fieldOf ''output_tokens'' usage),
            usTotal := addJSONInt (usTotal u) (fieldOf ''total_tokens'' usage)\<rparr>)"

definition claudeEnd :: "agent_env \<Rightarrow> members \<Rightarrow> cli_evidence \<Rightarrow> cli_evidence" where
  "claudeEnd e event p =
     (let p1 = captureSession (fieldOf ''session_id'' event) p;
          p2 = (case jsonInt (fieldOf ''num_turns'' event) of
             None \<Rightarrow> p1 | Some turns \<Rightarrow> p1\<lparr>ceSummary := (ceSummary p1)\<lparr>osSteps := Some turns\<rparr>\<rparr>);
          p3 = p2\<lparr>ceUsage := claudeUsage e event (ceUsage p2)\<rparr>;
          p4 = capturePlanTaskCount e (fieldOf ''result'' event) p3 in
      if fieldOf ''is_error'' event = JBool True then captureFailureReason e event p4 else p4)"

definition parseClaudeEvent :: "agent_env \<Rightarrow> members \<Rightarrow> cli_evidence \<Rightarrow> cli_evidence" where
  "parseClaudeEvent e event p =
     (let eventType = textField ''type'' event; p1 = p\<lparr>ceRecognized := True, ceEvents := wrapInt (ceEvents p + 1)\<rparr> in
      if eventType = ''assistant'' then captureClaudeCommands e event p1
      else if eventType = ''user'' then captureClaudeResults e event p1
      else if eventType = ''result'' then claudeEnd e event p1
      else p)"

section \<open>Lines\<close>

definition parseLine :: "agent_env \<Rightarrow> gostring \<Rightarrow> cli_evidence \<Rightarrow> cli_evidence" where
  "parseLine e raw p =
     (let line = trimSpace raw in
      if line = [] \<or> hd line \<noteq> CHR ''{'' then p
      else case agFirst e line of
          Some (JObj event) \<Rightarrow>
            (if ceProvider p = ''codex'' then parseCodexEvent e event p
             else if ceProvider p = ''claude'' then parseClaudeEvent e event p else p)
        | _ \<Rightarrow> p)"

record cli_parser =
  opSeen :: cli_evidence
  opLine :: gostring
  opDiscarding :: bool
  opHadOutput :: bool
  opPartial :: bool
  opNewlines :: int
  opOversized :: bool
  opReadError :: gostring

definition newCLIOutputParser :: "gostring \<Rightarrow> cli_parser" where
  "newCLIOutputParser provider =
     \<lparr>opSeen = emptyEvidence provider, opLine = [], opDiscarding = False, opHadOutput = False, opPartial = False, opNewlines = 0,
      opOversized = False, opReadError = []\<rparr>"

definition keepPart :: "gostring \<Rightarrow> cli_parser \<Rightarrow> cli_parser" where
  "keepPart part p =
     (if opDiscarding p then p
      else if length (opLine p) + length part > maxCLIEventBytes then p\<lparr>opLine := [], opDiscarding := True, opOversized := True\<rparr>
      else p\<lparr>opLine := opLine p @ part\<rparr>)"

definition endLine :: "agent_env \<Rightarrow> cli_parser \<Rightarrow> cli_parser" where
  "endLine e p =
     p\<lparr>opNewlines := opNewlines p + 1, opSeen := (if opDiscarding p then opSeen p else parseLine e (opLine p) (opSeen p)),
       opLine := [], opDiscarding := False\<rparr>"

text \<open>The loop over a chunk: up to the next newline, or to the end.\<close>

function writeLoop :: "agent_env \<Rightarrow> gostring \<Rightarrow> cli_parser \<Rightarrow> cli_parser" where
  "writeLoop e chunk p =
     (if chunk = [] then p
      else (let part = takeWhile (\<lambda>c. c \<noteq> newlineChar) chunk; p1 = keepPart part p in
            if length part = length chunk then p1 else writeLoop e (drop (length part + 1) chunk) (endLine e p1)))"
  by pat_completeness auto
termination by (relation "measure (\<lambda>(_, chunk, _). length chunk)") auto

declare writeLoop.simps [simp del]

definition cliWrite :: "agent_env \<Rightarrow> gostring \<Rightarrow> cli_parser \<Rightarrow> cli_parser" where
  "cliWrite e chunk p = (if chunk = [] then p else writeLoop e chunk (p\<lparr>opHadOutput := True\<rparr>))"

definition cliFinish :: "agent_env \<Rightarrow> cli_parser \<Rightarrow> cli_parser" where
  "cliFinish e p =
     p\<lparr>opPartial := (opLine p \<noteq> [] \<or> opDiscarding p),
       opSeen := (if \<not> opDiscarding p \<and> opLine p \<noteq> [] then parseLine e (opLine p) (opSeen p) else opSeen p), opLine := []\<rparr>"

definition outputLines :: "cli_parser \<Rightarrow> int" where
  "outputLines p =
     (if \<not> opHadOutput p then 0
      else if opPartial p \<or> opLine p \<noteq> [] \<or> opDiscarding p then opNewlines p + 1 else opNewlines p)"

section \<open>What is reported\<close>

definition unavailableReason :: "cli_parser \<Rightarrow> metric" where
  "unavailableReason p =
     (if opReadError p \<noteq> [] then MetricFieldsMissing
      else if ceProvider (opSeen p) \<noteq> ''codex'' \<and> ceProvider (opSeen p) \<noteq> ''claude'' then MetricUnsupportedProvider
      else if opOversized p then MetricOutputTooLarge
      else if ceRecognized (opSeen p) then MetricFieldsMissing
      else MetricUnknownFormat)"

definition usage :: "cli_parser \<Rightarrow> agent_usage" where
  "usage p =
     (let u = ceUsage (opSeen p);
          tokens = (usInput u \<noteq> None \<or> usCachedInput u \<noteq> None \<or> usCacheCreation u \<noteq> None \<or> usCacheRead u \<noteq> None \<or>
            usOutput u \<noteq> None \<or> usTotal u \<noteq> None) in
      u\<lparr>usTokens := (if tokens then MetricAvailable else unavailableReason p),
        usCost := (if usCostAmount u \<noteq> [] \<and> usCostCurrency u \<noteq> [] then MetricAvailable else unavailableReason p)\<rparr>)"

definition eventAvailability :: "cli_parser \<Rightarrow> metric" where
  "eventAvailability p = (if ceRecognized (opSeen p) then MetricAvailable else unavailableReason p)"

text \<open>Reading a log that \<^verbatim>\<open>io.Copy\<close> hands over in these pieces, with the error text of a failed read.\<close>

definition parseCLIOutputLog :: "agent_env \<Rightarrow> gostring list \<Rightarrow> gostring \<Rightarrow> cli_parser \<Rightarrow> cli_parser" where
  "parseCLIOutputLog e pieces err p = (cliFinish e (fold (cliWrite e) pieces p))\<lparr>opReadError := err\<rparr>"

end
