(* ===== verification/AgentCommands.thy ===== *)
theory AgentCommands
  imports AgentOutput
begin

text \<open>
  \<^verbatim>\<open>agent/agent.go\<close>, the calling side: which provider is meant, the command lines of a planning,
  discussion or execution run, the environment of the process, the JSON in its output, and the registry
  of running agents with its cancellation.
\<close>

section \<open>Providers and command lines\<close>

definition ResolveProvider :: "gostring \<Rightarrow> gostring \<Rightarrow> gostring + gostring" where
  "ResolveProvider requested fallback =
     (let provider = (if trimSpace requested = [] then trimSpace fallback else trimSpace requested) in
      if provider = ''codex'' \<or> provider = ''claude'' then Inr provider else Inl provider)"

record invocation =
  ivProvider :: gostring
  ivCommand :: gostring
  ivArgs :: "gostring list"
  ivDir :: gostring
  ivTimeout :: int
  ivLogPath :: gostring

definition bypassArgs :: "gostring list" where
  "bypassArgs = [''--dangerously-bypass-approvals-and-sandbox'', ''--dangerously-bypass-hook-trust'',
     ''--dangerously-skip-permissions'', ''--allow-dangerously-skip-permissions'']"

text \<open>An argument that is dropped alone, and one that is dropped with its value.\<close>

definition droppedArg :: "gostring \<Rightarrow> gostring \<Rightarrow> bool" where
  "droppedArg provider arg \<longleftrightarrow>
     arg \<in> set bypassArgs \<or>
     provider = ''codex'' \<and> list_ex (hasPrefix arg) [''--ask-for-approval='', ''--sandbox=''] \<or>
     provider = ''claude'' \<and> list_ex (hasPrefix arg)
       [''--permission-mode='', ''--allowedTools='', ''--allowed-tools='', ''--disallowedTools='', ''--disallowed-tools='']"

definition droppedPair :: "gostring \<Rightarrow> gostring \<Rightarrow> bool" where
  "droppedPair provider arg \<longleftrightarrow>
     provider = ''codex'' \<and> arg \<in> set [''--ask-for-approval'', ''-a'', ''--sandbox'', ''-s''] \<or>
     provider = ''claude'' \<and> arg \<in> set
       [''--permission-mode'', ''--allowedTools'', ''--allowed-tools'', ''--disallowedTools'', ''--disallowed-tools'']"

fun safeReadOnlyArgs :: "gostring \<Rightarrow> gostring list \<Rightarrow> gostring list" where
  "safeReadOnlyArgs provider [] = []"
| "safeReadOnlyArgs provider [arg] = (if droppedArg provider arg \<or> droppedPair provider arg then [] else [arg])"
| "safeReadOnlyArgs provider (arg # val # rest) =
     (if droppedArg provider arg then safeReadOnlyArgs provider (val # rest)
      else if droppedPair provider arg then safeReadOnlyArgs provider rest
      else arg # safeReadOnlyArgs provider (val # rest))"

definition readOnlyClaude :: "gostring list" where
  "readOnlyClaude = [''--output-format'', ''json'', ''--permission-mode'', ''plan'', ''--allowedTools'', ''Read,Grep,Glob'']"

definition invocationOf :: "gostring \<Rightarrow> gostring \<Rightarrow> gostring list \<Rightarrow> gostring \<Rightarrow> int \<Rightarrow> gostring \<Rightarrow> invocation" where
  "invocationOf provider command args ws timeout logPath =
     \<lparr>ivProvider = provider, ivCommand = command, ivArgs = args, ivDir = ws, ivTimeout = timeout, ivLogPath = logPath\<rparr>"

definition GeneratePlan :: "gostring \<Rightarrow> gostring \<Rightarrow> gostring list \<Rightarrow> gostring \<Rightarrow> gostring \<Rightarrow> int \<Rightarrow> gostring \<Rightarrow> invocation" where
  "GeneratePlan provider command args ws prompt timeout logPath = invocationOf provider command
     (safeReadOnlyArgs provider args @
      (if provider = ''codex'' then [''exec'', ''--sandbox'', ''read-only'', ''--skip-git-repo-check'', ''--json'', prompt]
       else [''-p'', prompt] @ readOnlyClaude)) ws timeout logPath"

definition ResumePlan :: "gostring \<Rightarrow> gostring \<Rightarrow> gostring list \<Rightarrow> gostring \<Rightarrow> gostring \<Rightarrow> gostring \<Rightarrow> int \<Rightarrow> gostring \<Rightarrow> invocation" where
  "ResumePlan provider command args ws prompt session timeout logPath = invocationOf provider command
     (safeReadOnlyArgs provider args @
      (if provider = ''codex'' then [''exec'', ''resume'', ''-c'', ''sandbox_mode=\"read-only\"'', ''--skip-git-repo-check'', ''--json'', session, prompt]
       else [''--resume'', session, ''-p'', prompt] @ readOnlyClaude)) ws timeout logPath"

definition Discuss :: "gostring \<Rightarrow> gostring \<Rightarrow> gostring list \<Rightarrow> gostring \<Rightarrow> gostring \<Rightarrow> int \<Rightarrow> gostring \<Rightarrow> invocation" where
  "Discuss provider command args ws prompt timeout logPath = invocationOf provider command
     (safeReadOnlyArgs provider args @
      (if provider = ''codex'' then [''exec'', ''--sandbox'', ''read-only'', ''--skip-git-repo-check'', ''--json'', prompt]
       else [''-p'', prompt] @ readOnlyClaude)) ws timeout logPath"

definition ResumeDiscussion :: "gostring \<Rightarrow> gostring \<Rightarrow> gostring list \<Rightarrow> gostring \<Rightarrow> gostring \<Rightarrow> gostring \<Rightarrow> int \<Rightarrow> gostring \<Rightarrow> invocation" where
  "ResumeDiscussion provider command args ws prompt session timeout logPath = ResumePlan provider command args ws prompt session timeout logPath"

definition ExecuteTask :: "gostring \<Rightarrow> gostring \<Rightarrow> gostring list \<Rightarrow> gostring \<Rightarrow> gostring \<Rightarrow> int \<Rightarrow> gostring \<Rightarrow> invocation" where
  "ExecuteTask provider command args ws prompt timeout logPath = invocationOf provider command
     (args @ (if provider = ''codex'' then [''exec'', ''--skip-git-repo-check'', ''--json'', prompt]
       else [''-p'', prompt, ''--output-format'', ''json''])) ws timeout logPath"

definition ResumeTask :: "gostring \<Rightarrow> gostring \<Rightarrow> gostring list \<Rightarrow> gostring \<Rightarrow> gostring \<Rightarrow> gostring \<Rightarrow> int \<Rightarrow> gostring \<Rightarrow> invocation" where
  "ResumeTask provider command args ws prompt session timeout logPath = invocationOf provider command
     (args @ (if provider = ''codex'' then [''exec'', ''resume'', ''--skip-git-repo-check'', ''--json'', session, prompt]
       else [''--resume'', session, ''-p'', prompt, ''--output-format'', ''json''])) ws timeout logPath"

definition blockedHostAgentEnv :: "gostring list" where
  "blockedHostAgentEnv = [''CODEX_THREAD_ID'', ''CODEX_PERMISSION_PROFILE'', ''CODEX_SANDBOX_NETWORK_DISABLED'']"

definition commandEnv :: "gostring list \<Rightarrow> gostring list \<Rightarrow> gostring list" where
  "commandEnv environ overrides =
     filter (\<lambda>entry. takeWhile (\<lambda>c. c \<noteq> CHR ''='') entry \<notin> set blockedHostAgentEnv) (environ @ overrides)"

section \<open>The JSON in an output\<close>

text \<open>
  What the package \<^verbatim>\<open>json\<close> says of a text: whether it is one value, its members with the text of
  each when it is an object (the last of a repeated name; None for an error, no members for null), the
  string it is when it decodes into one (null into the empty one), and the type of an event.
\<close>

record json_texts =
  jtValid :: "gostring \<Rightarrow> bool"
  jtMembers :: "gostring \<Rightarrow> (gostring \<rightharpoonup> gostring) option"
  jtString :: "gostring \<Rightarrow> gostring option"
  jtEventType :: "gostring \<Rightarrow> gostring option"

text \<open>A member that is absent has the empty text.\<close>

definition rawMember :: "(gostring \<rightharpoonup> gostring) \<Rightarrow> gostring \<Rightarrow> gostring" where
  "rawMember ms k = (case ms k of None \<Rightarrow> [] | Some raw \<Rightarrow> raw)"

definition extractJSONValue :: "json_texts \<Rightarrow> gostring \<Rightarrow> gostring option" where
  "extractJSONValue j raw =
     (if raw = [] then None
      else (case jtString j raw of
          Some t \<Rightarrow> if jtValid j t then Some t
            else if jtValid j raw \<and> jtMembers j raw \<noteq> None then Some raw else None
        | None \<Rightarrow> if jtValid j raw \<and> jtMembers j raw \<noteq> None then Some raw else None))"

fun firstExtracted :: "json_texts \<Rightarrow> gostring list \<Rightarrow> gostring option" where
  "firstExtracted j [] = None"
| "firstExtracted j (raw # raws) = (case extractJSONValue j raw of Some t \<Rightarrow> Some t | None \<Rightarrow> firstExtracted j raws)"

definition extractJSONEnvelope :: "json_texts \<Rightarrow> gostring \<Rightarrow> gostring option" where
  "extractJSONEnvelope j raw =
     (case jtMembers j raw of
        None \<Rightarrow> None
      | Some envelope \<Rightarrow>
          (case firstExtracted j (map (rawMember envelope) [''result'', ''output'', ''content'', ''message'']) of
             Some t \<Rightarrow> Some t
           | None \<Rightarrow>
               if rawMember envelope ''item'' = [] then None
               else (case jtMembers j (rawMember envelope ''item'') of
                   None \<Rightarrow> None | Some ms \<Rightarrow> extractJSONValue j (rawMember ms ''text''))))"

text \<open>The lines from the last to the first.\<close>

fun extractFromLines :: "json_texts \<Rightarrow> gostring list \<Rightarrow> gostring option" where
  "extractFromLines j [] = None"
| "extractFromLines j (l # ls) =
     (let line = trimSpace l in
      if \<not> jtValid j line then extractFromLines j ls
      else (case extractJSONEnvelope j line of
          Some t \<Rightarrow> Some t
        | None \<Rightarrow> (case jtEventType j line of
            Some t \<Rightarrow> if t \<noteq> [] then extractFromLines j ls else Some line
          | None \<Rightarrow> Some line)))"

text \<open>From the first opening to the last closing brace.\<close>

definition braced :: "gostring \<Rightarrow> gostring option" where
  "braced s =
     (let start = length (takeWhile (\<lambda>c. c \<noteq> CHR ''{'') s); behind = length (takeWhile (\<lambda>c. c \<noteq> CHR ''}'') (rev s)) in
      if start < length s \<and> behind < length s \<and> length s - behind - 1 > start
      then Some (drop start (take (length s - behind) s)) else None)"

definition ExtractJSON :: "json_texts \<Rightarrow> gostring \<Rightarrow> gostring option" where
  "ExtractJSON j output =
     (let trimmed = trimSpace output in
      if jtValid j trimmed then
        (case extractJSONEnvelope j trimmed of Some t \<Rightarrow> Some t | None \<Rightarrow> Some trimmed)
      else (case extractFromLines j (rev (splitOn newlineChar trimmed)) of
          Some t \<Rightarrow> Some t
        | None \<Rightarrow> (case braced trimmed of Some t \<Rightarrow> if jtValid j t then Some t else None | None \<Rightarrow> None)))"

section \<open>The registry of running agents\<close>

text \<open>
  One run of \<^verbatim>\<open>Run\<close>: registered under its key before the process is started; then it looks for a
  cancellation that came before the start and waits. When the process has ended it reads the context,
  then the mark under the lock, then the context once more and concludes; only after that the deferred
  function takes it out. A signal to the process is counted as sent. Cancelling is three steps of another
  goroutine, the mark under the lock, the context and the signal; a run counts the cancellers that are
  between these steps.
\<close>

datatype run_end = RunLogError | RunTimedOut | RunCancelled | RunExited int | RunSucceeded

datatype run_stage = Registered | Started | Waiting | Ended | TimedOutRead bool | MarkRead bool bool | Concluded run_end

datatype context_err = Live | ContextCanceled | DeadlineExceeded

record active_run =
  arStage :: run_stage
  arSignalled :: bool
  arContext :: context_err
  arMarking :: nat
  arSignalling :: nat

record runner =
  rnRunning :: "gostring \<rightharpoonup> active_run"
  rnCancelled :: "gostring \<Rightarrow> bool"

definition NewRunner :: runner where
  "NewRunner = \<lparr>rnRunning = Map.empty, rnCancelled = (\<lambda>_. False)\<rparr>"

definition setRun :: "gostring \<Rightarrow> active_run \<Rightarrow> runner \<Rightarrow> runner" where
  "setRun k a r = r\<lparr>rnRunning := (rnRunning r)(k \<mapsto> a)\<rparr>"

definition dropRun :: "gostring \<Rightarrow> runner \<Rightarrow> runner" where
  "dropRun k r = \<lparr>rnRunning = (rnRunning r)(k := None), rnCancelled = (rnCancelled r)(k := False)\<rparr>"

text \<open>A second run under a key in use is refused.\<close>

definition newRun :: active_run where
  "newRun = \<lparr>arStage = Registered, arSignalled = False, arContext = Live, arMarking = 0, arSignalling = 0\<rparr>"

definition registerRun :: "gostring \<Rightarrow> runner \<Rightarrow> runner option" where
  "registerRun k r = (case rnRunning r k of Some _ \<Rightarrow> None | None \<Rightarrow> Some (setRun k newRun r))"

definition startRun :: "gostring \<Rightarrow> active_run \<Rightarrow> runner \<Rightarrow> runner" where
  "startRun k a r = setRun k (a\<lparr>arStage := Started\<rparr>) r"

definition checkRun :: "gostring \<Rightarrow> active_run \<Rightarrow> runner \<Rightarrow> runner" where
  "checkRun k a r = setRun k (a\<lparr>arStage := Waiting, arSignalled := (arSignalled a \<or> rnCancelled r k)\<rparr>) r"

text \<open>The wait is woken by the context, cancelled or late, and sends the signal; the process ends.\<close>

definition wakeRun :: "gostring \<Rightarrow> active_run \<Rightarrow> runner \<Rightarrow> runner" where
  "wakeRun k a r = setRun k (a\<lparr>arSignalled := True\<rparr>) r"

definition processEnds :: "gostring \<Rightarrow> active_run \<Rightarrow> runner \<Rightarrow> runner" where
  "processEnds k a r = setRun k (a\<lparr>arStage := Ended\<rparr>) r"

text \<open>A context keeps the first reason it ended for: its deadline, a caller or a canceller.\<close>

definition endContext :: "context_err \<Rightarrow> active_run \<Rightarrow> active_run" where
  "endContext e a = (if arContext a = Live then a\<lparr>arContext := e\<rparr> else a)"

definition contextEnds :: "context_err \<Rightarrow> gostring \<Rightarrow> active_run \<Rightarrow> runner \<Rightarrow> runner" where
  "contextEnds e k a r = setRun k (endContext e a) r"

text \<open>The mark of \<^verbatim>\<open>Cancel\<close> on a registered key, then the context and the signal to a process that exists.\<close>

definition markRun :: "gostring \<Rightarrow> runner \<Rightarrow> runner" where
  "markRun k r =
     (case rnRunning r k of
        None \<Rightarrow> r
      | Some a \<Rightarrow> (setRun k (a\<lparr>arMarking := arMarking a + 1\<rparr>) r)\<lparr>rnCancelled := (rnCancelled r)(k := True)\<rparr>)"

definition cancelContext :: "gostring \<Rightarrow> active_run \<Rightarrow> runner \<Rightarrow> runner" where
  "cancelContext k a r =
     setRun k ((endContext ContextCanceled a)\<lparr>arMarking := arMarking a - 1, arSignalling := arSignalling a + 1\<rparr>) r"

definition signalRun :: "gostring \<Rightarrow> active_run \<Rightarrow> runner \<Rightarrow> runner" where
  "signalRun k a r =
     setRun k (a\<lparr>arSignalling := arSignalling a - 1, arSignalled := (arSignalled a \<or> arStage a \<noteq> Registered)\<rparr>) r"

text \<open>\<^verbatim>\<open>CancelPrefix\<close> marks all keys of the registry with the prefix under one lock.\<close>

definition markPrefix :: "gostring list \<Rightarrow> gostring \<Rightarrow> runner \<Rightarrow> runner" where
  "markPrefix keys pre r = fold markRun (filter (\<lambda>k. hasPrefix k pre) keys) r"

text \<open>How a run whose process has ended concludes: three reads, then the outcome.\<close>

definition runOutcome :: "bool \<Rightarrow> bool \<Rightarrow> bool \<Rightarrow> bool \<Rightarrow> int \<Rightarrow> run_end" where
  "runOutcome logFailed waitFailed timedOut cancelled exitCode =
     (if logFailed \<and> \<not> waitFailed \<and> \<not> timedOut \<and> \<not> cancelled then RunLogError
      else if timedOut then RunTimedOut
      else if cancelled then RunCancelled
      else if waitFailed then RunExited exitCode
      else RunSucceeded)"

definition readTimedOut :: "gostring \<Rightarrow> active_run \<Rightarrow> runner \<Rightarrow> runner" where
  "readTimedOut k a r = setRun k (a\<lparr>arStage := TimedOutRead (arContext a = DeadlineExceeded)\<rparr>) r"

definition readMark :: "gostring \<Rightarrow> active_run \<Rightarrow> bool \<Rightarrow> runner \<Rightarrow> runner" where
  "readMark k a timedOut r = setRun k (a\<lparr>arStage := MarkRead timedOut (rnCancelled r k)\<rparr>) r"

definition concludeRun :: "gostring \<Rightarrow> active_run \<Rightarrow> bool \<Rightarrow> bool \<Rightarrow> bool \<Rightarrow> bool \<Rightarrow> int \<Rightarrow> runner \<Rightarrow> runner" where
  "concludeRun k a timedOut mark logFailed waitFailed exitCode r =
     setRun k (a\<lparr>arStage := Concluded (runOutcome logFailed waitFailed timedOut (arContext a = ContextCanceled \<or> mark) exitCode)\<rparr>) r"

text \<open>Every interleaving of runs, cancellers and contexts; a process that cannot be started takes its run out.\<close>

inductive runner_step :: "runner \<Rightarrow> runner \<Rightarrow> bool" where
  step_register: "registerRun k r = Some r' \<Longrightarrow> runner_step r r'"
| step_start: "rnRunning r k = Some a \<Longrightarrow> arStage a = Registered \<Longrightarrow> runner_step r (startRun k a r)"
| step_refused: "rnRunning r k = Some a \<Longrightarrow> arStage a = Registered \<Longrightarrow> runner_step r (dropRun k r)"
| step_check: "rnRunning r k = Some a \<Longrightarrow> arStage a = Started \<Longrightarrow> runner_step r (checkRun k a r)"
| step_wake: "rnRunning r k = Some a \<Longrightarrow> arStage a = Waiting \<Longrightarrow> arContext a \<noteq> Live \<Longrightarrow> runner_step r (wakeRun k a r)"
| step_process: "rnRunning r k = Some a \<Longrightarrow> arStage a = Waiting \<Longrightarrow> runner_step r (processEnds k a r)"
| step_context: "rnRunning r k = Some a \<Longrightarrow> runner_step r (contextEnds e k a r)"
| step_mark: "runner_step r (markRun k r)"
| step_mark_prefix: "runner_step r (markPrefix keys pre r)"
| step_cancel: "rnRunning r k = Some a \<Longrightarrow> 0 < arMarking a \<Longrightarrow> runner_step r (cancelContext k a r)"
| step_signal: "rnRunning r k = Some a \<Longrightarrow> 0 < arSignalling a \<Longrightarrow> runner_step r (signalRun k a r)"
| step_timed: "rnRunning r k = Some a \<Longrightarrow> arStage a = Ended \<Longrightarrow> runner_step r (readTimedOut k a r)"
| step_read: "rnRunning r k = Some a \<Longrightarrow> arStage a = TimedOutRead t \<Longrightarrow> runner_step r (readMark k a t r)"
| step_conclude:
    "rnRunning r k = Some a \<Longrightarrow> arStage a = MarkRead t m \<Longrightarrow> runner_step r (concludeRun k a t m logFailed waitFailed code r)"
| step_end: "rnRunning r k = Some a \<Longrightarrow> arStage a = Concluded e \<Longrightarrow> runner_step r (dropRun k r)"

end
