(* ===== verification/AgentResults.thy ===== *)
theory AgentResults
  imports AgentCommands CheckpointResults
begin

text \<open>
  What the agent package guarantees: the parser sees the lines of the output however it arrives, the
  capture is a prefix, evidence is bounded and consistent, a read-only run gets no argument that opens
  the sandbox, extracted JSON is JSON, and no cancellation is lost.
\<close>

section \<open>Output in pieces\<close>

text \<open>The lines the parser reads, and what is behind the last newline.\<close>

definition shortLine :: "gostring \<Rightarrow> bool" where
  "shortLine l \<longleftrightarrow> length l \<le> maxCLIEventBytes"

definition readLines :: "agent_env \<Rightarrow> gostring list \<Rightarrow> cli_evidence \<Rightarrow> cli_evidence" where
  "readLines e ls ev = fold (parseLine e) (filter shortLine ls) ev"

text \<open>The parser after the output \<open>s\<close> of which the last line is not ended.\<close>

definition afterOutput :: "agent_env \<Rightarrow> gostring \<Rightarrow> gostring \<Rightarrow> cli_parser" where
  "afterOutput e provider s =
     (let ls = splitOn newlineChar s; l = last ls in
      \<lparr>opSeen = readLines e (butlast ls) (emptyEvidence provider), opLine = (if shortLine l then l else []),
       opDiscarding = (\<not> shortLine l), opHadOutput = (s \<noteq> []), opPartial = False, opNewlines = int (length ls) - 1,
       opOversized = list_ex (\<lambda>l. \<not> shortLine l) ls, opReadError = []\<rparr>)"

lemma splitOn_snoc_sep: "splitOn c (s @ [c]) = splitOn c s @ [[]]"
  by (induction s) (auto split: list.splits)

lemma splitOn_extend: "c \<notin> set t \<Longrightarrow> splitOn c (s @ t) = butlast (splitOn c s) @ [last (splitOn c s) @ t]"
proof (induction s)
  case Nil
  then show ?case by (simp add: splitOn_single)
next
  case (Cons x s)
  then show ?case by (cases "splitOn c s") (auto split: list.splits)
qed

lemma readLines_snoc: "readLines e (ls @ [l]) ev = (if shortLine l then parseLine e l (readLines e ls ev) else readLines e ls ev)"
  by (simp add: readLines_def)

lemma split_shape:
  obtains ls l where "splitOn c s = ls @ [l]" "butlast (splitOn c s) = ls" "last (splitOn c s) = l"
  by (metis append_butlast_last_id splitOn_nonempty)

lemma after_part:
  assumes "newlineChar \<notin> set t" "t \<noteq> []"
  shows "keepPart t ((afterOutput e provider s)\<lparr>opHadOutput := True\<rparr>) = afterOutput e provider (s @ t)"
proof -
  obtain ls l where l: "splitOn newlineChar s = ls @ [l]" by (rule split_shape)
  have "splitOn newlineChar (s @ t) = ls @ [l @ t]" using splitOn_extend [OF assms(1), of s] by (simp add: l)
  then show ?thesis using assms(2)
    by (auto simp: afterOutput_def l Let_def keepPart_def shortLine_def)
qed

lemma after_newline: "endLine e ((afterOutput e provider s)\<lparr>opHadOutput := True\<rparr>) = afterOutput e provider (s @ [newlineChar])"
proof -
  obtain ls l where l: "splitOn newlineChar s = ls @ [l]" by (rule split_shape)
  have "splitOn newlineChar (s @ [newlineChar]) = ls @ [l, []]" using splitOn_snoc_sep [of newlineChar s] by (simp add: l)
  then show ?thesis
    by (simp add: afterOutput_def l Let_def endLine_def readLines_snoc shortLine_def butlast_append)
qed

lemma after_empty: "keepPart [] ((afterOutput e provider s)\<lparr>opHadOutput := True\<rparr>) = (afterOutput e provider s)\<lparr>opHadOutput := True\<rparr>"
  by (simp add: keepPart_def afterOutput_def Let_def shortLine_def)

lemma after_had: "s \<noteq> [] \<Longrightarrow> (afterOutput e provider s)\<lparr>opHadOutput := True\<rparr> = afterOutput e provider s"
  by (simp add: afterOutput_def Let_def)

lemma keep_had:
  "newlineChar \<notin> set t \<Longrightarrow>
   keepPart t ((afterOutput e provider s)\<lparr>opHadOutput := True\<rparr>) = (afterOutput e provider (s @ t))\<lparr>opHadOutput := True\<rparr>"
  by (cases "t = []") (auto simp: after_part after_empty after_had)

lemma write_loop:
  "writeLoop e t ((afterOutput e provider s)\<lparr>opHadOutput := True\<rparr>) = (afterOutput e provider (s @ t))\<lparr>opHadOutput := True\<rparr>"
proof (induction t arbitrary: s rule: length_induct)
  case (1 t)
  let ?part = "takeWhile (\<lambda>c. c \<noteq> newlineChar) t"
  have part: "newlineChar \<notin> set ?part" by (auto dest: set_takeWhileD)
  show ?case
  proof (cases "t = [] \<or> length ?part = length t")
    case True
    then have "t = [] \<or> ?part = t" using takeWhile_eq_take [of "\<lambda>c. c \<noteq> newlineChar" t] by auto
    then show ?thesis
    proof
      assume "t = []"
      then show ?thesis by (subst writeLoop.simps) simp
    next
      assume p: "?part = t"
      have "writeLoop e t ((afterOutput e provider s)\<lparr>opHadOutput := True\<rparr>) =
          (if t = [] then (afterOutput e provider s)\<lparr>opHadOutput := True\<rparr>
           else keepPart t ((afterOutput e provider s)\<lparr>opHadOutput := True\<rparr>))"
        by (subst writeLoop.simps) (simp only: p Let_def refl if_True cong: if_cong)
      then show ?thesis using keep_had [OF part, of e provider s] by (auto simp only: p split: if_splits) simp
    qed
  next
    case False
    then have "dropWhile (\<lambda>c. c \<noteq> newlineChar) t \<noteq> []"
      by (metis append_Nil2 takeWhile_dropWhile_id)
    then obtain x rest where d: "dropWhile (\<lambda>c. c \<noteq> newlineChar) t = x # rest" by (cases "dropWhile (\<lambda>c. c \<noteq> newlineChar) t") auto
    have "x = newlineChar" using hd_dropWhile [of "\<lambda>c. c \<noteq> newlineChar" t] d by simp
    with d have t: "t = ?part @ newlineChar # rest" using takeWhile_dropWhile_id [of "\<lambda>c. c \<noteq> newlineChar" t] by simp
    have "drop (length ?part + 1) (?part @ newlineChar # rest) = rest" by simp
    then have rest: "drop (length ?part + 1) t = rest" using t by simp
    have "length rest < length t" using False by (simp flip: rest)
    then have IH: "writeLoop e rest ((afterOutput e provider (s @ ?part @ [newlineChar]))\<lparr>opHadOutput := True\<rparr>) =
        (afterOutput e provider ((s @ ?part @ [newlineChar]) @ rest))\<lparr>opHadOutput := True\<rparr>"
      using 1 by blast
    have "endLine e (keepPart ?part ((afterOutput e provider s)\<lparr>opHadOutput := True\<rparr>)) =
        afterOutput e provider ((s @ ?part) @ [newlineChar])"
      by (simp only: keep_had [OF part] after_newline)
    then have "endLine e (keepPart ?part ((afterOutput e provider s)\<lparr>opHadOutput := True\<rparr>)) =
        (afterOutput e provider (s @ ?part @ [newlineChar]))\<lparr>opHadOutput := True\<rparr>"
      by (simp add: after_had)
    with False have "writeLoop e t ((afterOutput e provider s)\<lparr>opHadOutput := True\<rparr>) =
        writeLoop e rest ((afterOutput e provider (s @ ?part @ [newlineChar]))\<lparr>opHadOutput := True\<rparr>)"
      by (subst writeLoop.simps) (simp add: Let_def flip: rest)
    also have "\<dots> = (afterOutput e provider (s @ t))\<lparr>opHadOutput := True\<rparr>"
    proof -
      have "(s @ ?part @ [newlineChar]) @ rest = s @ t" using t by simp
      then show ?thesis unfolding IH by (rule arg_cong)
    qed
    finally show ?thesis .
  qed
qed

lemma write_chunk: "cliWrite e t (afterOutput e provider s) = afterOutput e provider (s @ t)"
  by (cases "t = []") (simp_all add: cliWrite_def write_loop after_had)

lemma after_start: "afterOutput e provider [] = newCLIOutputParser provider"
  by (simp add: afterOutput_def newCLIOutputParser_def Let_def readLines_def shortLine_def)

lemma write_chunks: "fold (cliWrite e) ts (afterOutput e provider s) = afterOutput e provider (s @ concat ts)"
  by (induction ts arbitrary: s) (simp_all add: write_chunk)

lemma parsed_output: "fold (cliWrite e) ts (newCLIOutputParser provider) = afterOutput e provider (concat ts)"
  using write_chunks [of e ts provider "[]"] by (simp add: after_start)

lemma parseLine_Nil: "parseLine e [] ev = ev"
  by (simp add: parseLine_def)

lemma readLines_last: "readLines e (ls @ [[]]) ev = readLines e ls ev"
  by (simp add: readLines_snoc parseLine_Nil)

lemma finished_output:
  fixes e :: agent_env and provider s :: gostring
  defines "q \<equiv> cliFinish e (afterOutput e provider s)" and "ls \<equiv> splitOn newlineChar s"
  shows "opSeen q = readLines e ls (emptyEvidence provider)" "opOversized q \<longleftrightarrow> \<not> list_all shortLine ls"
    "outputLines q = (if s = [] then 0 else int (length ls) - (if last ls = [] then 1 else 0))"
proof -
  obtain ks l where l: "splitOn newlineChar s = ks @ [l]" by (rule split_shape)
  show "opSeen q = readLines e ls (emptyEvidence provider)"
    by (auto simp: q_def ls_def l cliFinish_def afterOutput_def Let_def readLines_snoc parseLine_Nil)
  show "opOversized q \<longleftrightarrow> \<not> list_all shortLine ls"
    by (auto simp: q_def ls_def l cliFinish_def afterOutput_def Let_def list_ex_iff list_all_iff)
  show "outputLines q = (if s = [] then 0 else int (length ls) - (if last ls = [] then 1 else 0))"
    by (auto simp: q_def ls_def l cliFinish_def afterOutput_def Let_def outputLines_def shortLine_def)
qed

section \<open>The capture\<close>

definition captured :: "int \<Rightarrow> gostring \<Rightarrow> stream_capture" where
  "captured limit s =
     \<lparr>scLog = s, scCapture = \<lparr>lcData = take (nat limit) s, lcLimit = limit, lcTruncated = (int (length s) > max limit 0)\<rparr>,
      scBytes = int (length s)\<rparr>"

lemma captured_write: "streamWrite False p (captured limit s) = captured limit (s @ p)"
proof (cases "limit \<le> int (length s)")
  case True
  then have "nat limit \<le> length s" by simp
  with True show ?thesis by (cases p) (auto simp: streamWrite_def captured_def limitedWrite_def Let_def)
next
  case False
  then have n: "nat limit > length s" "nat limit - length s = nat (limit - int (length s))" by auto
  with False show ?thesis by (auto simp: streamWrite_def captured_def limitedWrite_def Let_def)
qed

lemma captured_writes: "fold (streamWrite False) ps (captured limit s) = captured limit (s @ concat ps)"
  by (induction ps arbitrary: s) (simp_all add: captured_write)

section \<open>Evidence\<close>

definition boundedText :: "gostring \<Rightarrow> bool" where
  "boundedText t \<longleftrightarrow> int (length t) \<le> maxEvidenceSummaryBytes \<and> newlines t \<le> maxEvidenceSummaryLines"

text \<open>A command with bounded texts, whose status is that of the exit code when there is one.\<close>

definition consistentEvidence :: "validation_evidence \<Rightarrow> bool" where
  "consistentEvidence ev \<longleftrightarrow>
     veCommand ev \<noteq> [] \<and> boundedText (veSummary ev) \<and> boundedText (veReason ev) \<and>
     (case veExitCode ev of
        None \<Rightarrow> veAvailability ev = MetricFieldsMissing \<and> veStatus ev \<in> {''passed'', ''failed'', ''unknown''}
      | Some code \<Rightarrow> veAvailability ev = MetricAvailable \<and> veStatus ev = exitStatus code)"

definition evidenceKept :: "cli_evidence \<Rightarrow> bool" where
  "evidenceKept p \<longleftrightarrow>
     list_all consistentEvidence (ceValidations p) \<and> boundedText (ceReason p) \<and>
     (\<forall>i ev. cePending p i = Some ev \<longrightarrow> (\<exists>command. command \<noteq> [] \<and> ev = newEvidence command))"

lemma bounded_Nil [simp]: "boundedText []"
  by (simp add: boundedText_def maxEvidenceSummaryBytes_def maxEvidenceSummaryLines_def)

lemma bound_evidence: "boundEvidenceText v = (p, t) \<Longrightarrow> boundedText p"
proof -
  assume b: "boundEvidenceText v = (p, t)"
  show ?thesis
  proof (cases "toValidUTF8 v = []")
    case True
    with b show ?thesis by (simp add: boundEvidenceText_def)
  next
    case False
    with b have "boundCheckpointText (toValidUTF8 v) maxEvidenceSummaryBytes maxEvidenceSummaryLines = (p, t)"
      by (simp add: boundEvidenceText_def boundCheckpointText_def maxEvidenceSummaryBytes_def maxEvidenceSummaryLines_def)
    from bound_text_bounds [OF this] show ?thesis
      by (simp add: boundedText_def maxEvidenceSummaryBytes_def maxEvidenceSummaryLines_def)
  qed
qed

lemma bound_fst [simp]: "boundedText (fst (boundEvidenceText v))"
  using bound_evidence by (cases "boundEvidenceText v") simp

lemma exit_status: "exitStatus code \<in> {''passed'', ''failed'', ''unknown''}"
  by (simp add: exitStatus_def)

text \<open>What is consistent apart from the command and the summary, which come later.\<close>

definition statusFits :: "validation_evidence \<Rightarrow> bool" where
  "statusFits ev \<longleftrightarrow>
     (case veExitCode ev of
        None \<Rightarrow> veAvailability ev = MetricFieldsMissing \<and> veStatus ev \<in> {''passed'', ''failed'', ''unknown''}
      | Some code \<Rightarrow> veAvailability ev = MetricAvailable \<and> veStatus ev = exitStatus code)"

lemma status_new: "statusFits (newEvidence command)"
  by (simp add: statusFits_def newEvidence_def)

lemma status_exit: "withExitCode v ev = Some x \<Longrightarrow> statusFits x"
  by (auto simp: withExitCode_def statusFits_def)

lemma status_codex: "statusFits ev \<Longrightarrow> veExitCode ev = None \<Longrightarrow> statusFits (codexStatus item ev)"
  by (auto simp: codexStatus_def Let_def intro: status_exit split: option.splits) (auto simp: statusFits_def)

lemma exit_fields: "withExitCode v ev = Some x \<Longrightarrow> veReason x = veReason ev \<and> veSummary x = veSummary ev \<and> veCommand x = veCommand ev"
  by (auto simp: withExitCode_def)

lemma codex_fields: "veReason (codexStatus item ev) = veReason ev"
  by (auto simp: codexStatus_def Let_def exit_fields split: option.splits)

lemma codex_evidence:
  assumes "veCommand (validationFromCodexItem e item) \<noteq> []"
  shows "consistentEvidence (validationFromCodexItem e item)"
proof -
  define ev where "ev = codexStatus item (newEvidence (if trimSpace (jsonText e (fieldOf ''command'' item)) = []
    then trimSpace (jsonText e (fieldOf ''cmd'' item)) else trimSpace (jsonText e (fieldOf ''command'' item))))"
  have ev: "statusFits ev" "veReason ev = []"
    unfolding ev_def by (rule status_codex [OF status_new], simp_all add: codex_fields newEvidence_def)
  obtain summary truncated where b: "boundEvidenceText (firstJSONText e item [''aggregated_output'', ''output'', ''stdout'', ''stderr'']) =
      (summary, truncated)" by fastforce
  define x where "x = ev\<lparr>veStarted := jsonTimePointer e (fieldOf ''started_at'' item), veFinished := jsonTimePointer e (fieldOf ''finished_at'' item),
     veDuration := jsonDurationPointer e item, veSummary := summary, veTruncated := truncated\<rparr>"
  have x: "statusFits x" "veReason x = []" "veSummary x = summary" using ev
    by (auto simp: x_def statusFits_def split: option.splits)
  have v: "validationFromCodexItem e item = codexReason e item x"
    by (simp only: validationFromCodexItem_def Let_def b case_prod_conv x_def ev_def)
  have "statusFits (codexReason e item x)" "veSummary (codexReason e item x) = summary" "boundedText (veReason (codexReason e item x))"
    using x bound_evidence [OF b] by (auto simp: codexReason_def statusFits_def Let_def split: option.splits)
  with assms show ?thesis using bound_evidence [OF b] unfolding consistentEvidence_def statusFits_def v by simp
qed

lemma claude_evidence:
  assumes "command \<noteq> []"
  shows "consistentEvidence (claudeOutcome e content (newEvidence command))"
proof -
  obtain summary truncated where b: "boundEvidenceText (jsonText e (fieldOf ''content'' content)) = (summary, truncated)" by fastforce
  define x where "x = claudeReported content ((newEvidence command)\<lparr>veSummary := summary, veTruncated := truncated\<rparr>)"
  have x: "statusFits x" "veCommand x = command" "veSummary x = summary" "boundedText (veReason x)"
    using bound_evidence [OF b] by (auto simp: x_def claudeReported_def statusFits_def newEvidence_def split: json.splits)
  have "claudeOutcome e content (newEvidence command) =
      (case withExitCode (fieldOf ''exit_code'' content) x of None \<Rightarrow> x | Some y \<Rightarrow> y)"
    by (simp only: claudeOutcome_def Let_def b x_def case_prod_conv)
  then have "statusFits (claudeOutcome e content (newEvidence command))"
      "veCommand (claudeOutcome e content (newEvidence command)) = command"
      "veSummary (claudeOutcome e content (newEvidence command)) = summary"
      "boundedText (veReason (claudeOutcome e content (newEvidence command)))"
    using x by (auto dest: status_exit exit_fields split: option.splits)
  with assms bound_evidence [OF b] show ?thesis unfolding consistentEvidence_def statusFits_def by simp
qed

text \<open>What only touches the other fields.\<close>

definition sameEvidence :: "cli_evidence \<Rightarrow> cli_evidence \<Rightarrow> bool" where
  "sameEvidence p q \<longleftrightarrow> ceValidations q = ceValidations p \<and> ceReason q = ceReason p \<and> cePending q = cePending p"

lemma same_kept: "sameEvidence p q \<Longrightarrow> evidenceKept p \<Longrightarrow> evidenceKept q"
  by (simp add: sameEvidence_def evidenceKept_def)

lemma same_evidence:
  "sameEvidence p (captureSession v p)" "sameEvidence p (capturePlanTaskCount e v p)" "sameEvidence p (codexTurn e event p)"
  "sameEvidence p (codexStart p)"
  by (auto simp: sameEvidence_def captureSession_def capturePlanTaskCount_def codexTurn_def codexStart_def Let_def
    split: json.splits option.splits)

lemmas same_kepts = same_evidence [THEN same_kept]

lemma kept_reason: "evidenceKept p \<Longrightarrow> evidenceKept (captureFailureReason e ms p)"
  by (simp add: evidenceKept_def captureFailureReason_def)

lemma kept_codex_command: "evidenceKept p \<Longrightarrow> evidenceKept (codexCommand e item p)"
  using codex_evidence [of e item] by (auto simp: evidenceKept_def codexCommand_def Let_def)

lemma kept_codex: "evidenceKept p \<Longrightarrow> evidenceKept (parseCodexEvent e event p)"
  unfolding parseCodexEvent_def codexItem_def Let_def
  by (auto intro!: same_kepts kept_reason kept_codex_command split: option.splits)

lemma kept_claude_command: "evidenceKept p \<Longrightarrow> evidenceKept (claudeCommand e content p)"
  by (auto simp: evidenceKept_def claudeCommand_def Let_def)

lemma kept_claude_result: "evidenceKept p \<Longrightarrow> evidenceKept (claudeResult e content p)"
  by (auto simp: evidenceKept_def claudeResult_def Let_def intro: claude_evidence split: option.splits)

lemma kept_fold: "(\<And>c p. evidenceKept p \<Longrightarrow> evidenceKept (f c p)) \<Longrightarrow> evidenceKept p \<Longrightarrow> evidenceKept (fold f cs p)"
  by (induction cs arbitrary: p) simp_all

lemma kept_count: "evidenceKept p \<Longrightarrow> evidenceKept (p\<lparr>ceRecognized := r, ceEvents := n\<rparr>)"
  by (simp add: evidenceKept_def)

lemma kept_summary: "evidenceKept p \<Longrightarrow> evidenceKept (p\<lparr>ceSummary := x\<rparr>)" "evidenceKept p \<Longrightarrow> evidenceKept (p\<lparr>ceUsage := u\<rparr>)"
  by (simp_all add: evidenceKept_def)

lemma kept_end: "evidenceKept p \<Longrightarrow> evidenceKept (claudeEnd e event p)"
  unfolding claudeEnd_def Let_def
  by (auto intro!: same_kepts kept_reason kept_summary split: option.splits)

lemma kept_claude: "evidenceKept p \<Longrightarrow> evidenceKept (parseClaudeEvent e event p)"
  unfolding parseClaudeEvent_def captureClaudeCommands_def captureClaudeResults_def Let_def
  by (auto intro!: kept_fold kept_claude_command kept_claude_result kept_end kept_count)

lemma kept_line: "evidenceKept p \<Longrightarrow> evidenceKept (parseLine e l p)"
  by (auto simp: parseLine_def Let_def intro: kept_codex kept_claude split: option.splits json.splits)

lemma kept_start: "evidenceKept (emptyEvidence provider)"
  by (simp add: evidenceKept_def emptyEvidence_def)

lemma kept_lines: "evidenceKept p \<Longrightarrow> evidenceKept (readLines e ls p)"
  unfolding readLines_def by (rule kept_fold) (rule kept_line)

text \<open>A command that Codex reports as completed without an exit code is evidence of an unknown result, and counted as failed.\<close>

lemma completed_counts_as_failed:
  assumes "jsonMember ''exit_code'' item = None" "jsonMember ''status'' item = Some (JStr ''completed'')"
  shows "veStatus (validationFromCodexItem e item) = ''unknown''"
    "osFailed (ceSummary (codexCommand e item p)) = increment (osFailed (ceSummary p)) 1"
proof -
  have fold: "\<not> equalFold ''completed'' ''failed''" "\<not> equalFold ''completed'' ''error''" by code_simp+
  show u: "veStatus (validationFromCodexItem e item) = ''unknown''"
    using assms fold by (simp add: validationFromCodexItem_def codexStatus_def codexReason_def withExitCode_def fieldOf_def textField_def
      jsonSignedInt_def newEvidence_def Let_def split: prod.splits)
  show "osFailed (ceSummary (codexCommand e item p)) = increment (osFailed (ceSummary p)) 1"
    by (simp add: codexCommand_def Let_def u)
qed

section \<open>Read-only runs\<close>

text \<open>
  The options that open or widen the sandbox of a provider: those that need no value, and those that
  are followed by one. An option with a long name can also be spelled with its value after \<open>=\<close>.
\<close>

definition skipFlags :: "gostring list" where
  "skipFlags = [''--dangerously-skip-permissions'', ''--allow-dangerously-skip-permissions'',
     ''--dangerously-bypass-approvals-and-sandbox'', ''--dangerously-bypass-hook-trust'']"

fun longFlags :: "gostring \<Rightarrow> gostring list" where
  "longFlags provider =
     (if provider = ''codex'' then [''--sandbox'', ''--ask-for-approval'']
      else if provider = ''claude'' then
        [''--permission-mode'', ''--allowedTools'', ''--disallowedTools'', ''--allowed-tools'', ''--disallowed-tools'']
      else [])"

definition shortFlags :: "gostring \<Rightarrow> gostring list" where
  "shortFlags provider = (if provider = ''codex'' then [''-s'', ''-a''] else [])"

definition loneControl :: "gostring \<Rightarrow> gostring \<Rightarrow> bool" where
  "loneControl provider arg \<longleftrightarrow> arg \<in> set skipFlags \<or> list_ex (\<lambda>flag. hasPrefix arg (flag @ ''='')) (longFlags provider)"

definition valueControl :: "gostring \<Rightarrow> gostring \<Rightarrow> bool" where
  "valueControl provider arg \<longleftrightarrow> arg \<in> set (longFlags provider @ shortFlags provider)"

definition controlArg :: "gostring \<Rightarrow> gostring \<Rightarrow> bool" where
  "controlArg provider arg \<longleftrightarrow> loneControl provider arg \<or> valueControl provider arg"

lemma dropped_lone: "droppedArg provider arg \<longleftrightarrow> loneControl provider arg"
  by (auto simp: droppedArg_def bypassArgs_def loneControl_def skipFlags_def)

lemma dropped_value: "droppedPair provider arg \<longleftrightarrow> valueControl provider arg"
  by (auto simp: droppedPair_def valueControl_def shortFlags_def)

lemma dropped_control: "controlArg provider arg \<longleftrightarrow> droppedArg provider arg \<or> droppedPair provider arg"
  by (simp add: controlArg_def dropped_lone dropped_value)

lemma safe_args: "list_all (\<lambda>arg. \<not> controlArg provider arg) (safeReadOnlyArgs provider args)"
  by (induction provider args rule: safeReadOnlyArgs.induct) (auto simp: dropped_control)

lemma safe_args_filter: "filter (controlArg provider) (safeReadOnlyArgs provider args) = []"
  using safe_args [of provider args] by (simp add: filter_empty_conv list_all_iff)

text \<open>What is left of a list: everything up to the first such option, and what is left of the rest.\<close>

lemma safe_args_same: "list_all (\<lambda>arg. \<not> controlArg provider arg) args \<Longrightarrow> safeReadOnlyArgs provider args = args"
  by (induction provider args rule: safeReadOnlyArgs.induct) (auto simp: dropped_control)

lemma safe_args_keep: "\<not> controlArg provider arg \<Longrightarrow> safeReadOnlyArgs provider (arg # args) = arg # safeReadOnlyArgs provider args"
  by (cases args) (simp_all add: dropped_control)

lemma safe_args_lone: "loneControl provider arg \<Longrightarrow> safeReadOnlyArgs provider (arg # args) = safeReadOnlyArgs provider args"
  by (cases args) (simp_all add: dropped_lone)

lemma lone_or_value: "valueControl provider arg \<Longrightarrow> \<not> loneControl provider arg"
  by (auto simp: valueControl_def loneControl_def shortFlags_def skipFlags_def split: if_splits)

lemma safe_args_value: "valueControl provider arg \<Longrightarrow> safeReadOnlyArgs provider (arg # val # args) = safeReadOnlyArgs provider args"
  by (simp add: dropped_lone dropped_value lone_or_value)

lemma safe_args_front:
  "list_all (\<lambda>arg. \<not> controlArg provider arg) front \<Longrightarrow> safeReadOnlyArgs provider (front @ args) = front @ safeReadOnlyArgs provider args"
  by (induction front) (simp_all add: safe_args_keep)

text \<open>Spellings the filter does not know are passed on.\<close>

lemma other_spellings_kept:
  "safeReadOnlyArgs ''codex'' [''-c'', ''sandbox_mode=\"danger-full-access\"'', ''--full-auto'', ''-s=danger-full-access''] =
     [''-c'', ''sandbox_mode=\"danger-full-access\"'', ''--full-auto'', ''-s=danger-full-access'']"
  by code_simp

lemma fixed_codex:
  "filter (controlArg ''codex'') [''exec'', ''--sandbox'', ''read-only'', ''--skip-git-repo-check'', ''--json''] = [''--sandbox'']"
  "filter (controlArg ''codex'') [''exec'', ''resume'', ''-c'', ''sandbox_mode=\"read-only\"'', ''--skip-git-repo-check'', ''--json''] = []"
  by code_simp+

lemma fixed_claude:
  "filter (controlArg ''claude'') readOnlyClaude = [''--permission-mode'', ''--allowedTools'']"
  "\<not> controlArg ''claude'' ''-p''" "\<not> controlArg ''claude'' ''--resume''"
  by code_simp+

section \<open>Extracted JSON\<close>

lemma extracted_value: "extractJSONValue j raw = Some t \<Longrightarrow> jtValid j t"
  by (auto simp: extractJSONValue_def split: if_splits option.splits)

lemma extracted_first: "firstExtracted j raws = Some t \<Longrightarrow> jtValid j t"
  by (induction raws) (auto dest: extracted_value split: option.splits)

lemma extracted_envelope: "extractJSONEnvelope j raw = Some t \<Longrightarrow> jtValid j t"
  by (auto simp: extractJSONEnvelope_def dest: extracted_value extracted_first simp del: firstExtracted.simps split: if_splits option.splits)

lemma extracted_lines: "extractFromLines j ls = Some t \<Longrightarrow> jtValid j t"
  by (induction ls) (auto simp: Let_def dest: extracted_envelope split: if_splits option.splits)

text \<open>What is extracted from an output is JSON.\<close>

lemma extracted_is_json: "ExtractJSON j output = Some t \<Longrightarrow> jtValid j t"
  by (auto simp: ExtractJSON_def Let_def dest: extracted_envelope extracted_lines split: if_splits option.splits)

text \<open>A member that is null decodes into a nil map without an error, so it is taken for the answer and hides the others.\<close>

lemma null_member_wins:
  assumes "jtValid j output" "trimSpace output = output" "jtMembers j output = Some ms" "ms ''result'' = Some ''null''"
    and "jtValid j ''null''" "jtMembers j ''null'' = Some Map.empty" "jtString j ''null'' = Some []" "\<not> jtValid j []"
  shows "ExtractJSON j output = Some ''null''"
  using assms by (simp add: ExtractJSON_def extractJSONEnvelope_def extractJSONValue_def rawMember_def)

section \<open>Cancellation\<close>

declare runner_step.intros [intro]

inductive_cases runner_stepE [elim]: "runner_step r r'"

lemmas runner_defs = setRun_def dropRun_def newRun_def startRun_def checkRun_def wakeRun_def processEnds_def contextEnds_def
  endContext_def cancelContext_def signalRun_def readTimedOut_def readMark_def concludeRun_def

text \<open>
  A marked run is registered; unless a canceller is still on its way its context has ended, and its
  process, once waited for, has got the signal.
\<close>

definition marksHeld :: "runner \<Rightarrow> bool" where
  "marksHeld r \<longleftrightarrow>
     (\<forall>k. rnCancelled r k \<longrightarrow>
        (\<exists>a. rnRunning r k = Some a \<and> (arMarking a = 0 \<longrightarrow> arContext a \<noteq> Live) \<and>
           (arMarking a = 0 \<longrightarrow> arSignalling a = 0 \<longrightarrow> arStage a \<notin> {Registered, Started} \<longrightarrow> arSignalled a)))"

lemma marks_mark: "marksHeld r \<Longrightarrow> marksHeld (markRun k r)"
  by (auto simp: marksHeld_def markRun_def runner_defs split: option.splits)

lemma marks_fold: "marksHeld r \<Longrightarrow> marksHeld (fold markRun ks r)"
  by (induction ks arbitrary: r) (simp_all add: marks_mark)

lemma marks_step: "runner_step r r' \<Longrightarrow> marksHeld r \<Longrightarrow> marksHeld r'"
proof (induction rule: runner_step.induct)
  case (step_register k r r')
  then have free: "rnRunning r k = None" by (simp add: registerRun_def split: option.splits)
  then have "\<not> rnCancelled r k" using step_register.prems unfolding marksHeld_def by (metis option.distinct(1))
  with step_register free show ?case by (auto simp: marksHeld_def registerRun_def runner_defs)
next
  case (step_mark r k)
  then show ?case by (rule marks_mark)
next
  case (step_mark_prefix r keys pre)
  then show ?case by (simp add: markPrefix_def marks_fold)
next
  case (step_context r k a e)
  then show ?case by (cases e) (auto simp: marksHeld_def runner_defs)
qed (auto simp: marksHeld_def runner_defs)

lemma marks_reachable: "runner_step\<^sup>*\<^sup>* NewRunner r \<Longrightarrow> marksHeld r"
proof (induction rule: rtranclp_induct)
  case base
  show ?case by (simp add: marksHeld_def NewRunner_def)
qed (rule marks_step)

text \<open>Marking changes neither who is registered nor how far the runs are.\<close>

lemma mark_running: "map_option arStage (rnRunning (markRun k r) i) = map_option arStage (rnRunning r i)"
  by (auto simp: markRun_def runner_defs split: option.splits)

lemma mark_fold_running: "map_option arStage (rnRunning (fold markRun ks r) i) = map_option arStage (rnRunning r i)"
  by (induction ks arbitrary: r) (simp_all add: mark_running)

lemma mark_keeps: "rnCancelled r i \<Longrightarrow> rnCancelled (markRun k r) i"
  by (auto simp: markRun_def runner_defs split: option.splits)

lemma mark_fold_keeps: "rnCancelled r i \<Longrightarrow> rnCancelled (fold markRun ks r) i"
proof (induction ks arbitrary: r)
  case (Cons k ks)
  then show ?case using mark_keeps [of r i k] by simp
qed simp

lemma mark_fold_marks: "k \<in> set ks \<Longrightarrow> rnRunning r k \<noteq> None \<Longrightarrow> rnCancelled (fold markRun ks r) k"
proof (induction ks arbitrary: r)
  case (Cons x ks)
  show ?case
  proof (cases "x = k")
    case True
    with Cons.prems have "rnCancelled (markRun x r) k" by (auto simp: markRun_def runner_defs)
    then show ?thesis using mark_fold_keeps by simp
  next
    case False
    then have "k \<in> set ks" using Cons.prems by simp
    moreover have "rnRunning (markRun x r) k \<noteq> None" using Cons.prems mark_running [of x r k] by auto
    ultimately show ?thesis using Cons.IH by simp
  qed
qed simp

text \<open>A run that is marked before it has read its mark: what it reads and how it concludes.\<close>

fun beforeMarkRead :: "run_stage \<Rightarrow> bool" where
  "beforeMarkRead (MarkRead t m) = False"
| "beforeMarkRead (Concluded e) = False"
| "beforeMarkRead stage = True"

fun noticed :: "run_stage \<Rightarrow> bool" where
  "noticed (MarkRead t m) = m"
| "noticed (Concluded e) = (e = RunTimedOut \<or> e = RunCancelled)"
| "noticed stage = True"

lemma before_noticed: "beforeMarkRead stage \<Longrightarrow> noticed stage"
  by (cases stage) simp_all

definition cancelSeen :: "gostring \<Rightarrow> runner \<Rightarrow> bool" where
  "cancelSeen k r \<longleftrightarrow> rnCancelled r k \<and> (\<exists>a. rnRunning r k = Some a \<and> noticed (arStage a))"

lemma cancelSeen_stage: "cancelSeen k r \<longleftrightarrow> rnCancelled r k \<and> (\<exists>stage. map_option arStage (rnRunning r k) = Some stage \<and> noticed stage)"
  by (auto simp: cancelSeen_def)

lemma outcome_noticed: "runOutcome logFailed waitFailed t True code = (if t then RunTimedOut else RunCancelled)"
  by (simp add: runOutcome_def)

lemma seen_step: "runner_step r r' \<Longrightarrow> cancelSeen k r \<Longrightarrow> rnRunning r' k \<noteq> None \<Longrightarrow> cancelSeen k r'"
proof (induction rule: runner_step.induct)
  case (step_register i r r')
  then show ?case by (auto simp: cancelSeen_def registerRun_def runner_defs split: option.splits if_splits)
next
  case (step_mark r i)
  then show ?case using mark_keeps [of r k i] by (simp add: cancelSeen_stage mark_running)
next
  case (step_mark_prefix r keys pre)
  then show ?case using mark_fold_keeps [of r k] by (simp add: cancelSeen_stage markPrefix_def mark_fold_running)
next
  case (step_conclude r i a t m logFailed waitFailed code)
  then show ?case by (cases m) (auto simp: cancelSeen_def runner_defs outcome_noticed)
qed (auto simp: cancelSeen_def runner_defs split: if_splits)

text \<open>Steps during which the run of a key stays registered.\<close>

definition stepsWith :: "gostring \<Rightarrow> runner \<Rightarrow> runner \<Rightarrow> bool" where
  "stepsWith k = (\<lambda>r r'. runner_step r r' \<and> rnRunning r' k \<noteq> None)\<^sup>*\<^sup>*"

lemma stays_seen: "stepsWith k r r' \<Longrightarrow> cancelSeen k r \<Longrightarrow> cancelSeen k r'"
  unfolding stepsWith_def by (induction rule: rtranclp_induct) (auto intro: seen_step)

lemma stays_reachable: "stepsWith k r r' \<Longrightarrow> runner_step\<^sup>*\<^sup>* r r'"
  unfolding stepsWith_def by (rule rtranclp_mono [THEN predicate2D, rotated]) auto

text \<open>The window at the end: a run that has concluded keeps its end, whoever cancels it then.\<close>

lemma concluded_stays:
  assumes "stepsWith k r r'" "rnRunning r k = Some a" "arStage a = Concluded e"
  shows "\<exists>b. rnRunning r' k = Some b \<and> arStage b = Concluded e"
proof -
  have "map_option arStage (rnRunning r' k) = Some (Concluded e)"
    using assms(1) unfolding stepsWith_def
  proof (induction rule: rtranclp_induct)
    case base
    then show ?case using assms by simp
  next
    case (step y z)
    from step.hyps(2) have "runner_step y z" "rnRunning z k \<noteq> None" by simp_all
    then show ?case using step.IH
    proof (induction rule: runner_step.induct)
      case (step_register i r r')
      then show ?case by (auto simp: registerRun_def runner_defs split: option.splits if_splits)
    next
      case (step_mark r i)
      then show ?case by (simp add: mark_running)
    next
      case (step_mark_prefix r keys pre)
      then show ?case by (simp add: markPrefix_def mark_fold_running)
    qed (auto simp: runner_defs split: if_splits)
  qed
  then show ?thesis by auto
qed

section \<open>Properties\<close>

text \<open>C26. However the log arrives in pieces, the parser has read exactly the lines of the whole output that are not
  longer than a megabyte, in order, reports an oversized line exactly when there is one, and counts the lines; and the
  writer of the process keeps the whole output in the log and its longest prefix within the limit in memory.\<close>

lemma output_read_by_lines:
  "let q = parseCLIOutputLog e pieces err (newCLIOutputParser provider); ls = splitOn newlineChar (concat pieces) in
     opSeen q = fold (parseLine e) (filter (\<lambda>l. length l \<le> maxCLIEventBytes) ls) (emptyEvidence provider) \<and>
     (opOversized q \<longleftrightarrow> list_ex (\<lambda>l. length l > maxCLIEventBytes) ls) \<and>
     outputLines q = (if concat pieces = [] then 0 else int (length ls) - (if last ls = [] then 1 else 0)) \<and>
     fold (streamWrite False) pieces (captured limit []) = captured limit (concat pieces)"
proof -
  define q where "q = cliFinish e (afterOutput e provider (concat pieces))"
  have q: "parseCLIOutputLog e pieces err (newCLIOutputParser provider) = q\<lparr>opReadError := err\<rparr>"
    by (simp add: parseCLIOutputLog_def parsed_output q_def)
  have lines: "outputLines (q\<lparr>opReadError := err\<rparr>) = outputLines q" by (simp add: outputLines_def)
  show ?thesis unfolding q lines Let_def
    using finished_output [of e provider "concat pieces", folded q_def] captured_writes [of pieces limit "[]"]
    by (auto simp: readLines_def shortLine_def [abs_def] list_all_iff list_ex_iff not_le)
qed

text \<open>C29. Every validation the parser reports has a command, summary and reason of at most 16384 bytes and 200 lines, and
  where the agent gave an exit code a status that is passed exactly for zero; the failure reason of the run is bounded too.\<close>

lemma evidence_bounded:
  "list_all consistentEvidence (ceValidations (opSeen (parseCLIOutputLog e pieces err (newCLIOutputParser provider)))) \<and>
   boundedText (ceReason (opSeen (parseCLIOutputLog e pieces err (newCLIOutputParser provider))))"
proof -
  have "opSeen (parseCLIOutputLog e pieces err (newCLIOutputParser provider)) =
      readLines e (splitOn newlineChar (concat pieces)) (emptyEvidence provider)"
    by (simp add: parseCLIOutputLog_def parsed_output finished_output(1))
  then show ?thesis using kept_lines [OF kept_start] by (simp add: evidenceKept_def)
qed


text \<open>C12. No cancellation of a run that can still see it is lost: a run that is registered and has not yet read its mark
  when its key or a prefix of it is marked, even before its process exists, reads the mark as set and can only conclude as
  cancelled or, when its deadline had passed, as timed out; once its cancellers are through, its context has ended and a
  process that is waited for has got the signal; and a later run under the same key starts without a mark. A cancellation
  that comes after the run has read its mark may go unnoticed.\<close>

lemma cancellation_not_lost:
  assumes "runner_step\<^sup>*\<^sup>* NewRunner r" "rnRunning r k = Some a" "beforeMarkRead (arStage a)"
    and "r1 = markRun k r \<or> r1 = markPrefix keys pre r \<and> k \<in> set keys \<and> hasPrefix k pre"
    and "stepsWith k r1 r2"
  shows "(\<exists>b. rnRunning r2 k = Some b \<and>
       (\<forall>t m. arStage b = MarkRead t m \<longrightarrow> m) \<and>
       (\<forall>e. arStage b = Concluded e \<longrightarrow> e = RunTimedOut \<or> e = RunCancelled) \<and>
       (arMarking b = 0 \<longrightarrow> arContext b \<noteq> Live) \<and>
       (arMarking b = 0 \<longrightarrow> arSignalling b = 0 \<longrightarrow> arStage b \<notin> {Registered, Started} \<longrightarrow> arSignalled b)) \<and>
     (\<forall>r3 r4. runner_step\<^sup>*\<^sup>* r2 r3 \<longrightarrow> registerRun k r3 = Some r4 \<longrightarrow> \<not> rnCancelled r4 k)"
proof -
  have "rnCancelled r1 k"
    using assms(2,4) mark_fold_marks [of k "filter (\<lambda>k. hasPrefix k pre) keys" r]
    by (auto simp: markPrefix_def markRun_def runner_defs)
  moreover have "map_option arStage (rnRunning r1 k) = Some (arStage a)"
    using assms(2,4) mark_running [of k r k] mark_fold_running [of "filter (\<lambda>k. hasPrefix k pre) keys" r k]
    by (auto simp only: markPrefix_def option.map)
  ultimately have "cancelSeen k r1" using before_noticed [OF assms(3)] unfolding cancelSeen_stage by blast
  then have seen: "cancelSeen k r2" by (rule stays_seen [OF assms(5)])
  have "runner_step r r1" using assms(4) by auto
  with assms(1) have "runner_step\<^sup>*\<^sup>* NewRunner r1" by (rule rtranclp.rtrancl_into_rtrancl)
  then have reach: "runner_step\<^sup>*\<^sup>* NewRunner r2" using stays_reachable [OF assms(5)] by (rule rtranclp_trans)
  have "\<not> rnCancelled r4 k" if "runner_step\<^sup>*\<^sup>* r2 r3" "registerRun k r3 = Some r4" for r3 r4
  proof -
    have "marksHeld r3" using marks_reachable rtranclp_trans [OF reach that(1)] by blast
    then show ?thesis using that(2) by (auto simp: marksHeld_def registerRun_def runner_defs split: option.splits)
  qed
  moreover obtain b where b: "rnRunning r2 k = Some b" "noticed (arStage b)" "rnCancelled r2 k"
    using seen by (auto simp: cancelSeen_def)
  moreover have "(arMarking b = 0 \<longrightarrow> arContext b \<noteq> Live) \<and>
      (arMarking b = 0 \<longrightarrow> arSignalling b = 0 \<longrightarrow> arStage b \<notin> {Registered, Started} \<longrightarrow> arSignalled b)"
    using marks_reachable [OF reach] b unfolding marksHeld_def by fastforce
  moreover have "\<forall>t m. arStage b = MarkRead t m \<longrightarrow> m" "\<forall>e. arStage b = Concluded e \<longrightarrow> e = RunTimedOut \<or> e = RunCancelled"
    using b(2) by auto
  ultimately show ?thesis by (intro conjI [rotated] exI [of _ b]) simp_all
qed

section \<open>Examples\<close>


text \<open>The run is marked before its process is started, is started all the same and concludes before the canceller is through.\<close>

definition exRegistered :: runner where
  "exRegistered = setRun ''discussion'' newRun NewRunner"

definition exAt :: "run_stage \<Rightarrow> bool \<Rightarrow> runner" where
  "exAt stage signalled = \<lparr>rnRunning = [''discussion'' \<mapsto> \<lparr>arStage = stage, arSignalled = signalled, arContext = Live, arMarking = 1, arSignalling = 0\<rparr>],
     rnCancelled = (\<lambda>_. False)(''discussion'' := True)\<rparr>"

lemma exMarked: "markRun ''discussion'' exRegistered = exAt Registered False"
  by (simp add: markRun_def exRegistered_def exAt_def NewRunner_def runner_defs)

lemma exWith: "runner_step (exAt stage b) (exAt stage' b') \<Longrightarrow> stepsWith ''discussion'' r (exAt stage b) \<Longrightarrow> stepsWith ''discussion'' r (exAt stage' b')"
  unfolding stepsWith_def by (erule rtranclp.rtrancl_into_rtrancl) (simp add: exAt_def)

lemma exMoves:
  "runner_step (exAt Registered False) (exAt Started False)" "runner_step (exAt Started False) (exAt Waiting True)"
  "runner_step (exAt Waiting True) (exAt Ended True)" "runner_step (exAt Ended True) (exAt (TimedOutRead False) True)"
  "runner_step (exAt (TimedOutRead False) True) (exAt (MarkRead False True) True)"
  "runner_step (exAt (MarkRead False True) True) (exAt (Concluded RunCancelled) True)"
proof -
  have at: "rnRunning (exAt stage b) ''discussion'' =
      Some \<lparr>arStage = stage, arSignalled = b, arContext = Live, arMarking = 1, arSignalling = 0\<rparr>" for stage b
    by (simp add: exAt_def)
  show "runner_step (exAt Registered False) (exAt Started False)"
    using step_start [OF at] by (simp add: exAt_def runner_defs)
  show "runner_step (exAt Started False) (exAt Waiting True)"
    using step_check [OF at] by (simp add: exAt_def runner_defs)
  show "runner_step (exAt Waiting True) (exAt Ended True)"
    using step_process [OF at] by (simp add: exAt_def runner_defs)
  show "runner_step (exAt Ended True) (exAt (TimedOutRead False) True)"
    using step_timed [OF at] by (simp add: exAt_def runner_defs)
  show "runner_step (exAt (TimedOutRead False) True) (exAt (MarkRead False True) True)"
    using step_read [OF at] by (simp add: exAt_def runner_defs)
  show "runner_step (exAt (MarkRead False True) True) (exAt (Concluded RunCancelled) True)"
    using step_conclude [OF at, where t = False and m = True and logFailed = False and waitFailed = False and code = 0] by (simp add: exAt_def runner_defs runOutcome_def)
qed

lemma exTrace: "stepsWith ''discussion'' (exAt Registered False) (exAt (Concluded RunCancelled) True)"
proof -
  have "stepsWith ''discussion'' (exAt Registered False) (exAt Registered False)" by (simp add: stepsWith_def)
  note this [THEN exMoves(1) [THEN exWith], THEN exMoves(2) [THEN exWith], THEN exMoves(3) [THEN exWith],
    THEN exMoves(4) [THEN exWith], THEN exMoves(5) [THEN exWith], THEN exMoves(6) [THEN exWith]]
  then show ?thesis .
qed

lemma cancellation_not_lost_witness:
  "\<exists>b. rnRunning (exAt (Concluded RunCancelled) True) ''discussion'' = Some b \<and> arStage b = Concluded RunCancelled"
proof -
  have "registerRun ''discussion'' NewRunner = Some exRegistered" by (simp add: registerRun_def exRegistered_def NewRunner_def)
  then have r: "runner_step\<^sup>*\<^sup>* NewRunner exRegistered" by blast
  have a: "rnRunning exRegistered ''discussion'' = Some newRun" "beforeMarkRead (arStage newRun)"
    by (simp_all add: exRegistered_def runner_defs)
  obtain b where "rnRunning (exAt (Concluded RunCancelled) True) ''discussion'' = Some b"
    using cancellation_not_lost [OF r a disjI1 [OF exMarked [symmetric]] exTrace] by blast
  then show ?thesis by (auto simp: exAt_def)
qed

definition exAgent :: agent_env where
  "exAgent = \<lparr>agFirst = (\<lambda>_. Some (JObj [(''type'', JStr ''item.completed''), (''item'', JObj [(''type'', JStr ''command_execution''),
       (''command'', JStr ''go test''), (''exit_code'', JInt 1), (''output'', JStr ''boom'')])])), agWhole = (\<lambda>_. None),
     agPrint = (\<lambda>_. []), agFits = (\<lambda>_. True), agDuration = (\<lambda>_ _. None), agTime = (\<lambda>_. None), agWalk = (\<lambda>us. us)\<rparr>"

text \<open>A line that arrives in two pieces, and a second one that is not ended.\<close>

lemma evidence_example:
  "map veStatus (ceValidations (opSeen (parseCLIOutputLog exAgent [''{'', ''}'' @ [newlineChar] @ ''{}''] [] (newCLIOutputParser ''codex'')))) =
     [''failed'', ''failed'']"
  by code_simp

end
