(* ===== verification/Spec2Isabelle.thy ===== *)
theory Spec2Isabelle
  imports PlanResults Run Restored EvidenceResults DriftResults AgentResults
begin

text \<open>
  SpecRelay takes a requirement (an intake), lets a coding agent turn it into a plan, and runs the
  tasks of the plan one by one in the project's workspace, with every state change in PostgreSQL. This
  library models the core of its Go backend (\<^verbatim>\<open>backend/internal\<close>) and proves the contracts
  it relies on.

  \<^bold>\<open>The program and its parts.\<close>
  \<^item> \<^verbatim>\<open>planspec\<close>: a plan as the agent delivers it: parsing, normalising, validating, ordering and
    numbering its tasks, and its Markdown form.
  \<^item> \<^verbatim>\<open>domain\<close>: the lifecycle of plans, tasks, jobs and agent runs as four status contracts.
  \<^item> \<^verbatim>\<open>repository\<close>: the operations on the database. One gate, \<^verbatim>\<open>transitionLifecycleTx\<close>, makes
    every status change; the queue, the scheduler and the recovery call it.
  \<^item> \<^verbatim>\<open>security\<close>: which paths are accepted beneath a workspace.
  \<^item> The execution checkpoints of \<^verbatim>\<open>repository\<close>: before and after a task the files of the
    workspace are captured as a Git tree, and the difference is stored as the change set of the task.
  \<^item> \<^verbatim>\<open>app/git_checkpoint.go\<close>: the engine that writes a checkpoint of the working tree and the
    index as Git objects and restores it, changing the disk step by step.
  \<^item> \<^verbatim>\<open>app/workspace.go\<close>: collecting the state of a workspace, and comparing the context a plan
    was made in with the present one, which decides whether an agent may be started.
  \<^item> \<^verbatim>\<open>agent\<close>: the command lines of the agents, the registry of running ones, and what is read from
    their output.
  \<^item> The HTTP and MCP servers and \<^verbatim>\<open>app/service.go\<close> drive these.

  \<^bold>\<open>Theories.\<close>
  \<^item> \<open>Prelude\<close>: strings, errors as sums, the shared hints (\<open>go_defs\<close>). \<open>GoText\<close>, \<open>GoPath\<close>,
    \<open>Json\<close>: what the code uses of the Go library: UTF-8 decoding, \<^verbatim>\<open>TrimSpace\<close>, quoting,
    \<^verbatim>\<open>filepath.Clean\<close>, decoding of JSON values into structs.
  \<^item> \<open>PlanSpec\<close>, \<open>PlanGraph\<close>, \<open>PlanValidate\<close>, \<open>PlanKeys\<close>, \<open>PlanResults\<close>:
    \<^verbatim>\<open>planspec/planspec.go\<close>. The cycle search is a depth-first search over an explicit colour map, with
    fuel one more than the number of tasks; every call takes a white key, so the fuel is enough
    (\<open>dependencyCycle_correct\<close>).
  \<^item> \<open>Lifecycle\<close>, \<open>Store\<close>, \<open>LifecycleResults\<close>: \<^verbatim>\<open>domain/models.go\<close> and the gate of
    \<^verbatim>\<open>repository/store.go\<close>. The locale \<open>lifecycle_store\<close> is the interface between the gate and a
    table; it is interpreted for the four tables (\<open>jobs\<close>, \<open>tasks\<close>, \<open>plans\<close>, \<open>runs\<close>).
  \<^item> \<open>Queue\<close>, \<open>QueueResults\<close>: the job queue and leases of \<^verbatim>\<open>repository/queue.go\<close>, and the
    queue as a transition system (\<open>queue_step\<close>) with its invariant.
  \<^item> \<open>Scheduler\<close>, \<open>SchedulerResults\<close>: the scheduling gate of \<^verbatim>\<open>repository/queue.go\<close>.

  \<^item> \<open>GoStrings\<close>, \<open>Paths\<close>, \<open>PathsResults\<close>: \<^verbatim>\<open>security/paths.go\<close> over a record for the
    answers of the operating system (\<open>filesystem\<close>).
  \<^item> \<open>CheckpointText\<close>, \<open>CheckpointDiff\<close>, \<open>CheckpointCapture\<close>, \<open>CheckpointResults\<close>,
    \<open>CaptureResults\<close>: the Git checkpoints of \<^verbatim>\<open>repository/store.go\<close>: the parsers and bounds, the
    change set, and the capture, a sequence of Git commands in a state with early return; Git answers from
    the history of commands, so what it says may depend on what was done.
  \<^item> \<open>Snapshot\<close>, \<open>SnapshotResults\<close>: the execution snapshots and drift of
    \<^verbatim>\<open>repository/store.go\<close>: capture, comparison with the present, audited acceptance; the rows as
    a transition system (\<open>snapshot_step\<close>) with its invariant.
  \<^item> \<open>Execution\<close>: queueing, starting and finishing tasks, from \<^verbatim>\<open>repository/queue.go\<close>, with the
    scheduling gate, the lifecycle gate and the snapshots called as the code calls them.
    \<open>ExecutionResults\<close>: what they keep, through the locale \<open>execution_invariant\<close>, one active task
    per plan, and when a plan is completed.
  \<^item> \<open>Cancellation\<close>, \<open>CancellationResults\<close>: \<^verbatim>\<open>repository/cancellation.go\<close>. The locale
    \<open>quiet_invariant\<close> names the requests that only stop work; \<open>settles\<close> says what a stopped plan
    leaves of the rows of a table.
  \<^item> \<open>Shutdown\<close>, \<open>GoTime\<close>, \<open>Recovery\<close>, \<open>RecoveryResults\<close>: \<^verbatim>\<open>repository/runtime.go\<close>,
    \<^verbatim>\<open>repository/shutdown.go\<close> and the recovery pass of \<^verbatim>\<open>repository/queue.go\<close>; what the host
    says of processes and log files is a record (\<open>recovery_host\<close>). Durations there are nanoseconds.
  \<^item> \<open>Run\<close>: the operations on the database as one step relation (\<open>system_step\<close>) and what holds of
    every sequence of steps, with three states in which the code stops short.
  \<^item> \<open>GitText\<close>, \<open>HostIO\<close>, \<open>GitEngine\<close>, \<open>GitRestore\<close>: \<^verbatim>\<open>app/git_checkpoint.go\<close>. The
    parsers of what Git prints; a disk of directories, files and links with the calls of package
    \<^verbatim>\<open>os\<close>, as steps that have their effect even when they fail; the engine; and the restore.
    A path is resolved through at most 40 links as the kernel does, 255 for \<^verbatim>\<open>EvalSymlinks\<close>.
  \<^item> \<open>DiskResults\<close>, \<open>Steps\<close>, \<open>DiskEffects\<close>, \<open>RestoreSteps\<close>, \<open>RestoreResults\<close>,
    \<open>RestoreOutcome\<close>, \<open>Restored\<close>: what they do to the disk. \<open>triple\<close> says what a step makes of
    the disk when it succeeds and when it fails, \<open>quiet\<close> that it leaves it alone; a restore is exact, keeps
    what nobody controls, and changes nothing when a check refuses it.
  \<^item> \<open>Evidence\<close>, \<open>EvidenceResults\<close>: \<^verbatim>\<open>repository/execution_evidence.go\<close> with the checks and
    triggers of migration 012, as a transition system over the tables of attempts and rollbacks.
  \<^item> \<open>WorkspaceDrift\<close>, \<open>DriftCompare\<close>, \<open>DriftResults\<close>: \<^verbatim>\<open>app/workspace.go\<close>: the collector,
    the comparison and its report; when an agent is allowed, what the fingerprint stands for, and that
    collecting is quiet and its result passes its check exactly when no error is reported.
  \<^item> \<open>AgentOutput\<close>, \<open>AgentCommands\<close>, \<open>AgentResults\<close>: \<^verbatim>\<open>agent/agent.go\<close>: the parser of the
    log, fed in pieces, against the lines of the whole output; command lines of read-only runs; the
    registry as a step relation (\<open>runner_step\<close>) over every interleaving of runs, of the three steps of
    a canceller, and of the three reads by which a run concludes.
  \<^item> \<open>ObjectMap\<close>: the members of a marshalled map as a finite map (locale \<open>member_map\<close>).

  \<^bold>\<open>Conventions.\<close> A Go string is a list of bytes (\<open>gostring\<close>); a slice whose nil value the
  code tells apart is an option; a pointer that may be nil is an option; \<^verbatim>\<open>int\<close> and \<^verbatim>\<open>int64\<close>
  counters are unbounded integers (versions, attempts and positions stay far below the width).
  Times are microseconds, the resolution of the database. A JSON column is empty, invalid or a
  value. A table is a list of rows with the columns the code reads or writes. An operation that
  commits one transaction is a function of the database, with the transaction's clock as an argument
  and \<open>error + result\<close> as its outcome; on an error the database is unchanged.

  \<^bold>\<open>Assumptions.\<close> Transactions run one after another: the row locks (\<^verbatim>\<open>FOR UPDATE\<close>) that the
  code takes are what makes this a fair picture, and interleavings inside a transaction are not
  modelled. The rows skipped by \<^verbatim>\<open>SKIP LOCKED\<close> are an argument of \<open>ClaimJob\<close>. The Unicode tables
  are a parameter \<open>u\<close> with the properties \<open>unicode_ok\<close>, which the ASCII table
  \<open>ascii_unicode\<close> shows to be satisfiable. The audit trigger of migration 011 is part of the gate.
  Nobody else changes the disk while the engine or the collector works; the directory for temporary files
  is not on it; a timeout of Git is a failure of Git; Git lists clean flat trees and no path through a
  link, and a blob of a name does not change. Rows of the evidence tables are only deleted by the
  cascades of a deleted plan, which are not steps of that history. A signal to an agent counts as sent,
  whatever the process makes of it, and a canceller sees a process as soon as it is started.
  Numbers in a JSON checkpoint are kept as they are, where the code reads them as 64-bit floats and would
  round integers above \<open>2 ^ 53\<close>.

  \<^bold>\<open>Not modelled.\<close> The JSON lexer and printer of \<^verbatim>\<open>encoding/json\<close>, SHA-256 and what Git
  answers are parameters. Left out are: in \<^verbatim>\<open>app/git_checkpoint.go\<close> the comparison of two
  checkpoints for display (\<^verbatim>\<open>Compare\<close>, \<^verbatim>\<open>UnifiedDiff\<close>) behind its parsers; in
  \<^verbatim>\<open>agent/agent.go\<close> the waiting for the process itself, its heartbeat and the session found by a
  regular expression; in \<^verbatim>\<open>repository\<close> the plain reads and writes of projects, intakes, settings,
  sessions and tokens in \<^verbatim>\<open>store.go\<close>, \<^verbatim>\<open>runs.go\<close> and \<^verbatim>\<open>sessions.go\<close>; the migrations
  runner; \<^verbatim>\<open>app/service.go\<close>, which sequences these operations around agent runs, discussions and
  sessions; the worker pool; HTTP and MCP routing; the front end and the desktop shell. Of the triggers those of
  migration 014 (projections) are not modelled. The one of migration 010 that inserts an audit row when a plan is
  cancelled (\<open>auditPlanExecutionAbandoned\<close>) is a step of its own behind the cancellation in \<open>snapshot_step\<close>
  and \<open>system_step\<close>, and not part of \<open>transitionPlan\<close>, which draws no identifiers.
\<close>

end
